(* ===== verification/Prelude.thy ===== *)
theory Prelude
  imports Main "HOL-Library.Char_ord" "HOL-Library.List_Lexorder" "HOL-Library.Product_Lexorder"
begin

text \<open>
  What every component shares: the errors the code throws, fallible computations as sums
  (\<open>Inl\<close> a thrown error, \<open>Inr\<close> a value), the JavaScript string operations the sources
  call (a string is the list of its code units, here those below 256), a stable sort by a
  comparator, and the row-update lemmas on lists that the database model rests on.
\<close>

named_theorems thrown_simps
named_theorems row_simps

subsection \<open>Errors and fallible computations\<close>

text \<open>
  The error classes of the delivery code. A message is kept where the code writes a fixed text
  or a text with an identifier in it; \<open>DatabaseError\<close> is a rejection by PostgreSQL itself
  (a CHECK constraint, a unique index or a trigger), whose message the code never reads.
\<close>

datatype error =
    PlainError string
  | RunnerStateError string
  | BatchStateError string
  | BatchConflictError string
  | TaskLeaseError string
  | DatabaseError

definition bindE :: "'e + 'a \<Rightarrow> ('a \<Rightarrow> 'e + 'b) \<Rightarrow> 'e + 'b" where
  "bindE m f = (case m of Inl e \<Rightarrow> Inl e | Inr x \<Rightarrow> f x)"

definition requireSome :: "'e \<Rightarrow> 'a option \<Rightarrow> 'e + 'a" where
  "requireSome e m = (case m of None \<Rightarrow> Inl e | Some x \<Rightarrow> Inr x)"

fun mapE :: "('a \<Rightarrow> 'e + 'b) \<Rightarrow> 'a list \<Rightarrow> 'e + 'b list" where
  "mapE f [] = Inr []"
| "mapE f (x # xs) = bindE (f x) (\<lambda>y. bindE (mapE f xs) (\<lambda>ys. Inr (y # ys)))"

lemma bindE_simps [simp]:
  "bindE (Inl e) f = Inl e" "bindE (Inr x) f = f x"
  by (simp_all add: bindE_def)

lemma bindE_Inr_iff [thrown_simps]: "bindE m f = Inr y \<longleftrightarrow> (\<exists>x. m = Inr x \<and> f x = Inr y)"
  by (cases m) (auto simp: bindE_def)

lemma requireSome_Inr_iff [thrown_simps]: "requireSome e m = Inr x \<longleftrightarrow> m = Some x"
  by (cases m) (auto simp: requireSome_def)

lemma requireSome_simps [simp]:
  "requireSome e None = Inl e" "requireSome e (Some x) = Inr x"
  by (simp_all add: requireSome_def)

lemma if_Inl_iff [thrown_simps]: "((if c then Inl e else m) = Inr y) \<longleftrightarrow> \<not> c \<and> m = Inr y"
  by simp

lemma case_list_Inr_iff [thrown_simps]:
  "(case xs of [] \<Rightarrow> Inl e | x # ys \<Rightarrow> g x ys) = Inr r \<longleftrightarrow> (\<exists>x ys. xs = x # ys \<and> g x ys = Inr r)"
  by (cases xs) auto

lemma case_option_Inr_iff [thrown_simps]:
  "(case m of None \<Rightarrow> Inl e | Some x \<Rightarrow> g x) = Inr r \<longleftrightarrow> (\<exists>x. m = Some x \<and> g x = Inr r)"
  "(case m of None \<Rightarrow> g' | Some x \<Rightarrow> Inl (h x)) = Inr r \<longleftrightarrow> m = None \<and> g' = Inr r"
  by (cases m; auto)+

lemma mapE_Inr_iff:
  "mapE f xs = Inr ys \<longleftrightarrow> list_all2 (\<lambda>x y. f x = Inr y) xs ys"
  by (induction xs arbitrary: ys)
    (auto simp: bindE_Inr_iff list_all2_Cons1)

lemma mapE_length: "mapE f xs = Inr ys \<Longrightarrow> length ys = length xs"
  by (auto simp: mapE_Inr_iff dest: list_all2_lengthD)

subsection \<open>JavaScript strings\<close>

text \<open>
  \<open>trim\<close> removes white space and line terminators at both ends; the regular expression class
  \<open>\s\<close> is the same set.
\<close>

definition js_space :: "char \<Rightarrow> bool" where
  "js_space c \<longleftrightarrow> (of_char c :: nat) \<in> {9, 10, 11, 12, 13, 32, 160}"

definition js_trim :: "string \<Rightarrow> string" where
  "js_trim s = rev (dropWhile js_space (rev (dropWhile js_space s)))"

definition js_lower_char :: "char \<Rightarrow> char" where
  "js_lower_char c =
     (let n = (of_char c :: nat)
      in if (65 \<le> n \<and> n \<le> 90) \<or> (192 \<le> n \<and> n \<le> 222 \<and> n \<noteq> 215) then char_of (n + 32) else c)"

definition js_lower :: "string \<Rightarrow> string" where
  "js_lower s = map js_lower_char s"

definition js_slice :: "nat \<Rightarrow> string \<Rightarrow> string" where
  "js_slice n s = take n s"

fun js_starts :: "string \<Rightarrow> string \<Rightarrow> bool" where
  "js_starts [] s = True"
| "js_starts (p # ps) [] = False"
| "js_starts (p # ps) (c # s) = (p = c \<and> js_starts ps s)"

fun js_includes :: "string \<Rightarrow> string \<Rightarrow> bool" where
  "js_includes p [] = (p = [])"
| "js_includes p (c # s) = (js_starts p (c # s) \<or> js_includes p s)"

definition js_ends :: "string \<Rightarrow> string \<Rightarrow> bool" where
  "js_ends suf s = js_starts (rev suf) (rev s)"

definition hex_char :: "char \<Rightarrow> bool" where
  "hex_char c \<longleftrightarrow> c \<in> set ''0123456789abcdef''"

text \<open>The regular expression \<open>^[0-9a-f]{64}$\<close> of the database checks.\<close>

definition hex64 :: "string \<Rightarrow> bool" where
  "hex64 s \<longleftrightarrow> length s = 64 \<and> list_all hex_char s"

lemma dropWhile_dropWhile [simp]: "dropWhile P (dropWhile P xs) = dropWhile P xs"
  by (induction xs) auto

lemma hd_rev_dropWhile: "xs = dropWhile P ys \<Longrightarrow> xs \<noteq> [] \<Longrightarrow> \<not> P (hd xs)"
  using hd_dropWhile by blast

lemma dropWhile_rev_dropWhile:
  "dropWhile P (rev (dropWhile P (rev (dropWhile P s)))) = rev (dropWhile P (rev (dropWhile P s)))"
proof (cases "rev (dropWhile P (rev (dropWhile P s)))")
  case Nil
  then show ?thesis by (simp only: dropWhile.simps)
next
  case (Cons c cs)
  let ?d = "dropWhile P s"
  obtain ws where ws: "rev ?d = ws @ dropWhile P (rev ?d)"
    by (metis takeWhile_dropWhile_id)
  have "?d = rev (dropWhile P (rev ?d)) @ rev ws"
    by (metis ws rev_append rev_rev_ident)
  with Cons have d: "?d = c # (cs @ rev ws)" by simp
  then have "\<not> P c" by (metis hd_dropWhile list.distinct(1) list.sel(1))
  with Cons show ?thesis by simp
qed

lemma js_trim_idem [simp]: "js_trim (js_trim s) = js_trim s"
  by (simp add: js_trim_def dropWhile_rev_dropWhile)

lemma js_trim_Nil [simp]: "js_trim [] = []"
  by (simp add: js_trim_def)

lemma js_trim_solid: "list_all (\<lambda>c. \<not> js_space c) s \<Longrightarrow> js_trim s = s"
proof -
  assume "list_all (\<lambda>c. \<not> js_space c) s"
  then have "dropWhile js_space s = s" "dropWhile js_space (rev s) = rev s"
    by (auto simp: dropWhile_eq_self_iff list_all_iff hd_rev)
  then show ?thesis by (simp add: js_trim_def)
qed

subsection \<open>Array.prototype.sort with a comparator\<close>

text \<open>
  \<open>sort\<close> is stable, and its result is determined whenever the comparator is a consistent
  ordering; insertion from the right is such a stable sort. \<open>comparatorOK\<close> is the consistency
  the language asks of a comparator.
\<close>

fun insert_cmp :: "('a \<Rightarrow> 'a \<Rightarrow> int) \<Rightarrow> 'a \<Rightarrow> 'a list \<Rightarrow> 'a list" where
  "insert_cmp cmp x [] = [x]"
| "insert_cmp cmp x (y # ys) = (if cmp x y \<le> 0 then x # y # ys else y # insert_cmp cmp x ys)"

definition sort_cmp :: "('a \<Rightarrow> 'a \<Rightarrow> int) \<Rightarrow> 'a list \<Rightarrow> 'a list" where
  "sort_cmp cmp xs = foldr (insert_cmp cmp) xs []"

definition comparatorOK :: "('a \<Rightarrow> 'a \<Rightarrow> int) \<Rightarrow> bool" where
  "comparatorOK cmp \<longleftrightarrow>
     (\<forall>x y. (cmp x y > 0) = (cmp y x < 0)) \<and>
     (\<forall>x y z. cmp x y \<le> 0 \<longrightarrow> cmp y z \<le> 0 \<longrightarrow> cmp x z \<le> 0)"

definition cmp_sorted :: "('a \<Rightarrow> 'a \<Rightarrow> int) \<Rightarrow> 'a list \<Rightarrow> bool" where
  "cmp_sorted cmp = sorted_wrt (\<lambda>x y. cmp x y \<le> 0)"

lemma set_insert_cmp [simp]: "set (insert_cmp cmp x ys) = insert x (set ys)"
  by (induction ys) auto

lemma length_insert_cmp [simp]: "length (insert_cmp cmp x ys) = Suc (length ys)"
  by (induction ys) auto

lemma set_sort_cmp [simp]: "set (sort_cmp cmp xs) = set xs"
  by (induction xs) (auto simp: sort_cmp_def)

lemma length_sort_cmp [simp]: "length (sort_cmp cmp xs) = length xs"
  by (induction xs) (auto simp: sort_cmp_def)

lemma insert_cmp_sorted:
  assumes "comparatorOK cmp"
  shows "cmp_sorted cmp ys \<Longrightarrow> cmp_sorted cmp (insert_cmp cmp x ys)"
proof (induction ys)
  case Nil
  then show ?case by (simp add: cmp_sorted_def)
next
  case (Cons y ys)
  have flip: "\<not> cmp x y \<le> 0 \<Longrightarrow> cmp y x \<le> 0"
    using assms by (metis comparatorOK_def less_le not_le)
  have trans: "\<And>z. cmp x y \<le> 0 \<Longrightarrow> cmp y z \<le> 0 \<Longrightarrow> cmp x z \<le> 0"
    using assms by (auto simp: comparatorOK_def)
  from Cons show ?case by (auto simp: cmp_sorted_def dest: flip intro: trans)
qed

lemma sort_cmp_sorted: "comparatorOK cmp \<Longrightarrow> cmp_sorted cmp (sort_cmp cmp xs)"
  by (induction xs) (auto simp: sort_cmp_def insert_cmp_sorted, simp add: cmp_sorted_def)

subsection \<open>Rows: update where a condition holds\<close>

definition set_where :: "('r \<Rightarrow> bool) \<Rightarrow> ('r \<Rightarrow> 'r) \<Rightarrow> 'r list \<Rightarrow> 'r list" where
  "set_where p f rows = map (\<lambda>r. if p r then f r else r) rows"

lemma length_set_where [simp]: "length (set_where p f rows) = length rows"
  by (simp add: set_where_def)

lemma in_set_where:
  "r' \<in> set (set_where p f rows) \<longleftrightarrow> (\<exists>r \<in> set rows. r' = (if p r then f r else r))"
  by (auto simp: set_where_def)

lemma map_set_where: "(\<And>r. g (f r) = g r) \<Longrightarrow> map g (set_where p f rows) = map g rows"
  by (simp add: set_where_def)

lemma set_where_none: "(\<And>r. r \<in> set rows \<Longrightarrow> \<not> p r) \<Longrightarrow> set_where p f rows = rows"
  by (simp add: set_where_def map_idI)

lemma find_set_where:
  assumes "\<And>r. k (f r) = k r"
  shows "find (\<lambda>r. k r = x) (set_where p f rows) =
    map_option (\<lambda>r. if p r then f r else r) (find (\<lambda>r. k r = x) rows)"
  using assms by (induction rows) (auto simp: set_where_def)

lemma find_SomeD: "find P xs = Some x \<Longrightarrow> x \<in> set xs \<and> P x"
  by (induction xs) (auto split: if_splits)

lemma find_append: "find P (xs @ ys) = (case find P xs of None \<Rightarrow> find P ys | Some x \<Rightarrow> Some x)"
  by (induction xs) auto

lemma find_distinct_key:
  assumes "distinct (map k rows)" and "r \<in> set rows"
  shows "find (\<lambda>s. k s = k r) rows = Some r"
  using assms by (induction rows) (auto simp: image_iff)

subsection \<open>What a table with checked updates gives its clients\<close>

locale guarded_table =
  fixes rows :: "'db \<Rightarrow> 'r list"
    and key :: "'r \<Rightarrow> 'k"
    and allowed :: "'db \<Rightarrow> 'r \<Rightarrow> 'r \<Rightarrow> bool"
    and update :: "'db \<Rightarrow> ('r \<Rightarrow> bool) \<Rightarrow> ('r \<Rightarrow> 'r) \<Rightarrow> 'e + 'db \<times> 'r list"
  assumes update_rows: "update db p f = Inr (db', out) \<Longrightarrow> rows db' = set_where p f (rows db)"
    and update_returning: "update db p f = Inr (db', out) \<Longrightarrow> out = map f (filter p (rows db))"
    and update_checked: "update db p f = Inr (db', out) \<Longrightarrow> r \<in> set (rows db) \<Longrightarrow> p r \<Longrightarrow> allowed db r (f r)"
begin

lemma origin:
  assumes "update db p f = Inr (db', out)" and "r' \<in> set (rows db')"
  obtains r where "r \<in> set (rows db)" "\<not> p r \<and> r' = r \<or> p r \<and> r' = f r \<and> allowed db r r'"
proof -
  obtain r where r: "r \<in> set (rows db)" "r' = (if p r then f r else r)"
    using assms(2) update_rows [OF assms(1)] by (auto simp: in_set_where)
  show thesis
    by (rule that [OF r(1)]) (use r update_checked [OF assms(1) r(1)] in \<open>cases "p r"; simp\<close>)
qed

lemma image:
  assumes "update db p f = Inr (db', out)" and "r \<in> set (rows db)"
  shows "(if p r then f r else r) \<in> set (rows db')"
  using assms update_rows [OF assms(1)] by (auto simp: in_set_where)

lemma keys:
  assumes "update db p f = Inr (db', out)" and "\<And>r. r \<in> set (rows db) \<Longrightarrow> p r \<Longrightarrow> key (f r) = key r"
  shows "map key (rows db') = map key (rows db)"
  using assms by (auto simp: update_rows set_where_def)

lemma all_rows:
  assumes "update db p f = Inr (db', out)" and "\<forall>r \<in> set (rows db). P r"
    and "\<And>r. r \<in> set (rows db) \<Longrightarrow> p r \<Longrightarrow> allowed db r (f r) \<Longrightarrow> P r \<Longrightarrow> P (f r)"
  shows "\<forall>r \<in> set (rows db'). P r"
proof
  fix r' assume "r' \<in> set (rows db')"
  then obtain r where "r \<in> set (rows db)" "\<not> p r \<and> r' = r \<or> p r \<and> r' = f r \<and> allowed db r r'"
    by (rule origin [OF assms(1)])
  with assms(2, 3) show "P r'" by fastforce
qed

lemma related:
  assumes "update db p f = Inr (db', out)" and "\<And>r. R r r"
    and "\<And>r. r \<in> set (rows db) \<Longrightarrow> p r \<Longrightarrow> allowed db r (f r) \<Longrightarrow> R r (f r)"
  shows "list_all2 R (rows db) (rows db')"
proof -
  have "(if p r then f r else r) = r' \<Longrightarrow> r \<in> set (rows db) \<Longrightarrow> R r r'" for r r'
    using assms update_checked [OF assms(1)] by (cases "p r") auto
  then show ?thesis
    by (simp add: update_rows [OF assms(1)] set_where_def list_all2_map2 list.rel_refl_strong)
qed

lemma returned_one:
  assumes "update db (\<lambda>r. key r = k \<and> q r) f = Inr (db', out)" and "distinct (map key (rows db))"
  shows "out = (case find (\<lambda>r. key r = k) (rows db) of
      None \<Rightarrow> [] | Some r \<Rightarrow> if q r then [f r] else [])"
proof -
  have "filter (\<lambda>r. key r = k \<and> q r) xs = (case find (\<lambda>r. key r = k) xs of
      None \<Rightarrow> [] | Some r \<Rightarrow> if q r then [r] else [])" if "distinct (map key xs)" for xs
    using that
  proof (induction xs)
    case (Cons x xs)
    have "filter (\<lambda>r. key r = k \<and> q r) xs = []" if "key x = k"
      using Cons.prems that by (auto simp: filter_empty_conv) (metis image_eqI)
    with Cons show ?case by auto
  qed simp
  then show ?thesis
    using update_returning [OF assms(1)] assms(2) by (auto split: option.splits)
qed

end

end
