(* ===== verification/Surfaces.thy ===== *)
theory Surfaces
  imports Prelude
begin

text \<open>
  The browser extension surfaces (\<open>packages/lib/src/browser-extension-surfaces.ts\<close>) and the
  extension contract over them (\<open>packages/lib/src/browser-extension-contract.ts\<close>): which surface
  keys and capture routes exist, which adapter version is approved, and which evidence a
  completion may carry.
\<close>

subsection \<open>The surface registry\<close>

record surface_definition =
  sd_key :: string
  sd_label :: string
  sd_captureRoute :: string
  sd_launchUrl :: string
  sd_adapterVersion :: string

definition BROWSER_EXTENSION_SURFACE_DEFINITIONS :: "surface_definition list" where
  "BROWSER_EXTENSION_SURFACE_DEFINITIONS =
    [\<lparr>sd_key = ''doubao.consumer_web'', sd_label = ''Doubao'',
      sd_captureRoute = ''browser_extension.doubao'',
      sd_launchUrl = ''https://www.doubao.com/chat/'',
      sd_adapterVersion = ''doubao-web-20260821-localpc-v13''\<rparr>,
     \<lparr>sd_key = ''deepseek.consumer_web'', sd_label = ''DeepSeek'',
      sd_captureRoute = ''browser_extension.deepseek'',
      sd_launchUrl = ''https://chat.deepseek.com/'',
      sd_adapterVersion = ''deepseek-web-20260822-localpc-v9''\<rparr>,
     \<lparr>sd_key = ''qwen.consumer_web'', sd_label = ''Qwen'',
      sd_captureRoute = ''browser_extension.qwen'',
      sd_launchUrl = ''https://www.qianwen.com/'',
      sd_adapterVersion = ''qwen-web-20260822-localpc-v11''\<rparr>,
     \<lparr>sd_key = ''kimi.consumer_web'', sd_label = ''Kimi'',
      sd_captureRoute = ''browser_extension.kimi'',
      sd_launchUrl = ''https://www.kimi.com/'',
      sd_adapterVersion = ''kimi-web-20260823-localpc-v16''\<rparr>,
     \<lparr>sd_key = ''wenxin.consumer_web'', sd_label = ''Wenxin'',
      sd_captureRoute = ''browser_extension.wenxin'',
      sd_launchUrl = ''https://wenxin.baidu.com/'',
      sd_adapterVersion = ''wenxin-web-20260822-localpc-v12''\<rparr>,
     \<lparr>sd_key = ''yuanbao.consumer_web'', sd_label = ''Yuanbao'',
      sd_captureRoute = ''browser_extension.yuanbao'',
      sd_launchUrl = ''https://yuanbao.tencent.com/'',
      sd_adapterVersion = ''yuanbao-web-20260825-localpc-v14''\<rparr>,
     \<lparr>sd_key = ''zhipu.consumer_web'', sd_label = ''Zhipu'',
      sd_captureRoute = ''browser_extension.zhipu'',
      sd_launchUrl = ''https://chatglm.cn/'',
      sd_adapterVersion = ''zhipu-web-20260825-localpc-v6''\<rparr>]"

definition BROWSER_EXTENSION_SURFACES :: "string list" where
  "BROWSER_EXTENSION_SURFACES =
    [sd_key (BROWSER_EXTENSION_SURFACE_DEFINITIONS ! 0), sd_key (BROWSER_EXTENSION_SURFACE_DEFINITIONS ! 1),
     sd_key (BROWSER_EXTENSION_SURFACE_DEFINITIONS ! 2), sd_key (BROWSER_EXTENSION_SURFACE_DEFINITIONS ! 3),
     sd_key (BROWSER_EXTENSION_SURFACE_DEFINITIONS ! 4), sd_key (BROWSER_EXTENSION_SURFACE_DEFINITIONS ! 5),
     sd_key (BROWSER_EXTENSION_SURFACE_DEFINITIONS ! 6)]"

definition browserExtensionSurfaceDefinition :: "string \<Rightarrow> error + surface_definition" where
  "browserExtensionSurfaceDefinition surface =
     requireSome (PlainError (''Browser extension surface '' @ surface @ '' is not supported''))
       (find (\<lambda>d. sd_key d = surface) BROWSER_EXTENSION_SURFACE_DEFINITIONS)"

definition browserExtensionCaptureRoute :: "string \<Rightarrow> error + string" where
  "browserExtensionCaptureRoute surface =
     bindE (browserExtensionSurfaceDefinition surface) (\<lambda>d. Inr (sd_captureRoute d))"

text \<open>A record over the surfaces is the association list in the order of the surfaces.\<close>

definition mapBrowserExtensionSurfaces :: "(string \<Rightarrow> 'v) \<Rightarrow> (string \<times> 'v) list" where
  "mapBrowserExtensionSurfaces mapValue = map (\<lambda>s. (s, mapValue s)) BROWSER_EXTENSION_SURFACES"

subsection \<open>The extension contract\<close>

definition surface_version :: "string \<Rightarrow> string" where
  "surface_version surface =
     (case find (\<lambda>d. sd_key d = surface) BROWSER_EXTENSION_SURFACE_DEFINITIONS of
        Some d \<Rightarrow> sd_adapterVersion d | None \<Rightarrow> [])"

definition APPROVED_ADAPTER_VERSIONS :: "(string \<times> string) list" where
  "APPROVED_ADAPTER_VERSIONS = mapBrowserExtensionSurfaces surface_version"

definition LEGACY_ADAPTER_VERSION_OMISSION_WINDOWS :: "(string \<times> string) list" where
  "LEGACY_ADAPTER_VERSION_OMISSION_WINDOWS =
     [(''doubao.consumer_web'', ''doubao-web-20260818-localpc-v7'')]"

definition STRUCTURED_BROWSER_EXTENSION_ADAPTER_VERSIONS :: "(string \<times> string) list" where
  "STRUCTURED_BROWSER_EXTENSION_ADAPTER_VERSIONS = mapBrowserExtensionSurfaces surface_version"

definition MAX_STRUCTURED_SCREENSHOT_BYTES :: int where
  "MAX_STRUCTURED_SCREENSHOT_BYTES = 2 * 1024 * 1024"
definition MAX_VISUAL_EVIDENCE_SEGMENT_BYTES :: int where
  "MAX_VISUAL_EVIDENCE_SEGMENT_BYTES = 1024 * 1024"
definition MAX_VISUAL_EVIDENCE_PRIMARY_BYTES :: int where
  "MAX_VISUAL_EVIDENCE_PRIMARY_BYTES = 4 * 1024 * 1024"
definition MAX_VISUAL_EVIDENCE_TOTAL_BYTES :: int where
  "MAX_VISUAL_EVIDENCE_TOTAL_BYTES = 6 * 1024 * 1024"
definition MAX_VISUAL_EVIDENCE_SEGMENTS :: int where
  "MAX_VISUAL_EVIDENCE_SEGMENTS = 18"

definition safe_integer :: "int \<Rightarrow> bool" where
  "safe_integer n \<longleftrightarrow> \<bar>n\<bar> \<le> 9007199254740991"

definition isBrowserExtensionSurface :: "string \<Rightarrow> bool" where
  "isBrowserExtensionSurface v = list_ex (\<lambda>surface. surface = v) BROWSER_EXTENSION_SURFACES"

definition parseBrowserExtensionSurface :: "string \<Rightarrow> error + string" where
  "parseBrowserExtensionSurface v =
     (if \<not> isBrowserExtensionSurface v
      then Inl (PlainError (''Browser extension surface '' @ v @ '' is not supported''))
      else Inr v)"

definition isBrowserExtensionAdapterVersionBindingSatisfied ::
  "string \<Rightarrow> string option \<Rightarrow> string option \<Rightarrow> bool" where
  "isBrowserExtensionAdapterVersionBindingSatisfied surface requested approved =
     (case approved of
        None \<Rightarrow> False
      | Some a \<Rightarrow>
          (case requested of
             Some r \<Rightarrow> r = a
           | None \<Rightarrow> map_of LEGACY_ADAPTER_VERSION_OMISSION_WINDOWS surface = Some a))"

definition isCurrentBrowserExtensionAdapterVersionBindingSatisfied ::
  "string \<Rightarrow> string option \<Rightarrow> bool" where
  "isCurrentBrowserExtensionAdapterVersionBindingSatisfied surface requested =
     isBrowserExtensionAdapterVersionBindingSatisfied surface requested
       (map_of APPROVED_ADAPTER_VERSIONS surface)"

definition isApprovedBrowserExtensionAdapterVersion :: "string \<Rightarrow> string \<Rightarrow> bool" where
  "isApprovedBrowserExtensionAdapterVersion surface v =
     isCurrentBrowserExtensionAdapterVersionBindingSatisfied surface (Some v)"

definition isBrowserExtensionCaptureRoute :: "string \<Rightarrow> bool" where
  "isBrowserExtensionCaptureRoute v =
     list_ex (\<lambda>d. sd_captureRoute d = v) BROWSER_EXTENSION_SURFACE_DEFINITIONS"

text \<open>The optional arrays of the input are options; \<open>None\<close> is an omitted argument.\<close>

definition assertExtensionEvidenceProtocol ::
  "string \<Rightarrow> string option \<Rightarrow> int \<Rightarrow> string list \<Rightarrow> string list option \<Rightarrow> int list option
   \<Rightarrow> error + unit" where
  "assertExtensionEvidenceProtocol captureRouteKey adapterVersion minimumArtifacts kinds mediaTypes byteSizes =
     (if \<not> js_starts ''browser_extension.'' captureRouteKey then Inr ()
      else if \<not> isBrowserExtensionCaptureRoute captureRouteKey
      then Inl (PlainError (''Browser extension capture route '' @ captureRouteKey @ '' is not supported''))
      else
        (case find (\<lambda>d. sd_captureRoute d = captureRouteKey) BROWSER_EXTENSION_SURFACE_DEFINITIONS of
           None \<Rightarrow> Inl (PlainError (''Browser extension capture route '' @ captureRouteKey @ '' is not supported''))
         | Some d \<Rightarrow>
             if map_of STRUCTURED_BROWSER_EXTENSION_ADAPTER_VERSIONS (sd_key d) = adapterVersion then
               (case (kinds, mediaTypes, byteSizes) of
                  ([kind], Some [mediaType], Some [bytes]) \<Rightarrow>
                    if minimumArtifacts \<noteq> 1 \<or> kind \<noteq> ''screenshot'' \<or> mediaType \<noteq> ''image/jpeg'' \<or>
                       bytes < 1 \<or> bytes > MAX_STRUCTURED_SCREENSHOT_BYTES
                    then Inl (PlainError ''Structured browser extension completion requires exactly one bounded JPEG screenshot'')
                    else Inr ()
                | _ \<Rightarrow> Inl (PlainError ''Structured browser extension completion requires exactly one bounded JPEG screenshot''))
             else if minimumArtifacts \<noteq> 1 \<or> kinds \<noteq> [''page_snapshot'']
             then Inl (PlainError ''Browser extension completion requires exactly one page snapshot'')
             else Inr ()))"

subsection \<open>Visual evidence\<close>

datatype visual_status = VisualComplete | VisualPartial | VisualUnavailable

record visual_evidence =
  ve_status :: visual_status
  ve_primaryArtifactId :: "string option"
  ve_segmentArtifactIds :: "string list"
  ve_expectedSegmentCount :: int
  ve_capturedSegmentCount :: int

definition invalidVisualEvidence :: error where
  "invalidVisualEvidence = PlainError ''Browser Runner visual evidence is invalid''"

text \<open>The artifact ids in order; a primary id counts when it is truthy, so not when it is empty.\<close>

definition truthy_id :: "string option \<Rightarrow> string list" where
  "truthy_id i = (case i of None \<Rightarrow> [] | Some s \<Rightarrow> if s = [] then [] else [s])"

definition assertBrowserRunnerVisualEvidenceProtocol ::
  "visual_evidence \<Rightarrow> string list \<Rightarrow> string list \<Rightarrow> int list \<Rightarrow> error + unit" where
  "assertBrowserRunnerVisualEvidenceProtocol ve artifactIds mediaTypes byteSizes =
     (let orderedIds = truthy_id (ve_primaryArtifactId ve) @ ve_segmentArtifactIds ve;
          primaryOffset = length (truthy_id (ve_primaryArtifactId ve))
      in
      if length artifactIds \<noteq> length orderedIds \<or> length mediaTypes \<noteq> length orderedIds \<or>
         length byteSizes \<noteq> length orderedIds \<or> orderedIds \<noteq> artifactIds \<or> \<not> distinct orderedIds \<or>
         int (length (ve_segmentArtifactIds ve)) > MAX_VISUAL_EVIDENCE_SEGMENTS \<or>
         list_ex (\<lambda>m. m \<noteq> ''image/jpeg'') mediaTypes \<or>
         list_ex (\<lambda>b. \<not> safe_integer b \<or> b < 1) byteSizes \<or>
         sum_list byteSizes > MAX_VISUAL_EVIDENCE_TOTAL_BYTES
      then Inl invalidVisualEvidence
      else if (primaryOffset = 1 \<and> (case byteSizes of [] \<Rightarrow> 0 | b # _ \<Rightarrow> b) > MAX_VISUAL_EVIDENCE_PRIMARY_BYTES) \<or>
         list_ex (\<lambda>b. b > MAX_VISUAL_EVIDENCE_SEGMENT_BYTES) (drop primaryOffset byteSizes)
      then Inl invalidVisualEvidence
      else if ve_status ve = VisualUnavailable then
        (if ve_primaryArtifactId ve \<noteq> None \<or> ve_segmentArtifactIds ve \<noteq> [] \<or>
            ve_expectedSegmentCount ve \<noteq> 0 \<or> ve_capturedSegmentCount ve \<noteq> 0
         then Inl invalidVisualEvidence else Inr ())
      else if \<not> safe_integer (ve_expectedSegmentCount ve) \<or> \<not> safe_integer (ve_capturedSegmentCount ve) \<or>
         ve_expectedSegmentCount ve < 1 \<or> ve_expectedSegmentCount ve > 10000 \<or>
         ve_capturedSegmentCount ve < 1 \<or> ve_capturedSegmentCount ve > MAX_VISUAL_EVIDENCE_SEGMENTS \<or>
         ve_capturedSegmentCount ve > ve_expectedSegmentCount ve \<or>
         (int (length (ve_segmentArtifactIds ve)) \<noteq> ve_capturedSegmentCount ve \<and>
          \<not> (ve_status ve = VisualComplete \<and> ve_primaryArtifactId ve \<noteq> None \<and>
             ve_capturedSegmentCount ve = 1 \<and> ve_segmentArtifactIds ve = []))
      then Inl invalidVisualEvidence
      else if ve_status ve = VisualComplete \<and>
         (ve_primaryArtifactId ve = None \<or> ve_capturedSegmentCount ve \<noteq> ve_expectedSegmentCount ve)
      then Inl invalidVisualEvidence
      else if ve_status ve = VisualPartial \<and>
         (ve_primaryArtifactId ve \<noteq> None \<or> ve_capturedSegmentCount ve \<ge> ve_expectedSegmentCount ve)
      then Inl invalidVisualEvidence
      else Inr ())"

subsection \<open>Facts about the registry\<close>

lemma surfaces_are_keys: "BROWSER_EXTENSION_SURFACES = map sd_key BROWSER_EXTENSION_SURFACE_DEFINITIONS"
  by (simp add: BROWSER_EXTENSION_SURFACES_def BROWSER_EXTENSION_SURFACE_DEFINITIONS_def numeral_eq_Suc)

lemma distinct_surface_keys: "distinct (map sd_key BROWSER_EXTENSION_SURFACE_DEFINITIONS)"
  by code_simp

lemma distinct_capture_routes: "distinct (map sd_captureRoute BROWSER_EXTENSION_SURFACE_DEFINITIONS)"
  by code_simp

lemma no_legacy_window:
  "map_of LEGACY_ADAPTER_VERSION_OMISSION_WINDOWS s \<noteq> map_of APPROVED_ADAPTER_VERSIONS s \<or>
   map_of APPROVED_ADAPTER_VERSIONS s = None"
proof -
  have "surface_version ''doubao.consumer_web'' = ''doubao-web-20260821-localpc-v13''"
    by code_simp
  then show ?thesis
    by (auto simp: LEGACY_ADAPTER_VERSION_OMISSION_WINDOWS_def APPROVED_ADAPTER_VERSIONS_def
        mapBrowserExtensionSurfaces_def map_of_map_restrict restrict_map_def)
qed

lemma isBrowserExtensionSurface_iff:
  "isBrowserExtensionSurface s \<longleftrightarrow> (\<exists>d \<in> set BROWSER_EXTENSION_SURFACE_DEFINITIONS. sd_key d = s)"
  by (auto simp: isBrowserExtensionSurface_def surfaces_are_keys list_ex_iff)

lemma surface_definition_iff:
  "browserExtensionSurfaceDefinition s = Inr d \<longleftrightarrow>
   d \<in> set BROWSER_EXTENSION_SURFACE_DEFINITIONS \<and> sd_key d = s"
  using find_distinct_key [OF distinct_surface_keys]
  by (auto simp: browserExtensionSurfaceDefinition_def requireSome_Inr_iff dest: find_SomeD)

lemma approved_version_lookup:
  "map_of APPROVED_ADAPTER_VERSIONS s =
     (if isBrowserExtensionSurface s then Some (surface_version s) else None)"
  by (auto simp: APPROVED_ADAPTER_VERSIONS_def mapBrowserExtensionSurfaces_def map_of_map_restrict
      restrict_map_def isBrowserExtensionSurface_def list_ex_iff)

lemma surface_key_inj:
  "d \<in> set BROWSER_EXTENSION_SURFACE_DEFINITIONS \<Longrightarrow> e \<in> set BROWSER_EXTENSION_SURFACE_DEFINITIONS \<Longrightarrow>
   sd_key d = sd_key e \<Longrightarrow> d = e"
  using distinct_surface_keys by (auto simp: distinct_map dest: inj_onD)

lemma surface_version_def_of:
  "d \<in> set BROWSER_EXTENSION_SURFACE_DEFINITIONS \<Longrightarrow> surface_version (sd_key d) = sd_adapterVersion d"
  using find_distinct_key [OF distinct_surface_keys] by (simp add: surface_version_def)

text \<open>
  An extension surface and its capture route determine each other: the route of a known surface
  is a known route, two surfaces never share a route, and an unknown surface has none.
\<close>

theorem capture_route_bijection:
  "(\<exists>r. browserExtensionCaptureRoute s = Inr r) = isBrowserExtensionSurface s \<and>
   isBrowserExtensionCaptureRoute r = (\<exists>u. browserExtensionCaptureRoute u = Inr r) \<and>
   (browserExtensionCaptureRoute s = Inr r \<and> browserExtensionCaptureRoute u = Inr r \<longrightarrow> s = u)"
proof -
  have inj: "d = e" if "d \<in> set BROWSER_EXTENSION_SURFACE_DEFINITIONS"
      "e \<in> set BROWSER_EXTENSION_SURFACE_DEFINITIONS" "sd_captureRoute d = sd_captureRoute e" for d e
    using distinct_capture_routes that by (auto simp: distinct_map dest: inj_onD)
  show ?thesis
    by (auto simp: browserExtensionCaptureRoute_def bindE_Inr_iff surface_definition_iff
        isBrowserExtensionSurface_iff isBrowserExtensionCaptureRoute_def list_ex_iff dest: inj)
qed

theorem capture_route_bijection_witness:
  "isBrowserExtensionCaptureRoute ''browser_extension.kimi'' \<and>
   browserExtensionCaptureRoute ''kimi.consumer_web'' = Inr ''browser_extension.kimi'' \<and>
   browserExtensionCaptureRoute ''qwen.consumer_web'' \<noteq> Inr ''browser_extension.kimi''"
proof -
  have e: "browserExtensionCaptureRoute ''kimi.consumer_web'' = Inr ''browser_extension.kimi''"
    by code_simp
  show ?thesis
    using e capture_route_bijection [of "''kimi.consumer_web''" "''browser_extension.kimi''" "''qwen.consumer_web''"]
    by auto
qed

text \<open>
  An adapter version is approved for exactly the version its surface definition carries; a
  request that omits the version is approved for no surface, the legacy window being closed.
\<close>

theorem adapter_version_approved_iff:
  "isCurrentBrowserExtensionAdapterVersionBindingSatisfied s requested \<longleftrightarrow>
   (\<exists>d \<in> set BROWSER_EXTENSION_SURFACE_DEFINITIONS. sd_key d = s \<and> requested = Some (sd_adapterVersion d))"
proof (cases requested)
  case None
  then show ?thesis
    using no_legacy_window [of s]
    by (auto simp: isCurrentBrowserExtensionAdapterVersionBindingSatisfied_def
        isBrowserExtensionAdapterVersionBindingSatisfied_def split: option.splits)
next
  case (Some v)
  then show ?thesis
    by (auto simp: isCurrentBrowserExtensionAdapterVersionBindingSatisfied_def
        isBrowserExtensionAdapterVersionBindingSatisfied_def approved_version_lookup
        isBrowserExtensionSurface_iff surface_version_def_of split: option.splits if_splits
        dest: surface_key_inj)
qed

lemma sum_list_lower: "list_all (\<lambda>b. 1 \<le> b) bs \<Longrightarrow> int (length bs) \<le> sum_list bs"
  by (induction bs) auto

text \<open>
  Accepted visual evidence names distinct JPEG artifacts in upload order, at most 19 of them and
  at most 6 MiB in all; complete evidence has a primary image and every segment, partial evidence
  has no primary and misses at least one, and unavailable evidence carries nothing.
\<close>

theorem visual_evidence_accepted:
  assumes "assertBrowserRunnerVisualEvidenceProtocol ve ids media bytes = Inr ()"
  shows "ids = truthy_id (ve_primaryArtifactId ve) @ ve_segmentArtifactIds ve \<and> distinct ids \<and>
    length media = length ids \<and> length bytes = length ids \<and> length ids \<le> 19 \<and>
    (\<forall>b \<in> set bytes. 1 \<le> b \<and> b \<le> 4194304) \<and> sum_list bytes \<le> 6291456 \<and>
    (ve_status ve = VisualUnavailable \<longrightarrow> ids = [] \<and> ve_capturedSegmentCount ve = 0) \<and>
    (ve_status ve = VisualComplete \<longrightarrow> ve_primaryArtifactId ve \<noteq> None \<and>
       ve_capturedSegmentCount ve = ve_expectedSegmentCount ve) \<and>
    (ve_status ve = VisualPartial \<longrightarrow> ve_primaryArtifactId ve = None \<and>
       int (length ids) = ve_capturedSegmentCount ve \<and>
       ve_capturedSegmentCount ve < ve_expectedSegmentCount ve)"
proof -
  let ?p = "truthy_id (ve_primaryArtifactId ve)"
  note facts = assms [unfolded assertBrowserRunnerVisualEvidenceProtocol_def Let_def if_Inl_iff]
  have ids: "ids = ?p @ ve_segmentArtifactIds ve" and len: "length bytes = length ids"
    and pos: "list_all (\<lambda>b. 1 \<le> b) bytes" and rest:
      "list_all (\<lambda>b. b \<le> MAX_VISUAL_EVIDENCE_SEGMENT_BYTES) (drop (length ?p) bytes)"
    and first: "length ?p = 1 \<longrightarrow> (case bytes of [] \<Rightarrow> 0 | b # _ \<Rightarrow> b) \<le> MAX_VISUAL_EVIDENCE_PRIMARY_BYTES"
    using facts by (auto simp: list_ex_iff list_all_iff not_less)
  have p: "length ?p \<le> 1" by (simp add: truthy_id_def split: option.split)
  have segs: "length (ve_segmentArtifactIds ve) \<le> 18"
    using facts by (simp add: MAX_VISUAL_EVIDENCE_SEGMENTS_def)
  have upper: "list_all (\<lambda>b. b \<le> 4194304) bytes"
  proof (cases bytes)
    case (Cons b bs)
    with p rest first show ?thesis
      by (cases "length ?p") (auto simp: MAX_VISUAL_EVIDENCE_PRIMARY_BYTES_def
          MAX_VISUAL_EVIDENCE_SEGMENT_BYTES_def list_all_iff)
  qed simp
  have basic: "distinct ids" "length media = length ids" "sum_list bytes \<le> 6291456"
    using facts by (auto simp: MAX_VISUAL_EVIDENCE_TOTAL_BYTES_def)
  have status: "(ve_status ve = VisualUnavailable \<longrightarrow> ids = [] \<and> ve_capturedSegmentCount ve = 0) \<and>
    (ve_status ve = VisualComplete \<longrightarrow> ve_primaryArtifactId ve \<noteq> None \<and>
       ve_capturedSegmentCount ve = ve_expectedSegmentCount ve) \<and>
    (ve_status ve = VisualPartial \<longrightarrow> ve_primaryArtifactId ve = None \<and>
       int (length ids) = ve_capturedSegmentCount ve \<and>
       ve_capturedSegmentCount ve < ve_expectedSegmentCount ve)"
    using facts by (auto simp: truthy_id_def split: if_splits)
  show ?thesis
    using ids len pos upper p segs basic status by (auto simp: list_all_iff)
qed

theorem visual_evidence_accepted_witness:
  "assertBrowserRunnerVisualEvidenceProtocol
     \<lparr>ve_status = VisualPartial, ve_primaryArtifactId = None, ve_segmentArtifactIds = [''a'', ''b''],
      ve_expectedSegmentCount = 3, ve_capturedSegmentCount = 2\<rparr>
     [''a'', ''b''] [''image/jpeg'', ''image/jpeg''] [10, 20] = Inr () \<and> length [''a'', ''b''] \<le> 19"
proof -
  have e: "assertBrowserRunnerVisualEvidenceProtocol
     \<lparr>ve_status = VisualPartial, ve_primaryArtifactId = None, ve_segmentArtifactIds = [''a'', ''b''],
      ve_expectedSegmentCount = 3, ve_capturedSegmentCount = 2\<rparr>
     [''a'', ''b''] [''image/jpeg'', ''image/jpeg''] [10, 20] = Inr ()"
    by code_simp
  show ?thesis using e visual_evidence_accepted [OF e] by blast
qed

end
