(* ===== verification/JsDate.thy ===== *)
theory JsDate
  imports Prelude
begin

text \<open>
  The part of the JavaScript \<open>Date\<close> object the sources use: time values are milliseconds since
  1970 (an \<^typ>\<open>int\<close>), the calendar functions are those of the language definition (day number
  from year, year from day number, month and date within the year, \<open>Date.UTC\<close>), and
  \<open>toISOString\<close> with the parser for the strings it writes. A string in another form is parsed
  as the JavaScript engine decides, which is the parameter \<open>other\<close> of \<open>date_parse\<close>.
\<close>

definition ms_per_day :: int where "ms_per_day = 86400000"

definition day_from_year :: "int \<Rightarrow> int" where
  "day_from_year y = 365 * (y - 1970) + (y - 1969) div 4 - (y - 1901) div 100 + (y - 1601) div 400"

definition leap_year :: "int \<Rightarrow> bool" where
  "leap_year y \<longleftrightarrow> y mod 4 = 0 \<and> (y mod 100 \<noteq> 0 \<or> y mod 400 = 0)"

text \<open>The year of a day number: an estimate from the mean year length, corrected by at most one.\<close>

definition year_from_day :: "int \<Rightarrow> int" where
  "year_from_day d =
     (let y = 1970 + (400 * d) div 146097
      in if day_from_year (y + 1) \<le> d then y + 1
         else if d < day_from_year y then y - 1 else y)"

definition month_start :: "bool \<Rightarrow> int \<Rightarrow> int" where
  "month_start leap m =
     (let k = (if leap then 1 else 0)
      in if m \<le> 0 then 0 else if m = 1 then 31 else if m = 2 then 59 + k else if m = 3 then 90 + k
         else if m = 4 then 120 + k else if m = 5 then 151 + k else if m = 6 then 181 + k
         else if m = 7 then 212 + k else if m = 8 then 243 + k else if m = 9 then 273 + k
         else if m = 10 then 304 + k else if m = 11 then 334 + k else 365 + k)"

definition month_in_year :: "bool \<Rightarrow> int \<Rightarrow> int" where
  "month_in_year leap d =
     (if d < month_start leap 1 then 0 else if d < month_start leap 2 then 1
      else if d < month_start leap 3 then 2 else if d < month_start leap 4 then 3
      else if d < month_start leap 5 then 4 else if d < month_start leap 6 then 5
      else if d < month_start leap 7 then 6 else if d < month_start leap 8 then 7
      else if d < month_start leap 9 then 8 else if d < month_start leap 10 then 9
      else if d < month_start leap 11 then 10 else 11)"

definition utc_year :: "int \<Rightarrow> int" where
  "utc_year t = year_from_day (t div ms_per_day)"

definition day_in_year :: "int \<Rightarrow> int" where
  "day_in_year t = t div ms_per_day - day_from_year (utc_year t)"

definition utc_month :: "int \<Rightarrow> int" where
  "utc_month t = month_in_year (leap_year (utc_year t)) (day_in_year t)"

definition utc_date :: "int \<Rightarrow> int" where
  "utc_date t = day_in_year t - month_start (leap_year (utc_year t)) (utc_month t) + 1"

definition make_day :: "int \<Rightarrow> int \<Rightarrow> int \<Rightarrow> int" where
  "make_day y m dt =
     (let ym = y + m div 12
      in day_from_year ym + month_start (leap_year ym) (m mod 12) + dt - 1)"

text \<open>
  The time value of calendar fields, and \<open>Date.UTC(year, month, date, hours, minutes, seconds, ms)\<close>,
  which takes the years 0 to 99 for the twentieth century.
\<close>

definition date_utc :: "int \<Rightarrow> int \<Rightarrow> int \<Rightarrow> int \<Rightarrow> int \<Rightarrow> int \<Rightarrow> int \<Rightarrow> int" where
  "date_utc y m dt h mi s ms = make_day y m dt * ms_per_day + h * 3600000 + mi * 60000 + s * 1000 + ms"

definition Date_UTC :: "int \<Rightarrow> int \<Rightarrow> int \<Rightarrow> int \<Rightarrow> int \<Rightarrow> int \<Rightarrow> int \<Rightarrow> int" where
  "Date_UTC y m dt h mi s ms = date_utc (if 0 \<le> y \<and> y \<le> 99 then 1900 + y else y) m dt h mi s ms"

lemma div_lower: "0 < k \<Longrightarrow> k * (n div k) \<le> (n :: int)"
  by (metis add.commute add_le_cancel_left add_0 mult_div_mod_eq pos_mod_sign)

lemma div_upper: "0 < k \<Longrightarrow> (n :: int) < k * (n div k) + k"
  by (metis add_less_cancel_left mult_div_mod_eq pos_mod_bound)

lemmas year_divs = div_lower [of 4] div_upper [of 4] div_lower [of 100] div_upper [of 100]
  div_lower [of 400] div_upper [of 400] div_lower [of 146097] div_upper [of 146097]

lemma div_succ: "0 < k \<Longrightarrow> (n + 1) div k = n div k + (if (n + 1) mod k = 0 then 1 else (0 :: int))"
proof (cases "n mod k = k - 1")
  case True
  assume k: "0 < k"
  have "n + 1 = k * (n div k + 1)"
    using True mult_div_mod_eq [of k n] by (auto simp: distrib_left)
  with k show ?thesis by simp
next
  case False
  assume k: "0 < k"
  have "n mod k < k" and "0 \<le> n mod k" using k by simp_all
  with False have r: "0 \<le> n mod k + 1" "n mod k + 1 < k" by linarith+
  have e: "n + 1 = k * (n div k) + (n mod k + 1)"
    using mult_div_mod_eq [of k n] by simp
  have "(n + 1) div k = n div k" and "(n + 1) mod k = n mod k + 1"
    using int_div_pos_eq [OF e r] int_mod_pos_eq [OF e r] by simp_all
  with \<open>0 \<le> n mod k\<close> show ?thesis by simp
qed

lemma year_from_day_bounds:
  "day_from_year (year_from_day d) \<le> d \<and> d < day_from_year (year_from_day d + 1)"
proof -
  define y where "y = 1970 + (400 * d) div 146097"
  have e: "146097 * (y - 1970) \<le> 400 * d" "400 * d < 146097 * (y - 1970) + 146097"
    using div_lower [of 146097 "400 * d"] div_upper [of 146097 "400 * d"] by (simp_all add: y_def)
  have low: "day_from_year (y - 1) \<le> d"
    using e div_lower [of 4 "y - 1 - 1969"] div_upper [of 100 "y - 1 - 1901"]
      div_lower [of 400 "y - 1 - 1601"] unfolding day_from_year_def by simp
  have high: "d < day_from_year (y + 1 + 1)"
    using e div_upper [of 4 "y + 1 + 1 - 1969"] div_lower [of 100 "y + 1 + 1 - 1901"]
      div_upper [of 400 "y + 1 + 1 - 1601"] unfolding day_from_year_def by simp
  show ?thesis
    using low high unfolding year_from_day_def Let_def y_def [symmetric] by auto
qed

lemma year_step_sum:
  fixes x u v w :: int
  assumes "c \<longrightarrow> b" and "b \<longrightarrow> a"
  shows "365 * (x + 1) + (u + (if a then 1 else 0)) - (v + (if b then 1 else 0)) +
      (w + (if c then 1 else 0)) =
    365 * x + u - v + w + (if a \<and> (\<not> b \<or> c) then 366 else 365)"
  using assms by (cases a; cases b; cases c; simp)

lemma day_from_year_Suc:
  "day_from_year (y + 1) = day_from_year y + (if leap_year y then 366 else 365)"
proof -
  have m: "(y - 1969 + 1) mod 4 = y mod 4" "(y - 1901 + 1) mod 100 = y mod 100"
    "(y - 1601 + 1) mod 400 = y mod 400"
    using mod_mult_self1 [of "y - 1968" 492 4] mod_mult_self1 [of "y - 1900" 19 100]
      mod_mult_self1 [of "y - 1600" 4 400] by simp_all
  have q: "(y - 1969 + 1) div 4 = (y - 1969) div 4 + (if y mod 4 = 0 then 1 else 0)"
    "(y - 1901 + 1) div 100 = (y - 1901) div 100 + (if y mod 100 = 0 then 1 else 0)"
    "(y - 1601 + 1) div 400 = (y - 1601) div 400 + (if y mod 400 = 0 then 1 else 0)"
    by (simp_all only: div_succ [OF zero_less_numeral] m)
  have l: "leap_year y \<longleftrightarrow> y mod 4 = 0 \<and> (y mod 100 \<noteq> 0 \<or> y mod 400 = 0)"
    by (simp only: leap_year_def)
  have c: "y mod 400 = 0 \<longrightarrow> y mod 100 = 0" "y mod 100 = 0 \<longrightarrow> y mod 4 = 0"
    using mod_mod_cancel [of 100 400 y] mod_mod_cancel [of 4 100 y] by auto
  have e: "y + 1 - 1969 = y - 1969 + 1" "y + 1 - 1901 = y - 1901 + 1" "y + 1 - 1601 = y - 1601 + 1"
    "y + 1 - 1970 = y - 1970 + 1" by simp_all
  show ?thesis
    unfolding day_from_year_def e q l by (rule year_step_sum [OF c])
qed

lemma utc_month_range: "0 \<le> utc_month t \<and> utc_month t \<le> 11"
  by (simp add: utc_month_def month_in_year_def)

text \<open>Reading a date's fields and building the day again is the identity, whatever is added to the date.\<close>

lemma make_day_fields:
  "make_day (utc_year t) (utc_month t) (utc_date t + k) = t div ms_per_day + k"
  using utc_month_range [of t]
  by (simp add: make_day_def Let_def utc_date_def day_in_year_def div_pos_pos_trivial)

lemma utc_year_since_epoch:
  assumes "0 \<le> t"
  shows "1970 \<le> utc_year t"
proof (rule ccontr)
  assume "\<not> 1970 \<le> utc_year t"
  then have y: "utc_year t + 1 \<le> 1970" by simp
  have "day_from_year (utc_year t + 1) \<le> 0"
  proof (cases "utc_year t = 1969")
    case False
    with y have "utc_year t \<le> 1968" by simp
    then show ?thesis
      using div_upper [of 100 "utc_year t + 1 - 1901"] div_lower [of 4 "utc_year t + 1 - 1969"]
        div_lower [of 400 "utc_year t + 1 - 1601"]
      unfolding day_from_year_def by simp
  qed (simp add: day_from_year_def)
  moreover have "0 \<le> t div ms_per_day"
    using assms by (simp add: ms_per_day_def pos_imp_zdiv_nonneg_iff)
  ultimately show False
    using year_from_day_bounds [of "t div ms_per_day"] by (simp add: utc_year_def)
qed

text \<open>\<open>Date.UTC\<close> with the fields of a time since 1970 and days added, at a given time of day.\<close>

lemma Date_UTC_shifted:
  "0 \<le> t \<Longrightarrow> Date_UTC (utc_year t) (utc_month t) (utc_date t + k) h 0 0 0 =
     (t div ms_per_day + k) * ms_per_day + h * 3600000"
  using utc_year_since_epoch [of t] by (simp add: Date_UTC_def date_utc_def make_day_fields)

subsection \<open>toISOString and its parser\<close>

fun pad_dec :: "nat \<Rightarrow> int \<Rightarrow> string" where
  "pad_dec 0 n = []"
| "pad_dec (Suc k) n = pad_dec k (n div 10) @ [char_of (nat (48 + n mod 10))]"

definition dec_char :: "char \<Rightarrow> int option" where
  "dec_char c = (let n = int (of_char c :: nat) in if 48 \<le> n \<and> n \<le> 57 then Some (n - 48) else None)"

fun read_dec :: "int \<Rightarrow> string \<Rightarrow> int option" where
  "read_dec acc [] = Some acc"
| "read_dec acc (c # cs) = (case dec_char c of None \<Rightarrow> None | Some d \<Rightarrow> read_dec (acc * 10 + d) cs)"

definition iso_year :: "int \<Rightarrow> string" where
  "iso_year y =
     (if 0 \<le> y \<and> y \<le> 9999 then pad_dec 4 y
      else if y < 0 then ''-'' @ pad_dec 6 (- y) else ''+'' @ pad_dec 6 y)"

definition to_iso :: "int \<Rightarrow> string" where
  "to_iso t =
     (let r = t mod ms_per_day
      in iso_year (utc_year t) @ ''-'' @ pad_dec 2 (utc_month t + 1) @ ''-'' @ pad_dec 2 (utc_date t) @
         ''T'' @ pad_dec 2 (r div 3600000) @ '':'' @ pad_dec 2 (r div 60000 mod 60) @ '':'' @
         pad_dec 2 (r div 1000 mod 60) @ ''.'' @ pad_dec 3 (r mod 1000) @ ''Z'')"

text \<open>The largest time value, 100 million days from the epoch on either side.\<close>

definition time_clip :: "int \<Rightarrow> int option" where
  "time_clip t = (if \<bar>t\<bar> \<le> 8640000000000000 then Some t else None)"

definition split_year :: "string \<Rightarrow> (int \<times> string) option" where
  "split_year s =
     (case s of
        [] \<Rightarrow> None
      | c # cs \<Rightarrow>
          if c = CHR ''+'' \<or> c = CHR ''-'' then
            (case read_dec 0 (take 6 cs) of
               None \<Rightarrow> None
             | Some y \<Rightarrow>
                 if length cs < 6 \<or> (c = CHR ''-'' \<and> y = 0) then None
                 else Some (if c = CHR ''-'' then - y else y, drop 6 cs))
          else
            (case read_dec 0 (take 4 s) of
               None \<Rightarrow> None
             | Some y \<Rightarrow> if length s < 4 then None else Some (y, drop 4 s)))"

definition iso_fields :: "int \<Rightarrow> string \<Rightarrow> int option" where
  "iso_fields y s =
     (if length s \<noteq> 20 \<or> s ! 0 \<noteq> CHR ''-'' \<or> s ! 3 \<noteq> CHR ''-'' \<or> s ! 6 \<noteq> CHR ''T'' \<or>
         s ! 9 \<noteq> CHR '':'' \<or> s ! 12 \<noteq> CHR '':'' \<or> s ! 15 \<noteq> CHR ''.'' \<or> s ! 19 \<noteq> CHR ''Z'' then None
      else
        (case (read_dec 0 [s ! 1, s ! 2], read_dec 0 [s ! 4, s ! 5], read_dec 0 [s ! 7, s ! 8],
               read_dec 0 [s ! 10, s ! 11], read_dec 0 [s ! 13, s ! 14],
               read_dec 0 [s ! 16, s ! 17, s ! 18]) of
           (Some mo, Some d, Some h, Some mi, Some sec, Some ms) \<Rightarrow>
             if 1 \<le> mo \<and> mo \<le> 12 \<and> 1 \<le> d \<and>
                d \<le> month_start (leap_year y) mo - month_start (leap_year y) (mo - 1) \<and>
                h \<le> 23 \<and> mi \<le> 59 \<and> sec \<le> 59
             then time_clip (date_utc y (mo - 1) d h mi sec ms) else None
         | _ \<Rightarrow> None))"

definition parse_iso :: "string \<Rightarrow> int option" where
  "parse_iso s = (case split_year s of None \<Rightarrow> None | Some (y, rest) \<Rightarrow> iso_fields y rest)"

definition date_parse :: "(string \<Rightarrow> int option) \<Rightarrow> string \<Rightarrow> int option" where
  "date_parse other s =
     (case parse_iso s of Some t \<Rightarrow> Some t | None \<Rightarrow> Option.bind (other s) time_clip)"

subsection \<open>The parser reads back what toISOString writes\<close>

lemma length_pad_dec [simp]: "length (pad_dec k n) = k"
  by (induction k arbitrary: n) auto

lemma digit_code: "0 \<le> d \<Longrightarrow> d < 10 \<Longrightarrow> (of_char (char_of (nat (48 + d)) :: char) :: nat) = nat (48 + d)"
  by (simp add: of_char_of)

lemma dec_char_digit: "dec_char (char_of (nat (48 + n mod 10))) = Some (n mod 10)"
  by (simp add: dec_char_def Let_def digit_code)

lemma read_dec_append:
  "read_dec acc (xs @ ys) = (case read_dec acc xs of None \<Rightarrow> None | Some a \<Rightarrow> read_dec a ys)"
  by (induction xs arbitrary: acc) (auto split: option.splits)

lemma read_dec_pad: "0 \<le> n \<Longrightarrow> n < 10 ^ k \<Longrightarrow> read_dec acc (pad_dec k n) = Some (acc * 10 ^ k + n)"
proof (induction k arbitrary: n)
  case 0
  then show ?case by simp
next
  case (Suc k)
  have "n div 10 < 10 ^ k" using Suc.prems by (simp add: div_less_iff_less_mult)
  with Suc have "read_dec acc (pad_dec k (n div 10)) = Some (acc * 10 ^ k + n div 10)"
    by (simp add: pos_imp_zdiv_nonneg_iff)
  moreover have "(acc * 10 ^ k + n div 10) * 10 + n mod 10 = acc * 10 ^ Suc k + n"
    by (simp add: algebra_simps)
  ultimately show ?case by (simp add: read_dec_append dec_char_digit)
qed

lemma month_split:
  assumes "0 \<le> d" and "d < 365 + (if leap then 1 else 0)"
  shows "month_start leap (month_in_year leap d) \<le> d \<and> d < month_start leap (month_in_year leap d + 1)"
  using assms by (cases leap) (simp_all add: month_in_year_def month_start_def)

lemma day_in_year_range:
  "0 \<le> day_in_year t \<and> day_in_year t < 365 + (if leap_year (utc_year t) then 1 else 0)"
  using year_from_day_bounds [of "t div ms_per_day"]
    day_from_year_Suc [of "year_from_day (t div ms_per_day)"]
  by (auto simp: day_in_year_def utc_year_def split: if_splits)

lemma utc_date_range:
  "1 \<le> utc_date t \<and> utc_date t \<le> month_start (leap_year (utc_year t)) (utc_month t + 1) -
     month_start (leap_year (utc_year t)) (utc_month t)"
  using month_split [of "day_in_year t" "leap_year (utc_year t)"] day_in_year_range [of t]
  by (auto simp: utc_date_def utc_month_def)

lemma month_length_le: "month_start leap (m + 1) - month_start leap m \<le> 31"
  by (simp add: month_start_def)

lemma utc_year_range: "\<bar>t\<bar> \<le> 8640000000000000 \<Longrightarrow> \<bar>utc_year t\<bar> \<le> 999999"
proof -
  assume t: "\<bar>t\<bar> \<le> 8640000000000000"
  let ?d = "t div ms_per_day"
  have d: "86400000 * ?d \<le> t" "t < 86400000 * ?d + 86400000"
    using div_lower [of 86400000 t] div_upper [of 86400000 t] by (simp_all add: ms_per_day_def)
  have "146097 * ((400 * ?d) div 146097) \<le> 400 * ?d" and "400 * ?d < 146097 * ((400 * ?d) div 146097) + 146097"
    using div_lower [of 146097 "400 * ?d"] div_upper [of 146097 "400 * ?d"] by simp_all
  with t d have "\<bar>1970 + (400 * ?d) div 146097\<bar> \<le> 999998" by linarith
  then show ?thesis by (auto simp: utc_year_def year_from_day_def Let_def)
qed

lemma pad2: "pad_dec 2 n = [char_of (nat (48 + n div 10 mod 10)), char_of (nat (48 + n mod 10))]"
  by (simp add: numeral_2_eq_2)

lemma pad3: "pad_dec 3 n = [char_of (nat (48 + n div 10 div 10 mod 10)), char_of (nat (48 + n div 10 mod 10)),
    char_of (nat (48 + n mod 10))]"
  by (simp add: numeral_3_eq_3)

lemma read_pad2: "0 \<le> n \<Longrightarrow> n < 100 \<Longrightarrow>
    read_dec 0 [char_of (nat (48 + n div 10 mod 10)), char_of (nat (48 + n mod 10))] = Some n"
  using read_dec_pad [of n 2 0] by (simp add: pad2)

lemma read_pad3: "0 \<le> n \<Longrightarrow> n < 1000 \<Longrightarrow>
    read_dec 0 [char_of (nat (48 + n div 10 div 10 mod 10)), char_of (nat (48 + n div 10 mod 10)),
      char_of (nat (48 + n mod 10))] = Some n"
  using read_dec_pad [of n 3 0] by (simp add: pad3)

lemma split_year_iso: "\<bar>y\<bar> \<le> 999999 \<Longrightarrow> split_year (iso_year y @ rest) = Some (y, rest)"
proof -
  assume y: "\<bar>y\<bar> \<le> 999999"
  consider "0 \<le> y" "y \<le> 9999" | "y < 0" | "9999 < y" by linarith
  then show ?thesis
  proof cases
    case 1
    have c: "char_of (nat (48 + k mod 10)) \<noteq> CHR ''+'' \<and> char_of (nat (48 + k mod 10)) \<noteq> CHR ''-''" for k :: int
    proof -
      have "dec_char (char_of (nat (48 + k mod 10))) \<noteq> None" by (simp add: dec_char_digit)
      moreover have "dec_char (CHR ''+'') = None" "dec_char (CHR ''-'') = None" by code_simp+
      ultimately show ?thesis by metis
    qed
    have "pad_dec 4 y = char_of (nat (48 + y div 10 div 10 div 10 mod 10)) # pad_dec 3 y"
      by (simp add: pad3 numeral_eq_Suc)
    with c obtain ch where ch: "pad_dec 4 y = ch # pad_dec 3 y" "ch \<noteq> CHR ''+''" "ch \<noteq> CHR ''-''"
      by blast
    have "read_dec 0 (take 4 (pad_dec 4 y @ rest)) = Some y"
      using 1 read_dec_pad [of y 4 0] by simp
    moreover have "drop 4 (pad_dec 4 y @ rest) = rest" and "\<not> length (pad_dec 4 y @ rest) < 4"
      by simp_all
    ultimately show ?thesis
      using 1 ch by (simp add: iso_year_def split_year_def del: read_dec.simps take_append drop_append)
  next
    case 2
    then show ?thesis
      using y read_dec_pad [of "- y" 6 0] by (simp add: iso_year_def split_year_def)
  next
    case 3
    then show ?thesis
      using y read_dec_pad [of y 6 0] by (simp add: iso_year_def split_year_def)
  qed
qed

lemma clock_sum:
  fixes r :: int
  assumes "a = 60 * b + am" and "b = 60 * c + bm" and "r = 1000 * a + rm"
  shows "c * 3600000 + bm * 60000 + am * 1000 + rm = r"
  using assms by simp

lemma date_utc_fields:
  "date_utc (utc_year t) (utc_month t) (utc_date t)
     (t mod ms_per_day div 3600000) (t mod ms_per_day div 60000 mod 60)
     (t mod ms_per_day div 1000 mod 60) (t mod ms_per_day mod 1000) = t"
proof -
  define r where "r = t mod ms_per_day"
  have "r div 60000 = r div 1000 div 60" and "r div 3600000 = r div 60000 div 60"
    using zdiv_zmult2_eq [of 60 r 1000] zdiv_zmult2_eq [of 60 r 60000] by simp_all
  then have "r div 3600000 * 3600000 + r div 60000 mod 60 * 60000 + r div 1000 mod 60 * 1000 + r mod 1000 = r"
    by (intro clock_sum [of "r div 1000" "r div 60000"]) (simp_all only: mult_div_mod_eq)
  moreover have "make_day (utc_year t) (utc_month t) (utc_date t) = t div ms_per_day"
    using make_day_fields [of t 0] by simp
  moreover have "t div ms_per_day * ms_per_day + r = t"
    by (simp add: r_def)
  ultimately show ?thesis
    unfolding date_utc_def r_def [symmetric] by simp
qed

lemma clock_ranges:
  assumes "0 \<le> (r :: int)" and "r < 86400000"
  shows "0 \<le> r div 3600000" "r div 3600000 \<le> 23" "0 \<le> r div 60000 mod 60" "r div 60000 mod 60 \<le> 59"
    "0 \<le> r div 1000 mod 60" "r div 1000 mod 60 \<le> 59" "0 \<le> r mod 1000" "r mod 1000 < 1000"
proof -
  show "r div 3600000 \<le> 23" using assms zdiv_mono1 [of r 86399999 3600000] by simp
  show "r div 60000 mod 60 \<le> 59" "r div 1000 mod 60 \<le> 59"
    using pos_mod_bound [of 60 "r div 60000"] pos_mod_bound [of 60 "r div 1000"] by linarith+
qed (use assms in \<open>simp_all add: pos_imp_zdiv_nonneg_iff\<close>)

lemma iso_fields_to_iso:
  assumes "1 \<le> mo" "mo \<le> 12" "1 \<le> d"
    "d \<le> month_start (leap_year y) mo - month_start (leap_year y) (mo - 1)" "d \<le> 31"
    "0 \<le> h" "h \<le> 23" "0 \<le> mi" "mi \<le> 59" "0 \<le> sec" "sec \<le> 59" "0 \<le> ms" "ms < 1000"
  shows "iso_fields y (''-'' @ pad_dec 2 mo @ ''-'' @ pad_dec 2 d @ ''T'' @ pad_dec 2 h @ '':'' @
      pad_dec 2 mi @ '':'' @ pad_dec 2 sec @ ''.'' @ pad_dec 3 ms @ ''Z'') =
    time_clip (date_utc y (mo - 1) d h mi sec ms)"
proof -
  have r: "read_dec 0 [char_of (nat (48 + n div 10 mod 10)), char_of (nat (48 + n mod 10))] = Some n"
    if "0 \<le> n" "n < 100" for n using that by (rule read_pad2)
  have "mo < 100" "d < 100" "h < 100" "mi < 100" "sec < 100" "0 \<le> mo" "0 \<le> d" using assms by linarith+
  note rs = r [OF \<open>0 \<le> mo\<close> \<open>mo < 100\<close>] r [OF \<open>0 \<le> d\<close> \<open>d < 100\<close>] r [OF \<open>0 \<le> h\<close> \<open>h < 100\<close>]
    r [OF \<open>0 \<le> mi\<close> \<open>mi < 100\<close>] r [OF \<open>0 \<le> sec\<close> \<open>sec < 100\<close>]
    read_pad3 [OF \<open>0 \<le> ms\<close> \<open>ms < 1000\<close>]
  show ?thesis
    using assms rs
    by (simp add: iso_fields_def pad2 pad3 nth_Cons_numeral del: read_dec.simps)
qed

theorem parse_to_iso: "\<bar>t\<bar> \<le> 8640000000000000 \<Longrightarrow> parse_iso (to_iso t) = Some t"
proof -
  assume t: "\<bar>t\<bar> \<le> 8640000000000000"
  let ?r = "t mod ms_per_day"
  have r: "0 \<le> ?r" "?r < 86400000" by (simp_all add: ms_per_day_def)
  have d: "utc_date t \<le> 31"
    using utc_date_range [of t] month_length_le [of "leap_year (utc_year t)" "utc_month t"] by linarith
  note c = clock_ranges [OF r]
  have m: "1 \<le> utc_month t + 1" "utc_month t + 1 \<le> 12" using utc_month_range [of t] by simp_all
  have u: "1 \<le> utc_date t" "utc_date t \<le> month_start (leap_year (utc_year t)) (utc_month t + 1) -
      month_start (leap_year (utc_year t)) (utc_month t + 1 - 1)"
    using utc_date_range [of t] by simp_all
  have "parse_iso (to_iso t) = time_clip t"
    unfolding parse_iso_def to_iso_def Let_def split_year_iso [OF utc_year_range [OF t]]
      option.case prod.case iso_fields_to_iso [OF m u d c]
    by (simp add: date_utc_fields)
  with t show ?thesis by (simp add: time_clip_def)
qed

lemma date_parse_to_iso: "\<bar>t\<bar> \<le> 8640000000000000 \<Longrightarrow> date_parse other (to_iso t) = Some t"
  by (simp add: date_parse_def parse_to_iso)

lemma time_clip_range: "time_clip t = Some u \<Longrightarrow> \<bar>u\<bar> \<le> 8640000000000000"
  by (auto simp: time_clip_def split: if_splits)

lemma date_parse_range: "date_parse other s = Some t \<Longrightarrow> \<bar>t\<bar> \<le> 8640000000000000"
  by (auto simp: date_parse_def parse_iso_def iso_fields_def time_clip_range Let_def
      split: option.splits if_splits Option.bind_splits)

lemma to_iso_nonempty [simp]: "to_iso t \<noteq> []"
  by (simp add: to_iso_def Let_def)

end
