(* ===== verification/Manifest.thy ===== *)
theory Manifest
  imports Complex_Main JsDate "HOL-Library.Multiset"
begin

text \<open>
  The delivery manifest (\<open>packages/lib/src/delivery-manifest.ts\<close>): statuses and roles, the
  protocol and its normal form, the task plan and its slot key, the manifest snapshot that is
  frozen with a batch, canonical JSON, and the coverage summary. SHA-256 (\<open>node:crypto\<close>) is the
  parameter \<open>sha\<close>, \<open>localeCompare\<close> the parameter \<open>lc\<close>, and the engine's parser for date strings
  outside the ISO form the parameter \<open>other\<close>.
\<close>

subsection \<open>Data\<close>

datatype delivery_batch_status = BatchDraft | BatchFrozen | BatchInProgress | BatchCompleted | BatchCancelled

datatype delivery_task_status =
    TaskPlanned | TaskAvailable | TaskClaimed | TaskSucceeded | TaskFailed | TaskCancelled

datatype delivery_evaluation_role = RoleScored | RoleObservation

datatype delivery_session_requirement =
    SessionNone | SessionAnonymousClean | SessionNewAccountClean | SessionDedicatedProfile

datatype delivery_search_requirement =
    SearchNotApplicable | SearchRequired | SearchForbidden | SearchPlatformDefault

record delivery_evidence_policy =
  ev_minimumArtifacts :: int
  ev_requireSha256 :: bool
  ev_requirePageUrl :: bool
  ev_allowedUriSchemes :: "string list"

record delivery_protocol =
  pr_startsAt :: string
  pr_endsAt :: string
  pr_evidence :: delivery_evidence_policy
  pr_notes :: "string option"

text \<open>The fields every form of a task plan has; the interfaces of the code extend them in turn.\<close>

record task_plan =
  pl_brandId :: string
  pl_scopeId :: string
  pl_promptId :: string
  pl_promptText :: string
  pl_surfaceTargetKey :: string
  pl_captureRouteKey :: string
  pl_sampleIndex :: int
  pl_sessionRequirement :: delivery_session_requirement
  pl_searchRequirement :: delivery_search_requirement

record delivery_task_plan = task_plan +
  dp_evaluationRole :: "delivery_evaluation_role option"

record normalized_task_plan = task_plan +
  np_evaluationRole :: delivery_evaluation_role

record manifest_task = normalized_task_plan +
  mt_id :: string
  mt_slotKey :: string

record manifest_batch =
  mb_id :: string
  mb_brandId :: string
  mb_scopeId :: string
  mb_idempotencyKey :: string
  mb_name :: string

record measurement_scope =
  ms_id :: string
  ms_key :: string
  ms_name :: string
  ms_market :: string
  ms_locale :: string
  ms_timezone :: string

record manifest_brand =
  br_id :: string
  br_name :: string
  br_website :: string
  br_additionalDomains :: "string list"
  br_aliases :: "string list"

record manifest_competitor =
  co_id :: string
  co_name :: string
  co_domains :: "string list"
  co_aliases :: "string list"

record manifest_context =
  mc_batch :: manifest_batch
  mc_scope :: measurement_scope
  mc_brand :: manifest_brand
  mc_competitors :: "manifest_competitor list"
  mc_protocol :: delivery_protocol

record manifest_snapshot = manifest_context +
  sn_schemaVersion :: int
  sn_tasks :: "manifest_task list"

subsection \<open>Batch transitions\<close>

definition DELIVERY_BATCH_TRANSITIONS :: "delivery_batch_status \<Rightarrow> delivery_batch_status list" where
  "DELIVERY_BATCH_TRANSITIONS from =
     (case from of
        BatchDraft \<Rightarrow> [BatchDraft, BatchFrozen, BatchCancelled]
      | BatchFrozen \<Rightarrow> [BatchFrozen, BatchInProgress, BatchCancelled]
      | BatchInProgress \<Rightarrow> [BatchInProgress, BatchCompleted, BatchCancelled]
      | BatchCompleted \<Rightarrow> [BatchCompleted]
      | BatchCancelled \<Rightarrow> [BatchCancelled])"

definition batch_status_text :: "delivery_batch_status \<Rightarrow> string" where
  "batch_status_text s =
     (case s of BatchDraft \<Rightarrow> ''draft'' | BatchFrozen \<Rightarrow> ''frozen'' | BatchInProgress \<Rightarrow> ''in_progress''
      | BatchCompleted \<Rightarrow> ''completed'' | BatchCancelled \<Rightarrow> ''cancelled'')"

definition task_status_text :: "delivery_task_status \<Rightarrow> string" where
  "task_status_text s =
     (case s of TaskPlanned \<Rightarrow> ''planned'' | TaskAvailable \<Rightarrow> ''available'' | TaskClaimed \<Rightarrow> ''claimed''
      | TaskSucceeded \<Rightarrow> ''succeeded'' | TaskFailed \<Rightarrow> ''failed'' | TaskCancelled \<Rightarrow> ''cancelled'')"

definition assertDeliveryBatchTransition ::
  "delivery_batch_status \<Rightarrow> delivery_batch_status \<Rightarrow> error + unit" where
  "assertDeliveryBatchTransition from to =
     (if \<not> List.member (DELIVERY_BATCH_TRANSITIONS from) to
      then Inl (PlainError (''Delivery batch cannot transition from '' @ batch_status_text from @ '' to '' @
             batch_status_text to))
      else Inr ())"

subsection \<open>Protocol\<close>

definition safe_int :: "int \<Rightarrow> bool" where
  "safe_int n \<longleftrightarrow> \<bar>n\<bar> \<le> 9007199254740991"

definition parseProtocolInstant :: "(string \<Rightarrow> int option) \<Rightarrow> string \<Rightarrow> string \<Rightarrow> error + int" where
  "parseProtocolInstant other v field =
     (if v = [] then Inl (PlainError (''Delivery measurementWindow '' @ field @ '' must be an ISO timestamp''))
      else requireSome (PlainError (''Delivery measurementWindow '' @ field @ '' must be an ISO timestamp''))
             (date_parse other v))"

definition normalizeDeliveryProtocol ::
  "(string \<Rightarrow> int option) \<Rightarrow> delivery_protocol \<Rightarrow> error + delivery_protocol" where
  "normalizeDeliveryProtocol other protocol =
     bindE (parseProtocolInstant other (pr_startsAt protocol) ''startsAt'') (\<lambda>startsAt.
     bindE (parseProtocolInstant other (pr_endsAt protocol) ''endsAt'') (\<lambda>endsAt.
       if endsAt \<le> startsAt
       then Inl (PlainError ''Delivery measurementWindow endsAt must be after startsAt'')
       else
       let minimumArtifacts = ev_minimumArtifacts (pr_evidence protocol) in
       if \<not> safe_int minimumArtifacts \<or> minimumArtifacts < 0
       then Inl (PlainError ''Delivery evidence minimumArtifacts must be a non-negative integer'')
       else
       let allowedUriSchemes = sort (remdups (ev_allowedUriSchemes (pr_evidence protocol))) in
       if list_ex (\<lambda>s. s \<noteq> ''http'' \<and> s \<noteq> ''https'') allowedUriSchemes
       then Inl (PlainError ''Delivery evidence URI schemes must be http or https'')
       else Inr
         \<lparr>pr_startsAt = to_iso startsAt, pr_endsAt = to_iso endsAt,
          pr_evidence =
            \<lparr>ev_minimumArtifacts = minimumArtifacts,
             ev_requireSha256 = ev_requireSha256 (pr_evidence protocol),
             ev_requirePageUrl = ev_requirePageUrl (pr_evidence protocol),
             ev_allowedUriSchemes = allowedUriSchemes\<rparr>,
          pr_notes = pr_notes protocol\<rparr>))"

subsection \<open>Task plans\<close>

definition normalizeDeliveryTaskPlan :: "delivery_task_plan \<Rightarrow> error + normalized_task_plan" where
  "normalizeDeliveryTaskPlan input =
     (case find (\<lambda>(field, v). js_trim v = [])
           [(''brandId'', pl_brandId input), (''scopeId'', pl_scopeId input), (''promptId'', pl_promptId input),
            (''surfaceTargetKey'', pl_surfaceTargetKey input), (''captureRouteKey'', pl_captureRouteKey input)] of
        Some (field, v) \<Rightarrow> Inl (PlainError (''Delivery task '' @ field @ '' must not be empty''))
      | None \<Rightarrow> if js_trim (pl_promptText input) = []
      then Inl (PlainError ''Delivery task promptText must not be empty'')
      else if \<not> safe_int (pl_sampleIndex input) \<or> pl_sampleIndex input \<le> 0 \<or> pl_sampleIndex input > 32767
      then Inl (PlainError ''Delivery task sampleIndex must be an integer between 1 and 32767'')
      else Inr
        \<lparr>pl_brandId = pl_brandId input, pl_scopeId = pl_scopeId input, pl_promptId = pl_promptId input,
         pl_promptText = pl_promptText input, pl_surfaceTargetKey = pl_surfaceTargetKey input,
         pl_captureRouteKey = pl_captureRouteKey input, pl_sampleIndex = pl_sampleIndex input,
         pl_sessionRequirement = pl_sessionRequirement input,
         pl_searchRequirement = pl_searchRequirement input,
         np_evaluationRole =
           (case dp_evaluationRole input of None \<Rightarrow> RoleScored | Some r \<Rightarrow> r)\<rparr>)"

text \<open>A normalised plan, or any record that extends one, where the code expects a plan.\<close>

definition as_plan :: "('a) normalized_task_plan_scheme \<Rightarrow> delivery_task_plan" where
  "as_plan t =
     \<lparr>pl_brandId = pl_brandId t, pl_scopeId = pl_scopeId t, pl_promptId = pl_promptId t,
      pl_promptText = pl_promptText t, pl_surfaceTargetKey = pl_surfaceTargetKey t,
      pl_captureRouteKey = pl_captureRouteKey t, pl_sampleIndex = pl_sampleIndex t,
      pl_sessionRequirement = pl_sessionRequirement t, pl_searchRequirement = pl_searchRequirement t,
      dp_evaluationRole = Some (np_evaluationRole t)\<rparr>"

subsection \<open>Canonical JSON\<close>

text \<open>
  A JavaScript value as the serialiser sees it: \<open>JUndef\<close> is \<open>undefined\<close>, \<open>JNonFinite\<close> one of
  NaN and the infinities, and \<open>JNum\<close> an integer (the manifest holds no other number). An object
  is its entries, with distinct keys.
\<close>

datatype json =
    JNull | JUndef | JNonFinite | JBool bool | JNum int | JStr string | JArr "json list"
  | JObj "(string \<times> json) list"

fun nat_dec :: "nat \<Rightarrow> string" where
  "nat_dec n = (if n < 10 then [char_of (48 + n)] else nat_dec (n div 10) @ [char_of (48 + n mod 10)])"

declare nat_dec.simps [simp del]

definition int_dec :: "int \<Rightarrow> string" where
  "int_dec n = (if n < 0 then ''-'' @ nat_dec (nat (- n)) else nat_dec (nat n))"

definition hex_digit :: "nat \<Rightarrow> char" where
  "hex_digit n = (if n < 10 then char_of (48 + n) else char_of (87 + n))"

text \<open>\<open>JSON.stringify\<close> of a string: quotes, backslashes and control characters are escaped.\<close>

definition json_escape :: "char \<Rightarrow> string" where
  "json_escape c =
     (let n = (of_char c :: nat) in
      if n = 34 then [CHR 0x5C, CHR 0x22] else if n = 92 then [CHR 0x5C, CHR 0x5C]
      else if n = 8 then [CHR 0x5C, CHR ''b''] else if n = 12 then [CHR 0x5C, CHR ''f'']
      else if n = 10 then [CHR 0x5C, CHR ''n''] else if n = 13 then [CHR 0x5C, CHR ''r'']
      else if n = 9 then [CHR 0x5C, CHR ''t'']
      else if n < 32 then [CHR 0x5C, CHR ''u'', CHR ''0'', CHR ''0'', hex_digit (n div 16), hex_digit (n mod 16)]
      else [c])"

definition json_quote :: "string \<Rightarrow> string" where
  "json_quote s = [CHR 0x22] @ concat (map json_escape s) @ [CHR 0x22]"

fun join_comma :: "string list \<Rightarrow> string" where
  "join_comma [] = []"
| "join_comma [x] = x"
| "join_comma (x # y # ys) = x @ '','' @ join_comma (y # ys)"

lemma mapE_cong [fundef_cong]:
  "xs = ys \<Longrightarrow> (\<And>x. x \<in> set ys \<Longrightarrow> f x = g x) \<Longrightarrow> mapE f xs = mapE g ys"
  by (induction ys arbitrary: xs) auto

lemma size_list_member: "x \<in> set xs \<Longrightarrow> size x < Suc (size_list size xs)"
  by (induction xs) auto

lemma size_list_pair:
  "(k, v) \<in> set kvs \<Longrightarrow> size v < Suc (size_list (size_prod (\<lambda>_. 0) size) kvs)"
  by (induction kvs) auto

function (sequential) canonicalJson :: "json \<Rightarrow> error + string" where
  "canonicalJson JNull = Inr ''null''"
| "canonicalJson (JBool b) = Inr (if b then ''true'' else ''false'')"
| "canonicalJson (JStr s) = Inr (json_quote s)"
| "canonicalJson (JNum n) = Inr (int_dec n)"
| "canonicalJson JNonFinite = Inl (PlainError ''Delivery manifest cannot contain non-finite numbers'')"
| "canonicalJson (JArr vs) =
     bindE (mapE canonicalJson vs) (\<lambda>items. Inr (''['' @ join_comma items @ '']''))"
| "canonicalJson (JObj kvs) =
     bindE (mapE (\<lambda>(k, v).
         if v = JUndef then Inl (PlainError (''Delivery manifest field '' @ k @ '' cannot be undefined''))
         else bindE (canonicalJson v) (\<lambda>s. Inr (json_quote k @ '':'' @ s)))
       (sort_key fst kvs))
     (\<lambda>items. Inr (''{'' @ join_comma items @ ''}''))"
| "canonicalJson JUndef = Inl (PlainError ''Delivery manifest cannot contain undefined'')"
  by pat_completeness auto
termination
  by (relation "measure size") (auto intro: size_list_member size_list_pair)

definition hashCanonicalJson :: "(string \<Rightarrow> string) \<Rightarrow> json \<Rightarrow> error + string" where
  "hashCanonicalJson sha v = bindE (canonicalJson v) (\<lambda>s. Inr (sha s))"

subsection \<open>The manifest as a JavaScript value\<close>

text \<open>The objects the code hashes, field by field in the order the code builds them.\<close>

definition session_text :: "delivery_session_requirement \<Rightarrow> string" where
  "session_text r =
     (case r of SessionNone \<Rightarrow> ''none'' | SessionAnonymousClean \<Rightarrow> ''anonymous_clean''
      | SessionNewAccountClean \<Rightarrow> ''new_account_clean''
      | SessionDedicatedProfile \<Rightarrow> ''dedicated_sampling_profile'')"

definition search_text :: "delivery_search_requirement \<Rightarrow> string" where
  "search_text r =
     (case r of SearchNotApplicable \<Rightarrow> ''not_applicable'' | SearchRequired \<Rightarrow> ''required''
      | SearchForbidden \<Rightarrow> ''forbidden'' | SearchPlatformDefault \<Rightarrow> ''platform_default'')"

definition role_text :: "delivery_evaluation_role \<Rightarrow> string" where
  "role_text r = (case r of RoleScored \<Rightarrow> ''scored'' | RoleObservation \<Rightarrow> ''observation'')"

definition plan_fields :: "('a) normalized_task_plan_scheme \<Rightarrow> (string \<times> json) list" where
  "plan_fields t =
     [(''brandId'', JStr (pl_brandId t)), (''scopeId'', JStr (pl_scopeId t)),
      (''promptId'', JStr (pl_promptId t)), (''promptText'', JStr (pl_promptText t)),
      (''surfaceTargetKey'', JStr (pl_surfaceTargetKey t)),
      (''captureRouteKey'', JStr (pl_captureRouteKey t)),
      (''sampleIndex'', JNum (pl_sampleIndex t)),
      (''sessionRequirement'', JStr (session_text (pl_sessionRequirement t))),
      (''searchRequirement'', JStr (search_text (pl_searchRequirement t))),
      (''evaluationRole'', JStr (role_text (np_evaluationRole t)))]"

definition strings_json :: "string list \<Rightarrow> json" where
  "strings_json xs = JArr (map JStr xs)"

definition protocol_json :: "delivery_protocol \<Rightarrow> json" where
  "protocol_json p =
     JObj ([(''measurementWindow'',
              JObj [(''startsAt'', JStr (pr_startsAt p)), (''endsAt'', JStr (pr_endsAt p))]),
            (''evidence'',
              JObj [(''minimumArtifacts'', JNum (ev_minimumArtifacts (pr_evidence p))),
                    (''requireSha256'', JBool (ev_requireSha256 (pr_evidence p))),
                    (''requirePageUrl'', JBool (ev_requirePageUrl (pr_evidence p))),
                    (''allowedUriSchemes'', strings_json (ev_allowedUriSchemes (pr_evidence p)))])] @
           (case pr_notes p of None \<Rightarrow> [] | Some n \<Rightarrow> [(''notes'', JStr n)]))"

definition snapshot_json :: "manifest_snapshot \<Rightarrow> json" where
  "snapshot_json s =
     JObj [(''schemaVersion'', JNum (sn_schemaVersion s)),
           (''batch'', let b = mc_batch s in
              JObj [(''id'', JStr (mb_id b)), (''brandId'', JStr (mb_brandId b)),
                    (''scopeId'', JStr (mb_scopeId b)), (''idempotencyKey'', JStr (mb_idempotencyKey b)),
                    (''name'', JStr (mb_name b))]),
           (''scope'', let c = mc_scope s in
              JObj [(''id'', JStr (ms_id c)), (''key'', JStr (ms_key c)), (''name'', JStr (ms_name c)),
                    (''market'', JStr (ms_market c)), (''locale'', JStr (ms_locale c)),
                    (''timezone'', JStr (ms_timezone c))]),
           (''brand'', let b = mc_brand s in
              JObj [(''id'', JStr (br_id b)), (''name'', JStr (br_name b)), (''website'', JStr (br_website b)),
                    (''additionalDomains'', strings_json (br_additionalDomains b)),
                    (''aliases'', strings_json (br_aliases b))]),
           (''competitors'', JArr (map (\<lambda>c.
              JObj [(''id'', JStr (co_id c)), (''name'', JStr (co_name c)),
                    (''domains'', strings_json (co_domains c)), (''aliases'', strings_json (co_aliases c))])
              (mc_competitors s))),
           (''protocol'', protocol_json (mc_protocol s)),
           (''tasks'', JArr (map (\<lambda>t.
              JObj (plan_fields t @ [(''id'', JStr (mt_id t)), (''slotKey'', JStr (mt_slotKey t))])) (sn_tasks s)))]"

subsection \<open>Slot keys, snapshot and manifest hash\<close>

definition buildDeliveryTaskSlotKey :: "(string \<Rightarrow> string) \<Rightarrow> delivery_task_plan \<Rightarrow> error + string" where
  "buildDeliveryTaskSlotKey sha input =
     bindE (normalizeDeliveryTaskPlan input) (\<lambda>p. hashCanonicalJson sha (JObj (plan_fields p)))"

definition compare_tasks :: "(string \<Rightarrow> string \<Rightarrow> int) \<Rightarrow> manifest_task \<Rightarrow> manifest_task \<Rightarrow> int" where
  "compare_tasks lc l r =
     (let c = lc (mt_slotKey l) (mt_slotKey r) in if c \<noteq> 0 then c else lc (mt_id l) (mt_id r))"

definition normalizeManifestTask :: "manifest_task \<Rightarrow> error + manifest_task" where
  "normalizeManifestTask task =
     bindE (normalizeDeliveryTaskPlan (as_plan task)) (\<lambda>p.
       Inr (normalized_task_plan.extend p (manifest_task.fields (mt_id task) (mt_slotKey task))))"

definition buildDeliveryManifestSnapshot ::
  "(string \<Rightarrow> int option) \<Rightarrow> (string \<Rightarrow> string \<Rightarrow> int) \<Rightarrow> manifest_context \<Rightarrow> manifest_task list
   \<Rightarrow> error + manifest_snapshot" where
  "buildDeliveryManifestSnapshot other lc context tasks =
     (if tasks = [] then Inl (PlainError ''A delivery manifest must contain at least one task'')
      else
      bindE (mapE normalizeManifestTask tasks) (\<lambda>normalized.
      let normalizedTasks = sort_cmp (compare_tasks lc) normalized in
      if card (set (map mt_slotKey normalizedTasks)) \<noteq> length normalizedTasks
      then Inl (PlainError ''A delivery manifest cannot contain duplicate task slots'')
      else
      bindE (normalizeDeliveryProtocol other (mc_protocol context)) (\<lambda>protocol.
      Inr
        \<lparr>mc_batch = mc_batch context, mc_scope = mc_scope context,
         mc_brand = (mc_brand context)
           \<lparr>br_additionalDomains := sort (br_additionalDomains (mc_brand context)),
            br_aliases := sort (br_aliases (mc_brand context))\<rparr>,
         mc_competitors =
           sort_cmp (\<lambda>l r. lc (co_id l) (co_id r))
             (map (\<lambda>c. c\<lparr>co_domains := sort (co_domains c), co_aliases := sort (co_aliases c)\<rparr>)
               (mc_competitors context)),
         mc_protocol = protocol, sn_schemaVersion = 1, sn_tasks = normalizedTasks\<rparr>)))"

definition buildDeliveryManifestHash :: "(string \<Rightarrow> string) \<Rightarrow> manifest_snapshot \<Rightarrow> error + string" where
  "buildDeliveryManifestHash sha snapshot = hashCanonicalJson sha (snapshot_json snapshot)"

subsection \<open>Coverage\<close>

text \<open>A ratio of counts is exact here; the code's is the nearest double.\<close>

record coverage_counts =
  cc_planned :: nat
  cc_available :: nat
  cc_claimed :: nat
  cc_succeeded :: nat
  cc_failed :: nat
  cc_cancelled :: nat
  cc_total :: nat
  cc_attempted :: nat
  cc_resolved :: nat
  cc_successCoverage :: "rat option"
  cc_completionCoverage :: "rat option"

record delivery_coverage =
  cov_overall :: coverage_counts
  cov_scored :: coverage_counts
  cov_observation :: coverage_counts

definition count_status :: "delivery_task_status \<Rightarrow> delivery_task_status list \<Rightarrow> nat" where
  "count_status st rows = length (filter (\<lambda>s. s = st) rows)"

definition summarizeDeliveryCoverageCounts :: "delivery_task_status list \<Rightarrow> coverage_counts" where
  "summarizeDeliveryCoverageCounts rows =
     (let succeeded = count_status TaskSucceeded rows;
          failed = count_status TaskFailed rows;
          cancelled = count_status TaskCancelled rows;
          total = length rows;
          attempted = succeeded + failed;
          resolved = attempted + cancelled
      in
      \<lparr>cc_planned = count_status TaskPlanned rows, cc_available = count_status TaskAvailable rows,
       cc_claimed = count_status TaskClaimed rows, cc_succeeded = succeeded, cc_failed = failed,
       cc_cancelled = cancelled, cc_total = total, cc_attempted = attempted, cc_resolved = resolved,
       cc_successCoverage = (if total = 0 then None else Some (of_nat succeeded / of_nat total)),
       cc_completionCoverage = (if total = 0 then None else Some (of_nat resolved / of_nat total))\<rparr>)"

definition summarizeDeliveryCoverage ::
  "(delivery_task_status \<times> delivery_evaluation_role) list \<Rightarrow> delivery_coverage" where
  "summarizeDeliveryCoverage rows =
     (let scored = summarizeDeliveryCoverageCounts (map fst (filter (\<lambda>r. snd r = RoleScored) rows));
          observation = summarizeDeliveryCoverageCounts (map fst (filter (\<lambda>r. snd r = RoleObservation) rows))
      in
      \<lparr>cov_overall = summarizeDeliveryCoverageCounts (map fst rows),
       cov_scored = scored, cov_observation = observation\<rparr>)"

subsection \<open>Sorting and mapping do not depend on the order of the input\<close>

lemma comparator_flip: "comparatorOK cmp \<Longrightarrow> cmp x y \<le> 0 \<Longrightarrow> cmp y x \<le> 0 \<Longrightarrow> cmp x y = 0"
  by (metis comparatorOK_def less_le not_le)

lemma cmp_sorted_unique:
  assumes "comparatorOK cmp"
  shows "cmp_sorted cmp xs \<Longrightarrow> cmp_sorted cmp ys \<Longrightarrow> mset xs = mset ys \<Longrightarrow>
    (\<And>x y. x \<in> set xs \<Longrightarrow> y \<in> set xs \<Longrightarrow> cmp x y = 0 \<Longrightarrow> x = y) \<Longrightarrow> xs = ys"
proof (induction xs arbitrary: ys)
  case Nil
  then show ?case by simp
next
  case (Cons x xs)
  obtain y zs where ys: "ys = y # zs" using Cons.prems(3) by (cases ys) auto
  have sets: "set (x # xs) = set (y # zs)" using Cons.prems(3) ys by (metis mset_eq_setD)
  have refl: "cmp x x \<le> 0" "cmp y y \<le> 0" using assms by (metis comparatorOK_def less_asym not_le)+
  have "cmp x y \<le> 0" using sets Cons.prems(1) refl by (auto simp: cmp_sorted_def)
  moreover have "cmp y x \<le> 0"
  proof -
    have "x \<in> set (y # zs)" using sets by auto
    then show ?thesis using Cons.prems(2) ys refl by (auto simp: cmp_sorted_def)
  qed
  ultimately have "x = y"
    using comparator_flip [OF assms] sets by (intro Cons.prems(4)) auto
  moreover have "xs = zs"
    using Cons ys \<open>x = y\<close> by (auto simp: cmp_sorted_def)
  ultimately show ?case using ys by simp
qed

lemma mset_insert_cmp: "mset (insert_cmp cmp x ys) = add_mset x (mset ys)"
  by (induction ys) auto

lemma mset_sort_cmp [simp]: "mset (sort_cmp cmp xs) = mset xs"
  by (induction xs) (auto simp: sort_cmp_def mset_insert_cmp)

lemma sort_cmp_perm:
  assumes "comparatorOK cmp" and "mset xs = mset ys"
    and "\<And>x y. x \<in> set xs \<Longrightarrow> y \<in> set xs \<Longrightarrow> cmp x y = 0 \<Longrightarrow> x = y"
  shows "sort_cmp cmp xs = sort_cmp cmp ys"
  using assms by (intro cmp_sorted_unique [OF assms(1)]) (auto simp: sort_cmp_sorted)

lemma mapE_perm:
  assumes "mapE f xs = Inr zs" and "mset xs = mset ys"
  shows "\<exists>ws. mapE f ys = Inr ws \<and> mset ws = mset zs"
proof -
  define g where "g x = (case f x of Inr y \<Rightarrow> y)" for x
  have ok: "\<forall>x \<in> set xs. f x = Inr (g x)" and zs: "zs = map g xs"
    using assms(1) by (auto simp: mapE_Inr_iff g_def list_all2_conv_all_nth in_set_conv_nth intro!: nth_equalityI)
  have "set ys = set xs" using assms(2) by (metis mset_eq_setD)
  with ok have "mapE f ys = Inr (map g ys)" by (auto simp: mapE_Inr_iff list_all2_conv_all_nth)
  moreover have "mset (map g ys) = mset zs" using assms(2) zs by simp
  ultimately show ?thesis by blast
qed

subsection \<open>Normal forms\<close>

lemma protocol_normal_form:
  assumes "normalizeDeliveryProtocol other p = Inr q"
  obtains s e where "pr_startsAt q = to_iso s" "pr_endsAt q = to_iso e" "s < e"
    "\<bar>s\<bar> \<le> 8640000000000000" "\<bar>e\<bar> \<le> 8640000000000000"
    "date_parse other (pr_startsAt p) = Some s" "date_parse other (pr_endsAt p) = Some e"
    "0 \<le> ev_minimumArtifacts (pr_evidence q)" "safe_int (ev_minimumArtifacts (pr_evidence q))"
    "sorted (ev_allowedUriSchemes (pr_evidence q))" "distinct (ev_allowedUriSchemes (pr_evidence q))"
    "\<forall>s \<in> set (ev_allowedUriSchemes (pr_evidence q)). s = ''http'' \<or> s = ''https''"
proof -
  obtain s e where se: "date_parse other (pr_startsAt p) = Some s" "date_parse other (pr_endsAt p) = Some e"
    "s < e" and q: "q = \<lparr>pr_startsAt = to_iso s, pr_endsAt = to_iso e, pr_evidence =
      (pr_evidence p)\<lparr>ev_allowedUriSchemes := sort (remdups (ev_allowedUriSchemes (pr_evidence p)))\<rparr>,
      pr_notes = pr_notes p\<rparr>"
    and ok: "0 \<le> ev_minimumArtifacts (pr_evidence p)" "safe_int (ev_minimumArtifacts (pr_evidence p))"
      "\<forall>s \<in> set (ev_allowedUriSchemes (pr_evidence p)). s = ''http'' \<or> s = ''https''"
    using assms
    by (auto simp: normalizeDeliveryProtocol_def parseProtocolInstant_def thrown_simps Let_def list_ex_iff
        not_le not_less split: if_splits)
  show ?thesis
    by (rule that [of s e]) (use se q ok in \<open>auto dest: date_parse_range\<close>)
qed
text \<open>
  Normalising a delivery protocol is idempotent: the stored protocol is read back as itself,
  whatever the engine makes of date strings outside the ISO form.
\<close>

theorem normalizeDeliveryProtocol_idem:
  assumes "normalizeDeliveryProtocol other p = Inr q"
  shows "normalizeDeliveryProtocol other q = Inr q"
proof -
  obtain s e where n: "pr_startsAt q = to_iso s" "pr_endsAt q = to_iso e" "s < e"
    "\<bar>s\<bar> \<le> 8640000000000000" "\<bar>e\<bar> \<le> 8640000000000000"
    "0 \<le> ev_minimumArtifacts (pr_evidence q)" "safe_int (ev_minimumArtifacts (pr_evidence q))"
    "sorted (ev_allowedUriSchemes (pr_evidence q))" "distinct (ev_allowedUriSchemes (pr_evidence q))"
    "\<forall>s \<in> set (ev_allowedUriSchemes (pr_evidence q)). s = ''http'' \<or> s = ''https''"
    by (rule protocol_normal_form [OF assms])
  then show ?thesis
    by (simp add: normalizeDeliveryProtocol_def parseProtocolInstant_def date_parse_to_iso Let_def
        distinct_remdups_id sorted_sort_id list_ex_iff not_le)
qed

theorem normalizeDeliveryProtocol_idem_witness:
  "\<exists>q. normalizeDeliveryProtocol (\<lambda>_. None)
      \<lparr>pr_startsAt = ''2026-08-22T01:00:00.000Z'', pr_endsAt = ''2026-08-23T01:00:00.000Z'',
       pr_evidence = \<lparr>ev_minimumArtifacts = 1, ev_requireSha256 = True, ev_requirePageUrl = True,
         ev_allowedUriSchemes = [''https'', ''http'', ''https'']\<rparr>, pr_notes = None\<rparr> = Inr q \<and>
    ev_allowedUriSchemes (pr_evidence q) = [''http'', ''https''] \<and>
    normalizeDeliveryProtocol (\<lambda>_. None) q = Inr q"
proof -
  define p where "p = \<lparr>pr_startsAt = ''2026-08-22T01:00:00.000Z'', pr_endsAt = ''2026-08-23T01:00:00.000Z'',
       pr_evidence = \<lparr>ev_minimumArtifacts = 1, ev_requireSha256 = True, ev_requirePageUrl = True,
         ev_allowedUriSchemes = [''https'', ''http'', ''https'']\<rparr>, pr_notes = None\<rparr>"
  have "case normalizeDeliveryProtocol (\<lambda>_. None) p of Inl _ \<Rightarrow> False
      | Inr q \<Rightarrow> ev_allowedUriSchemes (pr_evidence q) = [''http'', ''https'']"
    unfolding p_def by code_simp
  then obtain q where "normalizeDeliveryProtocol (\<lambda>_. None) p = Inr q"
    "ev_allowedUriSchemes (pr_evidence q) = [''http'', ''https'']"
    by (cases "normalizeDeliveryProtocol (\<lambda>_. None) p") auto
  with normalizeDeliveryProtocol_idem show ?thesis unfolding p_def by blast
qed

subsection \<open>Canonical JSON\<close>

text \<open>Canonical JSON does not depend on the order in which an object's fields were written.\<close>

theorem canonicalJson_field_order:
  assumes "distinct (map fst kvs)" and "mset kvs' = mset kvs"
  shows "canonicalJson (JObj kvs') = canonicalJson (JObj kvs)"
proof -
  have inj: "inj_on fst (set kvs')"
    using assms by (metis distinct_map mset_eq_setD)
  have "sort_key fst kvs' = sort_key fst kvs"
    by (rule sort_key_inj_key_eq [OF _ inj]) (simp_all add: assms(2))
  then show ?thesis by simp
qed

theorem canonicalJson_field_order_witness:
  "distinct (map fst [(''b'', JNum 1), (''a'', JNull)]) \<and>
   canonicalJson (JObj [(''a'', JNull), (''b'', JNum 1)]) = canonicalJson (JObj [(''b'', JNum 1), (''a'', JNull)])"
  using canonicalJson_field_order [of "[(''b'', JNum 1), (''a'', JNull)]" "[(''a'', JNull), (''b'', JNum 1)]"]
  by simp

subsection \<open>The snapshot\<close>

text \<open>
  What is asked of \<open>localeCompare\<close>: it is a consistent comparator, and it tells apart two different
  lowercase hexadecimal digests.
\<close>

definition locale_compare_spec :: "(string \<Rightarrow> string \<Rightarrow> int) \<Rightarrow> bool" where
  "locale_compare_spec lc \<longleftrightarrow>
     comparatorOK lc \<and> (\<forall>a b. hex64 a \<longrightarrow> hex64 b \<longrightarrow> lc a b = 0 \<longrightarrow> a = b)"

lemma comparatorOK_compare_tasks:
  assumes "comparatorOK lc"
  shows "comparatorOK (compare_tasks lc)"
proof -
  have flip: "(lc a b > 0) = (lc b a < 0)" for a b
    using assms by (simp add: comparatorOK_def)
  have trans: "lc a b \<le> 0 \<Longrightarrow> lc b c \<le> 0 \<Longrightarrow> lc a c \<le> 0" for a b c
    using assms unfolding comparatorOK_def by blast
  have zero: "lc a b = 0 \<Longrightarrow> lc b a = 0" for a b
    using flip [of a b] flip [of b a] by linarith
  have z2: "lc a c = 0 \<Longrightarrow> lc a b \<le> 0 \<Longrightarrow> lc b c \<le> 0 \<Longrightarrow> lc a b = 0 \<and> lc b c = 0" for a b c
    by (metis comparator_flip [OF assms] order_refl trans zero)
  have le: "compare_tasks lc x y \<le> 0 \<longleftrightarrow> lc (mt_slotKey x) (mt_slotKey y) < 0 \<or>
      lc (mt_slotKey x) (mt_slotKey y) = 0 \<and> lc (mt_id x) (mt_id y) \<le> 0" for x y
    by (auto simp: compare_tasks_def Let_def)
  have tr: "compare_tasks lc x z \<le> 0" if xy: "compare_tasks lc x y \<le> 0" and yz: "compare_tasks lc y z \<le> 0" for x y z
  proof -
    have s: "lc (mt_slotKey x) (mt_slotKey y) \<le> 0" "lc (mt_slotKey y) (mt_slotKey z) \<le> 0"
      using xy yz by (auto simp: le)
    show ?thesis
    proof (cases "lc (mt_slotKey x) (mt_slotKey z) = 0")
      case True
      with z2 s have "lc (mt_slotKey x) (mt_slotKey y) = 0" "lc (mt_slotKey y) (mt_slotKey z) = 0" by blast+
      with xy yz True trans show ?thesis by (auto simp: le)
    next
      case False
      with trans [OF s] show ?thesis by (simp add: le)
    qed
  qed
  have fl: "(compare_tasks lc x y > 0) = (compare_tasks lc y x < 0)" for x y
    using flip [of "mt_slotKey x" "mt_slotKey y"] flip [of "mt_id x" "mt_id y"]
      zero [of "mt_slotKey x" "mt_slotKey y"] zero [of "mt_slotKey y" "mt_slotKey x"]
    by (simp add: compare_tasks_def Let_def)
  show ?thesis using tr fl unfolding comparatorOK_def by blast
qed

lemma compare_tasks_zero:
  assumes "locale_compare_spec lc" and "distinct (map mt_slotKey ts)"
    and "\<forall>t \<in> set ts. hex64 (mt_slotKey t)" and "x \<in> set ts" and "y \<in> set ts"
    and "compare_tasks lc x y = 0"
  shows "x = y"
proof -
  have "mt_slotKey x = mt_slotKey y"
    using assms unfolding locale_compare_spec_def compare_tasks_def Let_def by metis
  with assms(2,4,5) show ?thesis by (auto simp: distinct_map dest: inj_onD)
qed

lemma mapE_set: "mapE f xs = Inr ys \<Longrightarrow> y \<in> set ys \<Longrightarrow> \<exists>x \<in> set xs. f x = Inr y"
  by (induction xs arbitrary: ys) (auto simp: thrown_simps)

text \<open>
  C16: the frozen manifest does not depend on the order in which the database returns the tasks, so
  neither does its hash.
\<close>

theorem manifest_snapshot_order_independent:
  assumes lc: "locale_compare_spec lc" and hex: "\<forall>t \<in> set tasks. hex64 (mt_slotKey t)"
    and ok: "buildDeliveryManifestSnapshot other lc context tasks = Inr s"
    and perm: "mset tasks' = mset tasks"
  shows "buildDeliveryManifestSnapshot other lc context tasks' = Inr s"
proof -
  obtain ns where ns: "mapE normalizeManifestTask tasks = Inr ns"
    and card: "card (set (map mt_slotKey ns)) = length ns" and ne: "tasks \<noteq> []"
    using ok by (auto simp: buildDeliveryManifestSnapshot_def thrown_simps Let_def split: if_splits)
  obtain ns' where ns': "mapE normalizeManifestTask tasks' = Inr ns'" and m: "mset ns' = mset ns"
    using mapE_perm [OF ns] perm by metis
  have slot: "mt_slotKey y = mt_slotKey x" if "normalizeManifestTask x = Inr y" for x y
    using that by (auto simp: normalizeManifestTask_def thrown_simps normalized_task_plan.defs manifest_task.defs)
  have "\<forall>t \<in> set ns. hex64 (mt_slotKey t)"
    using mapE_set [OF ns] hex slot by metis
  moreover have "distinct (map mt_slotKey ns)"
    using card by (intro card_distinct) simp
  ultimately have sorts: "sort_cmp (compare_tasks lc) ns' = sort_cmp (compare_tasks lc) ns"
    using lc m by (intro sort_cmp_perm [symmetric] comparatorOK_compare_tasks)
      (auto simp: locale_compare_spec_def intro: compare_tasks_zero [OF lc])
  have ne': "tasks' \<noteq> []" using ne perm by auto
  show ?thesis
    using ok unfolding buildDeliveryManifestSnapshot_def ns ns' bindE_simps Let_def sorts
      if_not_P [OF ne] if_not_P [OF ne'] .
qed

text \<open>Comparison by code units satisfies the specification.\<close>

definition code_unit_compare :: "string \<Rightarrow> string \<Rightarrow> int" where
  "code_unit_compare a b = (if a < b then - 1 else if a = b then 0 else 1)"

lemma code_unit_compare_spec: "locale_compare_spec code_unit_compare"
  by (auto simp: locale_compare_spec_def comparatorOK_def code_unit_compare_def split: if_splits)

definition example_task :: "char \<Rightarrow> manifest_task" where
  "example_task c =
     \<lparr>pl_brandId = ''b'', pl_scopeId = ''s'', pl_promptId = [c], pl_promptText = ''which'',
      pl_surfaceTargetKey = ''kimi.consumer_web'', pl_captureRouteKey = ''browser_extension.kimi'',
      pl_sampleIndex = 1, pl_sessionRequirement = SessionNone, pl_searchRequirement = SearchRequired,
      np_evaluationRole = RoleScored, mt_id = [c], mt_slotKey = replicate 64 c\<rparr>"

definition example_context :: manifest_context where
  "example_context =
     \<lparr>mc_batch = \<lparr>mb_id = ''1'', mb_brandId = ''b'', mb_scopeId = ''s'', mb_idempotencyKey = ''k'', mb_name = ''n''\<rparr>,
      mc_scope = \<lparr>ms_id = ''s'', ms_key = ''k'', ms_name = ''n'', ms_market = ''CN'', ms_locale = ''zh-CN'',
        ms_timezone = ''Asia/Shanghai''\<rparr>,
      mc_brand = \<lparr>br_id = ''b'', br_name = ''B'', br_website = ''w'', br_additionalDomains = [], br_aliases = []\<rparr>,
      mc_competitors = [],
      mc_protocol = \<lparr>pr_startsAt = ''2026-08-22T01:00:00.000Z'', pr_endsAt = ''2026-08-23T01:00:00.000Z'',
       pr_evidence = \<lparr>ev_minimumArtifacts = 1, ev_requireSha256 = True, ev_requirePageUrl = True,
         ev_allowedUriSchemes = [''https'']\<rparr>, pr_notes = None\<rparr>\<rparr>"

theorem manifest_snapshot_order_independent_witness:
  "\<exists>s. buildDeliveryManifestSnapshot (\<lambda>_. None) code_unit_compare example_context
        [example_task CHR ''a'', example_task CHR ''b''] = Inr s \<and>
      buildDeliveryManifestSnapshot (\<lambda>_. None) code_unit_compare example_context
        [example_task CHR ''b'', example_task CHR ''a''] = Inr s"
proof -
  have "case buildDeliveryManifestSnapshot (\<lambda>_. None) code_unit_compare example_context
        [example_task CHR ''a'', example_task CHR ''b''] of Inl _ \<Rightarrow> False | Inr _ \<Rightarrow> True"
    by code_simp
  then obtain s where s: "buildDeliveryManifestSnapshot (\<lambda>_. None) code_unit_compare example_context
        [example_task CHR ''a'', example_task CHR ''b''] = Inr s"
    by (auto split: sum.splits)
  have hex: "\<forall>t \<in> set [example_task CHR ''a'', example_task CHR ''b'']. hex64 (mt_slotKey t)"
    by (simp add: example_task_def hex64_def hex_char_def list_all_iff)
  show ?thesis
    using s manifest_snapshot_order_independent [OF code_unit_compare_spec hex s,
        of "[example_task CHR ''b'', example_task CHR ''a'']"] by (auto simp: add_mset_commute)
qed

lemma count_status_total:
  "count_status TaskPlanned xs + count_status TaskAvailable xs + count_status TaskClaimed xs +
   count_status TaskSucceeded xs + count_status TaskFailed xs + count_status TaskCancelled xs = length xs"
proof (induction xs)
  case (Cons x xs)
  then show ?case by (cases x) (simp_all add: count_status_def)
qed (simp add: count_status_def)

lemma count_status_split:
  "count_status st (map fst rows) =
   count_status st (map fst (filter (\<lambda>r. snd r = RoleScored) rows)) +
   count_status st (map fst (filter (\<lambda>r. snd r = RoleObservation) rows))"
proof (induction rows)
  case (Cons r rows)
  then show ?case by (cases "snd r") (simp_all add: count_status_def)
qed (simp add: count_status_def)

lemma coverage_ratio: "m \<le> n \<Longrightarrow> 0 < n \<Longrightarrow> 0 \<le> (of_nat m / of_nat n :: rat) \<and> (of_nat m / of_nat n :: rat) \<le> 1"
  by (simp add: divide_le_eq_1)

text \<open>
  The coverage counts partition the tasks: every task is in one status count, scored and
  observation tasks add up to the overall counts, and the two ratios lie between 0 and 1 with the
  success ratio the smaller one.
\<close>

theorem coverage_partition:
  "let c = cov_overall (summarizeDeliveryCoverage rows);
       s = cov_scored (summarizeDeliveryCoverage rows);
       b = cov_observation (summarizeDeliveryCoverage rows) in
   cc_planned c + cc_available c + cc_claimed c + cc_resolved c = cc_total c \<and>
   cc_total c = length rows \<and>
   cc_succeeded c = cc_succeeded s + cc_succeeded b \<and> cc_resolved c = cc_resolved s + cc_resolved b \<and>
   (case (cc_successCoverage c, cc_completionCoverage c) of
      (Some x, Some y) \<Rightarrow> 0 \<le> x \<and> x \<le> y \<and> y \<le> 1
    | (None, None) \<Rightarrow> rows = []
    | _ \<Rightarrow> False)"
proof -
  have le: "count_status TaskSucceeded (map fst rows) + count_status TaskFailed (map fst rows) +
      count_status TaskCancelled (map fst rows) \<le> length rows"
    using count_status_total [of "map fst rows"] by simp
  show ?thesis
    using count_status_total [of "map fst rows"] le
      coverage_ratio [OF le] count_status_split [of _ rows]
    by (auto simp: summarizeDeliveryCoverage_def summarizeDeliveryCoverageCounts_def Let_def
        divide_right_mono)
qed

end
