(* ===== verification/Schema.thy ===== *)
theory Schema
  imports Manifest
begin

text \<open>
  The tables the delivery code works on (\<open>packages/lib/src/db/schema.ts\<close>) with the rules
  PostgreSQL enforces on them: the CHECK constraints of the schema, and the row triggers of
  \<open>migrations/0016_delivery_manifests.sql\<close> and \<open>migrations/0020_browser_runner_state.sql\<close>.
  A table is the list of its rows; a timestamp is a number of milliseconds; a nullable column is
  an option. \<open>updatedAt\<close>, which the mapper writes on every update and no operation reads, is left
  out, as are the row-level security flags and the indexes that only speed a query up.
\<close>

subsection \<open>Rows\<close>

datatype execution_mode = ModeManual | ModeBrowserRunner

datatype runner_batch_status = RunnerNotStarted | RunnerRunning | RunnerNeedsHuman | RunnerSettled

datatype runner_task_status = AutoQueued | AutoRunning | AutoNeedsHuman | AutoCompleted

datatype observation_status = ObsPending | ObsRunning | ObsSucceeded | ObsFailed | ObsCancelled

datatype artifact_kind = Screenshot | PageSnapshot

definition artifact_kind_text :: "artifact_kind \<Rightarrow> string" where
  "artifact_kind_text k = (case k of Screenshot \<Rightarrow> ''screenshot'' | PageSnapshot \<Rightarrow> ''page_snapshot'')"

record delivery_batch =
  b_id :: string
  b_brandId :: string
  b_scopeId :: string
  b_idempotencyKey :: string
  b_name :: string
  b_status :: delivery_batch_status
  b_executionMode :: execution_mode
  b_automationStatus :: "runner_batch_status option"
  b_automationStartedAt :: "int option"
  b_automationSettledAt :: "int option"
  b_plannedTaskCount :: int
  b_protocol :: delivery_protocol
  b_manifestSnapshot :: "manifest_snapshot option"
  b_manifestHash :: "string option"
  b_createdBy :: "string option"
  b_frozenBy :: "string option"
  b_cancelledBy :: "string option"
  b_frozenAt :: "int option"
  b_startedAt :: "int option"
  b_completedAt :: "int option"
  b_cancelledAt :: "int option"
  b_createdAt :: int

text \<open>A task row extends the plan it was made from.\<close>

record delivery_task = normalized_task_plan +
  t_id :: string
  t_batchId :: string
  t_slotKey :: string
  t_status :: delivery_task_status
  t_automationStatus :: "runner_task_status option"
  t_automationAttemptCount :: int
  t_runnerSessionId :: "string option"
  t_submitIntentAt :: "int option"
  t_submitConfirmedAt :: "int option"
  t_needsHumanCode :: "string option"
  t_needsHumanReason :: "string option"
  t_observationAttemptId :: "string option"
  t_claimedBy :: "string option"
  t_leaseTokenHash :: "string option"
  t_leaseGeneration :: int
  t_leaseExpiresAt :: "int option"
  t_claimCount :: int
  t_lastErrorClass :: "string option"
  t_lastErrorCode :: "string option"
  t_lastErrorMessage :: "string option"
  t_availableAt :: "int option"
  t_claimedAt :: "int option"
  t_succeededAt :: "int option"
  t_failedAt :: "int option"
  t_cancelledAt :: "int option"
  t_createdAt :: int

record observation_attempt =
  oa_id :: string
  oa_brandId :: string
  oa_scopeId :: string
  oa_promptId :: string
  oa_promptText :: string
  oa_surfaceTargetKey :: string
  oa_captureRouteKey :: string
  oa_sampleIndex :: int
  oa_status :: observation_status

record scope_row = measurement_scope +
  sc_brandId :: string

record competitor_row = manifest_competitor +
  cr_brandId :: string

record prompt_row =
  pm_id :: string
  pm_brandId :: string
  pm_scopeId :: string
  pm_value :: string
  pm_enabled :: bool

record database =
  d_batches :: "delivery_batch list"
  d_tasks :: "delivery_task list"
  d_scopes :: "scope_row list"
  d_brands :: "manifest_brand list"
  d_competitors :: "competitor_row list"
  d_prompts :: "prompt_row list"
  d_attempts :: "observation_attempt list"

subsection \<open>Lookups\<close>

definition batch_by_id :: "database \<Rightarrow> string \<Rightarrow> delivery_batch option" where
  "batch_by_id db i = find (\<lambda>b. b_id b = i) (d_batches db)"

definition task_by_id :: "database \<Rightarrow> string \<Rightarrow> delivery_task option" where
  "task_by_id db i = find (\<lambda>t. t_id t = i) (d_tasks db)"

definition attempt_by_id :: "database \<Rightarrow> string \<Rightarrow> observation_attempt option" where
  "attempt_by_id db i = find (\<lambda>a. oa_id a = i) (d_attempts db)"

definition batch_tasks :: "database \<Rightarrow> string \<Rightarrow> delivery_task list" where
  "batch_tasks db i = filter (\<lambda>t. t_batchId t = i) (d_tasks db)"

subsection \<open>CHECK constraints\<close>

definition terminal_status :: "delivery_task_status \<Rightarrow> bool" where
  "terminal_status s \<longleftrightarrow> s = TaskSucceeded \<or> s = TaskFailed \<or> s = TaskCancelled"

text \<open>
  A CHECK rejects a row only when its condition is false, not when it is NULL. With
  \<open>automation_status\<close> NULL the comparison in each of the other four cases is NULL, so the row
  passes as soon as the rest of one of them holds.
\<close>

definition automation_case :: "delivery_task \<Rightarrow> runner_task_status \<Rightarrow> bool" where
  "automation_case t s =
     (case s of
        AutoQueued \<Rightarrow>
          (t_status t = TaskPlanned \<or> t_status t = TaskAvailable) \<and> t_leaseTokenHash t = None \<and>
          t_leaseExpiresAt t = None \<and> t_runnerSessionId t = None \<and> t_submitIntentAt t = None \<and>
          t_submitConfirmedAt t = None \<and> t_needsHumanCode t = None \<and> t_needsHumanReason t = None
      | AutoRunning \<Rightarrow>
          t_status t = TaskClaimed \<and> t_leaseTokenHash t \<noteq> None \<and> t_leaseExpiresAt t \<noteq> None
      | AutoNeedsHuman \<Rightarrow>
          t_status t = TaskAvailable \<and> t_leaseTokenHash t = None \<and> t_leaseExpiresAt t = None \<and>
          t_needsHumanCode t \<noteq> None \<and> t_needsHumanReason t \<noteq> None
      | AutoCompleted \<Rightarrow> terminal_status (t_status t))"

definition automation_state_consistent :: "delivery_task \<Rightarrow> bool" where
  "automation_state_consistent t =
     (case t_automationStatus t of
        Some s \<Rightarrow> automation_case t s
      | None \<Rightarrow>
          (t_automationAttemptCount t = 0 \<and> t_runnerSessionId t = None \<and> t_submitIntentAt t = None \<and>
           t_submitConfirmedAt t = None \<and> t_needsHumanCode t = None \<and> t_needsHumanReason t = None) \<or>
          list_ex (automation_case t) [AutoQueued, AutoRunning, AutoNeedsHuman, AutoCompleted])"

definition runner_session_state_consistent :: "delivery_task \<Rightarrow> bool" where
  "runner_session_state_consistent t =
     (case t_runnerSessionId t of
        None \<Rightarrow> t_submitIntentAt t = None \<and> t_submitConfirmedAt t = None
      | Some s \<Rightarrow> 1 \<le> length s \<and> length s \<le> 300 \<and> t_submitIntentAt t \<noteq> None)"

definition lease_state_consistent :: "delivery_task \<Rightarrow> bool" where
  "lease_state_consistent t =
     (if t_status t = TaskClaimed
      then t_claimedBy t \<noteq> None \<and> t_leaseTokenHash t \<noteq> None \<and> t_leaseExpiresAt t \<noteq> None \<and>
           t_claimedAt t \<noteq> None
      else t_leaseTokenHash t = None \<and> t_leaseExpiresAt t = None)"

definition terminal_state_consistent :: "delivery_task \<Rightarrow> bool" where
  "terminal_state_consistent t =
     (if t_status t = TaskSucceeded then
        t_observationAttemptId t \<noteq> None \<and> t_succeededAt t \<noteq> None \<and> t_failedAt t = None \<and> t_cancelledAt t = None
      else if t_status t = TaskFailed then
        t_succeededAt t = None \<and> t_failedAt t \<noteq> None \<and> t_cancelledAt t = None
      else if t_status t = TaskCancelled then
        t_succeededAt t = None \<and> t_failedAt t = None \<and> t_cancelledAt t \<noteq> None
      else t_succeededAt t = None \<and> t_failedAt t = None \<and> t_cancelledAt t = None)"

text \<open>The column types bound the counters: \<open>smallint\<close> and \<open>integer\<close>.\<close>

definition task_counters_in_range :: "delivery_task \<Rightarrow> bool" where
  "task_counters_in_range t \<longleftrightarrow>
     0 < pl_sampleIndex t \<and> pl_sampleIndex t \<le> 32767 \<and>
     0 \<le> t_claimCount t \<and> t_claimCount t \<le> 32767 \<and>
     0 \<le> t_automationAttemptCount t \<and> t_automationAttemptCount t \<le> 32767 \<and>
     0 \<le> t_leaseGeneration t \<and> t_leaseGeneration t \<le> 2147483647"

definition task_row_ok :: "delivery_task \<Rightarrow> bool" where
  "task_row_ok t \<longleftrightarrow>
     task_counters_in_range t \<and> automation_state_consistent t \<and> runner_session_state_consistent t \<and>
     lease_state_consistent t \<and> terminal_state_consistent t"

definition batch_row_ok :: "delivery_batch \<Rightarrow> bool" where
  "batch_row_ok b \<longleftrightarrow>
     ((b_executionMode b = ModeManual \<and> b_automationStatus b = None \<and> b_automationStartedAt b = None \<and>
       b_automationSettledAt b = None) \<or>
      (b_executionMode b = ModeBrowserRunner \<and> b_automationStatus b \<noteq> None)) \<and>
     0 \<le> b_plannedTaskCount b \<and> b_plannedTaskCount b \<le> 2147483647 \<and>
     (b_status b = BatchDraft \<or> b_status b = BatchCancelled \<or>
      (b_plannedTaskCount b > 0 \<and> b_manifestSnapshot b \<noteq> None \<and> b_manifestHash b \<noteq> None \<and>
       b_frozenAt b \<noteq> None))"

end
