(* ===== verification/RunnerPolicy.thy ===== *)
theory RunnerPolicy
  imports Surfaces Schema
begin

text \<open>
  The decisions of the browser runner (\<open>packages/lib/src/browser-runner-policy.ts\<close>), pure
  functions of a task's columns: who may resume, what a failure leads to, what state a task is in
  for a runner that reconnects, when a batch settles and how an unresolved task is disposed of.
  A \<open>Date\<close> argument that may be invalid is an option; elsewhere a date is its time value.
\<close>

definition BROWSER_RUNNER_MAX_PRE_SUBMIT_ATTEMPTS :: int where
  "BROWSER_RUNNER_MAX_PRE_SUBMIT_ATTEMPTS = 2"
definition BROWSER_RUNNER_SAFE_TRANSPORT_RECOVERY_CODE :: string where
  "BROWSER_RUNNER_SAFE_TRANSPORT_RECOVERY_CODE = ''broker_create_transport_failure''"
definition BROWSER_RUNNER_DEDICATED_PROFILE_BUSY_CODE :: string where
  "BROWSER_RUNNER_DEDICATED_PROFILE_BUSY_CODE = ''dedicated_profile_busy''"
definition BROWSER_RUNNER_SAFE_TRANSPORT_RECOVERY_ATTEMPT_COUNT :: int where
  "BROWSER_RUNNER_SAFE_TRANSPORT_RECOVERY_ATTEMPT_COUNT = 1"
definition BROWSER_RUNNER_RETRYABLE_PRE_SUBMIT_CODES :: "string list" where
  "BROWSER_RUNNER_RETRYABLE_PRE_SUBMIT_CODES =
     [''navigation_timeout'', ''page_load_timeout'', ''network_transient'', ''browser_crash_before_submit'']"

subsection \<open>Operations of an extension\<close>

datatype extension_operation =
    OpResume "string option" | OpHeartbeat "string option" | OpSubmitIntent "string option"
  | OpSubmitConfirmed "string option" | OpEvidence "string option" | OpComplete string

fun operation_adapterVersion :: "extension_operation \<Rightarrow> string option" where
  "operation_adapterVersion (OpResume v) = v"
| "operation_adapterVersion (OpHeartbeat v) = v"
| "operation_adapterVersion (OpSubmitIntent v) = v"
| "operation_adapterVersion (OpSubmitConfirmed v) = v"
| "operation_adapterVersion (OpEvidence v) = v"
| "operation_adapterVersion (OpComplete v) = Some v"

datatype operation_denial = SurfaceNotReady | AdapterVersionNotApproved

text \<open>The injected dependency of the source is the first argument.\<close>

definition browserExtensionTaskOperationDenial ::
  "(string \<Rightarrow> string option \<Rightarrow> bool) option \<Rightarrow> string \<Rightarrow> string list \<Rightarrow> extension_operation
   \<Rightarrow> operation_denial option" where
  "browserExtensionTaskOperationDenial dependency surfaceTargetKey readySurfaces operation =
     (if \<not> isBrowserExtensionSurface surfaceTargetKey \<or> \<not> List.member readySurfaces surfaceTargetKey
      then Some SurfaceNotReady
      else
      let satisfied = (case dependency of Some f \<Rightarrow> f
                       | None \<Rightarrow> isCurrentBrowserExtensionAdapterVersionBindingSatisfied) in
      if \<not> satisfied surfaceTargetKey (operation_adapterVersion operation)
      then Some AdapterVersionNotApproved
      else None)"

subsection \<open>Recovery candidates\<close>

definition isSafePreSubmitBrokerTransportRecoveryCandidate :: "delivery_task \<Rightarrow> bool" where
  "isSafePreSubmitBrokerTransportRecoveryCandidate input \<longleftrightarrow>
     t_status input = TaskAvailable \<and>
     t_automationStatus input = Some AutoNeedsHuman \<and>
     t_automationAttemptCount input = BROWSER_RUNNER_SAFE_TRANSPORT_RECOVERY_ATTEMPT_COUNT \<and>
     t_claimCount input = BROWSER_RUNNER_SAFE_TRANSPORT_RECOVERY_ATTEMPT_COUNT \<and>
     t_submitIntentAt input = None \<and>
     t_submitConfirmedAt input = None \<and>
     t_observationAttemptId input = None \<and>
     t_needsHumanCode input = Some BROWSER_RUNNER_SAFE_TRANSPORT_RECOVERY_CODE \<and>
     t_lastErrorCode input = Some BROWSER_RUNNER_SAFE_TRANSPORT_RECOVERY_CODE"

definition isSafePreSubmitDedicatedProfileBusyRecoveryCandidate :: "delivery_task \<Rightarrow> bool" where
  "isSafePreSubmitDedicatedProfileBusyRecoveryCandidate input \<longleftrightarrow>
     t_status input = TaskAvailable \<and>
     t_automationStatus input = Some AutoNeedsHuman \<and>
     t_automationAttemptCount input = 1 \<and>
     t_claimCount input = 1 \<and>
     t_submitIntentAt input = None \<and>
     t_submitConfirmedAt input = None \<and>
     t_observationAttemptId input = None \<and>
     t_needsHumanCode input = Some BROWSER_RUNNER_DEDICATED_PROFILE_BUSY_CODE \<and>
     t_lastErrorCode input = Some BROWSER_RUNNER_DEDICATED_PROFILE_BUSY_CODE"

definition isBrowserRunnerCnScope :: "('a) measurement_scope_scheme \<Rightarrow> bool" where
  "isBrowserRunnerCnScope input \<longleftrightarrow>
     ms_market input = ''CN'' \<and> ms_locale input = ''zh-CN'' \<and> ms_timezone input = ''Asia/Shanghai''"

definition assertBrowserRunnerEvidenceProtocol :: "int \<Rightarrow> string list option \<Rightarrow> error + unit" where
  "assertBrowserRunnerEvidenceProtocol minimumArtifacts routes =
     (let captureRouteKeys = (case routes of None \<Rightarrow> [''browser_runner.doubao''] | Some r \<Rightarrow> r);
          hasLegacy = List.member captureRouteKeys ''browser_runner.doubao'';
          hasExtension = list_ex isBrowserExtensionCaptureRoute captureRouteKeys
      in
      if hasLegacy \<and> hasExtension
      then Inl (PlainError ''Browser Runner batches cannot mix legacy and extension evidence protocols'')
      else if hasExtension then
        (if list_ex (\<lambda>r. \<not> isBrowserExtensionCaptureRoute r) captureRouteKeys \<or> minimumArtifacts \<noteq> 1
         then Inl (PlainError ''Browser extension batches require exactly one page snapshot'')
         else Inr ())
      else if \<not> hasLegacy \<or> list_ex (\<lambda>r. r \<noteq> ''browser_runner.doubao'') captureRouteKeys \<or> minimumArtifacts \<noteq> 2
      then Inl (PlainError ''Browser Runner batches require exactly two evidence artifacts (screenshot and page snapshot)'')
      else Inr ())"

datatype portal_action = PortalSubmit | PortalRelease

definition assertPortalBrowserRunnerMutationAllowed ::
  "string \<Rightarrow> int option \<Rightarrow> portal_action \<Rightarrow> error + unit" where
  "assertPortalBrowserRunnerMutationAllowed captureRouteKey submitIntentAt action =
     (if (captureRouteKey = ''browser_runner.doubao'' \<or> isBrowserExtensionCaptureRoute captureRouteKey) \<and>
         submitIntentAt \<noteq> None
      then Inl (PlainError (''Post-submit Browser Runner tasks cannot be '' @
             (case action of PortalSubmit \<Rightarrow> ''submitted'' | PortalRelease \<Rightarrow> ''released'') @
             '' from the portal; resume the original runner session or finalize a terminal failure''))
      else Inr ())"

subsection \<open>Failures\<close>

datatype runner_stage = PreSubmit | PostSubmit

datatype failure_decision = RetryTask | HandToHuman

definition decideBrowserRunnerFailure ::
  "runner_stage \<Rightarrow> string \<Rightarrow> int \<Rightarrow> int option \<Rightarrow> int option \<Rightarrow> failure_decision" where
  "decideBrowserRunnerFailure stage code automationAttemptCount submitIntentAt submitConfirmedAt =
     (if stage = PreSubmit \<and>
         List.member BROWSER_RUNNER_RETRYABLE_PRE_SUBMIT_CODES (js_lower (js_trim code)) \<and>
         submitIntentAt = None \<and> submitConfirmedAt = None \<and>
         automationAttemptCount < BROWSER_RUNNER_MAX_PRE_SUBMIT_ATTEMPTS
      then RetryTask else HandToHuman)"

definition expiredBrowserRunnerClaimNeedsHuman ::
  "delivery_task_status \<Rightarrow> runner_task_status option \<Rightarrow> bool" where
  "expiredBrowserRunnerClaimNeedsHuman deliveryStatus automationStatus \<longleftrightarrow>
     deliveryStatus = TaskClaimed \<and> automationStatus = Some AutoRunning"

definition deriveBrowserRunnerBatchStatus :: "runner_task_status option list \<Rightarrow> runner_batch_status" where
  "deriveBrowserRunnerBatchStatus states =
     (if list_ex (\<lambda>s. s = Some AutoQueued \<or> s = Some AutoRunning) states then RunnerRunning
      else if list_ex (\<lambda>s. s = Some AutoNeedsHuman) states then RunnerNeedsHuman
      else RunnerSettled)"

datatype result_status = ResultProvisional | ResultFinal | ResultIncomplete

definition deriveBrowserRunnerResultStatus :: "bool \<Rightarrow> int \<Rightarrow> int \<Rightarrow> result_status" where
  "deriveBrowserRunnerResultStatus isSettled totalCount succeeded =
     (if \<not> isSettled then ResultProvisional
      else if totalCount > 0 \<and> succeeded = totalCount then ResultFinal else ResultIncomplete)"

subsection \<open>Resuming and reconciling\<close>

datatype resume_denial = NotNeedsHuman | WrongRunner

definition browserRunnerResumeDenial ::
  "delivery_task_status \<Rightarrow> runner_task_status option \<Rightarrow> string option \<Rightarrow> string \<Rightarrow> resume_denial option" where
  "browserRunnerResumeDenial deliveryStatus automationStatus originalClaimedBy requestingClaimant =
     (if deliveryStatus \<noteq> TaskAvailable \<or> automationStatus \<noteq> Some AutoNeedsHuman then Some NotNeedsHuman
      else if originalClaimedBy \<noteq> Some requestingClaimant then Some WrongRunner
      else None)"

datatype exact_reconciliation =
    RecTerminal | RecReleased | RecResumablePre | RecResumablePost | RecActive | RecBlocked

definition reconcileBrowserRunnerExactTask ::
  "delivery_task_status \<Rightarrow> runner_task_status option \<Rightarrow> int option \<Rightarrow> string option \<Rightarrow> string \<Rightarrow>
   int option \<Rightarrow> int \<Rightarrow> exact_reconciliation" where
  "reconcileBrowserRunnerExactTask deliveryStatus automationStatus submitIntentAt originalClaimedBy
     requestingClaimant leaseExpiresAt now =
     (if terminal_status deliveryStatus \<and> automationStatus = Some AutoCompleted \<and> leaseExpiresAt = None
      then RecTerminal
      else if deliveryStatus = TaskAvailable \<and> automationStatus = Some AutoQueued \<and>
         submitIntentAt = None \<and> leaseExpiresAt = None
      then RecReleased
      else if deliveryStatus = TaskAvailable \<and> automationStatus = Some AutoNeedsHuman \<and> leaseExpiresAt = None
      then (if originalClaimedBy \<noteq> Some requestingClaimant then RecBlocked
            else if submitIntentAt = None then RecResumablePre else RecResumablePost)
      else
        (case leaseExpiresAt of
           None \<Rightarrow> RecBlocked
         | Some expires \<Rightarrow>
             if deliveryStatus = TaskClaimed \<and> automationStatus = Some AutoRunning
             then (if originalClaimedBy \<noteq> Some requestingClaimant then RecBlocked
                   else if expires > now then RecActive
                   else if submitIntentAt = None then RecResumablePre else RecResumablePost)
             else RecBlocked))"

subsection \<open>Cancelling and finalising\<close>

definition canCancelBrowserRunnerAfterStart :: "delivery_task list \<Rightarrow> bool" where
  "canCancelBrowserRunnerAfterStart tasks =
     list_all (\<lambda>task. t_status task = TaskAvailable \<and> t_automationStatus task = Some AutoQueued \<and>
        t_automationAttemptCount task = 0 \<and> t_claimCount task = 0 \<and>
        t_submitIntentAt task = None \<and> t_observationAttemptId task = None) tasks"

definition live_lease :: "delivery_task \<Rightarrow> int \<Rightarrow> bool" where
  "live_lease task now \<longleftrightarrow> (case t_leaseExpiresAt task of None \<Rightarrow> False | Some e \<Rightarrow> e > now)"

definition not_finalizable :: "delivery_task \<Rightarrow> int \<Rightarrow> bool" where
  "not_finalizable task now \<longleftrightarrow>
     t_needsHumanCode task = None \<or>
     (t_automationStatus task \<noteq> Some AutoNeedsHuman \<and> t_automationStatus task \<noteq> Some AutoRunning) \<or>
     (t_status task = TaskClaimed \<and> live_lease task now)"

definition browserRunnerHumanFinalization ::
  "execution_mode \<Rightarrow> int option \<Rightarrow> delivery_task list \<Rightarrow> int \<Rightarrow> bool \<times> nat" where
  "browserRunnerHumanFinalization executionMode automationStartedAt tasks now =
     (if executionMode \<noteq> ModeBrowserRunner \<or> automationStartedAt = None then (False, 0)
      else if list_ex (\<lambda>t. t_automationStatus t = Some AutoQueued) tasks then (False, 0)
      else
      let unresolved = filter (\<lambda>t. t_status t = TaskAvailable \<or> t_status t = TaskClaimed) tasks in
      if length unresolved = 0 then (False, 0)
      else if list_ex (\<lambda>t. not_finalizable t now) unresolved then (False, 0)
      else (True, length unresolved))"

subsection \<open>Daily settlement\<close>

definition SHANGHAI_UTC_OFFSET_MS :: int where
  "SHANGHAI_UTC_OFFSET_MS = 8 * 60 * 60 * 1000"

definition browserRunnerDailySettlementCutoff :: "int option \<Rightarrow> int option \<Rightarrow> error + int" where
  "browserRunnerDailySettlementCutoff automationStartedAt measurementWindowEndsAt =
     (case (automationStartedAt, measurementWindowEndsAt) of
        (Some startedAtMs, Some windowEndsAtMs) \<Rightarrow>
          let shanghaiStartedAt = startedAtMs + SHANGHAI_UTC_OFFSET_MS;
              nextShanghaiNoonMs =
                Date_UTC (utc_year shanghaiStartedAt) (utc_month shanghaiStartedAt)
                  (utc_date shanghaiStartedAt + 1) 4 0 0 0
          in Inr (min nextShanghaiNoonMs windowEndsAtMs)
      | _ \<Rightarrow> Inl (PlainError ''Browser Runner daily settlement requires valid dates''))"

text \<open>
  C15: a batch is settled at noon, Shanghai time, of the calendar day after it was started, or when
  its window ends if that is earlier: never later than 36 hours after the start, and never within
  12 hours of it unless the window ends before.
\<close>

theorem settlement_cutoff_is_next_noon:
  assumes "browserRunnerDailySettlementCutoff (Some started) (Some windowEnd) = Inr cutoff" and "0 \<le> started"
  shows "cutoff = min ((started + SHANGHAI_UTC_OFFSET_MS) div 86400000 * 86400000 + 36 * 3600000 - SHANGHAI_UTC_OFFSET_MS)
      windowEnd \<and>
    cutoff \<le> started + 36 * 3600000 \<and> (cutoff < windowEnd \<longrightarrow> started + 12 * 3600000 < cutoff)"
proof -
  let ?local = "started + SHANGHAI_UTC_OFFSET_MS"
  have "0 \<le> ?local" using assms(2) by (simp add: SHANGHAI_UTC_OFFSET_MS_def)
  from Date_UTC_shifted [OF this, of 1 4]
  have "cutoff = min ((?local div 86400000 + 1) * 86400000 + 4 * 3600000) windowEnd"
    using assms(1) by (simp add: browserRunnerDailySettlementCutoff_def Let_def ms_per_day_def)
  then show ?thesis
    using div_lower [of 86400000 ?local] div_upper [of 86400000 ?local]
    by (simp add: SHANGHAI_UTC_OFFSET_MS_def min_def)
qed

theorem settlement_cutoff_is_next_noon_witness:
  "browserRunnerDailySettlementCutoff (Some 1787360400000) (Some 1790000000000) = Inr 1787457600000 \<and>
   (1787457600000 :: int) \<le> 1787360400000 + 36 * 3600000"
proof -
  have "browserRunnerDailySettlementCutoff (Some 1787360400000) (Some 1790000000000) = Inr 1787457600000"
    by code_simp
  with settlement_cutoff_is_next_noon [OF this] show ?thesis by simp
qed

datatype settlement_disposition =
    DeferLiveLease | TerminalFailure (disp_code: string) (disp_reason: string)

definition browserRunnerDailySettlementDisposition ::
  "delivery_task \<Rightarrow> int \<Rightarrow> error + settlement_disposition" where
  "browserRunnerDailySettlementDisposition task now =
     (if t_status task \<noteq> TaskAvailable \<and> t_status task \<noteq> TaskClaimed
      then Inl (PlainError (''Delivery task status '' @ task_status_text (t_status task) @ '' cannot be settled''))
      else if t_status task = TaskClaimed \<and> live_lease task now then Inr DeferLiveLease
      else
      let existingCode = (case t_needsHumanCode task of None \<Rightarrow> [] | Some c \<Rightarrow> js_trim c);
          existingReason = (case t_needsHumanReason task of None \<Rightarrow> [] | Some r \<Rightarrow> js_trim r) in
      if existingCode \<noteq> [] \<and> existingReason \<noteq> [] then Inr (TerminalFailure existingCode existingReason)
      else if t_submitIntentAt task \<noteq> None then
        Inr (TerminalFailure ''submit_outcome_unknown''
          ''Daily truth cutoff passed after durable submit intent; the outcome could not be verified and automatic replay is forbidden'')
      else if t_status task = TaskClaimed then
        Inr (TerminalFailure ''runner_lease_expired''
          ''Daily truth cutoff passed after the Browser Runner lease expired without a verified result'')
      else
        Inr (TerminalFailure ''daily_cutoff_unresolved''
          ''Daily truth cutoff passed before this frozen Browser Runner slot produced a verified result''))"

end
