(* ===== verification/Store.thy ===== *)
theory Store
  imports RunnerPolicy
begin

text \<open>
  The statements the delivery code issues against PostgreSQL, with everything the database checks
  while it runs one: the triggers of \<open>db/migrations/0016_delivery_manifests.sql\<close> and
  \<open>0020_browser_runner_state.sql\<close>, the CHECK constraints of \<open>Schema\<close>, the unique indexes and the
  foreign keys. A statement that breaks one of them is \<open>Inl DatabaseError\<close> and its transaction
  is rolled back. \<open>guarded_table\<close> is what the components rely on of a table whose updates are
  checked row by row; it is interpreted for both tables.
\<close>

subsection \<open>The trigger on tasks\<close>

definition task_status_step :: "delivery_task_status \<Rightarrow> delivery_task_status \<Rightarrow> bool" where
  "task_status_step from to =
     (case from of
        TaskPlanned \<Rightarrow> to = TaskPlanned \<or> to = TaskAvailable \<or> to = TaskCancelled
      | TaskAvailable \<Rightarrow> to = TaskAvailable \<or> to = TaskClaimed \<or> to = TaskCancelled
      | TaskClaimed \<Rightarrow>
          to = TaskAvailable \<or> to = TaskClaimed \<or> to = TaskSucceeded \<or> to = TaskFailed \<or> to = TaskCancelled
      | TaskSucceeded \<Rightarrow> to = TaskSucceeded
      | TaskFailed \<Rightarrow> to = TaskFailed
      | TaskCancelled \<Rightarrow> to = TaskCancelled)"

definition task_plan_of :: "delivery_task \<Rightarrow> normalized_task_plan" where
  "task_plan_of t = normalized_task_plan.truncate t"

definition task_identity :: "delivery_task \<Rightarrow> string \<times> normalized_task_plan \<times> string" where
  "task_identity t = (t_batchId t, task_plan_of t, t_slotKey t)"

definition batch_status_of :: "database \<Rightarrow> string \<Rightarrow> delivery_batch_status option" where
  "batch_status_of db i = map_option b_status (batch_by_id db i)"

definition execution_mode_matches :: "database \<Rightarrow> delivery_task \<Rightarrow> bool" where
  "execution_mode_matches db t =
     (case batch_by_id db (t_batchId t) of
        None \<Rightarrow> False
      | Some b \<Rightarrow> (b_executionMode b = ModeBrowserRunner) = (t_automationStatus t \<noteq> None))"

definition attempt_matches :: "observation_attempt \<Rightarrow> delivery_task \<Rightarrow> bool" where
  "attempt_matches a t \<longleftrightarrow>
     oa_brandId a = pl_brandId t \<and> oa_scopeId a = pl_scopeId t \<and> oa_promptId a = pl_promptId t \<and>
     oa_promptText a = pl_promptText t \<and> oa_surfaceTargetKey a = pl_surfaceTargetKey t \<and>
     oa_captureRouteKey a = pl_captureRouteKey t \<and> oa_sampleIndex a = pl_sampleIndex t"

definition attempt_link_ok :: "database \<Rightarrow> delivery_task \<Rightarrow> bool" where
  "attempt_link_ok db t =
     (case t_observationAttemptId t of
        None \<Rightarrow> True
      | Some i \<Rightarrow>
          (case attempt_by_id db i of
             None \<Rightarrow> False
           | Some a \<Rightarrow> attempt_matches a t \<and>
               ((t_status t = TaskSucceeded \<and> oa_status a = ObsSucceeded) \<or>
                (t_status t = TaskFailed \<and> oa_status a = ObsFailed))))"

definition claim_advances :: "delivery_task \<Rightarrow> delivery_task \<Rightarrow> bool" where
  "claim_advances old new \<longleftrightarrow>
     t_status new = TaskClaimed \<longrightarrow>
       (case t_leaseTokenHash new of None \<Rightarrow> False | Some h \<Rightarrow> hex64 h) \<and>
       (t_status old \<noteq> TaskClaimed \<or> t_leaseTokenHash new \<noteq> t_leaseTokenHash old \<longrightarrow>
        t_leaseGeneration new > t_leaseGeneration old)"

definition task_update_allowed :: "database \<Rightarrow> delivery_task \<Rightarrow> delivery_task \<Rightarrow> bool" where
  "task_update_allowed db old new \<longleftrightarrow>
     (terminal_status (t_status old) \<longrightarrow> new = old) \<and>
     (task_identity new = task_identity old \<or>
      (batch_status_of db (t_batchId new) = Some BatchDraft \<and>
       batch_status_of db (t_batchId old) = Some BatchDraft)) \<and>
     task_status_step (t_status old) (t_status new) \<and>
     claim_advances old new \<and> attempt_link_ok db new \<and> execution_mode_matches db new \<and> task_row_ok new"

subsection \<open>Keys of the task table\<close>

definition somes :: "'a option list \<Rightarrow> 'a list" where
  "somes xs = List.map_filter id xs"

definition manifest_slot :: "delivery_task \<Rightarrow> _" where
  "manifest_slot t =
     (t_batchId t, pl_promptId t, pl_surfaceTargetKey t, pl_captureRouteKey t, pl_sampleIndex t,
      pl_sessionRequirement t, pl_searchRequirement t, np_evaluationRole t)"

definition task_keys_unique :: "delivery_task list \<Rightarrow> bool" where
  "task_keys_unique ts \<longleftrightarrow>
     distinct (map t_id ts) \<and> distinct (map (\<lambda>t. (t_batchId t, t_slotKey t)) ts) \<and>
     distinct (map manifest_slot ts) \<and> distinct (somes (map t_observationAttemptId ts))"

definition task_refs_ok :: "database \<Rightarrow> delivery_task \<Rightarrow> bool" where
  "task_refs_ok db t \<longleftrightarrow>
     (case batch_by_id db (t_batchId t) of
        None \<Rightarrow> False | Some b \<Rightarrow> b_brandId b = pl_brandId t \<and> b_scopeId b = pl_scopeId t) \<and>
     list_ex (\<lambda>p. pm_id p = pl_promptId t \<and> pm_brandId p = pl_brandId t \<and> pm_scopeId p = pl_scopeId t)
       (d_prompts db)"

subsection \<open>The trigger on batches\<close>

definition frozen_fields :: "delivery_batch \<Rightarrow> _" where
  "frozen_fields b =
     (b_brandId b, b_scopeId b, b_idempotencyKey b, b_name b, b_protocol b, b_plannedTaskCount b,
      b_manifestSnapshot b, b_manifestHash b, b_frozenBy b, b_frozenAt b)"

definition batch_status_step :: "delivery_batch_status \<Rightarrow> delivery_batch_status \<Rightarrow> bool" where
  "batch_status_step from to =
     (case from of
        BatchDraft \<Rightarrow> to = BatchDraft \<or> to = BatchFrozen \<or> to = BatchCancelled
      | BatchFrozen \<Rightarrow> to = BatchFrozen \<or> to = BatchInProgress \<or> to = BatchCancelled
      | BatchInProgress \<Rightarrow> to = BatchInProgress \<or> to = BatchCompleted \<or> to = BatchCancelled
      | BatchCompleted \<Rightarrow> to = BatchCompleted
      | BatchCancelled \<Rightarrow> to = BatchCancelled)"

definition batch_update_allowed :: "database \<Rightarrow> delivery_batch \<Rightarrow> delivery_batch \<Rightarrow> bool" where
  "batch_update_allowed db old new \<longleftrightarrow>
     (b_status old = BatchCompleted \<or> b_status old = BatchCancelled \<longrightarrow> new = old) \<and>
     batch_status_step (b_status old) (b_status new) \<and>
     (b_status old \<noteq> BatchDraft \<longrightarrow> frozen_fields new = frozen_fields old) \<and>
     (b_status old = BatchDraft \<and> b_status new = BatchFrozen \<longrightarrow>
        (case b_manifestHash new of None \<Rightarrow> True | Some h \<Rightarrow> hex64 h) \<and>
        batch_tasks db (b_id old) \<noteq> [] \<and>
        int (length (batch_tasks db (b_id old))) = b_plannedTaskCount new \<and>
        list_all (\<lambda>t. t_status t = TaskPlanned) (batch_tasks db (b_id old))) \<and>
     (b_status new = BatchCompleted \<longrightarrow>
        list_all (\<lambda>t. terminal_status (t_status t)) (batch_tasks db (b_id old))) \<and>
     batch_row_ok new"

text \<open>
  The database's trigger and the table of the TypeScript code allow the same changes of a
  batch's status.
\<close>

theorem transition_tables_agree:
  "assertDeliveryBatchTransition old new = Inr () \<longleftrightarrow> batch_status_step old new"
  by (cases old; cases new)
    (simp_all add: assertDeliveryBatchTransition_def DELIVERY_BATCH_TRANSITIONS_def batch_status_step_def)

subsection \<open>Statements\<close>

definition update_tasks ::
  "database \<Rightarrow> (delivery_task \<Rightarrow> bool) \<Rightarrow> (delivery_task \<Rightarrow> delivery_task) \<Rightarrow>
   error + database \<times> delivery_task list" where
  "update_tasks db p f =
     (let rows = set_where p f (d_tasks db) in
      if list_all (\<lambda>t. p t \<longrightarrow> task_update_allowed db t (f t)) (d_tasks db) \<and> task_keys_unique rows
      then Inr (db\<lparr>d_tasks := rows\<rparr>, map f (filter p (d_tasks db)))
      else Inl DatabaseError)"

definition update_batches ::
  "database \<Rightarrow> (delivery_batch \<Rightarrow> bool) \<Rightarrow> (delivery_batch \<Rightarrow> delivery_batch) \<Rightarrow>
   error + database \<times> delivery_batch list" where
  "update_batches db p f =
     (if list_all (\<lambda>b. p b \<longrightarrow> batch_update_allowed db b (f b)) (d_batches db)
      then Inr (db\<lparr>d_batches := set_where p f (d_batches db)\<rparr>, map f (filter p (d_batches db)))
      else Inl DatabaseError)"

definition task_insert_allowed :: "database \<Rightarrow> delivery_task \<Rightarrow> bool" where
  "task_insert_allowed db t \<longleftrightarrow>
     batch_status_of db (t_batchId t) = Some BatchDraft \<and> hex64 (t_slotKey t) \<and>
     execution_mode_matches db t \<and> task_row_ok t \<and> task_refs_ok db t"

definition insert_tasks :: "database \<Rightarrow> delivery_task list \<Rightarrow> error + database \<times> delivery_task list" where
  "insert_tasks db new =
     (if list_all (task_insert_allowed db) new \<and> task_keys_unique (d_tasks db @ new)
      then Inr (db\<lparr>d_tasks := d_tasks db @ new\<rparr>, new)
      else Inl DatabaseError)"

text \<open>
  The insert of a batch is \<open>ON CONFLICT (brand_id, idempotency_key) DO NOTHING\<close>: with the key
  taken it inserts nothing and returns no row.
\<close>

definition insert_batch :: "database \<Rightarrow> delivery_batch \<Rightarrow> error + database \<times> delivery_batch option" where
  "insert_batch db b =
     (if list_ex (\<lambda>c. b_brandId c = b_brandId b \<and> b_idempotencyKey c = b_idempotencyKey b) (d_batches db)
      then Inr (db, None)
      else if batch_row_ok b \<and> batch_by_id db (b_id b) = None \<and>
        list_ex (\<lambda>s. ms_id s = b_scopeId b \<and> sc_brandId s = b_brandId b) (d_scopes db)
      then Inr (db\<lparr>d_batches := d_batches db @ [b]\<rparr>, Some b)
      else Inl DatabaseError)"

subsection \<open>The tables with checked updates\<close>

lemma update_tasks_InrD:
  assumes "update_tasks db p f = Inr (db', out)"
  shows "db' = db\<lparr>d_tasks := set_where p f (d_tasks db)\<rparr>" "out = map f (filter p (d_tasks db))"
    "\<And>t. t \<in> set (d_tasks db) \<Longrightarrow> p t \<Longrightarrow> task_update_allowed db t (f t)"
    "task_keys_unique (d_tasks db')"
  using assms by (auto simp: update_tasks_def Let_def list_all_iff split: if_splits)

lemma update_batches_InrD:
  assumes "update_batches db p f = Inr (db', out)"
  shows "db' = db\<lparr>d_batches := set_where p f (d_batches db)\<rparr>" "out = map f (filter p (d_batches db))"
    "\<And>b. b \<in> set (d_batches db) \<Longrightarrow> p b \<Longrightarrow> batch_update_allowed db b (f b)"
  using assms by (auto simp: update_batches_def list_all_iff split: if_splits)

interpretation task_table: guarded_table d_tasks t_id task_update_allowed update_tasks
  by unfold_locales (auto dest: update_tasks_InrD)

interpretation batch_table: guarded_table d_batches b_id batch_update_allowed update_batches
  by unfold_locales (auto dest: update_batches_InrD)

end
