(* ===== verification/Inputs.thy ===== *)
theory Inputs
  imports Store
begin

text \<open>
  Helpers that \<open>db/delivery-batches.ts\<close> and \<open>db/browser-runner.ts\<close> each define for
  themselves: required and optional texts, the duration and the expiry of a lease, the measurement
  window of a stored protocol, and the redaction of diagnostics. The two regular expressions of
  the redaction are deterministic (what a repetition may match never includes what must follow
  it), so each is a scanner.
\<close>

subsection \<open>Texts\<close>

definition requiredText :: "string \<Rightarrow> string \<Rightarrow> nat \<Rightarrow> error + string" where
  "requiredText value field maxLength =
     (let normalized = js_trim value in
      if normalized = [] then Inl (PlainError (field @ '' must not be empty''))
      else if length normalized > maxLength
      then Inl (PlainError (field @ '' must not exceed '' @ nat_dec maxLength @ '' characters''))
      else Inr normalized)"

definition optionalText :: "string option \<Rightarrow> string \<Rightarrow> nat \<Rightarrow> error + string option" where
  "optionalText value field maxLength =
     (case value of None \<Rightarrow> Inr None | Some v \<Rightarrow> bindE (requiredText v field maxLength) (\<lambda>t. Inr (Some t)))"

text \<open>An optional string that the code tests for truth: absent and empty count as false.\<close>

definition truthy_text :: "string option \<Rightarrow> bool" where
  "truthy_text v \<longleftrightarrow> v \<noteq> None \<and> v \<noteq> Some []"

lemma requiredText_Inr:
  "requiredText value field n = Inr s \<longleftrightarrow> s = js_trim value \<and> s \<noteq> [] \<and> length s \<le> n"
  by (auto simp: requiredText_def Let_def)

subsection \<open>Leases and windows\<close>

definition validLeaseDuration :: "int option \<Rightarrow> error + int" where
  "validLeaseDuration value =
     (let v = (case value of None \<Rightarrow> 15 * 60 * 1000 | Some v \<Rightarrow> v) in
      if \<not> safe_int v \<or> v < 10000 \<or> v > 60 * 60 * 1000
      then Inl (PlainError ''leaseDurationMs must be an integer between 10000 and 3600000'')
      else Inr v)"

definition boundedLeaseExpiry :: "int \<Rightarrow> int \<Rightarrow> int \<Rightarrow> int" where
  "boundedLeaseExpiry now leaseDurationMs windowEndsAt = min (now + leaseDurationMs) windowEndsAt"

text \<open>
  The two ends of a stored protocol's window. A normalised protocol always has two valid ends
  (\<open>protocol_window_total\<close>); the last case is what \<open>new Date\<close> of an invalid text would lead to.
\<close>

definition protocol_window ::
  "(string \<Rightarrow> int option) \<Rightarrow> delivery_protocol \<Rightarrow> error + int \<times> int" where
  "protocol_window other p =
     bindE (normalizeDeliveryProtocol other p) (\<lambda>protocol.
       case (date_parse other (pr_startsAt protocol), date_parse other (pr_endsAt protocol)) of
         (Some startsAt, Some endsAt) \<Rightarrow> Inr (startsAt, endsAt)
       | _ \<Rightarrow> Inl (PlainError ''Invalid time value''))"

lemma protocol_window_total:
  assumes "normalizeDeliveryProtocol other p = Inr q"
  shows "\<exists>s e. protocol_window other p = Inr (s, e) \<and> s < e \<and> pr_startsAt q = to_iso s \<and>
    pr_endsAt q = to_iso e"
proof -
  obtain s e where "pr_startsAt q = to_iso s" "pr_endsAt q = to_iso e" "s < e"
    "\<bar>s\<bar> \<le> 8640000000000000" "\<bar>e\<bar> \<le> 8640000000000000"
    by (rule protocol_normal_form [OF assms])
  then show ?thesis by (simp add: protocol_window_def assms date_parse_to_iso)
qed

lemma protocol_window_order:
  assumes "protocol_window other p = Inr (s, e)"
  shows "s < e"
proof -
  obtain q where "normalizeDeliveryProtocol other p = Inr q"
    using assms by (cases "normalizeDeliveryProtocol other p") (simp_all add: protocol_window_def)
  from protocol_window_total [OF this] assms show ?thesis by auto
qed

definition expired_lease :: "delivery_task \<Rightarrow> int \<Rightarrow> bool" where
  "expired_lease t now \<longleftrightarrow> (case t_leaseExpiresAt t of None \<Rightarrow> False | Some e \<Rightarrow> e < now)"

subsection \<open>Redaction\<close>

definition ascii_lower :: "char \<Rightarrow> char" where
  "ascii_lower c = (let n = (of_char c :: nat) in if 65 \<le> n \<and> n \<le> 90 then char_of (n + 32) else c)"

definition strip_ci :: "string \<Rightarrow> string \<Rightarrow> (string \<times> string) option" where
  "strip_ci word s =
     (let n = length word in
      if map ascii_lower (take n s) = word then Some (take n s, drop n s) else None)"

definition secret_char :: "char \<Rightarrow> bool" where
  "secret_char c \<longleftrightarrow> \<not> js_space c \<and> c \<noteq> CHR '','' \<and> c \<noteq> CHR '';''"

text \<open>\<open>Bearer\s+[^\s,;]+\<close> at the start of the text.\<close>

definition match_bearer :: "string \<Rightarrow> (string \<times> string) option" where
  "match_bearer s =
     (case strip_ci ''bearer'' s of
        None \<Rightarrow> None
      | Some (w, r) \<Rightarrow>
          let r1 = dropWhile js_space r in
          if takeWhile js_space r = [] \<or> takeWhile secret_char r1 = [] then None
          else Some (''Bearer [REDACTED]'', dropWhile secret_char r1))"

text \<open>The name of a secret: \<open>api[-_ ]?key|token|password\<close>.\<close>

definition match_secret_name :: "string \<Rightarrow> (string \<times> string) option" where
  "match_secret_name s =
     (case strip_ci ''api'' s of
        Some (w, r) \<Rightarrow>
          let sep = (case r of [] \<Rightarrow> [] | c # cs \<Rightarrow> if c \<in> set ''-_ '' then [c] else []) in
          (case strip_ci ''key'' (drop (length sep) r) of
             Some (k, r2) \<Rightarrow> Some (w @ sep @ k, r2)
           | None \<Rightarrow> None)
      | None \<Rightarrow>
          (case strip_ci ''token'' s of
             Some m \<Rightarrow> Some m
           | None \<Rightarrow> strip_ci ''password'' s))"

definition match_secret :: "string \<Rightarrow> (string \<times> string) option" where
  "match_secret s =
     (case match_secret_name s of
        None \<Rightarrow> None
      | Some (name, r) \<Rightarrow>
          (case dropWhile js_space r of
             [] \<Rightarrow> None
           | c # r1 \<Rightarrow>
               let r2 = dropWhile js_space r1 in
               if c \<notin> set '':='' \<or> takeWhile secret_char r2 = [] then None
               else Some (name @ ''=[REDACTED]'', dropWhile secret_char r2)))"

text \<open>Replacement of all matches, from left to right and without overlaps.\<close>

function replace_all :: "(string \<Rightarrow> (string \<times> string) option) \<Rightarrow> string \<Rightarrow> string" where
  "replace_all m s =
     (case s of
        [] \<Rightarrow> []
      | c # cs \<Rightarrow>
          (case m s of
             Some (replacement, rest) \<Rightarrow>
               if length rest < length s then replacement @ replace_all m rest
               else c # replace_all m cs
           | None \<Rightarrow> c # replace_all m cs))"
  by pat_completeness auto
termination by (relation "measure (\<lambda>(m, s). length s)") auto

declare replace_all.simps [simp del]

definition sanitizeDiagnostic :: "string \<Rightarrow> string" where
  "sanitizeDiagnostic value = replace_all match_secret (replace_all match_bearer value)"

lemma strip_ci_shorter: "strip_ci w s = Some (x, r) \<Longrightarrow> length r = length s - length w"
  by (auto simp: strip_ci_def Let_def split: if_splits)

text \<open>The guard of \<open>replace_all\<close> never fails: each match is longer than nothing.\<close>

lemma length_dropWhile_less: "takeWhile P s \<noteq> [] \<Longrightarrow> length (dropWhile P s) < length s"
  by (cases s) (auto simp: length_dropWhile_le less_Suc_eq_le split: if_splits)

lemma match_bearer_shorter: "match_bearer s = Some (x, r) \<Longrightarrow> length r < length s"
proof -
  assume "match_bearer s = Some (x, r)"
  then obtain w r0 where w: "strip_ci ''bearer'' s = Some (w, r0)"
    and t: "takeWhile secret_char (dropWhile js_space r0) \<noteq> []"
    and r: "r = dropWhile secret_char (dropWhile js_space r0)"
    by (auto simp: match_bearer_def Let_def split: option.splits if_splits)
  have "length r < length (dropWhile js_space r0)"
    using length_dropWhile_less [OF t] r by simp
  also have "\<dots> \<le> length r0" by (rule length_dropWhile_le)
  also have "\<dots> \<le> length s" using strip_ci_shorter [OF w] by simp
  finally show ?thesis .
qed

end
