(* ===== verification/DeliveryBatches.thy ===== *)
theory DeliveryBatches
  imports Inputs
begin

text \<open>
  Delivery batches and their tasks (\<open>packages/lib/src/db/delivery-batches.ts\<close>). An exported
  function is one transaction: from the database it starts in to the database it commits and its
  result, or to the error it throws, which rolls everything back. \<open>sha\<close> is the SHA-256 digest in
  hexadecimal, \<open>other\<close> the engine's parser for date texts that are not ISO, \<open>lc\<close> is
  \<open>localeCompare\<close>; a clock reading, a random token and a generated identifier are arguments. A row
  lock makes a transaction wait, or skip rows: \<open>locked\<close> says which rows other transactions hold.
\<close>

subsection \<open>Inputs and results\<close>

record create_batch_input =
  cb_brandId :: string
  cb_scopeId :: string
  cb_idempotencyKey :: string
  cb_name :: string
  cb_protocol :: delivery_protocol
  cb_createdBy :: "string option"
  cb_executionMode :: "execution_mode option"

record delivery_task_plan_input =
  ti_promptId :: string
  ti_expectedPromptText :: "string option"
  ti_surfaceTargetKey :: string
  ti_captureRouteKey :: string
  ti_sampleIndex :: int
  ti_sessionRequirement :: delivery_session_requirement
  ti_searchRequirement :: delivery_search_requirement
  ti_evaluationRole :: "delivery_evaluation_role option"

record delivery_claim_proof =
  cl_taskId :: string
  cl_claimedBy :: string
  cl_leaseToken :: string
  cl_leaseGeneration :: int

record claimed_delivery_task =
  ct_task :: delivery_task
  ct_leaseToken :: string
  ct_leaseGeneration :: int
  ct_leaseExpiresAt :: int

datatype claim_queue = QueueAvailable | QueueNeedsHuman

record claim_next_input =
  cn_brandId :: string
  cn_batchId :: "string option"
  cn_claimedBy :: string
  cn_leaseDurationMs :: "int option"
  cn_surfaceTargetKeys :: "string list option"
  cn_evaluationRoles :: "delivery_evaluation_role list option"
  cn_queue :: claim_queue

text \<open>
  A thrown value as \<open>describeError\<close> sees it: the name of an \<open>Error\<close>, the message or
  \<open>String(error)\<close>, and \<open>String(error.code ?? "")\<close> where there is a \<open>code\<close>.
\<close>

record thrown_value =
  tv_errorName :: "string option"
  tv_text :: string
  tv_code :: "string option"

text \<open>A view of a task is the task without the hash of its lease token.\<close>

definition redactDeliveryTask :: "delivery_task \<Rightarrow> delivery_task" where
  "redactDeliveryTask task = task\<lparr>t_leaseTokenHash := None\<rparr>"

subsection \<open>Private helpers\<close>

definition hashLeaseToken :: "(string \<Rightarrow> string) \<Rightarrow> string \<Rightarrow> error + string" where
  "hashLeaseToken sha token =
     (if token = [] then Inl (PlainError ''leaseToken must not be empty'')
      else if length token > 500 then Inl (PlainError ''leaseToken must not exceed 500 characters'')
      else Inr (sha token))"

definition activeLeaseCondition ::
  "(string \<Rightarrow> string) \<Rightarrow> delivery_claim_proof \<Rightarrow> int \<Rightarrow> error + (delivery_task \<Rightarrow> bool)" where
  "activeLeaseCondition sha claim now =
     (if \<not> safe_int (cl_leaseGeneration claim) \<or> cl_leaseGeneration claim \<le> 0
      then Inl (PlainError ''leaseGeneration must be a positive integer'')
      else
      bindE (requiredText (cl_claimedBy claim) ''claimedBy'' 300) (\<lambda>claimedBy.
      bindE (hashLeaseToken sha (cl_leaseToken claim)) (\<lambda>leaseTokenHash.
      Inr (\<lambda>t. t_id t = cl_taskId claim \<and> t_status t = TaskClaimed \<and> t_claimedBy t = Some claimedBy \<and>
             t_leaseTokenHash t = Some leaseTokenHash \<and>
             t_leaseGeneration t = cl_leaseGeneration claim \<and> live_lease t now))))"

definition lockDeliveryTaskBatch :: "database \<Rightarrow> string \<Rightarrow> error + unit" where
  "lockDeliveryTaskBatch db taskId =
     bindE (requireSome (PlainError (''Delivery task '' @ taskId @ '' was not found'')) (task_by_id db taskId))
       (\<lambda>task.
     bindE (requireSome (PlainError (''Delivery batch '' @ t_batchId task @ '' was not found''))
             (batch_by_id db (t_batchId task))) (\<lambda>batch. Inr ()))"

definition assertAttemptMatchesTask ::
  "database \<Rightarrow> string \<Rightarrow> string \<Rightarrow> observation_status \<Rightarrow> error + unit" where
  "assertAttemptMatchesTask db taskId attemptId expectedStatus =
     (case (task_by_id db taskId, attempt_by_id db attemptId) of
        (Some task, Some attempt) \<Rightarrow>
          if oa_status attempt \<noteq> expectedStatus \<or> \<not> attempt_matches attempt task
          then Inl (PlainError (''Observation attempt '' @ attemptId @ '' does not match delivery task '' @ taskId))
          else Inr ()
      | _ \<Rightarrow> Inl (PlainError (''Observation attempt '' @ attemptId @ '' does not match delivery task '' @ taskId)))"

definition unresolved_status :: "delivery_task_status \<Rightarrow> bool" where
  "unresolved_status s \<longleftrightarrow> s = TaskPlanned \<or> s = TaskAvailable \<or> s = TaskClaimed"

definition settleDeliveryBatch :: "database \<Rightarrow> string \<Rightarrow> int \<Rightarrow> error + database" where
  "settleDeliveryBatch db batchId completedAt =
     bindE (requireSome (PlainError (''Delivery batch '' @ batchId @ '' was not found while settling''))
             (batch_by_id db batchId)) (\<lambda>batch.
     if list_ex (\<lambda>t. unresolved_status (t_status t)) (batch_tasks db batchId)
     then
       (if b_executionMode batch = ModeBrowserRunner
        then bindE (update_batches db (\<lambda>b. b_id b = batchId)
               (\<lambda>b. b\<lparr>b_automationStatus :=
                  Some (deriveBrowserRunnerBatchStatus (map t_automationStatus (batch_tasks db batchId)))\<rparr>))
               (\<lambda>(db', _). Inr db')
        else Inr db)
     else
       bindE (update_batches db (\<lambda>b. b_id b = batchId \<and> b_status b = BatchInProgress)
         (\<lambda>b. b\<lparr>b_status := BatchCompleted, b_completedAt := Some completedAt,
            b_automationStatus :=
              (if b_executionMode b = ModeBrowserRunner then Some RunnerSettled else b_automationStatus b),
            b_automationSettledAt :=
              (if b_executionMode b = ModeBrowserRunner then Some completedAt else b_automationSettledAt b)\<rparr>))
         (\<lambda>(db', _). Inr db'))"

definition describeError :: "thrown_value \<Rightarrow> string \<times> string option \<times> string" where
  "describeError error =
     ((case tv_errorName error of Some n \<Rightarrow> n | None \<Rightarrow> ''UnknownError''),
      (case tv_code error of
         None \<Rightarrow> None
       | Some c \<Rightarrow> let code = js_slice 100 c in if code = [] then None else Some code),
      js_slice 1000 (sanitizeDiagnostic (tv_text error)))"

definition set_last_error :: "string \<times> string option \<times> string \<Rightarrow> delivery_task \<Rightarrow> delivery_task" where
  "set_last_error e t =
     t\<lparr>t_lastErrorClass := Some (fst e), t_lastErrorCode := fst (snd e), t_lastErrorMessage := Some (snd (snd e))\<rparr>"

text \<open>\<open>CASE WHEN automation_status IS NULL THEN NULL ELSE ... END\<close>.\<close>

definition automation_to :: "runner_task_status \<Rightarrow> delivery_task \<Rightarrow> delivery_task" where
  "automation_to s t =
     t\<lparr>t_automationStatus := (case t_automationStatus t of None \<Rightarrow> None | Some _ \<Rightarrow> Some s)\<rparr>"

definition clear_lease :: "delivery_task \<Rightarrow> delivery_task" where
  "clear_lease t = t\<lparr>t_leaseTokenHash := None, t_leaseExpiresAt := None\<rparr>"

subsection \<open>Drafting a batch\<close>

definition createDraftDeliveryBatch ::
  "(string \<Rightarrow> int option) \<Rightarrow> string \<Rightarrow> int \<Rightarrow> create_batch_input \<Rightarrow> database \<Rightarrow>
   error + database \<times> delivery_batch" where
  "createDraftDeliveryBatch other newId createdAt input db =
     bindE (requiredText (cb_idempotencyKey input) ''idempotencyKey'' 300) (\<lambda>idempotencyKey.
     bindE (requiredText (cb_name input) ''name'' 300) (\<lambda>name.
     bindE (normalizeDeliveryProtocol other (cb_protocol input)) (\<lambda>protocol.
     let executionMode = (case cb_executionMode input of None \<Rightarrow> ModeManual | Some m \<Rightarrow> m) in
     bindE (optionalText (cb_createdBy input) ''createdBy'' 300) (\<lambda>createdBy.
     bindE (insert_batch db
       \<lparr>b_id = newId, b_brandId = cb_brandId input, b_scopeId = cb_scopeId input,
        b_idempotencyKey = idempotencyKey, b_name = name, b_status = BatchDraft,
        b_executionMode = executionMode,
        b_automationStatus = (if executionMode = ModeBrowserRunner then Some RunnerNotStarted else None),
        b_automationStartedAt = None, b_automationSettledAt = None, b_plannedTaskCount = 0,
        b_protocol = protocol, b_manifestSnapshot = None, b_manifestHash = None,
        b_createdBy = createdBy, b_frozenBy = None, b_cancelledBy = None, b_frozenAt = None,
        b_startedAt = None, b_completedAt = None, b_cancelledAt = None, b_createdAt = createdAt\<rparr>)
     (\<lambda>(db', inserted).
     case inserted of
       Some batch \<Rightarrow> Inr (db', batch)
     | None \<Rightarrow>
         bindE (requireSome (PlainError (''Failed to resolve delivery batch '' @ idempotencyKey))
           (find (\<lambda>b. b_brandId b = cb_brandId input \<and> b_idempotencyKey b = idempotencyKey) (d_batches db')))
         (\<lambda>existing.
         if b_scopeId existing \<noteq> cb_scopeId input \<or> b_name existing \<noteq> name \<or>
            b_executionMode existing \<noteq> executionMode \<or> b_protocol existing \<noteq> protocol
         then Inl (BatchConflictError idempotencyKey)
         else Inr (db', existing)))))))"

definition find_batch :: "database \<Rightarrow> string \<Rightarrow> string \<Rightarrow> delivery_batch option" where
  "find_batch db brandId batchId = find (\<lambda>b. b_id b = batchId \<and> b_brandId b = brandId) (d_batches db)"

definition plan_from_input ::
  "database \<Rightarrow> (string \<Rightarrow> string) \<Rightarrow> delivery_batch \<Rightarrow> delivery_task_plan_input \<Rightarrow>
   error + normalized_task_plan \<times> string" where
  "plan_from_input db sha batch task =
     bindE (requireSome (PlainError (''Prompt '' @ ti_promptId task @ '' does not belong to delivery batch scope''))
       (find (\<lambda>p. pm_brandId p = b_brandId batch \<and> pm_scopeId p = b_scopeId batch \<and> pm_id p = ti_promptId task)
         (d_prompts db))) (\<lambda>prompt.
     if \<not> pm_enabled prompt then Inl (PlainError (''Prompt '' @ ti_promptId task @ '' is disabled''))
     else if ti_expectedPromptText task \<noteq> None \<and> ti_expectedPromptText task \<noteq> Some (pm_value prompt)
     then Inl (PlainError (''Prompt '' @ ti_promptId task @
            '' changed before it could be added to the delivery manifest''))
     else
     bindE (normalizeDeliveryTaskPlan
       \<lparr>pl_brandId = b_brandId batch, pl_scopeId = b_scopeId batch, pl_promptId = pm_id prompt,
        pl_promptText = pm_value prompt, pl_surfaceTargetKey = ti_surfaceTargetKey task,
        pl_captureRouteKey = ti_captureRouteKey task, pl_sampleIndex = ti_sampleIndex task,
        pl_sessionRequirement = ti_sessionRequirement task,
        pl_searchRequirement = ti_searchRequirement task,
        dp_evaluationRole = ti_evaluationRole task\<rparr>) (\<lambda>plan.
     bindE (buildDeliveryTaskSlotKey sha (as_plan plan)) (\<lambda>slotKey. Inr (plan, slotKey))))"

definition new_task_row ::
  "delivery_batch \<Rightarrow> string \<Rightarrow> int \<Rightarrow> normalized_task_plan \<times> string \<Rightarrow> delivery_task" where
  "new_task_row batch newId createdAt ps =
     normalized_task_plan.extend (fst ps)
       (delivery_task.fields newId (b_id batch) (snd ps) TaskPlanned
          (if b_executionMode batch = ModeBrowserRunner then Some AutoQueued else None) 0 None None None None
          None None None None 0 None 0 None None None None None None None None createdAt)"

definition addDeliveryTasks ::
  "(string \<Rightarrow> string) \<Rightarrow> (nat \<Rightarrow> string) \<Rightarrow> int \<Rightarrow> string \<Rightarrow> string \<Rightarrow> delivery_task_plan_input list \<Rightarrow>
   database \<Rightarrow> error + database \<times> delivery_task list" where
  "addDeliveryTasks sha newIds createdAt brandId batchId tasks db =
     (if tasks = [] then Inr (db, [])
      else
      bindE (requireSome (PlainError (''Delivery batch '' @ batchId @ '' was not found'')) (find_batch db brandId batchId))
        (\<lambda>batch.
      if b_status batch \<noteq> BatchDraft
      then Inl (BatchStateError (''Delivery batch '' @ batchId @ '' is '' @ batch_status_text (b_status batch) @
             ''; its manifest is frozen''))
      else
      bindE (mapE (plan_from_input db sha batch) tasks) (\<lambda>plans.
      if \<not> distinct (map snd plans)
      then Inl (PlainError ''Delivery task list contains duplicate manifest slots'')
      else
      let existingTasks = batch_tasks db (b_id batch);
          bySlot = (\<lambda>ts slotKey. requireSome (PlainError ''Failed to resolve a delivery task after insertion'')
            (find (\<lambda>t. t_slotKey t = slotKey) ts)) in
      if existingTasks \<noteq> []
      then
        (if length existingTasks \<noteq> length plans \<or>
            list_ex (\<lambda>s. \<not> list_ex (\<lambda>t. t_slotKey t = s) existingTasks) (map snd plans)
         then Inl (BatchConflictError (b_idempotencyKey batch))
         else bindE (mapE (bySlot existingTasks) (map snd plans)) (\<lambda>ts. Inr (db, map redactDeliveryTask ts)))
      else
      bindE (insert_tasks db
          (map (\<lambda>(i, p). new_task_row batch (newIds i) createdAt p) (zip [0..<length plans] plans)))
        (\<lambda>(db', inserted).
      bindE (mapE (bySlot inserted) (map snd plans)) (\<lambda>ts. Inr (db', map redactDeliveryTask ts))))))"

subsection \<open>Freezing a batch\<close>

text \<open>The condition compares PostgreSQL's \<open>statement_timestamp()\<close> with the window of the request.\<close>

definition buildDeliveryBatchFreezeWindowCondition ::
  "(string \<Rightarrow> int option) \<Rightarrow> string \<times> string \<Rightarrow> error + (int \<Rightarrow> bool)" where
  "buildDeliveryBatchFreezeWindowCondition other measurementWindow =
     (case (date_parse other (fst measurementWindow), date_parse other (snd measurementWindow)) of
        (Some startsAt, Some endsAt) \<Rightarrow>
          if endsAt \<le> startsAt then Inl (PlainError ''Delivery batch freeze measurement window is invalid'')
          else Inr (\<lambda>statementTimestamp. startsAt \<le> statementTimestamp \<and> statementTimestamp < endsAt)
      | _ \<Rightarrow> Inl (PlainError ''Delivery batch freeze measurement window is invalid''))"

text \<open>\<open>new Date(text).toISOString()\<close>, which throws on an invalid date.\<close>

definition iso_of_text :: "(string \<Rightarrow> int option) \<Rightarrow> string \<Rightarrow> error + string" where
  "iso_of_text other s =
     bindE (requireSome (PlainError ''Invalid time value'') (date_parse other s)) (\<lambda>t. Inr (to_iso t))"

definition window_differs ::
  "(string \<Rightarrow> int option) \<Rightarrow> (string \<times> string) option \<Rightarrow> delivery_protocol \<Rightarrow> error + bool" where
  "window_differs other window protocol =
     (case window of
        None \<Rightarrow> Inr False
      | Some (s, e) \<Rightarrow>
          bindE (iso_of_text other s) (\<lambda>isoStart.
          if isoStart \<noteq> pr_startsAt protocol then Inr True
          else bindE (iso_of_text other e) (\<lambda>isoEnd. Inr (isoEnd \<noteq> pr_endsAt protocol))))"

definition manifest_task_of :: "delivery_task \<Rightarrow> manifest_task" where
  "manifest_task_of task =
     normalized_task_plan.extend (task_plan_of task) (manifest_task.fields (t_id task) (t_slotKey task))"

definition manifest_context_of ::
  "delivery_batch \<Rightarrow> scope_row \<Rightarrow> manifest_brand \<Rightarrow> competitor_row list \<Rightarrow> delivery_protocol \<Rightarrow> manifest_context"
where
  "manifest_context_of batch scope brand competitorRows protocol =
     \<lparr>mc_batch = \<lparr>mb_id = b_id batch, mb_brandId = b_brandId batch, mb_scopeId = b_scopeId batch,
        mb_idempotencyKey = b_idempotencyKey batch, mb_name = b_name batch\<rparr>,
      mc_scope = measurement_scope.truncate scope,
      mc_brand = brand,
      mc_competitors = map manifest_competitor.truncate competitorRows,
      mc_protocol = protocol\<rparr>"

definition freezeDeliveryBatch ::
  "(string \<Rightarrow> string) \<Rightarrow> (string \<Rightarrow> int option) \<Rightarrow> (string \<Rightarrow> string \<Rightarrow> int) \<Rightarrow> int \<Rightarrow> string \<Rightarrow> string \<Rightarrow>
   string option \<Rightarrow> (string \<times> string) option \<Rightarrow> database \<Rightarrow> error + database \<times> delivery_batch" where
  "freezeDeliveryBatch sha other lc statementTimestamp brandId batchId frozenBy measurementWindow db =
     bindE (requireSome (PlainError (''Delivery batch '' @ batchId @ '' was not found'')) (find_batch db brandId batchId))
       (\<lambda>batch.
     if b_status batch = BatchCancelled
     then Inl (BatchStateError (''Delivery batch '' @ batchId @ '' is cancelled''))
     else if b_status batch \<noteq> BatchDraft then Inr (db, batch)
     else
     let tasks = sort_key t_slotKey (batch_tasks db (b_id batch)) in
     if tasks = [] then Inl (BatchStateError ''A delivery batch cannot be frozen without tasks'')
     else if list_ex (\<lambda>t. t_status t \<noteq> TaskPlanned) tasks
     then Inl (BatchStateError ''A draft delivery batch contains a non-planned task'')
     else
     bindE (normalizeDeliveryProtocol other (b_protocol batch)) (\<lambda>protocol.
     bindE (window_differs other measurementWindow protocol) (\<lambda>differs.
     if differs then Inl (BatchConflictError (b_idempotencyKey batch))
     else
     bindE (requireSome (PlainError (''Delivery batch '' @ b_id batch @ '' context no longer exists''))
       (find (\<lambda>b. br_id b = b_brandId batch) (d_brands db))) (\<lambda>brand.
     bindE (requireSome (PlainError (''Delivery batch '' @ b_id batch @ '' context no longer exists''))
       (find (\<lambda>s. ms_id s = b_scopeId batch \<and> sc_brandId s = b_brandId batch) (d_scopes db))) (\<lambda>scope.
     let competitorRows = filter (\<lambda>c. cr_brandId c = b_brandId batch) (d_competitors db) in
     bindE (buildDeliveryManifestSnapshot other lc
         (manifest_context_of batch scope brand competitorRows protocol) (map manifest_task_of tasks))
       (\<lambda>manifestSnapshot.
     bindE (buildDeliveryManifestHash sha manifestSnapshot) (\<lambda>manifestHash.
     bindE (optionalText frozenBy ''frozenBy'' 300) (\<lambda>frozenBy.
     bindE (case measurementWindow of
              None \<Rightarrow> Inr (\<lambda>_. True)
            | Some w \<Rightarrow> buildDeliveryBatchFreezeWindowCondition other w) (\<lambda>windowOpen.
     bindE (update_batches db
         (\<lambda>b. b_id b = b_id batch \<and> b_status b = BatchDraft \<and> windowOpen statementTimestamp)
         (\<lambda>b. b\<lparr>b_status := BatchFrozen, b_plannedTaskCount := int (length tasks),
            b_manifestSnapshot := Some manifestSnapshot, b_manifestHash := Some manifestHash,
            b_frozenBy := (case frozenBy of None \<Rightarrow> b_frozenBy b | Some _ \<Rightarrow> frozenBy),
            b_frozenAt := Some statementTimestamp\<rparr>)) (\<lambda>(db1, updated).
     case updated of
       [] \<Rightarrow> Inl (BatchStateError (case measurementWindow of
               Some _ \<Rightarrow> ''Delivery batch '' @ b_id batch @ '' measurement window is not open at freeze''
             | None \<Rightarrow> ''Delivery batch '' @ b_id batch @ '' was concurrently frozen''))
     | frozen # _ \<Rightarrow>
         bindE (update_tasks db1 (\<lambda>t. t_batchId t = b_id batch \<and> t_status t = TaskPlanned)
             (\<lambda>t. t\<lparr>t_status := TaskAvailable, t_availableAt := Some statementTimestamp\<rparr>))
           (\<lambda>(db2, _). Inr (db2, frozen))))))))))))"

subsection \<open>Reading\<close>

definition listDeliveryBatches ::
  "string \<Rightarrow> string option \<Rightarrow> int option \<Rightarrow> database \<Rightarrow> delivery_batch list" where
  "listDeliveryBatches brandId scopeId limit db =
     (let n = min (max (case limit of None \<Rightarrow> 50 | Some l \<Rightarrow> l) 1) 200 in
      take (nat n) (sort_key b_createdAt
        (filter (\<lambda>b. b_brandId b = brandId \<and> (truthy_text scopeId \<longrightarrow> Some (b_scopeId b) = scopeId))
          (d_batches db))))"

definition getDeliveryBatch ::
  "string \<Rightarrow> string \<Rightarrow> database \<Rightarrow> (delivery_batch \<times> delivery_task list) option" where
  "getDeliveryBatch brandId batchId db =
     map_option (\<lambda>batch. (batch, map redactDeliveryTask (sort_key t_createdAt (batch_tasks db (b_id batch)))))
       (find_batch db brandId batchId)"

definition getDeliveryTask :: "string \<Rightarrow> string \<Rightarrow> database \<Rightarrow> delivery_task option" where
  "getDeliveryTask brandId taskId db =
     map_option redactDeliveryTask (find (\<lambda>t. t_id t = taskId \<and> pl_brandId t = brandId) (d_tasks db))"

definition getDeliveryBatchCoverage :: "string \<Rightarrow> string \<Rightarrow> database \<Rightarrow> delivery_coverage option" where
  "getDeliveryBatchCoverage brandId batchId db =
     map_option (\<lambda>batch. summarizeDeliveryCoverage
         (map (\<lambda>t. (t_status t, np_evaluationRole t)) (batch_tasks db (b_id batch))))
       (find_batch db brandId batchId)"

subsection \<open>Claiming\<close>

fun eligible_batches ::
  "(string \<Rightarrow> int option) \<Rightarrow> int \<Rightarrow> bool \<Rightarrow> delivery_batch list \<Rightarrow> error + (delivery_batch \<times> int) list" where
  "eligible_batches other now named [] = Inr []"
| "eligible_batches other now named (batch # batches) =
     bindE (protocol_window other (b_protocol batch)) (\<lambda>(windowStartsAt, windowEndsAt).
     if now < windowStartsAt then
       (if named then Inl (BatchStateError (''Delivery batch '' @ b_id batch @ '' measurement window has not started''))
        else eligible_batches other now named batches)
     else if now \<ge> windowEndsAt then
       (if named then Inl (BatchStateError (''Delivery batch '' @ b_id batch @ '' measurement window has ended''))
        else eligible_batches other now named batches)
     else bindE (eligible_batches other now named batches) (\<lambda>rest. Inr ((batch, windowEndsAt) # rest)))"

definition claim_available :: "claim_queue \<Rightarrow> int \<Rightarrow> delivery_task \<Rightarrow> bool" where
  "claim_available queue now t =
     (case queue of
        QueueNeedsHuman \<Rightarrow>
          (t_status t = TaskAvailable \<and> t_automationStatus t = Some AutoNeedsHuman \<and> t_submitIntentAt t = None) \<or>
          (t_status t = TaskClaimed \<and> t_automationStatus t = Some AutoRunning \<and> t_needsHumanCode t \<noteq> None \<and>
           t_submitIntentAt t = None \<and> expired_lease t now)
      | QueueAvailable \<Rightarrow>
          (t_status t = TaskAvailable \<and> t_automationStatus t = None) \<or>
          (t_status t = TaskClaimed \<and> t_automationStatus t = None \<and> expired_lease t now))"

text \<open>\<open>ORDER BY created_at, id LIMIT 1 FOR UPDATE SKIP LOCKED\<close>.\<close>

definition first_unlocked :: "(string \<Rightarrow> bool) \<Rightarrow> (delivery_task \<Rightarrow> bool) \<Rightarrow> database \<Rightarrow> delivery_task option" where
  "first_unlocked locked p db =
     (case sort_key (\<lambda>t. (t_createdAt t, t_id t)) (filter (\<lambda>t. p t \<and> \<not> locked (t_id t)) (d_tasks db)) of
        [] \<Rightarrow> None | t # _ \<Rightarrow> Some t)"

fun claim_from_batches ::
  "(string \<Rightarrow> string) \<Rightarrow> int \<Rightarrow> (string \<Rightarrow> bool) \<Rightarrow> string \<Rightarrow> claim_next_input \<Rightarrow> string \<Rightarrow> int \<Rightarrow>
   (delivery_batch \<times> int) list \<Rightarrow> database \<Rightarrow> error + database \<times> claimed_delivery_task option" where
  "claim_from_batches sha now locked leaseToken input claimedBy leaseDurationMs [] db = Inr (db, None)"
| "claim_from_batches sha now locked leaseToken input claimedBy leaseDurationMs ((batch, windowEndsAt) # rest) db =
     (case first_unlocked locked
         (\<lambda>t. t_batchId t = b_id batch \<and> claim_available (cn_queue input) now t \<and>
            (case cn_surfaceTargetKeys input of None \<Rightarrow> True | Some ks \<Rightarrow> List.member ks (pl_surfaceTargetKey t)) \<and>
            (case cn_evaluationRoles input of None \<Rightarrow> True | Some rs \<Rightarrow> List.member rs (np_evaluationRole t))) db of
        None \<Rightarrow> claim_from_batches sha now locked leaseToken input claimedBy leaseDurationMs rest db
      | Some candidate \<Rightarrow>
          let leaseExpiresAt = boundedLeaseExpiry now leaseDurationMs windowEndsAt;
              leaseGeneration = t_leaseGeneration candidate + 1 in
          bindE (hashLeaseToken sha leaseToken) (\<lambda>leaseTokenHash.
          bindE (update_tasks db
              (\<lambda>t. t_id t = t_id candidate \<and> t_status t = t_status candidate \<and>
                 t_leaseGeneration t = t_leaseGeneration candidate \<and>
                 (t_status candidate = TaskClaimed \<longrightarrow> expired_lease t now))
              (\<lambda>t. t\<lparr>t_status := TaskClaimed, t_claimedBy := Some claimedBy,
                 t_leaseTokenHash := Some leaseTokenHash, t_leaseGeneration := leaseGeneration,
                 t_leaseExpiresAt := Some leaseExpiresAt, t_claimCount := t_claimCount candidate + 1,
                 t_claimedAt := Some now,
                 t_automationStatus :=
                   (if cn_queue input = QueueNeedsHuman then Some AutoRunning else t_automationStatus t)\<rparr>))
            (\<lambda>(db1, claimed).
          case claimed of
            [] \<Rightarrow> claim_from_batches sha now locked leaseToken input claimedBy leaseDurationMs rest db1
          | task # _ \<Rightarrow>
              bindE (if b_status batch = BatchFrozen
                     then bindE (update_batches db1 (\<lambda>b. b_id b = b_id batch \<and> b_status b = BatchFrozen)
                            (\<lambda>b. b\<lparr>b_status := BatchInProgress,
                               b_startedAt := (case b_startedAt batch of None \<Rightarrow> Some now | s \<Rightarrow> s)\<rparr>))
                            (\<lambda>(db2, _). Inr db2)
                     else Inr db1) (\<lambda>db2.
              Inr (db2, Some
                \<lparr>ct_task = redactDeliveryTask task, ct_leaseToken = leaseToken,
                 ct_leaseGeneration = leaseGeneration, ct_leaseExpiresAt = leaseExpiresAt\<rparr>)))))"

definition claimNextDeliveryTask ::
  "(string \<Rightarrow> string) \<Rightarrow> (string \<Rightarrow> int option) \<Rightarrow> int \<Rightarrow> (string \<Rightarrow> bool) \<Rightarrow> string \<Rightarrow> claim_next_input \<Rightarrow>
   database \<Rightarrow> error + database \<times> claimed_delivery_task option" where
  "claimNextDeliveryTask sha other now locked leaseToken input db =
     bindE (requiredText (cn_claimedBy input) ''claimedBy'' 300) (\<lambda>claimedBy.
     bindE (validLeaseDuration (cn_leaseDurationMs input)) (\<lambda>leaseDurationMs.
     if cn_surfaceTargetKeys input = Some [] \<or> cn_evaluationRoles input = Some [] then Inr (db, None)
     else
     let named = truthy_text (cn_batchId input);
         batches = sort_key b_createdAt (filter (\<lambda>b.
           b_brandId b = cn_brandId input \<and> (b_status b = BatchFrozen \<or> b_status b = BatchInProgress) \<and>
           (cn_queue input = QueueNeedsHuman \<longrightarrow>
              b_executionMode b = ModeBrowserRunner \<and> b_automationStatus b = Some RunnerNeedsHuman) \<and>
           (named \<longrightarrow> Some (b_id b) = cn_batchId input)) (d_batches db)) in
     if batches = [] then Inr (db, None)
     else
     bindE (eligible_batches other now named batches) (\<lambda>eligible.
     claim_from_batches sha now locked leaseToken input claimedBy leaseDurationMs eligible db)))"

subsection \<open>Holding a lease\<close>

definition heartbeatDeliveryTask ::
  "(string \<Rightarrow> string) \<Rightarrow> (string \<Rightarrow> int option) \<Rightarrow> int \<Rightarrow> int \<Rightarrow> delivery_claim_proof \<Rightarrow> int option \<Rightarrow>
   database \<Rightarrow> error + database \<times> (int \<times> int)" where
  "heartbeatDeliveryTask sha other checkedAt now claim leaseDuration db =
     bindE (validLeaseDuration leaseDuration) (\<lambda>leaseDurationMs.
     bindE (activeLeaseCondition sha claim checkedAt) (\<lambda>held.
     bindE (requireSome (TaskLeaseError (cl_taskId claim)) (find held (d_tasks db))) (\<lambda>lockedTask.
     if \<not> live_lease lockedTask now then Inl (TaskLeaseError (cl_taskId claim))
     else
     bindE (requireSome (TaskLeaseError (cl_taskId claim)) (batch_by_id db (t_batchId lockedTask))) (\<lambda>batch.
     bindE (protocol_window other (b_protocol batch)) (\<lambda>(_, windowEndsAt).
     if now \<ge> windowEndsAt then Inl (TaskLeaseError (cl_taskId claim))
     else
     let leaseExpiresAt = boundedLeaseExpiry now leaseDurationMs windowEndsAt in
     bindE (activeLeaseCondition sha claim now) (\<lambda>held.
     bindE (update_tasks db held (\<lambda>t. t\<lparr>t_leaseExpiresAt := Some leaseExpiresAt\<rparr>)) (\<lambda>(db', updated).
     case updated of
       [] \<Rightarrow> Inl (TaskLeaseError (cl_taskId claim))
     | task # _ \<Rightarrow> Inr (db', (t_leaseGeneration task, leaseExpiresAt)))))))))"

text \<open>The context is the task's view, its batch, the time of the check and the window's end.\<close>

definition assertActiveDeliveryClaimInTransaction ::
  "(string \<Rightarrow> string) \<Rightarrow> (string \<Rightarrow> int option) \<Rightarrow> int \<Rightarrow> int \<Rightarrow> delivery_claim_proof \<Rightarrow> database \<Rightarrow>
   error + delivery_task \<times> delivery_batch \<times> int \<times> int" where
  "assertActiveDeliveryClaimInTransaction sha other checkedAt verifiedAt claim db =
     bindE (requireSome (TaskLeaseError (cl_taskId claim)) (task_by_id db (cl_taskId claim))) (\<lambda>taskIdentity.
     bindE (requireSome (TaskLeaseError (cl_taskId claim)) (batch_by_id db (t_batchId taskIdentity))) (\<lambda>batch.
     if b_status batch \<noteq> BatchFrozen \<and> b_status batch \<noteq> BatchInProgress
     then Inl (TaskLeaseError (cl_taskId claim))
     else
     bindE (activeLeaseCondition sha claim checkedAt) (\<lambda>held.
     bindE (requireSome (TaskLeaseError (cl_taskId claim)) (find held (d_tasks db))) (\<lambda>task.
     if \<not> live_lease task verifiedAt then Inl (TaskLeaseError (cl_taskId claim))
     else
     bindE (protocol_window other (b_protocol batch)) (\<lambda>(windowStartsAt, windowEndsAt).
     if verifiedAt < windowStartsAt \<or> verifiedAt \<ge> windowEndsAt then Inl (TaskLeaseError (cl_taskId claim))
     else Inr (redactDeliveryTask task, batch, verifiedAt, windowEndsAt))))))"

definition assertActiveDeliveryClaim ::
  "(string \<Rightarrow> string) \<Rightarrow> (string \<Rightarrow> int option) \<Rightarrow> int \<Rightarrow> int \<Rightarrow> delivery_claim_proof \<Rightarrow> database \<Rightarrow>
   error + database \<times> (delivery_task \<times> delivery_batch \<times> int \<times> int)" where
  "assertActiveDeliveryClaim sha other checkedAt verifiedAt claim db =
     bindE (assertActiveDeliveryClaimInTransaction sha other checkedAt verifiedAt claim db) (\<lambda>c. Inr (db, c))"

definition releaseDeliveryTask ::
  "(string \<Rightarrow> string) \<Rightarrow> int \<Rightarrow> delivery_claim_proof \<Rightarrow> thrown_value option \<Rightarrow> database \<Rightarrow>
   error + database \<times> delivery_task" where
  "releaseDeliveryTask sha now claim reported db =
     bindE (activeLeaseCondition sha claim now) (\<lambda>held.
     bindE (requireSome (TaskLeaseError (cl_taskId claim)) (find held (d_tasks db))) (\<lambda>lockedTask.
     bindE (assertPortalBrowserRunnerMutationAllowed (pl_captureRouteKey lockedTask)
         (t_submitIntentAt lockedTask) PortalRelease) (\<lambda>_.
     bindE (update_tasks db held
         (\<lambda>t. (case reported of None \<Rightarrow> id | Some e \<Rightarrow> set_last_error (describeError e))
            ((clear_lease (automation_to AutoNeedsHuman t))
               \<lparr>t_status := TaskAvailable, t_availableAt := Some now\<rparr>))) (\<lambda>(db', released).
     case released of
       [] \<Rightarrow> Inl (TaskLeaseError (cl_taskId claim))
     | task # _ \<Rightarrow> Inr (db', redactDeliveryTask task)))))"

subsection \<open>Resolving a task\<close>

definition completeDeliveryTaskInTransaction ::
  "(string \<Rightarrow> string) \<Rightarrow> int \<Rightarrow> delivery_claim_proof \<Rightarrow> string \<Rightarrow> database \<Rightarrow>
   error + database \<times> delivery_task" where
  "completeDeliveryTaskInTransaction sha now claim observationAttemptId db =
     bindE (lockDeliveryTaskBatch db (cl_taskId claim)) (\<lambda>_.
     bindE (assertAttemptMatchesTask db (cl_taskId claim) observationAttemptId ObsSucceeded) (\<lambda>_.
     bindE (activeLeaseCondition sha claim now) (\<lambda>held.
     bindE (update_tasks db held
         (\<lambda>t. (clear_lease (automation_to AutoCompleted t))
            \<lparr>t_status := TaskSucceeded, t_observationAttemptId := Some observationAttemptId,
             t_succeededAt := Some now, t_lastErrorClass := None, t_lastErrorCode := None,
             t_lastErrorMessage := None, t_needsHumanCode := None, t_needsHumanReason := None\<rparr>))
       (\<lambda>(db1, completed).
     case completed of
       [] \<Rightarrow> Inl (TaskLeaseError (cl_taskId claim))
     | task # _ \<Rightarrow>
         bindE (settleDeliveryBatch db1 (t_batchId task) now) (\<lambda>db2. Inr (db2, redactDeliveryTask task))))))"

definition completeDeliveryTaskSuccess ::
  "(string \<Rightarrow> string) \<Rightarrow> int \<Rightarrow> delivery_claim_proof \<Rightarrow> string \<Rightarrow> database \<Rightarrow>
   error + database \<times> delivery_task" where
  "completeDeliveryTaskSuccess sha now claim observationAttemptId db =
     completeDeliveryTaskInTransaction sha now claim observationAttemptId db"

definition terminal_error ::
  "delivery_task \<Rightarrow> string \<Rightarrow> string \<times> string option \<times> string \<Rightarrow> string \<times> string option \<times> string" where
  "terminal_error originalTask claimedBy reportedError =
     (if truthy_text (t_needsHumanCode originalTask) \<and> truthy_text (t_needsHumanReason originalTask)
      then (''BrowserRunnerTerminalFailure'', t_needsHumanCode originalTask,
            js_slice 2000 (sanitizeDiagnostic (the (t_needsHumanReason originalTask)) @
              '' | terminal disposition: '' @ sanitizeDiagnostic (snd (snd reportedError)) @
              '' (confirmed by '' @ sanitizeDiagnostic claimedBy @ '')''))
      else reportedError)"

definition failDeliveryTaskInTransaction ::
  "(string \<Rightarrow> string) \<Rightarrow> int \<Rightarrow> delivery_claim_proof \<Rightarrow> string option \<Rightarrow> thrown_value \<Rightarrow> database \<Rightarrow>
   error + database \<times> delivery_task" where
  "failDeliveryTaskInTransaction sha now claim observationAttemptId reported db =
     bindE (lockDeliveryTaskBatch db (cl_taskId claim)) (\<lambda>_.
     bindE (requireSome (TaskLeaseError (cl_taskId claim)) (task_by_id db (cl_taskId claim))) (\<lambda>originalTask.
     bindE (if truthy_text observationAttemptId
            then assertAttemptMatchesTask db (cl_taskId claim) (the observationAttemptId) ObsFailed
            else Inr ()) (\<lambda>_.
     let terminalFailure = terminal_error originalTask (cl_claimedBy claim) (describeError reported) in
     bindE (activeLeaseCondition sha claim now) (\<lambda>held.
     bindE (update_tasks db held
         (\<lambda>t. (set_last_error terminalFailure (clear_lease (automation_to AutoCompleted t)))
            \<lparr>t_status := TaskFailed,
             t_observationAttemptId :=
               (case observationAttemptId of None \<Rightarrow> t_observationAttemptId t | Some a \<Rightarrow> Some a),
             t_failedAt := Some now, t_needsHumanCode := None, t_needsHumanReason := None\<rparr>))
       (\<lambda>(db1, failed).
     case failed of
       [] \<Rightarrow> Inl (TaskLeaseError (cl_taskId claim))
     | task # _ \<Rightarrow>
         bindE (settleDeliveryBatch db1 (t_batchId task) now) (\<lambda>db2. Inr (db2, redactDeliveryTask task)))))))"

definition failDeliveryTask ::
  "(string \<Rightarrow> string) \<Rightarrow> int \<Rightarrow> delivery_claim_proof \<Rightarrow> string option \<Rightarrow> thrown_value \<Rightarrow> database \<Rightarrow>
   error + database \<times> delivery_task" where
  "failDeliveryTask sha now claim observationAttemptId reported db =
     failDeliveryTaskInTransaction sha now claim observationAttemptId reported db"

subsection \<open>Cancelling\<close>

definition cancelDeliveryBatch ::
  "int \<Rightarrow> string \<Rightarrow> string \<Rightarrow> string option \<Rightarrow> database \<Rightarrow> error + database \<times> delivery_batch" where
  "cancelDeliveryBatch cancelledAt brandId batchId cancelledBy db =
     bindE (requireSome (PlainError (''Delivery batch '' @ batchId @ '' was not found'')) (find_batch db brandId batchId))
       (\<lambda>batch.
     if b_status batch = BatchCancelled then Inr (db, batch)
     else if b_status batch = BatchCompleted
     then Inl (BatchStateError (''Completed delivery batch '' @ b_id batch @ '' cannot be cancelled''))
     else if b_executionMode batch = ModeBrowserRunner \<and> b_automationStartedAt batch \<noteq> None \<and>
       \<not> canCancelBrowserRunnerAfterStart (batch_tasks db (b_id batch))
     then Inl (BatchStateError (''Browser-runner batch '' @ b_id batch @
            '' cannot be cancelled after any frozen slot was attempted''))
     else
     bindE (update_tasks db (\<lambda>t. t_batchId t = b_id batch \<and> unresolved_status (t_status t))
         (\<lambda>t. (clear_lease (automation_to AutoCompleted t))
            \<lparr>t_status := TaskCancelled, t_cancelledAt := Some cancelledAt\<rparr>)) (\<lambda>(db1, _).
     bindE (optionalText cancelledBy ''cancelledBy'' 300) (\<lambda>cancelledBy.
     bindE (update_batches db1 (\<lambda>b. b_id b = b_id batch)
         (\<lambda>b. b\<lparr>b_status := BatchCancelled,
            b_automationStatus :=
              (if b_executionMode batch = ModeBrowserRunner then Some RunnerSettled else b_automationStatus batch),
            b_automationSettledAt :=
              (if b_executionMode batch = ModeBrowserRunner then Some cancelledAt
               else b_automationSettledAt batch),
            b_cancelledAt := Some cancelledAt,
            b_cancelledBy := (case cancelledBy of None \<Rightarrow> b_cancelledBy b | Some _ \<Rightarrow> cancelledBy)\<rparr>))
       (\<lambda>(db2, cancelled).
     case cancelled of
       [] \<Rightarrow> Inl (PlainError (''Failed to cancel delivery batch '' @ b_id batch))
     | b # _ \<Rightarrow> Inr (db2, b)))))"

end
