(* ===== verification/BrowserRunner.thy ===== *)
theory BrowserRunner
  imports DeliveryBatches
begin

text \<open>
  The browser runner's side of the delivery queue (\<open>packages/lib/src/db/browser-runner.ts\<close>):
  starting a batch, claiming, resuming and reconciling a task, the durable submit intent, failures,
  the operator's recoveries and finalisations, and the daily settlement. A function made of
  several transactions returns the database together with its result or error, because a later
  error does not undo an earlier commit. \<open>clock\<close> gives the successive readings of a loop.
\<close>

subsection \<open>Inputs and results\<close>

datatype principal_kind = LegacyHost | ExtensionPrincipal

type_synonym claim_target = "string \<times> string"

record runner_claim_proof =
  rc_taskId :: string
  rc_runnerId :: string
  rc_leaseToken :: string
  rc_leaseGeneration :: int

record runner_progress =
  rp_total :: nat
  rp_completed :: nat
  rp_running :: nat
  rp_needsHuman :: nat
  rp_needsHumanPreSubmit :: nat
  rp_needsHumanPostSubmit :: nat

definition runner_status_text :: "runner_batch_status option \<Rightarrow> string" where
  "runner_status_text s =
     (case s of None \<Rightarrow> ''not configured'' | Some RunnerNotStarted \<Rightarrow> ''not_started''
      | Some RunnerRunning \<Rightarrow> ''running'' | Some RunnerNeedsHuman \<Rightarrow> ''needs_human''
      | Some RunnerSettled \<Rightarrow> ''settled'')"

definition browserRunnerNeedsHumanFinalizationPath ::
  "delivery_task_status \<Rightarrow> error + delivery_task_status list" where
  "browserRunnerNeedsHumanFinalizationPath status =
     (if status = TaskAvailable then Inr [TaskClaimed, TaskFailed]
      else if status = TaskClaimed then Inr [TaskFailed]
      else Inl (RunnerStateError (''Task status '' @ task_status_text status @ '' cannot be finalized from needs-human'')))"

definition resolveBrowserRunnerClaimTargets ::
  "principal_kind \<Rightarrow> string list option \<Rightarrow> string list option \<Rightarrow> error + claim_target list" where
  "resolveBrowserRunnerClaimTargets principalKind requestedSurfaceTargetKeys supportedSurfaces =
     (let wanted = (\<lambda>s. case requestedSurfaceTargetKeys of None \<Rightarrow> True | Some r \<Rightarrow> List.member r s) in
      if principalKind = LegacyHost
      then Inr (if wanted ''doubao.consumer_web'' then [(''doubao.consumer_web'', ''browser_runner.doubao'')] else [])
      else
      let supported = (case supportedSurfaces of None \<Rightarrow> [] | Some s \<Rightarrow> s) in
      mapE (\<lambda>surface. bindE (browserExtensionCaptureRoute surface) (\<lambda>route. Inr (surface, route)))
        (filter (\<lambda>surface. List.member supported surface \<and> wanted surface) BROWSER_EXTENSION_SURFACES))"

subsection \<open>Private helpers\<close>

definition runner_requiredText :: "string \<Rightarrow> string \<Rightarrow> nat \<Rightarrow> error + string" where
  "runner_requiredText value field maxLength =
     (let normalized = js_trim value in
      if normalized = [] \<or> length normalized > maxLength then Inl (PlainError (field @ '' is invalid''))
      else Inr normalized)"

definition runner_validLeaseDuration :: "int option \<Rightarrow> error + int" where
  "runner_validLeaseDuration value =
     (let v = (case value of None \<Rightarrow> 15 * 60 * 1000 | Some v \<Rightarrow> v) in
      if \<not> safe_int v \<or> v < 10000 \<or> v > 60 * 60 * 1000
      then Inl (PlainError ''leaseDurationMs must be between 10000 and 3600000'')
      else Inr v)"

definition hashToken :: "(string \<Rightarrow> string) \<Rightarrow> string \<Rightarrow> error + string" where
  "hashToken sha token = bindE (runner_requiredText token ''leaseToken'' 500) (\<lambda>t. Inr (sha t))"

definition runner_claimant :: "string \<Rightarrow> string" where
  "runner_claimant runnerId = ''browser-runner:'' @ runnerId"

definition activeRunnerLease ::
  "(string \<Rightarrow> string) \<Rightarrow> runner_claim_proof \<Rightarrow> int \<Rightarrow> error + (delivery_task \<Rightarrow> bool)" where
  "activeRunnerLease sha claim now =
     bindE (runner_requiredText (rc_runnerId claim) ''runnerId'' 200) (\<lambda>runnerId.
     bindE (hashToken sha (rc_leaseToken claim)) (\<lambda>leaseTokenHash.
     Inr (\<lambda>t. t_id t = rc_taskId claim \<and> t_status t = TaskClaimed \<and> t_automationStatus t = Some AutoRunning \<and>
            t_claimedBy t = Some (runner_claimant runnerId) \<and> t_leaseTokenHash t = Some leaseTokenHash \<and>
            t_leaseGeneration t = rc_leaseGeneration claim \<and> live_lease t now)))"

text \<open>\<open>describeError\<close> of this file; the class of the error is \<open>BrowserRunnerError\<close>.\<close>

definition runner_describeError :: "string \<Rightarrow> string \<Rightarrow> error + string \<times> string option \<times> string" where
  "runner_describeError code reason =
     bindE (runner_requiredText code ''code'' 100) (\<lambda>c.
     bindE (runner_requiredText reason ''reason'' 1000) (\<lambda>r.
     Inr (''BrowserRunnerError'', Some c, sanitizeDiagnostic r)))"

definition terminalFailureMessage :: "string \<Rightarrow> string \<Rightarrow> string \<Rightarrow> string" where
  "terminalFailureMessage originalReason humanReason confirmedBy =
     js_slice 2000 (sanitizeDiagnostic originalReason @ '' | terminal disposition: '' @
       sanitizeDiagnostic humanReason @ '' (confirmed by '' @ sanitizeDiagnostic confirmedBy @ '')'')"

definition inProgressDeliveryBatch :: "delivery_batch_status \<Rightarrow> bool" where
  "inProgressDeliveryBatch status \<longleftrightarrow> status = BatchFrozen \<or> status = BatchInProgress"

definition refreshBrowserRunnerBatchState :: "database \<Rightarrow> string \<Rightarrow> int \<Rightarrow> error + database" where
  "refreshBrowserRunnerBatchState db batchId now =
     (let automationStatus = deriveBrowserRunnerBatchStatus (map t_automationStatus (batch_tasks db batchId)) in
      bindE (update_batches db (\<lambda>b. b_id b = batchId \<and> b_executionMode b = ModeBrowserRunner)
          (\<lambda>b. b\<lparr>b_automationStatus := Some automationStatus,
             b_automationSettledAt :=
               (if automationStatus = RunnerSettled then Some now else b_automationSettledAt b)\<rparr>))
        (\<lambda>(db', _). Inr db'))"

definition to_needs_human :: "string \<Rightarrow> string \<Rightarrow> string \<Rightarrow> int \<Rightarrow> delivery_task \<Rightarrow> delivery_task" where
  "to_needs_human errorClass code reason now t =
     t\<lparr>t_status := TaskAvailable, t_automationStatus := Some AutoNeedsHuman, t_leaseTokenHash := None,
       t_leaseExpiresAt := None, t_availableAt := Some now, t_needsHumanCode := Some code,
       t_needsHumanReason := Some reason, t_lastErrorClass := Some errorClass,
       t_lastErrorCode := Some code, t_lastErrorMessage := Some reason\<rparr>"

definition markTaskNeedsHuman :: "database \<Rightarrow> delivery_task \<Rightarrow> string \<Rightarrow> string \<Rightarrow> int \<Rightarrow> error + database" where
  "markTaskNeedsHuman db task code reason now =
     bindE (update_tasks db (\<lambda>t. t_id t = t_id task) (to_needs_human ''BrowserRunnerNeedsHuman'' code reason now))
       (\<lambda>(db', _). Inr db')"

definition summarizeProgress :: "delivery_task list \<Rightarrow> runner_progress" where
  "summarizeProgress rows =
     (let needsHumanRows = filter (\<lambda>t. t_automationStatus t = Some AutoNeedsHuman) rows in
      \<lparr>rp_total = length rows,
       rp_completed = length (filter (\<lambda>t. t_automationStatus t = Some AutoCompleted) rows),
       rp_running =
         length (filter (\<lambda>t. t_status t = TaskClaimed \<and> t_automationStatus t = Some AutoRunning) rows),
       rp_needsHuman = length needsHumanRows,
       rp_needsHumanPreSubmit = length (filter (\<lambda>t. t_submitIntentAt t = None) needsHumanRows),
       rp_needsHumanPostSubmit = length (filter (\<lambda>t. t_submitIntentAt t \<noteq> None) needsHumanRows)\<rparr>)"

subsection \<open>Starting a batch\<close>

definition startBrowserRunnerBatch ::
  "(string \<Rightarrow> int option) \<Rightarrow> int \<Rightarrow> string \<Rightarrow> string \<Rightarrow> database \<Rightarrow> error + database \<times> delivery_batch" where
  "startBrowserRunnerBatch other now brandId batchId db =
     bindE (requireSome (RunnerStateError ''Delivery batch was not found'') (find_batch db brandId batchId)) (\<lambda>batch.
     if b_executionMode batch \<noteq> ModeBrowserRunner
     then Inl (RunnerStateError ''Only browser-runner batches can start automation'')
     else if b_status batch \<noteq> BatchFrozen
     then Inl (RunnerStateError ''The delivery batch is not ready to start'')
     else if b_automationStatus batch \<noteq> Some RunnerNotStarted
     then Inl (RunnerStateError (''Browser automation is '' @ runner_status_text (b_automationStatus batch)))
     else
     bindE (requireSome (RunnerStateError ''Browser automation requires a CN/zh-CN/Asia/Shanghai measurement scope'')
       (find (\<lambda>s. ms_id s = b_scopeId batch \<and> sc_brandId s = b_brandId batch) (d_scopes db))) (\<lambda>scope.
     if \<not> isBrowserRunnerCnScope scope
     then Inl (RunnerStateError ''Browser automation requires a CN/zh-CN/Asia/Shanghai measurement scope'')
     else
     bindE (protocol_window other (b_protocol batch)) (\<lambda>(startsAt, endsAt).
     if now < startsAt then Inl (RunnerStateError ''The frozen measurement window has not started'')
     else if now \<ge> endsAt then Inl (RunnerStateError ''The frozen measurement window has ended'')
     else
     bindE (update_batches db
         (\<lambda>b. b_id b = b_id batch \<and> b_status b = BatchFrozen \<and> b_automationStatus b = Some RunnerNotStarted)
         (\<lambda>b. b\<lparr>b_status := BatchInProgress, b_automationStatus := Some RunnerRunning,
            b_automationStartedAt := Some now,
            b_startedAt := (case b_startedAt batch of None \<Rightarrow> Some now | s \<Rightarrow> s)\<rparr>)) (\<lambda>(db1, started).
     case started of
       [] \<Rightarrow> Inl (RunnerStateError ''Browser automation was started concurrently'')
     | b # _ \<Rightarrow>
         bindE (update_tasks db1
             (\<lambda>t. t_batchId t = b_id batch \<and> t_status t = TaskAvailable \<and> t_automationStatus t = None)
             (\<lambda>t. t\<lparr>t_automationStatus := Some AutoQueued\<rparr>)) (\<lambda>(db2, _). Inr (db2, b))))))"

subsection \<open>Windows that ended\<close>

text \<open>\<open>reconcileExpiredBrowserRunnerBatches\<close>: one transaction for each batch.\<close>

definition window_expired_code :: "delivery_task \<Rightarrow> string" where
  "window_expired_code task =
     (if t_submitIntentAt task \<noteq> None then ''submit_outcome_unknown'' else ''window_expired_unexecuted'')"

definition window_expired_reason :: "delivery_task \<Rightarrow> string" where
  "window_expired_reason task =
     (if t_submitIntentAt task \<noteq> None
      then ''The frozen window ended after durable submit intent; automatic replay is forbidden''
      else ''The frozen measurement window ended before this slot could be completed'')"

fun expire_window_tasks :: "int \<Rightarrow> delivery_task list \<Rightarrow> nat \<Rightarrow> database \<Rightarrow> error + database \<times> nat" where
  "expire_window_tasks now [] changed db = Inr (db, changed)"
| "expire_window_tasks now (task # tasks) changed db =
     (if t_status task = TaskClaimed \<and> live_lease task now then expire_window_tasks now tasks changed db
      else
      bindE (update_tasks db
          (\<lambda>t. t_id t = t_id task \<and> t_status t = t_status task \<and>
             t_automationStatus t = t_automationStatus task \<and> t_leaseGeneration t = t_leaseGeneration task)
          (to_needs_human ''BrowserRunnerWindowExpired'' (window_expired_code task)
             (window_expired_reason task) now)) (\<lambda>(db', updated).
      expire_window_tasks now tasks (if updated = [] then changed else changed + 1) db'))"

definition reconcile_expired_batch ::
  "(string \<Rightarrow> int option) \<Rightarrow> int \<Rightarrow> int \<Rightarrow> string \<Rightarrow> string \<Rightarrow> database \<Rightarrow> error + database \<times> nat" where
  "reconcile_expired_batch other now refreshedAt brandId batchId db =
     (case find_batch db brandId batchId of
        None \<Rightarrow> Inr (db, 0)
      | Some batch \<Rightarrow>
          if b_executionMode batch \<noteq> ModeBrowserRunner \<or> b_automationStartedAt batch = None then Inr (db, 0)
          else
          bindE (protocol_window other (b_protocol batch)) (\<lambda>(_, endsAt).
          if now < endsAt then Inr (db, 0)
          else
          bindE (expire_window_tasks now
              (filter (\<lambda>t. t_batchId t = b_id batch \<and> (t_status t = TaskAvailable \<or> t_status t = TaskClaimed) \<and>
                 (t_automationStatus t = Some AutoQueued \<or> t_automationStatus t = Some AutoRunning)) (d_tasks db))
              0 db) (\<lambda>(db1, changed).
          bindE (refreshBrowserRunnerBatchState db1 (b_id batch) refreshedAt) (\<lambda>db2. Inr (db2, changed)))))"

fun reconcile_expired_each ::
  "(string \<Rightarrow> int option) \<Rightarrow> (nat \<Rightarrow> int) \<Rightarrow> string \<Rightarrow> string list \<Rightarrow> nat \<Rightarrow> nat \<Rightarrow> database \<Rightarrow>
   database \<times> (error + nat)" where
  "reconcile_expired_each other clock brandId [] n reconciled db = (db, Inr reconciled)"
| "reconcile_expired_each other clock brandId (candidate # candidates) n reconciled db =
     (case reconcile_expired_batch other (clock (2 * n)) (clock (2 * n + 1)) brandId candidate db of
        Inl e \<Rightarrow> (db, Inl e)
      | Inr (db', changed) \<Rightarrow>
          reconcile_expired_each other clock brandId candidates (Suc n) (reconciled + changed) db')"

definition reconcileExpiredBrowserRunnerBatches ::
  "(string \<Rightarrow> int option) \<Rightarrow> (nat \<Rightarrow> int) \<Rightarrow> string \<Rightarrow> database \<Rightarrow> database \<times> (error + nat)" where
  "reconcileExpiredBrowserRunnerBatches other clock brandId db =
     reconcile_expired_each other clock brandId
       (map b_id (filter (\<lambda>b. b_brandId b = brandId \<and> b_executionMode b = ModeBrowserRunner \<and>
          b_automationStartedAt b \<noteq> None \<and> inProgressDeliveryBatch (b_status b)) (d_batches db)))
       0 0 db"

subsection \<open>Claiming\<close>

definition runner_claimable :: "claim_target list \<Rightarrow> string \<Rightarrow> int \<Rightarrow> delivery_task \<Rightarrow> bool" where
  "runner_claimable captureTargets batchId now t \<longleftrightarrow>
     t_batchId t = batchId \<and> List.member captureTargets (pl_surfaceTargetKey t, pl_captureRouteKey t) \<and>
     ((t_status t = TaskAvailable \<and> t_automationStatus t = Some AutoQueued) \<or>
      (t_status t = TaskClaimed \<and> t_automationStatus t = Some AutoRunning \<and> expired_lease t now))"

text \<open>The code and the reason for handing a task whose runner vanished to a human.\<close>

definition vanished_runner_code :: "bool \<Rightarrow> string" where
  "vanished_runner_code submitUnknown =
     (if submitUnknown then ''submit_outcome_unknown'' else ''runner_lease_expired'')"

definition vanished_runner_reason :: "bool \<Rightarrow> string" where
  "vanished_runner_reason submitUnknown =
     (if submitUnknown
      then ''The previous runner recorded submit intent; automatic replay is forbidden''
      else ''The previous runner lease expired; automatic replay requires explicit human disposition'')"

definition park_candidate ::
  "database \<Rightarrow> string \<Rightarrow> delivery_task \<Rightarrow> string \<Rightarrow> string \<Rightarrow> int \<Rightarrow> int \<Rightarrow> error + database" where
  "park_candidate db batchId candidate code reason markedAt refreshedAt =
     bindE (markTaskNeedsHuman db candidate code reason markedAt) (\<lambda>db1.
     refreshBrowserRunnerBatchState db1 batchId refreshedAt)"

definition runner_claim_update ::
  "(string \<Rightarrow> string) \<Rightarrow> int \<Rightarrow> string \<Rightarrow> string \<Rightarrow> int \<Rightarrow> int \<Rightarrow> delivery_task \<Rightarrow> database \<Rightarrow>
   error + database \<times> delivery_task list" where
  "runner_claim_update sha now leaseToken runnerId leaseDurationMs endsAt candidate db =
     bindE (hashToken sha leaseToken) (\<lambda>leaseTokenHash.
     update_tasks db
       (\<lambda>t. t_id t = t_id candidate \<and> t_status t = t_status candidate \<and>
          t_leaseGeneration t = t_leaseGeneration candidate)
       (\<lambda>t. t\<lparr>t_status := TaskClaimed, t_automationStatus := Some AutoRunning,
          t_automationAttemptCount := t_automationAttemptCount candidate + 1,
          t_claimedBy := Some (runner_claimant runnerId), t_leaseTokenHash := Some leaseTokenHash,
          t_leaseGeneration := t_leaseGeneration candidate + 1,
          t_leaseExpiresAt := Some (boundedLeaseExpiry now leaseDurationMs endsAt),
          t_claimCount := t_claimCount candidate + 1, t_claimedAt := Some now\<rparr>))"

text \<open>
  The endless loop over one batch's candidates: \<open>None\<close> would be a loop that never returns. \<open>n\<close>
  counts the iterations, so that each reads the clock anew.
\<close>

partial_function (option) runner_claim_loop ::
  "(string \<Rightarrow> string) \<Rightarrow> (nat \<Rightarrow> int) \<Rightarrow> int \<Rightarrow> (string \<Rightarrow> bool) \<Rightarrow> string \<Rightarrow> string \<Rightarrow> int \<Rightarrow>
   claim_target list \<Rightarrow> delivery_batch \<Rightarrow> int \<Rightarrow> nat \<Rightarrow> database \<Rightarrow>
   (error + database \<times> claimed_delivery_task option) option" where
  "runner_claim_loop sha clock now locked leaseToken runnerId leaseDurationMs captureTargets batch endsAt n db =
     (case first_unlocked locked (runner_claimable captureTargets (b_id batch) now) db of
        None \<Rightarrow> Some (Inr (db, None))
      | Some candidate \<Rightarrow>
          if expiredBrowserRunnerClaimNeedsHuman (t_status candidate) (t_automationStatus candidate) then
            (case park_candidate db (b_id batch) candidate
                (vanished_runner_code (t_submitIntentAt candidate \<noteq> None))
                (vanished_runner_reason (t_submitIntentAt candidate \<noteq> None))
                (clock (2 * n)) (clock (2 * n + 1)) of
               Inl e \<Rightarrow> Some (Inl e)
             | Inr db1 \<Rightarrow>
                 runner_claim_loop sha clock now locked leaseToken runnerId leaseDurationMs captureTargets
                   batch endsAt (Suc n) db1)
          else if t_automationAttemptCount candidate \<ge> BROWSER_RUNNER_MAX_PRE_SUBMIT_ATTEMPTS then
            (case park_candidate db (b_id batch) candidate ''pre_submit_attempts_exhausted''
                ''The automatic pre-submit retry budget was exhausted'' (clock (2 * n)) (clock (2 * n + 1)) of
               Inl e \<Rightarrow> Some (Inl e)
             | Inr db1 \<Rightarrow>
                 runner_claim_loop sha clock now locked leaseToken runnerId leaseDurationMs captureTargets
                   batch endsAt (Suc n) db1)
          else
            (case runner_claim_update sha now leaseToken runnerId leaseDurationMs endsAt candidate db of
               Inl e \<Rightarrow> Some (Inl e)
             | Inr (db1, claimed) \<Rightarrow>
                 (case claimed of
                    [] \<Rightarrow>
                      runner_claim_loop sha clock now locked leaseToken runnerId leaseDurationMs captureTargets
                        batch endsAt (Suc n) db1
                  | task # _ \<Rightarrow>
                      Some (bindE
                        (if b_status batch = BatchFrozen
                         then bindE (update_batches db1 (\<lambda>b. b_id b = b_id batch \<and> b_status b = BatchFrozen)
                                (\<lambda>b. b\<lparr>b_status := BatchInProgress\<rparr>)) (\<lambda>(db2, _). Inr db2)
                         else Inr db1) (\<lambda>db2.
                        Inr (db2, Some
                          \<lparr>ct_task = redactDeliveryTask task, ct_leaseToken = leaseToken,
                           ct_leaseGeneration = t_leaseGeneration candidate + 1,
                           ct_leaseExpiresAt = boundedLeaseExpiry now leaseDurationMs endsAt\<rparr>))))))"

fun runner_claim_batches ::
  "(string \<Rightarrow> string) \<Rightarrow> (string \<Rightarrow> int option) \<Rightarrow> (nat \<Rightarrow> int) \<Rightarrow> int \<Rightarrow> (string \<Rightarrow> bool) \<Rightarrow> string \<Rightarrow> string \<Rightarrow>
   int \<Rightarrow> claim_target list \<Rightarrow> delivery_batch list \<Rightarrow> database \<Rightarrow>
   (error + database \<times> claimed_delivery_task option) option" where
  "runner_claim_batches sha other clock now locked leaseToken runnerId leaseDurationMs captureTargets [] db =
     Some (Inr (db, None))"
| "runner_claim_batches sha other clock now locked leaseToken runnerId leaseDurationMs captureTargets
     (batch # batches) db =
     (case protocol_window other (b_protocol batch) of
        Inl e \<Rightarrow> Some (Inl e)
      | Inr (startsAt, endsAt) \<Rightarrow>
          if now < startsAt \<or> now \<ge> endsAt
          then runner_claim_batches sha other clock now locked leaseToken runnerId leaseDurationMs captureTargets
                 batches db
          else
          (case runner_claim_loop sha clock now locked leaseToken runnerId leaseDurationMs captureTargets
              batch endsAt 0 db of
             None \<Rightarrow> None
           | Some (Inl e) \<Rightarrow> Some (Inl e)
           | Some (Inr (db1, Some claim)) \<Rightarrow> Some (Inr (db1, Some claim))
           | Some (Inr (db1, None)) \<Rightarrow>
               runner_claim_batches sha other clock now locked leaseToken runnerId leaseDurationMs captureTargets
                 batches db1))"

record runner_claim_input =
  ri_brandId :: string
  ri_batchId :: "string option"
  ri_runnerId :: string
  ri_leaseDurationMs :: "int option"
  ri_captureTargets :: "claim_target list option"

text \<open>
  The reconciliation runs and commits first; \<open>expiryClock\<close> are its clock readings. \<open>locked\<close> holds
  of the batches and the tasks that other transactions have locked.
\<close>

definition claimBrowserRunnerTask ::
  "(string \<Rightarrow> string) \<Rightarrow> (string \<Rightarrow> int option) \<Rightarrow> (nat \<Rightarrow> int) \<Rightarrow> (nat \<Rightarrow> int) \<Rightarrow> int \<Rightarrow> (string \<Rightarrow> bool) \<Rightarrow>
   string \<Rightarrow> runner_claim_input \<Rightarrow> database \<Rightarrow>
   database \<times> (error + claimed_delivery_task option) option" where
  "claimBrowserRunnerTask sha other expiryClock clock now locked leaseToken input db =
     (case bindE (runner_requiredText (ri_runnerId input) ''runnerId'' 200) (\<lambda>runnerId.
           bindE (runner_validLeaseDuration (ri_leaseDurationMs input)) (\<lambda>d. Inr (runnerId, d))) of
        Inl e \<Rightarrow> (db, Some (Inl e))
      | Inr (runnerId, leaseDurationMs) \<Rightarrow>
          let captureTargets = (case ri_captureTargets input of
                None \<Rightarrow> [(''doubao.consumer_web'', ''browser_runner.doubao'')] | Some ts \<Rightarrow> ts) in
          if captureTargets = [] then (db, Some (Inr None))
          else
          (case reconcileExpiredBrowserRunnerBatches other expiryClock (ri_brandId input) db of
             (db1, Inl e) \<Rightarrow> (db1, Some (Inl e))
           | (db1, Inr _) \<Rightarrow>
               let batches = sort_key b_createdAt (filter (\<lambda>b.
                     b_brandId b = ri_brandId input \<and> b_executionMode b = ModeBrowserRunner \<and>
                     b_automationStatus b = Some RunnerRunning \<and> inProgressDeliveryBatch (b_status b) \<and>
                     (truthy_text (ri_batchId input) \<longrightarrow> Some (b_id b) = ri_batchId input) \<and>
                     \<not> locked (b_id b)) (d_batches db1)) in
               (case runner_claim_batches sha other clock now locked leaseToken runnerId leaseDurationMs
                   captureTargets batches db1 of
                  None \<Rightarrow> (db1, None)
                | Some (Inl e) \<Rightarrow> (db1, Some (Inl e))
                | Some (Inr (db2, claim)) \<Rightarrow> (db2, Some (Inr claim)))))"

subsection \<open>Resuming and reconciling one task\<close>

definition resume_denial_text :: "resume_denial \<Rightarrow> string" where
  "resume_denial_text d = (case d of NotNeedsHuman \<Rightarrow> ''not_needs_human'' | WrongRunner \<Rightarrow> ''wrong_runner'')"

definition resumeBrowserRunnerTask ::
  "(string \<Rightarrow> string) \<Rightarrow> (string \<Rightarrow> int option) \<Rightarrow> int \<Rightarrow> string \<Rightarrow> string \<Rightarrow> string \<Rightarrow> string \<Rightarrow> int option \<Rightarrow>
   database \<Rightarrow> error + database \<times> (claimed_delivery_task \<times> runner_stage)" where
  "resumeBrowserRunnerTask sha other now leaseToken brandId taskId runnerId leaseDuration db =
     bindE (runner_requiredText runnerId ''runnerId'' 200) (\<lambda>runnerId.
     let claimant = runner_claimant runnerId in
     bindE (runner_validLeaseDuration leaseDuration) (\<lambda>leaseDurationMs.
     bindE (requireSome (RunnerStateError ''Browser Runner task was not found'')
       (find (\<lambda>t. t_id t = taskId \<and> pl_brandId t = brandId) (d_tasks db))) (\<lambda>identity.
     bindE (requireSome (RunnerStateError ''Browser Runner batch is not resumable'')
       (find_batch db brandId (t_batchId identity))) (\<lambda>batch.
     if b_executionMode batch \<noteq> ModeBrowserRunner \<or> \<not> inProgressDeliveryBatch (b_status batch) \<or>
        (b_automationStatus batch \<noteq> Some RunnerNeedsHuman \<and> b_automationStatus batch \<noteq> Some RunnerRunning)
     then Inl (RunnerStateError ''Browser Runner batch is not resumable'')
     else
     bindE (requireSome (RunnerStateError ''Browser Runner task was not found'')
       (find (\<lambda>t. t_id t = taskId \<and> t_batchId t = b_id batch) (d_tasks db))) (\<lambda>task.
     case browserRunnerResumeDenial (t_status task) (t_automationStatus task) (t_claimedBy task) claimant of
       Some denial \<Rightarrow>
         Inl (RunnerStateError (''Browser Runner task cannot resume: '' @ resume_denial_text denial))
     | None \<Rightarrow>
         let recoveryStage = (if t_submitIntentAt task = None then PreSubmit else PostSubmit) in
         bindE (protocol_window other (b_protocol batch)) (\<lambda>(startsAt, endsAt).
         if now < startsAt \<or> now \<ge> endsAt
         then Inl (RunnerStateError ''Browser Runner task is outside its frozen measurement window'')
         else
         let leaseGeneration = t_leaseGeneration task + 1;
             leaseExpiresAt = boundedLeaseExpiry now leaseDurationMs endsAt in
         bindE (hashToken sha leaseToken) (\<lambda>leaseTokenHash.
         bindE (update_tasks db
             (\<lambda>t. t_id t = t_id task \<and> t_status t = TaskAvailable \<and>
                t_automationStatus t = Some AutoNeedsHuman \<and> t_claimedBy t = Some claimant \<and>
                t_leaseGeneration t = t_leaseGeneration task \<and>
                (if recoveryStage = PreSubmit then t_submitIntentAt t = None else t_submitIntentAt t \<noteq> None))
             (\<lambda>t. t\<lparr>t_status := TaskClaimed, t_automationStatus := Some AutoRunning,
                t_leaseTokenHash := Some leaseTokenHash, t_leaseGeneration := leaseGeneration,
                t_leaseExpiresAt := Some leaseExpiresAt, t_claimCount := t_claimCount task + 1,
                t_claimedAt := Some now,
                t_needsHumanCode := (if recoveryStage = PreSubmit then None else t_needsHumanCode t),
                t_needsHumanReason := (if recoveryStage = PreSubmit then None else t_needsHumanReason t)\<rparr>))
           (\<lambda>(db1, resumed).
         case resumed of
           [] \<Rightarrow> Inl (RunnerStateError ''Browser Runner task changed before it could resume'')
         | r # _ \<Rightarrow>
             bindE (update_batches db1 (\<lambda>b. b_id b = b_id batch \<and> b_executionMode b = ModeBrowserRunner)
                 (\<lambda>b. b\<lparr>b_automationStatus := Some RunnerRunning\<rparr>)) (\<lambda>(db2, _).
             Inr (db2, \<lparr>ct_task = redactDeliveryTask r, ct_leaseToken = leaseToken,
                    ct_leaseGeneration = leaseGeneration, ct_leaseExpiresAt = leaseExpiresAt\<rparr>,
                  recoveryStage))))))))))"

definition reconcileBrowserRunnerTask ::
  "int \<Rightarrow> int \<Rightarrow> int \<Rightarrow> string \<Rightarrow> string \<Rightarrow> string \<Rightarrow> database \<Rightarrow>
   error + database \<times> (exact_reconciliation \<times> delivery_task)" where
  "reconcileBrowserRunnerTask now markedAt refreshedAt brandId taskId runnerId db =
     bindE (runner_requiredText runnerId ''runnerId'' 200) (\<lambda>runnerId.
     let claimant = runner_claimant runnerId in
     bindE (requireSome (RunnerStateError ''Browser Runner task was not found'')
       (find (\<lambda>t. t_id t = taskId \<and> pl_brandId t = brandId) (d_tasks db))) (\<lambda>identity.
     bindE (requireSome (RunnerStateError ''Browser Runner task was not found'')
       (find_batch db brandId (t_batchId identity))) (\<lambda>batch.
     if b_executionMode batch \<noteq> ModeBrowserRunner
     then Inl (RunnerStateError ''Browser Runner task was not found'')
     else
     bindE (requireSome (RunnerStateError ''Browser Runner task was not found'')
       (find (\<lambda>t. t_id t = taskId \<and> t_batchId t = b_id batch) (d_tasks db))) (\<lambda>task.
     let state = reconcileBrowserRunnerExactTask (t_status task) (t_automationStatus task)
           (t_submitIntentAt task) (t_claimedBy task) claimant (t_leaseExpiresAt task) now in
     if (state = RecResumablePre \<or> state = RecResumablePost) \<and> t_status task = TaskClaimed \<and>
        t_automationStatus task = Some AutoRunning
     then
       bindE (park_candidate db (t_batchId task) task (vanished_runner_code (state = RecResumablePost))
           (vanished_runner_reason (state = RecResumablePost)) markedAt refreshedAt) (\<lambda>db1.
       bindE (requireSome (RunnerStateError ''Browser Runner task changed during reconciliation'')
         (task_by_id db1 (t_id task))) (\<lambda>reconciled.
       Inr (db1, state, redactDeliveryTask reconciled)))
     else Inr (db, state, redactDeliveryTask task)))))"

subsection \<open>Failures and the submit boundary\<close>

definition recordBrowserRunnerFailure ::
  "(string \<Rightarrow> string) \<Rightarrow> int \<Rightarrow> int \<Rightarrow> string \<Rightarrow> runner_claim_proof \<Rightarrow> runner_stage \<Rightarrow> string \<Rightarrow> string \<Rightarrow>
   database \<Rightarrow> error + database \<times> (delivery_task \<times> bool)" where
  "recordBrowserRunnerFailure sha now refreshedAt brandId claim stage code reason db =
     bindE (requireSome (RunnerStateError ''Runner task lease is invalid'')
       (find (\<lambda>t. t_id t = rc_taskId claim \<and> pl_brandId t = brandId) (d_tasks db))) (\<lambda>identity.
     bindE (requireSome (RunnerStateError ''Runner task lease is invalid'')
       (find_batch db brandId (t_batchId identity))) (\<lambda>batch.
     bindE (activeRunnerLease sha claim now) (\<lambda>held.
     bindE (requireSome (RunnerStateError ''Runner task lease is invalid'') (find held (d_tasks db))) (\<lambda>task.
     if pl_brandId task \<noteq> brandId then Inl (RunnerStateError ''Runner task lease is invalid'')
     else
     let shouldRetry = (decideBrowserRunnerFailure stage code (t_automationAttemptCount task)
           (t_submitIntentAt task) (t_submitConfirmedAt task) = RetryTask) in
     bindE (runner_describeError code reason) (\<lambda>error.
     bindE (update_tasks db held
         (\<lambda>t. if shouldRetry
            then set_last_error error
              (t\<lparr>t_status := TaskAvailable, t_automationStatus := Some AutoQueued, t_leaseTokenHash := None,
                 t_leaseExpiresAt := None, t_availableAt := Some now\<rparr>)
            else set_last_error error
              (t\<lparr>t_status := TaskAvailable, t_automationStatus := Some AutoNeedsHuman,
                 t_leaseTokenHash := None, t_leaseExpiresAt := None, t_availableAt := Some now,
                 t_needsHumanCode := fst (snd error), t_needsHumanReason := Some (snd (snd error))\<rparr>)))
       (\<lambda>(db1, updated).
     case updated of
       [] \<Rightarrow> Inl (RunnerStateError ''Runner task lease was lost'')
     | u # _ \<Rightarrow>
         bindE (refreshBrowserRunnerBatchState db1 (t_batchId task) refreshedAt) (\<lambda>db2.
         Inr (db2, redactDeliveryTask u, shouldRetry))))))))"

definition markBrowserRunnerSubmitConfirmed ::
  "(string \<Rightarrow> string) \<Rightarrow> int \<Rightarrow> runner_claim_proof \<Rightarrow> string \<Rightarrow> database \<Rightarrow>
   error + database \<times> (int option \<times> int option)" where
  "markBrowserRunnerSubmitConfirmed sha now claim session db =
     bindE (runner_requiredText session ''runnerSessionId'' 300) (\<lambda>runnerSessionId.
     bindE (activeRunnerLease sha claim now) (\<lambda>held.
     bindE (requireSome (RunnerStateError ''Runner task has no durable submit intent'') (find held (d_tasks db)))
       (\<lambda>task.
     if t_submitIntentAt task = None
     then Inl (RunnerStateError ''Runner task has no durable submit intent'')
     else if t_runnerSessionId task \<noteq> Some runnerSessionId
     then Inl (RunnerStateError ''Runner session does not match the durable submit intent'')
     else if t_submitConfirmedAt task \<noteq> None
     then Inr (db, t_submitIntentAt task, t_submitConfirmedAt task)
     else
     bindE (update_tasks db (\<lambda>t. held t \<and> t_submitConfirmedAt t = None)
         (\<lambda>t. t\<lparr>t_submitConfirmedAt := Some now\<rparr>)) (\<lambda>(db1, updated).
     case updated of
       [] \<Rightarrow> Inl (RunnerStateError ''Runner task lease was lost'')
     | u # _ \<Rightarrow> Inr (db1, t_submitIntentAt u, t_submitConfirmedAt u)))))"

definition markBrowserRunnerSubmitIntent ::
  "(string \<Rightarrow> string) \<Rightarrow> int \<Rightarrow> runner_claim_proof \<Rightarrow> string \<Rightarrow> database \<Rightarrow>
   error + database \<times> (string option \<times> int option)" where
  "markBrowserRunnerSubmitIntent sha now claim session db =
     bindE (runner_requiredText session ''runnerSessionId'' 300) (\<lambda>runnerSessionId.
     bindE (activeRunnerLease sha claim now) (\<lambda>held.
     bindE (requireSome (RunnerStateError ''Runner task lease is invalid'') (find held (d_tasks db))) (\<lambda>task.
     if t_needsHumanCode task \<noteq> None
     then Inl (RunnerStateError ''A resumed post-submit task cannot record another submit intent'')
     else if t_submitIntentAt task \<noteq> None
     then
       (if t_runnerSessionId task \<noteq> Some runnerSessionId
        then Inl (RunnerStateError ''Runner session does not match the durable submit intent'')
        else Inr (db, t_runnerSessionId task, t_submitIntentAt task))
     else
     bindE (update_tasks db held
         (\<lambda>t. t\<lparr>t_runnerSessionId := Some runnerSessionId, t_submitIntentAt := Some now\<rparr>)) (\<lambda>(db1, updated).
     case updated of
       [] \<Rightarrow> Inl (RunnerStateError ''Runner task lease was lost'')
     | u # _ \<Rightarrow> Inr (db1, t_runnerSessionId u, t_submitIntentAt u)))))"

definition markBrowserRunnerTaskCompleted ::
  "int \<Rightarrow> string \<Rightarrow> string \<Rightarrow> database \<Rightarrow> error + database \<times> unit" where
  "markBrowserRunnerTaskCompleted refreshedAt taskId batchId db =
     bindE (requireSome (RunnerStateError ''Browser Runner batch was not found'') (batch_by_id db batchId)) (\<lambda>_.
     bindE (update_tasks db (\<lambda>t. t_id t = taskId \<and> t_batchId t = batchId \<and> t_status t = TaskSucceeded)
         (\<lambda>t. t\<lparr>t_automationStatus := Some AutoCompleted, t_needsHumanCode := None, t_needsHumanReason := None\<rparr>))
       (\<lambda>(db1, _).
     bindE (refreshBrowserRunnerBatchState db1 batchId refreshedAt) (\<lambda>db2. Inr (db2, ()))))"

definition getBrowserRunnerProgress :: "string \<Rightarrow> database \<Rightarrow> runner_progress" where
  "getBrowserRunnerProgress batchId db = summarizeProgress (batch_tasks db batchId)"

subsection \<open>Operator recoveries\<close>

text \<open>What both recoveries write to a task, with the code and the message of its last error.\<close>

definition requeue_task :: "string \<Rightarrow> string \<Rightarrow> int \<Rightarrow> delivery_task \<Rightarrow> delivery_task" where
  "requeue_task code message now t =
     t\<lparr>t_status := TaskAvailable, t_automationStatus := Some AutoQueued, t_automationAttemptCount := 0,
       t_claimedBy := None, t_claimedAt := None, t_leaseTokenHash := None, t_leaseExpiresAt := None,
       t_runnerSessionId := None, t_needsHumanCode := None, t_needsHumanReason := None,
       t_lastErrorClass := Some ''BrowserRunnerOperatorRecovery'', t_lastErrorCode := Some code,
       t_lastErrorMessage := Some message, t_availableAt := Some now\<rparr>"

definition reopen_batch :: "database \<Rightarrow> string \<Rightarrow> error + database \<times> delivery_batch list" where
  "reopen_batch db batchId =
     update_batches db
       (\<lambda>b. b_id b = batchId \<and> b_status b = BatchInProgress \<and> b_automationStatus b = Some RunnerNeedsHuman)
       (\<lambda>b. b\<lparr>b_automationStatus := Some RunnerRunning, b_automationSettledAt := None\<rparr>)"

definition recoverable_batch :: "delivery_batch \<Rightarrow> int \<Rightarrow> bool" where
  "recoverable_batch batch expectedTaskCount \<longleftrightarrow>
     b_executionMode batch = ModeBrowserRunner \<and> b_status batch = BatchInProgress \<and>
     b_automationStatus batch = Some RunnerNeedsHuman \<and> b_automationStartedAt batch \<noteq> None \<and>
     b_plannedTaskCount batch = expectedTaskCount"

definition requeueBrowserRunnerSafePreSubmitTransportFailures ::
  "(string \<Rightarrow> int option) \<Rightarrow> int \<Rightarrow> string \<Rightarrow> string \<Rightarrow> int \<Rightarrow> database \<Rightarrow> error + database \<times> nat" where
  "requeueBrowserRunnerSafePreSubmitTransportFailures other now brandId batchId expectedTaskCount db =
     (if \<not> safe_int expectedTaskCount \<or> expectedTaskCount < 1 \<or> expectedTaskCount > 100
      then Inl (RunnerStateError ''Expected Browser Runner task count is invalid'')
      else
      bindE (requireSome (RunnerStateError ''Browser Runner batch is not eligible for safe transport recovery'')
        (find_batch db brandId batchId)) (\<lambda>batch.
      if \<not> recoverable_batch batch expectedTaskCount
      then Inl (RunnerStateError ''Browser Runner batch is not eligible for safe transport recovery'')
      else
      bindE (protocol_window other (b_protocol batch)) (\<lambda>(startsAt, endsAt).
      if now < startsAt \<or> now \<ge> endsAt
      then Inl (RunnerStateError ''Browser Runner safe transport recovery is outside the frozen window'')
      else
      let tasks = sort_key (\<lambda>t. (t_createdAt t, t_id t)) (batch_tasks db (b_id batch)) in
      if int (length tasks) \<noteq> expectedTaskCount \<or>
         \<not> list_all isSafePreSubmitBrokerTransportRecoveryCandidate tasks
      then Inl (RunnerStateError ''Browser Runner task cohort is not safe to requeue'')
      else
      bindE (update_tasks db (\<lambda>t. List.member (map t_id tasks) (t_id t))
          (requeue_task ''broker_transport_pre_submit_requeued_v1''
             ''The untouched pre-submit cohort was explicitly requeued after broker transport repair'' now))
        (\<lambda>(db1, requeued).
      if int (length requeued) \<noteq> expectedTaskCount
      then Inl (RunnerStateError ''Browser Runner safe transport recovery changed concurrently'')
      else
      bindE (reopen_batch db1 (b_id batch)) (\<lambda>(db2, updatedBatch).
      if updatedBatch = [] then Inl (RunnerStateError ''Browser Runner batch recovery changed concurrently'')
      else Inr (db2, length requeued))))))"

definition requeueBrowserRunnerDedicatedProfileBusyTasks ::
  "(string \<Rightarrow> int option) \<Rightarrow> int \<Rightarrow> string \<Rightarrow> string \<Rightarrow> int \<Rightarrow> int \<Rightarrow> database \<Rightarrow> error + database \<times> nat" where
  "requeueBrowserRunnerDedicatedProfileBusyTasks other now brandId batchId expectedTaskCount
     expectedRequeueCount db =
     (if \<not> safe_int expectedTaskCount \<or> expectedTaskCount < 2 \<or> expectedTaskCount > 100 \<or>
        expectedRequeueCount \<noteq> expectedTaskCount - 1
      then Inl (RunnerStateError ''Expected Browser Runner dedicated-profile recovery count is invalid'')
      else
      bindE (requireSome (RunnerStateError ''Browser Runner batch is not eligible for dedicated-profile recovery'')
        (find_batch db brandId batchId)) (\<lambda>batch.
      if \<not> recoverable_batch batch expectedTaskCount
      then Inl (RunnerStateError ''Browser Runner batch is not eligible for dedicated-profile recovery'')
      else
      bindE (protocol_window other (b_protocol batch)) (\<lambda>(startsAt, endsAt).
      if now < startsAt \<or> now \<ge> endsAt
      then Inl (RunnerStateError ''Browser Runner dedicated-profile recovery is outside the frozen window'')
      else
      let tasks = sort_key (\<lambda>t. (t_createdAt t, t_id t)) (batch_tasks db (b_id batch));
          succeeded = filter (\<lambda>t. t_status t = TaskSucceeded \<and> t_automationStatus t = Some AutoCompleted \<and>
            t_submitIntentAt t \<noteq> None \<and> t_submitConfirmedAt t \<noteq> None \<and> t_observationAttemptId t \<noteq> None) tasks;
          candidates = filter isSafePreSubmitDedicatedProfileBusyRecoveryCandidate tasks in
      if int (length tasks) \<noteq> expectedTaskCount \<or> length succeeded \<noteq> 1 \<or>
         int (length candidates) \<noteq> expectedRequeueCount
      then Inl (RunnerStateError ''Browser Runner dedicated-profile cohort is not safe to requeue'')
      else
      bindE (update_tasks db (\<lambda>t. List.member (map t_id candidates) (t_id t))
          (requeue_task ''dedicated_profile_busy_requeued_v1''
             ''The untouched tasks were explicitly requeued after the retained profile was released'' now))
        (\<lambda>(db1, requeued).
      if int (length requeued) \<noteq> expectedRequeueCount
      then Inl (RunnerStateError ''Browser Runner dedicated-profile recovery changed concurrently'')
      else
      bindE (reopen_batch db1 (b_id batch)) (\<lambda>(db2, updatedBatch).
      if updatedBatch = [] then Inl (RunnerStateError ''Browser Runner batch recovery changed concurrently'')
      else Inr (db2, length requeued))))))"

definition canCancelBrowserRunnerBatch :: "string \<Rightarrow> string \<Rightarrow> database \<Rightarrow> error + bool" where
  "canCancelBrowserRunnerBatch brandId batchId db =
     bindE (requireSome (RunnerStateError ''Delivery batch was not found'') (find_batch db brandId batchId)) (\<lambda>batch.
     if b_executionMode batch \<noteq> ModeBrowserRunner \<or> b_automationStartedAt batch = None then Inr True
     else Inr (canCancelBrowserRunnerAfterStart (batch_tasks db batchId)))"

subsection \<open>Terminal failures confirmed by a human\<close>

definition awaiting_disposition :: "string \<Rightarrow> delivery_task \<Rightarrow> bool" where
  "awaiting_disposition taskId t \<longleftrightarrow>
     t_id t = taskId \<and> t_status t = TaskAvailable \<and> t_automationStatus t = Some AutoNeedsHuman \<and>
     t_needsHumanCode t \<noteq> None"

definition terminally_failed :: "int \<Rightarrow> string option \<Rightarrow> string \<Rightarrow> delivery_task \<Rightarrow> delivery_task" where
  "terminally_failed now code message t =
     t\<lparr>t_status := TaskFailed, t_automationStatus := Some AutoCompleted, t_leaseTokenHash := None,
       t_leaseExpiresAt := None, t_failedAt := Some now,
       t_lastErrorClass := Some ''BrowserRunnerTerminalFailure'', t_lastErrorCode := code,
       t_lastErrorMessage := Some message, t_needsHumanCode := None, t_needsHumanReason := None\<rparr>"

definition confirmBrowserRunnerTerminalFailure ::
  "int \<Rightarrow> string \<Rightarrow> string \<Rightarrow> string \<Rightarrow> string \<Rightarrow> database \<Rightarrow> error + database \<times> delivery_task" where
  "confirmBrowserRunnerTerminalFailure now brandId taskId confirmedBy reason db =
     bindE (runner_requiredText confirmedBy ''confirmedBy'' 300) (\<lambda>c. let confirmedBy = sanitizeDiagnostic c in
     bindE (runner_requiredText reason ''reason'' 1000) (\<lambda>r. let reason = sanitizeDiagnostic r in
     bindE (requireSome (RunnerStateError ''Browser Runner task was not found'')
       (find (\<lambda>t. t_id t = taskId \<and> pl_brandId t = brandId) (d_tasks db))) (\<lambda>identity.
     bindE (requireSome (RunnerStateError ''Task is not part of a Browser Runner batch'')
       (find_batch db brandId (t_batchId identity))) (\<lambda>batch.
     if b_executionMode batch \<noteq> ModeBrowserRunner \<or> b_automationStatus batch \<noteq> Some RunnerNeedsHuman
     then Inl (RunnerStateError ''Task is not part of a Browser Runner batch'')
     else
     bindE (requireSome (RunnerStateError ''Task is not awaiting terminal human disposition'')
       (find (awaiting_disposition taskId) (d_tasks db))) (\<lambda>task.
     if \<not> truthy_text (t_needsHumanCode task) \<or> \<not> truthy_text (t_needsHumanReason task)
     then Inl (RunnerStateError ''Task is not awaiting terminal human disposition'')
     else
     bindE (update_tasks db (awaiting_disposition taskId)
         (terminally_failed now (t_needsHumanCode task)
            (terminalFailureMessage (the (t_needsHumanReason task)) reason confirmedBy))) (\<lambda>(db1, failed).
     case failed of
       [] \<Rightarrow> Inl (RunnerStateError ''Task is not awaiting terminal human disposition'')
     | f # _ \<Rightarrow>
         bindE (settleDeliveryBatch db1 (t_batchId f) now) (\<lambda>db2. Inr (db2, redactDeliveryTask f))))))))"

definition finalization_message :: "string \<Rightarrow> string \<Rightarrow> delivery_task \<Rightarrow> string" where
  "finalization_message reason confirmedBy t =
     js_slice 2000 ((case t_needsHumanReason t of None \<Rightarrow> [] | Some r \<Rightarrow> r) @
       '' | terminal disposition: '' @ reason @ '' (confirmed by '' @ confirmedBy @ '')'')"

text \<open>The result status of the code's answer is always \<open>incomplete\<close>.\<close>

definition finalizeBrowserRunnerNeedsHuman ::
  "int \<Rightarrow> string \<Rightarrow> string \<Rightarrow> string \<Rightarrow> string \<Rightarrow> string \<Rightarrow> database \<Rightarrow>
   error + database \<times> (nat \<times> result_status)" where
  "finalizeBrowserRunnerNeedsHuman now internalLeaseTokenHash brandId batchId confirmedBy reason db =
     bindE (runner_requiredText confirmedBy ''confirmedBy'' 300) (\<lambda>c. let confirmedBy = sanitizeDiagnostic c in
     bindE (runner_requiredText reason ''reason'' 1000) (\<lambda>r. let reason = sanitizeDiagnostic r in
     bindE (requireSome (RunnerStateError ''Browser Runner batch was not found'') (find_batch db brandId batchId))
       (\<lambda>batch.
     if b_executionMode batch \<noteq> ModeBrowserRunner
     then Inl (RunnerStateError ''Browser Runner batch was not found'')
     else
     let unresolved = filter (\<lambda>t. t_batchId t = b_id batch \<and>
           (t_status t = TaskAvailable \<or> t_status t = TaskClaimed)) (d_tasks db) in
     if unresolved = [] then Inl (RunnerStateError ''No unresolved needs-human tasks remain'')
     else if list_ex (\<lambda>t. not_finalizable t now) unresolved
     then Inl (RunnerStateError ''Only unleased needs-human tasks can be finalized as terminal failures'')
     else
     bindE (mapE (\<lambda>t. browserRunnerNeedsHumanFinalizationPath (t_status t)) unresolved) (\<lambda>paths.
     let availableCount = length (filter (\<lambda>p. hd p = TaskClaimed) paths) in
     bindE (if availableCount > 0
            then
              bindE (update_tasks db
                  (\<lambda>t. t_batchId t = b_id batch \<and> t_status t = TaskAvailable \<and>
                     t_automationStatus t = Some AutoNeedsHuman \<and> t_needsHumanCode t \<noteq> None)
                  (\<lambda>t. t\<lparr>t_status := TaskClaimed, t_automationStatus := Some AutoRunning,
                     t_leaseTokenHash := Some internalLeaseTokenHash,
                     t_leaseGeneration := t_leaseGeneration t + 1, t_leaseExpiresAt := Some now\<rparr>))
                (\<lambda>(db', privatelyClaimed).
              if length privatelyClaimed \<noteq> availableCount
              then Inl (RunnerStateError ''Needs-human tasks changed during terminal failure finalization'')
              else Inr db')
            else Inr db) (\<lambda>db1.
     bindE (update_tasks db1
         (\<lambda>t. t_batchId t = b_id batch \<and> t_status t = TaskClaimed \<and> t_needsHumanCode t \<noteq> None \<and>
            (case t_leaseExpiresAt t of None \<Rightarrow> False | Some e \<Rightarrow> e \<le> now))
         (\<lambda>t. terminally_failed now (t_needsHumanCode t) (finalization_message reason confirmedBy t) t))
       (\<lambda>(db2, finalized).
     if length finalized \<noteq> length unresolved
     then Inl (RunnerStateError ''Needs-human tasks changed during terminal failure finalization'')
     else
     bindE (settleDeliveryBatch db2 (b_id batch) now) (\<lambda>db3.
     Inr (db3, length finalized, ResultIncomplete))))))))"

subsection \<open>Daily settlement\<close>

datatype settlement_result = NotDue | DeferredLiveLease | Settled nat

record settlement_patch =
  sp_failedAt :: int
  sp_lastErrorCode :: string
  sp_lastErrorMessage :: string

text \<open>The operations the settlement asks of a transaction.\<close>

record 'db settlement_transaction =
  st_lockBatch :: "'db \<Rightarrow> string \<Rightarrow> delivery_batch option"
  st_lockUnresolvedTasks :: "'db \<Rightarrow> string \<Rightarrow> delivery_task list"
  st_readScope :: "'db \<Rightarrow> delivery_batch \<Rightarrow> scope_row option"
  st_failTask :: "'db \<Rightarrow> delivery_task \<Rightarrow> settlement_patch \<Rightarrow> error + 'db \<times> bool"
  st_markBatchInProgress :: "'db \<Rightarrow> delivery_batch \<Rightarrow> error + 'db \<times> bool"
  st_settleBatch :: "'db \<Rightarrow> string \<Rightarrow> int \<Rightarrow> error + 'db"

fun settle_tasks ::
  "'db settlement_transaction \<Rightarrow> int \<Rightarrow> (delivery_task \<times> settlement_disposition) list \<Rightarrow> nat \<Rightarrow> 'db \<Rightarrow>
   error + 'db \<times> nat" where
  "settle_tasks transaction now [] failedTasks db = Inr (db, failedTasks)"
| "settle_tasks transaction now ((task, disposition) # rest) failedTasks db =
     (case disposition of
        DeferLiveLease \<Rightarrow> settle_tasks transaction now rest failedTasks db
      | TerminalFailure code reason \<Rightarrow>
          if t_observationAttemptId task \<noteq> None
          then Inl (RunnerStateError ''Daily settlement refuses to replace an existing observation'')
          else
          bindE (st_failTask transaction db task
              \<lparr>sp_failedAt = now, sp_lastErrorCode = code, sp_lastErrorMessage = js_slice 2000 reason\<rparr>)
            (\<lambda>(db', done).
          if \<not> done then Inl (RunnerStateError ''Daily settlement task changed concurrently'')
          else settle_tasks transaction now rest (failedTasks + 1) db'))"

definition executeBrowserRunnerDailySettlement ::
  "(string \<Rightarrow> int option) \<Rightarrow> 'db settlement_transaction \<Rightarrow> string \<Rightarrow> int \<Rightarrow> 'db \<Rightarrow>
   error + 'db \<times> settlement_result" where
  "executeBrowserRunnerDailySettlement other transaction batchId now db =
     (case st_lockBatch transaction db batchId of
        None \<Rightarrow> Inr (db, NotDue)
      | Some batch \<Rightarrow>
          if b_executionMode batch \<noteq> ModeBrowserRunner \<or> b_automationStartedAt batch = None \<or>
             \<not> inProgressDeliveryBatch (b_status batch)
          then Inr (db, NotDue)
          else
          let unresolved = st_lockUnresolvedTasks transaction db (b_id batch) in
          (case st_readScope transaction db batch of
             None \<Rightarrow> Inr (db, NotDue)
           | Some scope \<Rightarrow>
               if \<not> isBrowserRunnerCnScope scope then Inr (db, NotDue)
               else
               bindE (normalizeDeliveryProtocol other (b_protocol batch)) (\<lambda>protocol.
               bindE (browserRunnerDailySettlementCutoff (b_automationStartedAt batch)
                   (date_parse other (pr_endsAt protocol))) (\<lambda>cutoff.
               if now < cutoff then Inr (db, NotDue)
               else
               bindE (mapE (\<lambda>t. bindE (browserRunnerDailySettlementDisposition t now) (\<lambda>d. Inr (t, d))) unresolved)
                 (\<lambda>dispositions.
               if list_ex (\<lambda>d. snd d = DeferLiveLease) dispositions then Inr (db, DeferredLiveLease)
               else
               bindE (settle_tasks transaction now dispositions 0 db) (\<lambda>(db1, failedTasks).
               bindE (if b_status batch = BatchFrozen then st_markBatchInProgress transaction db1 batch
                      else Inr (db1, True)) (\<lambda>(db2, marked).
               if \<not> marked then Inl (RunnerStateError ''Daily settlement batch changed concurrently'')
               else
               bindE (st_settleBatch transaction db2 (b_id batch) now) (\<lambda>db3.
               Inr (db3, Settled failedTasks)))))))))"

definition database_settlement :: "database settlement_transaction" where
  "database_settlement =
     \<lparr>st_lockBatch = batch_by_id,
      st_lockUnresolvedTasks = (\<lambda>db i. filter (\<lambda>t. t_batchId t = i \<and>
        (t_status t = TaskAvailable \<or> t_status t = TaskClaimed)) (d_tasks db)),
      st_readScope = (\<lambda>db batch.
        find (\<lambda>s. ms_id s = b_scopeId batch \<and> sc_brandId s = b_brandId batch) (d_scopes db)),
      st_failTask = (\<lambda>db task patch.
        bindE (update_tasks db
            (\<lambda>t. t_id t = t_id task \<and> t_status t = t_status task \<and> t_leaseGeneration t = t_leaseGeneration task)
            (terminally_failed (sp_failedAt patch) (Some (sp_lastErrorCode patch)) (sp_lastErrorMessage patch)))
          (\<lambda>(db', failed). Inr (db', failed \<noteq> []))),
      st_markBatchInProgress = (\<lambda>db batch.
        bindE (update_batches db (\<lambda>b. b_id b = b_id batch \<and> b_status b = BatchFrozen)
            (\<lambda>b. b\<lparr>b_status := BatchInProgress,
               b_startedAt := (case b_startedAt batch of None \<Rightarrow> b_automationStartedAt batch | s \<Rightarrow> s)\<rparr>))
          (\<lambda>(db', updated). Inr (db', updated \<noteq> []))),
      st_settleBatch = settleDeliveryBatch\<rparr>"

definition settleOneDueDomesticBrowserRunnerBatch ::
  "(string \<Rightarrow> int option) \<Rightarrow> string \<Rightarrow> int \<Rightarrow> database \<Rightarrow> error + database \<times> settlement_result" where
  "settleOneDueDomesticBrowserRunnerBatch other batchId now db =
     executeBrowserRunnerDailySettlement other database_settlement batchId now db"

record settlement_receipt =
  sr_scannedBatches :: nat
  sr_dueBatches :: nat
  sr_settledBatches :: nat
  sr_deferredLiveLeaseBatches :: nat
  sr_failedBatches :: nat
  sr_failedTasks :: nat

fun settle_candidates ::
  "(string \<Rightarrow> int option) \<Rightarrow> int \<Rightarrow> string list \<Rightarrow> settlement_receipt \<Rightarrow> database \<Rightarrow>
   database \<times> settlement_receipt" where
  "settle_candidates other now [] receipt db = (db, receipt)"
| "settle_candidates other now (candidate # candidates) receipt db =
     (case settleOneDueDomesticBrowserRunnerBatch other candidate now db of
        Inl _ \<Rightarrow>
          settle_candidates other now candidates
            (receipt\<lparr>sr_failedBatches := sr_failedBatches receipt + 1\<rparr>) db
      | Inr (db', result) \<Rightarrow>
          settle_candidates other now candidates
            (case result of
               NotDue \<Rightarrow> receipt
             | DeferredLiveLease \<Rightarrow>
                 receipt\<lparr>sr_dueBatches := sr_dueBatches receipt + 1,
                   sr_deferredLiveLeaseBatches := sr_deferredLiveLeaseBatches receipt + 1\<rparr>
             | Settled n \<Rightarrow>
                 receipt\<lparr>sr_dueBatches := sr_dueBatches receipt + 1,
                   sr_settledBatches := sr_settledBatches receipt + 1,
                   sr_failedTasks := sr_failedTasks receipt + n\<rparr>) db')"

definition settleDueDomesticBrowserRunnerBatches ::
  "(string \<Rightarrow> int option) \<Rightarrow> int option \<Rightarrow> int option \<Rightarrow> database \<Rightarrow>
   database \<times> (error + settlement_receipt)" where
  "settleDueDomesticBrowserRunnerBatches other now limit db =
     (case now of
        None \<Rightarrow> (db, Inl (PlainError ''Browser Runner settlement requires a valid now date''))
      | Some now \<Rightarrow>
          let n = (case limit of None \<Rightarrow> 100 | Some l \<Rightarrow> l) in
          if \<not> safe_int n \<or> n < 1 \<or> n > 500
          then (db, Inl (PlainError ''Browser Runner settlement limit must be between 1 and 500''))
          else
          let candidates = take (nat n) (sort_key (\<lambda>b. the (b_automationStartedAt b)) (filter (\<lambda>b.
                b_executionMode b = ModeBrowserRunner \<and> b_automationStartedAt b \<noteq> None \<and>
                inProgressDeliveryBatch (b_status b) \<and>
                list_ex (\<lambda>s. ms_id s = b_scopeId b \<and> sc_brandId s = b_brandId b \<and> isBrowserRunnerCnScope s)
                  (d_scopes db)) (d_batches db)));
              (db', receipt) = settle_candidates other now (map b_id candidates)
                \<lparr>sr_scannedBatches = length candidates, sr_dueBatches = 0, sr_settledBatches = 0,
                 sr_deferredLiveLeaseBatches = 0, sr_failedBatches = 0, sr_failedTasks = 0\<rparr> db
          in (db', Inr receipt))"

end
