(* ===== verification/Lifecycle.thy ===== *)
theory Lifecycle
  imports BrowserRunner
begin

text \<open>
  How the delivery state evolves. \<open>db_step\<close> is one statement the code issues, with what the code
  itself sees to beyond the checks of the database; every operation of \<open>DeliveryBatches\<close> and
  \<open>BrowserRunner\<close> is a sequence of such steps. \<open>db_ok\<close> is the invariant of the two tables, and
  \<open>evolves\<close> what no sequence of operations undoes.
\<close>

subsection \<open>What a statement of the code does to a row\<close>

definition task_change :: "delivery_task \<Rightarrow> delivery_task \<Rightarrow> bool" where
  "task_change t t' \<longleftrightarrow>
     t_id t' = t_id t \<and> t_createdAt t' = t_createdAt t \<and> task_identity t' = task_identity t \<and>
     (t_submitIntentAt t \<noteq> None \<longrightarrow>
        t_submitIntentAt t' = t_submitIntentAt t \<and> t_runnerSessionId t' = t_runnerSessionId t) \<and>
     (t_submitConfirmedAt t \<noteq> None \<longrightarrow> t_submitConfirmedAt t' = t_submitConfirmedAt t) \<and>
     t_leaseGeneration t \<le> t_leaseGeneration t' \<and> t_claimCount t \<le> t_claimCount t' \<and>
     t_automationAttemptCount t' \<le> max BROWSER_RUNNER_MAX_PRE_SUBMIT_ATTEMPTS (t_automationAttemptCount t)"

definition batch_identity :: "delivery_batch \<Rightarrow> _" where
  "batch_identity b =
     (b_id b, b_brandId b, b_scopeId b, b_idempotencyKey b, b_name b, b_executionMode b, b_protocol b,
      b_createdBy b, b_createdAt b)"

definition batch_change :: "database \<Rightarrow> delivery_batch \<Rightarrow> delivery_batch \<Rightarrow> bool" where
  "batch_change db b b' \<longleftrightarrow>
     batch_identity b' = batch_identity b \<and>
     (b_status b \<noteq> BatchCancelled \<and> b_status b' = BatchCancelled \<longrightarrow>
        list_all (\<lambda>t. terminal_status (t_status t)) (batch_tasks db (b_id b)))"

definition fresh_task :: "delivery_task \<Rightarrow> bool" where
  "fresh_task t \<longleftrightarrow>
     t_status t = TaskPlanned \<and> t_automationAttemptCount t = 0 \<and> t_observationAttemptId t = None \<and>
     t_submitIntentAt t = None"

definition fresh_batch :: "delivery_batch \<Rightarrow> bool" where
  "fresh_batch b \<longleftrightarrow> b_status b = BatchDraft"

inductive db_step :: "database \<Rightarrow> database \<Rightarrow> bool" where
  step_tasks: "update_tasks db p f = Inr (db', out) \<Longrightarrow>
     (\<And>t. t \<in> set (d_tasks db) \<Longrightarrow> p t \<Longrightarrow> task_change t (f t)) \<Longrightarrow> db_step db db'"
| step_batches: "update_batches db q g = Inr (db', changed) \<Longrightarrow>
     (\<And>b. b \<in> set (d_batches db) \<Longrightarrow> q b \<Longrightarrow> batch_change db b (g b)) \<Longrightarrow> db_step db db'"
| step_insert_tasks: "insert_tasks db new = Inr (db', out) \<Longrightarrow> (\<And>t. t \<in> set new \<Longrightarrow> fresh_task t) \<Longrightarrow> db_step db db'"
| step_insert_batch: "insert_batch db b = Inr (db', inserted) \<Longrightarrow> fresh_batch b \<Longrightarrow> db_step db db'"

abbreviation db_steps :: "database \<Rightarrow> database \<Rightarrow> bool" where
  "db_steps \<equiv> db_step\<^sup>*\<^sup>*"

subsection \<open>The invariant\<close>

definition task_ok :: "database \<Rightarrow> delivery_task \<Rightarrow> bool" where
  "task_ok db t \<longleftrightarrow>
     task_row_ok t \<and> execution_mode_matches db t \<and> attempt_link_ok db t \<and>
     t_automationAttemptCount t \<le> BROWSER_RUNNER_MAX_PRE_SUBMIT_ATTEMPTS"

definition batch_ok :: "database \<Rightarrow> delivery_batch \<Rightarrow> bool" where
  "batch_ok db b \<longleftrightarrow>
     batch_row_ok b \<and>
     (b_status b = BatchCompleted \<or> b_status b = BatchCancelled \<longrightarrow>
        list_all (\<lambda>t. terminal_status (t_status t)) (batch_tasks db (b_id b))) \<and>
     (b_status b = BatchFrozen \<or> b_status b = BatchInProgress \<or> b_status b = BatchCompleted \<longrightarrow>
        b_plannedTaskCount b = int (length (batch_tasks db (b_id b))))"

definition db_ok :: "database \<Rightarrow> bool" where
  "db_ok db \<longleftrightarrow>
     task_keys_unique (d_tasks db) \<and> distinct (map b_id (d_batches db)) \<and>
     (\<forall>t \<in> set (d_tasks db). task_ok db t) \<and> (\<forall>b \<in> set (d_batches db). batch_ok db b)"

lemma db_okD:
  assumes "db_ok db"
  shows "task_keys_unique (d_tasks db)" "distinct (map t_id (d_tasks db))"
    "distinct (map b_id (d_batches db))"
    "\<And>t. t \<in> set (d_tasks db) \<Longrightarrow> task_ok db t" "\<And>b. b \<in> set (d_batches db) \<Longrightarrow> batch_ok db b"
  using assms by (auto simp: db_ok_def task_keys_unique_def)

lemma same_id_same_task:
  "db_ok db \<Longrightarrow> t \<in> set (d_tasks db) \<Longrightarrow> u \<in> set (d_tasks db) \<Longrightarrow> t_id t = t_id u \<Longrightarrow> t = u"
  by (meson db_okD(2) distinct_map inj_onD)

lemma same_id_same_batch:
  "db_ok db \<Longrightarrow> b \<in> set (d_batches db) \<Longrightarrow> c \<in> set (d_batches db) \<Longrightarrow> b_id b = b_id c \<Longrightarrow> b = c"
  by (meson db_okD(3) distinct_map inj_onD)

subsection \<open>Statements preserve it\<close>

lemma task_change_batch: "task_change t t' \<Longrightarrow> t_batchId t' = t_batchId t"
  by (simp add: task_change_def task_identity_def)

lemma terminal_unchanged: "task_update_allowed db t t' \<Longrightarrow> terminal_status (t_status t) \<Longrightarrow> t' = t"
  by (simp add: task_update_allowed_def)

lemma batch_tasks_update:
  assumes "\<And>t. t \<in> set ts \<Longrightarrow> p t \<Longrightarrow> t_batchId (f t) = t_batchId t"
  shows "filter (\<lambda>t. t_batchId t = i) (set_where p f ts) = set_where p f (filter (\<lambda>t. t_batchId t = i) ts)"
  using assms by (induction ts) (auto simp: set_where_def)

lemma db_ok_update_tasks:
  assumes ok: "db_ok db" and u: "update_tasks db p f = Inr (db', out)"
    and c: "\<And>t. t \<in> set (d_tasks db) \<Longrightarrow> p t \<Longrightarrow> task_change t (f t)"
  shows "db_ok db'"
proof -
  note e = update_tasks_InrD [OF u]
  have lookups: "batch_by_id db' = batch_by_id db" "attempt_by_id db' = attempt_by_id db"
    "d_batches db' = d_batches db"
    by (simp_all add: e(1) fun_eq_iff batch_by_id_def attempt_by_id_def)
  have tasks: "batch_tasks db' i = set_where p f (batch_tasks db i)" for i
    using c task_change_batch by (simp add: e(1) batch_tasks_def batch_tasks_update)
  have "\<forall>t \<in> set (d_tasks db'). task_ok db t"
  proof (rule task_table.all_rows [OF u])
    show "\<forall>t \<in> set (d_tasks db). task_ok db t" using db_okD(4) [OF ok] by blast
    fix t assume "t \<in> set (d_tasks db)" "p t" "task_update_allowed db t (f t)" "task_ok db t"
    with c [of t] show "task_ok db (f t)"
      by (auto simp: task_ok_def task_update_allowed_def task_change_def)
  qed
  then have t: "\<forall>t \<in> set (d_tasks db'). task_ok db' t"
    unfolding task_ok_def execution_mode_matches_def attempt_link_ok_def lookups .
  have "list_all (\<lambda>t. terminal_status (t_status t)) (batch_tasks db i) \<Longrightarrow>
    list_all (\<lambda>t. terminal_status (t_status t)) (batch_tasks db' i)" for i
    using terminal_unchanged e(3)
    by (auto simp: tasks list_all_iff in_set_where) (metis batch_tasks_def filter_is_subset subsetD)
  then have "\<forall>b \<in> set (d_batches db'). batch_ok db' b"
    using db_okD(5) [OF ok] by (auto simp: batch_ok_def lookups tasks)
  with t e(4) db_okD(3) [OF ok] show ?thesis by (simp add: db_ok_def lookups)
qed

lemma batch_by_id_update:
  assumes "update_batches db q g = Inr (db', changed)"
    and "\<And>b. b \<in> set (d_batches db) \<Longrightarrow> q b \<Longrightarrow> b_id (g b) = b_id b"
  shows "batch_by_id db' i = map_option (\<lambda>b. if q b then g b else b) (batch_by_id db i)"
proof -
  have "\<forall>b \<in> set bs. q b \<longrightarrow> b_id (g b) = b_id b \<Longrightarrow> find (\<lambda>b. b_id b = i) (set_where q g bs) =
    map_option (\<lambda>b. if q b then g b else b) (find (\<lambda>b. b_id b = i) bs)" for bs
    by (induction bs) (auto simp: set_where_def)
  then show ?thesis using assms(2) by (simp add: batch_by_id_def update_batches_InrD(1) [OF assms(1)])
qed

lemma db_ok_update_batches:
  assumes ok: "db_ok db" and u: "update_batches db q g = Inr (db', changed)"
    and c: "\<And>b. b \<in> set (d_batches db) \<Longrightarrow> q b \<Longrightarrow> batch_change db b (g b)"
  shows "db_ok db'"
proof -
  note e = update_batches_InrD [OF u]
  have ids: "\<And>b. b \<in> set (d_batches db) \<Longrightarrow> q b \<Longrightarrow> b_id (g b) = b_id b"
    and modes: "\<And>b. b \<in> set (d_batches db) \<Longrightarrow> q b \<Longrightarrow> b_executionMode (g b) = b_executionMode b"
    using c by (auto simp: batch_change_def batch_identity_def)
  have same: "d_tasks db' = d_tasks db" "batch_tasks db' = batch_tasks db" "attempt_by_id db' = attempt_by_id db"
    by (simp_all add: e(1) fun_eq_iff batch_tasks_def attempt_by_id_def)
  have "execution_mode_matches db' t = execution_mode_matches db t" for t
  proof (cases "batch_by_id db (t_batchId t)")
    case (Some b)
    then have "b \<in> set (d_batches db)" by (auto simp: batch_by_id_def dest: find_SomeD)
    with Some modes show ?thesis
      by (cases "q b") (simp_all add: execution_mode_matches_def batch_by_id_update [OF u ids])
  qed (simp add: execution_mode_matches_def batch_by_id_update [OF u ids])
  moreover have "attempt_link_ok db' = attempt_link_ok db"
    unfolding fun_eq_iff attempt_link_ok_def same by simp
  ultimately have t: "\<forall>t \<in> set (d_tasks db'). task_ok db' t"
    using db_okD(4) [OF ok] by (simp add: same task_ok_def)
  have b: "\<forall>b \<in> set (d_batches db'). batch_ok db b"
  proof (rule batch_table.all_rows [OF u])
    show "\<forall>b \<in> set (d_batches db). batch_ok db b" using db_okD(5) [OF ok] by blast
    fix b assume b: "b \<in> set (d_batches db)" "q b" "batch_update_allowed db b (g b)" "batch_ok db b"
    then show "batch_ok db (g b)"
      using c [OF b(1, 2)] ids [OF b(1, 2)]
      by (cases "b_status b"; cases "b_status (g b)")
        (auto simp: batch_ok_def batch_update_allowed_def batch_change_def frozen_fields_def
          batch_status_step_def)
  qed
  then have "\<forall>b \<in> set (d_batches db'). batch_ok db' b" by (simp add: batch_ok_def same)
  with t db_okD [OF ok] batch_table.keys [OF u ids] show ?thesis by (simp add: db_ok_def same)
qed

lemma batch_by_id_Some: "batch_by_id db i = Some b \<Longrightarrow> b \<in> set (d_batches db) \<and> b_id b = i"
  by (auto simp: batch_by_id_def dest: find_SomeD)

lemma batch_by_id_member: "db_ok db \<Longrightarrow> b \<in> set (d_batches db) \<Longrightarrow> batch_by_id db (b_id b) = Some b"
  by (simp add: batch_by_id_def find_distinct_key db_okD(3))

lemma task_by_id_Some: "task_by_id db i = Some t \<Longrightarrow> t \<in> set (d_tasks db) \<and> t_id t = i"
  by (auto simp: task_by_id_def dest: find_SomeD)

lemma task_by_id_member: "db_ok db \<Longrightarrow> t \<in> set (d_tasks db) \<Longrightarrow> task_by_id db (t_id t) = Some t"
  by (simp add: task_by_id_def find_distinct_key db_okD(2))

lemma batch_of_task:
  assumes "db_ok db" and "t \<in> set (d_tasks db)"
  obtains b where "batch_by_id db (t_batchId t) = Some b" "b \<in> set (d_batches db)" "b_id b = t_batchId t"
    "(b_executionMode b = ModeBrowserRunner) = (t_automationStatus t \<noteq> None)"
  using db_okD(4) [OF assms] that
  by (auto simp: task_ok_def execution_mode_matches_def split: option.splits dest: batch_by_id_Some)

lemma db_ok_insert_tasks:
  assumes ok: "db_ok db" and u: "insert_tasks db new = Inr (db', out)"
    and f: "\<And>t. t \<in> set new \<Longrightarrow> fresh_task t"
  shows "db_ok db'"
proof -
  have e: "db' = db\<lparr>d_tasks := d_tasks db @ new\<rparr>" "task_keys_unique (d_tasks db')"
    "\<And>t. t \<in> set new \<Longrightarrow> task_insert_allowed db t"
    using u by (auto simp: insert_tasks_def list_all_iff split: if_splits)
  have same: "batch_by_id db' = batch_by_id db" "attempt_by_id db' = attempt_by_id db"
    "d_batches db' = d_batches db"
    by (simp_all add: e(1) fun_eq_iff batch_by_id_def attempt_by_id_def)
  have "task_ok db t" if "t \<in> set (d_tasks db')" for t
  proof (cases "t \<in> set new")
    case True
    with e(3) f show ?thesis
      by (auto simp: task_ok_def task_insert_allowed_def fresh_task_def attempt_link_ok_def
          BROWSER_RUNNER_MAX_PRE_SUBMIT_ATTEMPTS_def)
  next
    case False
    with that db_okD(4) [OF ok] show ?thesis by (simp add: e(1))
  qed
  then have t: "\<forall>t \<in> set (d_tasks db'). task_ok db' t"
    unfolding task_ok_def execution_mode_matches_def attempt_link_ok_def same by blast
  have "batch_tasks db' (b_id b) = batch_tasks db (b_id b)"
    if "b \<in> set (d_batches db)" and "b_status b \<noteq> BatchDraft" for b
  proof -
    have "t_batchId t \<noteq> b_id b" if "t \<in> set new" for t
      using e(3) [OF that] \<open>b_status b \<noteq> BatchDraft\<close> batch_by_id_member [OF ok \<open>b \<in> set (d_batches db)\<close>]
      by (auto simp: task_insert_allowed_def batch_status_of_def)
    then show ?thesis by (simp add: batch_tasks_def e(1))
  qed
  with db_okD(5) [OF ok] have "\<forall>b \<in> set (d_batches db'). batch_ok db' b"
    unfolding same batch_ok_def by (metis delivery_batch_status.distinct(3, 5, 7) delivery_batch_status.distinct(1))
  with t e(2) db_okD(3) [OF ok] show ?thesis by (simp add: db_ok_def same)
qed

lemma db_ok_insert_batch:
  assumes ok: "db_ok db" and u: "insert_batch db b = Inr (db', inserted)" and f: "fresh_batch b"
  shows "db_ok db'"
proof (cases "db' = db")
  case False
  then have e: "db' = db\<lparr>d_batches := d_batches db @ [b]\<rparr>" "batch_by_id db (b_id b) = None" "batch_row_ok b"
    using u by (auto simp: insert_batch_def split: if_splits)
  have same: "d_tasks db' = d_tasks db" "batch_tasks db' = batch_tasks db" "attempt_by_id db' = attempt_by_id db"
    by (simp_all add: e(1) fun_eq_iff batch_tasks_def attempt_by_id_def)
  have found: "batch_by_id db' i = Some c" if "batch_by_id db i = Some c" for i c
    using that by (simp add: e(1) batch_by_id_def find_append)
  have "task_ok db' t" if "t \<in> set (d_tasks db)" for t
  proof -
    obtain c where "batch_by_id db (t_batchId t) = Some c"
      using batch_of_task [OF ok \<open>t \<in> set (d_tasks db)\<close>] by metis
    with db_okD(4) [OF ok that] found show ?thesis
      by (simp add: task_ok_def execution_mode_matches_def attempt_link_ok_def same cong: option.case_cong)
  qed
  moreover have "b_id b \<notin> b_id ` set (d_batches db)"
    using e(2) by (auto simp: batch_by_id_def find_None_iff)
  moreover have "batch_ok db b" using e(3) f by (simp add: batch_ok_def fresh_batch_def)
  moreover have "batch_ok db' = batch_ok db"
    unfolding fun_eq_iff batch_ok_def same by simp
  moreover have "d_batches db' = d_batches db @ [b]" by (simp add: e(1))
  ultimately show ?thesis
    using db_okD(1, 3) [OF ok] db_okD(5) [OF ok] by (simp add: db_ok_def same ball_Un)
qed (use ok in simp)

lemma db_step_ok: "db_step db db' \<Longrightarrow> db_ok db \<Longrightarrow> db_ok db'"
  by (induction rule: db_step.induct)
    (blast intro: db_ok_update_tasks db_ok_update_batches db_ok_insert_tasks db_ok_insert_batch)+

lemma db_steps_ok: "db_steps db db' \<Longrightarrow> db_ok db \<Longrightarrow> db_ok db'"
  by (induction rule: rtranclp_induct) (auto dest: db_step_ok)

subsection \<open>Tasks belong to the brand of their batch\<close>

definition tenancy :: "database \<Rightarrow> bool" where
  "tenancy db \<longleftrightarrow> (\<forall>t \<in> set (d_tasks db). \<exists>b \<in> set (d_batches db). b_id b = t_batchId t \<and> b_brandId b = pl_brandId t)"

lemma task_change_brand: "task_change t t' \<Longrightarrow> t_batchId t' = t_batchId t \<and> pl_brandId t' = pl_brandId t"
  by (simp add: task_change_def task_identity_def task_plan_of_def normalized_task_plan.defs)

lemma db_step_tenancy: "db_step db db' \<Longrightarrow> tenancy db \<Longrightarrow> tenancy db'"
proof (induction rule: db_step.induct)
  case (step_tasks db p f db' out)
  have batches: "d_batches db' = d_batches db" by (simp add: update_tasks_InrD(1) [OF step_tasks(1)])
  show ?case unfolding tenancy_def batches
  proof
    fix t' assume "t' \<in> set (d_tasks db')"
    then obtain t where "t \<in> set (d_tasks db)" "t_batchId t' = t_batchId t \<and> pl_brandId t' = pl_brandId t"
      by (rule task_table.origin [OF step_tasks(1)]) (use step_tasks(2) task_change_brand in metis)
    with step_tasks(3) show "\<exists>b \<in> set (d_batches db). b_id b = t_batchId t' \<and> b_brandId b = pl_brandId t'"
      by (simp add: tenancy_def)
  qed
next
  case (step_batches db q g db' changed)
  have tasks: "d_tasks db' = d_tasks db" by (simp add: update_batches_InrD(1) [OF step_batches(1)])
  have "\<exists>b' \<in> set (d_batches db'). b_id b' = b_id b \<and> b_brandId b' = b_brandId b" if "b \<in> set (d_batches db)" for b
    using batch_table.image [OF step_batches(1) that] step_batches(2) [OF that]
    by (cases "q b") (auto simp: batch_change_def batch_identity_def)
  with step_batches(3) show ?case unfolding tenancy_def tasks by metis
next
  case (step_insert_tasks db new db' out)
  have refs: "task_refs_ok db t" if "t \<in> set new" for t
    using step_insert_tasks(1) that by (auto simp: insert_tasks_def list_all_iff task_insert_allowed_def split: if_splits)
  have "\<exists>b \<in> set (d_batches db). b_id b = t_batchId t \<and> b_brandId b = pl_brandId t" if "t \<in> set new" for t
    using refs [OF that] by (auto simp: task_refs_ok_def split: option.splits dest!: batch_by_id_Some)
  with step_insert_tasks show ?case by (auto simp: tenancy_def insert_tasks_def split: if_splits)
next
  case (step_insert_batch db b db' inserted)
  then show ?case by (auto simp: tenancy_def insert_batch_def split: if_splits)
qed

lemma db_steps_tenancy: "db_steps db db' \<Longrightarrow> tenancy db \<Longrightarrow> tenancy db'"
  by (induction rule: rtranclp_induct) (auto dest: db_step_tenancy)

subsection \<open>What steps never undo\<close>

definition task_evolves :: "delivery_task \<Rightarrow> delivery_task \<Rightarrow> bool" where
  "task_evolves t t' \<longleftrightarrow> task_change t t' \<and> (terminal_status (t_status t) \<longrightarrow> t' = t)"

definition batch_evolves :: "delivery_batch \<Rightarrow> delivery_batch \<Rightarrow> bool" where
  "batch_evolves b b' \<longleftrightarrow>
     batch_identity b' = batch_identity b \<and>
     (b_status b = BatchCompleted \<or> b_status b = BatchCancelled \<longrightarrow> b' = b) \<and>
     (b_status b \<noteq> BatchDraft \<longrightarrow> b_status b' \<noteq> BatchDraft \<and> frozen_fields b' = frozen_fields b)"

definition evolves :: "database \<Rightarrow> database \<Rightarrow> bool" where
  "evolves db db' \<longleftrightarrow>
     (\<forall>t \<in> set (d_tasks db). \<exists>t' \<in> set (d_tasks db'). task_evolves t t') \<and>
     (\<forall>b \<in> set (d_batches db). \<exists>b' \<in> set (d_batches db'). batch_evolves b b')"

lemma task_evolves_refl [simp]: "task_evolves t t"
  by (simp add: task_evolves_def task_change_def)

lemma task_evolves_trans: "task_evolves t u \<Longrightarrow> task_evolves u v \<Longrightarrow> task_evolves t v"
  by (auto simp: task_evolves_def task_change_def)

lemma batch_evolves_refl [simp]: "batch_evolves b b"
  by (simp add: batch_evolves_def)

lemma batch_evolves_trans: "batch_evolves b c \<Longrightarrow> batch_evolves c d \<Longrightarrow> batch_evolves b d"
  by (auto simp: batch_evolves_def)

lemma evolves_refl [simp]: "evolves db db"
  by (auto simp: evolves_def intro: task_evolves_refl batch_evolves_refl)

lemma evolves_trans: "evolves db db1 \<Longrightarrow> evolves db1 db2 \<Longrightarrow> evolves db db2"
  unfolding evolves_def by (meson task_evolves_trans batch_evolves_trans)

lemma batch_allowed_evolves:
  "batch_update_allowed db b b' \<Longrightarrow> batch_change db b b' \<Longrightarrow> batch_evolves b b'"
  by (cases "b_status b"; cases "b_status b'")
    (auto simp: batch_update_allowed_def batch_change_def batch_evolves_def batch_status_step_def)

lemma db_step_evolves: "db_step db db' \<Longrightarrow> evolves db db'"
proof (induction rule: db_step.induct)
  case (step_tasks db p f db' out)
  have "\<exists>t' \<in> set (d_tasks db'). task_evolves t t'" if "t \<in> set (d_tasks db)" for t
    using task_table.image [OF step_tasks(1) that] step_tasks(2) [OF that]
      update_tasks_InrD(3) [OF step_tasks(1) that] terminal_unchanged
    by (cases "p t") (simp; metis task_evolves_def task_evolves_refl)+
  moreover have "d_batches db' = d_batches db" by (simp add: update_tasks_InrD(1) [OF step_tasks(1)])
  ultimately show ?case by (auto simp: evolves_def intro: batch_evolves_refl)
next
  case (step_batches db q g db' changed)
  have "\<exists>b' \<in> set (d_batches db'). batch_evolves b b'" if "b \<in> set (d_batches db)" for b
    using batch_table.image [OF step_batches(1) that] step_batches(2) [OF that]
      update_batches_InrD(3) [OF step_batches(1) that] batch_allowed_evolves
    by (cases "q b") (simp; metis batch_evolves_refl)+
  moreover have "d_tasks db' = d_tasks db" by (simp add: update_batches_InrD(1) [OF step_batches(1)])
  ultimately show ?case by (auto simp: evolves_def intro: task_evolves_refl)
next
  case (step_insert_tasks db new db' out)
  then show ?case
    by (auto simp: evolves_def insert_tasks_def split: if_splits
        intro: task_evolves_refl batch_evolves_refl)
next
  case (step_insert_batch db b db' inserted)
  then show ?case
    by (auto simp: evolves_def insert_batch_def split: if_splits
        intro: task_evolves_refl batch_evolves_refl)
qed

lemma db_steps_evolve: "db_steps db db' \<Longrightarrow> evolves db db'"
  by (induction rule: rtranclp_induct) (auto dest: db_step_evolves intro: evolves_trans)

end
