(* ===== verification/Operations.thy ===== *)
theory Operations
  imports Lifecycle
begin

text \<open>
  Every operation of the delivery code is a sequence of the steps of \<open>Lifecycle\<close>, one lemma for
  each; \<open>program_step\<close> collects the operations, and what holds of every reachable state follows.
\<close>

subsection \<open>Statements as steps\<close>

lemma steps_tasks:
  "update_tasks db p f = Inr (db', out) \<Longrightarrow>
   (\<And>t. t \<in> set (d_tasks db) \<Longrightarrow> p t \<Longrightarrow> task_change t (f t)) \<Longrightarrow> db_steps db db'"
  by (blast intro: step_tasks)

lemma steps_pinned:
  assumes "db_ok db" and "c \<in> set (d_tasks db)" and "update_tasks db p f = Inr (db', out)"
    and "\<And>t. p t \<Longrightarrow> t_id t = t_id c" and "task_change c (f c)"
  shows "db_steps db db'"
  using assms(3)
proof (rule steps_tasks)
  fix t assume "t \<in> set (d_tasks db)" "p t"
  with assms(4) same_id_same_task [OF assms(1) _ assms(2)] have "t = c" by blast
  with assms(5) show "task_change t (f t)" by simp
qed

lemma steps_batches:
  "update_batches db q g = Inr (db', changed) \<Longrightarrow>
   (\<And>b. b \<in> set (d_batches db) \<Longrightarrow> q b \<Longrightarrow> batch_change db b (g b)) \<Longrightarrow> db_steps db db'"
  by (blast intro: step_batches)

lemma steps_then: "db_steps db db1 \<Longrightarrow> db_steps db1 db2 \<Longrightarrow> db_steps db db2"
  by (rule rtranclp_trans)

lemmas task_change_simps = task_change_def task_identity_def task_plan_of_def normalized_task_plan.defs
  BROWSER_RUNNER_MAX_PRE_SUBMIT_ATTEMPTS_def

lemmas row_edits = clear_lease_def automation_to_def set_last_error_def to_needs_human_def
  requeue_task_def terminally_failed_def

lemmas batch_change_simps = batch_change_def batch_identity_def

lemma find_member: "find p ts = Some t \<Longrightarrow> t \<in> set ts"
  by (auto dest: find_SomeD)

lemma first_unlocked_Some:
  assumes "first_unlocked locked p db = Some t"
  shows "t \<in> set (d_tasks db)" "p t" "\<not> locked (t_id t)"
    "\<And>u. u \<in> set (d_tasks db) \<Longrightarrow> p u \<Longrightarrow> \<not> locked (t_id u) \<Longrightarrow>
       (t_createdAt t, t_id t) \<le> (t_createdAt u, t_id u)"
proof -
  let ?key = "\<lambda>t. (t_createdAt t, t_id t)"
  let ?ts = "filter (\<lambda>t. p t \<and> \<not> locked (t_id t)) (d_tasks db)"
  obtain us where s: "sort_key ?key ?ts = t # us"
    using assms by (auto simp: first_unlocked_def split: list.splits)
  then have members: "set ?ts = insert t (set us)" by (metis list.simps(15) set_sort)
  then show "t \<in> set (d_tasks db)" "p t" "\<not> locked (t_id t)" by auto
  have "sorted (map ?key (t # us))" by (metis s sorted_sort_key)
  then have least: "\<forall>u \<in> insert t (set us). ?key t \<le> ?key u" by auto
  fix u assume "u \<in> set (d_tasks db)" "p u" "\<not> locked (t_id u)"
  then have "u \<in> set ?ts" by simp
  with members least show "?key t \<le> ?key u" by blast
qed

subsection \<open>Delivery batches\<close>

lemma settleDeliveryBatch_steps: "settleDeliveryBatch db i now = Inr db' \<Longrightarrow> db_steps db db'"
  by (auto simp: settleDeliveryBatch_def thrown_simps batch_change_simps
      split: if_splits elim!: steps_batches)

lemma createDraftDeliveryBatch_steps:
  assumes "createDraftDeliveryBatch other newId now input db = Inr (db', r)"
  shows "db_steps db db'"
proof -
  have "insert_batch db b = Inr (db', i) \<Longrightarrow> b_status b = BatchDraft \<Longrightarrow> db_steps db db'" for b i
    by (rule r_into_rtranclp, erule step_insert_batch) (simp add: fresh_batch_def)
  with assms show ?thesis
    by (auto simp: createDraftDeliveryBatch_def thrown_simps Let_def split: option.splits if_splits)
qed

lemma new_task_row_fresh: "fresh_task (new_task_row batch i now p)"
  by (simp add: fresh_task_def new_task_row_def normalized_task_plan.defs delivery_task.defs)

lemma addDeliveryTasks_steps:
  assumes "addDeliveryTasks sha newIds now brandId batchId tasks db = Inr (db', r)"
  shows "db_steps db db'"
proof -
  have "insert_tasks db (map (\<lambda>(i, p). new_task_row b (newIds i) now p) ips) = Inr (db', out) \<Longrightarrow>
    db_steps db db'" for b ips out
    by (rule r_into_rtranclp, erule step_insert_tasks) (auto simp: new_task_row_fresh)
  with assms show ?thesis
    by (auto simp: addDeliveryTasks_def thrown_simps Let_def split: if_splits)
qed

lemma freezeDeliveryBatch_steps:
  assumes "freezeDeliveryBatch sha other lc ts brandId batchId frozenBy window db = Inr (db', r)"
  shows "db_steps db db'"
proof (cases "db' = db")
  case False
  obtain q n s h f db1 out p out' where
    u: "update_batches db q (\<lambda>b. b\<lparr>b_status := BatchFrozen, b_plannedTaskCount := n,
     b_manifestSnapshot := Some s, b_manifestHash := Some h,
     b_frozenBy := (case f of None \<Rightarrow> b_frozenBy b | Some _ \<Rightarrow> f), b_frozenAt := Some ts\<rparr>) = Inr (db1, out)"
    "update_tasks db1 p (\<lambda>t. t\<lparr>t_status := TaskAvailable, t_availableAt := Some ts\<rparr>) = Inr (db', out')"
    using assms False by (auto simp: freezeDeliveryBatch_def thrown_simps Let_def split: if_splits)
  have "db_steps db db1" by (rule steps_batches [OF u(1)]) (simp add: batch_change_simps)
  moreover have "db_steps db1 db'" by (rule steps_tasks [OF u(2)]) (simp add: task_change_simps)
  ultimately show ?thesis by (rule steps_then)
qed simp

lemma heartbeatDeliveryTask_steps:
  assumes "heartbeatDeliveryTask sha other checkedAt now claim d db = Inr (db', r)"
  shows "db_steps db db'"
proof -
  have "update_tasks db p (\<lambda>t. t\<lparr>t_leaseExpiresAt := x\<rparr>) = Inr (db', out) \<Longrightarrow> db_steps db db'" for p x out
    by (erule steps_tasks) (simp add: task_change_simps)
  with assms show ?thesis
    by (auto simp: heartbeatDeliveryTask_def thrown_simps Let_def split: if_splits)
qed

lemma releaseDeliveryTask_steps:
  assumes "releaseDeliveryTask sha now claim reported db = Inr (db', r)"
  shows "db_steps db db'"
proof -
  have "update_tasks db p (\<lambda>t. (case reported of None \<Rightarrow> id | Some e \<Rightarrow> set_last_error (describeError e))
            ((clear_lease (automation_to AutoNeedsHuman t))
               \<lparr>t_status := TaskAvailable, t_availableAt := Some now\<rparr>)) = Inr (db', out) \<Longrightarrow> db_steps db db'" for p out
    by (erule steps_tasks, cases reported) (simp_all add: task_change_simps row_edits)
  with assms show ?thesis by (auto simp: releaseDeliveryTask_def thrown_simps)
qed

lemma completeDeliveryTaskInTransaction_steps:
  assumes "completeDeliveryTaskInTransaction sha now claim a db = Inr (db', r)"
  shows "db_steps db db'"
proof -
  obtain p db1 task out where
    u: "update_tasks db p (\<lambda>t. (clear_lease (automation_to AutoCompleted t))
            \<lparr>t_status := TaskSucceeded, t_observationAttemptId := Some a,
             t_succeededAt := Some now, t_lastErrorClass := None, t_lastErrorCode := None,
             t_lastErrorMessage := None, t_needsHumanCode := None, t_needsHumanReason := None\<rparr>) =
        Inr (db1, task # out)"
    and s: "settleDeliveryBatch db1 (t_batchId task) now = Inr db'"
    using assms by (auto simp: completeDeliveryTaskInTransaction_def thrown_simps)
  have "db_steps db db1" by (rule steps_tasks [OF u]) (simp add: task_change_simps row_edits)
  then show ?thesis using settleDeliveryBatch_steps [OF s] by (rule steps_then)
qed

lemma failDeliveryTaskInTransaction_steps:
  assumes "failDeliveryTaskInTransaction sha now claim a reported db = Inr (db', r)"
  shows "db_steps db db'"
proof -
  obtain p c db1 task out where
    u: "update_tasks db p (\<lambda>t. (set_last_error (terminal_error c (cl_claimedBy claim) (describeError reported))
            (clear_lease (automation_to AutoCompleted t)))
            \<lparr>t_status := TaskFailed,
             t_observationAttemptId := (case a of None \<Rightarrow> t_observationAttemptId t | Some a \<Rightarrow> Some a),
             t_failedAt := Some now, t_needsHumanCode := None, t_needsHumanReason := None\<rparr>) =
        Inr (db1, task # out)"
    and s: "settleDeliveryBatch db1 (t_batchId task) now = Inr db'"
    using assms by (auto simp: failDeliveryTaskInTransaction_def thrown_simps Let_def)
  have "db_steps db db1" by (rule steps_tasks [OF u]) (simp add: task_change_simps row_edits)
  then show ?thesis using settleDeliveryBatch_steps [OF s] by (rule steps_then)
qed

lemma eligible_batches_member:
  "eligible_batches other now named bs = Inr el \<Longrightarrow> (b, e) \<in> set el \<Longrightarrow> b \<in> set bs \<and> now < e"
  by (induction bs arbitrary: el) (auto simp: thrown_simps split: if_splits)

lemma claim_from_batches_steps:
  assumes "claim_from_batches sha now locked leaseToken input claimedBy d el db = Inr (db', r)" and "db_ok db"
  shows "db_steps db db'"
  using assms
proof (induction sha now locked leaseToken input claimedBy d el db rule: claim_from_batches.induct)
  case (2 sha now locked leaseToken input claimedBy d batch e rest db)
  show ?case
  proof (cases "first_unlocked locked
         (\<lambda>t. t_batchId t = b_id batch \<and> claim_available (cn_queue input) now t \<and>
            (case cn_surfaceTargetKeys input of None \<Rightarrow> True | Some ks \<Rightarrow> List.member ks (pl_surfaceTargetKey t)) \<and>
            (case cn_evaluationRoles input of None \<Rightarrow> True | Some rs \<Rightarrow> List.member rs (np_evaluationRole t))) db")
    case None
    with 2 show ?thesis by simp
  next
    case (Some c)
    let ?f = "\<lambda>h t. t\<lparr>t_status := TaskClaimed, t_claimedBy := Some claimedBy,
                 t_leaseTokenHash := Some h, t_leaseGeneration := t_leaseGeneration c + 1,
                 t_leaseExpiresAt := Some (boundedLeaseExpiry now d e), t_claimCount := t_claimCount c + 1,
                 t_claimedAt := Some now,
                 t_automationStatus :=
                   (if cn_queue input = QueueNeedsHuman then Some AutoRunning else t_automationStatus t)\<rparr>"
    obtain h p db1 out where h: "hashLeaseToken sha leaseToken = Inr h"
      and p: "p = (\<lambda>t. t_id t = t_id c \<and> t_status t = t_status c \<and>
                 t_leaseGeneration t = t_leaseGeneration c \<and>
                 (t_status c = TaskClaimed \<longrightarrow> expired_lease t now))"
      and u: "update_tasks db p (?f h) = Inr (db1, out)"
      using 2(3) Some by (auto simp: thrown_simps Let_def)
    have "db_steps db db1"
      by (rule steps_pinned [OF 2(4) first_unlocked_Some(1) [OF Some] u]) (auto simp: p task_change_simps)
    moreover have "db_steps db1 db'"
    proof (cases out)
      case Nil
      with 2(2) Some h u p 2(3) db_steps_ok [OF \<open>db_steps db db1\<close> 2(4)] show ?thesis
        by (simp add: Let_def)
    next
      case (Cons t ts)
      have "update_batches db1 q (\<lambda>b. b\<lparr>b_status := BatchInProgress, b_startedAt := x\<rparr>) = Inr (db', chg) \<Longrightarrow>
        db_steps db1 db'" for q x chg
        by (erule steps_batches) (simp add: batch_change_simps)
      with Some h u p 2(3) Cons show ?thesis
        by (auto simp: Let_def thrown_simps split: if_splits)
    qed
    ultimately show ?thesis by (rule steps_then)
  qed
qed simp

lemma claimNextDeliveryTask_steps:
  assumes "claimNextDeliveryTask sha other now locked leaseToken input db = Inr (db', r)" and "db_ok db"
  shows "db_steps db db'"
  using assms
  by (auto simp: claimNextDeliveryTask_def thrown_simps Let_def claim_from_batches_steps split: if_splits)

lemma cancelDeliveryBatch_steps:
  assumes "cancelDeliveryBatch now brandId batchId cancelledBy db = Inr (db', r)" and ok: "db_ok db"
  shows "db_steps db db'"
proof (cases "db' = db")
  case False
  let ?f = "\<lambda>t. (clear_lease (automation_to AutoCompleted t))\<lparr>t_status := TaskCancelled, t_cancelledAt := Some now\<rparr>"
  obtain batch db1 out c g chg where b: "find_batch db brandId batchId = Some batch"
    and u: "update_tasks db (\<lambda>t. t_batchId t = b_id batch \<and> unresolved_status (t_status t)) ?f = Inr (db1, out)"
    and g: "g = (\<lambda>b. b\<lparr>b_status := BatchCancelled,
            b_automationStatus :=
              (if b_executionMode batch = ModeBrowserRunner then Some RunnerSettled else b_automationStatus batch),
            b_automationSettledAt :=
              (if b_executionMode batch = ModeBrowserRunner then Some now else b_automationSettledAt batch),
            b_cancelledAt := Some now,
            b_cancelledBy := (case c of None \<Rightarrow> b_cancelledBy b | Some _ \<Rightarrow> c)\<rparr>)"
    and v: "update_batches db1 (\<lambda>b. b_id b = b_id batch) g = Inr (db', chg)"
    using assms(1) False by (auto simp: cancelDeliveryBatch_def thrown_simps split: if_splits)
  have "db_steps db db1" by (rule steps_tasks [OF u]) (simp add: task_change_simps row_edits)
  moreover have "terminal_status (t_status t)" if "t \<in> set (d_tasks db1)" "t_batchId t = b_id batch" for t
    by (rule task_table.origin [OF u that(1)])
      (use that(2) in \<open>auto simp: row_edits terminal_status_def unresolved_status_def\<close>,
       metis delivery_task_status.exhaust)
  then have "db_steps db1 db'"
    by (intro steps_batches [OF v]) (simp add: g batch_change_simps batch_tasks_def list_all_iff)
  ultimately show ?thesis by (rule steps_then)
qed simp

subsection \<open>The browser runner\<close>

lemma refreshBrowserRunnerBatchState_steps:
  assumes "refreshBrowserRunnerBatchState db i now = Inr db'"
  shows "db_steps db db'"
  using assms
  by (auto simp: refreshBrowserRunnerBatchState_def thrown_simps Let_def batch_change_simps
      split: if_splits elim!: steps_batches)

lemma to_needs_human_change [simp]: "task_change t (to_needs_human c code reason now t)"
  by (simp add: task_change_simps row_edits)

lemma markTaskNeedsHuman_steps:
  "markTaskNeedsHuman db t code reason now = Inr db' \<Longrightarrow> db_steps db db'"
  by (auto simp: markTaskNeedsHuman_def thrown_simps elim!: steps_tasks)

lemma park_candidate_steps:
  assumes "park_candidate db i t code reason m r = Inr db'"
  shows "db_steps db db'"
proof -
  obtain db1 where "markTaskNeedsHuman db t code reason m = Inr db1"
    "refreshBrowserRunnerBatchState db1 i r = Inr db'"
    using assms by (auto simp: park_candidate_def thrown_simps)
  then show ?thesis
    by (blast intro: steps_then markTaskNeedsHuman_steps refreshBrowserRunnerBatchState_steps)
qed

lemma startBrowserRunnerBatch_steps:
  assumes "startBrowserRunnerBatch other now brandId batchId db = Inr (db', r)"
  shows "db_steps db db'"
proof -
  obtain q s db1 out p out' where
    u: "update_batches db q (\<lambda>b. b\<lparr>b_status := BatchInProgress, b_automationStatus := Some RunnerRunning,
            b_automationStartedAt := Some now, b_startedAt := s\<rparr>) = Inr (db1, out)"
      "update_tasks db1 p (\<lambda>t. t\<lparr>t_automationStatus := Some AutoQueued\<rparr>) = Inr (db', out')"
    using assms by (auto simp: startBrowserRunnerBatch_def thrown_simps)
  have "db_steps db db1" by (rule steps_batches [OF u(1)]) (simp add: batch_change_simps)
  moreover have "db_steps db1 db'" by (rule steps_tasks [OF u(2)]) (simp add: task_change_simps)
  ultimately show ?thesis by (rule steps_then)
qed

lemma expire_window_tasks_steps:
  "expire_window_tasks now tasks n db = Inr (db', k) \<Longrightarrow> db_steps db db'"
proof (induction now tasks n db rule: expire_window_tasks.induct)
  case (2 now task tasks n db)
  show ?case
  proof (cases "t_status task = TaskClaimed \<and> live_lease task now")
    case False
    with 2(3) obtain p db1 out where
      u: "update_tasks db p (to_needs_human ''BrowserRunnerWindowExpired'' (window_expired_code task)
            (window_expired_reason task) now) = Inr (db1, out)"
      and r: "expire_window_tasks now tasks (if out = [] then n else n + 1) db1 = Inr (db', k)"
      and p: "p = (\<lambda>t. t_id t = t_id task \<and> t_status t = t_status task \<and>
             t_automationStatus t = t_automationStatus task \<and> t_leaseGeneration t = t_leaseGeneration task)"
      by (auto simp: thrown_simps)
    have "db_steps db db1" by (rule steps_tasks [OF u]) simp
    moreover have "db_steps db1 db'" using 2(2) [OF False] r by simp
    ultimately show ?thesis by (rule steps_then)
  qed (use 2 in simp)
qed simp

lemma reconcile_expired_batch_steps:
  assumes "reconcile_expired_batch other now at' brandId batchId db = Inr (db', k)"
  shows "db_steps db db'"
proof (cases "db' = db")
  case False
  then obtain ts db1 k' i where "expire_window_tasks now ts 0 db = Inr (db1, k')"
    "refreshBrowserRunnerBatchState db1 i at' = Inr db'"
    using assms by (auto simp: reconcile_expired_batch_def thrown_simps split: option.splits if_splits)
  then show ?thesis
    by (blast intro: steps_then expire_window_tasks_steps refreshBrowserRunnerBatchState_steps)
qed simp

lemma reconcile_expired_each_steps:
  "db_steps db (fst (reconcile_expired_each other clock brandId cs n k db))"
proof (induction other clock brandId cs n k db rule: reconcile_expired_each.induct)
  case (2 other clock brandId c cs n k db)
  then show ?case
    by (auto split: sum.split) (metis reconcile_expired_batch_steps steps_then)
qed simp

lemma reconcileExpiredBrowserRunnerBatches_steps:
  "db_steps db (fst (reconcileExpiredBrowserRunnerBatches other clock brandId db))"
  by (simp add: reconcileExpiredBrowserRunnerBatches_def reconcile_expired_each_steps)

lemma runner_claim_update_steps:
  assumes "runner_claim_update sha now token runnerId d e c db = Inr (db', out)" and "db_ok db"
    and "c \<in> set (d_tasks db)" and "t_automationAttemptCount c < BROWSER_RUNNER_MAX_PRE_SUBMIT_ATTEMPTS"
  shows "db_steps db db'"
  using assms
  by (auto simp: runner_claim_update_def thrown_simps task_change_simps elim!: steps_pinned [OF assms(2, 3)])

lemma length_filter_set_where_le:
  "(\<And>x. x \<in> set xs \<Longrightarrow> p x \<Longrightarrow> \<not> P (f x)) \<Longrightarrow>
   length (filter P (set_where p f xs)) \<le> length (filter P xs)"
  by (induction xs) (auto simp: set_where_def le_SucI)

lemma length_filter_set_where_less:
  assumes "\<And>x. x \<in> set xs \<Longrightarrow> p x \<Longrightarrow> \<not> P (f x)" and "x \<in> set xs" "p x" "P x"
  shows "length (filter P (set_where p f xs)) < length (filter P xs)"
  using assms
proof (induction xs)
  case (Cons y ys)
  have "length (filter P (set_where p f ys)) \<le> length (filter P ys)"
    by (rule length_filter_set_where_le) (use Cons.prems(1) in simp)
  with Cons show ?case by (cases "y = x") (auto simp: set_where_def less_Suc_eq_le)
qed simp

definition waiting ::
  "(string \<Rightarrow> bool) \<Rightarrow> int \<Rightarrow> claim_target list \<Rightarrow> delivery_batch \<Rightarrow> database \<Rightarrow> nat" where
  "waiting locked now targets batch db =
     length (filter (\<lambda>t. runner_claimable targets (b_id batch) now t \<and> \<not> locked (t_id t)) (d_tasks db))"

lemma park_candidate_waiting:
  assumes "park_candidate db i c code reason m r = Inr db'"
    and "first_unlocked locked (runner_claimable targets (b_id batch) now) db = Some c"
  shows "waiting locked now targets batch db' < waiting locked now targets batch db"
proof -
  obtain db1 where k: "markTaskNeedsHuman db c code reason m = Inr db1"
    "refreshBrowserRunnerBatchState db1 i r = Inr db'"
    using assms(1) by (auto simp: park_candidate_def thrown_simps)
  then have "d_tasks db' = set_where (\<lambda>t. t_id t = t_id c)
    (to_needs_human ''BrowserRunnerNeedsHuman'' code reason m) (d_tasks db)"
    by (auto simp: markTaskNeedsHuman_def refreshBrowserRunnerBatchState_def thrown_simps Let_def
        dest!: update_tasks_InrD(1) update_batches_InrD(1))
  with first_unlocked_Some [OF assms(2)] show ?thesis
    unfolding waiting_def
    by (simp, intro length_filter_set_where_less [where x = c]) (auto simp: runner_claimable_def row_edits)
qed

text \<open>The loop ends, because every candidate it does not claim it parks.\<close>

lemma runner_claim_loop_returns:
  "runner_claim_loop sha clock now locked token runnerId d targets batch e n db \<noteq> None"
proof (induction "waiting locked now targets batch db" arbitrary: n db rule: less_induct)
  case less
  show ?case
  proof (cases "first_unlocked locked (runner_claimable targets (b_id batch) now) db")
    case None
    then show ?thesis by (simp add: runner_claim_loop.simps)
  next
    case (Some c)
    have claimed: "out \<noteq> []" if "runner_claim_update sha now token runnerId d e c db = Inr (db1, out)" for db1 out
    proof -
      obtain f where "update_tasks db (\<lambda>t. t_id t = t_id c \<and> t_status t = t_status c \<and>
          t_leaseGeneration t = t_leaseGeneration c) f = Inr (db1, out)"
        using \<open>runner_claim_update sha now token runnerId d e c db = Inr (db1, out)\<close>
        by (auto simp: runner_claim_update_def thrown_simps)
      from update_tasks_InrD(2) [OF this] first_unlocked_Some(1) [OF Some] show ?thesis
        by (auto simp: filter_empty_conv)
    qed
    have again: "runner_claim_loop sha clock now locked token runnerId d targets batch e (Suc n) db1 \<noteq> None"
      if "park_candidate db (b_id batch) c code reason m r = Inr db1" for db1 code reason m r
      using less [OF park_candidate_waiting [OF \<open>park_candidate db (b_id batch) c code reason m r = Inr db1\<close> Some]] .
    show ?thesis
      using Some again claimed
      by (subst runner_claim_loop.simps)
        (auto split: sum.split list.split simp del: not_None_eq)
  qed
qed

lemma runner_claim_loop_steps:
  assumes "runner_claim_loop sha clock now locked token runnerId d targets batch e n db = Some (Inr (db', r))"
    and "db_ok db"
  shows "db_steps db db'"
  using assms
proof (induction "waiting locked now targets batch db" arbitrary: n db rule: less_induct)
  case less
  let ?loop = "runner_claim_loop sha clock now locked token runnerId d targets batch e"
  show ?case
  proof (cases "first_unlocked locked (runner_claimable targets (b_id batch) now) db")
    case None
    with less(2) show ?thesis by (simp add: runner_claim_loop.simps [of _ _ _ _ _ _ _ _ _ _ _ db])
  next
    case (Some c)
    have again: "db_steps db db'"
      if p: "park_candidate db (b_id batch) c code reason m q = Inr db1"
        and l: "?loop (Suc n) db1 = Some (Inr (db', r))" for db1 code reason m q
    proof -
      have "db_steps db db1" by (rule park_candidate_steps [OF p])
      moreover have "db_steps db1 db'"
        by (rule less(1) [OF park_candidate_waiting [OF p Some] l db_steps_ok [OF \<open>db_steps db db1\<close> less(3)]])
      ultimately show ?thesis by (rule steps_then)
    qed
    show ?thesis
    proof (cases "expiredBrowserRunnerClaimNeedsHuman (t_status c) (t_automationStatus c) \<or>
        t_automationAttemptCount c \<ge> BROWSER_RUNNER_MAX_PRE_SUBMIT_ATTEMPTS")
      case True
      with less(2) Some again show ?thesis
        by (subst (asm) runner_claim_loop.simps) (auto split: if_splits sum.splits)
    next
      case False
      obtain db1 out where u: "runner_claim_update sha now token runnerId d e c db = Inr (db1, out)"
        using less(2) Some False by (subst (asm) runner_claim_loop.simps) (auto split: sum.splits)
      have s: "db_steps db db1"
        using runner_claim_update_steps [OF u less(3) first_unlocked_Some(1) [OF Some]] False by simp
      obtain f where "update_tasks db (\<lambda>t. t_id t = t_id c \<and> t_status t = t_status c \<and>
          t_leaseGeneration t = t_leaseGeneration c) f = Inr (db1, out)"
        using u by (auto simp: runner_claim_update_def thrown_simps)
      from update_tasks_InrD(2) [OF this] first_unlocked_Some(1) [OF Some] obtain t ts where "out = t # ts"
        by (cases out) (auto simp: filter_empty_conv)
      moreover have "update_batches db1 q (\<lambda>b. b\<lparr>b_status := BatchInProgress\<rparr>) = Inr (db', chg) \<Longrightarrow>
        db_steps db1 db'" for q chg
        by (erule steps_batches) (simp add: batch_change_simps)
      ultimately have "db_steps db1 db'"
        using less(2) Some False u
        by (subst (asm) runner_claim_loop.simps) (auto simp: thrown_simps split: if_splits)
      with s show ?thesis by (rule steps_then)
    qed
  qed
qed

lemma runner_claim_batches_returns:
  "runner_claim_batches sha other clock now locked token runnerId d targets bs db \<noteq> None"
  by (induction bs arbitrary: db)
    (auto simp: runner_claim_loop_returns split: sum.split option.split simp del: not_None_eq)

lemma runner_claim_batches_steps:
  "runner_claim_batches sha other clock now locked token runnerId d targets bs db = Some (Inr (db', r)) \<Longrightarrow>
   db_ok db \<Longrightarrow> db_steps db db'"
proof (induction bs arbitrary: db)
  case (Cons b bs)
  obtain s e where w: "protocol_window other (b_protocol b) = Inr (s, e)"
    using Cons.prems(1) by (auto split: sum.splits)
  show ?case
  proof (cases "now < s \<or> now \<ge> e")
    case True
    with Cons w show ?thesis by simp
  next
    case False
    then obtain db1 c where l: "runner_claim_loop sha clock now locked token runnerId d targets b e 0 db =
        Some (Inr (db1, c))"
      and c: "c = None \<and> runner_claim_batches sha other clock now locked token runnerId d targets bs db1 =
        Some (Inr (db', r)) \<or> db' = db1"
      using Cons.prems(1) w by (auto split: option.splits sum.splits)
    note s = runner_claim_loop_steps [OF l Cons.prems(2)]
    from c show ?thesis
      using Cons.IH [OF _ db_steps_ok [OF s Cons.prems(2)]] s by (auto intro: steps_then)
  qed
qed simp

lemma claimBrowserRunnerTask_steps:
  assumes "db_ok db"
  shows "db_steps db (fst (claimBrowserRunnerTask sha other expiryClock clock now locked token input db))"
proof -
  let ?r = "reconcileExpiredBrowserRunnerBatches other expiryClock (ri_brandId input) db"
  have s: "db_steps db (fst ?r)" by (rule reconcileExpiredBrowserRunnerBatches_steps)
  have "runner_claim_batches sha other clock now locked token i d ts bs (fst ?r) = Some (Inr (db', c)) \<Longrightarrow>
    db_steps db db'" for i d ts bs db' c
    using runner_claim_batches_steps db_steps_ok [OF s assms] s steps_then by blast
  with s show ?thesis
    by (auto simp: claimBrowserRunnerTask_def Let_def split: sum.split prod.split option.split)
qed

lemma find_batch_Some: "find_batch db brandId i = Some b \<Longrightarrow> b \<in> set (d_batches db) \<and> b_id b = i \<and> b_brandId b = brandId"
  by (auto simp: find_batch_def dest: find_SomeD)

lemma resumeBrowserRunnerTask_steps:
  assumes "resumeBrowserRunnerTask sha other now token brandId taskId runnerId d db = Inr (db', r)"
    and ok: "db_ok db"
  shows "db_steps db db'"
proof -
  obtain c h e p k l s db1 out q chg where c: "find (\<lambda>t. t_id t = taskId \<and> t_batchId t = l) (d_tasks db) = Some c"
    and p: "p = (\<lambda>t. t_id t = t_id c \<and> t_status t = TaskAvailable \<and>
                t_automationStatus t = Some AutoNeedsHuman \<and> t_claimedBy t = k \<and>
                t_leaseGeneration t = t_leaseGeneration c \<and>
                (if s = PreSubmit then t_submitIntentAt t = None else t_submitIntentAt t \<noteq> None))"
    and u: "update_tasks db p (\<lambda>t. t\<lparr>t_status := TaskClaimed, t_automationStatus := Some AutoRunning,
                t_leaseTokenHash := Some h, t_leaseGeneration := t_leaseGeneration c + 1,
                t_leaseExpiresAt := Some e, t_claimCount := t_claimCount c + 1, t_claimedAt := Some now,
                t_needsHumanCode := (if s = PreSubmit then None else t_needsHumanCode t),
                t_needsHumanReason := (if s = PreSubmit then None else t_needsHumanReason t)\<rparr>) = Inr (db1, out)"
    and b: "update_batches db1 q (\<lambda>b. b\<lparr>b_automationStatus := Some RunnerRunning\<rparr>) = Inr (db', chg)"
    using assms(1)
    by (auto simp: resumeBrowserRunnerTask_def thrown_simps Let_def split: option.splits)
  have "db_steps db db1"
    by (rule steps_pinned [OF ok find_member [OF c] u]) (auto simp: p task_change_simps)
  moreover have "db_steps db1 db'" by (rule steps_batches [OF b]) (simp add: batch_change_simps)
  ultimately show ?thesis by (rule steps_then)
qed

lemma reconcileBrowserRunnerTask_steps:
  assumes "reconcileBrowserRunnerTask now m q brandId taskId runnerId db = Inr (db', r)"
  shows "db_steps db db'"
  using assms
  by (auto simp: reconcileBrowserRunnerTask_def thrown_simps Let_def split: if_splits dest: park_candidate_steps)

lemma recordBrowserRunnerFailure_steps:
  assumes "recordBrowserRunnerFailure sha now q brandId claim stage code reason db = Inr (db', r)"
  shows "db_steps db db'"
proof -
  obtain p f db1 out i where u: "update_tasks db p f = Inr (db1, out)"
    and f: "\<And>t. task_change t (f t)"
    and b: "refreshBrowserRunnerBatchState db1 i q = Inr db'"
    using assms
    by (auto simp: recordBrowserRunnerFailure_def thrown_simps Let_def task_change_simps row_edits)
  have "db_steps db db1" by (rule steps_tasks [OF u]) (simp add: f)
  then show ?thesis using refreshBrowserRunnerBatchState_steps [OF b] by (rule steps_then)
qed

lemma markBrowserRunnerSubmitConfirmed_steps:
  assumes "markBrowserRunnerSubmitConfirmed sha now claim session db = Inr (db', r)"
  shows "db_steps db db'"
proof (cases "db' = db")
  case False
  then obtain held out where "update_tasks db (\<lambda>t. held t \<and> t_submitConfirmedAt t = None)
         (\<lambda>t. t\<lparr>t_submitConfirmedAt := Some now\<rparr>) = Inr (db', out)"
    using assms by (auto simp: markBrowserRunnerSubmitConfirmed_def thrown_simps split: if_splits)
  then show ?thesis by (rule steps_tasks) (simp add: task_change_simps)
qed simp

lemma activeRunnerLease_holds:
  assumes "activeRunnerLease sha claim now = Inr held" and "held t"
  shows "t_id t = rc_taskId claim \<and> t_status t = TaskClaimed \<and> t_automationStatus t = Some AutoRunning \<and>
    t_leaseGeneration t = rc_leaseGeneration claim \<and> live_lease t now"
  using assms by (auto simp: activeRunnerLease_def thrown_simps)

lemma activeLeaseCondition_holds:
  assumes "activeLeaseCondition sha claim now = Inr held" and "held t"
  shows "t_id t = cl_taskId claim \<and> t_status t = TaskClaimed \<and>
    t_leaseGeneration t = cl_leaseGeneration claim \<and> live_lease t now"
  using assms by (auto simp: activeLeaseCondition_def thrown_simps)

lemma markBrowserRunnerSubmitIntent_steps:
  assumes "markBrowserRunnerSubmitIntent sha now claim session db = Inr (db', r)" and ok: "db_ok db"
  shows "db_steps db db'"
proof (cases "db' = db")
  case False
  then obtain held c x out where a: "activeRunnerLease sha claim now = Inr held"
    and c: "find held (d_tasks db) = Some c" "t_submitIntentAt c = None"
    and u: "update_tasks db held (\<lambda>t. t\<lparr>t_runnerSessionId := x, t_submitIntentAt := Some now\<rparr>) = Inr (db', out)"
    using assms(1) by (auto simp: markBrowserRunnerSubmitIntent_def thrown_simps split: if_splits)
  have "t_id t = t_id c" if "held t" for t
    using activeRunnerLease_holds [OF a] find_SomeD [OF c(1)] that by metis
  then show ?thesis
    using c(2) by (intro steps_pinned [OF ok find_member [OF c(1)] u]) (auto simp: task_change_simps)
qed simp

lemma markBrowserRunnerTaskCompleted_steps:
  assumes "markBrowserRunnerTaskCompleted q taskId batchId db = Inr (db', r)"
  shows "db_steps db db'"
proof -
  obtain p db1 out where u: "update_tasks db p
       (\<lambda>t. t\<lparr>t_automationStatus := Some AutoCompleted, t_needsHumanCode := None, t_needsHumanReason := None\<rparr>) =
       Inr (db1, out)"
    and b: "refreshBrowserRunnerBatchState db1 batchId q = Inr db'"
    using assms by (auto simp: markBrowserRunnerTaskCompleted_def thrown_simps)
  have "db_steps db db1" by (rule steps_tasks [OF u]) (simp add: task_change_simps)
  then show ?thesis using refreshBrowserRunnerBatchState_steps [OF b] by (rule steps_then)
qed

lemma reopen_batch_steps: "reopen_batch db i = Inr (db', out) \<Longrightarrow> db_steps db db'"
  by (auto simp: reopen_batch_def batch_change_simps elim!: steps_batches)

lemma requeue_steps:
  assumes ok: "db_ok db" and u: "update_tasks db (\<lambda>t. List.member (map t_id cs) (t_id t)) (requeue_task code m now) = Inr (db', out)"
    and cs: "\<And>c. c \<in> set cs \<Longrightarrow> c \<in> set (d_tasks db) \<and> t_submitIntentAt c = None \<and> t_submitConfirmedAt c = None"
  shows "db_steps db db'"
  using u
proof (rule steps_tasks)
  fix t assume t: "t \<in> set (d_tasks db)" "List.member (map t_id cs) (t_id t)"
  then obtain c where "c \<in> set cs" "t_id t = t_id c" by auto
  with cs same_id_same_task [OF ok t(1)] have "t \<in> set cs" by metis
  with cs show "task_change t (requeue_task code m now t)" by (simp add: task_change_simps row_edits)
qed

lemma requeue_transport_steps:
  assumes "requeueBrowserRunnerSafePreSubmitTransportFailures other now brandId batchId n db = Inr (db', r)"
    and ok: "db_ok db"
  shows "db_steps db db'"
proof -
  obtain i cs code m db1 out out' where cs: "cs = sort_key (\<lambda>t. (t_createdAt t, t_id t)) (batch_tasks db i)"
    "list_all isSafePreSubmitBrokerTransportRecoveryCandidate cs"
    and u: "update_tasks db (\<lambda>t. List.member (map t_id cs) (t_id t)) (requeue_task code m now) = Inr (db1, out)"
    and b: "reopen_batch db1 i = Inr (db', out')"
    using assms(1)
    by (auto simp: requeueBrowserRunnerSafePreSubmitTransportFailures_def thrown_simps Let_def split: if_splits)
  have "c \<in> set cs \<Longrightarrow> c \<in> set (d_tasks db) \<and> t_submitIntentAt c = None \<and> t_submitConfirmedAt c = None" for c
    using cs by (auto simp: batch_tasks_def list_all_iff isSafePreSubmitBrokerTransportRecoveryCandidate_def)
  from requeue_steps [OF ok u this] reopen_batch_steps [OF b] show ?thesis by (blast intro: steps_then)
qed

lemma requeue_profile_steps:
  assumes "requeueBrowserRunnerDedicatedProfileBusyTasks other now brandId batchId n k db = Inr (db', r)"
    and ok: "db_ok db"
  shows "db_steps db db'"
proof -
  obtain i cs code m db1 out out' where cs: "cs = filter isSafePreSubmitDedicatedProfileBusyRecoveryCandidate
      (sort_key (\<lambda>t. (t_createdAt t, t_id t)) (batch_tasks db i))"
    and u: "update_tasks db (\<lambda>t. List.member (map t_id cs) (t_id t)) (requeue_task code m now) = Inr (db1, out)"
    and b: "reopen_batch db1 i = Inr (db', out')"
    using assms(1)
    by (auto simp: requeueBrowserRunnerDedicatedProfileBusyTasks_def thrown_simps Let_def split: if_splits)
  have "c \<in> set cs \<Longrightarrow> c \<in> set (d_tasks db) \<and> t_submitIntentAt c = None \<and> t_submitConfirmedAt c = None" for c
    using cs by (auto simp: batch_tasks_def isSafePreSubmitDedicatedProfileBusyRecoveryCandidate_def)
  from requeue_steps [OF ok u this] reopen_batch_steps [OF b] show ?thesis by (blast intro: steps_then)
qed

lemma terminally_failed_change [simp]: "task_change t (terminally_failed now c m t)"
  by (simp add: task_change_simps row_edits)

lemma confirmBrowserRunnerTerminalFailure_steps:
  assumes "confirmBrowserRunnerTerminalFailure now brandId taskId confirmedBy reason db = Inr (db', r)"
  shows "db_steps db db'"
proof -
  obtain p c m db1 f out where u: "update_tasks db p (terminally_failed now c m) = Inr (db1, f # out)"
    and s: "settleDeliveryBatch db1 (t_batchId f) now = Inr db'"
    using assms by (auto simp: confirmBrowserRunnerTerminalFailure_def thrown_simps Let_def)
  have "db_steps db db1" by (rule steps_tasks [OF u]) simp
  then show ?thesis using settleDeliveryBatch_steps [OF s] by (rule steps_then)
qed

lemma finalizeBrowserRunnerNeedsHuman_steps:
  assumes "finalizeBrowserRunnerNeedsHuman now h brandId batchId confirmedBy reason db = Inr (db', r)"
  shows "db_steps db db'"
proof -
  have claim: "update_tasks db p (\<lambda>t. t\<lparr>t_status := TaskClaimed, t_automationStatus := Some AutoRunning,
                     t_leaseTokenHash := Some h, t_leaseGeneration := t_leaseGeneration t + 1,
                     t_leaseExpiresAt := Some now\<rparr>) = Inr (db1, out) \<Longrightarrow> db_steps db db1" for p db1 out
    by (erule steps_tasks) (simp add: task_change_simps)
  obtain q r c db1 db2 out i where
    u: "update_tasks db1 q (\<lambda>t. terminally_failed now (t_needsHumanCode t) (finalization_message r c t) t) =
      Inr (db2, out)"
    and s: "settleDeliveryBatch db2 i now = Inr db'"
    and c: "db_steps db db1"
    using assms
    by (auto simp: finalizeBrowserRunnerNeedsHuman_def thrown_simps Let_def split: if_splits dest!: claim)
  have "db_steps db1 db2" by (rule steps_tasks [OF u]) simp
  with c settleDeliveryBatch_steps [OF s] show ?thesis by (blast intro: steps_then)
qed

text \<open>
  The settlement is written against an interface; its client lemmas hold for every implementation
  of the interface, and \<open>database_settlement\<close> is the one the code uses.
\<close>

locale settlement_ops =
  fixes transaction :: "'db settlement_transaction" and steps :: "'db \<Rightarrow> 'db \<Rightarrow> bool"
  assumes steps_refl: "steps db db"
    and steps_trans: "steps db db1 \<Longrightarrow> steps db1 db2 \<Longrightarrow> steps db db2"
    and fail_steps: "st_failTask transaction db t patch = Inr (db', ok) \<Longrightarrow> steps db db'"
    and mark_steps: "st_markBatchInProgress transaction db b = Inr (db', ok) \<Longrightarrow> steps db db'"
    and settle_steps: "st_settleBatch transaction db i now = Inr db' \<Longrightarrow> steps db db'"
begin

lemma settle_tasks_steps: "settle_tasks transaction now ds n db = Inr (db', k) \<Longrightarrow> steps db db'"
proof (induction ds arbitrary: n db)
  case (Cons td ds)
  obtain t d where td: "td = (t, d)" by (cases td)
  show ?case
  proof (cases d)
    case DeferLiveLease
    with Cons td show ?thesis by simp
  next
    case (TerminalFailure code reason)
    then obtain patch db1 where f: "st_failTask transaction db t patch = Inr (db1, True)"
      and r: "settle_tasks transaction now ds (n + 1) db1 = Inr (db', k)"
      using Cons.prems td by (auto simp: thrown_simps split: if_splits)
    from steps_trans [OF fail_steps [OF f] Cons.IH [OF r]] show ?thesis .
  qed
qed (simp add: steps_refl)

lemma execute_steps:
  assumes "executeBrowserRunnerDailySettlement other transaction batchId now db = Inr (db', r)"
  shows "steps db db'"
proof (cases "db' = db")
  case False
  then have "\<exists>b ds db1 n db2. settle_tasks transaction now ds 0 db = Inr (db1, n) \<and>
      (db2 = db1 \<or> st_markBatchInProgress transaction db1 b = Inr (db2, True)) \<and>
      st_settleBatch transaction db2 (b_id b) now = Inr db'"
    using assms
    by (auto simp: executeBrowserRunnerDailySettlement_def thrown_simps Let_def split: option.splits if_splits; blast)
  then show ?thesis
    by (metis settle_tasks_steps mark_steps settle_steps steps_trans)
qed (simp add: steps_refl)

end

interpretation settlement: settlement_ops database_settlement db_steps
proof
  show "db_steps db db" for db by simp
  show "db_steps db db1 \<Longrightarrow> db_steps db1 db2 \<Longrightarrow> db_steps db db2" for db db1 db2
    by (rule steps_then)
  show "st_failTask database_settlement db t patch = Inr (db', ok) \<Longrightarrow> db_steps db db'" for db t patch db' ok
    by (auto simp: database_settlement_def thrown_simps elim!: steps_tasks)
  show "st_markBatchInProgress database_settlement db b = Inr (db', ok) \<Longrightarrow> db_steps db db'" for db b db' ok
    by (auto simp: database_settlement_def thrown_simps batch_change_simps elim!: steps_batches)
  show "st_settleBatch database_settlement db i now = Inr db' \<Longrightarrow> db_steps db db'" for db i now db'
    by (auto simp: database_settlement_def settleDeliveryBatch_steps)
qed

lemma settle_candidates_steps: "db_steps db (fst (settle_candidates other now cs receipt db))"
proof (induction other now cs receipt db rule: settle_candidates.induct)
  case (2 other now c cs receipt db)
  then show ?case
    by (auto simp: settleOneDueDomesticBrowserRunnerBatch_def split: sum.split
        intro: steps_then [OF settlement.execute_steps])
qed simp

lemma settleDueDomesticBrowserRunnerBatches_steps:
  "db_steps db (fst (settleDueDomesticBrowserRunnerBatches other now limit db))"
  by (simp add: settleDueDomesticBrowserRunnerBatches_def Let_def split_beta settle_candidates_steps
      split: option.split)

end
