(* ===== verification/Program.thy ===== *)
theory Program
  imports Operations
begin

text \<open>
  The delivery program as a state machine: a step is any operation of the two files with any
  arguments, or a change made elsewhere (scopes, brands, competitors, prompts, observation
  attempts) that leaves the two tables and the finished attempts alone. What is proved of every
  step or every reachable state is stated here.
\<close>

inductive program_step ::
  "(string \<Rightarrow> string) \<Rightarrow> (string \<Rightarrow> int option) \<Rightarrow> (string \<Rightarrow> string \<Rightarrow> int) \<Rightarrow> database \<Rightarrow> database \<Rightarrow> bool"
  for sha other lc where
  elsewhere: "d_batches db' = d_batches db \<Longrightarrow> d_tasks db' = d_tasks db \<Longrightarrow>
     (\<And>i a. attempt_by_id db i = Some a \<Longrightarrow> oa_status a = ObsSucceeded \<or> oa_status a = ObsFailed \<Longrightarrow>
        attempt_by_id db' i = Some a) \<Longrightarrow> program_step sha other lc db db'"
| draft: "createDraftDeliveryBatch other newId now input db = Inr (db', r) \<Longrightarrow> program_step sha other lc db db'"
| add: "addDeliveryTasks sha newIds now brandId batchId tasks db = Inr (db', added) \<Longrightarrow> program_step sha other lc db db'"
| freeze: "freezeDeliveryBatch sha other lc now brandId batchId frozenBy window db = Inr (db', r) \<Longrightarrow>
     program_step sha other lc db db'"
| claim: "claimNextDeliveryTask sha other now locked token claimInput db = Inr (db', c) \<Longrightarrow>
     program_step sha other lc db db'"
| heartbeat: "heartbeatDeliveryTask sha other checkedAt now claim d db = Inr (db', lease) \<Longrightarrow>
     program_step sha other lc db db'"
| release: "releaseDeliveryTask sha now claim reported db = Inr (db', t) \<Longrightarrow> program_step sha other lc db db'"
| complete: "completeDeliveryTaskSuccess sha now claim attempt db = Inr (db', t) \<Longrightarrow> program_step sha other lc db db'"
| fail: "failDeliveryTask sha now claim failedAttempt thrown db = Inr (db', t) \<Longrightarrow> program_step sha other lc db db'"
| cancel: "cancelDeliveryBatch now brandId batchId cancelledBy db = Inr (db', r) \<Longrightarrow> program_step sha other lc db db'"
| start: "startBrowserRunnerBatch other now brandId batchId db = Inr (db', r) \<Longrightarrow> program_step sha other lc db db'"
| runner_claim: "claimBrowserRunnerTask sha other expiryClock clock now locked token runnerInput db = (db', rc) \<Longrightarrow>
     program_step sha other lc db db'"
| resume: "resumeBrowserRunnerTask sha other now token brandId taskId runnerId d db = Inr (db', rs) \<Longrightarrow>
     program_step sha other lc db db'"
| reconcile: "reconcileBrowserRunnerTask now markedAt refreshedAt brandId taskId runnerId db = Inr (db', rr) \<Longrightarrow>
     program_step sha other lc db db'"
| failure: "recordBrowserRunnerFailure sha now refreshedAt brandId runnerClaim stage code reason db = Inr (db', fr) \<Longrightarrow>
     program_step sha other lc db db'"
| intent: "markBrowserRunnerSubmitIntent sha now runnerClaim session db = Inr (db', ir) \<Longrightarrow>
     program_step sha other lc db db'"
| confirmed: "markBrowserRunnerSubmitConfirmed sha now runnerClaim session db = Inr (db', cr) \<Longrightarrow>
     program_step sha other lc db db'"
| completed: "markBrowserRunnerTaskCompleted refreshedAt taskId batchId db = Inr (db', u) \<Longrightarrow>
     program_step sha other lc db db'"
| requeue_transport: "requeueBrowserRunnerSafePreSubmitTransportFailures other now brandId batchId n db = Inr (db', k) \<Longrightarrow>
     program_step sha other lc db db'"
| requeue_profile: "requeueBrowserRunnerDedicatedProfileBusyTasks other now brandId batchId n m db = Inr (db', k) \<Longrightarrow>
     program_step sha other lc db db'"
| confirm_failure: "confirmBrowserRunnerTerminalFailure now brandId taskId confirmedBy reason db = Inr (db', t) \<Longrightarrow>
     program_step sha other lc db db'"
| finalize: "finalizeBrowserRunnerNeedsHuman now h brandId batchId confirmedBy reason db = Inr (db', fz) \<Longrightarrow>
     program_step sha other lc db db'"
| reconcile_expired: "reconcileExpiredBrowserRunnerBatches other expiryClock brandId db = (db', re) \<Longrightarrow>
     program_step sha other lc db db'"
| settle: "settleDueDomesticBrowserRunnerBatches other settleNow limit db = (db', receipt) \<Longrightarrow>
     program_step sha other lc db db'"

definition empty_database :: database where
  "empty_database = \<lparr>d_batches = [], d_tasks = [], d_scopes = [], d_brands = [], d_competitors = [],
     d_prompts = [], d_attempts = []\<rparr>"

definition reachable ::
  "(string \<Rightarrow> string) \<Rightarrow> (string \<Rightarrow> int option) \<Rightarrow> (string \<Rightarrow> string \<Rightarrow> int) \<Rightarrow> database \<Rightarrow> bool" where
  "reachable sha other lc db = (program_step sha other lc)\<^sup>*\<^sup>* empty_database db"

subsection \<open>Steps\<close>

lemma elsewhere_ok:
  assumes "d_batches db' = d_batches db" "d_tasks db' = d_tasks db"
    and "\<And>i a. attempt_by_id db i = Some a \<Longrightarrow> oa_status a = ObsSucceeded \<or> oa_status a = ObsFailed \<Longrightarrow>
        attempt_by_id db' i = Some a" and "db_ok db"
  shows "db_ok db' \<and> evolves db db'"
proof -
  have same: "batch_by_id db' = batch_by_id db" "batch_tasks db' = batch_tasks db"
    by (simp_all add: fun_eq_iff batch_by_id_def batch_tasks_def assms(1, 2))
  have "attempt_link_ok db t \<Longrightarrow> attempt_link_ok db' t" for t
    using assms(3) by (auto simp: attempt_link_ok_def split: option.splits)
  then have "task_ok db t \<Longrightarrow> task_ok db' t" for t
    unfolding task_ok_def execution_mode_matches_def same by blast
  moreover have "batch_ok db' = batch_ok db"
    unfolding fun_eq_iff batch_ok_def same by simp
  moreover have "evolves db db'" using evolves_refl [of db] unfolding evolves_def assms(1, 2) .
  ultimately show ?thesis using assms(4) by (simp add: db_ok_def assms(1, 2))
qed

lemmas operation_steps =
  createDraftDeliveryBatch_steps addDeliveryTasks_steps freezeDeliveryBatch_steps claimNextDeliveryTask_steps
  heartbeatDeliveryTask_steps releaseDeliveryTask_steps completeDeliveryTaskInTransaction_steps
  failDeliveryTaskInTransaction_steps cancelDeliveryBatch_steps startBrowserRunnerBatch_steps
  resumeBrowserRunnerTask_steps reconcileBrowserRunnerTask_steps recordBrowserRunnerFailure_steps
  markBrowserRunnerSubmitIntent_steps markBrowserRunnerSubmitConfirmed_steps
  markBrowserRunnerTaskCompleted_steps requeue_transport_steps requeue_profile_steps
  confirmBrowserRunnerTerminalFailure_steps finalizeBrowserRunnerNeedsHuman_steps

lemma program_step_cases:
  assumes "program_step sha other lc db db'" and ok: "db_ok db"
  shows "db_steps db db' \<or> db_ok db' \<and> evolves db db' \<and> d_tasks db' = d_tasks db \<and> d_batches db' = d_batches db"
  using assms(1)
proof cases
  case elsewhere
  with elsewhere_ok [OF _ _ _ ok] show ?thesis by blast
next
  case runner_claim
  then show ?thesis using claimBrowserRunnerTask_steps [OF ok] by (metis fst_conv)
next
  case reconcile_expired
  then show ?thesis using reconcileExpiredBrowserRunnerBatches_steps by (metis fst_conv)
next
  case settle
  then show ?thesis using settleDueDomesticBrowserRunnerBatches_steps by (metis fst_conv)
qed (use ok in \<open>auto simp: completeDeliveryTaskSuccess_def failDeliveryTask_def intro: operation_steps\<close>)

lemma program_step_ok: "program_step sha other lc db db' \<Longrightarrow> db_ok db \<Longrightarrow> db_ok db' \<and> evolves db db'"
  using program_step_cases db_steps_ok db_steps_evolve by metis

lemma db_ok_empty: "db_ok empty_database"
  by (simp add: db_ok_def empty_database_def task_keys_unique_def somes_def List.map_filter_def)

lemma program_steps_ok:
  assumes "(program_step sha other lc)\<^sup>*\<^sup>* db db'" and "db_ok db"
  shows "db_ok db' \<and> evolves db db'"
  using assms(1)
proof (induction rule: rtranclp_induct)
  case base
  from assms(2) show ?case by simp
next
  case (step db1 db2)
  then show ?case using program_step_ok evolves_trans by blast
qed

lemma reachable_ok: "reachable sha other lc db \<Longrightarrow> db_ok db"
  unfolding reachable_def using program_steps_ok db_ok_empty by blast

lemma reachable_tenancy: "reachable sha other lc db \<Longrightarrow> tenancy db"
  unfolding reachable_def
proof (induction rule: rtranclp_induct)
  case base
  show ?case by (simp add: tenancy_def empty_database_def)
next
  case (step db db')
  have "db_ok db" using reachable_ok step.hyps(1) by (simp add: reachable_def)
  from program_step_cases [OF step.hyps(2) this] step.IH db_steps_tenancy show ?case
    by (auto simp: tenancy_def)
qed

subsection \<open>An example database\<close>

text \<open>
  A running batch with one task in each of the states a runner meets, for the witnesses: \<open>c\<close> is
  claimed by runner \<open>r\<close> with the lease token \<open>t\<close>, \<open>q\<close> is queued, \<open>h\<close> waits for a human.
\<close>

definition example_sha :: "string \<Rightarrow> string" where
  "example_sha s = replicate 64 CHR ''a''"

definition example_protocol :: delivery_protocol where
  "example_protocol =
     \<lparr>pr_startsAt = ''2026-08-22T01:00:00.000Z'', pr_endsAt = ''2026-08-23T01:00:00.000Z'',
      pr_evidence = \<lparr>ev_minimumArtifacts = 1, ev_requireSha256 = True, ev_requirePageUrl = True,
        ev_allowedUriSchemes = [''https'']\<rparr>, pr_notes = None\<rparr>"

definition example_start :: int where "example_start = 1787360400000"

definition example_row :: "char \<Rightarrow> delivery_task_status \<Rightarrow> runner_task_status \<Rightarrow> delivery_task" where
  "example_row c st auto =
     \<lparr>pl_brandId = ''b'', pl_scopeId = ''s'', pl_promptId = [c], pl_promptText = ''which'',
      pl_surfaceTargetKey = ''kimi.consumer_web'', pl_captureRouteKey = ''browser_extension.kimi'',
      pl_sampleIndex = 1, pl_sessionRequirement = SessionNone, pl_searchRequirement = SearchRequired,
      np_evaluationRole = RoleScored, t_id = [c], t_batchId = ''B'', t_slotKey = replicate 64 c,
      t_status = st, t_automationStatus = Some auto, t_automationAttemptCount = 1,
      t_runnerSessionId = None, t_submitIntentAt = None, t_submitConfirmedAt = None,
      t_needsHumanCode = None, t_needsHumanReason = None, t_observationAttemptId = None,
      t_claimedBy = Some ''browser-runner:r'', t_leaseTokenHash = None, t_leaseGeneration = 1,
      t_leaseExpiresAt = None, t_claimCount = 1, t_lastErrorClass = None, t_lastErrorCode = None,
      t_lastErrorMessage = None, t_availableAt = Some example_start, t_claimedAt = Some example_start,
      t_succeededAt = None, t_failedAt = None, t_cancelledAt = None, t_createdAt = 0\<rparr>"

definition example_claimed :: delivery_task where
  "example_claimed = (example_row CHR ''c'' TaskClaimed AutoRunning)
     \<lparr>t_leaseTokenHash := Some (example_sha ''t''), t_leaseExpiresAt := Some (example_start + 900000)\<rparr>"

definition example_queued :: delivery_task where
  "example_queued = (example_row CHR ''d'' TaskAvailable AutoQueued)\<lparr>t_automationAttemptCount := 0,
     t_claimedBy := None, t_claimedAt := None, t_claimCount := 0, t_leaseGeneration := 0\<rparr>"

definition example_waiting :: delivery_task where
  "example_waiting = (example_row CHR ''e'' TaskAvailable AutoNeedsHuman)
     \<lparr>t_needsHumanCode := Some ''captcha'', t_needsHumanReason := Some ''a captcha is shown''\<rparr>"

definition example_batch :: delivery_batch where
  "example_batch =
     \<lparr>b_id = ''B'', b_brandId = ''b'', b_scopeId = ''s'', b_idempotencyKey = ''k'', b_name = ''n'',
      b_status = BatchInProgress, b_executionMode = ModeBrowserRunner,
      b_automationStatus = Some RunnerRunning, b_automationStartedAt = Some example_start,
      b_automationSettledAt = None, b_plannedTaskCount = 3, b_protocol = example_protocol,
      b_manifestSnapshot = Some (manifest_snapshot.make
        (mc_batch example_context) (mc_scope example_context) (mc_brand example_context) []
        example_protocol 1 []),
      b_manifestHash = Some (example_sha ''m''), b_createdBy = None, b_frozenBy = None,
      b_cancelledBy = None, b_frozenAt = Some example_start, b_startedAt = Some example_start,
      b_completedAt = None, b_cancelledAt = None, b_createdAt = 0\<rparr>"

definition example_scope :: scope_row where
  "example_scope = measurement_scope.extend (mc_scope example_context) (scope_row.fields ''b'')"

definition database_with :: "delivery_batch \<Rightarrow> delivery_task list \<Rightarrow> database" where
  "database_with b ts = empty_database\<lparr>d_batches := [b], d_tasks := ts, d_scopes := [example_scope]\<rparr>"

definition example_database :: database where
  "example_database = database_with example_batch [example_claimed, example_queued, example_waiting]"

lemmas example_defs = example_database_def database_with_def example_claimed_def example_queued_def
  example_waiting_def example_row_def example_batch_def empty_database_def

lemma example_database_ok: "db_ok example_database"
  by code_simp

end
