(* ===== verification/Safety.thy ===== *)
theory Safety
  imports Program
begin

text \<open>
  The safety properties of the delivery state machine: the invariant of every reachable state, and
  what no sequence of operations can undo.
\<close>

definition run_from ::
  "(string \<Rightarrow> string) \<Rightarrow> (string \<Rightarrow> int option) \<Rightarrow> (string \<Rightarrow> string \<Rightarrow> int) \<Rightarrow> database \<Rightarrow> database \<Rightarrow> bool" where
  "run_from sha other lc = (program_step sha other lc)\<^sup>*\<^sup>*"


definition example_create :: create_batch_input where
  "example_create = \<lparr>cb_brandId = ''b'', cb_scopeId = ''s'', cb_idempotencyKey = '' k '', cb_name = ''n'',
     cb_protocol = example_protocol, cb_createdBy = None, cb_executionMode = Some ModeBrowserRunner\<rparr>"

definition example_world :: database where
  "example_world = empty_database\<lparr>d_scopes := [example_scope],
     d_prompts := [\<lparr>pm_id = ''p'', pm_brandId = ''b'', pm_scopeId = ''s'', pm_value = ''which'', pm_enabled = True\<rparr>]\<rparr>"

lemma drafted_reachable:
  assumes "createDraftDeliveryBatch other i now input example_world = Inr (db, b)"
  shows "reachable sha other lc db"
proof -
  have "program_step sha other lc empty_database example_world"
    by (rule program_step.elsewhere) (simp_all add: example_world_def empty_database_def attempt_by_id_def)
  moreover have "program_step sha other lc example_world db" by (rule program_step.draft [OF assms])
  ultimately show ?thesis unfolding reachable_def by (blast intro: rtranclp.intros)
qed


lemma run_from_ok: "run_from sha other lc db db' \<Longrightarrow> db_ok db \<Longrightarrow> db_ok db' \<and> evolves db db'"
  unfolding run_from_def by (rule program_steps_ok)

text \<open>
  C5: a resolved task is final: whatever operations follow, its row is still there, unchanged.
\<close>

theorem resolved_task_final:
  assumes "db_ok db" and "run_from sha other lc db db'"
    and "t \<in> set (d_tasks db)" and "terminal_status (t_status t)"
  shows "t \<in> set (d_tasks db')"
proof -
  have "evolves db db'" using run_from_ok [OF assms(2, 1)] by simp
  with assms(3, 4) show ?thesis by (auto simp: evolves_def task_evolves_def)
qed

definition example_claim :: delivery_claim_proof where
  "example_claim = \<lparr>cl_taskId = ''c'', cl_claimedBy = ''browser-runner:r'', cl_leaseToken = ''t'',
     cl_leaseGeneration = 1\<rparr>"

definition example_runner_claim :: runner_claim_proof where
  "example_runner_claim = \<lparr>rc_taskId = ''c'', rc_runnerId = ''r'', rc_leaseToken = ''t'', rc_leaseGeneration = 1\<rparr>"

definition example_failed :: delivery_task where
  "example_failed = (example_row CHR ''f'' TaskFailed AutoCompleted)\<lparr>t_failedAt := Some example_start\<rparr>"

definition example_two :: database where
  "example_two = database_with (example_batch\<lparr>b_plannedTaskCount := 2\<rparr>) [example_claimed, example_failed]"

lemma example_heartbeat:
  "\<exists>db'. heartbeatDeliveryTask example_sha (\<lambda>_. None) example_start (example_start + 1) example_claim None example_two =
     Inr (db', 1, example_start + 900001)"
proof -
  have "case heartbeatDeliveryTask example_sha (\<lambda>_. None) example_start (example_start + 1) example_claim None
      example_two of Inl _ \<Rightarrow> False | Inr (_, r) \<Rightarrow> r = (1, example_start + 900001)"
    by code_simp
  then show ?thesis by (auto split: sum.splits)
qed

theorem resolved_task_final_witness:
  "\<exists>db'. run_from example_sha (\<lambda>_. None) code_unit_compare example_two db' \<and> example_failed \<in> set (d_tasks db')"
proof -
  obtain db' where "heartbeatDeliveryTask example_sha (\<lambda>_. None) example_start (example_start + 1) example_claim None
      example_two = Inr (db', 1, example_start + 900001)" using example_heartbeat by blast
  from program_step.heartbeat [OF this]
  have r: "run_from example_sha (\<lambda>_. None) code_unit_compare example_two db'" by (simp add: run_from_def r_into_rtranclp)
  have "db_ok example_two" "example_failed \<in> set (d_tasks example_two)" "terminal_status (t_status example_failed)"
    by code_simp+
  from resolved_task_final [OF this(1) r this(2, 3)] r show ?thesis by blast
qed

text \<open>
  C2: a submit intent is durable: once a runner has recorded one, no operation erases or replaces
  it or its session, and the task never goes back to the queue, so no prompt is submitted twice.
\<close>

theorem submit_intent_durable:
  assumes "db_ok db" and "run_from sha other lc db db'"
    and "t \<in> set (d_tasks db)" and "t_submitIntentAt t = Some i"
  shows "\<exists>t' \<in> set (d_tasks db'). t_id t' = t_id t \<and> t_submitIntentAt t' = Some i \<and>
    t_runnerSessionId t' = t_runnerSessionId t \<and> t_automationStatus t' \<noteq> Some AutoQueued"
proof -
  have e: "evolves db db'" and ok: "db_ok db'" using run_from_ok [OF assms(2, 1)] by simp_all
  then obtain t' where t': "t' \<in> set (d_tasks db')" "task_change t t'"
    using assms(3) by (auto simp: evolves_def task_evolves_def)
  with assms(4) have "t_id t' = t_id t" "t_submitIntentAt t' = Some i" "t_runnerSessionId t' = t_runnerSessionId t"
    by (simp_all add: task_change_def)
  moreover have "t_automationStatus t' \<noteq> Some AutoQueued"
    using db_okD(4) [OF ok t'(1)] \<open>t_submitIntentAt t' = Some i\<close>
    by (auto simp: task_ok_def task_row_ok_def automation_state_consistent_def automation_case_def)
  ultimately show ?thesis using t'(1) by blast
qed

definition example_submitted :: delivery_task where
  "example_submitted = example_claimed\<lparr>t_submitIntentAt := Some example_start, t_runnerSessionId := Some ''session''\<rparr>"

definition example_submitted_database :: database where
  "example_submitted_database =
     database_with (example_batch\<lparr>b_plannedTaskCount := 1\<rparr>) [example_submitted]"

theorem submit_intent_durable_witness:
  "\<exists>db' r. recordBrowserRunnerFailure example_sha (example_start + 1) (example_start + 2) ''b'' example_runner_claim
       PostSubmit ''network_transient'' ''lost'' example_submitted_database = Inr (db', r) \<and>
     (\<exists>t' \<in> set (d_tasks db'). t_id t' = ''c'' \<and> t_submitIntentAt t' = Some example_start \<and>
        t_automationStatus t' \<noteq> Some AutoQueued)"
proof -
  let ?op = "recordBrowserRunnerFailure example_sha (example_start + 1) (example_start + 2) ''b'' example_runner_claim
       PostSubmit ''network_transient'' ''lost'' example_submitted_database"
  have "case ?op of Inl _ \<Rightarrow> False | Inr _ \<Rightarrow> True" by code_simp
  then obtain db' r where d: "?op = Inr (db', r)" by (cases ?op) auto
  from program_step.failure [OF d]
  have run: "run_from example_sha (\<lambda>_. None) code_unit_compare example_submitted_database db'"
    by (simp add: run_from_def r_into_rtranclp)
  have "db_ok example_submitted_database" "example_submitted \<in> set (d_tasks example_submitted_database)"
    "t_submitIntentAt example_submitted = Some example_start" "t_id example_submitted = ''c''"
    by code_simp+
  with submit_intent_durable [OF this(1) run this(2, 3)] d show ?thesis by auto
qed

text \<open>
  C4: a frozen manifest is final: after a batch left the draft state, its identity, protocol, planned
  count, snapshot, hash and the fields of every task of the manifest stay what they are.
\<close>

theorem frozen_manifest_final:
  assumes "db_ok db" and "run_from sha other lc db db'"
    and "b \<in> set (d_batches db)" and "b_status b \<noteq> BatchDraft"
  shows "(\<exists>b' \<in> set (d_batches db'). batch_identity b' = batch_identity b \<and> frozen_fields b' = frozen_fields b \<and>
       b_status b' \<noteq> BatchDraft) \<and>
    (\<forall>t \<in> set (batch_tasks db (b_id b)). \<exists>t' \<in> set (batch_tasks db' (b_id b)).
       t_id t' = t_id t \<and> task_identity t' = task_identity t)"
proof -
  have e: "evolves db db'" using run_from_ok [OF assms(2, 1)] by simp
  have "\<exists>t' \<in> set (batch_tasks db' (b_id b)). t_id t' = t_id t \<and> task_identity t' = task_identity t"
    if "t \<in> set (batch_tasks db (b_id b))" for t
  proof -
    from that have "t \<in> set (d_tasks db)" "t_batchId t = b_id b" by (simp_all add: batch_tasks_def)
    with e obtain t' where "t' \<in> set (d_tasks db')" "task_change t t'"
      by (auto simp: evolves_def task_evolves_def)
    with \<open>t_batchId t = b_id b\<close> show ?thesis
      by (auto simp: task_change_def task_identity_def batch_tasks_def)
  qed
  moreover have "\<exists>b' \<in> set (d_batches db'). batch_evolves b b'" using e assms(3) by (simp add: evolves_def)
  ultimately show ?thesis using assms(4) by (auto simp: batch_evolves_def)
qed

theorem frozen_manifest_final_witness:
  "\<exists>db'. run_from example_sha (\<lambda>_. None) code_unit_compare example_two db' \<and>
     (\<exists>b' \<in> set (d_batches db'). b_id b' = ''B'' \<and> b_plannedTaskCount b' = 2)"
proof -
  obtain db' where "heartbeatDeliveryTask example_sha (\<lambda>_. None) example_start (example_start + 1) example_claim None
      example_two = Inr (db', 1, example_start + 900001)" using example_heartbeat by blast
  from program_step.heartbeat [OF this]
  have r: "run_from example_sha (\<lambda>_. None) code_unit_compare example_two db'" by (simp add: run_from_def r_into_rtranclp)
  have ok: "db_ok example_two" by code_simp
  obtain b where b: "b \<in> set (d_batches example_two)" "b_status b \<noteq> BatchDraft" "b_id b = ''B''"
    "b_plannedTaskCount b = 2"
    by (auto simp: example_two_def example_defs)
  from frozen_manifest_final [OF ok r b(1, 2)] b(3, 4) r show ?thesis
    by (auto simp: batch_identity_def frozen_fields_def)
qed

subsection \<open>Fencing\<close>

lemma filter_singleton:
  assumes "distinct xs" and "x \<in> set xs" and "p x" and "\<forall>y \<in> set xs. p y \<longrightarrow> y = x"
  shows "filter p xs = [x]"
proof -
  have "filter p xs = filter (\<lambda>y. y = x) xs"
    using assms(3, 4) by (metis (mono_tags, lifting) filter_cong)
  also have "\<dots> = [x]" using assms(1, 2) by (induction xs) (auto simp: filter_empty_conv)
  finally show ?thesis .
qed

text \<open>What an operation relies on when it acts only on the task whose lease the claim still holds.\<close>

locale lease_gate =
  fixes gate :: "'claim \<Rightarrow> int \<Rightarrow> error + (delivery_task \<Rightarrow> bool)"
    and task_of :: "'claim \<Rightarrow> string"
    and generation_of :: "'claim \<Rightarrow> int"
  assumes gate_holds: "gate c now = Inr held \<Longrightarrow> held t \<Longrightarrow>
    t_id t = task_of c \<and> t_status t = TaskClaimed \<and> t_leaseGeneration t = generation_of c \<and> live_lease t now"
begin

lemma superseded:
  assumes "db_ok db" and "t \<in> set (d_tasks db)" and "t_id t = task_of c"
    and "t_leaseGeneration t \<noteq> generation_of c \<or> t_status t \<noteq> TaskClaimed" and "gate c now = Inr held"
  shows "find held (d_tasks db) = None" "filter held (d_tasks db) = []"
proof -
  have "\<not> held u" if "u \<in> set (d_tasks db)" for u
    using gate_holds [OF assms(5)] same_id_same_task [OF assms(1) that assms(2)] assms(3, 4) by metis
  then show "find held (d_tasks db) = None" "filter held (d_tasks db) = []"
    by (simp_all add: find_None_iff filter_empty_conv)
qed

lemma superseded_update:
  assumes "db_ok db" and "t \<in> set (d_tasks db)" and "t_id t = task_of c"
    and "t_leaseGeneration t \<noteq> generation_of c \<or> t_status t \<noteq> TaskClaimed" and "gate c now = Inr held"
    and "update_tasks db held f = Inr (db', out)"
  shows "out = []"
  using superseded(2) [OF assms(1-5)] update_tasks_InrD(2) [OF assms(6)] by simp

lemma held_unique:
  assumes "db_ok db" and "gate c now = Inr held" and "find held (d_tasks db) = Some t"
  shows "filter held (d_tasks db) = [t]"
proof -
  have t: "t \<in> set (d_tasks db)" "held t" using find_SomeD [OF assms(3)] by simp_all
  have "\<forall>u \<in> set (d_tasks db). held u \<longrightarrow> u = t"
    using gate_holds [OF assms(2)] t same_id_same_task [OF assms(1) _ t(1)] by metis
  with t show ?thesis
    using filter_singleton [of "d_tasks db" t held] db_okD(2) [OF assms(1)] by (metis distinct_map)
qed

end

interpretation delivery_lease: lease_gate "activeLeaseCondition sha" cl_taskId cl_leaseGeneration for sha
proof
  fix c now held t
  assume "activeLeaseCondition sha c now = Inr held" "held t"
  from activeLeaseCondition_holds [OF this]
  show "t_id t = cl_taskId c \<and> t_status t = TaskClaimed \<and> t_leaseGeneration t = cl_leaseGeneration c \<and>
    live_lease t now" .
qed

interpretation runner_lease: lease_gate "activeRunnerLease sha" rc_taskId rc_leaseGeneration for sha
proof
  fix c now held t
  assume "activeRunnerLease sha c now = Inr held" "held t"
  from activeRunnerLease_holds [OF this]
  show "t_id t = rc_taskId c \<and> t_status t = TaskClaimed \<and> t_leaseGeneration t = rc_leaseGeneration c \<and>
    live_lease t now" by simp
qed

end
