(* ===== verification/DeliveryResults.thy ===== *)
theory DeliveryResults
  imports Safety
begin

text \<open>What the operations of \<open>DeliveryBatches\<close> do when they succeed, and when they must not.\<close>

subsection \<open>An update of one row\<close>

lemma single_update:
  assumes ok: "db_ok db" and c: "c \<in> set (d_tasks db)" "p c" and p: "\<And>t. p t \<Longrightarrow> t_id t = t_id c"
    and u: "update_tasks db p f = Inr (db', out)"
  shows "out = [f c]" "d_tasks db' = map (\<lambda>t. if t = c then f c else t) (d_tasks db)"
    "d_batches db' = d_batches db" "task_update_allowed db c (f c)"
proof -
  have only: "\<forall>t \<in> set (d_tasks db). p t \<longrightarrow> t = c"
    using p same_id_same_task [OF ok _ c(1)] by blast
  have "filter p (d_tasks db) = [c]"
    using filter_singleton [of "d_tasks db" c p, OF _ c only] db_okD(2) [OF ok] by (metis distinct_map)
  then show "out = [f c]" using update_tasks_InrD(2) [OF u] by simp
  have "set_where p f (d_tasks db) = map (\<lambda>t. if t = c then f c else t) (d_tasks db)"
    unfolding set_where_def by (rule map_cong [OF refl]) (metis only c(2))
  then show "d_tasks db' = map (\<lambda>t. if t = c then f c else t) (d_tasks db)" "d_batches db' = d_batches db"
    by (simp_all add: update_tasks_InrD(1) [OF u])
  show "task_update_allowed db c (f c)" by (rule update_tasks_InrD(3) [OF u c])
qed

lemma held_update:
  assumes ok: "db_ok db" and g: "activeLeaseCondition sha claim now = Inr held"
    and u: "update_tasks db held f = Inr (db', t' # out)"
  obtains c where "c \<in> set (d_tasks db)" "held c" "t' = f c" "out = []"
    "d_tasks db' = map (\<lambda>t. if t = c then f c else t) (d_tasks db)" "d_batches db' = d_batches db"
    "task_update_allowed db c (f c)"
proof -
  have "filter held (d_tasks db) \<noteq> []" using update_tasks_InrD(2) [OF u] by auto
  then obtain c where c: "c \<in> set (d_tasks db)" "held c" by (auto simp: filter_empty_conv)
  have "t_id t = t_id c" if "held t" for t
    using activeLeaseCondition_holds [OF g] c(2) that by metis
  note one = single_update [OF ok c this u]
  show thesis
    by (rule that [OF c _ _ one(2, 3, 4)]) (use one(1) in simp_all)
qed

subsection \<open>Fencing of delivery claims\<close>

lemma newer_generation:
  assumes "db_ok db" and "run_from sha other lc db db'" and "t \<in> set (d_tasks db)"
    and "t_leaseGeneration t > g"
  obtains t' where "t' \<in> set (d_tasks db')" "t_id t' = t_id t" "t_leaseGeneration t' > g" "db_ok db'"
proof -
  have "evolves db db'" and ok: "db_ok db'" using run_from_ok [OF assms(2, 1)] by simp_all
  with assms(3) obtain t' where "t' \<in> set (d_tasks db')" "task_change t t'"
    by (auto simp: evolves_def task_evolves_def)
  with assms(4) ok that show thesis by (force simp: task_change_def)
qed

text \<open>
  C3: a superseded claim is fenced off for good: once a task's lease generation is above that of a
  claim, no heartbeat, release, completion, failure or check with that claim ever succeeds again.
\<close>

theorem superseded_claim_fenced:
  assumes "db_ok db" and "run_from sha other lc db db'"
    and "t \<in> set (d_tasks db)" and "t_id t = cl_taskId claim" and "t_leaseGeneration t > cl_leaseGeneration claim"
  shows "heartbeatDeliveryTask sha other checkedAt now claim d db' \<noteq> Inr r1 \<and>
    releaseDeliveryTask sha now claim reported db' \<noteq> Inr r2 \<and>
    completeDeliveryTaskSuccess sha now claim attempt db' \<noteq> Inr r3 \<and>
    failDeliveryTask sha now claim failedAttempt thrown db' \<noteq> Inr r4 \<and>
    assertActiveDeliveryClaim sha other checkedAt now claim db' \<noteq> Inr r5"
proof -
  obtain t' where t': "t' \<in> set (d_tasks db')" "t_id t' = cl_taskId claim"
    "t_leaseGeneration t' \<noteq> cl_leaseGeneration claim" and ok: "db_ok db'"
    using newer_generation [OF assms(1, 2, 3, 5)] assms(4) by (metis less_irrefl)
  have none: "activeLeaseCondition sha claim n = Inr held \<Longrightarrow> find held (d_tasks db') = None" for n held
    using delivery_lease.superseded(1) [OF ok t'(1, 2)] t'(3) by blast
  have upd: "activeLeaseCondition sha claim n = Inr held \<Longrightarrow> update_tasks db' held f \<noteq> Inr (db2, u # us)"
    for n held f db2 u us
    using delivery_lease.superseded_update [OF ok t'(1, 2)] t'(3) by blast
  show ?thesis
  proof (intro conjI notI)
    assume "heartbeatDeliveryTask sha other checkedAt now claim d db' = Inr r1"
    then show False using none by (auto simp: heartbeatDeliveryTask_def thrown_simps split: if_splits)
  next
    assume "releaseDeliveryTask sha now claim reported db' = Inr r2"
    then show False using none by (auto simp: releaseDeliveryTask_def thrown_simps)
  next
    assume "completeDeliveryTaskSuccess sha now claim attempt db' = Inr r3"
    then show False using upd
      by (auto simp: completeDeliveryTaskSuccess_def completeDeliveryTaskInTransaction_def thrown_simps)
  next
    assume "failDeliveryTask sha now claim failedAttempt thrown db' = Inr r4"
    then show False using upd
      by (auto simp: failDeliveryTask_def failDeliveryTaskInTransaction_def thrown_simps Let_def)
  next
    assume "assertActiveDeliveryClaim sha other checkedAt now claim db' = Inr r5"
    then show False using none
      by (auto simp: assertActiveDeliveryClaim_def assertActiveDeliveryClaimInTransaction_def thrown_simps
          split: if_splits)
  qed
qed

theorem superseded_claim_fenced_witness:
  "\<exists>db'. run_from example_sha (\<lambda>_. None) code_unit_compare example_two db' \<and>
     completeDeliveryTaskSuccess example_sha 0 (example_claim\<lparr>cl_leaseGeneration := 0\<rparr>) ''a'' db' \<noteq> Inr (db', example_claimed)"
proof -
  obtain db' where "heartbeatDeliveryTask example_sha (\<lambda>_. None) example_start (example_start + 1) example_claim None
      example_two = Inr (db', 1, example_start + 900001)" using example_heartbeat by blast
  from program_step.heartbeat [OF this]
  have r: "run_from example_sha (\<lambda>_. None) code_unit_compare example_two db'" by (simp add: run_from_def r_into_rtranclp)
  have "db_ok example_two" "example_claimed \<in> set (d_tasks example_two)"
    "t_id example_claimed = cl_taskId (example_claim\<lparr>cl_leaseGeneration := 0\<rparr>)"
    "t_leaseGeneration example_claimed > cl_leaseGeneration (example_claim\<lparr>cl_leaseGeneration := 0\<rparr>)"
    by code_simp+
  from superseded_claim_fenced [OF this(1) r this(2-4)] r show ?thesis by blast
qed

subsection \<open>Claiming\<close>

definition claimable :: "claim_next_input \<Rightarrow> int \<Rightarrow> (string \<Rightarrow> bool) \<Rightarrow> delivery_batch \<Rightarrow> delivery_task \<Rightarrow> bool" where
  "claimable input now locked b t \<longleftrightarrow>
     t_batchId t = b_id b \<and> claim_available (cn_queue input) now t \<and> \<not> locked (t_id t) \<and>
     (case cn_surfaceTargetKeys input of None \<Rightarrow> True | Some ks \<Rightarrow> List.member ks (pl_surfaceTargetKey t)) \<and>
     (case cn_evaluationRoles input of None \<Rightarrow> True | Some rs \<Rightarrow> List.member rs (np_evaluationRole t))"

lemma claim_from_batches_spec:
  assumes "claim_from_batches sha now locked token input claimedBy d el db = Inr (db', Some c)" and "db_ok db"
  obtains b e t t' where "(b, e) \<in> set el" "t \<in> set (d_tasks db)" "t' \<in> set (d_tasks db')"
    "claimable input now locked b t"
    "\<forall>u \<in> set (d_tasks db). claimable input now locked b u \<longrightarrow> (t_createdAt t, t_id t) \<le> (t_createdAt u, t_id u)"
    "t_id t' = t_id t" "t_status t' = TaskClaimed" "t_claimedBy t' = Some claimedBy"
    "t_leaseTokenHash t' = Some (sha token)" "t_leaseGeneration t' = t_leaseGeneration t + 1"
    "t_leaseExpiresAt t' = Some (min (now + d) e)" "ct_task c = redactDeliveryTask t'"
    "ct_leaseToken c = token" "ct_leaseGeneration c = t_leaseGeneration t'"
    "ct_leaseExpiresAt c = min (now + d) e"
    "\<forall>u \<in> set (d_tasks db). u \<noteq> t \<longrightarrow> u \<in> set (d_tasks db')"
  using assms
proof (induction sha now locked token input claimedBy d el db arbitrary: thesis rule: claim_from_batches.induct)
  case (2 sha now locked token input claimedBy d b e rest db)
  let ?p = "\<lambda>t. t_batchId t = b_id b \<and> claim_available (cn_queue input) now t \<and>
            (case cn_surfaceTargetKeys input of None \<Rightarrow> True | Some ks \<Rightarrow> List.member ks (pl_surfaceTargetKey t)) \<and>
            (case cn_evaluationRoles input of None \<Rightarrow> True | Some rs \<Rightarrow> List.member rs (np_evaluationRole t))"
  show ?case
  proof (cases "first_unlocked locked ?p db")
    case None
    with 2(4) have r: "claim_from_batches sha now locked token input claimedBy d rest db = Inr (db', Some c)" by simp
    show ?thesis
      by (rule 2(1) [OF None _ r 2(5)], rule 2(3)) (assumption | rule list.set_intros(2), assumption | simp)+
  next
    case (Some t)
    let ?f = "\<lambda>u. u\<lparr>t_status := TaskClaimed, t_claimedBy := Some claimedBy,
                 t_leaseTokenHash := Some (sha token), t_leaseGeneration := t_leaseGeneration t + 1,
                 t_leaseExpiresAt := Some (boundedLeaseExpiry now d e), t_claimCount := t_claimCount t + 1,
                 t_claimedAt := Some now,
                 t_automationStatus :=
                   (if cn_queue input = QueueNeedsHuman then Some AutoRunning else t_automationStatus u)\<rparr>"
    note first = first_unlocked_Some [OF Some]
    let ?q = "\<lambda>u. t_id u = t_id t \<and> t_status u = t_status t \<and> t_leaseGeneration u = t_leaseGeneration t \<and>
                 (t_status t = TaskClaimed \<longrightarrow> expired_lease u now)"
    obtain db1 out where h: "hashLeaseToken sha token = Inr (sha token)"
      and u: "update_tasks db ?q ?f = Inr (db1, out)"
      using 2(4) Some by (auto simp: thrown_simps Let_def hashLeaseToken_def split: if_splits)
    have "?q t" using first(2) by (auto simp: claim_available_def split: claim_queue.splits)
    note one = single_update [OF 2(5) first(1), of ?q, OF this _ u, simplified]
    have db': "d_tasks db' = d_tasks db1"
      and c: "c = \<lparr>ct_task = redactDeliveryTask (?f t), ct_leaseToken = token,
        ct_leaseGeneration = t_leaseGeneration t + 1, ct_leaseExpiresAt = boundedLeaseExpiry now d e\<rparr>"
      using 2(4) Some h u one(1)
      by (auto simp: thrown_simps Let_def split: if_splits dest!: update_batches_InrD(1))
    have tasks: "set (d_tasks db') = (\<lambda>u. if u = t then ?f t else u) ` set (d_tasks db)"
      using one(2) by (simp add: db')
    show ?thesis
    proof (rule 2(3))
      show "(b, e) \<in> set ((b, e) # rest)" by simp
      show "t \<in> set (d_tasks db)" by (rule first(1))
      show "?f t \<in> set (d_tasks db')" using first(1) by (force simp: tasks)
      show "claimable input now locked b t" using first(2, 3) by (simp add: claimable_def)
      show "\<forall>u \<in> set (d_tasks db). claimable input now locked b u \<longrightarrow>
          (t_createdAt t, t_id t) \<le> (t_createdAt u, t_id u)"
        using first(4) by (simp add: claimable_def)
      show "\<forall>u \<in> set (d_tasks db). u \<noteq> t \<longrightarrow> u \<in> set (d_tasks db')" by (force simp: tasks)
    qed (simp_all add: c boundedLeaseExpiry_def)
  qed
qed simp

lemma eligible_window:
  "eligible_batches other now named bs = Inr el \<Longrightarrow> (b, e) \<in> set el \<Longrightarrow>
   b \<in> set bs \<and> (\<exists>s. protocol_window other (b_protocol b) = Inr (s, e) \<and> s \<le> now \<and> now < e)"
  by (induction bs arbitrary: el) (auto simp: thrown_simps split: if_splits)

text \<open>
  C6: a claim hands out the earliest claimable, unlocked task of an open batch of the brand: the
  task becomes claimed by the caller under a fresh generation with the hash of the returned token,
  its lease lies in the future and never outlives the measurement window, and no other task changes.
\<close>

theorem claim_grants_bounded_lease:
  assumes "claimNextDeliveryTask sha other now locked token input db = Inr (db', Some c)" and "db_ok db"
  shows "\<exists>b \<in> set (d_batches db). \<exists>s e. \<exists>t \<in> set (d_tasks db). \<exists>t' \<in> set (d_tasks db').
    b_brandId b = cn_brandId input \<and> (b_status b = BatchFrozen \<or> b_status b = BatchInProgress) \<and>
    protocol_window other (b_protocol b) = Inr (s, e) \<and> s \<le> now \<and> now < ct_leaseExpiresAt c \<and>
    ct_leaseExpiresAt c \<le> e \<and> claimable input now locked b t \<and>
    (\<forall>u \<in> set (d_tasks db). claimable input now locked b u \<longrightarrow> (t_createdAt t, t_id t) \<le> (t_createdAt u, t_id u)) \<and>
    t_id t' = t_id t \<and> t_status t' = TaskClaimed \<and> t_claimedBy t' = Some (js_trim (cn_claimedBy input)) \<and>
    t_leaseTokenHash t' = Some (sha token) \<and> t_leaseGeneration t' = t_leaseGeneration t + 1 \<and>
    t_leaseExpiresAt t' = Some (ct_leaseExpiresAt c) \<and> ct_task c = redactDeliveryTask t' \<and>
    (\<forall>u \<in> set (d_tasks db). u \<noteq> t \<longrightarrow> u \<in> set (d_tasks db'))"
proof -
  let ?bs = "sort_key b_createdAt (filter (\<lambda>b.
           b_brandId b = cn_brandId input \<and> (b_status b = BatchFrozen \<or> b_status b = BatchInProgress) \<and>
           (cn_queue input = QueueNeedsHuman \<longrightarrow>
              b_executionMode b = ModeBrowserRunner \<and> b_automationStatus b = Some RunnerNeedsHuman) \<and>
           (truthy_text (cn_batchId input) \<longrightarrow> Some (b_id b) = cn_batchId input)) (d_batches db))"
  obtain d el where who: "requiredText (cn_claimedBy input) ''claimedBy'' 300 = Inr (js_trim (cn_claimedBy input))"
    and d: "validLeaseDuration (cn_leaseDurationMs input) = Inr d"
    and el: "eligible_batches other now (truthy_text (cn_batchId input)) ?bs = Inr el"
    and run: "claim_from_batches sha now locked token input (js_trim (cn_claimedBy input)) d el db = Inr (db', Some c)"
    using assms(1)
    by (auto simp: claimNextDeliveryTask_def thrown_simps Let_def requiredText_Inr split: if_splits)
  have "d > 0" using d by (auto simp: validLeaseDuration_def Let_def split: if_splits)
  from run assms(2) show ?thesis
  proof (rule claim_from_batches_spec)
    fix b e t t'
    assume spec: "(b, e) \<in> set el" "t \<in> set (d_tasks db)" "t' \<in> set (d_tasks db')"
      "claimable input now locked b t"
      "\<forall>u \<in> set (d_tasks db). claimable input now locked b u \<longrightarrow> (t_createdAt t, t_id t) \<le> (t_createdAt u, t_id u)"
      "t_id t' = t_id t" "t_status t' = TaskClaimed" "t_claimedBy t' = Some (js_trim (cn_claimedBy input))"
      "t_leaseTokenHash t' = Some (sha token)" "t_leaseGeneration t' = t_leaseGeneration t + 1"
      "t_leaseExpiresAt t' = Some (min (now + d) e)" "ct_task c = redactDeliveryTask t'"
      "ct_leaseExpiresAt c = min (now + d) e"
      "\<forall>u \<in> set (d_tasks db). u \<noteq> t \<longrightarrow> u \<in> set (d_tasks db')"
    from eligible_window [OF el spec(1)] obtain s where b: "b \<in> set ?bs"
      and w: "protocol_window other (b_protocol b) = Inr (s, e)" "s \<le> now" "now < e" by blast
    from b have b': "b \<in> set (d_batches db)" "b_brandId b = cn_brandId input"
      "b_status b = BatchFrozen \<or> b_status b = BatchInProgress" by simp_all
    have x: "now < ct_leaseExpiresAt c" "ct_leaseExpiresAt c \<le> e" "t_leaseExpiresAt t' = Some (ct_leaseExpiresAt c)"
      using \<open>d > 0\<close> w(3) spec(11, 13) by simp_all
    show ?thesis
      by (rule bexI [of _ b], rule exI [of _ s], rule exI [of _ e], rule bexI [of _ t], rule bexI [of _ t'],
          intro conjI) (fact spec b' w x)+
  qed
qed

definition example_manual_task :: delivery_task where
  "example_manual_task = example_queued\<lparr>t_automationStatus := None\<rparr>"

definition example_manual_batch :: delivery_batch where
  "example_manual_batch = example_batch\<lparr>b_executionMode := ModeManual, b_automationStatus := None,
     b_automationStartedAt := None, b_plannedTaskCount := 1, b_status := BatchFrozen, b_startedAt := None\<rparr>"

definition example_manual :: database where
  "example_manual = database_with example_manual_batch [example_manual_task]"

definition example_claim_input :: claim_next_input where
  "example_claim_input = \<lparr>cn_brandId = ''b'', cn_batchId = None, cn_claimedBy = '' ann '', cn_leaseDurationMs = None,
     cn_surfaceTargetKeys = None, cn_evaluationRoles = None, cn_queue = QueueAvailable\<rparr>"

theorem claim_grants_bounded_lease_witness:
  "\<exists>db' c. claimNextDeliveryTask example_sha (\<lambda>_. None) example_start (\<lambda>_. False) ''token'' example_claim_input
       example_manual = Inr (db', Some c) \<and> ct_leaseExpiresAt c = example_start + 900000 \<and>
     (\<exists>t' \<in> set (d_tasks db'). t_claimedBy t' = Some ''ann'' \<and> t_leaseGeneration t' = 1)"
proof -
  let ?op = "claimNextDeliveryTask example_sha (\<lambda>_. None) example_start (\<lambda>_. False) ''token'' example_claim_input
       example_manual"
  have "case ?op of Inl _ \<Rightarrow> False | Inr (_, None) \<Rightarrow> False
      | Inr (_, Some c) \<Rightarrow> ct_leaseExpiresAt c = example_start + 900000" by code_simp
  then obtain db' c where d: "?op = Inr (db', Some c)" "ct_leaseExpiresAt c = example_start + 900000"
    by (auto split: sum.splits option.splits)
  have ok: "db_ok example_manual" by code_simp
  have "js_trim (cn_claimedBy example_claim_input) = ''ann''" by code_simp
  moreover have "\<forall>t \<in> set (d_tasks example_manual). t_leaseGeneration t = 0" by code_simp
  ultimately show ?thesis using claim_grants_bounded_lease [OF d(1) ok] d by fastforce
qed

subsection \<open>Holding and resolving\<close>

text \<open>
  A heartbeat moves only the lease's expiry, to a time in the future that is at most the
  requested duration away and never after the window's end; every other task is untouched.
\<close>

theorem heartbeat_extends_lease:
  assumes "heartbeatDeliveryTask sha other checkedAt now claim d db = Inr (db', g, x)" and "db_ok db"
  shows "\<exists>t \<in> set (d_tasks db). \<exists>s e. t_id t = cl_taskId claim \<and> live_lease t now \<and>
    g = cl_leaseGeneration claim \<and> now < x \<and> x \<le> e \<and> x \<le> now + 3600000 \<and>
    (\<exists>b. batch_by_id db (t_batchId t) = Some b \<and> protocol_window other (b_protocol b) = Inr (s, e)) \<and>
    d_tasks db' = map (\<lambda>u. if u = t then t\<lparr>t_leaseExpiresAt := Some x\<rparr> else u) (d_tasks db)"
proof -
  obtain dd held t b s e held' out u where d: "validLeaseDuration d = Inr dd"
    and a: "activeLeaseCondition sha claim checkedAt = Inr held" "find held (d_tasks db) = Some t"
    and b: "batch_by_id db (t_batchId t) = Some b" "protocol_window other (b_protocol b) = Inr (s, e)" "now < e"
    and a': "activeLeaseCondition sha claim now = Inr held'"
    and u: "update_tasks db held' (\<lambda>t. t\<lparr>t_leaseExpiresAt := Some (boundedLeaseExpiry now dd e)\<rparr>) = Inr (db', u # out)"
    and r: "g = t_leaseGeneration u" "x = boundedLeaseExpiry now dd e"
    using assms(1) by (auto simp: heartbeatDeliveryTask_def thrown_simps not_le Let_def)
  have dd: "0 < dd" "dd \<le> 3600000" using d by (auto simp: validLeaseDuration_def Let_def split: if_splits)
  obtain c where c: "c \<in> set (d_tasks db)" "held' c" "u = c\<lparr>t_leaseExpiresAt := Some (boundedLeaseExpiry now dd e)\<rparr>"
    "d_tasks db' = map (\<lambda>t. if t = c then c\<lparr>t_leaseExpiresAt := Some (boundedLeaseExpiry now dd e)\<rparr> else t) (d_tasks db)"
    by (rule held_update [OF assms(2) a' u], rule that) assumption+
  note h = activeLeaseCondition_holds [OF a' c(2)]
  have "c = t"
    using h find_SomeD [OF a(2)] activeLeaseCondition_holds [OF a(1), of t] same_id_same_task [OF assms(2) c(1)]
    by metis
  have f: "t_id t = cl_taskId claim" "live_lease t now" "t \<in> set (d_tasks db)" using h c(1) \<open>c = t\<close> by simp_all
  have g: "g = cl_leaseGeneration claim" using h c(3) r(1) by simp
  have x: "now < x" "x \<le> e" "x \<le> now + 3600000" using dd b(3) by (simp_all add: r(2) boundedLeaseExpiry_def)
  have rows: "d_tasks db' = map (\<lambda>u. if u = t then t\<lparr>t_leaseExpiresAt := Some x\<rparr> else u) (d_tasks db)"
    using c(4) \<open>c = t\<close> r(2) by simp
  have w: "\<exists>b. batch_by_id db (t_batchId t) = Some b \<and> protocol_window other (b_protocol b) = Inr (s, e)"
    using b(1, 2) by blast
  show ?thesis
    by (rule bexI [of _ t], rule exI [of _ s], rule exI [of _ e], intro conjI) (fact f g x w rows)+
qed

theorem heartbeat_extends_lease_witness:
  "\<exists>db'. heartbeatDeliveryTask example_sha (\<lambda>_. None) example_start (example_start + 1) example_claim None example_two =
     Inr (db', 1, example_start + 900001) \<and>
     (\<exists>t \<in> set (d_tasks example_two). example_start + 1 < example_start + 900001 \<and> live_lease t (example_start + 1))"
proof -
  obtain db' where d: "heartbeatDeliveryTask example_sha (\<lambda>_. None) example_start (example_start + 1) example_claim None
      example_two = Inr (db', 1, example_start + 900001)" using example_heartbeat by blast
  have ok: "db_ok example_two" by code_simp
  from heartbeat_extends_lease [OF d ok] d show ?thesis by blast
qed

lemma unresolved_iff: "unresolved_status s \<longleftrightarrow> \<not> terminal_status s"
  by (cases s) (simp_all add: unresolved_status_def terminal_status_def)

lemma settle_tasks_same: "settleDeliveryBatch db i now = Inr db' \<Longrightarrow> d_tasks db' = d_tasks db"
  by (auto simp: settleDeliveryBatch_def thrown_simps split: if_splits dest!: update_batches_InrD(1))

lemma settled_batch:
  assumes "settleDeliveryBatch db i now = Inr db'" and "batch_by_id db i = Some b"
  shows "batch_by_id db' i = Some
    (if list_all (\<lambda>t. terminal_status (t_status t)) (batch_tasks db i)
     then (if b_status b = BatchInProgress
           then b\<lparr>b_status := BatchCompleted, b_completedAt := Some now,
             b_automationStatus := (if b_executionMode b = ModeBrowserRunner then Some RunnerSettled else b_automationStatus b),
             b_automationSettledAt := (if b_executionMode b = ModeBrowserRunner then Some now else b_automationSettledAt b)\<rparr>
           else b)
     else if b_executionMode b = ModeBrowserRunner
     then b\<lparr>b_automationStatus := Some (deriveBrowserRunnerBatchStatus (map t_automationStatus (batch_tasks db i)))\<rparr>
     else b)"
proof -
  have all: "list_ex (\<lambda>t. unresolved_status (t_status t)) ts = (\<not> list_all (\<lambda>t. terminal_status (t_status t)) ts)" for ts
    by (auto simp: list_ex_iff list_all_iff unresolved_iff)
  have b: "b_id b = i" using assms(2) batch_by_id_Some by blast
  show ?thesis
  proof (cases "list_all (\<lambda>t. terminal_status (t_status t)) (batch_tasks db i)")
    case True
    then obtain chg where u: "update_batches db (\<lambda>b. b_id b = i \<and> b_status b = BatchInProgress)
         (\<lambda>b. b\<lparr>b_status := BatchCompleted, b_completedAt := Some now,
            b_automationStatus :=
              (if b_executionMode b = ModeBrowserRunner then Some RunnerSettled else b_automationStatus b),
            b_automationSettledAt :=
              (if b_executionMode b = ModeBrowserRunner then Some now else b_automationSettledAt b)\<rparr>) = Inr (db', chg)"
      using assms by (auto simp: settleDeliveryBatch_def thrown_simps all)
    show ?thesis using True assms(2) b by (simp add: batch_by_id_update [OF u])
  next
    case False
    show ?thesis
    proof (cases "b_executionMode b = ModeBrowserRunner")
      case True
      then obtain chg where u: "update_batches db (\<lambda>b. b_id b = i)
               (\<lambda>b. b\<lparr>b_automationStatus :=
                  Some (deriveBrowserRunnerBatchStatus (map t_automationStatus (batch_tasks db i)))\<rparr>) = Inr (db', chg)"
        using assms False by (auto simp: settleDeliveryBatch_def thrown_simps all)
      show ?thesis using True False assms(2) b by (simp add: batch_by_id_update [OF u])
    qed (use assms False in \<open>auto simp: settleDeliveryBatch_def thrown_simps all\<close>)
  qed
qed

text \<open>
  Settling completes an open batch exactly when all its tasks are resolved, stamping a runner
  batch as settled; otherwise the batch stays open and a runner batch gets the state its tasks add up
  to. It never touches a task.
\<close>

theorem settle_completes_iff_resolved:
  assumes "settleDeliveryBatch db i now = Inr db'" and "batch_by_id db i = Some b"
    and "b_status b = BatchInProgress"
  shows "d_tasks db' = d_tasks db \<and>
    (\<exists>b'. batch_by_id db' i = Some b' \<and>
       (b_status b' = BatchCompleted \<longleftrightarrow> (\<forall>t \<in> set (batch_tasks db i). terminal_status (t_status t))) \<and>
       (b_status b' = BatchCompleted \<or> b_status b' = BatchInProgress) \<and>
       (b_executionMode b = ModeBrowserRunner \<longrightarrow>
          b_automationStatus b' = Some (if b_status b' = BatchCompleted then RunnerSettled
            else deriveBrowserRunnerBatchStatus (map t_automationStatus (batch_tasks db i)))))"
  using settled_batch [OF assms(1, 2)] settle_tasks_same [OF assms(1)] assms(3)
  by (simp add: list_all_iff)

theorem settle_completes_iff_resolved_witness:
  "\<exists>db' b'. settleDeliveryBatch (database_with (example_batch\<lparr>b_plannedTaskCount := 1\<rparr>) [example_failed]) ''B'' 5 =
       Inr db' \<and> batch_by_id db' ''B'' = Some b' \<and> b_status b' = BatchCompleted \<and>
       b_automationStatus b' = Some RunnerSettled"
proof -
  let ?db = "database_with (example_batch\<lparr>b_plannedTaskCount := 1\<rparr>) [example_failed]"
  let ?b = "example_batch\<lparr>b_plannedTaskCount := 1\<rparr>"
  have "case settleDeliveryBatch ?db ''B'' 5 of Inl _ \<Rightarrow> False | Inr _ \<Rightarrow> True" by code_simp
  then obtain db' where d: "settleDeliveryBatch ?db ''B'' 5 = Inr db'" by (auto split: sum.splits)
  have "batch_by_id ?db ''B'' = Some ?b" "b_status ?b = BatchInProgress"
    "\<forall>t \<in> set (batch_tasks ?db ''B''). terminal_status (t_status t)" "b_executionMode ?b = ModeBrowserRunner"
    by code_simp+
  with settle_completes_iff_resolved [OF d this(1, 2)] d show ?thesis by auto
qed

lemma completion_effect:
  assumes "completeDeliveryTaskInTransaction sha now claim attemptId db = Inr (db', r)" and "db_ok db"
  shows "\<exists>t \<in> set (d_tasks db). \<exists>t' \<in> set (d_tasks db'). \<exists>a.
    t_id t = cl_taskId claim \<and> t_status t = TaskClaimed \<and> live_lease t now \<and>
    attempt_by_id db attemptId = Some a \<and> oa_status a = ObsSucceeded \<and> attempt_matches a t \<and>
    t_id t' = t_id t \<and> t_status t' = TaskSucceeded \<and> t_observationAttemptId t' = Some attemptId \<and>
    t_leaseTokenHash t' = None \<and> t_leaseExpiresAt t' = None \<and> t_succeededAt t' = Some now \<and>
    (\<forall>u \<in> set (d_tasks db). u \<noteq> t \<longrightarrow> u \<in> set (d_tasks db')) \<and> r = t'"
proof -
  let ?f = "\<lambda>t. (clear_lease (automation_to AutoCompleted t))
            \<lparr>t_status := TaskSucceeded, t_observationAttemptId := Some attemptId,
             t_succeededAt := Some now, t_lastErrorClass := None, t_lastErrorCode := None,
             t_lastErrorMessage := None, t_needsHumanCode := None, t_needsHumanReason := None\<rparr>"
  obtain held db1 u out where
    m: "assertAttemptMatchesTask db (cl_taskId claim) attemptId ObsSucceeded = Inr ()"
    and g: "activeLeaseCondition sha claim now = Inr held"
    and u: "update_tasks db held ?f = Inr (db1, u # out)"
    and s: "settleDeliveryBatch db1 (t_batchId u) now = Inr db'" and r: "r = redactDeliveryTask u"
    using assms(1)
    by (auto simp: completeDeliveryTaskInTransaction_def thrown_simps)
  obtain c where c: "c \<in> set (d_tasks db)" "held c" "u = ?f c"
    "d_tasks db1 = map (\<lambda>t. if t = c then ?f c else t) (d_tasks db)"
    by (rule held_update [OF assms(2) g u], rule that) assumption+
  note h = activeLeaseCondition_holds [OF g c(2)]
  have "task_by_id db (cl_taskId claim) = Some c" using task_by_id_member [OF assms(2) c(1)] h by simp
  with m obtain a where a: "attempt_by_id db attemptId = Some a" "oa_status a = ObsSucceeded" "attempt_matches a c"
    by (auto simp: assertAttemptMatchesTask_def split: option.splits if_splits)
  have tasks: "d_tasks db' = map (\<lambda>t. if t = c then ?f c else t) (d_tasks db)"
    using settle_tasks_same [OF s] c(4) by simp
  have "?f c \<in> set (d_tasks db')" using c(1) by (force simp: tasks)
  moreover have "\<forall>u \<in> set (d_tasks db). u \<noteq> c \<longrightarrow> u \<in> set (d_tasks db')" by (force simp: tasks)
  moreover have "r = ?f c" by (simp add: r c(3) redactDeliveryTask_def clear_lease_def)
  ultimately show ?thesis
    using h a c(1)
    by (intro bexI [of _ c] bexI [of _ "?f c"] exI [of _ a]) (simp_all add: row_edits)
qed


definition example_attempt :: observation_attempt where
  "example_attempt = \<lparr>oa_id = ''A'', oa_brandId = ''b'', oa_scopeId = ''s'', oa_promptId = ''c'', oa_promptText = ''which'',
     oa_surfaceTargetKey = ''kimi.consumer_web'', oa_captureRouteKey = ''browser_extension.kimi'',
     oa_sampleIndex = 1, oa_status = ObsSucceeded\<rparr>"

definition example_observed :: database where
  "example_observed = example_two\<lparr>d_attempts := [example_attempt]\<rparr>"


end
