(* ===== verification/BatchResults.thy ===== *)
theory BatchResults
  imports DeliveryResults
begin

text \<open>What drafting, freezing and cancelling a batch achieve, and that they can be repeated.\<close>

subsection \<open>Drafting\<close>

text \<open>
  Drafting a batch is idempotent: the same request, repeated with any identifier and at any
  time, answers the batch the first call created and creates nothing.
\<close>

theorem draft_idempotent:
  assumes "createDraftDeliveryBatch other newId now input db = Inr (db', b)"
  shows "createDraftDeliveryBatch other newId' later input db' = Inr (db', b) \<and>
    b \<in> set (d_batches db') \<and> b_brandId b = cb_brandId input \<and> b_idempotencyKey b = js_trim (cb_idempotencyKey input)"
proof -
  let ?key = "\<lambda>b. b_brandId b = cb_brandId input \<and> b_idempotencyKey b = js_trim (cb_idempotencyKey input)"
  let ?mode = "case cb_executionMode input of None \<Rightarrow> ModeManual | Some m \<Rightarrow> m"
  obtain name protocol createdBy where i: "requiredText (cb_idempotencyKey input) ''idempotencyKey'' 300 =
        Inr (js_trim (cb_idempotencyKey input))"
      "requiredText (cb_name input) ''name'' 300 = Inr name" "normalizeDeliveryProtocol other (cb_protocol input) = Inr protocol"
      "optionalText (cb_createdBy input) ''createdBy'' 300 = Inr createdBy"
    using assms by (auto simp: createDraftDeliveryBatch_def Let_def bindE_Inr_iff requiredText_Inr)
  let ?row = "\<lambda>i c. \<lparr>b_id = i, b_brandId = cb_brandId input, b_scopeId = cb_scopeId input,
        b_idempotencyKey = js_trim (cb_idempotencyKey input), b_name = name, b_status = BatchDraft,
        b_executionMode = ?mode,
        b_automationStatus = (if ?mode = ModeBrowserRunner then Some RunnerNotStarted else None),
        b_automationStartedAt = None, b_automationSettledAt = None, b_plannedTaskCount = 0,
        b_protocol = protocol, b_manifestSnapshot = None, b_manifestHash = None,
        b_createdBy = createdBy, b_frozenBy = None, b_cancelledBy = None, b_frozenAt = None,
        b_startedAt = None, b_completedAt = None, b_cancelledAt = None, b_createdAt = c\<rparr>"
  let ?same = "\<lambda>b. b_scopeId b = cb_scopeId input \<and> b_name b = name \<and> b_executionMode b = ?mode \<and> b_protocol b = protocol"
  obtain r where r: "insert_batch db (?row newId now) = Inr (db', r)"
    and b: "case r of Some c \<Rightarrow> b = c | None \<Rightarrow> find ?key (d_batches db') = Some b \<and> ?same b"
    using assms i
    by (auto simp: createDraftDeliveryBatch_def Let_def thrown_simps split: option.splits if_splits)
  have found: "find ?key (d_batches db') = Some b \<and> ?same b"
  proof (cases r)
    case None
    with b show ?thesis by simp
  next
    case (Some c)
    with r b have "find ?key (d_batches db) = None" "d_batches db' = d_batches db @ [b]" "b = ?row newId now"
      by (auto simp: insert_batch_def find_None_iff list_ex_iff split: if_splits)
    then show ?thesis by (simp add: find_append)
  qed
  then have m: "b \<in> set (d_batches db')" "?key b" using find_SomeD [of ?key] by blast+
  have "insert_batch db' (?row newId' later) = Inr (db', None)"
    using m by (auto simp: insert_batch_def list_ex_iff)
  then have "createDraftDeliveryBatch other newId' later input db' = Inr (db', b)"
    using found i by (simp add: createDraftDeliveryBatch_def Let_def)
  with m show ?thesis by simp
qed

theorem draft_idempotent_witness:
  "\<exists>db b. createDraftDeliveryBatch (\<lambda>_. None) ''B'' 0 example_create example_world = Inr (db, b) \<and>
     createDraftDeliveryBatch (\<lambda>_. None) ''C'' 9 example_create db = Inr (db, b) \<and> b_id b = ''B''"
proof -
  let ?op = "createDraftDeliveryBatch (\<lambda>_. None) ''B'' 0 example_create example_world"
  have "case ?op of Inl _ \<Rightarrow> False | Inr (_, b) \<Rightarrow> b_id b = ''B''" by code_simp
  then obtain db b where d: "?op = Inr (db, b)" "b_id b = ''B''" by (auto split: sum.splits)
  with draft_idempotent [OF d(1)] show ?thesis by blast
qed

subsection \<open>Adding the tasks\<close>

text \<open>
  Adding the tasks of a batch is idempotent: the same list, sent again with any identifiers, is
  answered with the rows of the first call and adds nothing.
\<close>

theorem add_tasks_idempotent:
  assumes "addDeliveryTasks sha newIds now brandId batchId tasks db = Inr (db', added)"
  shows "addDeliveryTasks sha newIds' later brandId batchId tasks db' = Inr (db', added)"
proof (cases "tasks = []")
  case False
  obtain batch plans where b: "find_batch db brandId batchId = Some batch" "b_status batch = BatchDraft"
    and plans: "mapE (plan_from_input db sha batch) tasks = Inr plans" "distinct (map snd plans)"
    using assms False by (auto simp: addDeliveryTasks_def thrown_simps Let_def split: if_splits)
  let ?new = "map (\<lambda>(i, p). new_task_row batch (newIds i) now p) (zip [0..<length plans] plans)"
  show ?thesis
  proof (cases "batch_tasks db (b_id batch) = []")
    case fresh: True
    obtain out ts where ins: "insert_tasks db ?new = Inr (db', out)"
      and ts: "mapE (\<lambda>k. requireSome (PlainError ''Failed to resolve a delivery task after insertion'')
            (find (\<lambda>t. t_slotKey t = k) out)) (map snd plans) = Inr ts" "added = map redactDeliveryTask ts"
      using assms False b plans fresh by (auto simp: addDeliveryTasks_def thrown_simps Let_def)
    have db': "db' = db\<lparr>d_tasks := d_tasks db @ ?new\<rparr>" "out = ?new"
      using ins by (auto simp: insert_tasks_def split: if_splits)
    have batch': "find_batch db' brandId batchId = Some batch" "plan_from_input db' = plan_from_input db"
      using b(1) by (simp_all add: db' find_batch_def plan_from_input_def fun_eq_iff)
    have row: "t_batchId (new_task_row batch i c p) = b_id batch" "t_slotKey (new_task_row batch i c p) = snd p" for i c p
      by (simp_all add: new_task_row_def normalized_task_plan.defs delivery_task.defs)
    have mine: "batch_tasks db' (b_id batch) = ?new"
      using fresh by (auto simp: batch_tasks_def db'(1) row intro!: filter_True)
    have slots: "map t_slotKey ?new = map snd plans"
      by (auto simp: row split_beta intro!: nth_equalityI)
    have "plans \<noteq> []" using plans(1) False by (cases tasks) (auto simp: thrown_simps)
    then have "?new \<noteq> []" "length ?new = length plans" by simp_all
    moreover have "list_ex (\<lambda>t. t_slotKey t = s) ?new" if "s \<in> set (map snd plans)" for s
      using that unfolding slots [symmetric] list_ex_iff set_map by blast
    ultimately have "addDeliveryTasks sha newIds' later brandId batchId tasks db' = Inr (db', added)"
      using False b(2) plans batch' ts mine db'(2)
      by (auto simp: addDeliveryTasks_def Let_def list_ex_iff)
    then show ?thesis .
  next
    case False': False
    with assms False b plans show ?thesis
      by (auto simp: addDeliveryTasks_def thrown_simps Let_def split: if_splits)
  qed
qed (use assms in \<open>simp add: addDeliveryTasks_def\<close>)

definition example_plan_input :: delivery_task_plan_input where
  "example_plan_input = \<lparr>ti_promptId = ''p'', ti_expectedPromptText = Some ''which'', ti_surfaceTargetKey = ''kimi.consumer_web'',
     ti_captureRouteKey = ''browser_extension.kimi'', ti_sampleIndex = 1, ti_sessionRequirement = SessionNone,
     ti_searchRequirement = SearchRequired, ti_evaluationRole = None\<rparr>"

definition example_draft :: database where
  "example_draft = example_world\<lparr>d_batches := [example_batch\<lparr>b_status := BatchDraft, b_automationStatus := Some RunnerNotStarted,
     b_automationStartedAt := None, b_plannedTaskCount := 0, b_manifestSnapshot := None, b_manifestHash := None,
     b_frozenAt := None, b_startedAt := None\<rparr>]\<rparr>"

theorem add_tasks_idempotent_witness:
  "\<exists>db' added. addDeliveryTasks example_sha (\<lambda>_. ''T'') 0 ''b'' ''B'' [example_plan_input] example_draft = Inr (db', added) \<and>
     addDeliveryTasks example_sha (\<lambda>_. ''U'') 9 ''b'' ''B'' [example_plan_input] db' = Inr (db', added) \<and> length added = 1"
proof -
  let ?op = "addDeliveryTasks example_sha (\<lambda>_. ''T'') 0 ''b'' ''B'' [example_plan_input] example_draft"
  have "case ?op of Inl _ \<Rightarrow> False | Inr (_, added) \<Rightarrow> length added = 1" by code_simp
  then obtain db' added where d: "?op = Inr (db', added)" "length added = 1" by (auto split: sum.splits)
  with add_tasks_idempotent [OF d(1)] show ?thesis by blast
qed

subsection \<open>Freezing\<close>

lemma normalizeManifestTask_same: "normalizeManifestTask m = Inr m' \<Longrightarrow> m' = m"
  by (cases m) (auto simp: normalizeManifestTask_def normalizeDeliveryTaskPlan_def as_plan_def thrown_simps
      normalized_task_plan.defs manifest_task.defs task_plan.defs delivery_task_plan.defs Let_def split: if_splits)

lemma mapE_identity: "mapE f xs = Inr ys \<Longrightarrow> (\<And>x y. f x = Inr y \<Longrightarrow> y = x) \<Longrightarrow> ys = xs"
  by (induction xs arbitrary: ys) (auto simp: thrown_simps)

lemma snapshot_tasks:
  assumes "buildDeliveryManifestSnapshot other lc context tasks = Inr s"
  shows "mset (sn_tasks s) = mset tasks"
proof -
  obtain x where x: "mapE normalizeManifestTask tasks = Inr x" "mset (sn_tasks s) = mset x"
    using assms by (auto simp: buildDeliveryManifestSnapshot_def thrown_simps Let_def)
  with mapE_identity [OF x(1) normalizeManifestTask_same] show ?thesis by simp
qed

text \<open>
  C10: freezing a draft makes its manifest: the snapshot lists exactly the batch's tasks, the stored
  hash is the snapshot's, the planned count is their number, and every task becomes available at
  the moment of freezing, which lies inside the requested window.
\<close>

theorem freeze_makes_manifest:
  assumes "freezeDeliveryBatch sha other lc ts brandId batchId frozenBy window db = Inr (db', b)" and "db_ok db"
    and "find_batch db brandId batchId = Some draft" and "b_status draft = BatchDraft"
  shows "b \<in> set (d_batches db') \<and> b_status b = BatchFrozen \<and> batch_identity b = batch_identity draft \<and>
    b_frozenAt b = Some ts \<and>
    (\<exists>s h. b_manifestSnapshot b = Some s \<and> b_manifestHash b = Some h \<and> buildDeliveryManifestHash sha s = Inr h \<and>
       mset (sn_tasks s) = mset (map manifest_task_of (batch_tasks db batchId))) \<and>
    b_plannedTaskCount b = int (length (batch_tasks db batchId)) \<and> batch_tasks db batchId \<noteq> [] \<and>
    batch_tasks db' batchId =
      map (\<lambda>t. t\<lparr>t_status := TaskAvailable, t_availableAt := Some ts\<rparr>) (batch_tasks db batchId) \<and>
    (case window of None \<Rightarrow> True | Some (s, e) \<Rightarrow>
       \<exists>x y. date_parse other s = Some x \<and> date_parse other e = Some y \<and> x \<le> ts \<and> ts < y)"
proof -
  let ?tasks = "sort_key t_slotKey (batch_tasks db batchId)"
  have bid: "b_id draft = batchId" and draft: "draft \<in> set (d_batches db)" using find_batch_Some [OF assms(3)] by simp_all
  let ?f = "\<lambda>t. t\<lparr>t_status := TaskAvailable, t_availableAt := Some ts\<rparr>"
  let ?g = "\<lambda>s h fb b. b\<lparr>b_status := BatchFrozen, b_plannedTaskCount := int (length ?tasks),
            b_manifestSnapshot := Some s, b_manifestHash := Some h,
            b_frozenBy := (case fb of None \<Rightarrow> b_frozenBy b | Some _ \<Rightarrow> fb), b_frozenAt := Some ts\<rparr>"
  obtain c s h fb open_at db1 us out where tasks: "?tasks \<noteq> []" "\<not> list_ex (\<lambda>t. t_status t \<noteq> TaskPlanned) ?tasks"
    and s: "buildDeliveryManifestSnapshot other lc c (map manifest_task_of ?tasks) = Inr s"
    and h: "buildDeliveryManifestHash sha s = Inr h"
    and w: "(case window of None \<Rightarrow> Inr (\<lambda>_. True) | Some w \<Rightarrow> buildDeliveryBatchFreezeWindowCondition other w) = Inr open_at"
    and u: "update_batches db (\<lambda>b. b_id b = batchId \<and> b_status b = BatchDraft \<and> open_at ts) (?g s h fb) = Inr (db1, b # us)"
    and v: "update_tasks db1 (\<lambda>t. t_batchId t = batchId \<and> t_status t = TaskPlanned) ?f = Inr (db', out)"
    using assms(1, 3, 4) bid by (auto simp: freezeDeliveryBatch_def bindE_Inr_iff requireSome_Inr_iff if_Inl_iff
        case_list_Inr_iff Let_def split_beta)
  have "b \<in> set (map (?g s h fb) (filter (\<lambda>b. b_id b = batchId \<and> b_status b = BatchDraft \<and> open_at ts) (d_batches db)))"
    using update_batches_InrD(2) [OF u] by (metis list.set_intros(1))
  then obtain b0 where b0: "b0 \<in> set (d_batches db)" "b_id b0 = batchId" "open_at ts" "b = ?g s h fb b0" by auto
  then have "b0 = draft" using same_id_same_batch [OF assms(2) _ draft] bid by simp
  have rows: "d_tasks db1 = d_tasks db" "d_batches db' = d_batches db1"
    by (simp_all add: update_batches_InrD(1) [OF u] update_tasks_InrD(1) [OF v])
  have "b \<in> set (d_batches db')"
    using batch_table.image [OF u b0(1)] b0 assms(4) \<open>b0 = draft\<close> by (simp add: rows(2))
  moreover have "batch_tasks db' batchId = map ?f (batch_tasks db batchId)"
  proof -
    have "batch_tasks db' batchId = set_where (\<lambda>t. t_batchId t = batchId \<and> t_status t = TaskPlanned) ?f (batch_tasks db batchId)"
      by (simp add: batch_tasks_def rows(1) update_tasks_InrD(1) [OF v] batch_tasks_update)
    also have "\<dots> = map ?f (batch_tasks db batchId)"
      using tasks(2) by (auto simp: set_where_def batch_tasks_def list_ex_iff)
    finally show ?thesis .
  qed
  moreover have "mset (sn_tasks s) = mset (map manifest_task_of (batch_tasks db batchId))"
    using snapshot_tasks [OF s] by simp
  moreover have "case window of None \<Rightarrow> True | Some (s, e) \<Rightarrow>
       \<exists>x y. date_parse other s = Some x \<and> date_parse other e = Some y \<and> x \<le> ts \<and> ts < y"
    using w b0(3)
    by (auto simp: buildDeliveryBatchFreezeWindowCondition_def split: option.splits if_splits)
  ultimately show ?thesis
    using b0(4) \<open>b0 = draft\<close> h tasks(1) by (simp add: batch_identity_def) (metis sort_key_simps(1))
qed

definition example_planned :: database where
  "example_planned = example_draft
     \<lparr>d_brands := [mc_brand example_context\<lparr>br_id := ''b''\<rparr>],
      d_tasks := [(example_row CHR ''p'' TaskPlanned AutoQueued)\<lparr>t_automationAttemptCount := 0, t_claimedBy := None,
        t_claimedAt := None, t_claimCount := 0, t_leaseGeneration := 0, t_availableAt := None\<rparr>]\<rparr>"

theorem freeze_makes_manifest_witness:
  "\<exists>db' b s. freezeDeliveryBatch example_sha (\<lambda>_. None) code_unit_compare example_start ''b'' ''B'' None None
       example_planned = Inr (db', b) \<and> b_manifestSnapshot b = Some s \<and> mset (sn_tasks s) =
       mset (map manifest_task_of (batch_tasks example_planned ''B'')) \<and> b_plannedTaskCount b = 1"
proof -
  let ?op = "freezeDeliveryBatch example_sha (\<lambda>_. None) code_unit_compare example_start ''b'' ''B'' None None example_planned"
  have "case ?op of Inl _ \<Rightarrow> False | Inr _ \<Rightarrow> True" by code_simp
  then obtain db' b where d: "?op = Inr (db', b)" by (auto split: sum.splits)
  have "db_ok example_planned" by code_simp
  moreover have "find_batch example_planned ''b'' ''B'' = Some (hd (d_batches example_planned))"
    "b_status (hd (d_batches example_planned)) = BatchDraft" "length (batch_tasks example_planned ''B'') = 1"
    by code_simp+
  ultimately show ?thesis using freeze_makes_manifest [OF d] d by fastforce
qed

subsection \<open>Cancelling\<close>

lemma untouched_rows: "(\<And>x. p x \<Longrightarrow> \<not> q x \<and> \<not> q (f x)) \<Longrightarrow> filter q (set_where p f xs) = filter q xs"
  by (induction xs) (auto simp: set_where_def)

text \<open>
  C11: a cancellation resolves everything: the batch is closed, its unresolved tasks are cancelled at
  that moment without a lease, its resolved tasks and all other batches are as before; and a started
  runner batch can be cancelled only while none of its tasks was attempted.
\<close>

theorem cancel_resolves_everything:
  assumes "cancelDeliveryBatch now brandId batchId cancelledBy db = Inr (db', b)" and "db_ok db"
    and "find_batch db brandId batchId = Some old" and "b_status old \<noteq> BatchCancelled"
  shows "b \<in> set (d_batches db') \<and> b_status b = BatchCancelled \<and> batch_identity b = batch_identity old \<and>
    b_cancelledAt b = Some now \<and>
    batch_tasks db' batchId = map (\<lambda>t. if terminal_status (t_status t) then t
        else (clear_lease (automation_to AutoCompleted t))\<lparr>t_status := TaskCancelled, t_cancelledAt := Some now\<rparr>)
      (batch_tasks db batchId) \<and>
    (\<forall>t \<in> set (batch_tasks db' batchId). terminal_status (t_status t)) \<and>
    filter (\<lambda>t. t_batchId t \<noteq> batchId) (d_tasks db') = filter (\<lambda>t. t_batchId t \<noteq> batchId) (d_tasks db) \<and>
    filter (\<lambda>c. b_id c \<noteq> batchId) (d_batches db') = filter (\<lambda>c. b_id c \<noteq> batchId) (d_batches db) \<and>
    (b_executionMode old = ModeBrowserRunner \<longrightarrow> b_automationStatus b = Some RunnerSettled \<and>
       (b_automationStartedAt old \<noteq> None \<longrightarrow>
          (\<forall>t \<in> set (batch_tasks db batchId). t_status t = TaskAvailable \<and> t_automationAttemptCount t = 0 \<and>
             t_submitIntentAt t = None)))"
proof -
  let ?f = "\<lambda>t. (clear_lease (automation_to AutoCompleted t))\<lparr>t_status := TaskCancelled, t_cancelledAt := Some now\<rparr>"
  let ?p = "\<lambda>t. t_batchId t = batchId \<and> unresolved_status (t_status t)"
  let ?g = "\<lambda>c b. b\<lparr>b_status := BatchCancelled,
            b_automationStatus :=
              (if b_executionMode old = ModeBrowserRunner then Some RunnerSettled else b_automationStatus old),
            b_automationSettledAt :=
              (if b_executionMode old = ModeBrowserRunner then Some now else b_automationSettledAt old),
            b_cancelledAt := Some now,
            b_cancelledBy := (case c of None \<Rightarrow> b_cancelledBy b | Some _ \<Rightarrow> c)\<rparr>"
  have bid: "b_id old = batchId" and old: "old \<in> set (d_batches db)" using find_batch_Some [OF assms(3)] by simp_all
  obtain db1 out c us where u: "update_tasks db ?p ?f = Inr (db1, out)"
    and v: "update_batches db1 (\<lambda>b. b_id b = batchId) (?g c) = Inr (db', b # us)"
    and can: "b_executionMode old = ModeBrowserRunner \<and> b_automationStartedAt old \<noteq> None \<longrightarrow>
      canCancelBrowserRunnerAfterStart (batch_tasks db batchId)"
    using assms(1, 3, 4) bid
    by (auto simp: cancelDeliveryBatch_def bindE_Inr_iff requireSome_Inr_iff if_Inl_iff case_list_Inr_iff split_beta)
  have rows: "d_batches db1 = d_batches db" "d_tasks db' = set_where ?p ?f (d_tasks db)"
    "d_batches db' = set_where (\<lambda>b. b_id b = batchId) (?g c) (d_batches db)"
    by (simp_all add: update_tasks_InrD(1) [OF u] update_batches_InrD(1) [OF v])
  have "b \<in> set (map (?g c) (filter (\<lambda>b. b_id b = batchId) (d_batches db)))"
    using update_batches_InrD(2) [OF v] rows(1) by (metis list.set_intros(1))
  then obtain b0 where b0: "b0 \<in> set (d_batches db)" "b_id b0 = batchId" "b = ?g c b0" by auto
  then have "b0 = old" using same_id_same_batch [OF assms(2) _ old] bid by simp
  with b0(3) have b: "b = ?g c old" by (simp only:)
  have "b \<in> set (d_batches db')" using old bid by (auto simp: rows(3) b set_where_def)
  moreover have mine: "batch_tasks db' batchId = map (\<lambda>t. if terminal_status (t_status t) then t else ?f t) (batch_tasks db batchId)"
  proof -
    have "batch_tasks db' batchId = set_where ?p ?f (batch_tasks db batchId)"
      unfolding batch_tasks_def rows(2) by (rule batch_tasks_update) (simp add: row_edits)
    then show ?thesis by (auto simp: set_where_def batch_tasks_def unresolved_iff)
  qed
  moreover have "\<forall>t \<in> set (batch_tasks db' batchId). terminal_status (t_status t)"
    unfolding mine by (auto simp: terminal_status_def)
  moreover have "filter (\<lambda>t. t_batchId t \<noteq> batchId) (d_tasks db') = filter (\<lambda>t. t_batchId t \<noteq> batchId) (d_tasks db)"
    unfolding rows(2) by (rule untouched_rows) (simp add: row_edits)
  moreover have "filter (\<lambda>c. b_id c \<noteq> batchId) (d_batches db') = filter (\<lambda>c. b_id c \<noteq> batchId) (d_batches db)"
    unfolding rows(3) by (rule untouched_rows) simp
  moreover have "b_executionMode old = ModeBrowserRunner \<and> b_automationStartedAt old \<noteq> None \<longrightarrow>
      (\<forall>t \<in> set (batch_tasks db batchId). t_status t = TaskAvailable \<and> t_automationAttemptCount t = 0 \<and> t_submitIntentAt t = None)"
    using can by (auto simp: canCancelBrowserRunnerAfterStart_def list_all_iff)
  moreover have "b_status b = BatchCancelled" "batch_identity b = batch_identity old" "b_cancelledAt b = Some now"
    "b_executionMode old = ModeBrowserRunner \<longrightarrow> b_automationStatus b = Some RunnerSettled"
    by (simp_all add: b batch_identity_def)
  ultimately show ?thesis by blast
qed

theorem cancel_resolves_everything_witness:
  "\<exists>db' b. cancelDeliveryBatch 7 ''b'' ''B'' None example_manual = Inr (db', b) \<and>
     map t_status (batch_tasks db' ''B'') = [TaskCancelled] \<and> b_status b = BatchCancelled"
proof -
  let ?op = "cancelDeliveryBatch 7 ''b'' ''B'' None example_manual"
  have "case ?op of Inl _ \<Rightarrow> False | Inr _ \<Rightarrow> True" by code_simp
  then obtain db' b where d: "?op = Inr (db', b)" by (auto split: sum.splits)
  have ok: "db_ok example_manual" by code_simp
  have "find_batch example_manual ''b'' ''B'' = Some example_manual_batch"
    "b_status example_manual_batch \<noteq> BatchCancelled"
    "batch_tasks example_manual ''B'' = [example_manual_task]" "\<not> terminal_status (t_status example_manual_task)"
    by (simp_all add: example_manual_def example_manual_batch_def example_manual_task_def example_defs
        find_batch_def batch_tasks_def delivery_task.defs terminal_status_def)
  note r = cancel_resolves_everything [OF d ok this(1, 2)] and this(3, 4)
  then have "map t_status (batch_tasks db' ''B'') = [TaskCancelled]" "b_status b = BatchCancelled"
    by simp_all
  with d show ?thesis by (intro exI conjI)
qed

end
