(* ===== verification/PortalService.thy ===== *)
theory PortalService
  imports Program
begin

text \<open>
  The portal's side of the browser-runner protocol (\<open>apps/web/src/server/browser-runner-service.ts\<close>,
  and the capacity check of \<open>browser-runner-snapshot-policy.ts\<close>): what a request of an authenticated
  runner may do, and how it is answered. Requests have passed the schemas of the routes. A response
  is built from the state the operation left; \<open>None\<close> stands for a request that never returns.
\<close>

subsection \<open>Principals, requests and errors\<close>

text \<open>An error with an HTTP status, or one thrown by the layers below or as a plain \<open>Error\<close>.\<close>

datatype portal_error = HttpError int string | ServiceError error

definition service :: "error + 'a \<Rightarrow> portal_error + 'a" where
  "service m = (case m of Inl e \<Rightarrow> Inl (ServiceError e) | Inr x \<Rightarrow> Inr x)"

definition thrown :: "string \<Rightarrow> portal_error" where
  "thrown message = ServiceError (PlainError message)"

text \<open>The three lists exist for an extension only.\<close>

record runner_principal =
  bp_kind :: principal_kind
  bp_id :: string
  bp_market :: string
  bp_locale :: string
  bp_timezone :: string
  bp_allowedBrandIds :: "string list"
  bp_supportedSurfaces :: "string list"
  bp_readySurfaces :: "string list"

record claim_request =
  cq_brandId :: string
  cq_batchId :: "string option"
  cq_adapterVersion :: "string option"
  cq_surfaceTargetKeys :: "string list option"

record lease_request =
  lq_brandId :: string
  lq_leaseToken :: string
  lq_leaseGeneration :: int
  lq_adapterVersion :: "string option"

record session_lease_request = lease_request +
  lq_runnerSessionId :: string

record failure_request = lease_request +
  lq_stage :: runner_stage
  lq_code :: string
  lq_reason :: string

definition RUNNER_LEASE_MS :: int where
  "RUNNER_LEASE_MS = 15 * 60 * 1000"

subsection \<open>Request schemas\<close>

text \<open>
  The schemas of the request bodies, with what zod documents of the checks they use: a strict object
  has no other keys, a trimmed text is read trimmed, \<open>int\<close> is a safe integer. \<open>None\<close> is a rejection,
  which the routes answer with status 400.
\<close>

definition schema_text :: "nat \<Rightarrow> json \<Rightarrow> string option" where
  "schema_text maximum v =
     (case v of
        JStr s \<Rightarrow> let t = js_trim s in if 1 \<le> length t \<and> length t \<le> maximum then Some t else None
      | _ \<Rightarrow> None)"

definition schema_token :: "json \<Rightarrow> string option" where
  "schema_token v = (case v of JStr s \<Rightarrow> if 32 \<le> length s \<and> length s \<le> 500 then Some s else None | _ \<Rightarrow> None)"

definition schema_positive :: "json \<Rightarrow> int option" where
  "schema_positive v = (case v of JNum n \<Rightarrow> if safe_int n \<and> 0 < n then Some n else None | _ \<Rightarrow> None)"

definition schema_stage :: "json \<Rightarrow> runner_stage option" where
  "schema_stage v =
     (if v = JStr ''pre_submit'' then Some PreSubmit else if v = JStr ''post_submit'' then Some PostSubmit else None)"

definition schema_guid :: "json \<Rightarrow> string option" where
  "schema_guid v =
     (case v of
        JStr s \<Rightarrow>
          if length s = 36 \<and> (\<forall>i \<in> {0..<36}. if i \<in> {8, 13, 18, 23} then s ! i = CHR ''-''
               else hex_char (s ! i) \<or> s ! i \<in> set ''ABCDEF'') then Some s else None
      | _ \<Rightarrow> None)"

definition schema_surfaces :: "json \<Rightarrow> string list option" where
  "schema_surfaces v =
     (case v of
        JArr vs \<Rightarrow>
          let texts = List.map_filter (\<lambda>v. case v of JStr s \<Rightarrow> if List.member BROWSER_EXTENSION_SURFACES s then Some s else None
                | _ \<Rightarrow> None) vs in
          if length texts = length vs \<and> 1 \<le> length vs \<and> length vs \<le> length BROWSER_EXTENSION_SURFACES \<and> distinct texts
          then Some texts else None
      | _ \<Rightarrow> None)"

text \<open>A required and an optional member of a strict object with the given keys.\<close>

definition strict_object :: "string list \<Rightarrow> json \<Rightarrow> (string \<times> json) list option" where
  "strict_object keys v =
     (case v of JObj fs \<Rightarrow> if list_all (\<lambda>(k, _). List.member keys k) fs then Some fs else None | _ \<Rightarrow> None)"

definition required :: "(string \<times> json) list \<Rightarrow> string \<Rightarrow> (json \<Rightarrow> 'a option) \<Rightarrow> 'a option" where
  "required fs key check = Option.bind (map_of fs key) check"

definition optional :: "(string \<times> json) list \<Rightarrow> string \<Rightarrow> (json \<Rightarrow> 'a option) \<Rightarrow> 'a option option" where
  "optional fs key check = (case map_of fs key of None \<Rightarrow> Some None | Some v \<Rightarrow> map_option Some (check v))"

definition browserRunnerClaimSchema :: "json \<Rightarrow> claim_request option" where
  "browserRunnerClaimSchema body =
     Option.bind (strict_object [''brandId'', ''batchId'', ''adapterVersion'', ''surfaceTargetKeys''] body) (\<lambda>fs.
     Option.bind (required fs ''brandId'' (schema_text 300)) (\<lambda>brandId.
     Option.bind (optional fs ''batchId'' schema_guid) (\<lambda>batchId.
     Option.bind (optional fs ''adapterVersion'' (schema_text 100)) (\<lambda>adapterVersion.
     Option.bind (optional fs ''surfaceTargetKeys'' schema_surfaces) (\<lambda>surfaces.
     Some \<lparr>cq_brandId = brandId, cq_batchId = batchId, cq_adapterVersion = adapterVersion,
       cq_surfaceTargetKeys = surfaces\<rparr>)))))"

definition LEASE_KEYS :: "string list" where
  "LEASE_KEYS = [''brandId'', ''leaseToken'', ''leaseGeneration'', ''adapterVersion'']"

definition schema_lease :: "(string \<times> json) list \<Rightarrow> lease_request option" where
  "schema_lease fs =
     Option.bind (required fs ''brandId'' (schema_text 300)) (\<lambda>brandId.
     Option.bind (required fs ''leaseToken'' schema_token) (\<lambda>leaseToken.
     Option.bind (required fs ''leaseGeneration'' schema_positive) (\<lambda>leaseGeneration.
     Option.bind (optional fs ''adapterVersion'' (schema_text 100)) (\<lambda>adapterVersion.
     Some \<lparr>lq_brandId = brandId, lq_leaseToken = leaseToken, lq_leaseGeneration = leaseGeneration,
       lq_adapterVersion = adapterVersion\<rparr>))))"

definition browserRunnerLeaseSchema :: "json \<Rightarrow> lease_request option" where
  "browserRunnerLeaseSchema body = Option.bind (strict_object LEASE_KEYS body) schema_lease"

definition browserRunnerSessionLeaseSchema :: "json \<Rightarrow> session_lease_request option" where
  "browserRunnerSessionLeaseSchema body =
     Option.bind (strict_object (LEASE_KEYS @ [''runnerSessionId'']) body) (\<lambda>fs.
     Option.bind (schema_lease fs) (\<lambda>lease.
     Option.bind (required fs ''runnerSessionId'' (schema_text 300)) (\<lambda>session.
     Some (lease_request.extend lease (session_lease_request.fields session)))))"

text \<open>The brand, the stage and the adapter version of a resume request.\<close>

definition browserRunnerResumeSchema :: "json \<Rightarrow> (string \<times> runner_stage option \<times> string option) option" where
  "browserRunnerResumeSchema body =
     Option.bind (strict_object [''brandId'', ''stage'', ''adapterVersion''] body) (\<lambda>fs.
     Option.bind (required fs ''brandId'' (schema_text 300)) (\<lambda>brandId.
     Option.bind (optional fs ''stage'' schema_stage) (\<lambda>stage.
     Option.bind (optional fs ''adapterVersion'' (schema_text 100)) (\<lambda>adapterVersion.
     Some (brandId, stage, adapterVersion)))))"

definition browserRunnerReconcileSchema :: "json \<Rightarrow> string option" where
  "browserRunnerReconcileSchema body =
     Option.bind (strict_object [''brandId''] body) (\<lambda>fs. required fs ''brandId'' (schema_text 300))"

definition browserRunnerFailureSchema :: "json \<Rightarrow> failure_request option" where
  "browserRunnerFailureSchema body =
     Option.bind (strict_object (LEASE_KEYS @ [''stage'', ''code'', ''reason'']) body) (\<lambda>fs.
     Option.bind (schema_lease fs) (\<lambda>lease.
     Option.bind (required fs ''stage'' schema_stage) (\<lambda>stage.
     Option.bind (required fs ''code'' (schema_text 100)) (\<lambda>code.
     Option.bind (required fs ''reason'' (schema_text 1000)) (\<lambda>reason.
     Some (lease_request.extend lease (failure_request.fields stage code reason)))))))"

subsection \<open>Who may touch a task\<close>

definition assertPrincipalBrand :: "runner_principal \<Rightarrow> string \<Rightarrow> portal_error + unit" where
  "assertPrincipalBrand runner brandId =
     (if bp_kind runner = ExtensionPrincipal \<and> \<not> List.member (bp_allowedBrandIds runner) brandId
      then Inl (HttpError 403 ''Browser Runner device is not assigned to this brand'') else Inr ())"

definition isExtensionTargetPair :: "string \<Rightarrow> string \<Rightarrow> bool" where
  "isExtensionTargetPair surfaceTargetKey captureRouteKey \<longleftrightarrow>
     isBrowserExtensionSurface surfaceTargetKey \<and>
     browserExtensionCaptureRoute surfaceTargetKey = Inr captureRouteKey"

definition runnerClaimant :: "string \<Rightarrow> string" where
  "runnerClaimant runnerId = ''browser-runner:'' @ js_trim runnerId"

definition route_allowed :: "runner_principal \<Rightarrow> delivery_task \<Rightarrow> bool" where
  "route_allowed runner task \<longleftrightarrow>
     (if bp_kind runner = LegacyHost
      then pl_surfaceTargetKey task = ''doubao.consumer_web'' \<and> pl_captureRouteKey task = ''browser_runner.doubao''
      else List.member (bp_supportedSurfaces runner) (pl_surfaceTargetKey task) \<and>
        isExtensionTargetPair (pl_surfaceTargetKey task) (pl_captureRouteKey task))"

definition assertRunnerTask :: "string \<Rightarrow> string \<Rightarrow> runner_principal \<Rightarrow> database \<Rightarrow> portal_error + delivery_task" where
  "assertRunnerTask taskId brandId runner db =
     bindE (assertPrincipalBrand runner brandId) (\<lambda>_.
     bindE (requireSome (thrown ''Browser Runner task was not found'') (getDeliveryTask brandId taskId db)) (\<lambda>task.
     if \<not> route_allowed runner task \<or> t_claimedBy task \<noteq> Some (runnerClaimant (bp_id runner))
     then Inl (thrown ''Task is not claimed by this Browser Runner device'')
     else Inr task))"

text \<open>\<open>assertRunnerReconciliationTask\<close> has the same body.\<close>

definition assertRunnerReconciliationTask ::
  "string \<Rightarrow> string \<Rightarrow> runner_principal \<Rightarrow> database \<Rightarrow> portal_error + delivery_task" where
  "assertRunnerReconciliationTask taskId brandId runner db =
     bindE (assertPrincipalBrand runner brandId) (\<lambda>_.
     bindE (requireSome (thrown ''Browser Runner task was not found'') (getDeliveryTask brandId taskId db)) (\<lambda>task.
     if \<not> route_allowed runner task \<or> t_claimedBy task \<noteq> Some (runnerClaimant (bp_id runner))
     then Inl (thrown ''Task is not claimed by this Browser Runner device'')
     else Inr task))"

definition authorizeRunnerTaskOperation ::
  "string \<Rightarrow> string \<Rightarrow> runner_principal \<Rightarrow> extension_operation \<Rightarrow> database \<Rightarrow> portal_error + delivery_task" where
  "authorizeRunnerTaskOperation taskId brandId runner operation db =
     bindE (assertRunnerTask taskId brandId runner db) (\<lambda>task.
     if bp_kind runner \<noteq> ExtensionPrincipal then Inr task
     else
     (case browserExtensionTaskOperationDenial None (pl_surfaceTargetKey task) (bp_readySurfaces runner) operation of
        Some SurfaceNotReady \<Rightarrow> Inl (HttpError 409
          ''The task surface is not ready with a server-approved adapter on this Browser Runner device'')
      | Some AdapterVersionNotApproved \<Rightarrow> Inl (HttpError 409
          ''The operation adapter version is not the current server-approved version for this task surface'')
      | None \<Rightarrow> Inr task))"

definition authorizeRunnerEvidenceUpload ::
  "string \<Rightarrow> string \<Rightarrow> string option \<Rightarrow> string option \<Rightarrow> runner_principal \<Rightarrow> database \<Rightarrow> portal_error + delivery_task" where
  "authorizeRunnerEvidenceUpload taskId brandId runnerSessionId adapterVersion runner db =
     bindE (authorizeRunnerTaskOperation taskId brandId runner (OpEvidence adapterVersion) db) (\<lambda>task.
     if bp_kind runner \<noteq> ExtensionPrincipal then Inr task
     else if runnerSessionId = None \<and> adapterVersion = None then Inr task
     else if \<not> truthy_text runnerSessionId \<or> t_submitIntentAt task = None \<or> t_submitConfirmedAt task = None \<or>
        t_runnerSessionId task \<noteq> runnerSessionId
     then Inl (HttpError 409 ''Evidence upload must match the confirmed Browser Runner session'')
     else Inr task)"

definition browserRunnerLaunchUrl :: "string \<Rightarrow> error + string" where
  "browserRunnerLaunchUrl surfaceTargetKey =
     (if \<not> isBrowserExtensionSurface surfaceTargetKey
      then Inl (PlainError ''Browser Runner task has an unsupported launch surface'')
      else bindE (browserExtensionSurfaceDefinition surfaceTargetKey) (\<lambda>d. Inr (sd_launchUrl d)))"

subsection \<open>Snapshot storage\<close>

text \<open>
  The settings of the response snapshots and what \<open>statfs\<close> answers for a path: the blocks, those
  available and their size, or nothing when it throws. The comparison with the limit is the exact one.
\<close>

record snapshot_settings =
  ss_enabled :: "string option"
  ss_storageRoot :: "string option"
  ss_statfs :: "string \<Rightarrow> (int \<times> int \<times> int) option"

definition STOP_NEW_CLAIMS_USED_PERCENT :: int where
  "STOP_NEW_CLAIMS_USED_PERCENT = 80"

definition assertAbsoluteStorageRoot :: "string option \<Rightarrow> string + string" where
  "assertAbsoluteStorageRoot storageRoot =
     (case storageRoot of
        Some (CHR ''/'' # rest) \<Rightarrow> Inr (CHR ''/'' # rest)
      | _ \<Rightarrow> Inl ''Response snapshot storage root must be an absolute path when snapshot capture is enabled'')"

definition assertBrowserRunnerSnapshotClaimCapacity :: "snapshot_settings \<Rightarrow> string + rat option" where
  "assertBrowserRunnerSnapshotClaimCapacity settings =
     (if ss_enabled settings \<noteq> Some ''true'' then Inr None
      else
      bindE (assertAbsoluteStorageRoot (ss_storageRoot settings)) (\<lambda>storageRoot.
      case ss_statfs settings storageRoot of
        None \<Rightarrow> Inl ''Response snapshot storage capacity could not be measured''
      | Some (blocks, available, blockSize) \<Rightarrow>
          if blocks \<le> 0 \<or> available < 0 \<or> available > blocks \<or> blockSize \<le> 0
          then Inl ''Response snapshot storage capacity is invalid''
          else
          let usedPercent = (of_int (blocks - available) / of_int blocks) * 100 in
          if usedPercent \<ge> of_int STOP_NEW_CLAIMS_USED_PERCENT
          then Inl ''Response snapshot storage has reached the 80% capacity limit''
          else Inr (Some usedPercent)))"

subsection \<open>Claiming and resuming\<close>

record response_task =
  rt_id :: string
  rt_batchId :: string
  rt_brandId :: string
  rt_scopeId :: string
  rt_promptId :: string
  rt_promptText :: string
  rt_surfaceTargetKey :: string
  rt_captureRouteKey :: string
  rt_sampleIndex :: int
  rt_sessionRequirement :: delivery_session_requirement
  rt_searchRequirement :: delivery_search_requirement
  rt_evaluationRole :: delivery_evaluation_role
  rt_timezone :: string
  rt_market :: string
  rt_locale :: string
  rt_launchUrl :: string
  rt_minimumEvidenceArtifacts :: int
  rt_automationAttemptCount :: int

record claim_response =
  rs_task :: response_task
  rs_leaseToken :: string
  rs_leaseGeneration :: int
  rs_leaseExpiresAt :: string
  rs_postSubmitAssist :: bool
  rs_submitConfirmed :: bool
  rs_runnerSessionId :: "string option"

definition response_of ::
  "claimed_delivery_task \<Rightarrow> manifest_snapshot \<Rightarrow> string \<Rightarrow> bool \<Rightarrow> claim_response" where
  "response_of claim manifest launchUrl postSubmitAssist =
     (let task = ct_task claim; scope = mc_scope manifest in
      \<lparr>rs_task =
         \<lparr>rt_id = t_id task, rt_batchId = t_batchId task, rt_brandId = pl_brandId task, rt_scopeId = pl_scopeId task,
          rt_promptId = pl_promptId task, rt_promptText = pl_promptText task,
          rt_surfaceTargetKey = pl_surfaceTargetKey task, rt_captureRouteKey = pl_captureRouteKey task,
          rt_sampleIndex = pl_sampleIndex task, rt_sessionRequirement = pl_sessionRequirement task,
          rt_searchRequirement = pl_searchRequirement task, rt_evaluationRole = np_evaluationRole task,
          rt_timezone = ms_timezone scope, rt_market = ms_market scope, rt_locale = ms_locale scope,
          rt_launchUrl = launchUrl,
          rt_minimumEvidenceArtifacts = ev_minimumArtifacts (pr_evidence (mc_protocol manifest)),
          rt_automationAttemptCount = t_automationAttemptCount task\<rparr>,
       rs_leaseToken = ct_leaseToken claim, rs_leaseGeneration = ct_leaseGeneration claim,
       rs_leaseExpiresAt = to_iso (ct_leaseExpiresAt claim), rs_postSubmitAssist = postSubmitAssist,
       rs_submitConfirmed = (t_submitConfirmedAt task \<noteq> None), rs_runnerSessionId = t_runnerSessionId task\<rparr>)"

text \<open>
  A claim whose frozen scope is not the one the runner is registered for is failed at once, in a
  transaction of its own; \<open>failedAt\<close> and \<open>refreshedAt\<close> are its clock readings.
\<close>

definition buildRunnerClaimResponse ::
  "(string \<Rightarrow> string) \<Rightarrow> int \<Rightarrow> int \<Rightarrow> claimed_delivery_task \<Rightarrow> runner_principal \<Rightarrow> bool \<Rightarrow> database \<Rightarrow>
   database \<times> (portal_error + claim_response)" where
  "buildRunnerClaimResponse sha failedAt refreshedAt claim runner postSubmitAssist db =
     (let task = ct_task claim in
      case find (\<lambda>b. b_id b = t_batchId task \<and> b_brandId b = pl_brandId task) (d_batches db) of
        None \<Rightarrow> (db, Inl (thrown ''Browser Runner task has no frozen manifest''))
      | Some batch \<Rightarrow>
        (case b_manifestSnapshot batch of
           None \<Rightarrow> (db, Inl (thrown ''Browser Runner task has no frozen manifest''))
         | Some manifest \<Rightarrow>
             let scope = mc_scope manifest in
             if ms_market scope \<noteq> bp_market runner \<or> ms_locale scope \<noteq> bp_locale runner \<or>
                ms_timezone scope \<noteq> bp_timezone runner
             then
               (case recordBrowserRunnerFailure sha failedAt refreshedAt (pl_brandId task)
                    \<lparr>rc_taskId = t_id task, rc_runnerId = bp_id runner, rc_leaseToken = ct_leaseToken claim,
                     rc_leaseGeneration = ct_leaseGeneration claim\<rparr>
                    PreSubmit ''runner_localization_mismatch''
                    ''Frozen measurement scope does not match the server-bound CN runner registration'' db of
                  Inl e \<Rightarrow> (db, Inl (ServiceError e))
                | Inr (db', _) \<Rightarrow>
                    (db', Inl (thrown ''Browser Runner registration does not match the frozen measurement scope'')))
             else
               (case browserRunnerLaunchUrl (pl_surfaceTargetKey task) of
                  Inl e \<Rightarrow> (db, Inl (ServiceError e))
                | Inr launchUrl \<Rightarrow> (db, Inr (response_of claim manifest launchUrl postSubmitAssist)))))"

text \<open>The checks before a claim touches the database: the targets to claim from.\<close>

definition version_denied :: "runner_principal \<Rightarrow> claim_request \<Rightarrow> bool" where
  "version_denied runner input \<longleftrightarrow>
     bp_kind runner = ExtensionPrincipal \<and>
     (case cq_adapterVersion input of
        None \<Rightarrow> False
      | Some v \<Rightarrow>
          (case (case cq_surfaceTargetKeys input of None \<Rightarrow> bp_readySurfaces runner | Some s \<Rightarrow> s) of
             [requestedSurface] \<Rightarrow>
               requestedSurface = [] \<or>
               \<not> isCurrentBrowserExtensionAdapterVersionBindingSatisfied requestedSurface (Some v)
           | _ \<Rightarrow> True))"

definition not_ready :: "runner_principal \<Rightarrow> claim_request \<Rightarrow> bool" where
  "not_ready runner input \<longleftrightarrow>
     (let requested = (case cq_surfaceTargetKeys input of None \<Rightarrow> bp_supportedSurfaces runner | Some s \<Rightarrow> s) in
      list_ex (\<lambda>s. List.member (bp_supportedSurfaces runner) s) requested \<and>
      \<not> list_ex (\<lambda>s. List.member (bp_readySurfaces runner) s) requested)"

definition claim_targets :: "claim_request \<Rightarrow> runner_principal \<Rightarrow> portal_error + claim_target list" where
  "claim_targets input runner =
     bindE (assertPrincipalBrand runner (cq_brandId input)) (\<lambda>_.
     if version_denied runner input
     then Inl (HttpError 409 ''The running Browser Runner adapter is not approved for this claim'')
     else
     bindE (service (resolveBrowserRunnerClaimTargets (bp_kind runner) (cq_surfaceTargetKeys input)
         (if bp_kind runner = ExtensionPrincipal then Some (bp_readySurfaces runner) else None)))
       (\<lambda>captureTargets.
     if bp_kind runner = ExtensionPrincipal \<and> cq_adapterVersion input = None \<and>
        list_ex (\<lambda>(s, _). \<not> isCurrentBrowserExtensionAdapterVersionBindingSatisfied s None) captureTargets
     then Inl (HttpError 409 ''The running Browser Runner adapter is not approved for this claim'')
     else if captureTargets = [] \<and> bp_kind runner = ExtensionPrincipal \<and> not_ready runner input
     then Inl (HttpError 409 ''No requested Browser Runner surface is ready on this device; reload or update the extension and complete the surface health check'')
     else Inr captureTargets))"

definition claimRunnerTask ::
  "(string \<Rightarrow> string) \<Rightarrow> (string \<Rightarrow> int option) \<Rightarrow> (nat \<Rightarrow> int) \<Rightarrow> (nat \<Rightarrow> int) \<Rightarrow> int \<Rightarrow> (string \<Rightarrow> bool) \<Rightarrow>
   string \<Rightarrow> int \<Rightarrow> int \<Rightarrow> snapshot_settings \<Rightarrow> claim_request \<Rightarrow> runner_principal \<Rightarrow> database \<Rightarrow>
   database \<times> (portal_error + claim_response option) option" where
  "claimRunnerTask sha other expiryClock clock now locked leaseToken failedAt refreshedAt settings input runner db =
     (case claim_targets input runner of
        Inl e \<Rightarrow> (db, Some (Inl e))
      | Inr captureTargets \<Rightarrow>
          if captureTargets = [] then (db, Some (Inr None))
          else
          (case assertBrowserRunnerSnapshotClaimCapacity settings of
             Inl _ \<Rightarrow> (db, Some (Inl (HttpError 503
               ''Response snapshot storage is unavailable; Browser Runner queue is paused'')))
           | Inr _ \<Rightarrow>
               (case claimBrowserRunnerTask sha other expiryClock clock now locked leaseToken
                    \<lparr>ri_brandId = cq_brandId input, ri_batchId = cq_batchId input, ri_runnerId = bp_id runner,
                     ri_leaseDurationMs = Some RUNNER_LEASE_MS, ri_captureTargets = Some captureTargets\<rparr> db of
                  (db1, None) \<Rightarrow> (db1, None)
                | (db1, Some (Inl e)) \<Rightarrow> (db1, Some (Inl (ServiceError e)))
                | (db1, Some (Inr None)) \<Rightarrow> (db1, Some (Inr None))
                | (db1, Some (Inr (Some claim))) \<Rightarrow>
                    (case buildRunnerClaimResponse sha failedAt refreshedAt claim runner False db1 of
                       (db2, r) \<Rightarrow> (db2, Some (map_sum id Some r))))))"

text \<open>The stage of a resume request is not read.\<close>

definition resumeRunnerTask ::
  "(string \<Rightarrow> string) \<Rightarrow> (string \<Rightarrow> int option) \<Rightarrow> int \<Rightarrow> string \<Rightarrow> int \<Rightarrow> int \<Rightarrow> string \<Rightarrow> string \<Rightarrow> string option \<Rightarrow>
   runner_principal \<Rightarrow> database \<Rightarrow> database \<times> (portal_error + claim_response)" where
  "resumeRunnerTask sha other now leaseToken failedAt refreshedAt taskId brandId adapterVersion runner db =
     (case bindE (authorizeRunnerTaskOperation taskId brandId runner (OpResume adapterVersion) db) (\<lambda>_.
           service (resumeBrowserRunnerTask sha other now leaseToken brandId taskId (bp_id runner)
             (Some RUNNER_LEASE_MS) db)) of
        Inl e \<Rightarrow> (db, Inl e)
      | Inr (db1, claim, recoveryStage) \<Rightarrow>
          buildRunnerClaimResponse sha failedAt refreshedAt claim runner (recoveryStage = PostSubmit) db1)"

subsection \<open>Reconciling, leases and the submit boundary\<close>

record reconciliation_response =
  rr_state :: exact_reconciliation
  rr_taskId :: string
  rr_batchId :: string
  rr_brandId :: string
  rr_surfaceTargetKey :: string
  rr_promptText :: string
  rr_runnerSessionId :: "string option"

text \<open>The transaction has committed when the last check fails.\<close>

definition reconcileRunnerTask ::
  "int \<Rightarrow> int \<Rightarrow> int \<Rightarrow> string \<Rightarrow> string \<Rightarrow> runner_principal \<Rightarrow> database \<Rightarrow>
   database \<times> (portal_error + reconciliation_response)" where
  "reconcileRunnerTask now markedAt refreshedAt taskId brandId runner db =
     (case bindE (assertRunnerReconciliationTask taskId brandId runner db) (\<lambda>_.
           service (reconcileBrowserRunnerTask now markedAt refreshedAt brandId taskId (bp_id runner) db)) of
        Inl e \<Rightarrow> (db, Inl e)
      | Inr (db1, state, task) \<Rightarrow>
          if t_claimedBy task \<noteq> Some (runnerClaimant (bp_id runner))
          then (db1, Inl (thrown ''Task is not claimed by this Browser Runner device''))
          else (db1, Inr
            \<lparr>rr_state = state, rr_taskId = t_id task, rr_batchId = t_batchId task, rr_brandId = pl_brandId task,
             rr_surfaceTargetKey = pl_surfaceTargetKey task, rr_promptText = pl_promptText task,
             rr_runnerSessionId = t_runnerSessionId task\<rparr>))"

definition heartbeatRunnerTask ::
  "(string \<Rightarrow> string) \<Rightarrow> (string \<Rightarrow> int option) \<Rightarrow> int \<Rightarrow> int \<Rightarrow> string \<Rightarrow> 'a lease_request_scheme \<Rightarrow> runner_principal \<Rightarrow>
   database \<Rightarrow> portal_error + database \<times> (int \<times> int)" where
  "heartbeatRunnerTask sha other checkedAt now taskId input runner db =
     bindE (authorizeRunnerTaskOperation taskId (lq_brandId input) runner (OpHeartbeat (lq_adapterVersion input)) db)
       (\<lambda>_.
     service (heartbeatDeliveryTask sha other checkedAt now
       \<lparr>cl_taskId = taskId, cl_claimedBy = runnerClaimant (bp_id runner), cl_leaseToken = lq_leaseToken input,
        cl_leaseGeneration = lq_leaseGeneration input\<rparr> (Some RUNNER_LEASE_MS) db))"

definition runner_proof :: "string \<Rightarrow> 'a lease_request_scheme \<Rightarrow> runner_principal \<Rightarrow> runner_claim_proof" where
  "runner_proof taskId input runner =
     \<lparr>rc_taskId = taskId, rc_runnerId = bp_id runner, rc_leaseToken = lq_leaseToken input,
      rc_leaseGeneration = lq_leaseGeneration input\<rparr>"

definition recordRunnerSubmitIntent ::
  "(string \<Rightarrow> string) \<Rightarrow> int \<Rightarrow> string \<Rightarrow> session_lease_request \<Rightarrow> runner_principal \<Rightarrow> database \<Rightarrow>
   portal_error + database \<times> (string option \<times> int option)" where
  "recordRunnerSubmitIntent sha now taskId input runner db =
     bindE (authorizeRunnerTaskOperation taskId (lq_brandId input) runner (OpSubmitIntent (lq_adapterVersion input)) db)
       (\<lambda>_.
     service (markBrowserRunnerSubmitIntent sha now (runner_proof taskId input runner) (lq_runnerSessionId input) db))"

definition recordRunnerSubmitConfirmed ::
  "(string \<Rightarrow> string) \<Rightarrow> int \<Rightarrow> string \<Rightarrow> session_lease_request \<Rightarrow> runner_principal \<Rightarrow> database \<Rightarrow>
   portal_error + database \<times> (int option \<times> int option)" where
  "recordRunnerSubmitConfirmed sha now taskId input runner db =
     bindE (authorizeRunnerTaskOperation taskId (lq_brandId input) runner
         (OpSubmitConfirmed (lq_adapterVersion input)) db) (\<lambda>_.
     service (markBrowserRunnerSubmitConfirmed sha now (runner_proof taskId input runner) (lq_runnerSessionId input) db))"

definition failRunnerTask ::
  "(string \<Rightarrow> string) \<Rightarrow> int \<Rightarrow> int \<Rightarrow> string \<Rightarrow> failure_request \<Rightarrow> runner_principal \<Rightarrow> database \<Rightarrow>
   portal_error + database \<times> (delivery_task \<times> bool)" where
  "failRunnerTask sha now refreshedAt taskId input runner db =
     bindE (assertRunnerTask taskId (lq_brandId input) runner db) (\<lambda>_.
     service (recordBrowserRunnerFailure sha now refreshedAt (lq_brandId input) (runner_proof taskId input runner)
       (lq_stage input) (lq_code input) (lq_reason input) db))"

subsection \<open>The state of the queue\<close>

datatype queue_state = QueueSettled | QueueDrained | QueueWaiting

definition browserRunnerGlobalQueueState :: "bool \<Rightarrow> bool \<Rightarrow> queue_state" where
  "browserRunnerGlobalQueueState hasStartedQueuedOrRunningTask hasNeedsHumanTask =
     (if hasStartedQueuedOrRunningTask then QueueWaiting
      else if hasNeedsHumanTask then QueueDrained else QueueSettled)"

definition joined_task :: "database \<Rightarrow> (delivery_batch \<Rightarrow> delivery_task \<Rightarrow> bool) \<Rightarrow> bool" where
  "joined_task db p \<longleftrightarrow> list_ex (\<lambda>b. list_ex (\<lambda>t. t_batchId t = b_id b \<and> p b t) (d_tasks db)) (d_batches db)"

definition pending_task :: "string \<Rightarrow> delivery_batch \<Rightarrow> delivery_task \<Rightarrow> bool" where
  "pending_task brandId b t \<longleftrightarrow>
     b_brandId b = brandId \<and> b_executionMode b = ModeBrowserRunner \<and> b_status b = BatchInProgress \<and>
     b_automationStatus b = Some RunnerRunning \<and> b_automationStartedAt b \<noteq> None \<and>
     (t_status t = TaskAvailable \<or> t_status t = TaskClaimed) \<and>
     (t_automationStatus t = Some AutoQueued \<or> t_automationStatus t = Some AutoRunning)"

definition waiting_for_human :: "string \<Rightarrow> delivery_batch \<Rightarrow> delivery_task \<Rightarrow> bool" where
  "waiting_for_human brandId b t \<longleftrightarrow>
     b_brandId b = brandId \<and> b_executionMode b = ModeBrowserRunner \<and> b_status b = BatchInProgress \<and>
     b_automationStatus b = Some RunnerNeedsHuman \<and> t_automationStatus t = Some AutoNeedsHuman"

definition getRunnerQueueState ::
  "claim_request \<Rightarrow> runner_principal option \<Rightarrow> database \<Rightarrow> portal_error + queue_state" where
  "getRunnerQueueState input runner db =
     bindE (case runner of None \<Rightarrow> Inr () | Some p \<Rightarrow> assertPrincipalBrand p (cq_brandId input)) (\<lambda>_.
     if \<not> truthy_text (cq_batchId input) then
       (if joined_task db (pending_task (cq_brandId input)) then Inr QueueWaiting
        else Inr (browserRunnerGlobalQueueState False (joined_task db (waiting_for_human (cq_brandId input)))))
     else
     (case getDeliveryBatch (cq_brandId input) (the (cq_batchId input)) db of
        None \<Rightarrow> Inr QueueWaiting
      | Some (batch, _) \<Rightarrow>
          if b_executionMode batch \<noteq> ModeBrowserRunner then Inr QueueWaiting
          else if b_automationStatus batch = Some RunnerSettled \<or> b_status batch = BatchCompleted \<or>
             b_status batch = BatchCancelled
          then Inr QueueSettled
          else if b_automationStatus batch = Some RunnerNeedsHuman then Inr QueueDrained
          else Inr QueueWaiting))"

subsection \<open>The evidence of a completion\<close>

record evidence_artifact =
  ea_id :: string
  ea_kind :: artifact_kind
  ea_mediaType :: "string option"
  ea_byteSize :: "int option"
  ea_sha256 :: "string option"

record visual_reference =
  vr_artifactId :: string
  vr_sha256 :: string
  vr_bytes :: int

text \<open>The map of the artifacts by id: of two with one id the later counts.\<close>

definition artifact_by_id :: "evidence_artifact list \<Rightarrow> string \<Rightarrow> evidence_artifact option" where
  "artifact_by_id artifacts = map_of (rev (map (\<lambda>a. (ea_id a, a)) artifacts))"

text \<open>A staged JPEG with its size and hash, as a reference; \<open>media type\<close> of the reference is fixed.\<close>

definition jpeg_reference :: "evidence_artifact \<Rightarrow> visual_reference option" where
  "jpeg_reference a =
     (case (ea_byteSize a, ea_sha256 a) of
        (Some bytes, Some sha256) \<Rightarrow>
          if ea_mediaType a = Some ''image/jpeg'' then Some \<lparr>vr_artifactId = ea_id a, vr_sha256 = sha256, vr_bytes = bytes\<rparr>
          else None
      | _ \<Rightarrow> None)"

definition staged_jpeg :: "evidence_artifact \<Rightarrow> bool" where
  "staged_jpeg a \<longleftrightarrow> (case jpeg_reference a of None \<Rightarrow> False | Some r \<Rightarrow> hex64 (vr_sha256 r))"

definition media_types :: "evidence_artifact list \<Rightarrow> string list" where
  "media_types = map (\<lambda>a. case ea_mediaType a of None \<Rightarrow> [] | Some m \<Rightarrow> m)"

definition byte_sizes :: "evidence_artifact list \<Rightarrow> int list" where
  "byte_sizes = map (\<lambda>a. case ea_byteSize a of None \<Rightarrow> 0 | Some n \<Rightarrow> n)"

definition select_visual ::
  "evidence_artifact list \<Rightarrow> evidence_artifact list \<Rightarrow> string list \<Rightarrow> visual_evidence \<Rightarrow> error + visual_reference option" where
  "select_visual artifacts submitted evidenceArtifactIds visualEvidence =
     (if \<not> distinct evidenceArtifactIds \<or> length submitted \<noteq> length evidenceArtifactIds
      then Inl (PlainError ''Browser extension visual evidence contains missing or duplicate staged artifacts'')
      else
      bindE (assertBrowserRunnerVisualEvidenceProtocol visualEvidence evidenceArtifactIds (media_types submitted)
          (byte_sizes submitted)) (\<lambda>_.
      if list_ex (\<lambda>a. ea_kind a \<noteq> Screenshot \<or> \<not> staged_jpeg a) submitted
      then Inl (PlainError ''Browser extension visual evidence requires valid staged JPEG metadata'')
      else
      (case truthy_id (ve_primaryArtifactId visualEvidence) of
         [] \<Rightarrow> Inr None
       | primary # _ \<Rightarrow>
           bindE (requireSome (PlainError ''Browser extension visual evidence primary artifact is invalid'')
             (case artifact_by_id artifacts primary of None \<Rightarrow> None | Some a \<Rightarrow> jpeg_reference a)) (\<lambda>r. Inr (Some r)))))"

definition assertBrowserRunnerEvidenceSelection ::
  "string \<Rightarrow> evidence_artifact list \<Rightarrow> string list \<Rightarrow> string option \<Rightarrow> visual_evidence option \<Rightarrow>
   error + visual_reference option" where
  "assertBrowserRunnerEvidenceSelection captureRouteKey artifacts evidenceArtifactIds adapterVersion visualEvidence =
     (let submitted = List.map_filter (artifact_by_id artifacts) evidenceArtifactIds in
      if isBrowserExtensionCaptureRoute captureRouteKey then
        (case visualEvidence of
           Some v \<Rightarrow> select_visual artifacts submitted evidenceArtifactIds v
         | None \<Rightarrow>
             if length evidenceArtifactIds \<noteq> 1 \<or> length submitted \<noteq> 1
             then Inl (PlainError ''Browser extension completion requires exactly one staged page snapshot'')
             else
             bindE (assertExtensionEvidenceProtocol captureRouteKey adapterVersion (int (length evidenceArtifactIds))
                 (map (\<lambda>a. artifact_kind_text (ea_kind a)) submitted) (Some (media_types submitted))
                 (Some (byte_sizes submitted))) (\<lambda>_.
             let screenshot = hd submitted in
             if ea_kind screenshot \<noteq> Screenshot then Inr None
             else if \<not> staged_jpeg screenshot
             then Inl (PlainError ''Structured browser extension completion requires valid staged JPEG metadata'')
             else Inr (jpeg_reference screenshot)))
      else if captureRouteKey \<noteq> ''browser_runner.doubao'' \<or> length evidenceArtifactIds \<noteq> 2 \<or>
         \<not> distinct evidenceArtifactIds \<or> length submitted \<noteq> 2 \<or>
         length (filter (\<lambda>a. ea_kind a = Screenshot) submitted) \<noteq> 1 \<or>
         length (filter (\<lambda>a. ea_kind a = PageSnapshot) submitted) \<noteq> 1
      then Inl (PlainError ''Browser Runner completion requires exactly one staged screenshot and one staged page snapshot'')
      else Inr None)"

end
