(* ===== verification/ExtensionStorage.thy ===== *)
theory ExtensionStorage
  imports Surfaces Manifest JsDate "HOL-Library.AList"
begin

text \<open>
  The browser extension's durable storage (\<open>apps/browser-extension/src/storage.ts\<close> over
  \<open>chrome.storage.local\<close>, the types of \<open>contracts.ts\<close>, and \<open>surface-readiness.ts\<close>): the
  task journal's entries, how they are validated when they are written and again when they are
  read, the migration of the old single-key journal, and the paired device's configuration.

  The storage area is a list of keys with JSON values. A key that is set again keeps its place, a
  new key comes last, and the values come from outside the program, so every read validates them.
\<close>

subsection \<open>Journal entries\<close>

datatype task_journal_phase =
    PhaseClaimed | PhasePrepared | PhaseSubmitIntent | PhaseSubmitted | PhaseCollected | PhaseUploaded
  | PhaseNeedsHuman

definition phase_text :: "task_journal_phase \<Rightarrow> string" where
  "phase_text p =
     (case p of PhaseClaimed \<Rightarrow> ''claimed'' | PhasePrepared \<Rightarrow> ''prepared'' | PhaseSubmitIntent \<Rightarrow> ''submit_intent''
      | PhaseSubmitted \<Rightarrow> ''submitted'' | PhaseCollected \<Rightarrow> ''collected'' | PhaseUploaded \<Rightarrow> ''uploaded''
      | PhaseNeedsHuman \<Rightarrow> ''needs_human'')"

definition JOURNAL_PHASES :: "task_journal_phase list" where
  "JOURNAL_PHASES = [PhaseClaimed, PhasePrepared, PhaseSubmitIntent, PhaseSubmitted, PhaseCollected,
     PhaseUploaded, PhaseNeedsHuman]"

definition phase_of_text :: "string \<Rightarrow> task_journal_phase option" where
  "phase_of_text s = find (\<lambda>p. phase_text p = s) JOURNAL_PHASES"

definition POST_SUBMIT_JOURNAL_PHASES :: "task_journal_phase list" where
  "POST_SUBMIT_JOURNAL_PHASES = [PhaseSubmitIntent, PhaseSubmitted, PhaseCollected, PhaseUploaded]"

record task_journal_entry =
  j_taskId :: string
  j_batchId :: string
  j_brandId :: string
  j_phase :: task_journal_phase
  j_interruptedPhase :: "task_journal_phase option"
  j_surfaceTargetKey :: string
  j_tabId :: int
  j_runnerSessionId :: string
  j_promptSha256 :: string
  j_updatedAt :: string
  j_needsHumanFailureCode :: "string option"
  j_autoRecoveryAttemptCount :: "int option"
  j_autoRecoveryNextAt :: "string option"

definition hasPostSubmitBoundary :: "task_journal_entry \<Rightarrow> bool" where
  "hasPostSubmitBoundary entry =
     (case (if j_phase entry = PhaseNeedsHuman then j_interruptedPhase entry else Some (j_phase entry)) of
        None \<Rightarrow> False | Some p \<Rightarrow> p \<in> set POST_SUBMIT_JOURNAL_PHASES)"

subsection \<open>Validation\<close>

text \<open>A property of an object that is absent, or \<open>undefined\<close>, is \<open>None\<close>.\<close>

definition field :: "(string \<times> json) list \<Rightarrow> string \<Rightarrow> json option" where
  "field fs k = (case map_of fs k of None \<Rightarrow> None | Some v \<Rightarrow> if v = JUndef then None else Some v)"

definition storage_requiredText :: "json option \<Rightarrow> string \<Rightarrow> nat \<Rightarrow> error + string" where
  "storage_requiredText value name maximum =
     (case value of
        Some (JStr s) \<Rightarrow>
          (let normalized = js_trim s in
           if normalized = [] \<or> length normalized > maximum
           then Inl (PlainError (''Browser Runner '' @ name @ '' is invalid''))
           else Inr normalized)
      | _ \<Rightarrow> Inl (PlainError (''Browser Runner '' @ name @ '' is required'')))"

definition optional_value :: "(json \<Rightarrow> error + 'a) \<Rightarrow> json option \<Rightarrow> error + 'a option" where
  "optional_value parse value =
     (case value of None \<Rightarrow> Inr None | Some v \<Rightarrow> bindE (parse v) (\<lambda>x. Inr (Some x)))"

definition parse_phase :: "json option \<Rightarrow> error + task_journal_phase" where
  "parse_phase value =
     requireSome (PlainError ''Browser Runner task journal phase is invalid'')
       (case value of Some (JStr s) \<Rightarrow> phase_of_text s | _ \<Rightarrow> None)"

definition parse_surface :: "json option \<Rightarrow> error + string" where
  "parse_surface value =
     (case value of
        Some (JStr s) \<Rightarrow>
          if s \<in> set BROWSER_EXTENSION_SURFACES then Inr s
          else Inl (PlainError ''Browser Runner task journal surface is invalid'')
      | _ \<Rightarrow> Inl (PlainError ''Browser Runner task journal surface is invalid''))"

definition parse_interrupted :: "task_journal_phase \<Rightarrow> json \<Rightarrow> error + task_journal_phase" where
  "parse_interrupted phase value =
     requireSome (PlainError ''Browser Runner interrupted journal phase is invalid'')
       (case value of
          JStr s \<Rightarrow>
            if phase = PhaseNeedsHuman
            then Option.bind (phase_of_text s) (\<lambda>p. if p = PhaseNeedsHuman then None else Some p) else None
        | _ \<Rightarrow> None)"

definition parse_tab_id :: "json option \<Rightarrow> error + int" where
  "parse_tab_id value =
     requireSome (PlainError ''Browser Runner task journal tabId is invalid'')
       (case value of Some (JNum n) \<Rightarrow> if safe_integer n \<and> 0 \<le> n then Some n else None | _ \<Rightarrow> None)"

definition parse_attempt_count :: "json \<Rightarrow> error + int" where
  "parse_attempt_count value =
     requireSome (PlainError ''Browser Runner automatic recovery attempt count is invalid'')
       (case value of JNum n \<Rightarrow> if safe_integer n \<and> 0 \<le> n \<and> n \<le> 2 then Some n else None | _ \<Rightarrow> None)"

definition parse_next_at :: "(string \<Rightarrow> int option) \<Rightarrow> json \<Rightarrow> error + string" where
  "parse_next_at other value =
     bindE (storage_requiredText (Some value) ''automatic recovery next-at'' 50) (\<lambda>s.
     if (case date_parse other s of None \<Rightarrow> False | Some t \<Rightarrow> to_iso t = s) then Inr s
     else Inl (PlainError ''Browser Runner automatic recovery next-at is invalid''))"

definition validateJournalEntry :: "(string \<Rightarrow> int option) \<Rightarrow> json \<Rightarrow> error + task_journal_entry" where
  "validateJournalEntry other value =
     (case value of
        JObj fs \<Rightarrow>
          bindE (storage_requiredText (field fs ''taskId'') ''taskId'' 200) (\<lambda>taskId.
          bindE (storage_requiredText (field fs ''batchId'') ''batchId'' 200) (\<lambda>batchId.
          bindE (storage_requiredText (field fs ''brandId'') ''brandId'' 300) (\<lambda>brandId.
          bindE (parse_phase (field fs ''phase'')) (\<lambda>phase.
          bindE (parse_surface (field fs ''surfaceTargetKey'')) (\<lambda>surface.
          bindE (storage_requiredText (field fs ''updatedAt'') ''updatedAt'' 50) (\<lambda>updatedAt.
          if date_parse other updatedAt = None then Inl (PlainError ''Browser Runner task journal time is invalid'')
          else
          bindE (optional_value (parse_interrupted phase) (field fs ''interruptedPhase'')) (\<lambda>interrupted.
          bindE (parse_tab_id (field fs ''tabId'')) (\<lambda>tabId.
          bindE (storage_requiredText (field fs ''runnerSessionId'') ''runnerSessionId'' 300) (\<lambda>session.
          bindE (storage_requiredText (field fs ''promptSha256'') ''promptSha256'' 64) (\<lambda>sha.
          if \<not> hex64 sha then Inl (PlainError ''Browser Runner task journal prompt digest is invalid'')
          else
          bindE (optional_value (\<lambda>v. storage_requiredText (Some v) ''needs-human failure code'' 100)
              (field fs ''needsHumanFailureCode'')) (\<lambda>code.
          bindE (optional_value parse_attempt_count (field fs ''autoRecoveryAttemptCount'')) (\<lambda>attempts.
          bindE (optional_value (parse_next_at other) (field fs ''autoRecoveryNextAt'')) (\<lambda>nextAt.
          Inr \<lparr>j_taskId = taskId, j_batchId = batchId, j_brandId = brandId, j_phase = phase,
            j_interruptedPhase = interrupted, j_surfaceTargetKey = surface, j_tabId = tabId,
            j_runnerSessionId = session, j_promptSha256 = sha, j_updatedAt = updatedAt,
            j_needsHumanFailureCode = code, j_autoRecoveryAttemptCount = attempts,
            j_autoRecoveryNextAt = nextAt\<rparr>)))))))))))))
      | _ \<Rightarrow> Inl (PlainError ''Browser Runner task journal entry is invalid''))"

text \<open>The object that is stored for an entry; an absent optional property is not stored.\<close>

definition optional_member :: "string \<Rightarrow> json option \<Rightarrow> (string \<times> json) list" where
  "optional_member k v = (case v of None \<Rightarrow> [] | Some j \<Rightarrow> [(k, j)])"

definition entry_json :: "task_journal_entry \<Rightarrow> json" where
  "entry_json e = JObj
     ([(''taskId'', JStr (j_taskId e)), (''batchId'', JStr (j_batchId e)), (''brandId'', JStr (j_brandId e)),
       (''phase'', JStr (phase_text (j_phase e)))] @
      optional_member ''interruptedPhase'' (map_option (JStr \<circ> phase_text) (j_interruptedPhase e)) @
      [(''surfaceTargetKey'', JStr (j_surfaceTargetKey e)), (''tabId'', JNum (j_tabId e)),
       (''runnerSessionId'', JStr (j_runnerSessionId e)), (''promptSha256'', JStr (j_promptSha256 e)),
       (''updatedAt'', JStr (j_updatedAt e))] @
      optional_member ''needsHumanFailureCode'' (map_option JStr (j_needsHumanFailureCode e)) @
      optional_member ''autoRecoveryAttemptCount'' (map_option JNum (j_autoRecoveryAttemptCount e)) @
      optional_member ''autoRecoveryNextAt'' (map_option JStr (j_autoRecoveryNextAt e)))"

subsection \<open>The storage area\<close>

type_synonym storage_area = "(string \<times> json) list"

definition DEVICE_KEY :: string where "DEVICE_KEY = ''browserRunnerDevice''"
definition SURFACE_READINESS_KEY :: string where "SURFACE_READINESS_KEY = ''browserRunnerSurfaceReadiness''"
definition JOURNAL_KEY :: string where "JOURNAL_KEY = ''browserRunnerJournal''"
definition JOURNAL_ENTRY_KEY_PREFIX :: string where "JOURNAL_ENTRY_KEY_PREFIX = JOURNAL_KEY @ '':''"

definition area_set :: "(string \<times> json) list \<Rightarrow> storage_area \<Rightarrow> storage_area" where
  "area_set items area = foldl (\<lambda>a (k, v). AList.update k v a) area items"

definition area_remove :: "string list \<Rightarrow> storage_area \<Rightarrow> storage_area" where
  "area_remove keys area = filter (\<lambda>(k, _). k \<notin> set keys) area"

definition journalEntryKey :: "string \<Rightarrow> error + string" where
  "journalEntryKey taskId =
     bindE (storage_requiredText (Some (JStr taskId)) ''taskId'' 200) (\<lambda>t. Inr (JOURNAL_ENTRY_KEY_PREFIX @ t))"

text \<open>What \<open>saveJournal\<close> writes.\<close>

definition journal_items :: "(string \<Rightarrow> int option) \<Rightarrow> task_journal_entry \<Rightarrow> error + (string \<times> json) list" where
  "journal_items other input =
     bindE (validateJournalEntry other (entry_json input)) (\<lambda>entry.
     bindE (journalEntryKey (j_taskId entry)) (\<lambda>key. Inr [(key, entry_json entry)]))"

text \<open>The values of the old journal, which was one object under one key.\<close>

definition legacy_values :: "storage_area \<Rightarrow> error + json list" where
  "legacy_values area =
     (case field area JOURNAL_KEY of
        None \<Rightarrow> Inr []
      | Some (JObj fs) \<Rightarrow> Inr (map snd fs)
      | Some _ \<Rightarrow> Inl (PlainError ''Browser Runner task journal is invalid''))"

text \<open>What \<open>loadJournal\<close> makes of the area: the entries by task id, the last one of an id winning.\<close>

definition journal_of_area ::
  "(string \<Rightarrow> int option) \<Rightarrow> storage_area \<Rightarrow> error + (string \<times> task_journal_entry) list" where
  "journal_of_area other area =
     bindE (legacy_values area) (\<lambda>legacy.
     bindE (mapE (validateJournalEntry other) legacy) (\<lambda>old.
     bindE (mapE (validateJournalEntry other)
         (map snd (filter (\<lambda>(k, _). js_starts JOURNAL_ENTRY_KEY_PREFIX k) area))) (\<lambda>new.
     Inr (foldl (\<lambda>journal e. AList.update (j_taskId e) e journal) [] (old @ new)))))"

text \<open>
  The migration moves every old entry to a key of its own, unless an entry is there that is already
  past the submit boundary or the old one is not.
\<close>

fun migrated_items ::
  "(string \<Rightarrow> int option) \<Rightarrow> storage_area \<Rightarrow> json list \<Rightarrow> (string \<times> json) list \<Rightarrow> error + (string \<times> json) list" where
  "migrated_items other area [] migrated = Inr migrated"
| "migrated_items other area (value # values) migrated =
     bindE (validateJournalEntry other value) (\<lambda>entry.
     bindE (journalEntryKey (j_taskId entry)) (\<lambda>key.
     bindE (optional_value (validateJournalEntry other) (field area key)) (\<lambda>existing.
     migrated_items other area values
       (if (case existing of None \<Rightarrow> True
            | Some x \<Rightarrow> hasPostSubmitBoundary entry \<and> \<not> hasPostSubmitBoundary x)
        then AList.update key (entry_json entry) migrated else migrated))))"

text \<open>\<open>None\<close> when there is no old journal; otherwise what is written before its key is removed.\<close>

definition migration_plan ::
  "(string \<Rightarrow> int option) \<Rightarrow> storage_area \<Rightarrow> error + (string \<times> json) list option" where
  "migration_plan other area =
     (if field area JOURNAL_KEY = None then Inr None
      else
      bindE (legacy_values area) (\<lambda>legacy.
      bindE (migrated_items other area legacy []) (\<lambda>items. Inr (Some items))))"

definition disconnect_keys :: "storage_area \<Rightarrow> string list" where
  "disconnect_keys area =
     filter (\<lambda>key. key = DEVICE_KEY \<or> key = SURFACE_READINESS_KEY \<or> key = JOURNAL_KEY \<or>
       js_starts JOURNAL_ENTRY_KEY_PREFIX key) (map fst area)"

subsection \<open>The paired device\<close>

definition PORTAL_ORIGIN :: string where "PORTAL_ORIGIN = ''https://portal.yonaris.com''"

record paired_device_config =
  dc_deviceId :: string
  dc_deviceToken :: string
  dc_allowedBrandIds :: "string list"

definition device_token_char :: "char \<Rightarrow> bool" where
  "device_token_char c \<longleftrightarrow> (CHR ''a'' \<le> c \<and> c \<le> CHR ''z'') \<or> (CHR ''A'' \<le> c \<and> c \<le> CHR ''Z'') \<or>
     (CHR ''0'' \<le> c \<and> c \<le> CHR ''9'') \<or> c = CHR ''_'' \<or> c = CHR ''-''"

definition DEVICE_TOKEN_PATTERN :: "string \<Rightarrow> bool" where
  "DEVICE_TOKEN_PATTERN s \<longleftrightarrow>
     js_starts ''yrd_'' s \<and> length s = 47 \<and> list_all device_token_char (drop 4 s)"

definition validateDevice :: "json \<Rightarrow> error + paired_device_config" where
  "validateDevice value =
     (case value of
        JObj fs \<Rightarrow>
          if field fs ''portalBaseUrl'' \<noteq> Some (JStr PORTAL_ORIGIN)
          then Inl (PlainError ''Browser Runner Portal origin is invalid'')
          else
          bindE (storage_requiredText (field fs ''deviceId'') ''deviceId'' 200) (\<lambda>deviceId.
          bindE (storage_requiredText (field fs ''deviceToken'') ''deviceToken'' 100) (\<lambda>deviceToken.
          if \<not> DEVICE_TOKEN_PATTERN deviceToken then Inl (PlainError ''Browser Runner device token is invalid'')
          else
          bindE (case field fs ''allowedBrandIds'' of
                   Some (JArr bs) \<Rightarrow>
                     if length bs < 1 \<or> length bs > 100
                     then Inl (PlainError ''Browser Runner brand assignments are invalid'') else Inr bs
                 | _ \<Rightarrow> Inl (PlainError ''Browser Runner brand assignments are invalid'')) (\<lambda>bs.
          bindE (mapE (\<lambda>b. storage_requiredText (Some b) ''brandId'' 200) bs) (\<lambda>allowedBrandIds.
          if card (set allowedBrandIds) \<noteq> length allowedBrandIds
          then Inl (PlainError ''Browser Runner brand assignments contain duplicates'')
          else Inr \<lparr>dc_deviceId = deviceId, dc_deviceToken = deviceToken,
            dc_allowedBrandIds = allowedBrandIds\<rparr>))))
      | _ \<Rightarrow> Inl (PlainError ''Browser Runner device configuration is invalid''))"

subsection \<open>Readiness of the surfaces\<close>

datatype readiness_status = Ready | SignedOut | PausedByRiskControl | AdapterIncompatible | Unavailable

definition readiness_text :: "readiness_status \<Rightarrow> string" where
  "readiness_text s =
     (case s of Ready \<Rightarrow> ''ready'' | SignedOut \<Rightarrow> ''signed_out'' | PausedByRiskControl \<Rightarrow> ''paused_by_risk_control''
      | AdapterIncompatible \<Rightarrow> ''adapter_incompatible'' | Unavailable \<Rightarrow> ''unavailable'')"

definition READINESS_STATUSES :: "readiness_status list" where
  "READINESS_STATUSES = [Ready, SignedOut, PausedByRiskControl, AdapterIncompatible, Unavailable]"

record surface_readiness =
  sr_status :: readiness_status
  sr_adapterVersion :: string
  sr_activeConcurrency :: int

definition CURRENT_ADAPTER_VERSIONS :: "string \<Rightarrow> string" where
  "CURRENT_ADAPTER_VERSIONS surface = surface_version surface"

definition defaultSurfaceReadiness :: "(string \<times> surface_readiness) list" where
  "defaultSurfaceReadiness =
     mapBrowserExtensionSurfaces (\<lambda>surface. \<lparr>sr_status = Unavailable,
        sr_adapterVersion = CURRENT_ADAPTER_VERSIONS surface, sr_activeConcurrency = 0\<rparr>)"

definition normalizeSurface :: "json \<Rightarrow> string \<Rightarrow> surface_readiness" where
  "normalizeSurface value surface =
     (let adapterVersion = CURRENT_ADAPTER_VERSIONS surface;
          incompatible = \<lparr>sr_status = AdapterIncompatible, sr_adapterVersion = adapterVersion, sr_activeConcurrency = 0\<rparr>
      in case value of
           JObj fs \<Rightarrow>
             if field fs ''adapterVersion'' \<noteq> Some (JStr adapterVersion) then incompatible
             else
               (case field fs ''status'' of
                  Some (JStr s) \<Rightarrow>
                    (case find (\<lambda>r. readiness_text r = s) READINESS_STATUSES of
                       None \<Rightarrow> incompatible
                     | Some r \<Rightarrow> \<lparr>sr_status = r, sr_adapterVersion = adapterVersion, sr_activeConcurrency = 0\<rparr>)
                | _ \<Rightarrow> incompatible)
         | _ \<Rightarrow> incompatible)"

definition normalizeSurfaceReadiness :: "json \<Rightarrow> (string \<times> surface_readiness) list" where
  "normalizeSurfaceReadiness value =
     (case value of
        JObj fs \<Rightarrow>
          map (\<lambda>(surface, default). (surface,
             case field fs surface of None \<Rightarrow> default | Some candidate \<Rightarrow> normalizeSurface candidate surface))
            defaultSurfaceReadiness
      | _ \<Rightarrow> defaultSurfaceReadiness)"

definition readySurfaces :: "(string \<times> surface_readiness) list \<Rightarrow> string list" where
  "readySurfaces readiness =
     filter (\<lambda>surface. case map_of readiness surface of None \<Rightarrow> False | Some r \<Rightarrow> sr_status r = Ready)
       BROWSER_EXTENSION_SURFACES"

definition readiness_json :: "(string \<times> surface_readiness) list \<Rightarrow> json" where
  "readiness_json readiness = JObj (map (\<lambda>(surface, r). (surface, JObj
     [(''status'', JStr (readiness_text (sr_status r))), (''adapterVersion'', JStr (sr_adapterVersion r)),
      (''activeConcurrency'', JNum (sr_activeConcurrency r))])) readiness)"

definition device_json :: "paired_device_config \<Rightarrow> json" where
  "device_json d = JObj
     [(''portalBaseUrl'', JStr PORTAL_ORIGIN), (''deviceId'', JStr (dc_deviceId d)),
      (''deviceToken'', JStr (dc_deviceToken d)), (''allowedBrandIds'', JArr (map JStr (dc_allowedBrandIds d)))]"

subsection \<open>What is stored is read back\<close>

lemma phase_text_inverse: "phase_of_text s = Some p \<Longrightarrow> phase_text p = s"
  using find_SomeD [of "\<lambda>p. phase_text p = s" JOURNAL_PHASES p] by (simp add: phase_of_text_def)

lemma phase_of_text_inverse [simp]: "phase_of_text (phase_text p) = Some p"
  by (cases p) (simp_all add: phase_of_text_def phase_text_def JOURNAL_PHASES_def)

lemma storage_text_fixed:
  assumes "storage_requiredText v name n = Inr s"
  shows "storage_requiredText (Some (JStr s)) name n = Inr s"
proof -
  obtain s0 where "v = Some (JStr s0)" "js_trim s0 = s" "s \<noteq> []" "length s \<le> n"
    using assms by (auto simp: storage_requiredText_def Let_def split: option.splits json.splits if_splits)
  then show ?thesis using js_trim_idem [of s0] by (simp add: storage_requiredText_def Let_def)
qed

lemma parse_phase_fixed: "parse_phase v = Inr p \<Longrightarrow> parse_phase (Some (JStr (phase_text p))) = Inr p"
  by (simp add: parse_phase_def)

lemma parse_surface_fixed: "parse_surface v = Inr s \<Longrightarrow> parse_surface (Some (JStr s)) = Inr s"
  by (auto simp: parse_surface_def split: option.splits json.splits if_splits)

lemma parse_tab_id_fixed: "parse_tab_id v = Inr n \<Longrightarrow> parse_tab_id (Some (JNum n)) = Inr n"
  by (auto simp: parse_tab_id_def requireSome_Inr_iff split: option.splits json.splits if_splits)

lemma optional_fixed:
  assumes "optional_value f v = Inr r" and "\<And>x y. f x = Inr y \<Longrightarrow> f (g y) = Inr y"
  shows "optional_value f (map_option g r) = Inr r"
  using assms by (auto simp: optional_value_def bindE_Inr_iff split: option.splits)

lemma parse_interrupted_fixed: "parse_interrupted p v = Inr q \<Longrightarrow> parse_interrupted p (JStr (phase_text q)) = Inr q"
  by (auto simp: parse_interrupted_def requireSome_Inr_iff split: json.splits if_splits Option.bind_splits)

lemma parse_attempt_count_fixed: "parse_attempt_count v = Inr n \<Longrightarrow> parse_attempt_count (JNum n) = Inr n"
  by (auto simp: parse_attempt_count_def requireSome_Inr_iff split: json.splits if_splits)

lemma parse_next_at_fixed: "parse_next_at other v = Inr s \<Longrightarrow> parse_next_at other (JStr s) = Inr s"
  by (auto simp: parse_next_at_def bindE_Inr_iff dest: storage_text_fixed split: if_splits)

lemma field_members:
  "field (optional_member k v @ fs) l =
     (if k = l \<and> v \<noteq> None \<and> v \<noteq> Some JUndef then v else if k = l \<and> v \<noteq> None then None else field fs l)"
  "field ((k, j) # fs) l = (if k = l then (if j = JUndef then None else Some j) else field fs l)"
  "field (optional_member k v) l = (if k = l \<and> v \<noteq> Some JUndef then v else None)"
  by (auto simp: field_def optional_member_def split: option.splits)

lemma optional_not_undef: "map_option JStr o1 \<noteq> Some JUndef" "map_option JNum o2 \<noteq> Some JUndef"
  "map_option (JStr \<circ> f) o3 \<noteq> Some JUndef"
  by auto

lemma entry_json_fields:
  assumes "entry_json e = JObj fs"
  shows "field fs ''taskId'' = Some (JStr (j_taskId e))" "field fs ''batchId'' = Some (JStr (j_batchId e))"
    "field fs ''brandId'' = Some (JStr (j_brandId e))" "field fs ''phase'' = Some (JStr (phase_text (j_phase e)))"
    "field fs ''surfaceTargetKey'' = Some (JStr (j_surfaceTargetKey e))"
    "field fs ''updatedAt'' = Some (JStr (j_updatedAt e))" "field fs ''tabId'' = Some (JNum (j_tabId e))"
    "field fs ''runnerSessionId'' = Some (JStr (j_runnerSessionId e))"
    "field fs ''promptSha256'' = Some (JStr (j_promptSha256 e))"
    "field fs ''interruptedPhase'' = map_option (JStr \<circ> phase_text) (j_interruptedPhase e)"
    "field fs ''needsHumanFailureCode'' = map_option JStr (j_needsHumanFailureCode e)"
    "field fs ''autoRecoveryAttemptCount'' = map_option JNum (j_autoRecoveryAttemptCount e)"
    "field fs ''autoRecoveryNextAt'' = map_option JStr (j_autoRecoveryNextAt e)"
proof -
  have fs: "fs = (''taskId'', JStr (j_taskId e)) # (''batchId'', JStr (j_batchId e)) # (''brandId'', JStr (j_brandId e)) #
       (''phase'', JStr (phase_text (j_phase e))) #
      optional_member ''interruptedPhase'' (map_option (JStr \<circ> phase_text) (j_interruptedPhase e)) @
      (''surfaceTargetKey'', JStr (j_surfaceTargetKey e)) # (''tabId'', JNum (j_tabId e)) #
       (''runnerSessionId'', JStr (j_runnerSessionId e)) # (''promptSha256'', JStr (j_promptSha256 e)) #
       (''updatedAt'', JStr (j_updatedAt e)) #
      optional_member ''needsHumanFailureCode'' (map_option JStr (j_needsHumanFailureCode e)) @
      optional_member ''autoRecoveryAttemptCount'' (map_option JNum (j_autoRecoveryAttemptCount e)) @
      optional_member ''autoRecoveryNextAt'' (map_option JStr (j_autoRecoveryNextAt e))"
    using assms unfolding entry_json_def json.inject append_Cons append_Nil append_assoc by (rule sym)
  show "field fs ''taskId'' = Some (JStr (j_taskId e))" "field fs ''batchId'' = Some (JStr (j_batchId e))"
    "field fs ''brandId'' = Some (JStr (j_brandId e))" "field fs ''phase'' = Some (JStr (phase_text (j_phase e)))"
    "field fs ''surfaceTargetKey'' = Some (JStr (j_surfaceTargetKey e))"
    "field fs ''updatedAt'' = Some (JStr (j_updatedAt e))" "field fs ''tabId'' = Some (JNum (j_tabId e))"
    "field fs ''runnerSessionId'' = Some (JStr (j_runnerSessionId e))"
    "field fs ''promptSha256'' = Some (JStr (j_promptSha256 e))"
    "field fs ''interruptedPhase'' = map_option (JStr \<circ> phase_text) (j_interruptedPhase e)"
    "field fs ''needsHumanFailureCode'' = map_option JStr (j_needsHumanFailureCode e)"
    "field fs ''autoRecoveryAttemptCount'' = map_option JNum (j_autoRecoveryAttemptCount e)"
    "field fs ''autoRecoveryNextAt'' = map_option JStr (j_autoRecoveryNextAt e)"
    unfolding fs by (simp_all add: field_members optional_not_undef)
qed

lemma validate_entry_json:
  assumes "validateJournalEntry other v = Inr e"
  shows "validateJournalEntry other (entry_json e) = Inr e"
proof -
  obtain fs where fs: "v = JObj fs" using assms by (auto simp: validateJournalEntry_def split: json.splits)
  obtain gs where gs: "entry_json e = JObj gs" by (simp add: entry_json_def)
  have parts: "storage_requiredText (field fs ''taskId'') ''taskId'' 200 = Inr (j_taskId e)"
    "storage_requiredText (field fs ''batchId'') ''batchId'' 200 = Inr (j_batchId e)"
    "storage_requiredText (field fs ''brandId'') ''brandId'' 300 = Inr (j_brandId e)"
    "parse_phase (field fs ''phase'') = Inr (j_phase e)"
    "parse_surface (field fs ''surfaceTargetKey'') = Inr (j_surfaceTargetKey e)"
    "storage_requiredText (field fs ''updatedAt'') ''updatedAt'' 50 = Inr (j_updatedAt e)"
    "date_parse other (j_updatedAt e) \<noteq> None"
    "optional_value (parse_interrupted (j_phase e)) (field fs ''interruptedPhase'') = Inr (j_interruptedPhase e)"
    "parse_tab_id (field fs ''tabId'') = Inr (j_tabId e)"
    "storage_requiredText (field fs ''runnerSessionId'') ''runnerSessionId'' 300 = Inr (j_runnerSessionId e)"
    "storage_requiredText (field fs ''promptSha256'') ''promptSha256'' 64 = Inr (j_promptSha256 e)"
    "hex64 (j_promptSha256 e)"
    "optional_value (\<lambda>v. storage_requiredText (Some v) ''needs-human failure code'' 100)
       (field fs ''needsHumanFailureCode'') = Inr (j_needsHumanFailureCode e)"
    "optional_value parse_attempt_count (field fs ''autoRecoveryAttemptCount'') = Inr (j_autoRecoveryAttemptCount e)"
    "optional_value (parse_next_at other) (field fs ''autoRecoveryNextAt'') = Inr (j_autoRecoveryNextAt e)"
    using assms unfolding fs validateJournalEntry_def json.case bindE_Inr_iff if_Inl_iff by auto
  have "validateJournalEntry other (JObj gs) = Inr e"
    unfolding validateJournalEntry_def json.case entry_json_fields [OF gs]
    by (simp add: parts(7,12) parts(1-3,6,10,11) [THEN storage_text_fixed] parse_phase_fixed [OF parts(4)]
        parse_surface_fixed [OF parts(5)] parse_tab_id_fixed [OF parts(9)]
        optional_fixed [OF parts(8) parse_interrupted_fixed, folded comp_def] optional_fixed [OF parts(13) storage_text_fixed]
        optional_fixed [OF parts(14) parse_attempt_count_fixed] optional_fixed [OF parts(15) parse_next_at_fixed])
  then show ?thesis by (simp add: gs)
qed

subsection \<open>The area as a map from task ids to entries\<close>

definition entry_at :: "(string \<Rightarrow> int option) \<Rightarrow> storage_area \<Rightarrow> string \<Rightarrow> task_journal_entry option" where
  "entry_at other area taskId =
     (case map_of area (JOURNAL_ENTRY_KEY_PREFIX @ taskId) of
        None \<Rightarrow> None
      | Some v \<Rightarrow> (case validateJournalEntry other v of Inl _ \<Rightarrow> None | Inr e \<Rightarrow> Some e))"

text \<open>A migrated area whose journal keys hold valid entries, each under the key of its own task.\<close>

definition area_ok :: "(string \<Rightarrow> int option) \<Rightarrow> storage_area \<Rightarrow> bool" where
  "area_ok other area \<longleftrightarrow> distinct (map fst area) \<and> field area JOURNAL_KEY = None \<and>
     list_all (\<lambda>(k, v). js_starts JOURNAL_ENTRY_KEY_PREFIX k \<longrightarrow>
        (case validateJournalEntry other v of Inl _ \<Rightarrow> False | Inr e \<Rightarrow> k = JOURNAL_ENTRY_KEY_PREFIX @ j_taskId e)) area"

lemma js_starts_append: "js_starts p (p @ s)"
  by (induction p) auto

lemma journalEntryKey_valid:
  assumes "validateJournalEntry other v = Inr e"
  shows "journalEntryKey (j_taskId e) = Inr (JOURNAL_ENTRY_KEY_PREFIX @ j_taskId e)"
proof -
  obtain w where "storage_requiredText w ''taskId'' 200 = Inr (j_taskId e)"
    using assms by (auto simp: validateJournalEntry_def bindE_Inr_iff if_Inl_iff split: json.splits)
  from storage_text_fixed [OF this] show ?thesis by (simp add: journalEntryKey_def)
qed

lemma journal_items_Inr:
  assumes "journal_items other input = Inr items"
  obtains e where "validateJournalEntry other (entry_json input) = Inr e"
    "items = [(JOURNAL_ENTRY_KEY_PREFIX @ j_taskId e, entry_json e)]"
proof -
  obtain e key where "validateJournalEntry other (entry_json input) = Inr e" "journalEntryKey (j_taskId e) = Inr key"
    "items = [(key, entry_json e)]"
    using assms by (auto simp: journal_items_def bindE_Inr_iff)
  with journalEntryKey_valid [OF this(1)] show ?thesis by (intro that) simp_all
qed

lemma journal_items_same:
  assumes "validateJournalEntry other (entry_json e) = Inr e"
  shows "journal_items other e = Inr [(JOURNAL_ENTRY_KEY_PREFIX @ j_taskId e, entry_json e)]"
  using assms journalEntryKey_valid [OF assms] by (simp add: journal_items_def)

text \<open>
  An entry that was accepted once is accepted again: it is saved under the key of its task, and
  what is written for it is read back as the very same entry.
\<close>

theorem journal_entry_roundtrip:
  assumes "validateJournalEntry other v = Inr e"
  shows "validateJournalEntry other (entry_json e) = Inr e \<and>
    journal_items other e = Inr [(JOURNAL_ENTRY_KEY_PREFIX @ j_taskId e, entry_json e)]"
  using validate_entry_json [OF assms] journal_items_same by blast

lemma fold_entries_map_of:
  "map_of (foldl (\<lambda>journal e. AList.update (j_taskId e) e journal) j es) =
     (\<lambda>t. case find (\<lambda>e. j_taskId e = t) (rev es) of None \<Rightarrow> map_of j t | Some e \<Rightarrow> Some e)"
  by (induction es arbitrary: j)
    (auto simp: fun_eq_iff find_append AList.update_conv' split: option.splits)

lemma update_ids: "\<forall>(t, e) \<in> set j. j_taskId e = t \<Longrightarrow> \<forall>(t, e) \<in> set (AList.update (j_taskId x) x j). j_taskId e = t"
  by (induction j) auto

lemma fold_entries_keys:
  assumes "distinct (map fst j)" and "\<forall>(t, e) \<in> set j. j_taskId e = t"
  shows "distinct (map fst (foldl (\<lambda>journal e. AList.update (j_taskId e) e journal) j es)) \<and>
    (\<forall>(t, e) \<in> set (foldl (\<lambda>journal e. AList.update (j_taskId e) e journal) j es). j_taskId e = t)"
  using assms
proof (induction es arbitrary: j)
  case (Cons x xs)
  from Cons.IH [OF distinct_update [OF Cons.prems(1)] update_ids [OF Cons.prems(2)]] show ?case by simp
qed simp

lemma load_journal:
  assumes "area_ok other area"
  shows "\<exists>journal. journal_of_area other area = Inr journal \<and> map_of journal = entry_at other area \<and>
     distinct (map fst journal) \<and> (\<forall>(t, e) \<in> set journal. j_taskId e = t)"
proof -
  let ?new = "filter (\<lambda>(k, _). js_starts JOURNAL_ENTRY_KEY_PREFIX k) area"
  let ?es = "map (projr \<circ> validateJournalEntry other \<circ> snd) ?new"
  let ?j = "foldl (\<lambda>journal e. AList.update (j_taskId e) e journal) [] ?es"
  have d: "distinct (map fst area)" and legacy: "legacy_values area = Inr []"
    using assms by (simp_all add: area_ok_def legacy_values_def)
  have each: "\<exists>e. validateJournalEntry other v = Inr e \<and> k = JOURNAL_ENTRY_KEY_PREFIX @ j_taskId e"
    if "(k, v) \<in> set ?new" for k v
  proof -
    have "case validateJournalEntry other v of Inl _ \<Rightarrow> False | Inr e \<Rightarrow> k = JOURNAL_ENTRY_KEY_PREFIX @ j_taskId e"
      using assms that by (auto simp: area_ok_def list_all_iff)
    then show ?thesis by (simp split: sum.splits)
  qed
  have "mapE (validateJournalEntry other) (map snd ?new) = Inr ?es"
    unfolding mapE_Inr_iff list_all2_map1 list_all2_map2 comp_def using each
    by (intro list.rel_refl_strong) force
  then have load: "journal_of_area other area = Inr ?j" by (simp add: journal_of_area_def legacy)
  have ids: "map (\<lambda>e. JOURNAL_ENTRY_KEY_PREFIX @ j_taskId e) ?es = map fst ?new"
    unfolding map_map comp_def using each by (intro map_cong refl) fastforce
  have "find (\<lambda>e. j_taskId e = t) (rev ?es) = entry_at other area t" for t
  proof (cases "map_of area (JOURNAL_ENTRY_KEY_PREFIX @ t)")
    case None
    then have "JOURNAL_ENTRY_KEY_PREFIX @ t \<notin> set (map fst ?new)" by (auto simp: map_of_eq_None_iff image_iff)
    then have "t \<notin> j_taskId ` set ?es" unfolding ids [symmetric] by auto
    then have "find (\<lambda>e. j_taskId e = t) (rev ?es) = None" unfolding find_None_iff set_rev by blast
    with None show ?thesis by (simp add: entry_at_def)
  next
    case (Some v)
    then have m: "(JOURNAL_ENTRY_KEY_PREFIX @ t, v) \<in> set ?new" by (simp add: map_of_SomeD js_starts_append)
    then obtain e where e: "validateJournalEntry other v = Inr e" "j_taskId e = t" using each [OF m] by auto
    have "e \<in> set ?es" using m e(1) by force
    moreover have "distinct (map j_taskId (rev ?es))"
    proof -
      have "distinct (map fst ?new)" using d by (induction area) auto
      then have "distinct (map ((@) JOURNAL_ENTRY_KEY_PREFIX) (map j_taskId ?es))"
        unfolding ids [symmetric] map_map comp_def .
      then have "distinct (map j_taskId ?es)" unfolding distinct_map [of "(@) JOURNAL_ENTRY_KEY_PREFIX"] by (rule conjunct1)
      then show ?thesis unfolding rev_map [symmetric] distinct_rev .
    qed
    ultimately have "find (\<lambda>x. j_taskId x = j_taskId e) (rev ?es) = Some e"
      by (intro find_distinct_key) simp_all
    with Some e show ?thesis by (simp add: entry_at_def)
  qed
  then have "map_of ?j = entry_at other area" by (auto simp: fold_entries_map_of fun_eq_iff split: option.splits)
  with load show ?thesis using fold_entries_keys [of "[]" ?es] by simp
qed

lemma save_journal:
  assumes ok: "area_ok other area" and e: "validateJournalEntry other v = Inr e"
  shows "area_ok other (area_set [(JOURNAL_ENTRY_KEY_PREFIX @ j_taskId e, entry_json e)] area) \<and>
    entry_at other (area_set [(JOURNAL_ENTRY_KEY_PREFIX @ j_taskId e, entry_json e)] area) =
      (entry_at other area)(j_taskId e \<mapsto> e)"
proof -
  let ?k = "JOURNAL_ENTRY_KEY_PREFIX @ j_taskId e"
  let ?a = "AList.update ?k (entry_json e) area"
  have again: "validateJournalEntry other (entry_json e) = Inr e" by (rule validate_entry_json [OF e])
  have new: "(k, w) = (?k, entry_json e) \<or> (k, w) \<in> set area" if "(k, w) \<in> set ?a" for k w
    using that by (induction area) (auto split: if_splits)
  have "list_all (\<lambda>(k, v). js_starts JOURNAL_ENTRY_KEY_PREFIX k \<longrightarrow>
        (case validateJournalEntry other v of Inl _ \<Rightarrow> False | Inr e \<Rightarrow> k = JOURNAL_ENTRY_KEY_PREFIX @ j_taskId e)) ?a"
    using ok again new unfolding area_ok_def list_all_iff by fastforce
  moreover have "field ?a JOURNAL_KEY = None"
  proof -
    have "?k \<noteq> JOURNAL_KEY" by (simp add: JOURNAL_ENTRY_KEY_PREFIX_def)
    then show ?thesis using ok by (simp add: area_ok_def field_def AList.update_conv')
  qed
  moreover have "distinct (map fst ?a)" using ok by (simp add: area_ok_def distinct_update)
  ultimately have "area_ok other ?a" by (simp add: area_ok_def)
  moreover have "entry_at other ?a = (entry_at other area)(j_taskId e \<mapsto> e)"
    by (auto simp: fun_eq_iff entry_at_def AList.update_conv' again)
  ultimately show ?thesis by (simp add: area_set_def)
qed

lemma map_of_area_remove: "map_of (area_remove ks area) k = (if k \<in> set ks then None else map_of area k)"
  unfolding area_remove_def by (induction area) auto

lemma area_ok_remove:
  assumes "area_ok other area"
  shows "area_ok other (area_remove ks area)"
proof -
  have "distinct (map fst area)" using assms by (simp add: area_ok_def)
  then have "distinct (map fst (area_remove ks area))" unfolding area_remove_def by (induction area) auto
  moreover have "field (area_remove ks area) JOURNAL_KEY = None"
    using assms by (simp add: area_ok_def field_def map_of_area_remove)
  ultimately show ?thesis using assms by (auto simp: area_ok_def area_remove_def list_all_iff)
qed

lemma remove_journal:
  assumes ok: "area_ok other area"
  shows "area_ok other (area_remove [JOURNAL_ENTRY_KEY_PREFIX @ t] area) \<and>
    entry_at other (area_remove [JOURNAL_ENTRY_KEY_PREFIX @ t] area) = (entry_at other area)(t := None)"
proof -
  let ?a = "area_remove [JOURNAL_ENTRY_KEY_PREFIX @ t] area"
  have "area_ok other ?a" by (rule area_ok_remove [OF ok])
  moreover have "entry_at other ?a = (entry_at other area)(t := None)"
    by (simp add: fun_eq_iff entry_at_def map_of_area_remove)
  ultimately show ?thesis by simp
qed

lemma entry_at_valid:
  assumes "area_ok other area" and "entry_at other area t = Some e"
  shows "\<exists>v. validateJournalEntry other v = Inr e \<and> j_taskId e = t"
proof -
  obtain v where v: "map_of area (JOURNAL_ENTRY_KEY_PREFIX @ t) = Some v" "validateJournalEntry other v = Inr e"
    using assms(2) by (auto simp: entry_at_def split: option.splits sum.splits)
  have "(JOURNAL_ENTRY_KEY_PREFIX @ t, v) \<in> set area" using v(1) by (rule map_of_SomeD)
  with assms(1) v(2) have "j_taskId e = t" by (fastforce simp: area_ok_def list_all_iff js_starts_append)
  with v(2) show ?thesis by blast
qed

lemma validate_phase:
  assumes "validateJournalEntry other (entry_json n) = Inr e"
  shows "j_phase e = j_phase n"
proof -
  obtain fs where fs: "entry_json n = JObj fs" by (simp add: entry_json_def)
  have "parse_phase (field fs ''phase'') = Inr (j_phase e)"
    using assms unfolding fs validateJournalEntry_def json.case bindE_Inr_iff if_Inl_iff by auto
  then show ?thesis by (simp add: entry_json_fields [OF fs] parse_phase_def)
qed

text \<open>A changed entry that still belongs to the same task keeps its task id in the store.\<close>

lemma validate_taskId:
  assumes "validateJournalEntry other v = Inr e0" and "j_taskId n = j_taskId e0"
    and "validateJournalEntry other (entry_json n) = Inr e"
  shows "j_taskId e = j_taskId e0"
proof -
  obtain fs where fs: "entry_json n = JObj fs" by (simp add: entry_json_def)
  have "storage_requiredText (field fs ''taskId'') ''taskId'' 200 = Inr (j_taskId e)"
    using assms(3) unfolding fs validateJournalEntry_def json.case bindE_Inr_iff if_Inl_iff by auto
  moreover have "storage_requiredText (Some (JStr (j_taskId e0))) ''taskId'' 200 = Inr (j_taskId e0)"
    using assms(1) storage_text_fixed by (auto simp: validateJournalEntry_def bindE_Inr_iff if_Inl_iff split: json.splits)
  ultimately show ?thesis by (simp add: entry_json_fields [OF fs] assms(2))
qed

text \<open>
  C30: the storage area implements a map from task ids to entries: on a well-formed area loading the
  journal never fails and yields exactly that map, saving a valid entry updates it at the entry's
  task, removing a task deletes it there, and both keep the area well-formed.
\<close>

theorem journal_storage_refines_map:
  assumes "area_ok other area"
  shows "(\<exists>journal. journal_of_area other area = Inr journal \<and> map_of journal = entry_at other area) \<and>
    (\<forall>input. validateJournalEntry other (entry_json input) = Inr input \<longrightarrow>
       (\<exists>items. journal_items other input = Inr items \<and> area_ok other (area_set items area) \<and>
          entry_at other (area_set items area) = (entry_at other area)(j_taskId input \<mapsto> input))) \<and>
    (\<forall>t key. journalEntryKey t = Inr key \<longrightarrow> area_ok other (area_remove [key] area) \<and>
       entry_at other (area_remove [key] area) = (entry_at other area)(js_trim t := None))"
proof (intro conjI allI impI)
  show "\<exists>journal. journal_of_area other area = Inr journal \<and> map_of journal = entry_at other area"
    using load_journal [OF assms] by blast
next
  fix input assume "validateJournalEntry other (entry_json input) = Inr input"
  then show "\<exists>items. journal_items other input = Inr items \<and> area_ok other (area_set items area) \<and>
          entry_at other (area_set items area) = (entry_at other area)(j_taskId input \<mapsto> input)"
    using journal_items_same save_journal [OF assms] by blast
next
  fix t key assume "journalEntryKey t = Inr key"
  then have "key = JOURNAL_ENTRY_KEY_PREFIX @ js_trim t"
    by (auto simp: journalEntryKey_def bindE_Inr_iff storage_requiredText_def Let_def split: if_splits)
  then show "area_ok other (area_remove [key] area)"
    "entry_at other (area_remove [key] area) = (entry_at other area)(js_trim t := None)"
    using remove_journal [OF assms] by simp_all
qed

definition example_entry :: task_journal_entry where
  "example_entry = \<lparr>j_taskId = ''T'', j_batchId = ''B'', j_brandId = ''b'', j_phase = PhaseNeedsHuman,
     j_interruptedPhase = Some PhaseSubmitted, j_surfaceTargetKey = ''kimi.consumer_web'', j_tabId = 7,
     j_runnerSessionId = ''s'', j_promptSha256 = replicate 64 CHR ''a'', j_updatedAt = ''2026-08-22T01:00:00.000Z'',
     j_needsHumanFailureCode = Some ''response_timeout'', j_autoRecoveryAttemptCount = Some 1,
     j_autoRecoveryNextAt = Some ''2026-08-22T01:10:00.000Z''\<rparr>"

lemma example_entry_valid: "validateJournalEntry (\<lambda>_. None) (entry_json example_entry) = Inr example_entry"
  by code_simp

theorem journal_entry_roundtrip_witness:
  "journal_items (\<lambda>_. None) example_entry = Inr [(''browserRunnerJournal:T'', entry_json example_entry)]"
proof -
  have "JOURNAL_ENTRY_KEY_PREFIX @ j_taskId example_entry = ''browserRunnerJournal:T''"
    by (simp add: JOURNAL_ENTRY_KEY_PREFIX_def JOURNAL_KEY_def example_entry_def)
  with journal_entry_roundtrip [OF example_entry_valid, THEN conjunct2] show ?thesis by simp
qed

theorem journal_storage_refines_map_witness:
  "\<exists>items. journal_items (\<lambda>_. None) example_entry = Inr items \<and>
     entry_at (\<lambda>_. None) (area_set items []) ''T'' = Some example_entry"
proof -
  have "area_ok (\<lambda>_. None) []" by (simp add: area_ok_def field_def)
  from journal_storage_refines_map [OF this, THEN conjunct2, THEN conjunct1, rule_format, OF example_entry_valid]
  obtain items where i: "journal_items (\<lambda>_. None) example_entry = Inr items"
    and e: "entry_at (\<lambda>_. None) (area_set items []) = (entry_at (\<lambda>_. None) [])(j_taskId example_entry \<mapsto> example_entry)"
    by blast
  have "j_taskId example_entry = ''T''" by (simp add: example_entry_def)
  with fun_cong [OF e, of "''T''"] i show ?thesis by auto
qed

subsection \<open>Migration of the old journal\<close>

definition replaces :: "(string \<Rightarrow> int option) \<Rightarrow> storage_area \<Rightarrow> task_journal_entry \<Rightarrow> bool" where
  "replaces other area entry =
     (case entry_at other area (j_taskId entry) of
        None \<Rightarrow> True | Some x \<Rightarrow> hasPostSubmitBoundary entry \<and> \<not> hasPostSubmitBoundary x)"

definition journal_values_ok :: "(string \<Rightarrow> int option) \<Rightarrow> storage_area \<Rightarrow> bool" where
  "journal_values_ok other area \<longleftrightarrow> distinct (map fst area) \<and>
     list_all (\<lambda>(k, v). js_starts JOURNAL_ENTRY_KEY_PREFIX k \<longrightarrow>
        (case validateJournalEntry other v of Inl _ \<Rightarrow> False | Inr e \<Rightarrow> k = JOURNAL_ENTRY_KEY_PREFIX @ j_taskId e)) area"

definition save_all :: "task_journal_entry list \<Rightarrow> storage_area \<Rightarrow> storage_area" where
  "save_all es area = foldl (\<lambda>a e. AList.update (JOURNAL_ENTRY_KEY_PREFIX @ j_taskId e) (entry_json e) a) area es"

lemma existing_entry:
  assumes "journal_values_ok other area"
  shows "optional_value (validateJournalEntry other) (field area (JOURNAL_ENTRY_KEY_PREFIX @ t)) =
    Inr (entry_at other area t)"
proof (cases "map_of area (JOURNAL_ENTRY_KEY_PREFIX @ t)")
  case (Some v)
  then have "(JOURNAL_ENTRY_KEY_PREFIX @ t, v) \<in> set area" by (rule map_of_SomeD)
  then have "case validateJournalEntry other v of Inl _ \<Rightarrow> False | Inr e \<Rightarrow>
      JOURNAL_ENTRY_KEY_PREFIX @ t = JOURNAL_ENTRY_KEY_PREFIX @ j_taskId e"
    using assms unfolding journal_values_ok_def list_all_iff by (auto simp: js_starts_append)
  then obtain e where "validateJournalEntry other v = Inr e" by (auto split: sum.splits)
  moreover from this have "v \<noteq> JUndef" by (auto simp: validateJournalEntry_def)
  ultimately show ?thesis using Some by (simp add: entry_at_def field_def optional_value_def)
qed (simp add: entry_at_def field_def optional_value_def)

lemma migrated_items_spec:
  assumes "journal_values_ok other area" and "migrated_items other area vs acc = Inr items"
  shows "\<exists>es. mapE (validateJournalEntry other) vs = Inr es \<and> items = save_all (filter (replaces other area) es) acc"
  using assms(2)
proof (induction vs arbitrary: acc)
  case (Cons v vs)
  obtain e where e: "validateJournalEntry other v = Inr e" using Cons.prems by (auto simp: bindE_Inr_iff)
  have "migrated_items other area vs (if replaces other area e
      then AList.update (JOURNAL_ENTRY_KEY_PREFIX @ j_taskId e) (entry_json e) acc else acc) = Inr items"
    using Cons.prems by (simp add: e journalEntryKey_valid [OF e] existing_entry [OF assms(1)] replaces_def
        cong: option.case_cong)
  from Cons.IH [OF this] obtain es where "mapE (validateJournalEntry other) vs = Inr es"
    "items = save_all (filter (replaces other area) (e # es)) acc"
    by (auto simp: save_all_def)
  then show ?case using e by (intro exI [of _ "e # es"]) simp
qed (simp add: save_all_def)

lemma save_all_map_of:
  "map_of (save_all es area) (JOURNAL_ENTRY_KEY_PREFIX @ t) =
    (case find (\<lambda>e. j_taskId e = t) (rev es) of None \<Rightarrow> map_of area (JOURNAL_ENTRY_KEY_PREFIX @ t)
     | Some e \<Rightarrow> Some (entry_json e))"
  by (induction es arbitrary: area) (auto simp: save_all_def find_append AList.update_conv' split: option.splits)

lemma area_set_map_of:
  assumes "distinct (map fst items)"
  shows "map_of (area_set items area) k = (case map_of items k of None \<Rightarrow> map_of area k | Some v \<Rightarrow> Some v)"
  using assms by (induction items arbitrary: area)
    (auto simp: area_set_def AList.update_conv' map_of_eq_None_iff image_iff split: option.splits)

text \<open>
  C31: the migration of the old journal never forgets that a prompt may have been submitted: a task
  whose old or new entry was past the submit boundary still has such an entry afterwards, every old
  task has an entry, and an entry without an old counterpart is as before.
\<close>

theorem migration_keeps_boundary:
  assumes "journal_values_ok other area" and "migration_plan other area = Inr (Some items)"
    and "legacy_values area = Inr vs" and "mapE (validateJournalEntry other) vs = Inr old"
    and "distinct (map j_taskId old)"
  defines "after \<equiv> area_remove [JOURNAL_KEY] (area_set items area)"
  shows "(\<forall>e \<in> set old. \<exists>e'. entry_at other after (j_taskId e) = Some e' \<and>
       (hasPostSubmitBoundary e \<longrightarrow> hasPostSubmitBoundary e')) \<and>
    (\<forall>t e. entry_at other area t = Some e \<longrightarrow> (\<exists>e'. entry_at other after t = Some e' \<and>
       (hasPostSubmitBoundary e \<longrightarrow> e' = e) \<and> (t \<notin> j_taskId ` set old \<longrightarrow> e' = e)))"
proof -
  have "migrated_items other area vs [] = Inr items"
    using assms(2,3) by (auto simp: migration_plan_def bindE_Inr_iff split: if_splits)
  then obtain es where "mapE (validateJournalEntry other) vs = Inr es"
    and items: "items = save_all (filter (replaces other area) es) []"
    using migrated_items_spec [OF assms(1)] by blast
  with assms(4) have es: "es = old" by simp
  have valid: "validateJournalEntry other (entry_json e) = Inr e" if "e \<in> set old" for e
  proof -
    from mapE_set [OF assms(4) that] obtain v where "validateJournalEntry other v = Inr e" by blast
    then show ?thesis by (rule validate_entry_json)
  qed
  have key: "JOURNAL_ENTRY_KEY_PREFIX @ t \<noteq> JOURNAL_KEY" for t by (simp add: JOURNAL_ENTRY_KEY_PREFIX_def)
  have dist: "distinct (map fst (save_all xs []))" for xs
  proof -
    have "distinct (map fst acc) \<Longrightarrow> distinct (map fst (save_all xs acc))" for acc
      by (induction xs arbitrary: acc) (simp_all add: save_all_def distinct_update)
    then show ?thesis by simp
  qed
  have after: "map_of after (JOURNAL_ENTRY_KEY_PREFIX @ t) =
      (case find (\<lambda>e. j_taskId e = t) (rev (filter (replaces other area) old)) of
         None \<Rightarrow> map_of area (JOURNAL_ENTRY_KEY_PREFIX @ t) | Some e \<Rightarrow> Some (entry_json e))" for t
    using key by (simp add: after_def map_of_area_remove area_set_map_of [OF dist] items es save_all_map_of
        split: option.split)
  have found: "find (\<lambda>e. j_taskId e = t) (rev (filter (replaces other area) old)) = Some e \<longleftrightarrow>
      e \<in> set old \<and> replaces other area e \<and> j_taskId e = t" for t e
  proof
    assume "e \<in> set old \<and> replaces other area e \<and> j_taskId e = t"
    moreover have "distinct (map j_taskId (rev (filter (replaces other area) old)))"
      using assms(5) by (simp add: rev_map [symmetric] distinct_map_filter)
    ultimately show "find (\<lambda>e. j_taskId e = t) (rev (filter (replaces other area) old)) = Some e"
      using find_distinct_key [of j_taskId "rev (filter (replaces other area) old)" e] by auto
  qed (auto dest!: find_SomeD)
  have replaced: "entry_at other after (j_taskId e) = Some e" if "e \<in> set old" "replaces other area e" for e
    using found [of "j_taskId e" e] that by (simp add: entry_at_def after valid)
  have kept: "entry_at other after t = entry_at other area t"
    if "\<forall>e \<in> set old. j_taskId e = t \<longrightarrow> \<not> replaces other area e" for t
  proof -
    have "find (\<lambda>e. j_taskId e = t) (rev (filter (replaces other area) old)) = None"
      using that found [of t] by (cases "find (\<lambda>e. j_taskId e = t) (rev (filter (replaces other area) old))") auto
    then show ?thesis by (simp add: entry_at_def after)
  qed
  have same: "x = e" if "x \<in> set old" "e \<in> set old" "j_taskId x = j_taskId e" for x e
    using assms(5) that by (auto simp: distinct_map dest: inj_onD)
  have "\<exists>e'. entry_at other after (j_taskId e) = Some e' \<and> (hasPostSubmitBoundary e \<longrightarrow> hasPostSubmitBoundary e')"
    if e: "e \<in> set old" for e
  proof (cases "replaces other area e")
    case False
    then have "entry_at other after (j_taskId e) = entry_at other area (j_taskId e)"
      by (intro kept) (use same e in blast)
    with False show ?thesis by (auto simp: replaces_def split: option.splits)
  qed (use replaced e in blast)
  moreover have "\<exists>e'. entry_at other after t = Some e' \<and> (hasPostSubmitBoundary e \<longrightarrow> e' = e) \<and>
      (t \<notin> j_taskId ` set old \<longrightarrow> e' = e)" if e: "entry_at other area t = Some e" for t e
  proof (cases "\<exists>x \<in> set old. j_taskId x = t \<and> replaces other area x")
    case True
    then obtain x where x: "x \<in> set old" "j_taskId x = t" "replaces other area x" by blast
    then have "\<not> hasPostSubmitBoundary e" using e by (simp add: replaces_def)
    with x replaced [of x] show ?thesis by auto
  next
    case False
    then have "entry_at other after t = entry_at other area t" by (intro kept) blast
    with e show ?thesis by simp
  qed
  ultimately show ?thesis by blast
qed

definition example_old_area :: storage_area where
  "example_old_area = [(JOURNAL_KEY, JObj [(''T'', entry_json example_entry)]),
     (JOURNAL_ENTRY_KEY_PREFIX @ ''T'', entry_json (example_entry\<lparr>j_interruptedPhase := Some PhaseClaimed\<rparr>))]"

theorem migration_keeps_boundary_witness:
  "\<exists>items e. migration_plan (\<lambda>_. None) example_old_area = Inr (Some items) \<and>
     entry_at (\<lambda>_. None) (area_remove [JOURNAL_KEY] (area_set items example_old_area)) ''T'' = Some e \<and>
     hasPostSubmitBoundary e"
proof -
  let ?plan = "migration_plan (\<lambda>_. None) example_old_area"
  have "case ?plan of Inr (Some _) \<Rightarrow> True | _ \<Rightarrow> False" by code_simp
  then obtain items where plan: "?plan = Inr (Some items)" by (auto split: sum.splits option.splits)
  have ok: "journal_values_ok (\<lambda>_. None) example_old_area" by code_simp
  have legacy: "legacy_values example_old_area = Inr [entry_json example_entry]"
    by (simp add: legacy_values_def field_def example_old_area_def)
  have old: "mapE (validateJournalEntry (\<lambda>_. None)) [entry_json example_entry] = Inr [example_entry]"
    by (simp add: example_entry_valid)
  have "distinct (map j_taskId [example_entry])" "hasPostSubmitBoundary example_entry" "j_taskId example_entry = ''T''"
    by code_simp+
  with migration_keeps_boundary [OF ok plan legacy old] plan show ?thesis by auto
qed

end
