(* ===== verification/SurfacePool.thy ===== *)
theory SurfacePool
  imports Prelude Surfaces
begin

text \<open>
  The adaptive concurrency of one surface in the browser extension
  (\<open>apps/browser-extension/src/coordinator/concurrency.ts\<close>): the number of tasks that may run grows
  after a window of stable successes, and a rate limit halves it and starts a cool-down that doubles
  with every further rate limit.
\<close>

record surface_pool =
  sp_minimum :: int
  sp_maximum :: int
  sp_successWindow :: int
  sp_baseCooldownMs :: int
  sp_maximumCooldownMs :: int
  sp_current :: int
  sp_stableSuccesses :: int
  sp_rateLimitStreak :: int
  sp_cooldownUntil :: int

record surface_pool_options =
  po_initial :: "int option"
  po_minimum :: "int option"
  po_maximum :: "int option"
  po_successWindow :: "int option"
  po_baseCooldownMs :: "int option"
  po_maximumCooldownMs :: "int option"

definition positiveInteger :: "int option \<Rightarrow> int \<Rightarrow> string \<Rightarrow> error + int" where
  "positiveInteger value fallback label =
     (let n = (case value of None \<Rightarrow> fallback | Some v \<Rightarrow> v) in
      if \<not> safe_integer n \<or> n < 1 then Inl (PlainError (label @ '' must be a positive integer'')) else Inr n)"

definition newSurfacePool :: "surface_pool_options \<Rightarrow> error + surface_pool" where
  "newSurfacePool options =
     bindE (positiveInteger (po_minimum options) 1 ''minimum'') (\<lambda>minimum.
     bindE (positiveInteger (po_maximum options) 1 ''maximum'') (\<lambda>maximum.
     bindE (positiveInteger (po_initial options) 1 ''initial'') (\<lambda>current.
     bindE (positiveInteger (po_successWindow options) 5 ''successWindow'') (\<lambda>successWindow.
     bindE (positiveInteger (po_baseCooldownMs options) 60000 ''baseCooldownMs'') (\<lambda>baseCooldown.
     bindE (positiveInteger (po_maximumCooldownMs options) (15 * 60000) ''maximumCooldownMs'') (\<lambda>maximumCooldown.
     if minimum > maximum \<or> current < minimum \<or> current > maximum
     then Inl (PlainError ''Adaptive surface concurrency bounds are invalid'')
     else Inr \<lparr>sp_minimum = minimum, sp_maximum = maximum, sp_successWindow = successWindow,
       sp_baseCooldownMs = baseCooldown, sp_maximumCooldownMs = maximumCooldown, sp_current = current,
       sp_stableSuccesses = 0, sp_rateLimitStreak = 0, sp_cooldownUntil = 0\<rparr>))))))"

definition canStart :: "surface_pool \<Rightarrow> int \<Rightarrow> bool" where
  "canStart pool now \<longleftrightarrow> now \<ge> sp_cooldownUntil pool"

definition recordStableSuccess :: "surface_pool \<Rightarrow> surface_pool" where
  "recordStableSuccess pool =
     (let pool = pool\<lparr>sp_rateLimitStreak := 0, sp_stableSuccesses := sp_stableSuccesses pool + 1\<rparr> in
      if sp_stableSuccesses pool < sp_successWindow pool then pool
      else pool\<lparr>sp_stableSuccesses := 0, sp_current := min (sp_maximum pool) (sp_current pool + 1)\<rparr>)"

definition recordRateLimit :: "surface_pool \<Rightarrow> int \<Rightarrow> surface_pool" where
  "recordRateLimit pool now =
     (let streak = sp_rateLimitStreak pool + 1;
          cooldown = min (sp_maximumCooldownMs pool) (sp_baseCooldownMs pool * 2 ^ nat (min (streak - 1) 8))
      in pool\<lparr>sp_stableSuccesses := 0, sp_rateLimitStreak := streak,
           sp_current := max (sp_minimum pool) (sp_current pool div 2),
           sp_cooldownUntil := now + cooldown\<rparr>)"

subsection \<open>Any sequence of outcomes\<close>

datatype pool_event = StableSuccess | RateLimit int

fun pool_step :: "surface_pool \<Rightarrow> pool_event \<Rightarrow> surface_pool" where
  "pool_step pool StableSuccess = recordStableSuccess pool"
| "pool_step pool (RateLimit now) = recordRateLimit pool now"

definition pool_ok :: "surface_pool \<Rightarrow> bool" where
  "pool_ok pool \<longleftrightarrow> 1 \<le> sp_minimum pool \<and> sp_minimum pool \<le> sp_current pool \<and> sp_current pool \<le> sp_maximum pool \<and>
     0 \<le> sp_stableSuccesses pool \<and> sp_stableSuccesses pool < sp_successWindow pool \<and>
     0 \<le> sp_rateLimitStreak pool \<and> 1 \<le> sp_baseCooldownMs pool \<and> 1 \<le> sp_maximumCooldownMs pool"

lemma newSurfacePool_ok: "newSurfacePool options = Inr pool \<Longrightarrow> pool_ok pool"
  by (auto simp: newSurfacePool_def positiveInteger_def thrown_simps Let_def pool_ok_def split: if_splits)

lemma pool_step_ok: "pool_ok pool \<Longrightarrow> pool_ok (pool_step pool e)"
  by (cases e) (auto simp: pool_ok_def recordStableSuccess_def recordRateLimit_def Let_def)

lemma pool_steps_ok: "pool_ok pool \<Longrightarrow> pool_ok (foldl pool_step pool es)"
  by (induction es arbitrary: pool) (auto dest: pool_step_ok)

lemma recordRateLimit_cooldown:
  assumes "pool_ok pool"
  shows "now < sp_cooldownUntil (recordRateLimit pool now) \<and>
    sp_cooldownUntil (recordRateLimit pool now) \<le> now + sp_maximumCooldownMs pool"
proof -
  have "0 < sp_baseCooldownMs pool * 2 ^ k" for k using assms by (simp add: pool_ok_def)
  then show ?thesis using assms by (simp add: recordRateLimit_def Let_def pool_ok_def)
qed

text \<open>
  Whatever happens to a pool, the number of tasks it allows stays between its two bounds, and a
  rate limit at any moment closes it from then on for at least one millisecond and at most its
  maximum cool-down.
\<close>

theorem pool_stays_in_bounds:
  assumes "newSurfacePool options = Inr pool" and p_def: "p = foldl pool_step pool es"
  shows "sp_minimum pool \<le> sp_current p \<and> sp_current p \<le> sp_maximum pool \<and>
    \<not> canStart (recordRateLimit p now) now \<and>
    canStart (recordRateLimit p now) (now + sp_maximumCooldownMs pool) \<and>
    sp_minimum pool \<le> sp_current (recordRateLimit p now)"
proof -
  have same: "sp_minimum (foldl pool_step q es) = sp_minimum q \<and> sp_maximum (foldl pool_step q es) = sp_maximum q \<and>
      sp_maximumCooldownMs (foldl pool_step q es) = sp_maximumCooldownMs q" for q
  proof (induction es arbitrary: q)
    case (Cons e es)
    then show ?case by (cases e) (simp_all add: recordStableSuccess_def recordRateLimit_def Let_def)
  qed simp
  have "pool_ok p" using pool_steps_ok [OF newSurfacePool_ok [OF assms(1)]] by (simp add: p_def)
  moreover have "sp_minimum p = sp_minimum pool" "sp_maximum p = sp_maximum pool"
    "sp_maximumCooldownMs p = sp_maximumCooldownMs pool"
    using same [of pool] by (simp_all add: p_def)
  ultimately show ?thesis
    using recordRateLimit_cooldown [OF \<open>pool_ok p\<close>, of now]
    by (auto simp: pool_ok_def canStart_def) (simp add: recordRateLimit_def Let_def)
qed

theorem pool_stays_in_bounds_witness:
  "\<exists>pool. newSurfacePool \<lparr>po_initial = None, po_minimum = None, po_maximum = Some 4, po_successWindow = Some 1,
       po_baseCooldownMs = None, po_maximumCooldownMs = None\<rparr> = Inr pool \<and>
     sp_current (foldl pool_step pool [StableSuccess, StableSuccess, StableSuccess, StableSuccess]) \<le> 4"
proof -
  let ?p = "newSurfacePool \<lparr>po_initial = None, po_minimum = None, po_maximum = Some 4, po_successWindow = Some 1,
       po_baseCooldownMs = None, po_maximumCooldownMs = None\<rparr>"
  have "case ?p of Inl _ \<Rightarrow> False | Inr pool \<Rightarrow> sp_maximum pool = 4" by code_simp
  then obtain pool where p: "?p = Inr pool" "sp_maximum pool = 4" by (auto split: sum.splits)
  with pool_stays_in_bounds [OF p(1) refl, of "[StableSuccess, StableSuccess, StableSuccess, StableSuccess]"]
  show ?thesis by auto
qed

end
