(* ===== verification/ExtensionWorld.thy ===== *)
theory ExtensionWorld
  imports ExtensionStorage SurfacePool RunnerPolicy
begin

text \<open>
  The world the browser extension acts in, for the sources under
  \<open>apps/browser-extension/src\<close>. A program changes the durable storage area and performs external
  calls: to the portal, to Chrome's tabs, to the page in a tab, to the storage itself. What such a
  call answers is decided by the \<open>environment\<close>, a record of functions of the history of all calls so
  far; it may answer, make the call throw, or end the program on the spot, as Chrome does when it
  shuts the extension's worker down. Nothing is assumed of it: every behaviour of the portal, of the
  pages and of Chrome, and every moment of a crash, is the behaviour of some environment.
\<close>

subsection \<open>Claims, answers and failures\<close>

text \<open>
  \<open>BrowserExtensionClaim\<close>; its literal fields (\<open>sessionRequirement\<close> and the like) have one value.
\<close>

record browser_extension_claim =
  bc_taskId :: string
  bc_batchId :: string
  bc_brandId :: string
  bc_scopeId :: string
  bc_promptId :: string
  bc_promptText :: string
  bc_sampleIndex :: int
  bc_surfaceTargetKey :: string
  bc_captureRouteKey :: string
  bc_launchUrl :: string
  bc_automationAttemptCount :: int
  bc_leaseToken :: string
  bc_leaseGeneration :: int
  bc_leaseExpiresAt :: string
  bc_postSubmitAssist :: bool
  bc_submitConfirmed :: bool
  bc_runnerSessionId :: "string option"

datatype reconciliation_state = ResumablePre | ResumablePost | Active | Released | Terminal | Blocked

record browser_task_reconciliation =
  tr_state :: reconciliation_state
  tr_taskId :: string
  tr_batchId :: string
  tr_brandId :: string
  tr_surfaceTargetKey :: string
  tr_promptText :: string
  tr_runnerSessionId :: "string option"

datatype adapter_failure_code =
  CodeSignedOut | CodeCaptcha | CodeRateLimited | CodeAccountRestricted | CodePageDrift | CodeResponseTimeout
  | CodePostSubmitUnknown

definition adapter_code_text :: "adapter_failure_code \<Rightarrow> string" where
  "adapter_code_text c =
     (case c of CodeSignedOut \<Rightarrow> ''signed_out'' | CodeCaptcha \<Rightarrow> ''captcha'' | CodeRateLimited \<Rightarrow> ''rate_limited''
      | CodeAccountRestricted \<Rightarrow> ''account_restricted'' | CodePageDrift \<Rightarrow> ''page_drift''
      | CodeResponseTimeout \<Rightarrow> ''response_timeout'' | CodePostSubmitUnknown \<Rightarrow> ''post_submit_unknown'')"

text \<open>
  What is thrown: an \<open>AdapterError\<close>, a \<open>RunnerTabOpenError\<close> with its tab and cause, another
  \<open>Error\<close> with its message, or a value that is no \<open>Error\<close>.
\<close>

datatype failure =
    AdapterError adapter_failure_code runner_stage string
  | RunnerTabOpenError int failure
  | OtherError "string option"

record collected_answer =
  ca_answerText :: string
  ca_pageUrl :: string
  ca_observedAt :: string
  ca_webSearchObserved :: "bool option"
  ca_queryAvailability :: string
  ca_webQueries :: "string list"
  ca_citations :: "(string \<times> string) list"
  ca_adapterVersion :: string

text \<open>Screenshots are byte strings.\<close>

record captured_evidence =
  ce_expectedSegmentCount :: int
  ce_segments :: "string list"
  ce_composite :: "string option"

record runner_failure_input =
  rf_stage :: runner_stage
  rf_code :: string
  rf_reason :: string

record runner_completion_input =
  rc_runnerSessionId :: string
  rc_adapterVersion :: string
  rc_browserVersion :: string
  rc_answer :: collected_answer
  rc_visualEvidence :: visual_evidence

datatype evidence_upload_descriptor = PrimaryEvidence | SegmentEvidence int int

subsection \<open>Calls and their histories\<close>

datatype event =
    RecordSubmitIntent browser_extension_claim string
  | ConfirmSubmitted browser_extension_claim string
  | UploadEvidence browser_extension_claim string string string evidence_upload_descriptor
  | CompleteTask browser_extension_claim runner_completion_input
  | FailTask browser_extension_claim runner_failure_input
  | ClaimNext string string
  | ReconcileTask string string
  | ResumeTask string string runner_stage string
  | OpenTab browser_extension_claim
  | AttachTab int string
  | ActivateTab int
  | ResolveRecoveryTab int string
  | CloseTab int
  | Preflight int
  | OpenNewConversation int
  | PreparePrompt int string
  | SubmitOnce browser_extension_claim int
  | ConfirmOnPage int string
  | ResumeSubmitted int string
  | CollectCurrentAnswer int
  | CaptureEvidence int string
  | StorageGet
  | StorageSet "(string \<times> json) list"
  | StorageRemove "string list"
  | NotifyOperator string

datatype happening = Answered | Rejected | Died

type_synonym history = "(event \<times> happening) list"

datatype 'a reply = Answer 'a | Reject failure | Killed

text \<open>
  \<open>e_stored_when_killed\<close> says whether a storage operation during which the worker is shut down took
  effect. The histories are newest first.
\<close>

record environment =
  e_sha256 :: "string \<Rightarrow> string"
  e_date_parse :: "string \<Rightarrow> int option"
  e_localeCompare :: "string \<Rightarrow> string \<Rightarrow> int"
  e_now :: "history \<Rightarrow> int"
  e_randomSessionId :: "history \<Rightarrow> string"
  e_browserVersion :: string
  e_storage :: "history \<Rightarrow> event \<Rightarrow> unit reply"
  e_stored_when_killed :: "history \<Rightarrow> event \<Rightarrow> bool"
  e_recordSubmitIntent :: "history \<Rightarrow> browser_extension_claim \<Rightarrow> string \<Rightarrow> unit reply"
  e_confirmSubmitted :: "history \<Rightarrow> browser_extension_claim \<Rightarrow> string \<Rightarrow> unit reply"
  e_uploadEvidence :: "history \<Rightarrow> browser_extension_claim \<Rightarrow> string \<Rightarrow> string \<Rightarrow> string \<Rightarrow>
    evidence_upload_descriptor \<Rightarrow> string reply"
  e_completeTask :: "history \<Rightarrow> browser_extension_claim \<Rightarrow> runner_completion_input \<Rightarrow> unit reply"
  e_failTask :: "history \<Rightarrow> browser_extension_claim \<Rightarrow> runner_failure_input \<Rightarrow> bool reply"
  e_claimNext :: "history \<Rightarrow> string \<Rightarrow> string \<Rightarrow> browser_extension_claim option reply"
  e_reconcileTask :: "history \<Rightarrow> string \<Rightarrow> string \<Rightarrow> browser_task_reconciliation reply"
  e_resume :: "history \<Rightarrow> string \<Rightarrow> string \<Rightarrow> runner_stage \<Rightarrow> string \<Rightarrow> browser_extension_claim reply"
  e_open :: "history \<Rightarrow> browser_extension_claim \<Rightarrow> int reply"
  e_tab :: "history \<Rightarrow> event \<Rightarrow> unit reply"
  e_resolveManualRecoveryTab :: "history \<Rightarrow> int \<Rightarrow> string \<Rightarrow> int reply"
  e_collectCurrentAnswer :: "history \<Rightarrow> int \<Rightarrow> collected_answer reply"
  e_captureEvidence :: "history \<Rightarrow> int \<Rightarrow> string \<Rightarrow> captured_evidence reply"
  e_notify :: "history \<Rightarrow> string \<Rightarrow> unit reply"

text \<open>
  The durable area, the history, and, as long as the worker lives, what became of the migration that
  \<open>DeviceStorage\<close> remembers in \<open>#journalMigration\<close>: not started, done, or failed for good, and
  the pools of the surfaces. The last two are the variables of the running task that its \<open>catch\<close>
  block reads.
\<close>

record world =
  w_area :: storage_area
  w_log :: history
  w_migration :: "failure option option"
  w_pools :: "(string \<times> surface_pool) list"
  w_phase :: task_journal_phase
  w_tab :: "int option"

subsection \<open>Programs\<close>

datatype 'a outcome = Done 'a | Thrown failure | Dead

type_synonym 'a prog = "world \<Rightarrow> 'a outcome \<times> world"

definition returnP :: "'a \<Rightarrow> 'a prog" where
  "returnP x w = (Done x, w)"

definition throwP :: "failure \<Rightarrow> 'a prog" where
  "throwP f w = (Thrown f, w)"

definition bindP :: "'a prog \<Rightarrow> ('a \<Rightarrow> 'b prog) \<Rightarrow> 'b prog" where
  "bindP m k w = (case m w of (Done x, w') \<Rightarrow> k x w' | (Thrown f, w') \<Rightarrow> (Thrown f, w') | (Dead, w') \<Rightarrow> (Dead, w'))"

text \<open>\<open>try\<close> with a \<open>catch\<close>: a shut-down of the worker is not caught.\<close>

definition tryP :: "'a prog \<Rightarrow> (failure \<Rightarrow> 'a prog) \<Rightarrow> 'a prog" where
  "tryP m h w = (case m w of (Done x, w') \<Rightarrow> (Done x, w') | (Thrown f, w') \<Rightarrow> h f w' | (Dead, w') \<Rightarrow> (Dead, w'))"

text \<open>The outcome of a part of a program as a value, for what depends on whether it threw.\<close>

definition attemptP :: "'a prog \<Rightarrow> (failure + 'a) prog" where
  "attemptP m w = (case m w of (Done x, w') \<Rightarrow> (Done (Inr x), w') | (Thrown f, w') \<Rightarrow> (Done (Inl f), w') | (Dead, w') \<Rightarrow> (Dead, w'))"

definition historyP :: "history prog" where
  "historyP w = (Done (w_log w), w)"

definition set_phase :: "task_journal_phase \<Rightarrow> unit prog" where
  "set_phase p w = (Done (), w\<lparr>w_phase := p\<rparr>)"

definition set_tab :: "int option \<Rightarrow> unit prog" where
  "set_tab t w = (Done (), w\<lparr>w_tab := t\<rparr>)"

definition liftE :: "error + 'a \<Rightarrow> 'a prog" where
  "liftE m = (case m of Inr x \<Rightarrow> returnP x | Inl e \<Rightarrow> throwP (OtherError (case e of
      PlainError m \<Rightarrow> Some m | RunnerStateError m \<Rightarrow> Some m | BatchStateError m \<Rightarrow> Some m
    | BatchConflictError m \<Rightarrow> Some m | TaskLeaseError m \<Rightarrow> Some m | DatabaseError \<Rightarrow> None)))"

definition log_event :: "event \<Rightarrow> happening \<Rightarrow> world \<Rightarrow> world" where
  "log_event e h w = w\<lparr>w_log := (e, h) # w_log w\<rparr>"

definition perform :: "event \<Rightarrow> (history \<Rightarrow> 'a reply) \<Rightarrow> 'a prog" where
  "perform e f w =
     (case f (w_log w) of
        Answer x \<Rightarrow> (Done x, log_event e Answered w)
      | Reject g \<Rightarrow> (Thrown g, log_event e Rejected w)
      | Killed \<Rightarrow> (Dead, log_event e Died w))"

text \<open>A storage operation that is answered has changed the area, one that is rejected has not.\<close>

definition storageP :: "environment \<Rightarrow> event \<Rightarrow> (storage_area \<Rightarrow> storage_area) \<Rightarrow> unit prog" where
  "storageP env e change w =
     (case e_storage env (w_log w) e of
        Answer _ \<Rightarrow> (Done (), log_event e Answered (w\<lparr>w_area := change (w_area w)\<rparr>))
      | Reject g \<Rightarrow> (Thrown g, log_event e Rejected w)
      | Killed \<Rightarrow> (Dead, log_event e Died
          (if e_stored_when_killed env (w_log w) e then w\<lparr>w_area := change (w_area w)\<rparr> else w)))"

definition storage_get :: "environment \<Rightarrow> storage_area prog" where
  "storage_get env = bindP (storageP env StorageGet id) (\<lambda>_ w. (Done (w_area w), w))"

definition storage_set :: "environment \<Rightarrow> (string \<times> json) list \<Rightarrow> unit prog" where
  "storage_set env items = storageP env (StorageSet items) (area_set items)"

definition storage_remove :: "environment \<Rightarrow> string list \<Rightarrow> unit prog" where
  "storage_remove env keys = storageP env (StorageRemove keys) (area_remove keys)"

lemma log_event_simps [simp]:
  "w_log (log_event e h w) = (e, h) # w_log w" "w_area (log_event e h w) = w_area w"
  "w_migration (log_event e h w) = w_migration w" "w_phase (log_event e h w) = w_phase w"
  "w_tab (log_event e h w) = w_tab w" "w_pools (log_event e h w) = w_pools w"
  by (simp_all add: log_event_def)

end
