(* ===== verification/ApiClient.thy ===== *)
theory ApiClient
  imports PortalService ExtensionWorld
begin

text \<open>
  The extension's client of the portal (\<open>apps/browser-extension/src/api-client.ts\<close>): the bodies it
  sends and what it accepts as an answer. The transport (\<open>fetch\<close>, its time-out) is not modelled: an
  exchange fails with \<open>ApiError\<close> or yields the JSON the portal wrote.
\<close>

subsection \<open>Requests\<close>

datatype api_error = ApiError string "int option"

definition leaseFields :: "browser_extension_claim \<Rightarrow> (string \<times> json) list" where
  "leaseFields claim =
     [(''brandId'', JStr (bc_brandId claim)), (''leaseToken'', JStr (bc_leaseToken claim)),
      (''leaseGeneration'', JNum (bc_leaseGeneration claim))]"

definition versionedLeaseFields :: "browser_extension_claim \<Rightarrow> (string \<times> json) list" where
  "versionedLeaseFields claim =
     leaseFields claim @ [(''adapterVersion'', JStr (CURRENT_ADAPTER_VERSIONS (bc_surfaceTargetKey claim)))]"

definition stage_text :: "runner_stage \<Rightarrow> string" where
  "stage_text s = (case s of PreSubmit \<Rightarrow> ''pre_submit'' | PostSubmit \<Rightarrow> ''post_submit'')"

definition claimNext_body :: "string \<Rightarrow> string \<Rightarrow> json" where
  "claimNext_body brandId surface =
     JObj [(''brandId'', JStr brandId), (''surfaceTargetKeys'', JArr [JStr surface]),
       (''adapterVersion'', JStr (CURRENT_ADAPTER_VERSIONS surface))]"

definition resume_body :: "string \<Rightarrow> runner_stage \<Rightarrow> string \<Rightarrow> json" where
  "resume_body brandId stage surface =
     JObj [(''brandId'', JStr brandId), (''stage'', JStr (stage_text stage)),
       (''adapterVersion'', JStr (CURRENT_ADAPTER_VERSIONS surface))]"

definition reconcileTask_body :: "string \<Rightarrow> json" where
  "reconcileTask_body brandId = JObj [(''brandId'', JStr brandId)]"

definition heartbeatTask_body :: "browser_extension_claim \<Rightarrow> json" where
  "heartbeatTask_body claim = JObj (versionedLeaseFields claim)"

definition submit_body :: "browser_extension_claim \<Rightarrow> string \<Rightarrow> json" where
  "submit_body claim runnerSessionId =
     JObj (versionedLeaseFields claim @ [(''runnerSessionId'', JStr runnerSessionId)])"

definition failTask_body :: "browser_extension_claim \<Rightarrow> runner_failure_input \<Rightarrow> json" where
  "failTask_body claim input =
     JObj (leaseFields claim @ [(''stage'', JStr (stage_text (rf_stage input))), (''code'', JStr (rf_code input)),
       (''reason'', JStr (rf_reason input))])"

subsection \<open>Answers\<close>

definition invalidProtocol :: api_error where
  "invalidProtocol = ApiError ''Browser Runner Portal response violates the extension protocol'' None"

definition client_requiredText :: "json option \<Rightarrow> string \<Rightarrow> nat \<Rightarrow> api_error + string" where
  "client_requiredText value label maximum =
     (case value of
        Some (JStr s) \<Rightarrow>
          if js_trim s = [] \<or> length s > maximum then Inl (ApiError (''Browser Runner '' @ label @ '' is invalid'') None)
          else Inr s
      | _ \<Rightarrow> Inl (ApiError (''Browser Runner '' @ label @ '' is invalid'') None))"

definition client_positiveInteger :: "json option \<Rightarrow> api_error + int" where
  "client_positiveInteger value =
     (case value of Some (JNum n) \<Rightarrow> if \<not> safe_int n \<or> n < 1 then Inl invalidProtocol else Inr n
      | _ \<Rightarrow> Inl invalidProtocol)"

definition requiredBoolean :: "json option \<Rightarrow> api_error + bool" where
  "requiredBoolean value = (case value of Some (JBool b) \<Rightarrow> Inr b | _ \<Rightarrow> Inl invalidProtocol)"

definition requiredSurface :: "json option \<Rightarrow> api_error + string" where
  "requiredSurface value =
     (case value of
        Some (JStr s) \<Rightarrow> if List.member BROWSER_EXTENSION_SURFACES s then Inr s else Inl invalidProtocol
      | _ \<Rightarrow> Inl invalidProtocol)"

definition record_fields :: "json option \<Rightarrow> api_error + (string \<times> json) list" where
  "record_fields value = (case value of Some (JObj fs) \<Rightarrow> Inr fs | _ \<Rightarrow> Inl invalidProtocol)"

definition nullable_session :: "json option \<Rightarrow> api_error + string option" where
  "nullable_session value =
     (if value = Some JNull then Inr None
      else bindE (client_requiredText value ''session id'' 300) (\<lambda>s. Inr (Some s)))"

definition parseClaim :: "(string \<Rightarrow> int option) \<Rightarrow> json \<Rightarrow> string option \<Rightarrow> api_error + browser_extension_claim" where
  "parseClaim other value expectedSurface =
     bindE (record_fields (Some value)) (\<lambda>v.
     bindE (record_fields (field v ''task'')) (\<lambda>task.
     bindE (requiredSurface (field task ''surfaceTargetKey'')) (\<lambda>surface.
     if truthy_text expectedSurface \<and> Some surface \<noteq> expectedSurface then Inl invalidProtocol
     else
     (case browserExtensionSurfaceDefinition surface of
        Inl e \<Rightarrow> Inl invalidProtocol
      | Inr definition \<Rightarrow>
     if field task ''captureRouteKey'' \<noteq> Some (JStr (sd_captureRoute definition)) \<or>
        field task ''launchUrl'' \<noteq> Some (JStr (sd_launchUrl definition)) \<or>
        field task ''sessionRequirement'' \<noteq> Some (JStr ''dedicated_sampling_profile'') \<or>
        field task ''searchRequirement'' \<noteq> Some (JStr ''platform_default'') \<or>
        field task ''evaluationRole'' \<noteq> Some (JStr ''scored'') \<or>
        field task ''minimumEvidenceArtifacts'' \<noteq> Some (JNum 1)
     then Inl invalidProtocol
     else
     bindE (client_requiredText (field v ''leaseExpiresAt'') ''lease expiry'' 50) (\<lambda>leaseExpiresAt.
     if date_parse other leaseExpiresAt = None then Inl invalidProtocol
     else
     bindE (nullable_session (field v ''runnerSessionId'')) (\<lambda>runnerSessionId.
     bindE (client_requiredText (field task ''id'') ''task id'' 200) (\<lambda>taskId.
     bindE (client_requiredText (field task ''batchId'') ''batch id'' 200) (\<lambda>batchId.
     bindE (client_requiredText (field task ''brandId'') ''brand id'' 300) (\<lambda>brandId.
     bindE (client_requiredText (field task ''scopeId'') ''scope id'' 200) (\<lambda>scopeId.
     bindE (client_requiredText (field task ''promptId'') ''prompt id'' 200) (\<lambda>promptId.
     bindE (client_requiredText (field task ''promptText'') ''prompt'' 20000) (\<lambda>promptText.
     bindE (client_positiveInteger (field task ''sampleIndex'')) (\<lambda>sampleIndex.
     bindE (client_positiveInteger (field task ''automationAttemptCount'')) (\<lambda>automationAttemptCount.
     bindE (client_requiredText (field v ''leaseToken'') ''lease token'' 500) (\<lambda>leaseToken.
     bindE (client_positiveInteger (field v ''leaseGeneration'')) (\<lambda>leaseGeneration.
     bindE (requiredBoolean (field v ''postSubmitAssist'')) (\<lambda>postSubmitAssist.
     bindE (requiredBoolean (field v ''submitConfirmed'')) (\<lambda>submitConfirmed.
     Inr \<lparr>bc_taskId = taskId, bc_batchId = batchId, bc_brandId = brandId, bc_scopeId = scopeId,
       bc_promptId = promptId, bc_promptText = promptText, bc_sampleIndex = sampleIndex,
       bc_surfaceTargetKey = surface, bc_captureRouteKey = sd_captureRoute definition,
       bc_launchUrl = sd_launchUrl definition, bc_automationAttemptCount = automationAttemptCount,
       bc_leaseToken = leaseToken, bc_leaseGeneration = leaseGeneration, bc_leaseExpiresAt = leaseExpiresAt,
       bc_postSubmitAssist = postSubmitAssist, bc_submitConfirmed = submitConfirmed,
       bc_runnerSessionId = runnerSessionId\<rparr>))))))))))))))))))"

definition parse_state :: "json option \<Rightarrow> api_error + reconciliation_state" where
  "parse_state value =
     (case value of
        Some (JStr s) \<Rightarrow>
          requireSome invalidProtocol (map_of
            [(''resumable_pre'', ResumablePre), (''resumable_post'', ResumablePost), (''active'', Active),
             (''released'', Released), (''terminal'', Terminal), (''blocked'', Blocked)] s)
      | _ \<Rightarrow> Inl invalidProtocol)"

definition parseTaskReconciliation :: "json \<Rightarrow> string \<Rightarrow> string \<Rightarrow> api_error + browser_task_reconciliation" where
  "parseTaskReconciliation value taskId brandId =
     bindE (record_fields (Some value)) (\<lambda>v.
     bindE (record_fields (field v ''task'')) (\<lambda>task.
     bindE (parse_state (field v ''state'')) (\<lambda>state.
     bindE (client_requiredText (field task ''taskId'') ''task id'' 200) (\<lambda>reconciledTaskId.
     bindE (client_requiredText (field task ''brandId'') ''brand id'' 300) (\<lambda>reconciledBrandId.
     if reconciledTaskId \<noteq> taskId \<or> reconciledBrandId \<noteq> brandId then Inl invalidProtocol
     else
     bindE (nullable_session (field v ''runnerSessionId'')) (\<lambda>runnerSessionId.
     if state = ResumablePost \<and> runnerSessionId = None then Inl invalidProtocol
     else
     bindE (client_requiredText (field task ''batchId'') ''batch id'' 200) (\<lambda>batchId.
     bindE (requiredSurface (field task ''surfaceTargetKey'')) (\<lambda>surface.
     bindE (client_requiredText (field task ''promptText'') ''prompt'' 20000) (\<lambda>promptText.
     Inr \<lparr>tr_state = state, tr_taskId = reconciledTaskId, tr_batchId = batchId, tr_brandId = reconciledBrandId,
       tr_surfaceTargetKey = surface, tr_promptText = promptText, tr_runnerSessionId = runnerSessionId\<rparr>)))))))))"

text \<open>The answers to \<open>claimNext\<close> and \<open>failTask\<close>.\<close>

definition parse_claim_answer ::
  "(string \<Rightarrow> int option) \<Rightarrow> json \<Rightarrow> string \<Rightarrow> api_error + browser_extension_claim option" where
  "parse_claim_answer other response surface =
     bindE (record_fields (Some response)) (\<lambda>r.
     case map_of r ''claim'' of
       None \<Rightarrow> Inl invalidProtocol
     | Some claim \<Rightarrow>
         if claim = JNull then Inr None
         else bindE (parseClaim other claim (Some surface)) (\<lambda>c. Inr (Some c)))"

definition parse_failure_answer :: "json \<Rightarrow> api_error + bool" where
  "parse_failure_answer response =
     bindE (record_fields (Some response)) (\<lambda>r. requiredBoolean (field r ''retryScheduled''))"

subsection \<open>What the portal writes\<close>

definition nullable_text :: "string option \<Rightarrow> json" where
  "nullable_text s = (case s of None \<Rightarrow> JNull | Some t \<Rightarrow> JStr t)"

definition response_task_json :: "response_task \<Rightarrow> json" where
  "response_task_json t =
     JObj [(''id'', JStr (rt_id t)), (''batchId'', JStr (rt_batchId t)), (''brandId'', JStr (rt_brandId t)),
       (''scopeId'', JStr (rt_scopeId t)), (''promptId'', JStr (rt_promptId t)),
       (''promptText'', JStr (rt_promptText t)), (''surfaceTargetKey'', JStr (rt_surfaceTargetKey t)),
       (''captureRouteKey'', JStr (rt_captureRouteKey t)), (''sampleIndex'', JNum (rt_sampleIndex t)),
       (''sessionRequirement'', JStr (session_text (rt_sessionRequirement t))),
       (''searchRequirement'', JStr (search_text (rt_searchRequirement t))),
       (''evaluationRole'', JStr (role_text (rt_evaluationRole t))), (''timezone'', JStr (rt_timezone t)),
       (''market'', JStr (rt_market t)), (''locale'', JStr (rt_locale t)), (''launchUrl'', JStr (rt_launchUrl t)),
       (''minimumEvidenceArtifacts'', JNum (rt_minimumEvidenceArtifacts t)),
       (''automationAttemptCount'', JNum (rt_automationAttemptCount t))]"

definition claim_response_json :: "claim_response \<Rightarrow> json" where
  "claim_response_json r =
     JObj [(''task'', response_task_json (rs_task r)), (''leaseToken'', JStr (rs_leaseToken r)),
       (''leaseGeneration'', JNum (rs_leaseGeneration r)), (''leaseExpiresAt'', JStr (rs_leaseExpiresAt r)),
       (''postSubmitAssist'', JBool (rs_postSubmitAssist r)), (''submitConfirmed'', JBool (rs_submitConfirmed r)),
       (''runnerSessionId'', nullable_text (rs_runnerSessionId r))]"

definition queue_state_text :: "queue_state \<Rightarrow> string" where
  "queue_state_text q =
     (case q of QueueSettled \<Rightarrow> ''settled'' | QueueDrained \<Rightarrow> ''drained'' | QueueWaiting \<Rightarrow> ''waiting'')"

definition claim_answer_json :: "claim_response option \<Rightarrow> queue_state \<Rightarrow> json" where
  "claim_answer_json claim queueState =
     (case claim of
        None \<Rightarrow> JObj [(''claim'', JNull), (''queueState'', JStr (queue_state_text queueState))]
      | Some r \<Rightarrow> JObj [(''claim'', claim_response_json r)])"

definition reconciliation_text :: "exact_reconciliation \<Rightarrow> string" where
  "reconciliation_text s =
     (case s of RecTerminal \<Rightarrow> ''terminal'' | RecReleased \<Rightarrow> ''released'' | RecResumablePre \<Rightarrow> ''resumable_pre''
      | RecResumablePost \<Rightarrow> ''resumable_post'' | RecActive \<Rightarrow> ''active'' | RecBlocked \<Rightarrow> ''blocked'')"

definition reconciliation_json :: "reconciliation_response \<Rightarrow> json" where
  "reconciliation_json r =
     JObj [(''state'', JStr (reconciliation_text (rr_state r))),
       (''task'', JObj [(''taskId'', JStr (rr_taskId r)), (''batchId'', JStr (rr_batchId r)),
          (''brandId'', JStr (rr_brandId r)), (''surfaceTargetKey'', JStr (rr_surfaceTargetKey r)),
          (''promptText'', JStr (rr_promptText r))]),
       (''runnerSessionId'', nullable_text (rr_runnerSessionId r))]"

subsection \<open>Answers reach the extension\<close>

lemma client_requiredText_JStr [simp]:
  "client_requiredText (Some (JStr s)) label n = Inr x \<longleftrightarrow> x = s \<and> js_trim s \<noteq> [] \<and> length s \<le> n"
  by (auto simp: client_requiredText_def)

lemma client_positiveInteger_JNum [simp]: "client_positiveInteger (Some (JNum n)) = Inr x \<longleftrightarrow> x = n \<and> safe_int n \<and> 1 \<le> n"
  by (auto simp: client_positiveInteger_def)

lemma requiredBoolean_JBool [simp]: "requiredBoolean (Some (JBool b)) = Inr b"
  by (simp add: requiredBoolean_def)

lemma nullable_session_text [simp]:
  "nullable_session (Some (nullable_text s)) = Inr x \<longleftrightarrow>
   x = s \<and> (\<forall>t. s = Some t \<longrightarrow> js_trim t \<noteq> [] \<and> length t \<le> 300)"
  by (cases s) (auto simp: nullable_session_def nullable_text_def bindE_Inr_iff)

lemma nullable_text_defined [simp]: "nullable_text s \<noteq> JUndef"
  by (simp add: nullable_text_def split: option.split)

lemma requiredSurface_JStr [simp]:
  "requiredSurface (Some (JStr s)) = Inr x \<longleftrightarrow> x = s \<and> isBrowserExtensionSurface s"
  by (auto simp: requiredSurface_def isBrowserExtensionSurface_def list_ex_iff)

lemma js_trim_blank: "js_trim s = [] \<longleftrightarrow> list_all js_space s"
proof
  assume "js_trim s = []"
  then have "\<forall>c \<in> set (dropWhile js_space s). js_space c" by (simp add: js_trim_def)
  moreover have "\<forall>c \<in> set (takeWhile js_space s). js_space c" by (auto dest: set_takeWhileD)
  ultimately show "list_all js_space s"
    by (metis takeWhile_dropWhile_id Un_iff list_all_iff set_append)
qed (auto simp: js_trim_def list_all_iff dropWhile_eq_Nil_conv [THEN iffD2])

lemma to_iso_readable: "js_trim (to_iso t) \<noteq> [] \<and> length (to_iso t) \<le> 50"
proof
  have "CHR ''Z'' \<in> set (to_iso t)" by (simp add: to_iso_def Let_def)
  moreover have "\<not> js_space CHR ''Z''" by (simp add: js_space_def)
  ultimately show "js_trim (to_iso t) \<noteq> []" by (auto simp: js_trim_blank list_all_iff)
  show "length (to_iso t) \<le> 50" by (simp add: to_iso_def Let_def iso_year_def)
qed

text \<open>The claims the extension accepts, and what it reads.\<close>

definition readable :: "nat \<Rightarrow> string \<Rightarrow> bool" where
  "readable maximum s \<longleftrightarrow> js_trim s \<noteq> [] \<and> length s \<le> maximum"

definition acceptable :: "(string \<Rightarrow> int option) \<Rightarrow> claim_response \<Rightarrow> bool" where
  "acceptable other r \<longleftrightarrow>
     (let t = rs_task r in
      isBrowserExtensionSurface (rt_surfaceTargetKey t) \<and>
      browserExtensionCaptureRoute (rt_surfaceTargetKey t) = Inr (rt_captureRouteKey t) \<and>
      browserRunnerLaunchUrl (rt_surfaceTargetKey t) = Inr (rt_launchUrl t) \<and>
      rt_sessionRequirement t = SessionDedicatedProfile \<and> rt_searchRequirement t = SearchPlatformDefault \<and>
      rt_evaluationRole t = RoleScored \<and> rt_minimumEvidenceArtifacts t = 1 \<and>
      readable 50 (rs_leaseExpiresAt r) \<and> date_parse other (rs_leaseExpiresAt r) \<noteq> None \<and>
      (\<forall>s. rs_runnerSessionId r = Some s \<longrightarrow> readable 300 s) \<and>
      readable 200 (rt_id t) \<and> readable 200 (rt_batchId t) \<and> readable 300 (rt_brandId t) \<and>
      readable 200 (rt_scopeId t) \<and> readable 200 (rt_promptId t) \<and> readable 20000 (rt_promptText t) \<and>
      safe_int (rt_sampleIndex t) \<and> 1 \<le> rt_sampleIndex t \<and>
      safe_int (rt_automationAttemptCount t) \<and> 1 \<le> rt_automationAttemptCount t \<and>
      readable 500 (rs_leaseToken r) \<and> safe_int (rs_leaseGeneration r) \<and> 1 \<le> rs_leaseGeneration r)"

definition received_claim :: "claim_response \<Rightarrow> browser_extension_claim" where
  "received_claim r =
     (let t = rs_task r in
      \<lparr>bc_taskId = rt_id t, bc_batchId = rt_batchId t, bc_brandId = rt_brandId t, bc_scopeId = rt_scopeId t,
       bc_promptId = rt_promptId t, bc_promptText = rt_promptText t, bc_sampleIndex = rt_sampleIndex t,
       bc_surfaceTargetKey = rt_surfaceTargetKey t, bc_captureRouteKey = rt_captureRouteKey t,
       bc_launchUrl = rt_launchUrl t, bc_automationAttemptCount = rt_automationAttemptCount t,
       bc_leaseToken = rs_leaseToken r, bc_leaseGeneration = rs_leaseGeneration r,
       bc_leaseExpiresAt = rs_leaseExpiresAt r, bc_postSubmitAssist = rs_postSubmitAssist r,
       bc_submitConfirmed = rs_submitConfirmed r, bc_runnerSessionId = rs_runnerSessionId r\<rparr>)"

lemma response_task_fields:
  "field fs k = Some (response_task_json t) \<Longrightarrow> record_fields (field fs k) = Inr (case response_task_json t of JObj ts \<Rightarrow> ts)"
  by (simp add: record_fields_def response_task_json_def)

lemma requirement_texts [simp]:
  "session_text s = ''dedicated_sampling_profile'' \<longleftrightarrow> s = SessionDedicatedProfile"
  "search_text q = ''platform_default'' \<longleftrightarrow> q = SearchPlatformDefault"
  "role_text e = ''scored'' \<longleftrightarrow> e = RoleScored"
  by (simp_all add: session_text_def search_text_def role_text_def
      split: delivery_session_requirement.split delivery_search_requirement.split delivery_evaluation_role.split)

lemma field_Cons: "field ((k, v) # fs) x = (if k = x then (if v = JUndef then None else Some v) else field fs x)"
  by (simp add: field_def)

lemma parse_claim_iff:
  "parseClaim other (claim_response_json r) expected = Inr c \<longleftrightarrow>
     (truthy_text expected \<longrightarrow> expected = Some (rt_surfaceTargetKey (rs_task r))) \<and> acceptable other r \<and> c = received_claim r"
proof (cases "isBrowserExtensionSurface (rt_surfaceTargetKey (rs_task r))")
  case True
  then obtain d where d: "browserExtensionSurfaceDefinition (rt_surfaceTargetKey (rs_task r)) = Inr d"
    using isBrowserExtensionSurface_iff surface_definition_iff by blast
  show ?thesis
    by (auto simp: parseClaim_def claim_response_json_def response_task_json_def record_fields_def field_Cons bindE_Inr_iff
        if_Inl_iff d True acceptable_def received_claim_def readable_def browserExtensionCaptureRoute_def
        browserRunnerLaunchUrl_def Let_def)
qed (simp add: parseClaim_def acceptable_def claim_response_json_def response_task_json_def record_fields_def field_Cons bindE_Inr_iff)

end
