(* ===== verification/RunnerResults.thy ===== *)
theory RunnerResults
  imports DeliveryResults
begin

text \<open>What the operations of \<open>BrowserRunner\<close> do when they succeed, and when they must not.\<close>

subsection \<open>An update under a runner's lease\<close>

lemma runner_held_update:
  assumes ok: "db_ok db" and g: "activeRunnerLease sha claim now = Inr held" and q: "\<And>t. q t \<Longrightarrow> held t"
    and u: "update_tasks db q f = Inr (db', t' # out)"
  obtains c where "c \<in> set (d_tasks db)" "q c" "t' = f c" "out = []"
    "d_tasks db' = map (\<lambda>t. if t = c then f c else t) (d_tasks db)" "d_batches db' = d_batches db"
    "task_update_allowed db c (f c)"
proof -
  have "filter q (d_tasks db) \<noteq> []" using update_tasks_InrD(2) [OF u] by auto
  then obtain c where c: "c \<in> set (d_tasks db)" "q c" by (auto simp: filter_empty_conv)
  have "t_id t = t_id c" if "q t" for t
    using activeRunnerLease_holds [OF g] q c(2) that by metis
  note one = single_update [OF ok c this u]
  show thesis
    by (rule that [OF c _ _ one(2, 3, 4)]) (use one(1) in simp_all)
qed

lemma refresh_tasks_same: "refreshBrowserRunnerBatchState db i now = Inr db' \<Longrightarrow> d_tasks db' = d_tasks db"
  by (auto simp: refreshBrowserRunnerBatchState_def thrown_simps Let_def dest!: update_batches_InrD(1))

context lease_gate
begin

lemma find_held:
  assumes "db_ok db" and "gate c now = Inr held" and "t \<in> set (d_tasks db)" and "held t"
  shows "find held (d_tasks db) = Some t"
proof -
  obtain u where u: "find held (d_tasks db) = Some u"
    using assms(3, 4) by (cases "find held (d_tasks db)") (auto simp: find_None_iff)
  then have "u = t"
    using find_SomeD [OF u] gate_holds [OF assms(2)] assms(3, 4) same_id_same_task [OF assms(1)] by metis
  with u show ?thesis by simp
qed

end

lemma activeRunnerLease_later:
  assumes "activeRunnerLease sha claim now = Inr held"
  obtains held' where "activeRunnerLease sha claim later = Inr held'"
    "\<And>t. held t \<Longrightarrow> live_lease t later \<Longrightarrow> held' t"
    "\<And>t s i. held t \<Longrightarrow> live_lease t later \<Longrightarrow> held' (t\<lparr>t_runnerSessionId := s, t_submitIntentAt := i\<rparr>)"
  using assms by (auto simp: activeRunnerLease_def thrown_simps live_lease_def)

subsection \<open>Fencing of runner claims\<close>

text \<open>
  A superseded runner claim is fenced off for good: once a task's lease generation is above that
  of a claim, no submit intent, confirmation or failure reported with that claim is ever accepted.
\<close>

theorem superseded_runner_fenced:
  assumes "db_ok db" and "run_from sha other lc db db'"
    and "t \<in> set (d_tasks db)" and "t_id t = rc_taskId claim" and "t_leaseGeneration t > rc_leaseGeneration claim"
  shows "markBrowserRunnerSubmitIntent sha now claim session db' \<noteq> Inr r1 \<and>
    markBrowserRunnerSubmitConfirmed sha now claim session db' \<noteq> Inr r2 \<and>
    recordBrowserRunnerFailure sha now refreshedAt brandId claim stage code reason db' \<noteq> Inr r3"
proof -
  obtain t' where t': "t' \<in> set (d_tasks db')" "t_id t' = rc_taskId claim"
    "t_leaseGeneration t' \<noteq> rc_leaseGeneration claim" and ok: "db_ok db'"
    using newer_generation [OF assms(1, 2, 3, 5)] assms(4) by (metis less_irrefl)
  have none: "activeRunnerLease sha claim n = Inr held \<Longrightarrow> find held (d_tasks db') = None" for n held
    using runner_lease.superseded(1) [OF ok t'(1, 2)] t'(3) by blast
  show ?thesis
  proof (intro conjI notI)
    assume "markBrowserRunnerSubmitIntent sha now claim session db' = Inr r1"
    then show False using none by (auto simp: markBrowserRunnerSubmitIntent_def thrown_simps)
  next
    assume "markBrowserRunnerSubmitConfirmed sha now claim session db' = Inr r2"
    then show False using none by (auto simp: markBrowserRunnerSubmitConfirmed_def thrown_simps)
  next
    assume "recordBrowserRunnerFailure sha now refreshedAt brandId claim stage code reason db' = Inr r3"
    then show False using none by (auto simp: recordBrowserRunnerFailure_def thrown_simps)
  qed
qed

theorem superseded_runner_fenced_witness:
  "markBrowserRunnerSubmitIntent example_sha 0 (example_runner_claim\<lparr>rc_leaseGeneration := 0\<rparr>) ''s'' example_two \<noteq>
     Inr (example_two, None, None)"
proof -
  have "db_ok example_two" "example_claimed \<in> set (d_tasks example_two)"
    "t_id example_claimed = rc_taskId (example_runner_claim\<lparr>rc_leaseGeneration := 0\<rparr>)"
    "t_leaseGeneration example_claimed > rc_leaseGeneration (example_runner_claim\<lparr>rc_leaseGeneration := 0\<rparr>)"
    by code_simp+
  moreover have "run_from example_sha (\<lambda>_. None) code_unit_compare example_two example_two"
    by (simp add: run_from_def)
  ultimately show ?thesis
    using superseded_runner_fenced [of example_two example_sha "\<lambda>_. None" code_unit_compare example_two] by blast
qed

subsection \<open>The submit boundary\<close>

text \<open>
  Recording a submit intent can be retried: a call that succeeded, repeated by the same runner
  session under the lease it still holds, answers the same intent and changes nothing, so a lost
  response never leads to a second submission.
\<close>

theorem submit_intent_retry:
  assumes "markBrowserRunnerSubmitIntent sha now claim session db = Inr (db', r)" and "db_ok db"
    and "\<exists>t \<in> set (d_tasks db'). t_id t = rc_taskId claim \<and> live_lease t later"
  shows "markBrowserRunnerSubmitIntent sha later claim session db' = Inr (db', r) \<and>
    fst r = Some (js_trim session) \<and> snd r \<noteq> None"
proof -
  let ?s = "js_trim session"
  obtain held task where s: "runner_requiredText session ''runnerSessionId'' 300 = Inr ?s"
    and g: "activeRunnerLease sha claim now = Inr held" and f: "find held (d_tasks db) = Some task"
    using assms(1)
    by (auto simp: markBrowserRunnerSubmitIntent_def runner_requiredText_def Let_def thrown_simps split: if_splits)
  have n: "t_needsHumanCode task = None"
    using assms(1) s g f by (auto simp: markBrowserRunnerSubmitIntent_def split: if_splits)
  have c: "t_submitIntentAt task \<noteq> None \<and> t_runnerSessionId task = Some ?s \<and> db' = db \<and>
         r = (Some ?s, t_submitIntentAt task) \<or>
       t_submitIntentAt task = None \<and> (\<exists>u out. update_tasks db held
         (\<lambda>t. t\<lparr>t_runnerSessionId := Some ?s, t_submitIntentAt := Some now\<rparr>) = Inr (db', u # out) \<and>
         r = (t_runnerSessionId u, t_submitIntentAt u))"
    using assms(1) s g f n
    by (cases "t_submitIntentAt task")
      (auto simp: markBrowserRunnerSubmitIntent_def thrown_simps split: if_splits)
  note task = find_SomeD [OF f]
  obtain held' where g': "activeRunnerLease sha claim later = Inr held'"
    and h': "held task \<Longrightarrow> live_lease task later \<Longrightarrow> held' task"
      "\<And>s i. held task \<Longrightarrow> live_lease task later \<Longrightarrow> held' (task\<lparr>t_runnerSessionId := s, t_submitIntentAt := i\<rparr>)"
    by (rule activeRunnerLease_later [OF g, where later = later]) (rule that)
  have ok': "db_ok db'"
    using db_steps_ok [OF markBrowserRunnerSubmitIntent_steps [OF assms(1, 2)] assms(2)] .
  obtain t' where t': "t' \<in> set (d_tasks db')" "t_id t' = rc_taskId claim" "live_lease t' later"
    using assms(3) by blast
  have id: "t_id task = rc_taskId claim" using activeRunnerLease_holds [OF g] task by blast
  from c show ?thesis
  proof
    assume a: "t_submitIntentAt task \<noteq> None \<and> t_runnerSessionId task = Some ?s \<and> db' = db \<and>
         r = (Some ?s, t_submitIntentAt task)"
    then have "t' = task" using t' id task same_id_same_task [OF assms(2)] by metis
    then have "find held' (d_tasks db') = Some task"
      using runner_lease.find_held [OF ok' g'] a h'(1) task t' by blast
    with a s g' n show ?thesis
      by (simp add: markBrowserRunnerSubmitIntent_def)
  next
    assume "t_submitIntentAt task = None \<and> (\<exists>u out. update_tasks db held
         (\<lambda>t. t\<lparr>t_runnerSessionId := Some ?s, t_submitIntentAt := Some now\<rparr>) = Inr (db', u # out) \<and>
         r = (t_runnerSessionId u, t_submitIntentAt u))"
    then obtain u out where u: "update_tasks db held
         (\<lambda>t. t\<lparr>t_runnerSessionId := Some ?s, t_submitIntentAt := Some now\<rparr>) = Inr (db', u # out)"
      and r: "r = (t_runnerSessionId u, t_submitIntentAt u)" by blast
    have same: "t_id t = t_id task" if "held t" for t
      using activeRunnerLease_holds [OF g] task that by metis
    let ?t = "task\<lparr>t_runnerSessionId := Some ?s, t_submitIntentAt := Some now\<rparr>"
    note one = single_update [OF assms(2) conjunct1 [OF task] conjunct2 [OF task] same u]
    have out: "u = ?t" using one(1) by simp
    have m: "?t \<in> set (d_tasks db')" using task by (force simp: one(2))
    have "t' = ?t" using t' id m same_id_same_task [OF ok'] by simp
    then have "find held' (d_tasks db') = Some ?t"
      using runner_lease.find_held [OF ok' g' m] h'(2) task t'(3) by (simp add: live_lease_def)
    with s g' n r out show ?thesis
      by (simp add: markBrowserRunnerSubmitIntent_def)
  qed
qed

theorem submit_intent_retry_witness:
  "\<exists>db' r. markBrowserRunnerSubmitIntent example_sha example_start example_runner_claim '' s '' example_two = Inr (db', r) \<and>
     markBrowserRunnerSubmitIntent example_sha (example_start + 1) example_runner_claim '' s '' db' = Inr (db', r) \<and>
     fst r = Some ''s''"
proof -
  let ?op = "markBrowserRunnerSubmitIntent example_sha example_start example_runner_claim '' s '' example_two"
  have "case ?op of Inl _ \<Rightarrow> False | Inr (db', _) \<Rightarrow>
      list_ex (\<lambda>t. t_id t = rc_taskId example_runner_claim \<and> live_lease t (example_start + 1)) (d_tasks db')"
    by code_simp
  then obtain db' r where d: "?op = Inr (db', r)"
    "\<exists>t \<in> set (d_tasks db'). t_id t = rc_taskId example_runner_claim \<and> live_lease t (example_start + 1)"
    by (auto simp: list_ex_iff split: sum.splits)
  have "db_ok example_two" "js_trim '' s '' = ''s''" by code_simp+
  with submit_intent_retry [OF d(1) _ d(2)] d(1) show ?thesis by metis
qed

subsection \<open>Claiming\<close>

text \<open>
  C9: claiming for a runner always returns: the endless loop over the candidates ends, because every
  candidate it does not hand out it parks for a human.
\<close>

theorem claimBrowserRunnerTask_returns:
  "\<exists>db' r. claimBrowserRunnerTask sha other expiryClock clock now locked token input db = (db', Some r)"
  using runner_claim_batches_returns
  by (auto simp: claimBrowserRunnerTask_def Let_def split: sum.split prod.split option.split simp del: not_None_eq)

definition handed_out ::
  "(string \<Rightarrow> string) \<Rightarrow> (string \<Rightarrow> bool) \<Rightarrow> string \<Rightarrow> string \<Rightarrow> claim_target list \<Rightarrow> string \<Rightarrow> int \<Rightarrow>
   claimed_delivery_task \<Rightarrow> delivery_task \<Rightarrow> bool" where
  "handed_out sha locked token runnerId targets batchId expiry c t \<longleftrightarrow>
     t_batchId t = batchId \<and> (pl_surfaceTargetKey t, pl_captureRouteKey t) \<in> set targets \<and> \<not> locked (t_id t) \<and>
     t_status t = TaskClaimed \<and> t_automationStatus t = Some AutoRunning \<and>
     t_submitIntentAt t = None \<and> t_needsHumanCode t = None \<and>
     t_automationAttemptCount t \<in> {1, 2} \<and>
     t_claimedBy t = Some (runner_claimant runnerId) \<and> t_leaseTokenHash t = Some (sha (js_trim token)) \<and>
     t_leaseGeneration t > 0 \<and> t_leaseExpiresAt t = Some expiry \<and>
     c = \<lparr>ct_task = redactDeliveryTask t, ct_leaseToken = token, ct_leaseGeneration = t_leaseGeneration t,
       ct_leaseExpiresAt = expiry\<rparr>"

lemma runner_claim_loop_spec:
  assumes "runner_claim_loop sha clock now locked token runnerId d targets batch e n db = Some (Inr (db', Some c))"
    and "db_ok db"
  shows "\<exists>t \<in> set (d_tasks db'). handed_out sha locked token runnerId targets (b_id batch)
    (boundedLeaseExpiry now d e) c t"
  using assms
proof (induction "waiting locked now targets batch db" arbitrary: n db rule: less_induct)
  case less
  let ?loop = "runner_claim_loop sha clock now locked token runnerId d targets batch e"
  let ?goal = "\<exists>t \<in> set (d_tasks db'). handed_out sha locked token runnerId targets (b_id batch)
    (boundedLeaseExpiry now d e) c t"
  obtain cand where cand: "first_unlocked locked (runner_claimable targets (b_id batch) now) db = Some cand"
    using less(2) by (subst (asm) runner_claim_loop.simps) (auto split: option.splits)
  note first = first_unlocked_Some [OF cand]
  have again: ?goal
    if p: "park_candidate db (b_id batch) cand code reason m q = Inr db1"
      and l: "?loop (Suc n) db1 = Some (Inr (db', Some c))" for db1 code reason m q
    by (rule less(1) [OF park_candidate_waiting [OF p cand] l db_steps_ok [OF park_candidate_steps [OF p] less(3)]])
  show ?goal
  proof (cases "expiredBrowserRunnerClaimNeedsHuman (t_status cand) (t_automationStatus cand) \<or>
      t_automationAttemptCount cand \<ge> BROWSER_RUNNER_MAX_PRE_SUBMIT_ATTEMPTS")
    case True
    with less(2) cand again show ?thesis
      by (subst (asm) runner_claim_loop.simps) (auto split: if_splits sum.splits)
  next
    case False
    then have queued: "t_status cand = TaskAvailable" "t_automationStatus cand = Some AutoQueued"
      and few: "t_automationAttemptCount cand < 2"
      using first(2) by (auto simp: runner_claimable_def expiredBrowserRunnerClaimNeedsHuman_def
          BROWSER_RUNNER_MAX_PRE_SUBMIT_ATTEMPTS_def)
    have row: "t_submitIntentAt cand = None" "t_needsHumanCode cand = None" "0 \<le> t_automationAttemptCount cand"
      "0 \<le> t_leaseGeneration cand"
      using db_okD(4) [OF less(3) first(1)] queued
      by (auto simp: task_ok_def task_row_ok_def automation_state_consistent_def automation_case_def
          task_counters_in_range_def)
    let ?f = "\<lambda>t. t\<lparr>t_status := TaskClaimed, t_automationStatus := Some AutoRunning,
          t_automationAttemptCount := t_automationAttemptCount cand + 1,
          t_claimedBy := Some (runner_claimant runnerId), t_leaseTokenHash := Some (sha (js_trim token)),
          t_leaseGeneration := t_leaseGeneration cand + 1,
          t_leaseExpiresAt := Some (boundedLeaseExpiry now d e),
          t_claimCount := t_claimCount cand + 1, t_claimedAt := Some now\<rparr>"
    obtain db1 out where u: "runner_claim_update sha now token runnerId d e cand db = Inr (db1, out)"
      using less(2) cand False by (subst (asm) runner_claim_loop.simps) (auto split: sum.splits)
    then have upd: "update_tasks db (\<lambda>t. t_id t = t_id cand \<and> t_status t = t_status cand \<and>
          t_leaseGeneration t = t_leaseGeneration cand) ?f = Inr (db1, out)"
      by (auto simp: runner_claim_update_def thrown_simps hashToken_def runner_requiredText_def Let_def split: if_splits)
    note one = single_update [OF less(3) first(1) _ _ upd, simplified]
    have c: "c = \<lparr>ct_task = redactDeliveryTask (?f cand), ct_leaseToken = token,
        ct_leaseGeneration = t_leaseGeneration cand + 1, ct_leaseExpiresAt = boundedLeaseExpiry now d e\<rparr>"
      and db': "d_tasks db' = d_tasks db1"
      using less(2) cand False u one(1)
      by (subst (asm) runner_claim_loop.simps, auto simp: thrown_simps split: if_splits dest!: update_batches_InrD(1))+
    have "?f cand \<in> set (d_tasks db')" using first(1) by (force simp: db' one(2))
    moreover have "handed_out sha locked token runnerId targets (b_id batch) (boundedLeaseExpiry now d e) c (?f cand)"
      using first(2, 3) queued few row by (auto simp: handed_out_def c runner_claimable_def)
    ultimately show ?thesis by blast
  qed
qed

lemma runner_claim_batches_spec:
  assumes "runner_claim_batches sha other clock now locked token runnerId d targets bs db = Some (Inr (db', Some c))"
    and "db_ok db"
  obtains b s e t where "b \<in> set bs" "protocol_window other (b_protocol b) = Inr (s, e)" "s \<le> now" "now < e"
    "t \<in> set (d_tasks db')"
    "handed_out sha locked token runnerId targets (b_id b) (boundedLeaseExpiry now d e) c t"
  using assms
proof (induction bs arbitrary: db thesis)
  case (Cons b bs)
  let ?rest = "runner_claim_batches sha other clock now locked token runnerId d targets bs"
  obtain s e where w: "protocol_window other (b_protocol b) = Inr (s, e)"
    using Cons.prems(2) by (auto split: sum.splits)
  have later: thesis if "?rest db1 = Some (Inr (db', Some c))" "db_ok db1" for db1
    by (rule Cons.IH [OF _ that], rule Cons.prems(1)) auto
  show thesis
  proof (cases "now < s \<or> now \<ge> e")
    case True
    with Cons.prems(2) w later Cons.prems(3) show thesis by simp
  next
    case False
    then obtain db1 r where l: "runner_claim_loop sha clock now locked token runnerId d targets b e 0 db =
        Some (Inr (db1, r))"
      and r: "r = None \<and> ?rest db1 = Some (Inr (db', Some c)) \<or> r = Some c \<and> db1 = db'"
      using Cons.prems(2) w by (auto split: option.splits sum.splits)
    from r show thesis
    proof
      assume "r = None \<and> ?rest db1 = Some (Inr (db', Some c))"
      then show thesis using later db_steps_ok [OF runner_claim_loop_steps [OF l Cons.prems(3)] Cons.prems(3)] by blast
    next
      assume "r = Some c \<and> db1 = db'"
      with runner_claim_loop_spec [of sha clock now locked token runnerId d targets b e 0 db db' c] l Cons.prems(3)
      obtain t where "t \<in> set (d_tasks db')"
        "handed_out sha locked token runnerId targets (b_id b) (boundedLeaseExpiry now d e) c t" by blast
      then show thesis using w False by (intro Cons.prems(1) [of b s e t]) auto
    qed
  qed
qed simp

lemma runner_claim_spec:
  assumes "claimBrowserRunnerTask sha other expiryClock clock now locked token input db = (db', Some (Inr (Some c)))"
    and "db_ok db"
  shows "\<exists>b \<in> set (d_batches db'). \<exists>t \<in> set (d_tasks db'). \<exists>s e.
    b_brandId b = ri_brandId input \<and> b_executionMode b = ModeBrowserRunner \<and>
    protocol_window other (b_protocol b) = Inr (s, e) \<and> s \<le> now \<and> now < ct_leaseExpiresAt c \<and>
    ct_leaseExpiresAt c \<le> e \<and> ct_leaseExpiresAt c \<le> now + 3600000 \<and>
    handed_out sha locked token (js_trim (ri_runnerId input))
      (case ri_captureTargets input of None \<Rightarrow> [(''doubao.consumer_web'', ''browser_runner.doubao'')] | Some ts \<Rightarrow> ts)
      (b_id b) (ct_leaseExpiresAt c) c t"
proof -
  let ?targets = "case ri_captureTargets input of None \<Rightarrow> [(''doubao.consumer_web'', ''browser_runner.doubao'')] | Some ts \<Rightarrow> ts"
  obtain d db1 k bs where d: "runner_validLeaseDuration (ri_leaseDurationMs input) = Inr d"
    and r: "reconcileExpiredBrowserRunnerBatches other expiryClock (ri_brandId input) db = (db1, Inr k)"
    and bs: "\<forall>b \<in> set bs. b \<in> set (d_batches db1) \<and> b_brandId b = ri_brandId input \<and> b_executionMode b = ModeBrowserRunner"
    and run: "runner_claim_batches sha other clock now locked token (js_trim (ri_runnerId input)) d ?targets bs db1 =
      Some (Inr (db', Some c))"
  proof -
    obtain d where d: "runner_validLeaseDuration (ri_leaseDurationMs input) = Inr d"
      and i: "runner_requiredText (ri_runnerId input) ''runnerId'' 200 = Inr (js_trim (ri_runnerId input))"
      using assms(1)
      by (cases "runner_validLeaseDuration (ri_leaseDurationMs input)")
        (auto simp: claimBrowserRunnerTask_def runner_requiredText_def Let_def split: if_splits)
    obtain db1 k where r: "reconcileExpiredBrowserRunnerBatches other expiryClock (ri_brandId input) db = (db1, Inr k)"
      using assms(1) d i
      by (cases "reconcileExpiredBrowserRunnerBatches other expiryClock (ri_brandId input) db"; cases "snd (reconcileExpiredBrowserRunnerBatches other expiryClock (ri_brandId input) db)")
        (auto simp: claimBrowserRunnerTask_def Let_def split: if_splits)
    let ?bs = "sort_key b_createdAt (filter (\<lambda>b.
                     b_brandId b = ri_brandId input \<and> b_executionMode b = ModeBrowserRunner \<and>
                     b_automationStatus b = Some RunnerRunning \<and> inProgressDeliveryBatch (b_status b) \<and>
                     (truthy_text (ri_batchId input) \<longrightarrow> Some (b_id b) = ri_batchId input) \<and>
                     \<not> locked (b_id b)) (d_batches db1))"
    have "runner_claim_batches sha other clock now locked token (js_trim (ri_runnerId input)) d ?targets ?bs db1 =
      Some (Inr (db', Some c))"
      using assms(1) d i r by (auto simp: claimBrowserRunnerTask_def Let_def split: if_splits option.splits sum.splits)
    then show thesis using d r by (intro that [of d db1 k ?bs]) auto
  qed
  have ok1: "db_ok db1"
    using db_steps_ok [OF reconcileExpiredBrowserRunnerBatches_steps assms(2)] r by (metis fst_conv)
  obtain b s e t where b: "b \<in> set bs" and w: "protocol_window other (b_protocol b) = Inr (s, e)" "s \<le> now" "now < e"
    and t: "t \<in> set (d_tasks db')"
      "handed_out sha locked token (js_trim (ri_runnerId input)) ?targets (b_id b) (boundedLeaseExpiry now d e) c t"
    by (rule runner_claim_batches_spec [OF run ok1])
  obtain b' where b': "b' \<in> set (d_batches db')" "batch_identity b' = batch_identity b"
    using db_steps_evolve [OF runner_claim_batches_steps [OF run ok1]] bs b
    unfolding evolves_def batch_evolves_def by blast
  have "0 < d" "d \<le> 3600000" using d by (auto simp: runner_validLeaseDuration_def Let_def split: if_splits)
  moreover have x: "ct_leaseExpiresAt c = boundedLeaseExpiry now d e" using t(2) by (simp add: handed_out_def)
  ultimately have "now < ct_leaseExpiresAt c" "ct_leaseExpiresAt c \<le> e" "ct_leaseExpiresAt c \<le> now + 3600000"
    using w(3) by (simp_all add: boundedLeaseExpiry_def)
  then show ?thesis
    using b' bs b w(1, 2) t x
    by (intro bexI [of _ b'] bexI [of _ t] exI [of _ s] exI [of _ e]) (auto simp: batch_identity_def)
qed

text \<open>
  C8: a runner is only ever handed a task for which no submit intent exists and which was tried at
  most once before: the task is of the requested surfaces and of a started batch of the brand inside
  its window, is now claimed by that runner alone under the hash of the returned token, and its
  lease lies in the future and ends with the window at the latest.
\<close>

theorem runner_claim_is_safe:
  assumes "claimBrowserRunnerTask sha other expiryClock clock now locked token input db = (db', Some (Inr (Some c)))"
    and "db_ok db"
  shows "\<exists>b \<in> set (d_batches db'). \<exists>t \<in> set (d_tasks db'). \<exists>s e.
    b_brandId b = ri_brandId input \<and> b_executionMode b = ModeBrowserRunner \<and>
    protocol_window other (b_protocol b) = Inr (s, e) \<and> s \<le> now \<and> now < ct_leaseExpiresAt c \<and>
    ct_leaseExpiresAt c \<le> e \<and> ct_leaseExpiresAt c \<le> now + 3600000 \<and>
    handed_out sha locked token (js_trim (ri_runnerId input))
      (case ri_captureTargets input of None \<Rightarrow> [(''doubao.consumer_web'', ''browser_runner.doubao'')] | Some ts \<Rightarrow> ts)
      (b_id b) (ct_leaseExpiresAt c) c t"
  by (rule runner_claim_spec [OF assms])

declare runner_claim_loop.simps [code]

definition example_runner_input :: runner_claim_input where
  "example_runner_input = \<lparr>ri_brandId = ''b'', ri_batchId = None, ri_runnerId = '' r '', ri_leaseDurationMs = None,
     ri_captureTargets = Some [(''kimi.consumer_web'', ''browser_extension.kimi'')]\<rparr>"

theorem runner_claim_is_safe_witness:
  "\<exists>db' c. claimBrowserRunnerTask example_sha (\<lambda>_. None) (\<lambda>_. example_start) (\<lambda>_. example_start) example_start (\<lambda>_. False)
      '' t '' example_runner_input example_database = (db', Some (Inr (Some c))) \<and>
     (\<exists>t \<in> set (d_tasks db'). t_submitIntentAt t = None \<and> t_claimedBy t = Some ''browser-runner:r'')"
proof -
  let ?op = "claimBrowserRunnerTask example_sha (\<lambda>_. None) (\<lambda>_. example_start) (\<lambda>_. example_start) example_start
      (\<lambda>_. False) '' t '' example_runner_input example_database"
  have "case ?op of (_, Some (Inr (Some _))) \<Rightarrow> True | _ \<Rightarrow> False" by code_simp
  then obtain db' c where d: "?op = (db', Some (Inr (Some c)))"
    by (auto split: prod.splits option.splits sum.splits)
  have ok: "db_ok example_database" by (rule example_database_ok)
  have "js_trim (ri_runnerId example_runner_input) = ''r''" by code_simp
  with runner_claim_is_safe [OF d ok] d show ?thesis
    by (auto simp: handed_out_def runner_claimant_def)
qed

end
