(* ===== verification/RunnerRecovery.thy ===== *)
theory RunnerRecovery
  imports RunnerResults
begin

text \<open>
  What becomes of tasks that no runner finished: reconciliation after a vanished runner, the
  operator's terminal dispositions, and the daily settlement.
\<close>

subsection \<open>Reconciliation\<close>

lemma redact_unleased: "t_leaseTokenHash t = None \<Longrightarrow> redactDeliveryTask t = t"
  by (cases t) (simp add: redactDeliveryTask_def)

lemma reconcile_run:
  assumes run: "reconcileBrowserRunnerTask now markedAt refreshedAt brandId taskId runnerId db = Inr (db', st, t)"
  obtains ident and b :: delivery_batch and t0 where
    "find (\<lambda>u. t_id u = taskId \<and> pl_brandId u = brandId) (d_tasks db) = Some ident"
    "find (\<lambda>u. t_id u = taskId \<and> t_batchId u = b_id b) (d_tasks db) = Some t0"
    "st = reconcileBrowserRunnerExactTask (t_status t0) (t_automationStatus t0) (t_submitIntentAt t0)
        (t_claimedBy t0) (runner_claimant (js_trim runnerId)) (t_leaseExpiresAt t0) now"
    "if (st = RecResumablePre \<or> st = RecResumablePost) \<and> t_status t0 = TaskClaimed \<and>
          t_automationStatus t0 = Some AutoRunning
        then \<exists>u. park_candidate db (t_batchId t0) t0 (vanished_runner_code (st = RecResumablePost))
               (vanished_runner_reason (st = RecResumablePost)) markedAt refreshedAt = Inr db' \<and>
             task_by_id db' (t_id t0) = Some u \<and> t = redactDeliveryTask u
        else db' = db \<and> t = redactDeliveryTask t0"
proof -
  obtain ident b t0 where ident: "runner_requiredText runnerId ''runnerId'' 200 = Inr (js_trim runnerId)"
      "find (\<lambda>u. t_id u = taskId \<and> pl_brandId u = brandId) (d_tasks db) = Some ident"
      "find_batch db brandId (t_batchId ident) = Some b" "b_executionMode b = ModeBrowserRunner"
    and t0: "find (\<lambda>u. t_id u = taskId \<and> t_batchId u = b_id b) (d_tasks db) = Some t0"
    using run
    by (auto simp: reconcileBrowserRunnerTask_def runner_requiredText_def thrown_simps Let_def split: if_splits)
  note run' = run [unfolded reconcileBrowserRunnerTask_def ident bindE_simps Let_def requireSome_simps t0]
  have st: "st = reconcileBrowserRunnerExactTask (t_status t0) (t_automationStatus t0) (t_submitIntentAt t0)
        (t_claimedBy t0) (runner_claimant (js_trim runnerId)) (t_leaseExpiresAt t0) now"
    using run' by (auto simp: ident(4) thrown_simps split: if_splits)
  show thesis
    using run' [folded st] by (intro that [OF ident(2) t0 st]) (auto simp: ident(4) thrown_simps split: if_splits)
qed

text \<open>
  When a reconciliation answers that a task can be resumed, the task it returns is in the
  database as returned, the same runner is not denied its resumption, and the stage it announces is
  the one the resumption will find.
\<close>

theorem reconciled_task_resumable:
  assumes "reconcileBrowserRunnerTask now markedAt refreshedAt brandId taskId runnerId db = Inr (db', st, t)"
    and "db_ok db" and "st = RecResumablePre \<or> st = RecResumablePost"
  shows "t_leaseTokenHash t = None \<and> t \<in> set (d_tasks db') \<and>
    browserRunnerResumeDenial (t_status t) (t_automationStatus t) (t_claimedBy t)
      (runner_claimant (js_trim runnerId)) = None \<and>
    (st = RecResumablePre \<longleftrightarrow> t_submitIntentAt t = None)"
proof -
  let ?claimant = "runner_claimant (js_trim runnerId)"
  obtain b :: delivery_batch and t0 where t0: "find (\<lambda>u. t_id u = taskId \<and> t_batchId u = b_id b) (d_tasks db) = Some t0"
    and st: "st = reconcileBrowserRunnerExactTask (t_status t0) (t_automationStatus t0) (t_submitIntentAt t0)
        (t_claimedBy t0) ?claimant (t_leaseExpiresAt t0) now"
    and c: "if (st = RecResumablePre \<or> st = RecResumablePost) \<and> t_status t0 = TaskClaimed \<and>
          t_automationStatus t0 = Some AutoRunning
        then \<exists>u. park_candidate db (t_batchId t0) t0 (vanished_runner_code (st = RecResumablePost))
               (vanished_runner_reason (st = RecResumablePost)) markedAt refreshedAt = Inr db' \<and>
             task_by_id db' (t_id t0) = Some u \<and> t = redactDeliveryTask u
        else db' = db \<and> t = redactDeliveryTask t0"
    by (rule reconcile_run [OF assms(1)])
  have m: "t0 \<in> set (d_tasks db)" using find_SomeD [OF t0] by blast
  have owner: "t_claimedBy t0 = Some ?claimant"
    and stage: "st = RecResumablePre \<longleftrightarrow> t_submitIntentAt t0 = None"
    and which: "t_status t0 = TaskAvailable \<and> t_automationStatus t0 = Some AutoNeedsHuman \<or>
      t_status t0 = TaskClaimed \<and> t_automationStatus t0 = Some AutoRunning"
    using st assms(3) by (auto simp: reconcileBrowserRunnerExactTask_def split: if_splits option.splits)
  from which show ?thesis
  proof
    assume a: "t_status t0 = TaskAvailable \<and> t_automationStatus t0 = Some AutoNeedsHuman"
    then have "t_leaseTokenHash t0 = None"
      using db_okD(4) [OF assms(2) m] by (simp add: task_ok_def task_row_ok_def lease_state_consistent_def)
    with a c m owner stage show ?thesis
      by (simp add: redact_unleased browserRunnerResumeDenial_def)
  next
    assume a: "t_status t0 = TaskClaimed \<and> t_automationStatus t0 = Some AutoRunning"
    then obtain db1 u where k: "markTaskNeedsHuman db t0 (vanished_runner_code (st = RecResumablePost))
               (vanished_runner_reason (st = RecResumablePost)) markedAt = Inr db1"
        "refreshBrowserRunnerBatchState db1 (t_batchId t0) refreshedAt = Inr db'"
      and u: "task_by_id db' (t_id t0) = Some u" "t = redactDeliveryTask u"
      using c assms(3) by (auto simp: park_candidate_def thrown_simps)
    obtain out where "update_tasks db (\<lambda>u. t_id u = t_id t0)
        (to_needs_human ''BrowserRunnerNeedsHuman'' (vanished_runner_code (st = RecResumablePost))
          (vanished_runner_reason (st = RecResumablePost)) markedAt) = Inr (db1, out)" (is "update_tasks db _ ?f = _")
      using k(1) by (auto simp: markTaskNeedsHuman_def thrown_simps)
    from single_update(2) [OF assms(2) m _ _ this] refresh_tasks_same [OF k(2)]
    have rows: "d_tasks db' = map (\<lambda>u. if u = t0 then ?f t0 else u) (d_tasks db)" by simp
    have "u \<in> set (d_tasks db')" "t_id u = t_id t0" using task_by_id_Some [OF u(1)] by simp_all
    moreover have "v = t0" if "v \<in> set (d_tasks db)" "t_id v = t_id t0" for v
      using same_id_same_task [OF assms(2) that(1) m that(2)] .
    ultimately have "u = ?f t0" by (auto simp: rows)
    moreover have "?f t0 \<in> set (d_tasks db')" using m by (force simp: rows)
    ultimately show ?thesis
      using owner stage u(2) redact_unleased [of "?f t0"]
      by (simp add: browserRunnerResumeDenial_def row_edits)
  qed
qed

theorem reconciled_task_resumable_witness:
  "\<exists>db' t. reconcileBrowserRunnerTask (example_start + 900001) (example_start + 900002) (example_start + 900003)
       ''b'' ''c'' '' r '' example_submitted_database = Inr (db', RecResumablePost, t) \<and>
     browserRunnerResumeDenial (t_status t) (t_automationStatus t) (t_claimedBy t) ''browser-runner:r'' = None \<and>
     t_submitIntentAt t \<noteq> None"
proof -
  let ?op = "reconcileBrowserRunnerTask (example_start + 900001) (example_start + 900002) (example_start + 900003)
       ''b'' ''c'' '' r '' example_submitted_database"
  have "case ?op of Inl _ \<Rightarrow> False | Inr (_, st, _) \<Rightarrow> st = RecResumablePost" by code_simp
  then obtain db' t where d: "?op = Inr (db', RecResumablePost, t)" by (auto split: sum.splits)
  have ok: "db_ok example_submitted_database" by code_simp
  have "runner_claimant (js_trim '' r '') = ''browser-runner:r''" by code_simp
  with reconciled_task_resumable [OF d ok] d show ?thesis by auto
qed

subsection \<open>Terminal dispositions\<close>

text \<open>
  C14: the confirmation of a terminal failure is never carried out: it turns an available task into a
  failed one, which the database's trigger forbids.
\<close>

theorem confirm_terminal_failure_rejected:
  "confirmBrowserRunnerTerminalFailure now brandId taskId confirmedBy reason db \<noteq> Inr r"
proof
  assume "confirmBrowserRunnerTerminalFailure now brandId taskId confirmedBy reason db = Inr r"
  then obtain f db1 u out where u: "update_tasks db (awaiting_disposition taskId) f = Inr (db1, u # out)"
    and f: "\<And>t. t_status (f t) = TaskFailed"
    by (auto simp: confirmBrowserRunnerTerminalFailure_def thrown_simps Let_def terminally_failed_def)
  have "filter (awaiting_disposition taskId) (d_tasks db) \<noteq> []"
    using update_tasks_InrD(2) [OF u] by auto
  then obtain t where t: "t \<in> set (d_tasks db)" "awaiting_disposition taskId t" by (auto simp: filter_empty_conv)
  from update_tasks_InrD(3) [OF u t] t(2) f show False
    by (simp add: task_update_allowed_def task_status_step_def awaiting_disposition_def)
qed

lemma paths_available:
  "mapE (\<lambda>t. browserRunnerNeedsHumanFinalizationPath (t_status t)) ts = Inr paths \<Longrightarrow>
   length (filter (\<lambda>p. hd p = TaskClaimed) paths) = length (filter (\<lambda>t. t_status t = TaskAvailable) ts)"
  by (induction ts arbitrary: paths)
    (auto simp: thrown_simps browserRunnerNeedsHumanFinalizationPath_def split: if_splits)

text \<open>The two updates of a finalisation: the private claim, and the terminal failure.\<close>

definition unclaimed_disposition :: "string \<Rightarrow> delivery_task \<Rightarrow> bool" where
  "unclaimed_disposition batchId t \<longleftrightarrow>
     t_batchId t = batchId \<and> t_status t = TaskAvailable \<and> t_automationStatus t = Some AutoNeedsHuman \<and>
     t_needsHumanCode t \<noteq> None"

definition private_claim :: "string \<Rightarrow> int \<Rightarrow> delivery_task \<Rightarrow> delivery_task" where
  "private_claim h now t = t\<lparr>t_status := TaskClaimed, t_automationStatus := Some AutoRunning,
     t_leaseTokenHash := Some h, t_leaseGeneration := t_leaseGeneration t + 1, t_leaseExpiresAt := Some now\<rparr>"

definition ended_disposition :: "string \<Rightarrow> int \<Rightarrow> delivery_task \<Rightarrow> bool" where
  "ended_disposition batchId now t \<longleftrightarrow>
     t_batchId t = batchId \<and> t_status t = TaskClaimed \<and> t_needsHumanCode t \<noteq> None \<and>
     (case t_leaseExpiresAt t of None \<Rightarrow> False | Some e \<Rightarrow> e \<le> now)"

abbreviation unresolved_tasks :: "database \<Rightarrow> string \<Rightarrow> delivery_task list" where
  "unresolved_tasks db i \<equiv>
     filter (\<lambda>t. t_batchId t = i \<and> (t_status t = TaskAvailable \<or> t_status t = TaskClaimed)) (d_tasks db)"

lemma private_claim_allowed:
  "task_update_allowed db t (private_claim h now t) \<Longrightarrow> t_claimedBy t \<noteq> None \<and> t_claimedAt t \<noteq> None"
  by (simp add: task_update_allowed_def task_row_ok_def lease_state_consistent_def private_claim_def)

lemma finalize_rows:
  assumes "finalizeBrowserRunnerNeedsHuman now h brandId batchId confirmedBy reason db = Inr (db', n, st)"
  obtains r c where
    "d_tasks db' = set_where (ended_disposition batchId now)
       (\<lambda>t. terminally_failed now (t_needsHumanCode t) (finalization_message r c t) t)
       (set_where (unclaimed_disposition batchId) (private_claim h now) (d_tasks db))"
    "n = length (unresolved_tasks db batchId)" "unresolved_tasks db batchId \<noteq> []"
    "\<forall>t \<in> set (unresolved_tasks db batchId). \<not> not_finalizable t now"
    "\<forall>t \<in> set (d_tasks db). unclaimed_disposition batchId t \<longrightarrow> t_claimedBy t \<noteq> None \<and> t_claimedAt t \<noteq> None"
proof -
  let ?un = "unresolved_tasks db batchId"
  let ?c = "sanitizeDiagnostic (js_trim confirmedBy)" and ?r = "sanitizeDiagnostic (js_trim reason)"
  let ?g = "\<lambda>t. terminally_failed now (t_needsHumanCode t) (finalization_message ?r ?c t) t"
  obtain b paths where b: "runner_requiredText confirmedBy ''confirmedBy'' 300 = Inr (js_trim confirmedBy)"
      "runner_requiredText reason ''reason'' 1000 = Inr (js_trim reason)"
      "find_batch db brandId batchId = Some b" "b_executionMode b = ModeBrowserRunner"
    and paths: "mapE (\<lambda>t. browserRunnerNeedsHumanFinalizationPath (t_status t)) ?un = Inr paths"
    and some: "?un \<noteq> []" and fin: "\<not> list_ex (\<lambda>t. not_finalizable t now) ?un"
    using assms
    by (auto simp: finalizeBrowserRunnerNeedsHuman_def runner_requiredText_def thrown_simps Let_def
        split: if_splits dest!: find_batch_Some)
  have bid: "b_id b = batchId" using find_batch_Some [OF b(3)] by simp
  note run = assms [unfolded finalizeBrowserRunnerNeedsHuman_def b(1-3) bindE_simps Let_def requireSome_simps
      paths bid paths_available [OF paths], folded unclaimed_disposition_def ended_disposition_def private_claim_def]
  obtain db1 db2 out where one: "(\<exists>out. update_tasks db (unclaimed_disposition batchId) (private_claim h now) = Inr (db1, out)) \<or>
        filter (\<lambda>t. t_status t = TaskAvailable) ?un = [] \<and> db1 = db"
    and two: "update_tasks db1 (ended_disposition batchId now) ?g = Inr (db2, out)"
    and n: "n = length out" "length out = length ?un" and s: "settleDeliveryBatch db2 batchId now = Inr db'"
    using run by (auto simp: b(4) paths bid paths_available [OF paths] thrown_simps split: if_splits)
  have "d_tasks db1 = set_where (unclaimed_disposition batchId) (private_claim h now) (d_tasks db)"
    using one by (auto simp: filter_empty_conv unclaimed_disposition_def dest: update_tasks_InrD(1)
        intro!: set_where_none [symmetric])
  then have rows: "d_tasks db' = set_where (ended_disposition batchId now) ?g
      (set_where (unclaimed_disposition batchId) (private_claim h now) (d_tasks db))"
    using settle_tasks_same [OF s] update_tasks_InrD(1) [OF two] by simp
  have "t_claimedBy t \<noteq> None \<and> t_claimedAt t \<noteq> None"
    if "t \<in> set (d_tasks db)" "unclaimed_disposition batchId t" for t
    using one
  proof
    assume "\<exists>out. update_tasks db (unclaimed_disposition batchId) (private_claim h now) = Inr (db1, out)"
    then obtain out where "update_tasks db (unclaimed_disposition batchId) (private_claim h now) = Inr (db1, out)" ..
    from private_claim_allowed [OF update_tasks_InrD(3) [OF this that]] show ?thesis .
  qed (use that in \<open>auto simp: filter_empty_conv unclaimed_disposition_def\<close>)
  then show thesis using that [OF rows] n some fin by (simp add: list_ex_iff) blast
qed

text \<open>
  C12: a finalisation that succeeds turned every unresolved task of the batch into a terminal failure
  that keeps its hand-over code, and touched no other task; each of them had been claimed before,
  because the database refuses the private claim of a task that was handed over without any.
\<close>

theorem finalize_fails_all_claimed:
  assumes "finalizeBrowserRunnerNeedsHuman now h brandId batchId confirmedBy reason db = Inr (db', n, st)"
    and "db_ok db"
  shows "let unresolved = filter (\<lambda>t. t_status t = TaskAvailable \<or> t_status t = TaskClaimed) (batch_tasks db batchId) in
    unresolved \<noteq> [] \<and> n = length unresolved \<and>
    (\<forall>t \<in> set unresolved. t_needsHumanCode t \<noteq> None \<and> t_claimedBy t \<noteq> None \<and> t_claimedAt t \<noteq> None \<and>
       \<not> (t_status t = TaskClaimed \<and> live_lease t now) \<and>
       (\<exists>t' \<in> set (d_tasks db'). t_id t' = t_id t \<and> t_status t' = TaskFailed \<and>
          t_lastErrorCode t' = t_needsHumanCode t \<and> t_failedAt t' = Some now)) \<and>
    (\<forall>t \<in> set (d_tasks db). t \<notin> set unresolved \<longrightarrow> t \<in> set (d_tasks db'))"
proof -
  let ?un = "unresolved_tasks db batchId"
  obtain r c where
    rows: "d_tasks db' = set_where (ended_disposition batchId now)
       (\<lambda>t. terminally_failed now (t_needsHumanCode t) (finalization_message r c t) t)
       (set_where (unclaimed_disposition batchId) (private_claim h now) (d_tasks db))"
    and n: "n = length ?un" "?un \<noteq> []" and fin: "\<forall>t \<in> set ?un. \<not> not_finalizable t now"
    and claimed: "\<forall>t \<in> set (d_tasks db). unclaimed_disposition batchId t \<longrightarrow> t_claimedBy t \<noteq> None \<and> t_claimedAt t \<noteq> None"
    by (rule finalize_rows [OF assms(1)])
  let ?g = "\<lambda>t. terminally_failed now (t_needsHumanCode t) (finalization_message r c t) t"
  have un: "filter (\<lambda>t. t_status t = TaskAvailable \<or> t_status t = TaskClaimed) (batch_tasks db batchId) = ?un"
    by (simp add: batch_tasks_def conj_commute)
  have image: "(let u = if unclaimed_disposition batchId t then private_claim h now t else t
      in if ended_disposition batchId now u then ?g u else u) \<in> set (d_tasks db')" if "t \<in> set (d_tasks db)" for t
    using that by (simp only: rows set_where_def set_map image_image Let_def) blast
  have each: "t_needsHumanCode t \<noteq> None \<and> t_claimedBy t \<noteq> None \<and> t_claimedAt t \<noteq> None \<and>
       \<not> (t_status t = TaskClaimed \<and> live_lease t now) \<and>
       (\<exists>t' \<in> set (d_tasks db'). t_id t' = t_id t \<and> t_status t' = TaskFailed \<and>
          t_lastErrorCode t' = t_needsHumanCode t \<and> t_failedAt t' = Some now)" if t: "t \<in> set ?un" for t
  proof (cases "t_status t = TaskAvailable")
    case True
    have m: "t \<in> set (d_tasks db)" "t_batchId t = batchId" and f: "\<not> not_finalizable t now" using t fin by auto
    with True db_okD(4) [OF assms(2) m(1)] have p: "unclaimed_disposition batchId t"
      by (auto simp: unclaimed_disposition_def not_finalizable_def task_ok_def task_row_ok_def
          automation_state_consistent_def automation_case_def)
    then have "?g (private_claim h now t) \<in> set (d_tasks db')"
      using image [OF m(1)] by (simp add: Let_def private_claim_def ended_disposition_def unclaimed_disposition_def)
    then show ?thesis using claimed m(1) p True
      by (auto simp: row_edits private_claim_def unclaimed_disposition_def intro!: bexI [of _ "?g (private_claim h now t)"])
  next
    case False
    with t have m: "t \<in> set (d_tasks db)" "t_batchId t = batchId" and f: "\<not> not_finalizable t now"
      and c: "t_status t = TaskClaimed" using fin by auto
    with db_okD(4) [OF assms(2) m(1)] have q: "ended_disposition batchId now t" "t_claimedBy t \<noteq> None" "t_claimedAt t \<noteq> None"
      by (auto simp: ended_disposition_def not_finalizable_def task_ok_def task_row_ok_def lease_state_consistent_def
          live_lease_def split: option.splits)
    then have "?g t \<in> set (d_tasks db')"
      using image [OF m(1)] c by (simp add: Let_def unclaimed_disposition_def)
    then show ?thesis using q c f
      by (auto simp: row_edits not_finalizable_def intro!: bexI [of _ "?g t"])
  qed
  have "t \<in> set (d_tasks db')" if "t \<in> set (d_tasks db)" "t \<notin> set ?un" for t
    using image [OF that(1)] that
    by (auto simp: Let_def unclaimed_disposition_def ended_disposition_def split: if_splits)
  with each show ?thesis unfolding un Let_def using n by blast
qed

definition example_handed_over :: database where
  "example_handed_over =
     database_with (example_batch\<lparr>b_automationStatus := Some RunnerNeedsHuman, b_plannedTaskCount := 1\<rparr>) [example_waiting]"

theorem finalize_fails_all_claimed_witness:
  "\<exists>db' st. finalizeBrowserRunnerNeedsHuman 7 (example_sha ''h'') ''b'' ''B'' ''ann'' ''gave up'' example_handed_over =
       Inr (db', 1, st) \<and> (\<exists>t' \<in> set (d_tasks db'). t_status t' = TaskFailed \<and> t_lastErrorCode t' = Some ''captcha'')"
proof -
  let ?op = "finalizeBrowserRunnerNeedsHuman 7 (example_sha ''h'') ''b'' ''B'' ''ann'' ''gave up'' example_handed_over"
  have "case ?op of Inl _ \<Rightarrow> False | Inr (_, n, _) \<Rightarrow> n = 1" by code_simp
  then obtain db' st where d: "?op = Inr (db', 1, st)" by (auto split: sum.splits)
  have ok: "db_ok example_handed_over" by code_simp
  let ?un = "filter (\<lambda>t. t_status t = TaskAvailable \<or> t_status t = TaskClaimed) (batch_tasks example_handed_over ''B'')"
  have w: "example_waiting \<in> set ?un" "t_needsHumanCode example_waiting = Some ''captcha''" by code_simp+
  have "\<forall>t \<in> set ?un. \<exists>t' \<in> set (d_tasks db'). t_status t' = TaskFailed \<and> t_lastErrorCode t' = t_needsHumanCode t"
    using finalize_fails_all_claimed [OF d ok, unfolded Let_def] by blast
  from bspec [OF this w(1)] w(2) d show ?thesis by auto
qed

subsection \<open>Daily settlement\<close>

text \<open>The terminal failure the settlement gives a task.\<close>

definition settled_row :: "int \<Rightarrow> delivery_task \<Rightarrow> delivery_task" where
  "settled_row now t =
     (case browserRunnerDailySettlementDisposition t now of
        Inr (TerminalFailure code reason) \<Rightarrow> terminally_failed now (Some code) (js_slice 2000 reason) t
      | _ \<Rightarrow> t)"

lemma set_where_set_where:
  assumes "\<And>r. r \<in> set rows \<Longrightarrow> p r \<Longrightarrow> \<not> q (f r)"
  shows "set_where q g (set_where p f rows) = map (\<lambda>r. if p r then f r else if q r then g r else r) rows"
  using assms by (auto simp: set_where_def)

lemma st_failTask_database:
  "st_failTask database_settlement db t patch =
     bindE (update_tasks db
         (\<lambda>u. t_id u = t_id t \<and> t_status u = t_status t \<and> t_leaseGeneration u = t_leaseGeneration t)
         (terminally_failed (sp_failedAt patch) (Some (sp_lastErrorCode patch)) (sp_lastErrorMessage patch)))
       (\<lambda>(db', failed). Inr (db', failed \<noteq> []))"
  by (simp add: database_settlement_def)

lemma st_database:
  "st_lockBatch database_settlement = batch_by_id"
  "st_lockUnresolvedTasks database_settlement db i = unresolved_tasks db i"
  "st_readScope database_settlement db batch =
     find (\<lambda>s. ms_id s = b_scopeId batch \<and> sc_brandId s = b_brandId batch) (d_scopes db)"
  "st_settleBatch database_settlement = settleDeliveryBatch"
  by (simp_all add: database_settlement_def)

lemma settle_tasks_rows:
  assumes "settle_tasks database_settlement now (map (\<lambda>t. (t, disp t)) ts) k db = Inr (db', n)" and "db_ok db"
    and "set ts \<subseteq> set (d_tasks db)" and "distinct ts"
    and "\<And>t. t \<in> set ts \<Longrightarrow> browserRunnerDailySettlementDisposition t now = Inr (disp t) \<and> disp t \<noteq> DeferLiveLease"
  shows "n = k + length ts \<and> (\<forall>t \<in> set ts. t_status t = TaskClaimed) \<and>
    d_tasks db' = set_where (\<lambda>t. t \<in> set ts) (settled_row now) (d_tasks db)"
  using assms
proof (induction ts arbitrary: k db)
  case Nil
  then show ?case by (simp add: set_where_def)
next
  case (Cons t ts)
  obtain code reason where d: "disp t = TerminalFailure code reason"
    "browserRunnerDailySettlementDisposition t now = Inr (TerminalFailure code reason)"
    using Cons.prems(5) [of t] by (cases "disp t") auto
  let ?f = "terminally_failed now (Some code) (js_slice 2000 reason)"
  have f: "settled_row now t = ?f t" by (simp add: settled_row_def d(2))
  have m: "t \<in> set (d_tasks db)" using Cons.prems(3) by simp
  obtain db1 u out where u: "update_tasks db
        (\<lambda>u. t_id u = t_id t \<and> t_status u = t_status t \<and> t_leaseGeneration u = t_leaseGeneration t) ?f = Inr (db1, u # out)"
    and r: "settle_tasks database_settlement now (map (\<lambda>t. (t, disp t)) ts) (k + 1) db1 = Inr (db', n)"
  proof -
    obtain db1 failed where "update_tasks db
        (\<lambda>u. t_id u = t_id t \<and> t_status u = t_status t \<and> t_leaseGeneration u = t_leaseGeneration t) ?f = Inr (db1, failed)"
      "failed \<noteq> []" "settle_tasks database_settlement now (map (\<lambda>t. (t, disp t)) ts) (k + 1) db1 = Inr (db', n)"
      using Cons.prems(1) d(1) by (auto simp: st_failTask_database thrown_simps split: if_splits)
    then show thesis using that by (cases failed) auto
  qed
  note one = single_update [OF Cons.prems(2) m _ _ u, simplified]
  have ok1: "db_ok db1"
    by (rule db_steps_ok [OF steps_tasks [OF u] Cons.prems(2)]) simp
  have claimed: "t_status t = TaskClaimed"
    using one(4) d(2)
    by (auto simp: task_update_allowed_def task_status_step_def row_edits browserRunnerDailySettlementDisposition_def
        split: delivery_task_status.splits if_splits)
  have kept: "u \<in> set (d_tasks db1)" if "u \<in> set ts" for u
    using that Cons.prems(3, 4) by (auto simp: one(2) image_iff intro!: bexI [of _ u])
  have ih: "n = k + 1 + length ts \<and> (\<forall>t \<in> set ts. t_status t = TaskClaimed) \<and>
      d_tasks db' = set_where (\<lambda>t. t \<in> set ts) (settled_row now) (d_tasks db1)"
    by (rule Cons.IH [OF r ok1]) (use kept Cons.prems(4, 5) in auto)
  have "?f t \<notin> set ts"
    using ih by (auto simp: row_edits)
  moreover have "d_tasks db1 = set_where (\<lambda>u. u = t) (settled_row now) (d_tasks db)"
    using one(2) f by (auto simp: set_where_def)
  ultimately have "d_tasks db' = set_where (\<lambda>u. u \<in> set (t # ts)) (settled_row now) (d_tasks db)"
    using ih Cons.prems(4) f by (auto simp: set_where_set_where) (auto simp: set_where_def)
  with ih claimed show ?case by simp
qed

lemma dispositions_of:
  assumes "mapE (\<lambda>t. bindE (browserRunnerDailySettlementDisposition t now) (\<lambda>d. Inr (t, d))) ts = Inr ds"
  shows "ds = map (\<lambda>t. (t, projr (browserRunnerDailySettlementDisposition t now))) ts \<and>
    (\<forall>t \<in> set ts. \<exists>d. browserRunnerDailySettlementDisposition t now = Inr d)"
  using assms by (induction ts arbitrary: ds) (auto simp: thrown_simps)

lemma mark_tasks_same: "st_markBatchInProgress database_settlement db b = Inr (db', ok) \<Longrightarrow> d_tasks db' = d_tasks db"
  by (auto simp: database_settlement_def thrown_simps dest!: update_batches_InrD(1))

lemma settled_run:
  assumes run: "executeBrowserRunnerDailySettlement other database_settlement i now db = Inr (db', Settled n)"
  shows "\<exists>b p cutoff ds db1. batch_by_id db i = Some b \<and> normalizeDeliveryProtocol other (b_protocol b) = Inr p \<and>
    browserRunnerDailySettlementCutoff (b_automationStartedAt b) (date_parse other (pr_endsAt p)) = Inr cutoff \<and>
    cutoff \<le> now \<and>
    mapE (\<lambda>t. bindE (browserRunnerDailySettlementDisposition t now) (\<lambda>d. Inr (t, d))) (unresolved_tasks db i) = Inr ds \<and>
    \<not> list_ex (\<lambda>d. snd d = DeferLiveLease) ds \<and>
    settle_tasks database_settlement now ds 0 db = Inr (db1, n) \<and> d_tasks db' = d_tasks db1"
proof -
  note unf = executeBrowserRunnerDailySettlement_def st_database Let_def
  obtain b where b: "batch_by_id db i = Some b" using run by (cases "batch_by_id db i") (simp_all add: unf)
  have bid: "b_id b = i" using batch_by_id_Some [OF b] by simp
  obtain started scope where open_batch: "b_executionMode b = ModeBrowserRunner" "b_automationStartedAt b = Some started"
      "inProgressDeliveryBatch (b_status b)"
    and scope: "find (\<lambda>s. ms_id s = b_scopeId b \<and> sc_brandId s = b_brandId b) (d_scopes db) = Some scope"
      "isBrowserRunnerCnScope scope"
    using run b by (auto simp: unf split: if_splits option.splits)
  note known = b bid open_batch scope
  obtain p where p: "normalizeDeliveryProtocol other (b_protocol b) = Inr p"
    using run known by (cases "normalizeDeliveryProtocol other (b_protocol b)") (simp_all add: unf)
  obtain cutoff where c: "browserRunnerDailySettlementCutoff (b_automationStartedAt b) (date_parse other (pr_endsAt p)) =
      Inr cutoff" "\<not> now < cutoff"
    using run known p
    by (cases "browserRunnerDailySettlementCutoff (b_automationStartedAt b) (date_parse other (pr_endsAt p))")
      (simp_all add: unf split: if_splits)
  obtain ds where ds: "mapE (\<lambda>t. bindE (browserRunnerDailySettlementDisposition t now) (\<lambda>d. Inr (t, d)))
      (unresolved_tasks db i) = Inr ds" "\<not> list_ex (\<lambda>d. snd d = DeferLiveLease) ds"
    using run known p c
    by (cases "mapE (\<lambda>t. bindE (browserRunnerDailySettlementDisposition t now) (\<lambda>d. Inr (t, d))) (unresolved_tasks db i)")
      (simp_all add: unf split: if_splits)
  obtain db1 k where s: "settle_tasks database_settlement now ds 0 db = Inr (db1, k)"
    using run known p c ds by (cases "settle_tasks database_settlement now ds 0 db") (auto simp: unf)
  have "k = n \<and> d_tasks db' = d_tasks db1"
    using run known p c ds s
    by (auto simp: unf bindE_Inr_iff split: if_splits dest!: mark_tasks_same settle_tasks_same)
  with b p c ds s show ?thesis by (auto simp: not_less)
qed

text \<open>
  C13: a settlement that succeeds comes no earlier than the batch's cut-off and turns exactly the
  claimed tasks of the batch into terminal failures, none of which had a live lease; everything else
  stays. In particular no batch that still has an available task is ever settled, since the
  database's trigger refuses to fail a task that nobody has claimed.
\<close>

theorem settlement_fails_expired_claims:
  assumes "settleOneDueDomesticBrowserRunnerBatch other batchId now db = Inr (db', Settled n)" and "db_ok db"
  shows "(\<forall>t \<in> set (batch_tasks db batchId). t_status t \<noteq> TaskAvailable \<and>
       (t_status t = TaskClaimed \<longrightarrow> \<not> live_lease t now)) \<and>
    n = length (filter (\<lambda>t. t_status t = TaskClaimed) (batch_tasks db batchId)) \<and>
    d_tasks db' = set_where (\<lambda>t. t_batchId t = batchId \<and> t_status t = TaskClaimed) (settled_row now) (d_tasks db) \<and>
    (\<exists>b p cutoff. batch_by_id db batchId = Some b \<and> normalizeDeliveryProtocol other (b_protocol b) = Inr p \<and>
       browserRunnerDailySettlementCutoff (b_automationStartedAt b) (date_parse other (pr_endsAt p)) = Inr cutoff \<and>
       cutoff \<le> now)"
proof -
  let ?un = "unresolved_tasks db batchId" and ?disp = "\<lambda>t. projr (browserRunnerDailySettlementDisposition t now)"
  have run: "executeBrowserRunnerDailySettlement other database_settlement batchId now db = Inr (db', Settled n)"
    using assms(1) by (simp add: settleOneDueDomesticBrowserRunnerBatch_def)
  from settled_run [OF run] obtain b p cutoff ds db1 where
    w: "batch_by_id db batchId = Some b" "normalizeDeliveryProtocol other (b_protocol b) = Inr p"
      "browserRunnerDailySettlementCutoff (b_automationStartedAt b) (date_parse other (pr_endsAt p)) = Inr cutoff"
      "cutoff \<le> now"
    and ds: "mapE (\<lambda>t. bindE (browserRunnerDailySettlementDisposition t now) (\<lambda>d. Inr (t, d))) ?un = Inr ds"
      "\<not> list_ex (\<lambda>d. snd d = DeferLiveLease) ds"
    and s: "settle_tasks database_settlement now ds 0 db = Inr (db1, n)" "d_tasks db' = d_tasks db1" by blast
  note disp = dispositions_of [OF ds(1)]
  have each: "t \<in> set ?un \<Longrightarrow> browserRunnerDailySettlementDisposition t now = Inr (?disp t) \<and> ?disp t \<noteq> DeferLiveLease" for t
    using disp ds(2) by (auto simp: list_ex_iff)
  have dist: "distinct ?un" using db_okD(2) [OF assms(2)] by (simp add: distinct_map)
  have "n = 0 + length ?un \<and> (\<forall>t \<in> set ?un. t_status t = TaskClaimed) \<and>
      d_tasks db1 = set_where (\<lambda>t. t \<in> set ?un) (settled_row now) (d_tasks db)"
    by (rule settle_tasks_rows [OF s(1) [unfolded conjunct1 [OF disp]] assms(2) filter_is_subset dist each])
  then have rows: "n = length ?un" "\<forall>t \<in> set ?un. t_status t = TaskClaimed"
      "d_tasks db' = set_where (\<lambda>t. t \<in> set ?un) (settled_row now) (d_tasks db)"
    unfolding s(2) add_0 by blast+
  have un: "?un = filter (\<lambda>t. t_status t = TaskClaimed) (batch_tasks db batchId)"
    using rows(2) by (auto simp: batch_tasks_def intro!: filter_cong)
  have "\<not> live_lease t now" if "t \<in> set ?un" for t
  proof
    assume "live_lease t now"
    with bspec [OF rows(2) that] have "browserRunnerDailySettlementDisposition t now = Inr DeferLiveLease"
      by (simp add: browserRunnerDailySettlementDisposition_def)
    with conjunct2 [OF each [OF that]] show False by simp
  qed
  moreover have "d_tasks db' = set_where (\<lambda>t. t_batchId t = batchId \<and> t_status t = TaskClaimed) (settled_row now) (d_tasks db)"
    unfolding rows(3) un by (simp add: set_where_def batch_tasks_def)
  moreover have "t_status t \<noteq> TaskAvailable" if "t \<in> set (batch_tasks db batchId)" for t
    using rows(2) that by (auto simp: batch_tasks_def)
  ultimately show ?thesis using w rows(1) un by (auto simp: batch_tasks_def)
qed

definition example_overdue :: database where
  "example_overdue = database_with (example_batch\<lparr>b_plannedTaskCount := 1\<rparr>) [example_claimed]"

theorem settlement_fails_expired_claims_witness:
  "\<exists>db'. settleOneDueDomesticBrowserRunnerBatch (\<lambda>_. None) ''B'' (example_start + 86400000) example_overdue = Inr (db', Settled 1) \<and>
     d_tasks db' = [settled_row (example_start + 86400000) example_claimed]"
proof -
  let ?op = "settleOneDueDomesticBrowserRunnerBatch (\<lambda>_. None) ''B'' (example_start + 86400000) example_overdue"
  have "case ?op of Inl _ \<Rightarrow> False | Inr (_, r) \<Rightarrow> r = Settled 1" by code_simp
  then obtain db' where d: "?op = Inr (db', Settled 1)" by (auto split: sum.splits)
  have ok: "db_ok example_overdue" by code_simp
  have "d_tasks example_overdue = [example_claimed]" "t_batchId example_claimed = ''B''" "t_status example_claimed = TaskClaimed"
    by code_simp+
  with settlement_fails_expired_claims [OF d ok] d show ?thesis by (simp add: set_where_def)
qed

end
