(* ===== verification/PortalResults.thy ===== *)
theory PortalResults
  imports ApiClient RunnerRecovery
begin

text \<open>
  What the portal's answers to a runner guarantee, and that the two sides of the protocol agree: the
  bodies the extension sends pass the portal's schemas, and the extension accepts what the portal
  answers.
\<close>

subsection \<open>Answered claims\<close>

lemma service_Inr [simp]: "service m = Inr x \<longleftrightarrow> m = Inr x"
  by (simp add: service_def split: sum.split)

lemma buildRunnerClaimResponse_Inr:
  assumes "buildRunnerClaimResponse sha f g claim runner assist db = (db', Inr r)"
  shows "db' = db \<and> (\<exists>b manifest url. b \<in> set (d_batches db) \<and> b_id b = t_batchId (ct_task claim) \<and>
    b_manifestSnapshot b = Some manifest \<and> ms_market (mc_scope manifest) = bp_market runner \<and>
    ms_locale (mc_scope manifest) = bp_locale runner \<and> ms_timezone (mc_scope manifest) = bp_timezone runner \<and>
    browserRunnerLaunchUrl (pl_surfaceTargetKey (ct_task claim)) = Inr url \<and>
    r = response_of claim manifest url assist)"
  using assms
  by (auto simp: buildRunnerClaimResponse_def Let_def split: option.splits if_splits sum.splits dest!: find_SomeD)

lemma claimRunnerTask_Some:
  assumes "claimRunnerTask sha other ec clock now locked token f g settings input runner db = (db', Some (Inr (Some r)))"
  obtains targets claim where "claim_targets input runner = Inr targets"
    "claimBrowserRunnerTask sha other ec clock now locked token
       \<lparr>ri_brandId = cq_brandId input, ri_batchId = cq_batchId input, ri_runnerId = bp_id runner,
        ri_leaseDurationMs = Some RUNNER_LEASE_MS, ri_captureTargets = Some targets\<rparr> db = (db', Some (Inr (Some claim)))"
    "buildRunnerClaimResponse sha f g claim runner False db' = (db', Inr r)"
proof -
  obtain targets where t: "claim_targets input runner = Inr targets" "targets \<noteq> []"
    using assms by (auto simp: claimRunnerTask_def split: sum.splits if_splits)
  let ?op = "claimBrowserRunnerTask sha other ec clock now locked token
       \<lparr>ri_brandId = cq_brandId input, ri_batchId = cq_batchId input, ri_runnerId = bp_id runner,
        ri_leaseDurationMs = Some RUNNER_LEASE_MS, ri_captureTargets = Some targets\<rparr> db"
  obtain db1 claim where c: "?op = (db1, Some (Inr (Some claim)))"
    "buildRunnerClaimResponse sha f g claim runner False db1 = (db', Inr r)"
    using assms t
    by (auto simp: claimRunnerTask_def map_sum_def split: sum.splits option.splits prod.splits)
  with buildRunnerClaimResponse_Inr [OF c(2)] show ?thesis using that [OF t(1)] by simp
qed

lemma claim_targets_pairs:
  assumes "claim_targets input runner = Inr targets" "bp_kind runner = ExtensionPrincipal" "(s, route) \<in> set targets"
  shows "isExtensionTargetPair s route \<and> List.member (bp_readySurfaces runner) s \<and>
    (\<forall>requested. cq_surfaceTargetKeys input = Some requested \<longrightarrow> s \<in> set requested) \<and>
    cq_brandId input \<in> set (bp_allowedBrandIds runner)"
proof -
  have surface: "x \<in> set BROWSER_EXTENSION_SURFACES \<Longrightarrow> isBrowserExtensionSurface x" for x
    by (auto simp: isBrowserExtensionSurface_def list_ex_iff)
  have brand: "cq_brandId input \<in> set (bp_allowedBrandIds runner)"
    and resolved: "resolveBrowserRunnerClaimTargets ExtensionPrincipal (cq_surfaceTargetKeys input)
      (Some (bp_readySurfaces runner)) = Inr targets"
    using assms(1,2) by (auto simp: claim_targets_def assertPrincipalBrand_def bindE_Inr_iff split: if_splits)
  let ?wanted = "\<lambda>x. List.member (bp_readySurfaces runner) x \<and>
      (case cq_surfaceTargetKeys input of None \<Rightarrow> True | Some r \<Rightarrow> List.member r x)"
  have "mapE (\<lambda>x. bindE (browserExtensionCaptureRoute x) (\<lambda>route. Inr (x, route)))
      (filter ?wanted BROWSER_EXTENSION_SURFACES) = Inr targets"
    using resolved by (simp add: resolveBrowserRunnerClaimTargets_def)
  from mapE_set [OF this assms(3)] obtain x where "x \<in> set BROWSER_EXTENSION_SURFACES" "?wanted x"
    "bindE (browserExtensionCaptureRoute x) (\<lambda>route. Inr (x, route)) = Inr (s, route)"
    by auto
  then show ?thesis using surface brand by (auto simp: isExtensionTargetPair_def bindE_Inr_iff)
qed

subsection \<open>Authorised tasks\<close>

lemma evolved_plan:
  assumes "task_evolves u v"
  shows "t_id v = t_id u" "t_batchId v = t_batchId u" "pl_brandId v = pl_brandId u"
    "pl_surfaceTargetKey v = pl_surfaceTargetKey u" "pl_captureRouteKey v = pl_captureRouteKey u"
proof -
  have "t_id v = t_id u \<and> t_batchId v = t_batchId u" and same: "task_plan_of v = task_plan_of u"
    using assms by (simp_all add: task_evolves_def task_change_def task_identity_def)
  then show "t_id v = t_id u" "t_batchId v = t_batchId u" by simp_all
  show "pl_brandId v = pl_brandId u" "pl_surfaceTargetKey v = pl_surfaceTargetKey u"
    "pl_captureRouteKey v = pl_captureRouteKey u"
    using same by (simp_all add: task_plan_of_def normalized_task_plan.truncate_def)
qed

lemma reconciliation_authorisation: "assertRunnerReconciliationTask = assertRunnerTask"
  by (simp add: fun_eq_iff assertRunnerReconciliationTask_def assertRunnerTask_def)

lemma assertRunnerTask_Inr:
  assumes "assertRunnerTask taskId brandId runner db = Inr x"
  obtains t where "find (\<lambda>t. t_id t = taskId \<and> pl_brandId t = brandId) (d_tasks db) = Some t" "x = redactDeliveryTask t"
    "route_allowed runner x" "t_claimedBy x = Some (runnerClaimant (bp_id runner))"
    "bp_kind runner = ExtensionPrincipal \<Longrightarrow> brandId \<in> set (bp_allowedBrandIds runner)"
proof -
  have "\<exists>y. assertPrincipalBrand runner brandId = Inr y" "getDeliveryTask brandId taskId db = Some x" "route_allowed runner x"
    "t_claimedBy x = Some (runnerClaimant (bp_id runner))"
    using assms by (auto simp only: assertRunnerTask_def bindE_Inr_iff requireSome_Inr_iff if_Inl_iff de_Morgan_disj not_not sum.inject)
  then show ?thesis
    using that by (auto simp: getDeliveryTask_def assertPrincipalBrand_def split: if_splits)
qed

lemma route_allowed_extension:
  "route_allowed runner (redactDeliveryTask t) \<Longrightarrow> bp_kind runner = ExtensionPrincipal \<Longrightarrow>
   isExtensionTargetPair (pl_surfaceTargetKey t) (pl_captureRouteKey t)"
  by (simp add: route_allowed_def redactDeliveryTask_def)

subsection \<open>The protocol: claims\<close>

text \<open>
  The plan of a task every extension can run, with texts and numbers within the bounds of the protocol.
\<close>

definition standard_task :: "response_task \<Rightarrow> bool" where
  "standard_task t \<longleftrightarrow>
     rt_sessionRequirement t = SessionDedicatedProfile \<and> rt_searchRequirement t = SearchPlatformDefault \<and>
     rt_evaluationRole t = RoleScored \<and> rt_minimumEvidenceArtifacts t = 1 \<and>
     readable 200 (rt_id t) \<and> readable 200 (rt_batchId t) \<and> readable 300 (rt_brandId t) \<and>
     readable 200 (rt_scopeId t) \<and> readable 200 (rt_promptId t) \<and> readable 20000 (rt_promptText t) \<and>
     safe_int (rt_sampleIndex t) \<and> 1 \<le> rt_sampleIndex t"

lemma protocol_window_range:
  "protocol_window other p = Inr (s, e) \<Longrightarrow> \<bar>s\<bar> \<le> 8640000000000000 \<and> \<bar>e\<bar> \<le> 8640000000000000"
  by (auto simp: protocol_window_def bindE_Inr_iff split: option.splits dest: date_parse_range)

lemma response_of_simps [simp]:
  "rs_leaseToken (response_of c m u a) = ct_leaseToken c" "rs_leaseGeneration (response_of c m u a) = ct_leaseGeneration c"
  "rs_leaseExpiresAt (response_of c m u a) = to_iso (ct_leaseExpiresAt c)"
  "rs_postSubmitAssist (response_of c m u a) = a"
  "rs_submitConfirmed (response_of c m u a) = (t_submitConfirmedAt (ct_task c) \<noteq> None)"
  "rs_runnerSessionId (response_of c m u a) = t_runnerSessionId (ct_task c)"
  "rt_id (rs_task (response_of c m u a)) = t_id (ct_task c)"
  "rt_surfaceTargetKey (rs_task (response_of c m u a)) = pl_surfaceTargetKey (ct_task c)"
  "rt_captureRouteKey (rs_task (response_of c m u a)) = pl_captureRouteKey (ct_task c)"
  "rt_launchUrl (rs_task (response_of c m u a)) = u"
  "rt_automationAttemptCount (rs_task (response_of c m u a)) = t_automationAttemptCount (ct_task c)"
  by (simp_all add: response_of_def Let_def)

lemma handed_out_claim:
  "handed_out sha locked token i targets b x c t \<Longrightarrow>
   ct_task c = redactDeliveryTask t \<and> ct_leaseToken c = token \<and> ct_leaseGeneration c = t_leaseGeneration t"
  by (simp add: handed_out_def)

lemma claimed_for_extension:
  assumes "claimRunnerTask sha other ec clock now locked token f g settings input runner db = (db', Some (Inr (Some r)))"
    and "db_ok db" and "bp_kind runner = ExtensionPrincipal"
  obtains t claim manifest url where "t \<in> set (d_tasks db')" "db_ok db'" "r = response_of claim manifest url False"
    "ct_task claim = redactDeliveryTask t" "t_submitIntentAt t = None" "t_runnerSessionId t = None"
    "t_submitConfirmedAt t = None" "isExtensionTargetPair (pl_surfaceTargetKey t) (pl_captureRouteKey t)"
    "\<forall>requested. cq_surfaceTargetKeys input = Some requested \<longrightarrow> pl_surfaceTargetKey t \<in> set requested"
    "browserRunnerLaunchUrl (pl_surfaceTargetKey t) = Inr url" "t_automationAttemptCount t \<in> {1, 2}"
    "ct_leaseToken claim = token" "0 < ct_leaseGeneration claim" "\<bar>ct_leaseExpiresAt claim\<bar> \<le> 8640000000000000"
proof -
  obtain targets claim where targets: "claim_targets input runner = Inr targets"
    and c: "claimBrowserRunnerTask sha other ec clock now locked token
       \<lparr>ri_brandId = cq_brandId input, ri_batchId = cq_batchId input, ri_runnerId = bp_id runner,
        ri_leaseDurationMs = Some RUNNER_LEASE_MS, ri_captureTargets = Some targets\<rparr> db = (db', Some (Inr (Some claim)))"
    and b: "buildRunnerClaimResponse sha f g claim runner False db' = (db', Inr r)"
    by (rule claimRunnerTask_Some [OF assms(1)])
  have ok: "db_ok db'"
    using db_steps_ok [OF claimBrowserRunnerTask_steps assms(2)] c assms(2) by (metis fst_conv)
  obtain batch :: delivery_batch and t s e where t: "t \<in> set (d_tasks db')" and w: "protocol_window other (b_protocol batch) = Inr (s, e)"
      "s \<le> now" "now < ct_leaseExpiresAt claim" "ct_leaseExpiresAt claim \<le> e"
    and h: "handed_out sha locked token (js_trim (bp_id runner)) targets (b_id batch) (ct_leaseExpiresAt claim) claim t"
    using runner_claim_spec [OF c assms(2)] by (simp only: runner_claim_input.simps option.case) blast
  have task: "ct_task claim = redactDeliveryTask t" "ct_leaseToken claim = token" "0 < ct_leaseGeneration claim"
    "t_submitIntentAt t = None" "t_automationAttemptCount t \<in> {1, 2}"
    "(pl_surfaceTargetKey t, pl_captureRouteKey t) \<in> set targets"
    using handed_out_claim [OF h] h by (simp_all only: handed_out_def)
  obtain manifest url where m: "r = response_of claim manifest url False"
    "browserRunnerLaunchUrl (pl_surfaceTargetKey t) = Inr url"
    using buildRunnerClaimResponse_Inr [OF b] task(1) by (auto simp: redactDeliveryTask_def)
  have "runner_session_state_consistent t" using db_okD(4) [OF ok t] by (simp add: task_ok_def task_row_ok_def)
  then have "t_runnerSessionId t = None \<and> t_submitConfirmedAt t = None"
    using task(4) by (auto simp: runner_session_state_consistent_def split: option.splits)
  moreover have "\<bar>ct_leaseExpiresAt claim\<bar> \<le> 8640000000000000" using protocol_window_range [OF w(1)] w(2-4) by linarith
  ultimately show ?thesis
    using that [OF t ok m(1) task(1,4) _ _ _ _ m(2) task(5,2,3)] claim_targets_pairs [OF targets assms(3) task(6)] by blast
qed


subsection \<open>The protocol: reconciliation\<close>

lemma reconcile_row:
  assumes run: "reconcileBrowserRunnerTask now markedAt refreshedAt brandId taskId runnerId db = Inr (db', st, t)"
    and ok: "db_ok db"
  obtains u v where "u \<in> set (d_tasks db)" "t_id u = taskId" "pl_brandId u = brandId" "t = redactDeliveryTask v"
    "task_evolves u v" "st = RecResumablePost \<Longrightarrow> t_submitIntentAt u \<noteq> None"
proof -
  obtain ident and b :: delivery_batch and t0 where ident: "find (\<lambda>u. t_id u = taskId \<and> pl_brandId u = brandId) (d_tasks db) = Some ident"
    and t0: "find (\<lambda>u. t_id u = taskId \<and> t_batchId u = b_id b) (d_tasks db) = Some t0"
    and st: "st = reconcileBrowserRunnerExactTask (t_status t0) (t_automationStatus t0) (t_submitIntentAt t0)
        (t_claimedBy t0) (runner_claimant (js_trim runnerId)) (t_leaseExpiresAt t0) now"
    and t: "t = redactDeliveryTask t0 \<or> (\<exists>code reason v. task_by_id db' (t_id t0) = Some v \<and> t = redactDeliveryTask v \<and>
        park_candidate db (t_batchId t0) t0 code reason markedAt refreshedAt = Inr db')"
    by (rule reconcile_run [OF run]) (metis (no_types, lifting))
  have m: "t0 \<in> set (d_tasks db)" "t_id t0 = taskId" "ident \<in> set (d_tasks db)" "t_id ident = taskId" "pl_brandId ident = brandId"
    using find_SomeD [OF t0] find_SomeD [OF ident] by auto
  then have brand: "pl_brandId t0 = brandId" using same_id_same_task [OF ok m(1,3)] by simp
  have post: "st = RecResumablePost \<Longrightarrow> t_submitIntentAt t0 \<noteq> None"
    using st by (auto simp: reconcileBrowserRunnerExactTask_def split: if_splits option.splits)
  from t show ?thesis
  proof
    assume "t = redactDeliveryTask t0"
    then show ?thesis using that [OF m(1,2) brand _ task_evolves_refl] post by blast
  next
    assume "\<exists>code reason v. task_by_id db' (t_id t0) = Some v \<and> t = redactDeliveryTask v \<and>
        park_candidate db (t_batchId t0) t0 code reason markedAt refreshedAt = Inr db'"
    then obtain code reason v where v: "task_by_id db' (t_id t0) = Some v" "t = redactDeliveryTask v"
      and p: "park_candidate db (t_batchId t0) t0 code reason markedAt refreshedAt = Inr db'" by blast
    have steps: "db_steps db db'" by (rule park_candidate_steps [OF p])
    obtain w where w: "w \<in> set (d_tasks db')" "task_evolves t0 w"
      using db_steps_evolve [OF steps] m(1) by (auto simp: evolves_def)
    have "t_id w = t_id v" using w(2) task_by_id_Some [OF v(1)] by (simp add: task_evolves_def task_change_def)
    then have "w = v"
      using same_id_same_task [OF db_steps_ok [OF steps ok] w(1)] task_by_id_Some [OF v(1)] by blast
    then show ?thesis using that [OF m(1,2) brand v(2)] w(2) post by blast
  qed
qed

definition reconciliation_of :: "exact_reconciliation \<Rightarrow> reconciliation_state" where
  "reconciliation_of s =
     (case s of RecTerminal \<Rightarrow> Terminal | RecReleased \<Rightarrow> Released | RecResumablePre \<Rightarrow> ResumablePre
      | RecResumablePost \<Rightarrow> ResumablePost | RecActive \<Rightarrow> Active | RecBlocked \<Rightarrow> Blocked)"

lemma parse_state_text [simp]:
  "parse_state (Some (JStr (reconciliation_text s))) = Inr (reconciliation_of s)"
  by (cases s) (simp_all add: parse_state_def reconciliation_text_def reconciliation_of_def)

text \<open>
  C20: what the portal answers to a reconciliation of an extension, the extension accepts: the state, the
  task and the session it reads are the portal's, and a task to resume after its submission has one.
\<close>

theorem portal_reconciliations_are_accepted:
  assumes "reconcileRunnerTask now markedAt refreshedAt taskId brandId runner db = (db', Inr r)" and "db_ok db"
    and "bp_kind runner = ExtensionPrincipal" and "readable 200 taskId" and "readable 300 brandId"
    and "readable 200 (rr_batchId r)" and "readable 20000 (rr_promptText r)"
    and "case rr_runnerSessionId r of None \<Rightarrow> True | Some s \<Rightarrow> readable 300 s"
  shows "parseTaskReconciliation (reconciliation_json r) taskId brandId = Inr
    \<lparr>tr_state = reconciliation_of (rr_state r), tr_taskId = taskId, tr_batchId = rr_batchId r, tr_brandId = brandId,
     tr_surfaceTargetKey = rr_surfaceTargetKey r, tr_promptText = rr_promptText r,
     tr_runnerSessionId = rr_runnerSessionId r\<rparr>"
proof -
  obtain st t where run: "reconcileBrowserRunnerTask now markedAt refreshedAt brandId taskId (bp_id runner) db = Inr (db', st, t)"
    and r: "r = \<lparr>rr_state = st, rr_taskId = t_id t, rr_batchId = t_batchId t, rr_brandId = pl_brandId t,
             rr_surfaceTargetKey = pl_surfaceTargetKey t, rr_promptText = pl_promptText t,
             rr_runnerSessionId = t_runnerSessionId t\<rparr>"
    and a: "\<exists>x. assertRunnerReconciliationTask taskId brandId runner db = Inr x"
    using assms(1) by (auto simp: reconcileRunnerTask_def bindE_Inr_iff split: sum.splits if_splits)
  obtain u v where u: "u \<in> set (d_tasks db)" "t_id u = taskId" "pl_brandId u = brandId" and t: "t = redactDeliveryTask v"
    and ev: "task_evolves u v" and post: "st = RecResumablePost \<Longrightarrow> t_submitIntentAt u \<noteq> None"
    by (rule reconcile_row [OF run assms(2)]) auto
  obtain x where x: "find (\<lambda>t. t_id t = taskId \<and> pl_brandId t = brandId) (d_tasks db) = Some x"
    "route_allowed runner (redactDeliveryTask x)"
  proof -
    obtain y where y: "assertRunnerTask taskId brandId runner db = Inr y" using a unfolding reconciliation_authorisation by blast
    show thesis by (rule assertRunnerTask_Inr [OF y]) (simp add: that)
  qed
  have "x \<in> set (d_tasks db)" "t_id x = taskId" using find_SomeD [OF x(1)] by simp_all
  then have "x = u" using same_id_same_task [OF assms(2) _ u(1)] u(2) by simp
  then have surface: "isBrowserExtensionSurface (pl_surfaceTargetKey v)"
    and same: "t_id v = taskId" "pl_brandId v = brandId"
    using route_allowed_extension [OF x(2) assms(3)] u evolved_plan [OF ev]
    by (auto simp: isExtensionTargetPair_def)
  have "t_runnerSessionId v \<noteq> None" if "st = RecResumablePost"
  proof -
    have "runner_session_state_consistent u" using db_okD(4) [OF assms(2) u(1)] by (simp add: task_ok_def task_row_ok_def)
    then have "t_runnerSessionId u \<noteq> None"
      using post [OF that] by (cases "t_runnerSessionId u") (auto simp: runner_session_state_consistent_def)
    then show ?thesis using ev post [OF that] by (simp add: task_evolves_def task_change_def)
  qed
  moreover have "reconciliation_of st = ResumablePost \<longleftrightarrow> st = RecResumablePost"
    by (cases st) (simp_all add: reconciliation_of_def)
  moreover have "nullable_session (Some (nullable_text (t_runnerSessionId v))) = Inr (t_runnerSessionId v)"
    using assms(8) by (auto simp: r t redactDeliveryTask_def readable_def)
  moreover have "js_trim (t_batchId v) \<noteq> []" "length (t_batchId v) \<le> 200" "js_trim (pl_promptText v) \<noteq> []"
    "length (pl_promptText v) \<le> 20000" "js_trim taskId \<noteq> []" "length taskId \<le> 200" "js_trim brandId \<noteq> []"
    "length brandId \<le> 300"
    using assms(4-7) by (simp_all add: r t redactDeliveryTask_def readable_def)
  ultimately show ?thesis
    using surface same
    by (simp add: parseTaskReconciliation_def reconciliation_json_def record_fields_def field_Cons bindE_Inr_iff
        if_Inl_iff r t redactDeliveryTask_def)
qed

subsection \<open>The protocol: requests\<close>

definition plain_text :: "nat \<Rightarrow> string \<Rightarrow> bool" where
  "plain_text maximum s \<longleftrightarrow> js_trim s = s \<and> s \<noteq> [] \<and> length s \<le> maximum"

lemma schema_text_plain [simp]: "plain_text n s \<Longrightarrow> schema_text n (JStr s) = Some s"
  by (auto simp: plain_text_def schema_text_def Suc_le_eq)

lemma current_version:
  assumes "isBrowserExtensionSurface s"
  shows "plain_text 100 (CURRENT_ADAPTER_VERSIONS s)"
    "isCurrentBrowserExtensionAdapterVersionBindingSatisfied s (Some (CURRENT_ADAPTER_VERSIONS s))" "s \<noteq> []"
proof -
  have s: "s \<in> set BROWSER_EXTENSION_SURFACES"
    using assms by (auto simp: isBrowserExtensionSurface_def list_ex_iff)
  have "list_all (\<lambda>s. plain_text 100 (CURRENT_ADAPTER_VERSIONS s) \<and> s \<noteq> [] \<and>
      isCurrentBrowserExtensionAdapterVersionBindingSatisfied s (Some (CURRENT_ADAPTER_VERSIONS s))) BROWSER_EXTENSION_SURFACES"
    by code_simp
  with s show "plain_text 100 (CURRENT_ADAPTER_VERSIONS s)"
    "isCurrentBrowserExtensionAdapterVersionBindingSatisfied s (Some (CURRENT_ADAPTER_VERSIONS s))" "s \<noteq> []"
    by (auto simp: list_all_iff)
qed

lemma schema_stage_text [simp]: "schema_stage (JStr (stage_text s)) = Some s"
  by (cases s) (simp_all add: schema_stage_def stage_text_def)

lemma schema_surfaces_one: "isBrowserExtensionSurface s \<Longrightarrow> schema_surfaces (JArr [JStr s]) = Some [s]"
  by (auto simp: schema_surfaces_def isBrowserExtensionSurface_def list_ex_iff List.map_filter_def BROWSER_EXTENSION_SURFACES_def)

text \<open>
  C21: the bodies that the extension sends pass the schemas of the portal's routes and are read back as
  they were meant, and the adapter version in them is the one that the portal approves for the surface.
\<close>

theorem extension_requests_are_accepted:
  assumes "isBrowserExtensionSurface (bc_surfaceTargetKey claim)" and "plain_text 300 (bc_brandId claim)"
    and "32 \<le> length (bc_leaseToken claim)" and "length (bc_leaseToken claim) \<le> 500"
    and "safe_int (bc_leaseGeneration claim)" and "1 \<le> bc_leaseGeneration claim" and "plain_text 300 session"
    and "plain_text 100 (rf_code failure)" and "plain_text 1000 (rf_reason failure)"
  shows "let brand = bc_brandId claim; surface = bc_surfaceTargetKey claim; version = CURRENT_ADAPTER_VERSIONS surface;
      lease = (\<lambda>v. \<lparr>lq_brandId = brand, lq_leaseToken = bc_leaseToken claim, lq_leaseGeneration = bc_leaseGeneration claim,
        lq_adapterVersion = v\<rparr>);
      request = \<lparr>cq_brandId = brand, cq_batchId = None, cq_adapterVersion = Some version, cq_surfaceTargetKeys = Some [surface]\<rparr> in
    browserRunnerClaimSchema (claimNext_body brand surface) = Some request \<and> \<not> version_denied runner request \<and>
    browserRunnerResumeSchema (resume_body brand stage surface) = Some (brand, Some stage, Some version) \<and>
    browserRunnerReconcileSchema (reconcileTask_body brand) = Some brand \<and>
    browserRunnerLeaseSchema (heartbeatTask_body claim) = Some (lease (Some version)) \<and>
    browserRunnerSessionLeaseSchema (submit_body claim session) =
      Some (lease_request.extend (lease (Some version)) (session_lease_request.fields session)) \<and>
    browserRunnerFailureSchema (failTask_body claim failure) =
      Some (lease_request.extend (lease None)
        (failure_request.fields (rf_stage failure) (rf_code failure) (rf_reason failure)))"
proof -
  note version = current_version [OF assms(1)]
  have token: "schema_token (JStr (bc_leaseToken claim)) = Some (bc_leaseToken claim)"
    and generation: "schema_positive (JNum (bc_leaseGeneration claim)) = Some (bc_leaseGeneration claim)"
    using assms(3-6) by (simp_all add: schema_token_def schema_positive_def)
  note texts = schema_text_plain [OF assms(2)] schema_text_plain [OF version(1)] schema_text_plain [OF assms(7)]
    schema_text_plain [OF assms(8)] schema_text_plain [OF assms(9)]
  show ?thesis
    by (simp add: Let_def browserRunnerClaimSchema_def claimNext_body_def strict_object_def required_def optional_def
        browserRunnerResumeSchema_def resume_body_def browserRunnerReconcileSchema_def reconcileTask_body_def
        browserRunnerLeaseSchema_def heartbeatTask_body_def schema_lease_def versionedLeaseFields_def leaseFields_def
        LEASE_KEYS_def browserRunnerSessionLeaseSchema_def submit_body_def browserRunnerFailureSchema_def
        failTask_body_def texts token generation schema_surfaces_one [OF assms(1)] version_denied_def version)
qed

end
