(* ===== verification/ExtensionJournal.thy ===== *)
theory ExtensionJournal
  imports ExtensionWorld
begin

text \<open>
  The durable task journal of the browser extension: \<open>DeviceStorage\<close>'s journal operations
  (\<open>storage.ts\<close>) as programs, and \<open>DurableTaskJournal\<close> (\<open>coordinator/journal.ts\<close>). Each journal
  operation reads the journal, decides what the task's entry becomes, and saves it; the decision is a
  function of its own, so that it can be reasoned about without the effects around it. The extension
  runs the operations of one task one after the other (\<open>#mutate\<close>), as the programs here do.
\<close>

subsection \<open>DeviceStorage\<close>

definition migrateLegacyJournal :: "environment \<Rightarrow> unit prog" where
  "migrateLegacyJournal env =
     bindP (storage_get env) (\<lambda>stored.
     bindP (liftE (migration_plan (e_date_parse env) stored)) (\<lambda>plan.
     case plan of
       None \<Rightarrow> returnP ()
     | Some migrated \<Rightarrow>
         bindP (if migrated = [] then returnP () else storage_set env migrated) (\<lambda>_.
         storage_remove env [JOURNAL_KEY])))"

definition ensureJournalMigrated :: "environment \<Rightarrow> unit prog" where
  "ensureJournalMigrated env w =
     (case w_migration w of
        Some None \<Rightarrow> (Done (), w)
      | Some (Some f) \<Rightarrow> (Thrown f, w)
      | None \<Rightarrow>
          (case migrateLegacyJournal env w of
             (Done _, w') \<Rightarrow> (Done (), w'\<lparr>w_migration := Some None\<rparr>)
           | (Thrown f, w') \<Rightarrow> (Thrown f, w'\<lparr>w_migration := Some (Some f)\<rparr>)
           | (Dead, w') \<Rightarrow> (Dead, w')))"

definition saveJournal :: "environment \<Rightarrow> task_journal_entry \<Rightarrow> unit prog" where
  "saveJournal env input =
     bindP (liftE (journal_items (e_date_parse env) input)) (\<lambda>items.
     bindP (ensureJournalMigrated env) (\<lambda>_. storage_set env items))"

definition loadJournal :: "environment \<Rightarrow> (string \<times> task_journal_entry) list prog" where
  "loadJournal env =
     bindP (ensureJournalMigrated env) (\<lambda>_.
     bindP (storage_get env) (\<lambda>stored. liftE (journal_of_area (e_date_parse env) stored)))"

definition removeJournal :: "environment \<Rightarrow> string \<Rightarrow> unit prog" where
  "removeJournal env taskId =
     bindP (liftE (journalEntryKey taskId)) (\<lambda>key.
     bindP (ensureJournalMigrated env) (\<lambda>_. storage_remove env [key]))"

definition saveDevice :: "environment \<Rightarrow> paired_device_config \<Rightarrow> unit prog" where
  "saveDevice env input =
     bindP (liftE (validateDevice (device_json input))) (\<lambda>device. storage_set env [(DEVICE_KEY, device_json device)])"

definition loadDevice :: "environment \<Rightarrow> paired_device_config option prog" where
  "loadDevice env =
     bindP (storage_get env) (\<lambda>stored.
     case field stored DEVICE_KEY of
       None \<Rightarrow> returnP None
     | Some raw \<Rightarrow> bindP (liftE (validateDevice raw)) (\<lambda>d. returnP (Some d)))"

definition saveSurfaceReadiness :: "environment \<Rightarrow> json \<Rightarrow> unit prog" where
  "saveSurfaceReadiness env input =
     storage_set env [(SURFACE_READINESS_KEY, readiness_json (normalizeSurfaceReadiness input))]"

definition loadSurfaceReadiness :: "environment \<Rightarrow> (string \<times> surface_readiness) list prog" where
  "loadSurfaceReadiness env =
     bindP (storage_get env) (\<lambda>stored.
     let readiness = (case field stored SURFACE_READINESS_KEY of
         None \<Rightarrow> defaultSurfaceReadiness | Some raw \<Rightarrow> normalizeSurfaceReadiness raw) in
     bindP (storage_set env [(SURFACE_READINESS_KEY, readiness_json readiness)]) (\<lambda>_. returnP readiness))"

definition disconnect :: "environment \<Rightarrow> unit prog" where
  "disconnect env =
     bindP (storage_get env) (\<lambda>stored.
     if disconnect_keys stored = [] then returnP () else storage_remove env (disconnect_keys stored))"

subsection \<open>Phases\<close>

definition PHASE_ORDER :: "task_journal_phase \<Rightarrow> nat" where
  "PHASE_ORDER p =
     (case p of PhaseClaimed \<Rightarrow> 0 | PhasePrepared \<Rightarrow> 1 | PhaseSubmitIntent \<Rightarrow> 2 | PhaseSubmitted \<Rightarrow> 3
      | PhaseCollected \<Rightarrow> 4 | PhaseUploaded \<Rightarrow> 5 | PhaseNeedsHuman \<Rightarrow> 6)"

definition isPostSubmitPhase :: "task_journal_phase \<Rightarrow> bool" where
  "isPostSubmitPhase phase \<longleftrightarrow> phase \<in> set POST_SUBMIT_JOURNAL_PHASES"

definition AUTOMATIC_RECOVERY_BLOCKING_FAILURE_CODES :: "string list" where
  "AUTOMATIC_RECOVERY_BLOCKING_FAILURE_CODES =
     [''signed_out'', ''captcha'', ''account_restricted'', ''rate_limited'', ''page_drift'']"

definition FIRST_AUTOMATIC_RECOVERY_DELAY_MS :: int where "FIRST_AUTOMATIC_RECOVERY_DELAY_MS = 2 * 60 * 1000"
definition SECOND_AUTOMATIC_RECOVERY_DELAY_MS :: int where "SECOND_AUTOMATIC_RECOVERY_DELAY_MS = 10 * 60 * 1000"

text \<open>
  When a recovery is due: \<open>None\<close> is \<open>null\<close>, \<open>Some None\<close> the \<open>NaN\<close> of an unreadable time.
\<close>

definition automaticRecoveryDueAt :: "(string \<Rightarrow> int option) \<Rightarrow> task_journal_entry \<Rightarrow> int option option" where
  "automaticRecoveryDueAt other entry =
     (case j_interruptedPhase entry of
        None \<Rightarrow> None
      | Some interrupted \<Rightarrow>
          if j_phase entry \<noteq> PhaseNeedsHuman \<or> \<not> isPostSubmitPhase interrupted \<or>
             (case j_needsHumanFailureCode entry of
                None \<Rightarrow> False | Some code \<Rightarrow> code \<in> set AUTOMATIC_RECOVERY_BLOCKING_FAILURE_CODES)
          then None
          else
            let attemptCount = (case j_autoRecoveryAttemptCount entry of None \<Rightarrow> 0 | Some n \<Rightarrow> n) in
            if attemptCount = 0
            then Some (map_option (\<lambda>t. t + FIRST_AUTOMATIC_RECOVERY_DELAY_MS) (date_parse other (j_updatedAt entry)))
            else if attemptCount = 1
            then (case j_autoRecoveryNextAt entry of
                    None \<Rightarrow> None | Some next \<Rightarrow> if next = [] then None else Some (date_parse other next))
            else None)"

subsection \<open>What an operation makes of an entry\<close>

definition missing_entry :: error where "missing_entry = PlainError ''Task journal entry does not exist''"

definition new_entry ::
  "browser_extension_claim \<Rightarrow> int \<Rightarrow> string \<Rightarrow> string \<Rightarrow> int \<Rightarrow> task_journal_entry" where
  "new_entry claim tabId session sha now =
     \<lparr>j_taskId = bc_taskId claim, j_batchId = bc_batchId claim, j_brandId = bc_brandId claim, j_phase = PhaseClaimed,
      j_interruptedPhase = None, j_surfaceTargetKey = bc_surfaceTargetKey claim, j_tabId = tabId,
      j_runnerSessionId = session, j_promptSha256 = sha, j_updatedAt = to_iso now,
      j_needsHumanFailureCode = None, j_autoRecoveryAttemptCount = None, j_autoRecoveryNextAt = None\<rparr>"

text \<open>A decision is the entry the operation answers and whether it is saved.\<close>

type_synonym decision = "error + task_journal_entry \<times> bool"

definition advance_entry :: "int \<Rightarrow> task_journal_phase \<Rightarrow> task_journal_entry option \<Rightarrow> decision" where
  "advance_entry now phase entry =
     bindE (requireSome missing_entry entry) (\<lambda>current.
     if phase = j_phase current then Inr (current, False)
     else if j_phase current = PhaseNeedsHuman \<or> j_phase current = PhaseUploaded
     then Inl (PlainError ''Task journal phase is terminal'')
     else if phase \<noteq> PhaseNeedsHuman \<and> PHASE_ORDER phase \<le> PHASE_ORDER (j_phase current)
     then Inl (PlainError ''Task journal phase cannot move backwards'')
     else Inr (current\<lparr>j_phase := phase,
            j_interruptedPhase := (if phase = PhaseNeedsHuman then Some (j_phase current) else j_interruptedPhase current),
            j_updatedAt := to_iso now\<rparr>, True))"

definition needs_human_entry :: "int \<Rightarrow> string \<Rightarrow> task_journal_entry option \<Rightarrow> decision" where
  "needs_human_entry now failureCode entry =
     bindE (requireSome missing_entry entry) (\<lambda>current.
     bindE (requireSome (PlainError ''Task journal interrupted phase is unavailable'')
       (if j_phase current = PhaseNeedsHuman then j_interruptedPhase current else Some (j_phase current)))
       (\<lambda>interrupted.
     Inr (current\<lparr>j_phase := PhaseNeedsHuman, j_interruptedPhase := Some interrupted,
            j_needsHumanFailureCode := Some failureCode, j_updatedAt := to_iso now\<rparr>, True)))"

definition needs_human_code_entry :: "string \<Rightarrow> task_journal_entry option \<Rightarrow> decision" where
  "needs_human_code_entry failureCode entry =
     (case entry of
        None \<Rightarrow> Inl (PlainError ''Only a needs-human task can record its failure code'')
      | Some current \<Rightarrow>
          if j_phase current \<noteq> PhaseNeedsHuman
          then Inl (PlainError ''Only a needs-human task can record its failure code'')
          else Inr (current\<lparr>j_needsHumanFailureCode := Some failureCode\<rparr>, True))"

definition recovery_attempt_entry ::
  "(string \<Rightarrow> int option) \<Rightarrow> int \<Rightarrow> task_journal_entry option \<Rightarrow> decision" where
  "recovery_attempt_entry other now entry =
     bindE (requireSome missing_entry entry) (\<lambda>current.
     let attemptCount = (case j_autoRecoveryAttemptCount current of None \<Rightarrow> 0 | Some n \<Rightarrow> n) in
     if attemptCount \<ge> 2 then Inl (PlainError ''Automatic recovery attempts exhausted'')
     else if (case automaticRecoveryDueAt other current of
                None \<Rightarrow> True | Some None \<Rightarrow> False | Some (Some dueAt) \<Rightarrow> dueAt > now)
     then Inl (PlainError ''Task is not eligible for automatic post-submit recovery'')
     else Inr (current\<lparr>j_autoRecoveryAttemptCount := Some (attemptCount + 1),
            j_autoRecoveryNextAt :=
              (if attemptCount + 1 = 1 then Some (to_iso (now + SECOND_AUTOMATIC_RECOVERY_DELAY_MS)) else None)\<rparr>, True))"

definition resume_post_entry :: "int \<Rightarrow> task_journal_entry option \<Rightarrow> decision" where
  "resume_post_entry now entry =
     (case entry of
        None \<Rightarrow> Inl (PlainError ''Only a post-submit task can resume its original session'')
      | Some current \<Rightarrow>
          (case (if j_phase current = PhaseNeedsHuman then j_interruptedPhase current else Some (j_phase current)) of
             None \<Rightarrow> Inl (PlainError ''Only a post-submit task can resume its original session'')
           | Some interrupted \<Rightarrow>
               if \<not> isPostSubmitPhase interrupted
               then Inl (PlainError ''Only a post-submit task can resume its original session'')
               else Inr (current\<lparr>j_interruptedPhase := None, j_phase := PhaseSubmitIntent,
                      j_updatedAt := to_iso now\<rparr>, True)))"

definition resume_pre_entry :: "int \<Rightarrow> bool \<Rightarrow> task_journal_entry option \<Rightarrow> decision" where
  "resume_pre_entry now serverAuthorized entry =
     (case entry of
        None \<Rightarrow> Inl (PlainError ''Only a pre-submit needs-human task can resume in its original tab'')
      | Some current \<Rightarrow>
          if j_phase current \<noteq> PhaseNeedsHuman \<or>
             (\<not> serverAuthorized \<and>
              (case j_interruptedPhase current of None \<Rightarrow> True | Some p \<Rightarrow> isPostSubmitPhase p))
          then Inl (PlainError ''Only a pre-submit needs-human task can resume in its original tab'')
          else Inr (current\<lparr>j_interruptedPhase := None, j_phase := PhaseClaimed, j_updatedAt := to_iso now\<rparr>, True))"

definition boundary_entry :: "int \<Rightarrow> task_journal_phase \<Rightarrow> task_journal_entry option \<Rightarrow> decision" where
  "boundary_entry now phase entry =
     (case entry of
        None \<Rightarrow> Inl (PlainError ''Only a needs-human task can record a post-submit boundary'')
      | Some current \<Rightarrow>
          if j_phase current \<noteq> PhaseNeedsHuman
          then Inl (PlainError ''Only a needs-human task can record a post-submit boundary'')
          else Inr (current\<lparr>j_interruptedPhase := Some phase, j_updatedAt := to_iso now\<rparr>, True))"

definition align_entry :: "int \<Rightarrow> runner_stage \<Rightarrow> task_journal_entry option \<Rightarrow> decision" where
  "align_entry now stage entry =
     bindE (requireSome missing_entry entry) (\<lambda>current.
     let currentBoundary = (if j_phase current = PhaseNeedsHuman then j_interruptedPhase current else Some (j_phase current));
         interrupted =
           (case currentBoundary of
              None \<Rightarrow> if stage = PreSubmit then PhaseClaimed else PhaseSubmitIntent
            | Some p \<Rightarrow>
                if stage = PreSubmit then (if isPostSubmitPhase p then PhaseClaimed else p)
                else (if isPostSubmitPhase p then p else PhaseSubmitIntent))
     in
     if j_phase current = PhaseNeedsHuman \<and> j_interruptedPhase current = Some interrupted then Inr (current, False)
     else Inr (current\<lparr>j_phase := PhaseNeedsHuman, j_interruptedPhase := Some interrupted, j_updatedAt := to_iso now\<rparr>, True))"

definition rebind_entry :: "int \<Rightarrow> int \<Rightarrow> task_journal_entry option \<Rightarrow> decision" where
  "rebind_entry now tabId entry =
     (if \<not> safe_integer tabId \<or> tabId < 0 then Inl (PlainError ''Browser Runner tab id is invalid'')
      else
      (case entry of
         None \<Rightarrow> Inl (PlainError ''Only a needs-human task can rebind its browser tab'')
       | Some current \<Rightarrow>
           if j_phase current \<noteq> PhaseNeedsHuman
           then Inl (PlainError ''Only a needs-human task can rebind its browser tab'')
           else if j_tabId current = tabId then Inr (current, False)
           else Inr (current\<lparr>j_tabId := tabId, j_updatedAt := to_iso now\<rparr>, True)))"

subsection \<open>The operations\<close>

definition mutate :: "environment \<Rightarrow> string \<Rightarrow> (int \<Rightarrow> task_journal_entry option \<Rightarrow> decision) \<Rightarrow> task_journal_entry prog" where
  "mutate env taskId decide =
     bindP (loadJournal env) (\<lambda>entries.
     bindP historyP (\<lambda>h.
     bindP (liftE (decide (e_now env h) (map_of entries taskId))) (\<lambda>(next, changed).
     bindP (if changed then saveJournal env next else returnP ()) (\<lambda>_. returnP next))))"

definition journal_start :: "environment \<Rightarrow> browser_extension_claim \<Rightarrow> int \<Rightarrow> string \<Rightarrow> string \<Rightarrow> task_journal_entry prog" where
  "journal_start env claim tabId session sha =
     mutate env (bc_taskId claim) (\<lambda>now entry.
       if entry \<noteq> None then Inl (PlainError ''Task journal entry already exists'')
       else Inr (new_entry claim tabId session sha now, True))"

definition journal_advance :: "environment \<Rightarrow> string \<Rightarrow> task_journal_phase \<Rightarrow> task_journal_entry prog" where
  "journal_advance env taskId phase = mutate env taskId (\<lambda>now. advance_entry now phase)"

definition markNeedsHuman :: "environment \<Rightarrow> string \<Rightarrow> string \<Rightarrow> task_journal_entry prog" where
  "markNeedsHuman env taskId failureCode = mutate env taskId (\<lambda>now. needs_human_entry now failureCode)"

definition recordNeedsHumanFailure :: "environment \<Rightarrow> string \<Rightarrow> string \<Rightarrow> task_journal_entry prog" where
  "recordNeedsHumanFailure env taskId failureCode = mutate env taskId (\<lambda>_. needs_human_code_entry failureCode)"

definition recordPostSubmitRecoveryAttempt :: "environment \<Rightarrow> string \<Rightarrow> task_journal_entry prog" where
  "recordPostSubmitRecoveryAttempt env taskId = mutate env taskId (recovery_attempt_entry (e_date_parse env))"

definition resumePostSubmit :: "environment \<Rightarrow> string \<Rightarrow> task_journal_entry prog" where
  "resumePostSubmit env taskId = mutate env taskId resume_post_entry"

definition resumePreSubmit :: "environment \<Rightarrow> string \<Rightarrow> task_journal_entry prog" where
  "resumePreSubmit env taskId = mutate env taskId (\<lambda>now. resume_pre_entry now False)"

definition resumeServerAuthorizedPreSubmit :: "environment \<Rightarrow> string \<Rightarrow> task_journal_entry prog" where
  "resumeServerAuthorizedPreSubmit env taskId = mutate env taskId (\<lambda>now. resume_pre_entry now True)"

definition markPostSubmitBoundary :: "environment \<Rightarrow> string \<Rightarrow> task_journal_phase \<Rightarrow> task_journal_entry prog" where
  "markPostSubmitBoundary env taskId phase = mutate env taskId (\<lambda>now. boundary_entry now phase)"

definition alignNeedsHuman :: "environment \<Rightarrow> string \<Rightarrow> runner_stage \<Rightarrow> task_journal_entry prog" where
  "alignNeedsHuman env taskId stage = mutate env taskId (\<lambda>now. align_entry now stage)"

definition rebindNeedsHumanTab :: "environment \<Rightarrow> string \<Rightarrow> int \<Rightarrow> task_journal_entry prog" where
  "rebindNeedsHumanTab env taskId tabId = mutate env taskId (\<lambda>now. rebind_entry now tabId)"

text \<open>The entries whose automatic recovery is due, the longest unchanged first.\<close>

definition compare_due :: "(string \<Rightarrow> string \<Rightarrow> int) \<Rightarrow> task_journal_entry \<Rightarrow> task_journal_entry \<Rightarrow> int" where
  "compare_due lc l r =
     (let c = lc (j_updatedAt l) (j_updatedAt r) in if c \<noteq> 0 then c else lc (j_taskId l) (j_taskId r))"

definition is_due :: "(string \<Rightarrow> int option) \<Rightarrow> int \<Rightarrow> task_journal_entry \<Rightarrow> bool" where
  "is_due other now entry =
     (case automaticRecoveryDueAt other entry of Some (Some dueAt) \<Rightarrow> dueAt \<le> now | _ \<Rightarrow> False)"

definition duePostSubmitRecoveries :: "environment \<Rightarrow> task_journal_entry list prog" where
  "duePostSubmitRecoveries env =
     bindP historyP (\<lambda>h.
     bindP (loadJournal env) (\<lambda>entries.
     returnP (sort_cmp (compare_due (e_localeCompare env))
       (filter (is_due (e_date_parse env) (e_now env h)) (map snd entries)))))"

end
