(* ===== verification/TaskRunner.thy ===== *)
theory TaskRunner
  imports ExtensionJournal
begin

text \<open>
  Running one claimed task in the browser (\<open>coordinator/task-runner.ts\<close>): open or re-attach the tab,
  prepare the prompt, record the submit intent in the journal and on the portal, submit, collect the
  answer and its visual evidence, and complete the task; on any failure keep the task for a human or
  let the portal schedule a retry. The lease heartbeats that run beside it change no state of the
  extension and are the portal's business, so they are part of the environment.
\<close>

datatype task_run_result = Succeeded | RetryScheduled string | NeedsHuman string | Incomplete string

definition phaseAtOrAfterIntent :: "task_journal_phase \<Rightarrow> bool" where
  "phaseAtOrAfterIntent phase \<longleftrightarrow>
     phase \<in> {PhaseSubmitIntent, PhaseSubmitted, PhaseCollected, PhaseUploaded, PhaseNeedsHuman}"

definition assertMatchingJournal :: "task_journal_entry \<Rightarrow> browser_extension_claim \<Rightarrow> string \<Rightarrow> error + unit" where
  "assertMatchingJournal entry claim promptSha256 =
     (if j_batchId entry \<noteq> bc_batchId claim \<or> j_brandId entry \<noteq> bc_brandId claim \<or>
         j_surfaceTargetKey entry \<noteq> bc_surfaceTargetKey claim \<or> j_promptSha256 entry \<noteq> promptSha256
      then Inl (PlainError ''Durable task journal does not match the claimed task'') else Inr ())"

subsection \<open>Failures\<close>

text \<open>Every run of characters in the class becomes one space.\<close>

fun replace_runs :: "(char \<Rightarrow> bool) \<Rightarrow> bool \<Rightarrow> string \<Rightarrow> string" where
  "replace_runs p inside [] = []"
| "replace_runs p inside (c # s) =
     (if p c then (if inside then replace_runs p True s else CHR '' '' # replace_runs p True s)
      else c # replace_runs p False s)"

definition safeReason :: "string \<Rightarrow> string" where
  "safeReason value =
     (let s = js_slice 1000 (js_trim (replace_runs js_space False
         (replace_runs (\<lambda>c. (of_char c :: nat) \<in> {9, 10, 13}) False value)))
      in if s = [] then ''Browser task failed'' else s)"

definition error_message :: "failure \<Rightarrow> string" where
  "error_message f =
     (case f of
        AdapterError _ _ m \<Rightarrow> m
      | RunnerTabOpenError _ _ \<Rightarrow> ''Browser Runner tab opened but did not become ready''
      | OtherError (Some m) \<Rightarrow> m
      | OtherError None \<Rightarrow> ''Browser task failed'')"

definition classifyFailure :: "failure \<Rightarrow> task_journal_phase \<Rightarrow> bool \<Rightarrow> runner_failure_input" where
  "classifyFailure error phase resuming =
     (let postSubmit = phaseAtOrAfterIntent phase in
      case error of
        AdapterError code stage message \<Rightarrow>
          \<lparr>rf_stage = (if postSubmit then PostSubmit else stage), rf_code = adapter_code_text code,
           rf_reason = safeReason message\<rparr>
      | _ \<Rightarrow>
          \<lparr>rf_stage = (if postSubmit then PostSubmit else PreSubmit),
           rf_code = (if postSubmit then ''post_submit_unknown''
                      else if resuming then ''browser_crash_before_submit'' else ''page_load_timeout''),
           rf_reason = safeReason (error_message error)\<rparr>)"

definition call :: "environment \<Rightarrow> event \<Rightarrow> unit prog" where
  "call env e = perform e (\<lambda>h. e_tab env h e)"

definition api_failTask :: "environment \<Rightarrow> browser_extension_claim \<Rightarrow> runner_failure_input \<Rightarrow> bool prog" where
  "api_failTask env claim failure = perform (FailTask claim failure) (\<lambda>h. e_failTask env h claim failure)"

definition persistNeedsHuman :: "environment \<Rightarrow> browser_extension_claim \<Rightarrow> runner_failure_input \<Rightarrow> task_run_result prog" where
  "persistNeedsHuman env claim failure =
     tryP
       (bindP (markNeedsHuman env (bc_taskId claim) (rf_code failure)) (\<lambda>_.
        bindP (api_failTask env claim failure) (\<lambda>_. returnP (NeedsHuman (rf_code failure)))))
       (\<lambda>_. returnP (Incomplete ''failure_persistence_failed''))"

subsection \<open>The steps of a run\<close>

definition open_tab ::
  "environment \<Rightarrow> browser_extension_claim \<Rightarrow> task_journal_entry option \<Rightarrow> string \<Rightarrow> string \<Rightarrow> int prog" where
  "open_tab env claim existing session sha =
     (case existing of
        Some entry \<Rightarrow>
          bindP (call env (AttachTab (j_tabId entry) (bc_surfaceTargetKey claim))) (\<lambda>_.
          bindP (set_tab (Some (j_tabId entry))) (\<lambda>_. returnP (j_tabId entry)))
      | None \<Rightarrow>
          bindP (perform (OpenTab claim) (\<lambda>h. e_open env h claim)) (\<lambda>tabId.
          bindP (set_tab (Some tabId)) (\<lambda>_.
          bindP (journal_start env claim tabId session sha) (\<lambda>_. returnP tabId))))"

definition reach :: "environment \<Rightarrow> browser_extension_claim \<Rightarrow> task_journal_phase \<Rightarrow> unit prog" where
  "reach env claim phase = bindP (journal_advance env (bc_taskId claim) phase) (\<lambda>_. set_phase phase)"

definition api_confirmSubmitted :: "environment \<Rightarrow> browser_extension_claim \<Rightarrow> string \<Rightarrow> unit prog" where
  "api_confirmSubmitted env claim session =
     perform (ConfirmSubmitted claim session) (\<lambda>h. e_confirmSubmitted env h claim session)"

text \<open>A task whose prompt may have been submitted is taken up after the submission.\<close>

definition resume_submission ::
  "environment \<Rightarrow> browser_extension_claim \<Rightarrow> task_journal_entry \<Rightarrow> string \<Rightarrow> int \<Rightarrow> unit prog" where
  "resume_submission env claim existing session tab =
     (if (case bc_runnerSessionId claim of
            None \<Rightarrow> True | Some s \<Rightarrow> s = [] \<or> s \<noteq> j_runnerSessionId existing)
      then throwP (AdapterError CodePostSubmitUnknown PostSubmit ''Resumed runner session does not match this tab'')
      else
      bindP (if j_phase existing \<noteq> PhaseSubmitIntent
             then bindP (resumePostSubmit env (bc_taskId claim)) (\<lambda>_. set_phase PhaseSubmitIntent)
             else returnP ()) (\<lambda>_.
      bindP (call env (ResumeSubmitted tab (bc_promptText claim))) (\<lambda>_.
      bindP (if bc_submitConfirmed claim then returnP () else api_confirmSubmitted env claim session) (\<lambda>_.
      reach env claim PhaseSubmitted))))"

definition submit_prompt :: "environment \<Rightarrow> browser_extension_claim \<Rightarrow> string \<Rightarrow> int \<Rightarrow> unit prog" where
  "submit_prompt env claim session tab =
     bindP (call env (Preflight tab)) (\<lambda>_.
     bindP (call env (OpenNewConversation tab)) (\<lambda>_.
     bindP (call env (PreparePrompt tab (bc_promptText claim))) (\<lambda>_.
     bindP (reach env claim PhasePrepared) (\<lambda>_.
     bindP (reach env claim PhaseSubmitIntent) (\<lambda>_.
     bindP (perform (RecordSubmitIntent claim session) (\<lambda>h. e_recordSubmitIntent env h claim session)) (\<lambda>_.
     bindP (call env (SubmitOnce claim tab)) (\<lambda>_.
     bindP (call env (ConfirmOnPage tab (bc_promptText claim))) (\<lambda>_.
     bindP (api_confirmSubmitted env claim session) (\<lambda>_.
     reach env claim PhaseSubmitted)))))))))"

subsection \<open>Visual evidence\<close>

definition upload_evidence ::
  "environment \<Rightarrow> browser_extension_claim \<Rightarrow> string \<Rightarrow> string \<Rightarrow> string \<Rightarrow> evidence_upload_descriptor \<Rightarrow> string prog" where
  "upload_evidence env claim session version bytes descriptor =
     perform (UploadEvidence claim session version bytes descriptor)
       (\<lambda>h. e_uploadEvidence env h claim session version bytes descriptor)"

fun upload_segments ::
  "environment \<Rightarrow> browser_extension_claim \<Rightarrow> string \<Rightarrow> string \<Rightarrow> int \<Rightarrow> int \<Rightarrow> string list \<Rightarrow> string list prog" where
  "upload_segments env claim session version segmentCount index [] = returnP []"
| "upload_segments env claim session version segmentCount index (segment # segments) =
     bindP (attemptP (upload_evidence env claim session version segment (SegmentEvidence (index + 1) segmentCount))) (\<lambda>r.
     bindP (upload_segments env claim session version segmentCount (index + 1) segments) (\<lambda>ids.
     returnP (case r of Inr i \<Rightarrow> i # ids | Inl _ \<Rightarrow> ids)))"

definition unavailable_evidence :: visual_evidence where
  "unavailable_evidence = \<lparr>ve_status = VisualUnavailable, ve_primaryArtifactId = None, ve_segmentArtifactIds = [],
     ve_expectedSegmentCount = 0, ve_capturedSegmentCount = 0\<rparr>"

definition evidence_summary :: "captured_evidence \<Rightarrow> string option \<Rightarrow> string list \<Rightarrow> visual_evidence" where
  "evidence_summary captured primary segmentIds =
     (if truthy_id primary \<noteq> []
      then \<lparr>ve_status = VisualComplete, ve_primaryArtifactId = primary, ve_segmentArtifactIds = segmentIds,
        ve_expectedSegmentCount = ce_expectedSegmentCount captured, ve_capturedSegmentCount = int (length segmentIds)\<rparr>
      else if segmentIds \<noteq> []
      then \<lparr>ve_status = VisualPartial, ve_primaryArtifactId = None, ve_segmentArtifactIds = segmentIds,
        ve_expectedSegmentCount = ce_expectedSegmentCount captured, ve_capturedSegmentCount = int (length segmentIds)\<rparr>
      else unavailable_evidence)"

definition capture_visual_evidence ::
  "environment \<Rightarrow> browser_extension_claim \<Rightarrow> string \<Rightarrow> int \<Rightarrow> collected_answer \<Rightarrow> visual_evidence prog" where
  "capture_visual_evidence env claim session tab answer =
     bindP (perform (CaptureEvidence tab (bc_promptText claim)) (\<lambda>h. e_captureEvidence env h tab (bc_promptText claim)))
       (\<lambda>captured.
     bindP (upload_segments env claim session (ca_adapterVersion answer) (ce_expectedSegmentCount captured) 0
         (ce_segments captured)) (\<lambda>segmentIds.
     bindP
       (case ce_composite captured of
          None \<Rightarrow> returnP None
        | Some composite \<Rightarrow>
            if int (length (ce_segments captured)) = ce_expectedSegmentCount captured \<and>
               int (length segmentIds) = ce_expectedSegmentCount captured
            then bindP (attemptP (upload_evidence env claim session (ca_adapterVersion answer) composite PrimaryEvidence))
              (\<lambda>r. returnP (case r of Inr i \<Rightarrow> Some i | Inl _ \<Rightarrow> None))
            else returnP None) (\<lambda>primary.
     bindP (if truthy_id primary \<noteq> [] \<or> segmentIds \<noteq> [] then reach env claim PhaseUploaded else returnP ()) (\<lambda>_.
     returnP (evidence_summary captured primary segmentIds)))))"

definition collect_and_complete ::
  "environment \<Rightarrow> browser_extension_claim \<Rightarrow> string \<Rightarrow> int \<Rightarrow> task_run_result prog" where
  "collect_and_complete env claim session tab =
     bindP (perform (CollectCurrentAnswer tab) (\<lambda>h. e_collectCurrentAnswer env h tab)) (\<lambda>answer.
     bindP (reach env claim PhaseCollected) (\<lambda>_.
     bindP (tryP (capture_visual_evidence env claim session tab answer) (\<lambda>_. returnP unavailable_evidence))
       (\<lambda>visualEvidence.
     let completion = \<lparr>rc_runnerSessionId = session, rc_adapterVersion = ca_adapterVersion answer,
         rc_browserVersion = e_browserVersion env, rc_answer = answer, rc_visualEvidence = visualEvidence\<rparr> in
     bindP (perform (CompleteTask claim completion) (\<lambda>h. e_completeTask env h claim completion)) (\<lambda>_.
     bindP (attemptP (removeJournal env (bc_taskId claim))) (\<lambda>_.
     bindP (attemptP (call env (CloseTab tab))) (\<lambda>_. returnP Succeeded))))))"

subsection \<open>The run\<close>

definition run_body ::
  "environment \<Rightarrow> browser_extension_claim \<Rightarrow> task_journal_entry option \<Rightarrow> string \<Rightarrow> string \<Rightarrow> task_run_result prog" where
  "run_body env claim existing session sha =
     bindP (open_tab env claim existing session sha) (\<lambda>tab.
     bindP
       (case existing of
          Some entry \<Rightarrow>
            if phaseAtOrAfterIntent (j_phase entry) then resume_submission env claim entry session tab
            else submit_prompt env claim session tab
        | None \<Rightarrow> submit_prompt env claim session tab) (\<lambda>_.
     collect_and_complete env claim session tab))"

definition close_failed_tab :: "environment \<Rightarrow> unit prog" where
  "close_failed_tab env w =
     (case w_tab w of
        None \<Rightarrow> (Done (), w)
      | Some tab \<Rightarrow> bindP (attemptP (call env (CloseTab tab))) (\<lambda>_. returnP ()) w)"

definition report_failure :: "environment \<Rightarrow> browser_extension_claim \<Rightarrow> runner_failure_input \<Rightarrow> task_run_result prog" where
  "report_failure env claim failure =
     tryP
       (bindP (loadJournal env) (\<lambda>entries.
        bindP (if map_of entries (bc_taskId claim) \<noteq> None
               then bindP (markNeedsHuman env (bc_taskId claim) (rf_code failure)) (\<lambda>_. returnP ()) else returnP ())
          (\<lambda>_.
        bindP (api_failTask env claim failure) (\<lambda>retryScheduled.
        if retryScheduled
        then bindP (removeJournal env (bc_taskId claim)) (\<lambda>_.
             bindP (close_failed_tab env) (\<lambda>_. returnP (RetryScheduled (rf_code failure))))
        else returnP (NeedsHuman (rf_code failure))))))
       (\<lambda>_. returnP (Incomplete ''failure_persistence_failed''))"

definition classified :: "failure \<Rightarrow> bool \<Rightarrow> runner_failure_input prog" where
  "classified source resuming w = (Done (classifyFailure source (w_phase w) resuming), w)"

definition run_failed ::
  "environment \<Rightarrow> browser_extension_claim \<Rightarrow> task_journal_entry option \<Rightarrow> string \<Rightarrow> string \<Rightarrow> failure \<Rightarrow> task_run_result prog" where
  "run_failed env claim existing session sha error =
     (case error of
        RunnerTabOpenError tab cause \<Rightarrow>
          bindP (set_tab (Some tab)) (\<lambda>_.
          bindP (attemptP (if existing = None
                           then bindP (journal_start env claim tab session sha) (\<lambda>_. returnP ())
                           else returnP ())) (\<lambda>r.
          case r of
            Inl _ \<Rightarrow> returnP (Incomplete ''local_journal_persistence_failed'')
          | Inr _ \<Rightarrow> bindP (classified cause (existing \<noteq> None)) (report_failure env claim)))
      | _ \<Rightarrow> bindP (classified error (existing \<noteq> None)) (report_failure env claim))"

text \<open>The run once the journal has been read.\<close>

definition run_with_entry ::
  "environment \<Rightarrow> browser_extension_claim \<Rightarrow> string \<Rightarrow> task_journal_entry option \<Rightarrow> task_run_result prog" where
  "run_with_entry env claim sha existing =
     bindP (case existing of None \<Rightarrow> returnP () | Some entry \<Rightarrow> liftE (assertMatchingJournal entry claim sha)) (\<lambda>_.
     if (case existing of None \<Rightarrow> False | Some entry \<Rightarrow> phaseAtOrAfterIntent (j_phase entry)) \<and>
        \<not> bc_postSubmitAssist claim
     then persistNeedsHuman env claim
       \<lparr>rf_stage = PostSubmit, rf_code = ''durable_submit_intent_requires_resume'',
        rf_reason = ''A durable submit intent already exists; automatic resubmission is forbidden''\<rparr>
     else
     bindP historyP (\<lambda>h.
     let session = (case existing of Some entry \<Rightarrow> j_runnerSessionId entry | None \<Rightarrow> e_randomSessionId env h) in
     bindP (set_phase (case existing of Some entry \<Rightarrow> j_phase entry | None \<Rightarrow> PhaseClaimed)) (\<lambda>_.
     bindP (set_tab None) (\<lambda>_.
     tryP (run_body env claim existing session sha) (run_failed env claim existing session sha)))))"

definition runClaimedTask :: "environment \<Rightarrow> browser_extension_claim \<Rightarrow> task_run_result prog" where
  "runClaimedTask env claim =
     bindP (loadJournal env) (\<lambda>entries.
     run_with_entry env claim (e_sha256 env (bc_promptText claim)) (map_of entries (bc_taskId claim)))"

end
