(* ===== verification/ExtensionCoordinator.thy ===== *)
theory ExtensionCoordinator
  imports TaskRunner
begin

text \<open>
  The coordinator of the browser extension (\<open>coordinator/extension-coordinator.ts\<close>,
  \<open>coordinator/poller.ts\<close>, and the notification of \<open>background.ts\<close>): reconcile the local journal
  with the portal, recover the tasks whose answer may still be on their page, and then claim and run
  new tasks, surface by surface; and the recovery of one task that an operator asks for. The
  worker runs one of these at a time, which is what \<open>background.ts\<close> guards.
\<close>

subsection \<open>Results for the operator\<close>

definition operatorGuidance :: "string \<Rightarrow> string" where
  "operatorGuidance code =
     (if code = ''signed_out'' then ''Please sign in in the preserved browser tab, then resume that exact task.''
      else if code = ''captcha''
      then ''Complete the verification in the preserved browser tab, then recover this exact task.''
      else if code = ''rate_limited''
      then ''Keep the preserved tab open. Wait until the limit clears, then recover this exact task; do not resend the prompt.''
      else if code = ''response_timeout''
      then ''Keep the completed answer open, then recover this exact task without resending the prompt.''
      else if code = ''recovery_tab_unavailable''
      then ''Open the exact stopped conversation tab, then press Recover response again.''
      else if code = ''resume_authorization_failed''
      then ''Refresh the Portal connection, then retry this same recovery; no prompt was resent.''
      else if code = ''resume_claim_mismatch''
      then ''Stop and ask an administrator to inspect this task; its frozen task identity did not match.''
      else if code = ''local_journal_persistence_failed''
      then ''Keep the preserved tab open and ask an administrator to repair the local task journal before retrying.''
      else if code = ''account_restricted'' then ''This account is restricted. No further tasks will be submitted.''
      else if code = ''page_drift''
      then ''The consumer page changed. Keep the stopped tab open and ask an administrator to re-qualify this platform.''
      else ''Keep the stopped tab open and ask an administrator to inspect this exact task.'')"

definition notifyNeedsAttention :: "environment \<Rightarrow> task_run_result \<Rightarrow> unit prog" where
  "notifyNeedsAttention env result =
     (case result of
        NeedsHuman code \<Rightarrow> perform (NotifyOperator (operatorGuidance code)) (\<lambda>h. e_notify env h (operatorGuidance code))
      | Incomplete code \<Rightarrow> perform (NotifyOperator (operatorGuidance code)) (\<lambda>h. e_notify env h (operatorGuidance code))
      | _ \<Rightarrow> returnP ())"

definition rememberNeedsHumanFailure :: "environment \<Rightarrow> string \<Rightarrow> task_run_result \<Rightarrow> unit prog" where
  "rememberNeedsHumanFailure env taskId result =
     (case result of
        NeedsHuman code \<Rightarrow> bindP (attemptP (recordNeedsHumanFailure env taskId code)) (\<lambda>_. returnP ())
      | _ \<Rightarrow> returnP ())"

subsection \<open>Polling for new work\<close>

definition PLATFORM_WIDE_FAILURE_CODES :: "string list" where
  "PLATFORM_WIDE_FAILURE_CODES = [''signed_out'', ''captcha'', ''account_restricted'', ''rate_limited'', ''page_drift'']"

definition MAX_TASKS_PER_SURFACE_PER_POLL :: "string \<Rightarrow> nat" where
  "MAX_TASKS_PER_SURFACE_PER_POLL surface = (if surface = ''kimi.consumer_web'' then 1 else 100)"

record surface_poll_summary =
  ps_succeeded :: nat
  ps_retryScheduled :: nat
  ps_needsHuman :: nat
  ps_incomplete :: nat

definition empty_summary :: surface_poll_summary where
  "empty_summary = \<lparr>ps_succeeded = 0, ps_retryScheduled = 0, ps_needsHuman = 0, ps_incomplete = 0\<rparr>"

definition emptySummaries :: "(string \<times> surface_poll_summary) list" where
  "emptySummaries = mapBrowserExtensionSurfaces (\<lambda>_. empty_summary)"

definition stops_surface :: "task_run_result \<Rightarrow> bool" where
  "stops_surface result =
     (case result of
        Incomplete _ \<Rightarrow> True | NeedsHuman code \<Rightarrow> code \<in> set PLATFORM_WIDE_FAILURE_CODES | _ \<Rightarrow> False)"

definition count_result :: "task_run_result \<Rightarrow> surface_poll_summary \<Rightarrow> surface_poll_summary" where
  "count_result result s =
     (case result of
        Succeeded \<Rightarrow> s\<lparr>ps_succeeded := ps_succeeded s + 1\<rparr>
      | RetryScheduled _ \<Rightarrow> s\<lparr>ps_retryScheduled := ps_retryScheduled s + 1\<rparr>
      | NeedsHuman _ \<Rightarrow> s\<lparr>ps_needsHuman := ps_needsHuman s + 1\<rparr>
      | Incomplete _ \<Rightarrow> s\<lparr>ps_incomplete := ps_incomplete s + 1\<rparr>)"

definition pool_of :: "string \<Rightarrow> world \<Rightarrow> surface_pool" where
  "pool_of surface w =
     (case map_of (w_pools w) surface of
        Some pool \<Rightarrow> pool
      | None \<Rightarrow> projr (newSurfacePool \<lparr>po_initial = None, po_minimum = None, po_maximum = None,
          po_successWindow = None, po_baseCooldownMs = None, po_maximumCooldownMs = None\<rparr>))"

text \<open>What a result does to the surface's pool.\<close>

definition account_pool :: "environment \<Rightarrow> string \<Rightarrow> task_run_result \<Rightarrow> unit prog" where
  "account_pool env surface result w =
     (Done (), w\<lparr>w_pools := AList.update surface
        (case result of
           Succeeded \<Rightarrow> recordStableSuccess (pool_of surface w)
         | NeedsHuman code \<Rightarrow>
             if code = ''rate_limited'' then recordRateLimit (pool_of surface w) (e_now env (w_log w)) else pool_of surface w
         | _ \<Rightarrow> pool_of surface w) (w_pools w)\<rparr>)"

definition can_start_now :: "environment \<Rightarrow> string \<Rightarrow> bool prog" where
  "can_start_now env surface w = (Done (canStart (pool_of surface w) (e_now env (w_log w))), w)"

definition claim_next :: "environment \<Rightarrow> string \<Rightarrow> string \<Rightarrow> browser_extension_claim option prog" where
  "claim_next env brandId surface = perform (ClaimNext brandId surface) (\<lambda>h. e_claimNext env h brandId surface)"

text \<open>
  One round over the brands: it ends when enough claims are there, when every brand in a row had
  nothing, or at an empty brand id.
\<close>

function claim_round ::
  "environment \<Rightarrow> string list \<Rightarrow> string \<Rightarrow> nat \<Rightarrow> nat \<Rightarrow> nat \<Rightarrow> browser_extension_claim list \<Rightarrow>
   browser_extension_claim list prog" where
  "claim_round env brandIds surface maximum emptyBrands brandIndex claims =
     (if length claims < maximum \<and> emptyBrands < length brandIds then
        let brandId = brandIds ! (brandIndex mod length brandIds) in
        if brandId = [] then returnP claims
        else
        bindP (claim_next env brandId surface) (\<lambda>next.
        case next of
          Some claim \<Rightarrow> claim_round env brandIds surface maximum 0 (brandIndex + 1) (claims @ [claim])
        | None \<Rightarrow> claim_round env brandIds surface maximum (emptyBrands + 1) (brandIndex + 1) claims)
      else returnP claims)"
  by pat_completeness auto

termination
  by (relation "measures [\<lambda>(_, _, _, maximum, _, _, claims). maximum - length claims,
      \<lambda>(_, brandIds, _, _, emptyBrands, _, _). length brandIds - emptyBrands]") auto

declare claim_round.simps [simp del]

definition run_polled :: "environment \<Rightarrow> browser_extension_claim \<Rightarrow> task_run_result prog" where
  "run_polled env claim =
     bindP (runClaimedTask env claim) (\<lambda>result.
     bindP (rememberNeedsHumanFailure env (bc_taskId claim) result) (\<lambda>_.
     bindP (notifyNeedsAttention env result) (\<lambda>_. returnP result)))"

fun poll_tasks ::
  "environment \<Rightarrow> string list \<Rightarrow> string \<Rightarrow> nat \<Rightarrow> surface_poll_summary \<Rightarrow> surface_poll_summary prog" where
  "poll_tasks env brandIds surface 0 summary = returnP summary"
| "poll_tasks env brandIds surface (Suc n) summary =
     bindP (attemptP (claim_round env brandIds surface 1 0 0 [])) (\<lambda>round.
     case round of
       Inl _ \<Rightarrow> returnP (summary\<lparr>ps_incomplete := ps_incomplete summary + 1\<rparr>)
     | Inr [] \<Rightarrow> returnP summary
     | Inr (claim # _) \<Rightarrow>
         bindP (tryP (run_polled env claim) (\<lambda>_. returnP (Incomplete ''coordinator_unhandled''))) (\<lambda>result.
         bindP (account_pool env surface result) (\<lambda>_.
         if stops_surface result then returnP (count_result result summary)
         else poll_tasks env brandIds surface n (count_result result summary))))"

fun pollStartedWork ::
  "environment \<Rightarrow> string list \<Rightarrow> string list \<Rightarrow> (string \<times> surface_poll_summary) list \<Rightarrow>
   (string \<times> surface_poll_summary) list prog" where
  "pollStartedWork env brandIds [] bySurface = returnP bySurface"
| "pollStartedWork env brandIds (surface # surfaces) bySurface =
     bindP (can_start_now env surface) (\<lambda>open_pool.
     if \<not> open_pool then pollStartedWork env brandIds surfaces bySurface
     else
     bindP (poll_tasks env brandIds surface (MAX_TASKS_PER_SURFACE_PER_POLL surface)
         (case map_of bySurface surface of Some s \<Rightarrow> s | None \<Rightarrow> empty_summary)) (\<lambda>summary.
     pollStartedWork env brandIds surfaces (AList.update surface summary bySurface)))"

subsection \<open>Recovering a task\<close>

datatype manual_recovery_result = RunResult task_run_result | NotRecoverable string

definition manualRecoveryStage :: "task_journal_entry \<Rightarrow> runner_stage" where
  "manualRecoveryStage entry =
     (case j_interruptedPhase entry of
        Some p \<Rightarrow> if isPostSubmitPhase p then PostSubmit else PreSubmit
      | None \<Rightarrow> PostSubmit)"

definition assertManualResumeClaim ::
  "(string \<Rightarrow> string) \<Rightarrow> task_journal_entry \<Rightarrow> browser_extension_claim \<Rightarrow> runner_stage \<Rightarrow> error + unit" where
  "assertManualResumeClaim sha entry claim stage =
     (if bc_taskId claim \<noteq> j_taskId entry \<or> bc_batchId claim \<noteq> j_batchId entry \<or>
         bc_brandId claim \<noteq> j_brandId entry \<or> bc_surfaceTargetKey claim \<noteq> j_surfaceTargetKey entry \<or>
         sha (bc_promptText claim) \<noteq> j_promptSha256 entry
      then Inl (PlainError ''Portal did not authorize this exact browser task'')
      else if stage = PostSubmit
      then (if \<not> bc_postSubmitAssist claim \<or> bc_runnerSessionId claim \<noteq> Some (j_runnerSessionId entry)
            then Inl (PlainError ''Portal did not authorize this exact post-submit browser session'') else Inr ())
      else if bc_postSubmitAssist claim \<or> bc_submitConfirmed claim \<or> bc_runnerSessionId claim \<noteq> None
      then Inl (PlainError ''Portal did not authorize this exact pre-submit browser task'') else Inr ())"

definition manualRecoveryFailure ::
  "environment \<Rightarrow> browser_extension_claim \<Rightarrow> runner_stage \<Rightarrow> string \<Rightarrow> task_run_result prog" where
  "manualRecoveryFailure env claim stage code =
     bindP (attemptP (api_failTask env claim
        \<lparr>rf_stage = stage, rf_code = code,
         rf_reason = ''The exact local browser task could not be resumed after a new lease was issued''\<rparr>)) (\<lambda>_.
     returnP (NeedsHuman code))"

text \<open>A step whose failure ends the recovery with a code of its own.\<close>

definition or_fail :: "'a prog \<Rightarrow> task_run_result prog \<Rightarrow> ('a \<Rightarrow> task_run_result prog) \<Rightarrow> task_run_result prog" where
  "or_fail step failed continue =
     bindP (attemptP step) (\<lambda>r. case r of Inl _ \<Rightarrow> failed | Inr x \<Rightarrow> continue x)"

definition api_resume ::
  "environment \<Rightarrow> string \<Rightarrow> string \<Rightarrow> runner_stage \<Rightarrow> string \<Rightarrow> browser_extension_claim prog" where
  "api_resume env taskId brandId stage surface =
     perform (ResumeTask taskId brandId stage surface) (\<lambda>h. e_resume env h taskId brandId stage surface)"

definition resume_journal ::
  "environment \<Rightarrow> task_journal_entry \<Rightarrow> browser_extension_claim \<Rightarrow> runner_stage \<Rightarrow> runner_stage \<Rightarrow> unit prog" where
  "resume_journal env entry claim requestedStage recoveryStage =
     (if recoveryStage = PreSubmit
      then bindP (if requestedStage = PreSubmit then resumePreSubmit env (j_taskId entry)
                  else resumeServerAuthorizedPreSubmit env (j_taskId entry)) (\<lambda>_. returnP ())
      else if requestedStage = PreSubmit \<or> j_interruptedPhase entry = None
      then bindP (markPostSubmitBoundary env (j_taskId entry)
          (if bc_submitConfirmed claim then PhaseSubmitted else PhaseSubmitIntent)) (\<lambda>_. returnP ())
      else returnP ())"

text \<open>The recovery once the portal has authorised it with a claim.\<close>

definition recover_with_claim ::
  "environment \<Rightarrow> task_journal_entry \<Rightarrow> bool \<Rightarrow> runner_stage \<Rightarrow> browser_extension_claim \<Rightarrow> task_run_result prog" where
  "recover_with_claim env entry automaticPostSubmit requestedStage claim =
     (let recoveryStage = (if bc_postSubmitAssist claim then PostSubmit else PreSubmit);
          failed = manualRecoveryFailure env claim recoveryStage
      in
      or_fail
        (liftE (if automaticPostSubmit \<and> recoveryStage \<noteq> PostSubmit
                then Inl (PlainError ''Automatic recovery is restricted to post-submit sessions'')
                else assertManualResumeClaim (e_sha256 env) entry claim recoveryStage))
        (failed ''resume_claim_mismatch'') (\<lambda>_.
      or_fail
        (if automaticPostSubmit then returnP (j_tabId entry)
         else perform (ResolveRecoveryTab (j_tabId entry) (j_surfaceTargetKey entry))
           (\<lambda>h. e_resolveManualRecoveryTab env h (j_tabId entry) (j_surfaceTargetKey entry)))
        (failed ''recovery_tab_unavailable'') (\<lambda>recoveryTabId.
      or_fail
        (if \<not> automaticPostSubmit \<and> recoveryTabId \<noteq> j_tabId entry
         then bindP (rebindNeedsHumanTab env (j_taskId entry) recoveryTabId) (\<lambda>_. returnP ()) else returnP ())
        (failed ''local_journal_persistence_failed'') (\<lambda>_.
      or_fail (call env (ActivateTab recoveryTabId)) (failed ''recovery_tab_unavailable'') (\<lambda>_.
      or_fail (resume_journal env entry claim requestedStage recoveryStage)
        (failed ''local_journal_persistence_failed'') (\<lambda>_.
      bindP (runClaimedTask env claim) (\<lambda>result.
      bindP (notifyNeedsAttention env result) (\<lambda>_. returnP result))))))))"

definition recoverEntry :: "environment \<Rightarrow> task_journal_entry \<Rightarrow> bool \<Rightarrow> task_run_result prog" where
  "recoverEntry env entry automaticPostSubmit =
     (let requestedStage = (if automaticPostSubmit then PostSubmit else manualRecoveryStage entry) in
      or_fail (api_resume env (j_taskId entry) (j_brandId entry) requestedStage (j_surfaceTargetKey entry))
        (returnP (NeedsHuman ''resume_authorization_failed''))
        (recover_with_claim env entry automaticPostSubmit requestedStage))"

definition recoverNeedsHuman :: "environment \<Rightarrow> string \<Rightarrow> manual_recovery_result prog" where
  "recoverNeedsHuman env taskId =
     bindP (loadDevice env) (\<lambda>device.
     if device = None then returnP (NotRecoverable ''device_not_paired'')
     else
     bindP (loadJournal env) (\<lambda>entries.
     case map_of entries taskId of
       None \<Rightarrow> returnP (NotRecoverable ''local_task_not_waiting'')
     | Some entry \<Rightarrow>
         if j_phase entry \<noteq> PhaseNeedsHuman then returnP (NotRecoverable ''local_task_not_waiting'')
         else
         bindP (recoverEntry env entry False) (\<lambda>result.
         bindP (rememberNeedsHumanFailure env taskId result) (\<lambda>_. returnP (RunResult result)))))"

record manual_recovery_candidate =
  mr_taskId :: string
  mr_surfaceTargetKey :: string
  mr_updatedAt :: string
  mr_recoveryStage :: runner_stage

definition listNeedsHuman :: "environment \<Rightarrow> manual_recovery_candidate list prog" where
  "listNeedsHuman env =
     bindP (loadJournal env) (\<lambda>entries.
     returnP (map (\<lambda>entry. \<lparr>mr_taskId = j_taskId entry, mr_surfaceTargetKey = j_surfaceTargetKey entry,
         mr_updatedAt = j_updatedAt entry, mr_recoveryStage = manualRecoveryStage entry\<rparr>)
       (sort_cmp (\<lambda>l r. e_localeCompare env (j_updatedAt r) (j_updatedAt l))
         (filter (\<lambda>entry. j_phase entry = PhaseNeedsHuman) (map snd entries)))))"

subsection \<open>Automatic recovery\<close>

fun recover_each ::
  "environment \<Rightarrow> task_journal_entry list \<Rightarrow> string list \<Rightarrow> nat \<Rightarrow> nat \<Rightarrow> (nat \<times> nat) prog" where
  "recover_each env [] suppressed recovered incomplete = returnP (recovered, incomplete)"
| "recover_each env (due # rest) suppressed recovered incomplete =
     (if j_taskId due \<in> set suppressed then recover_each env rest suppressed recovered incomplete
      else
      bindP (attemptP
        (bindP (recordPostSubmitRecoveryAttempt env (j_taskId due)) (\<lambda>entry.
         bindP (recoverEntry env entry True) (\<lambda>result.
         bindP (rememberNeedsHumanFailure env (j_taskId entry) result) (\<lambda>_. returnP result))))) (\<lambda>r.
      if r = Inr Succeeded then recover_each env rest suppressed (recovered + 1) incomplete
      else recover_each env rest suppressed recovered (incomplete + 1)))"

definition recoverDuePostSubmit :: "environment \<Rightarrow> string list \<Rightarrow> (nat \<times> nat) prog" where
  "recoverDuePostSubmit env suppressed =
     bindP (duePostSubmitRecoveries env) (\<lambda>due. recover_each env due suppressed 0 0)"

subsection \<open>Reconciling the journal\<close>

definition assertTaskReconciliation ::
  "(string \<Rightarrow> string) \<Rightarrow> task_journal_entry \<Rightarrow> browser_task_reconciliation \<Rightarrow> error + unit" where
  "assertTaskReconciliation sha entry r =
     (if tr_taskId r \<noteq> j_taskId entry \<or> tr_batchId r \<noteq> j_batchId entry \<or> tr_brandId r \<noteq> j_brandId entry \<or>
         tr_surfaceTargetKey r \<noteq> j_surfaceTargetKey entry \<or> sha (tr_promptText r) \<noteq> j_promptSha256 entry
      then Inl (PlainError ''Portal did not reconcile this exact browser task'') else Inr ())"

text \<open>Whether an entry's surface is blocked for this run, and its recovery suppressed.\<close>

definition reconcile_entry :: "environment \<Rightarrow> task_journal_entry \<Rightarrow> bool prog" where
  "reconcile_entry env entry =
     tryP
       (bindP (perform (ReconcileTask (j_taskId entry) (j_brandId entry))
            (\<lambda>h. e_reconcileTask env h (j_taskId entry) (j_brandId entry))) (\<lambda>r.
        bindP (liftE (assertTaskReconciliation (e_sha256 env) entry r)) (\<lambda>_.
        case tr_state r of
          Terminal \<Rightarrow> bindP (removeJournal env (j_taskId entry)) (\<lambda>_. returnP False)
        | Released \<Rightarrow> bindP (removeJournal env (j_taskId entry)) (\<lambda>_. returnP False)
        | Active \<Rightarrow> returnP True
        | Blocked \<Rightarrow> returnP True
        | ResumablePre \<Rightarrow> bindP (alignNeedsHuman env (j_taskId entry) PreSubmit) (\<lambda>_. returnP False)
        | ResumablePost \<Rightarrow>
            if tr_runnerSessionId r \<noteq> Some (j_runnerSessionId entry) then returnP True
            else bindP (alignNeedsHuman env (j_taskId entry) PostSubmit) (\<lambda>_. returnP False))))
       (\<lambda>_. returnP True)"

fun reconcile_each ::
  "environment \<Rightarrow> task_journal_entry list \<Rightarrow> string list \<Rightarrow> string list \<Rightarrow> (string list \<times> string list) prog" where
  "reconcile_each env [] blocked suppressed = returnP (blocked, suppressed)"
| "reconcile_each env (entry # rest) blocked suppressed =
     bindP (reconcile_entry env entry) (\<lambda>stuck.
     if stuck then reconcile_each env rest (j_surfaceTargetKey entry # blocked) (j_taskId entry # suppressed)
     else reconcile_each env rest blocked suppressed)"

definition reconcileJournalBeforePoll :: "environment \<Rightarrow> (string list \<times> string list) prog" where
  "reconcileJournalBeforePoll env =
     bindP (loadJournal env) (\<lambda>entries. reconcile_each env (map snd entries) [] [])"

record extension_run_summary =
  rs_bySurface :: "(string \<times> surface_poll_summary) list"
  rs_recovered :: nat
  rs_recoveryIncomplete :: nat

definition runOnce :: "environment \<Rightarrow> extension_run_summary option prog" where
  "runOnce env =
     bindP (loadDevice env) (\<lambda>device.
     case device of
       None \<Rightarrow> returnP None
     | Some d \<Rightarrow>
         bindP (reconcileJournalBeforePoll env) (\<lambda>(blockedSurfaces, suppressed).
         bindP (recoverDuePostSubmit env suppressed) (\<lambda>(recovered, incomplete).
         bindP (loadSurfaceReadiness env) (\<lambda>readiness.
         bindP (pollStartedWork env (dc_allowedBrandIds d)
             (filter (\<lambda>surface. surface \<notin> set blockedSurfaces) (readySurfaces readiness)) emptySummaries) (\<lambda>bySurface.
         returnP (Some \<lparr>rs_bySurface = bySurface, rs_recovered = recovered, rs_recoveryIncomplete = incomplete\<rparr>))))))"

end
