(* ===== verification/ExtensionInvariants.thy ===== *)
theory ExtensionInvariants
  imports ExtensionCoordinator
begin

text \<open>
  Reasoning about the extension's programs: invariants of the durable area and the history, a locale
  for the invariants that survive everything but a submission and its intent, triples with a
  postcondition for returning and one for the other outcomes, and what the journal operations do to
  the area.
\<close>

subsection \<open>Invariants of programs\<close>

definition keeps :: "(storage_area \<Rightarrow> history \<Rightarrow> bool) \<Rightarrow> 'a prog \<Rightarrow> bool" where
  "keeps I m \<longleftrightarrow> (\<forall>w. I (w_area w) (w_log w) \<longrightarrow> I (w_area (snd (m w))) (w_log (snd (m w))))"

named_theorems keeps_rules

lemma keepsI: "(\<And>w r w'. I (w_area w) (w_log w) \<Longrightarrow> m w = (r, w') \<Longrightarrow> I (w_area w') (w_log w')) \<Longrightarrow> keeps I m"
  by (metis keeps_def prod.collapse)

lemma keepsD: "keeps I m \<Longrightarrow> m w = (r, w') \<Longrightarrow> I (w_area w) (w_log w) \<Longrightarrow> I (w_area w') (w_log w')"
  by (metis keeps_def snd_conv)

lemma keeps_return [keeps_rules]: "keeps I (returnP x)"
  and keeps_throw [keeps_rules]: "keeps I (throwP f)"
  and keeps_history [keeps_rules]: "keeps I historyP"
  and keeps_set_phase [keeps_rules]: "keeps I (set_phase p)"
  and keeps_set_tab [keeps_rules]: "keeps I (set_tab i)"
  and keeps_classified [keeps_rules]: "keeps I (classified source resuming)"
  by (simp_all add: keeps_def returnP_def throwP_def historyP_def set_phase_def set_tab_def classified_def)

lemma bindP_liftE: "bindP (liftE m) k = (case m of Inr x \<Rightarrow> k x | Inl e \<Rightarrow> liftE (Inl e))"
  by (auto simp: fun_eq_iff bindP_def liftE_def returnP_def throwP_def split: sum.splits)

lemma keeps_liftE [keeps_rules]: "keeps I (liftE m)"
  by (cases m) (simp_all add: liftE_def keeps_rules)

lemma keeps_bind [keeps_rules]: "keeps I m \<Longrightarrow> (\<And>x. keeps I (k x)) \<Longrightarrow> keeps I (bindP m k)"
  by (rule keepsI) (auto simp: bindP_def split: prod.splits outcome.splits dest: keepsD)

lemma keeps_try [keeps_rules]: "keeps I m \<Longrightarrow> (\<And>f. keeps I (h f)) \<Longrightarrow> keeps I (tryP m h)"
  by (rule keepsI) (auto simp: tryP_def split: prod.splits outcome.splits dest: keepsD)

lemma keeps_attempt [keeps_rules]: "keeps I m \<Longrightarrow> keeps I (attemptP m)"
  by (rule keepsI) (auto simp: attemptP_def split: prod.splits outcome.splits dest: keepsD)

lemma keeps_or_fail [keeps_rules]:
  "keeps I step \<Longrightarrow> keeps I failed \<Longrightarrow> (\<And>x. keeps I (continue x)) \<Longrightarrow> keeps I (or_fail step failed continue)"
  unfolding or_fail_def by (intro keeps_rules) (auto split: sum.splits)

lemma keeps_if [keeps_rules]: "(c \<Longrightarrow> keeps I m) \<Longrightarrow> (\<not> c \<Longrightarrow> keeps I n) \<Longrightarrow> keeps I (if c then m else n)"
  by simp

lemma keeps_option [keeps_rules]:
  "keeps I m \<Longrightarrow> (\<And>x. keeps I (k x)) \<Longrightarrow> keeps I (case r of None \<Rightarrow> m | Some x \<Rightarrow> k x)"
  by (cases r) auto

lemma keeps_prod [keeps_rules]: "(\<And>x y. keeps I (k x y)) \<Longrightarrow> keeps I (case r of (x, y) \<Rightarrow> k x y)"
  by (cases r) auto

lemma keeps_sum [keeps_rules]:
  "(\<And>x. keeps I (l x)) \<Longrightarrow> (\<And>x. keeps I (k x)) \<Longrightarrow> keeps I (case r of Inl x \<Rightarrow> l x | Inr x \<Rightarrow> k x)"
  by (cases r) auto

lemma keeps_Let [keeps_rules]: "keeps I (k x) \<Longrightarrow> keeps I (let y = x in k y)"
  by simp

lemma keeps_perform: "(\<And>a h x. I a h \<Longrightarrow> I a ((e, x) # h)) \<Longrightarrow> keeps I (perform e f)"
  by (rule keepsI) (auto simp: perform_def split: reply.splits)

lemma keeps_storageP:
  assumes "\<And>a h x. I a h \<Longrightarrow> I a ((e, x) # h)" and "\<And>a h. I a h \<Longrightarrow> I (change a) h"
  shows "keeps I (storageP env e change)"
  by (rule keepsI) (auto simp: storageP_def assms split: reply.splits if_splits)

text \<open>
  The calls that have to do with a submission; every other call is harmless. A quiet invariant is one
  that no harmless call and no change of the journal breaks.
\<close>

definition harmless :: "event \<Rightarrow> bool" where
  "harmless e \<longleftrightarrow> (case e of RecordSubmitIntent _ _ \<Rightarrow> False | SubmitOnce _ _ \<Rightarrow> False | _ \<Rightarrow> True)"

locale quiet_invariant =
  fixes env :: environment and I :: "storage_area \<Rightarrow> history \<Rightarrow> bool"
  assumes quiet: "I a h \<Longrightarrow> harmless ev \<Longrightarrow> I a ((ev, x) # h)"
    and area: "I a h \<Longrightarrow> area_ok (e_date_parse env) a"
    and saved: "I a h \<Longrightarrow> validateJournalEntry (e_date_parse env) v = Inr e \<Longrightarrow>
      I (area_set [(JOURNAL_ENTRY_KEY_PREFIX @ j_taskId e, entry_json e)] a) h"
    and removed: "I a h \<Longrightarrow> I (area_remove ks a) h"
    and settings: "I a h \<Longrightarrow> k \<in> {DEVICE_KEY, SURFACE_READINESS_KEY} \<Longrightarrow> I (area_set [(k, r)] a) h"
begin

lemma perform_quiet [keeps_rules]: "harmless e \<Longrightarrow> keeps I (perform e f)"
  by (rule keeps_perform) (rule quiet)

lemma call_quiet [keeps_rules]: "harmless e \<Longrightarrow> keeps I (call env e)"
  by (simp add: call_def perform_quiet)

lemma storage_get_quiet [keeps_rules]: "keeps I (storage_get env)"
  unfolding storage_get_def
  by (intro keeps_bind keeps_storageP) (auto simp: quiet harmless_def keeps_def)

lemma migrate_quiet: "keeps I (migrateLegacyJournal env)"
proof (rule keepsI)
  fix w r w'
  assume i: "I (w_area w) (w_log w)" and run: "migrateLegacyJournal env w = (r, w')"
  have plan: "migration_plan (e_date_parse env) (w_area w) = Inr None"
    using area [OF i] by (simp add: area_ok_def migration_plan_def)
  have get: "\<And>x v. storage_get env w = (Done x, v) \<Longrightarrow> x = w_area w \<and> w_area v = w_area w"
    by (auto simp: storage_get_def bindP_def storageP_def split: reply.splits)
  show "I (w_area w') (w_log w')"
    using run i get plan keepsD [OF storage_get_quiet _ i]
    by (auto simp: migrateLegacyJournal_def bindP_def liftE_def returnP_def split: prod.splits outcome.splits)
qed

lemma ensure_quiet [keeps_rules]: "keeps I (ensureJournalMigrated env)"
  by (rule keepsI) (auto simp: ensureJournalMigrated_def split: option.splits prod.splits outcome.splits
      dest: keepsD [OF migrate_quiet])

lemma loadJournal_quiet [keeps_rules]: "keeps I (loadJournal env)"
  unfolding loadJournal_def by (intro keeps_rules)

lemma saveJournal_quiet [keeps_rules]: "keeps I (saveJournal env input)"
proof (cases "journal_items (e_date_parse env) input")
  case (Inr items)
  then obtain e where e: "validateJournalEntry (e_date_parse env) (entry_json input) = Inr e"
    "items = [(JOURNAL_ENTRY_KEY_PREFIX @ j_taskId e, entry_json e)]"
    using journal_items_Inr by blast
  have "keeps I (storage_set env items)"
    unfolding storage_set_def e(2)
    by (intro keeps_storageP saved [OF _ e(1)]) (auto simp: quiet harmless_def)
  then show ?thesis using Inr by (auto simp: saveJournal_def bindP_liftE intro!: keeps_rules)
qed (auto simp: saveJournal_def bindP_liftE intro!: keeps_rules)

lemma removeJournal_quiet [keeps_rules]: "keeps I (removeJournal env taskId)"
proof (cases "journalEntryKey taskId")
  case (Inr key)
  have "keeps I (storage_remove env [key])"
    unfolding storage_remove_def by (intro keeps_storageP) (auto simp: quiet harmless_def removed)
  with Inr show ?thesis by (auto simp: removeJournal_def bindP_liftE intro!: keeps_rules)
qed (auto simp: removeJournal_def bindP_liftE intro!: keeps_rules)

lemma mutate_quiet [keeps_rules]: "keeps I (mutate env taskId decide)"
  unfolding mutate_def by (intro keeps_rules)

lemma journal_quiet [keeps_rules]:
  "keeps I (journal_start env claim tab session sha)" "keeps I (journal_advance env t p)"
  "keeps I (markNeedsHuman env t c)" "keeps I (recordNeedsHumanFailure env t c)"
  "keeps I (recordPostSubmitRecoveryAttempt env t)" "keeps I (resumePostSubmit env t)"
  "keeps I (resumePreSubmit env t)" "keeps I (resumeServerAuthorizedPreSubmit env t)"
  "keeps I (markPostSubmitBoundary env t p)" "keeps I (alignNeedsHuman env t s)"
  "keeps I (rebindNeedsHumanTab env t i)"
  unfolding journal_start_def journal_advance_def markNeedsHuman_def recordNeedsHumanFailure_def
    recordPostSubmitRecoveryAttempt_def resumePostSubmit_def resumePreSubmit_def
    resumeServerAuthorizedPreSubmit_def markPostSubmitBoundary_def alignNeedsHuman_def rebindNeedsHumanTab_def
  by (rule mutate_quiet)+

lemma api_quiet [keeps_rules]:
  "keeps I (api_failTask env claim failure)" "keeps I (api_confirmSubmitted env claim session)"
  "keeps I (upload_evidence env claim session v b d)" "keeps I (claim_next env brand surface)"
  "keeps I (api_resume env t b st s)"
  unfolding api_failTask_def api_confirmSubmitted_def upload_evidence_def claim_next_def api_resume_def
  by (rule perform_quiet, simp add: harmless_def)+

lemma reach_quiet [keeps_rules]: "keeps I (reach env claim phase)"
  unfolding reach_def by (intro keeps_rules)

lemma persist_quiet [keeps_rules]: "keeps I (persistNeedsHuman env claim failure)"
  unfolding persistNeedsHuman_def by (intro keeps_rules)

lemma open_tab_quiet [keeps_rules]: "keeps I (open_tab env claim existing session sha)"
  unfolding open_tab_def by (intro keeps_rules) (simp_all add: harmless_def)

lemma resume_submission_quiet [keeps_rules]: "keeps I (resume_submission env claim existing session tab)"
  unfolding resume_submission_def by (intro keeps_rules) (simp_all add: harmless_def)

lemma upload_segments_quiet [keeps_rules]: "keeps I (upload_segments env claim session v n i segments)"
proof (induction segments arbitrary: i)
  case (Cons s ss)
  show ?case unfolding upload_segments.simps by (intro keeps_rules Cons.IH)
qed (simp add: keeps_rules)

lemma capture_quiet [keeps_rules]: "keeps I (capture_visual_evidence env claim session tab answer)"
  unfolding capture_visual_evidence_def by (intro keeps_rules) (simp_all add: harmless_def)

lemma collect_quiet [keeps_rules]: "keeps I (collect_and_complete env claim session tab)"
  unfolding collect_and_complete_def Let_def by (intro keeps_rules) (simp_all add: harmless_def)

lemma close_failed_tab_quiet [keeps_rules]: "keeps I (close_failed_tab env)"
proof (rule keepsI)
  fix w r w'
  assume "I (w_area w) (w_log w)" and run: "close_failed_tab env w = (r, w')"
  moreover have "keeps I (bindP (attemptP (call env (CloseTab tab))) (\<lambda>_. returnP ()))" for tab
    by (intro keeps_rules) (simp add: harmless_def)
  ultimately show "I (w_area w') (w_log w')"
    by (auto simp: close_failed_tab_def split: option.splits dest: keepsD)
qed

lemma report_failure_quiet [keeps_rules]: "keeps I (report_failure env claim failure)"
  unfolding report_failure_def by (intro keeps_rules)

lemma run_failed_quiet [keeps_rules]: "keeps I (run_failed env claim existing session sha error)"
  unfolding run_failed_def by (cases error) (auto intro!: keeps_rules)

lemma notify_quiet [keeps_rules]:
  "keeps I (notifyNeedsAttention env result)" "keeps I (rememberNeedsHumanFailure env t result)"
  unfolding notifyNeedsAttention_def rememberNeedsHumanFailure_def
  by (cases result; auto intro!: keeps_rules simp: harmless_def)+

lemma recovery_steps_quiet [keeps_rules]:
  "keeps I (manualRecoveryFailure env claim stage code)"
  "keeps I (resume_journal env entry claim s1 s2)"
  unfolding manualRecoveryFailure_def resume_journal_def by (intro keeps_rules)+

lemma reconcile_quiet [keeps_rules]: "keeps I (reconcile_entry env entry)"
  unfolding reconcile_entry_def
  by (intro keeps_rules) (auto intro!: keeps_rules simp: harmless_def split: reconciliation_state.splits)

lemma reconcile_each_quiet [keeps_rules]: "keeps I (reconcile_each env es blocked suppressed)"
proof (induction es arbitrary: blocked suppressed)
  case (Cons e es)
  show ?case unfolding reconcile_each.simps by (intro keeps_rules Cons.IH)
qed (simp add: keeps_rules)

lemma reconcile_journal_quiet [keeps_rules]: "keeps I (reconcileJournalBeforePoll env)"
  unfolding reconcileJournalBeforePoll_def by (intro keeps_rules)

lemma settings_quiet: "k \<in> {DEVICE_KEY, SURFACE_READINESS_KEY} \<Longrightarrow> keeps I (storage_set env [(k, r)])"
  unfolding storage_set_def by (intro keeps_storageP) (auto simp: quiet harmless_def settings)

lemma device_quiet [keeps_rules]:
  "keeps I (loadDevice env)" "keeps I (loadSurfaceReadiness env)" "keeps I (saveDevice env d)"
  "keeps I (saveSurfaceReadiness env r)" "keeps I (disconnect env)"
proof -
  have "keeps I (storage_remove env ks)" for ks
    unfolding storage_remove_def by (intro keeps_storageP) (auto simp: quiet harmless_def removed)
  then show "keeps I (disconnect env)" unfolding disconnect_def by (intro keeps_rules)
  show "keeps I (loadDevice env)" "keeps I (loadSurfaceReadiness env)" "keeps I (saveDevice env d)"
    "keeps I (saveSurfaceReadiness env r)"
    unfolding loadDevice_def loadSurfaceReadiness_def saveDevice_def saveSurfaceReadiness_def Let_def
    by (intro keeps_rules settings_quiet; simp)+
qed

lemma due_quiet [keeps_rules]: "keeps I (duePostSubmitRecoveries env)"
  unfolding duePostSubmitRecoveries_def by (intro keeps_rules)

end

subsection \<open>Triples\<close>

text \<open>
  From a world in \<open>P\<close> the program ends in \<open>Q x\<close> when it returns \<open>x\<close>, and in \<open>R\<close> otherwise.
\<close>

definition triple ::
  "(storage_area \<Rightarrow> history \<Rightarrow> bool) \<Rightarrow> 'a prog \<Rightarrow> ('a \<Rightarrow> storage_area \<Rightarrow> history \<Rightarrow> bool) \<Rightarrow>
   (storage_area \<Rightarrow> history \<Rightarrow> bool) \<Rightarrow> bool" where
  "triple P m Q R \<longleftrightarrow> (\<forall>w r w'. P (w_area w) (w_log w) \<longrightarrow> m w = (r, w') \<longrightarrow>
     (case r of Done x \<Rightarrow> Q x (w_area w') (w_log w') | _ \<Rightarrow> R (w_area w') (w_log w')))"

lemma tripleI:
  "(\<And>w r w'. P (w_area w) (w_log w) \<Longrightarrow> m w = (r, w') \<Longrightarrow>
     case r of Done x \<Rightarrow> Q x (w_area w') (w_log w') | _ \<Rightarrow> R (w_area w') (w_log w')) \<Longrightarrow> triple P m Q R"
  by (simp add: triple_def)

lemma tripleD:
  assumes "triple P m Q R" and "m w = (r, w')" and "P (w_area w) (w_log w)"
  shows "case r of Done x \<Rightarrow> Q x (w_area w') (w_log w') | _ \<Rightarrow> R (w_area w') (w_log w')"
  using assms by (simp add: triple_def)

lemma triple_keeps: "keeps P m \<Longrightarrow> (\<And>a h. P a h \<Longrightarrow> R a h) \<Longrightarrow> triple P m (\<lambda>_. P) R"
  by (rule tripleI) (auto split: outcome.splits dest: keepsD)

lemma triple_weaken:
  "triple P m Q R \<Longrightarrow> (\<And>a h. P' a h \<Longrightarrow> P a h) \<Longrightarrow> (\<And>x a h. Q x a h \<Longrightarrow> Q' x a h) \<Longrightarrow>
   (\<And>a h. R a h \<Longrightarrow> R' a h) \<Longrightarrow> triple P' m Q' R'"
  unfolding triple_def by (simp split: outcome.splits) blast

lemma keeps_of_triple: "triple P m (\<lambda>_. P) P \<Longrightarrow> keeps P m"
  by (rule keepsI, drule tripleD) (assumption+, auto split: outcome.splits)

lemma triple_return: "(\<And>a h. P a h \<Longrightarrow> Q x a h) \<Longrightarrow> triple P (returnP x) Q R"
  by (rule tripleI) (auto simp: returnP_def)

lemma triple_bind:
  assumes "triple P m Q R" and "\<And>x. triple (Q x) (k x) S R"
  shows "triple P (bindP m k) S R"
proof (rule tripleI)
  fix w r w'
  assume p: "P (w_area w) (w_log w)" and run: "bindP m k w = (r, w')"
  obtain s v where s: "m w = (s, v)" by (cases "m w")
  note first = tripleD [OF assms(1) s p]
  show "case r of Done x \<Rightarrow> S x (w_area w') (w_log w') | _ \<Rightarrow> R (w_area w') (w_log w')"
  proof (cases s)
    case (Done x)
    with run s have "k x v = (r, w')" by (simp add: bindP_def)
    from tripleD [OF assms(2) this] first Done show ?thesis by simp
  next
    case (Thrown f)
    with run s have "r = Thrown f" "w' = v" by (simp_all add: bindP_def)
    with first Thrown show ?thesis by simp
  next
    case Dead
    with run s have "r = Dead" "w' = v" by (simp_all add: bindP_def)
    with first Dead assms show ?thesis by simp
  qed
qed

lemma triple_try:
  assumes "triple P m Q E" and "\<And>f. triple E (h f) Q R" and "\<And>a h. E a h \<Longrightarrow> R a h"
  shows "triple P (tryP m h) Q R"
proof (rule tripleI)
  fix w r w'
  assume p: "P (w_area w) (w_log w)" and run: "tryP m h w = (r, w')"
  obtain s v where s: "m w = (s, v)" by (cases "m w")
  note first = tripleD [OF assms(1) s p]
  show "case r of Done x \<Rightarrow> Q x (w_area w') (w_log w') | _ \<Rightarrow> R (w_area w') (w_log w')"
  proof (cases s)
    case (Done x)
    with run s have "r = Done x" "w' = v" by (simp_all add: tryP_def)
    with first Done show ?thesis by simp
  next
    case (Thrown f)
    with run s have "h f v = (r, w')" by (simp add: tryP_def)
    from tripleD [OF assms(2) this] first Thrown show ?thesis by simp
  next
    case Dead
    with run s have "r = Dead" "w' = v" by (simp_all add: tryP_def)
    with first Dead assms show ?thesis by simp
  qed
qed

lemma triple_attempt:
  "triple P m Q E \<Longrightarrow> (\<And>a h. E a h \<Longrightarrow> R a h) \<Longrightarrow>
   triple P (attemptP m) (\<lambda>r. case r of Inr x \<Rightarrow> Q x | Inl _ \<Rightarrow> E) R"
  unfolding triple_def attemptP_def by (fastforce split: prod.splits outcome.splits)

lemma triple_or_fail:
  assumes "triple P step Q E" and "triple E failed S R" and "\<And>x. triple (Q x) (continue x) S R"
    and "\<And>a h. E a h \<Longrightarrow> R a h"
  shows "triple P (or_fail step failed continue) S R"
  unfolding or_fail_def
  by (rule triple_bind [OF triple_attempt [OF assms(1,4)]]) (use assms(2,3) in \<open>auto split: sum.splits\<close>)

lemma triple_if: "(c \<Longrightarrow> triple P m Q R) \<Longrightarrow> (\<not> c \<Longrightarrow> triple P n Q R) \<Longrightarrow> triple P (if c then m else n) Q R"
  by simp

lemma triple_perform:
  assumes "\<And>a h x. P a h \<Longrightarrow> f h = Answer x \<Longrightarrow> Q x a ((e, Answered) # h)"
    and "\<And>a h x. P a h \<Longrightarrow> x \<noteq> Answered \<Longrightarrow> R a ((e, x) # h)"
  shows "triple P (perform e f) Q R"
  by (rule tripleI) (auto simp: perform_def assms split: reply.splits)

lemma triple_cases:
  "triple P m Q R \<Longrightarrow> triple P' m Q R \<Longrightarrow> (\<And>a h. S a h \<Longrightarrow> P a h \<or> P' a h) \<Longrightarrow> triple S m Q R"
  unfolding triple_def by blast

lemma triple_fact: "(\<And>a h. P a h \<Longrightarrow> c) \<Longrightarrow> (c \<Longrightarrow> triple P m Q R) \<Longrightarrow> triple P m Q R"
  unfolding triple_def by blast

lemma keeps_triple: "keeps P m \<Longrightarrow> triple P m (\<lambda>_. P) P"
  by (rule triple_keeps)

lemma triple_or_fail_liftE:
  assumes "triple P failed S R" and "\<And>x. m = Inr x \<Longrightarrow> triple P (continue x) S R"
  shows "triple P (or_fail (liftE m) failed continue) S R"
proof (cases m)
  case (Inl x)
  have "or_fail (liftE m) failed continue = failed"
    unfolding Inl by (rule ext) (simp add: or_fail_def bindP_def attemptP_def liftE_def throwP_def)
  then show ?thesis using assms(1) by simp
next
  case (Inr x)
  have "or_fail (liftE m) failed continue = continue x"
    unfolding Inr by (rule ext) (simp add: or_fail_def bindP_def attemptP_def liftE_def returnP_def)
  then show ?thesis using assms(2) Inr by simp
qed

lemma triple_or_fail_keeps:
  assumes "keeps K step" and "triple K failed S R" and "\<And>x. triple K (continue x) S R" and "\<And>a h. K a h \<Longrightarrow> R a h"
  shows "triple K (or_fail step failed continue) S R"
  by (rule triple_or_fail [OF triple_keeps [OF assms(1)] assms(2,3,4)])

subsection \<open>What the journal holds\<close>

definition waiting_entry :: "environment \<Rightarrow> string \<Rightarrow> storage_area \<Rightarrow> bool" where
  "waiting_entry env t a \<longleftrightarrow> (\<exists>e. entry_at (e_date_parse env) a t = Some e \<and> j_phase e = PhaseNeedsHuman)"

definition past_intent :: "environment \<Rightarrow> string \<Rightarrow> storage_area \<Rightarrow> bool" where
  "past_intent env t a \<longleftrightarrow> (\<exists>e. entry_at (e_date_parse env) a t = Some e \<and> phaseAtOrAfterIntent (j_phase e))"

lemma migrate_same:
  assumes "area_ok (e_date_parse env) (w_area w)" and "migrateLegacyJournal env w = (r, w')"
  shows "w_area w' = w_area w"
proof -
  have plan: "migration_plan (e_date_parse env) (w_area w) = Inr None"
    using assms(1) by (simp add: area_ok_def migration_plan_def)
  have get: "\<And>r v. storage_get env w = (r, v) \<Longrightarrow> w_area v = w_area w \<and> (\<forall>x. r = Done x \<longrightarrow> x = w_area w)"
    by (auto simp: storage_get_def bindP_def storageP_def split: reply.splits if_splits)
  show ?thesis using assms(2) get plan
    by (auto simp: migrateLegacyJournal_def bindP_def liftE_def returnP_def split: prod.splits outcome.splits)
qed

lemma ensure_same:
  assumes "area_ok (e_date_parse env) (w_area w)" and "ensureJournalMigrated env w = (r, w')"
  shows "w_area w' = w_area w"
  using assms(2) migrate_same [OF assms(1)]
  by (auto simp: ensureJournalMigrated_def split: option.splits prod.splits outcome.splits)

lemma bindP_outcome:
  "m w = (Done x, v) \<Longrightarrow> bindP m k w = k x v" "m w = (Thrown f, v) \<Longrightarrow> bindP m k w = (Thrown f, v)"
  "m w = (Dead, v) \<Longrightarrow> bindP m k w = (Dead, v)"
  by (simp_all add: bindP_def)

lemma liftE_Inl: "liftE (Inl x) w = (r, w') \<Longrightarrow> w' = w \<and> (\<forall>y. r \<noteq> Done y)"
  by (auto simp: liftE_def throwP_def)

lemma storage_get_area: "storage_get env w = (r, v) \<Longrightarrow> w_area v = w_area w \<and> (\<forall>x. r = Done x \<longrightarrow> x = w_area w)"
  by (auto simp: storage_get_def bindP_def storageP_def split: reply.splits if_splits)

lemma loadJournal_spec:
  assumes ok: "area_ok (e_date_parse env) (w_area w)" and run: "loadJournal env w = (r, w')"
  shows "w_area w' = w_area w \<and> (\<forall>j. r = Done j \<longrightarrow> map_of j = entry_at (e_date_parse env) (w_area w) \<and>
    journal_of_area (e_date_parse env) (w_area w) = Inr j)"
proof -
  obtain s v where s: "ensureJournalMigrated env w = (s, v)" by (cases "ensureJournalMigrated env w")
  note same = ensure_same [OF ok s]
  obtain j where j: "journal_of_area (e_date_parse env) (w_area w) = Inr j"
    "map_of j = entry_at (e_date_parse env) (w_area w)"
    using load_journal [OF ok] by blast
  show ?thesis
  proof (cases s)
    case (Done y)
    obtain g u where g: "storage_get env v = (g, u)" by (cases "storage_get env v")
    note got = storage_get_area [OF g]
    have run': "bindP (storage_get env) (\<lambda>stored. liftE (journal_of_area (e_date_parse env) stored)) v = (r, w')"
      using run s Done by (simp add: loadJournal_def bindP_outcome)
    show ?thesis
    proof (cases g)
      case (Done x)
      then have "x = w_area w" "w_area u = w_area w" using got same by simp_all
      with run' g Done j show ?thesis by (auto simp: bindP_outcome liftE_def returnP_def)
    qed (use run' g got same in \<open>auto simp: bindP_outcome\<close>)
  qed (use run s same in \<open>auto simp: loadJournal_def bindP_outcome\<close>)
qed

lemma saveJournal_area:
  assumes ok: "area_ok (e_date_parse env) (w_area w)" and run: "saveJournal env input w = (r, w')"
  shows "(w_area w' = w_area w \<and> r \<noteq> Done ()) \<or>
    (\<exists>e. validateJournalEntry (e_date_parse env) (entry_json input) = Inr e \<and>
       entry_at (e_date_parse env) (w_area w') = (entry_at (e_date_parse env) (w_area w))(j_taskId e \<mapsto> e))"
proof (cases "journal_items (e_date_parse env) input")
  case (Inl x)
  with run have "liftE (Inl x) w = (r, w')" by (simp add: saveJournal_def bindP_liftE)
  then have "w' = w" "r \<noteq> Done ()" using liftE_Inl by blast+
  then show ?thesis by simp
next
  case (Inr items)
  then obtain e where e: "validateJournalEntry (e_date_parse env) (entry_json input) = Inr e"
    "items = [(JOURNAL_ENTRY_KEY_PREFIX @ j_taskId e, entry_json e)]"
    using journal_items_Inr by blast
  obtain s u where s: "ensureJournalMigrated env w = (s, u)" by (cases "ensureJournalMigrated env w")
  have u: "w_area u = w_area w" by (rule ensure_same [OF ok s])
  have r: "bindP (ensureJournalMigrated env) (\<lambda>_. storage_set env items) w = (r, w')"
    using run Inr by (simp add: saveJournal_def bindP_liftE)
  have "(w_area w' = w_area w \<and> r \<noteq> Done ()) \<or> w_area w' = area_set items (w_area w)"
  proof (cases s)
    case (Done x)
    with r s have "storage_set env items u = (r, w')" by (simp add: bindP_outcome)
    then show ?thesis using u by (auto simp: storage_set_def storageP_def split: reply.splits if_splits)
  qed (use r s u in \<open>auto simp: bindP_outcome\<close>)
  moreover have "entry_at (e_date_parse env) (area_set items (w_area w)) =
      (entry_at (e_date_parse env) (w_area w))(j_taskId e \<mapsto> e)"
    using save_journal [OF ok e(1)] e(2) by simp
  ultimately show ?thesis using e(1) by metis
qed

text \<open>
  What a journal operation does to the area: nothing, when it decided so or failed, or it puts the
  decided entry in its place.
\<close>

definition mutated ::
  "(string \<Rightarrow> int option) \<Rightarrow> (int \<Rightarrow> task_journal_entry option \<Rightarrow> decision) \<Rightarrow> string \<Rightarrow> storage_area \<Rightarrow>
   task_journal_entry outcome \<Rightarrow> storage_area \<Rightarrow> bool" where
  "mutated other decide t a r a' \<longleftrightarrow>
     (a' = a \<and> (\<forall>m. r = Done m \<longrightarrow> (\<exists>now. decide now (entry_at other a t) = Inr (m, False)))) \<or>
     (\<exists>now n e. decide now (entry_at other a t) = Inr (n, True) \<and> validateJournalEntry other (entry_json n) = Inr e \<and>
        entry_at other a' = (entry_at other a)(j_taskId e \<mapsto> e) \<and> (\<forall>m. r = Done m \<longrightarrow> m = n))"

lemma mutate_area:
  assumes ok: "area_ok (e_date_parse env) (w_area w)" and run: "mutate env t decide w = (r, w')"
  shows "mutated (e_date_parse env) decide t (w_area w) r (w_area w')"
proof -
  let ?other = "e_date_parse env"
  obtain s v where s: "loadJournal env w = (s, v)" by (cases "loadJournal env w")
  note load = loadJournal_spec [OF ok s]
  show ?thesis
  proof (cases s)
    case (Done j)
    then have j: "map_of j = entry_at ?other (w_area w)" "w_area v = w_area w" using load by simp_all
    let ?now = "e_now env (w_log v)"
    have now: "bindP historyP k v = k (w_log v) v" for k :: "history \<Rightarrow> task_journal_entry prog"
      by (simp add: bindP_def historyP_def)
    have step: "bindP (liftE (decide ?now (entry_at ?other (w_area w) t))) (\<lambda>(n, changed).
        bindP (if changed then saveJournal env n else returnP ()) (\<lambda>_. returnP n)) v = (r, w')"
      using run s unfolding Done mutate_def by (simp add: bindP_outcome now j(1))
    show ?thesis
    proof (cases "decide ?now (entry_at ?other (w_area w) t)")
      case (Inr d)
      obtain n changed where d: "decide ?now (entry_at ?other (w_area w) t) = Inr (n, changed)" using Inr by (cases d) simp
      have rest: "bindP (if changed then saveJournal env n else returnP ()) (\<lambda>_. returnP n) v = (r, w')"
        using step d by (simp add: bindP_liftE)
      obtain s2 u where s2: "(if changed then saveJournal env n else returnP ()) v = (s2, u)"
        by (cases "(if changed then saveJournal env n else returnP ()) v")
      have w': "w_area w' = w_area u" "\<forall>m. r = Done m \<longrightarrow> s2 = Done () \<and> m = n"
        using rest s2 by (cases s2; auto simp: bindP_outcome returnP_def)+
      show ?thesis
      proof (cases changed)
        case True
        with s2 have "saveJournal env n v = (s2, u)" by simp
        from saveJournal_area [OF _ this] ok j(2) have "(w_area u = w_area w \<and> s2 \<noteq> Done ()) \<or>
            (\<exists>e. validateJournalEntry ?other (entry_json n) = Inr e \<and>
               entry_at ?other (w_area u) = (entry_at ?other (w_area w))(j_taskId e \<mapsto> e))" by simp
        moreover have "decide ?now (entry_at ?other (w_area w) t) = Inr (n, True)" using d True by simp
        ultimately show ?thesis unfolding mutated_def w'(1) using w'(2) by blast
      next
        case False
        with s2 have "u = v" by (simp add: returnP_def)
        with d False show ?thesis unfolding mutated_def w'(1) using w'(2) j(2) by auto
      qed
    next
      case (Inl x)
      with step have "liftE (Inl x) v = (r, w')" by (simp add: bindP_liftE)
      then have "w' = v" "\<forall>m. r \<noteq> Done m" using liftE_Inl by blast+
      then show ?thesis using j(2) by (simp add: mutated_def)
    qed
  qed (use run s load in \<open>auto simp: mutate_def bindP_outcome mutated_def\<close>)
qed

subsection \<open>A run that is past its intent\<close>

context quiet_invariant begin

lemma load_past_intent:
  "triple (\<lambda>a h. I a h \<and> past_intent env t a) (loadJournal env)
     (\<lambda>j a h. I a h \<and> (\<exists>e. map_of j t = Some e \<and> phaseAtOrAfterIntent (j_phase e))) I"
proof (rule tripleI)
  fix w r w'
  assume p: "I (w_area w) (w_log w) \<and> past_intent env t (w_area w)" and run: "loadJournal env w = (r, w')"
  have f: "I (w_area w') (w_log w')" using keepsD [OF loadJournal_quiet run] p by simp
  have spec: "\<forall>j. r = Done j \<longrightarrow> map_of j = entry_at (e_date_parse env) (w_area w)"
    using loadJournal_spec [OF area run] p by blast
  show "case r of Done j \<Rightarrow> I (w_area w') (w_log w') \<and>
      (\<exists>e. map_of j t = Some e \<and> phaseAtOrAfterIntent (j_phase e)) | _ \<Rightarrow> I (w_area w') (w_log w')"
    using f spec p by (cases r) (auto simp: past_intent_def)
qed

lemma run_past_intent:
  "triple (\<lambda>a h. I a h \<and> past_intent env (bc_taskId claim) a) (runClaimedTask env claim) (\<lambda>_. I) I"
proof -
  let ?t = "bc_taskId claim"
  have body: "keeps I (run_body env claim (Some e) session sha)"
    if "phaseAtOrAfterIntent (j_phase e)" for e session sha
    unfolding run_body_def using that
    by (auto intro!: keeps_bind open_tab_quiet resume_submission_quiet collect_quiet)
  have rest: "triple I (run_with_entry env claim sha (map_of j ?t)) (\<lambda>_. I) I"
    if ex: "\<exists>e. map_of j ?t = Some e \<and> phaseAtOrAfterIntent (j_phase e)" for j sha
  proof -
    obtain e where e: "map_of j ?t = Some e" "phaseAtOrAfterIntent (j_phase e)" using ex by blast
    have "keeps I (run_with_entry env claim sha (Some e))"
      unfolding run_with_entry_def option.case Let_def
      by (intro keeps_rules body e(2))
    then show ?thesis unfolding e(1) by (rule keeps_triple)
  qed
  show ?thesis unfolding runClaimedTask_def
  proof (rule triple_bind [OF load_past_intent], rule triple_fact)
    fix j a h
    assume "I a h \<and> (\<exists>e. map_of j ?t = Some e \<and> phaseAtOrAfterIntent (j_phase e))"
    then show "\<exists>e. map_of j ?t = Some e \<and> phaseAtOrAfterIntent (j_phase e)" by blast
  qed (rule triple_weaken [OF rest], simp_all)
qed

end

subsection \<open>Invariants of the area alone\<close>

text \<open>An invariant that no call breaks is kept by everything the extension does.\<close>

locale stable_invariant = quiet_invariant +
  assumes any_call: "I a h \<Longrightarrow> I a ((ev, x) # h)"
begin

lemma perform_stable [keeps_rules]: "keeps I (perform e f)"
  by (rule keeps_perform) (rule any_call)

lemma submit_prompt_stable [keeps_rules]: "keeps I (submit_prompt env claim session tab)"
  unfolding submit_prompt_def call_def by (intro keeps_rules)

lemma run_body_stable [keeps_rules]: "keeps I (run_body env claim existing session sha)"
  unfolding run_body_def by (intro keeps_rules)

lemma runClaimedTask_stable [keeps_rules]: "keeps I (runClaimedTask env claim)"
  unfolding runClaimedTask_def run_with_entry_def Let_def by (intro keeps_rules)

lemma recoverEntry_stable [keeps_rules]: "keeps I (recoverEntry env entry automatic)"
  unfolding recoverEntry_def recover_with_claim_def call_def Let_def by (intro keeps_rules)

lemma recoverNeedsHuman_stable [keeps_rules]: "keeps I (recoverNeedsHuman env t)"
  unfolding recoverNeedsHuman_def by (intro keeps_rules)

lemma listNeedsHuman_stable [keeps_rules]: "keeps I (listNeedsHuman env)"
  unfolding listNeedsHuman_def by (intro keeps_rules)

lemma recover_each_stable [keeps_rules]: "keeps I (recover_each env due suppressed n m)"
proof (induction due arbitrary: n m)
  case (Cons d due)
  show ?case unfolding recover_each.simps by (intro keeps_rules Cons.IH)
qed (simp add: keeps_rules)

lemma claim_round_stable [keeps_rules]: "keeps I (claim_round env brands surface maximum emptyBrands i claims)"
  using any_call
proof (induction env brands surface maximum emptyBrands i claims rule: claim_round.induct)
  case (1 env brands surface maximum emptyBrands i claims)
  then show ?case
    by (subst claim_round.simps) (auto simp: Let_def claim_next_def intro!: keeps_rules keeps_perform)
qed

lemma poll_tasks_stable [keeps_rules]: "keeps I (poll_tasks env brands surface n summary)"
proof (induction n arbitrary: summary)
  case (Suc n)
  have "keeps I (account_pool env surface result)" for result by (simp add: keeps_def account_pool_def)
  then show ?case unfolding poll_tasks.simps run_polled_def
    by (auto intro!: keeps_rules Suc.IH split: sum.splits list.splits)
qed (simp add: keeps_rules)

lemma pollStartedWork_stable [keeps_rules]: "keeps I (pollStartedWork env brands surfaces bySurface)"
proof (induction surfaces arbitrary: bySurface)
  case (Cons s ss)
  have "keeps I (can_start_now env s)" by (simp add: keeps_def can_start_now_def)
  then show ?case unfolding pollStartedWork.simps by (intro keeps_rules Cons.IH)
qed (simp add: keeps_rules)

lemma runOnce_stable [keeps_rules]: "keeps I (runOnce env)"
  unfolding runOnce_def recoverDuePostSubmit_def by (intro keeps_rules)

end

end
