(* ===== verification/ExtensionSafety.thy ===== *)
theory ExtensionSafety
  imports ExtensionInvariants "HOL-Library.Sublist"
begin

text \<open>
  What the browser extension guarantees whatever the portal, the pages and Chrome do, and whenever the
  worker is shut down: a prompt is submitted only under a submit intent that the journal and the
  portal have recorded, and at most once.
\<close>

subsection \<open>Submissions\<close>

definition intended :: "string \<Rightarrow> history \<Rightarrow> bool" where
  "intended taskId h \<longleftrightarrow> list_ex (\<lambda>(e, x). case e of
     RecordSubmitIntent c _ \<Rightarrow> x = Answered \<and> bc_taskId c = taskId | _ \<Rightarrow> False) h"

definition submissions :: "string \<Rightarrow> history \<Rightarrow> nat" where
  "submissions taskId h = length (filter (\<lambda>(e, _). case e of SubmitOnce c _ \<Rightarrow> bc_taskId c = taskId | _ \<Rightarrow> False) h)"

text \<open>Every submission comes after an intent the portal has accepted.\<close>

fun submits_after_intent :: "history \<Rightarrow> bool" where
  "submits_after_intent [] = True"
| "submits_after_intent ((e, _) # h) =
     ((case e of SubmitOnce c _ \<Rightarrow> intended (bc_taskId c) h | _ \<Rightarrow> True) \<and> submits_after_intent h)"

definition submitted_once :: "history \<Rightarrow> bool" where
  "submitted_once h \<longleftrightarrow> submits_after_intent h \<and> (\<forall>t. submissions t h \<le> 1 \<and> (0 < submissions t h \<longrightarrow> intended t h))"

text \<open>A history whose accepted intents are those that the portal of the environment accepts.\<close>

fun genuine :: "environment \<Rightarrow> history \<Rightarrow> bool" where
  "genuine env [] = True"
| "genuine env ((e, x) # h) =
     ((case e of RecordSubmitIntent c s \<Rightarrow> x = Answered \<longrightarrow> e_recordSubmitIntent env h c s = Answer () | _ \<Rightarrow> True) \<and>
      genuine env h)"

declare genuine.simps(2) [simp del]

definition fenced :: "environment \<Rightarrow> storage_area \<Rightarrow> history \<Rightarrow> bool" where
  "fenced env a h \<longleftrightarrow> submitted_once h \<and> genuine env h \<and> area_ok (e_date_parse env) a"

definition not_intended :: "environment \<Rightarrow> string \<Rightarrow> storage_area \<Rightarrow> history \<Rightarrow> bool" where
  "not_intended env t a h \<longleftrightarrow> fenced env a h \<and> \<not> intended t h"

lemma harmless_log [simp]:
  assumes "harmless e"
  shows "intended t ((e, x) # h) = intended t h" "submissions t ((e, x) # h) = submissions t h"
    "submitted_once ((e, x) # h) = submitted_once h" "genuine env ((e, x) # h) = genuine env h"
  using assms by (cases e; simp add: harmless_def intended_def submissions_def submitted_once_def genuine.simps)+

lemma area_ok_settings:
  assumes "area_ok other a" and k: "k \<in> {DEVICE_KEY, SURFACE_READINESS_KEY}"
  shows "area_ok other (area_set [(k, r)] a)"
proof -
  have k': "\<not> js_starts JOURNAL_ENTRY_KEY_PREFIX k" "k \<noteq> JOURNAL_KEY"
    using k by (auto simp: JOURNAL_ENTRY_KEY_PREFIX_def DEVICE_KEY_def SURFACE_READINESS_KEY_def JOURNAL_KEY_def)
  have new: "(k', w) = (k, r) \<or> (k', w) \<in> set a" if "(k', w) \<in> set (AList.update k r a)" for k' w
    using that by (induction a) (auto split: if_splits)
  show ?thesis using assms(1) k' new
    by (fastforce simp: area_ok_def area_set_def distinct_update field_def AList.update_conv' list_all_iff)
qed

interpretation fenced: quiet_invariant env "fenced env" for env
  by unfold_locales (simp_all add: fenced_def save_journal area_ok_remove area_ok_settings)

interpretation not_intended: quiet_invariant env "not_intended env t" for env t
  by unfold_locales (simp_all add: not_intended_def fenced_def save_journal area_ok_remove area_ok_settings)

lemma submit_prompt_fenced:
  "triple (not_intended env (bc_taskId claim)) (submit_prompt env claim session tab) (\<lambda>_. fenced env) (fenced env)"
proof -
  let ?t = "bc_taskId claim"
  let ?ready = "\<lambda>a h. fenced env a h \<and> intended ?t h \<and> submissions ?t h = 0"
  have quiet: "triple (not_intended env ?t) m (\<lambda>_. not_intended env ?t) (fenced env)"
    if "keeps (not_intended env ?t) m" for m :: "unit prog"
    by (rule triple_keeps [OF that]) (simp add: not_intended_def)
  have after: "triple (fenced env) m (\<lambda>_. fenced env) (fenced env)" if "keeps (fenced env) m" for m :: "unit prog"
    by (rule triple_keeps [OF that])
  have record_it: "triple (not_intended env ?t)
      (perform (RecordSubmitIntent claim session) (\<lambda>h. e_recordSubmitIntent env h claim session)) (\<lambda>_. ?ready) (fenced env)"
    by (rule triple_perform)
      (auto simp: not_intended_def fenced_def submitted_once_def intended_def submissions_def genuine.simps)
  have submit: "triple ?ready (call env (SubmitOnce claim tab)) (\<lambda>_. fenced env) (fenced env)"
    unfolding call_def
    by (rule triple_perform) (auto simp: fenced_def submitted_once_def intended_def submissions_def genuine.simps)
  show ?thesis
    unfolding submit_prompt_def
    by (rule triple_bind quiet record_it submit after not_intended.call_quiet not_intended.reach_quiet
        fenced.call_quiet fenced.api_quiet fenced.reach_quiet | simp add: harmless_def)+
qed

subsection \<open>Running a claimed task\<close>

lemma run_body_fenced:
  "triple (not_intended env (bc_taskId claim)) (run_body env claim existing session sha) (\<lambda>_. fenced env) (fenced env)"
proof -
  let ?t = "bc_taskId claim"
  have quiet: "triple (not_intended env ?t) m (\<lambda>_. not_intended env ?t) (fenced env)"
    if "keeps (not_intended env ?t) m" for m :: "'a prog"
    by (rule triple_keeps [OF that]) (simp add: not_intended_def)
  have resume: "triple (not_intended env ?t) (resume_submission env claim e session tab) (\<lambda>_. fenced env) (fenced env)"
    for e tab
    by (rule triple_weaken [OF keeps_triple [OF not_intended.resume_submission_quiet]]) (auto simp: not_intended_def)
  have send: "triple (not_intended env ?t)
      (case existing of
          Some entry \<Rightarrow>
            if phaseAtOrAfterIntent (j_phase entry) then resume_submission env claim entry session tab
            else submit_prompt env claim session tab
        | None \<Rightarrow> submit_prompt env claim session tab) (\<lambda>_. fenced env) (fenced env)" for tab
    by (cases existing) (simp_all add: submit_prompt_fenced resume)
  show ?thesis unfolding run_body_def
    by (rule triple_bind [OF quiet [OF not_intended.open_tab_quiet]], rule triple_bind [OF send])
      (rule keeps_triple [OF fenced.collect_quiet])
qed

lemma run_new_fenced:
  "triple (not_intended env (bc_taskId claim)) (runClaimedTask env claim) (\<lambda>_. fenced env) (fenced env)"
proof -
  let ?t = "bc_taskId claim"
  have quiet: "triple (not_intended env ?t) m (\<lambda>_. not_intended env ?t) (fenced env)"
    if "keeps (not_intended env ?t) m" for m :: "'a prog"
    by (rule triple_keeps [OF that]) (simp add: not_intended_def)
  have persist: "triple (not_intended env ?t) (persistNeedsHuman env claim f) (\<lambda>_. fenced env) (fenced env)" for f
    by (rule triple_weaken [OF keeps_triple [OF not_intended.persist_quiet]]) (auto simp: not_intended_def)
  have run: "triple (not_intended env ?t)
      (tryP (run_body env claim existing session sha) (run_failed env claim existing session sha))
      (\<lambda>_. fenced env) (fenced env)" for existing session sha
    by (rule triple_try [OF run_body_fenced keeps_triple [OF fenced.run_failed_quiet]])
  show ?thesis unfolding runClaimedTask_def run_with_entry_def Let_def
    by (intro triple_bind [OF quiet] triple_if persist run keeps_rules not_intended.loadJournal_quiet)
qed

text \<open>
  Running a task is safe whenever its claim came without an intent before it, or the journal knows of one.
\<close>

definition may_run :: "environment \<Rightarrow> string \<Rightarrow> storage_area \<Rightarrow> history \<Rightarrow> bool" where
  "may_run env t a h \<longleftrightarrow> fenced env a h \<and> (\<not> intended t h \<or> past_intent env t a)"

lemma runClaimedTask_fenced:
  "triple (may_run env (bc_taskId claim)) (runClaimedTask env claim) (\<lambda>_. fenced env) (fenced env)"
  by (rule triple_cases [OF run_new_fenced fenced.run_past_intent]) (auto simp: may_run_def not_intended_def)

subsection \<open>Recovering a task\<close>

definition waiting_task :: "environment \<Rightarrow> string \<Rightarrow> storage_area \<Rightarrow> history \<Rightarrow> bool" where
  "waiting_task env t a h \<longleftrightarrow> fenced env a h \<and> waiting_entry env t a"

lemma waiting_may_run: "waiting_task env t a h \<Longrightarrow> may_run env t a h"
  by (auto simp: waiting_task_def may_run_def waiting_entry_def past_intent_def phaseAtOrAfterIntent_def)

text \<open>An operation that only ever saves entries that need a human leaves a waiting task waiting.\<close>

lemma mutate_waiting:
  assumes "\<And>now cur n. decide now cur = Inr (n, True) \<Longrightarrow> j_phase n = PhaseNeedsHuman"
  shows "keeps (waiting_task env t) (mutate env t' decide)"
proof (rule keepsI)
  fix w r w'
  assume i: "waiting_task env t (w_area w) (w_log w)" and run: "mutate env t' decide w = (r, w')"
  then have "fenced env (w_area w) (w_log w)" and ok: "area_ok (e_date_parse env) (w_area w)"
    by (simp_all add: waiting_task_def fenced_def)
  then have f: "fenced env (w_area w') (w_log w')" using keepsD [OF fenced.mutate_quiet run] by blast
  have "mutated (e_date_parse env) decide t' (w_area w) r (w_area w')" by (rule mutate_area [OF ok run])
  then have "w_area w' = w_area w \<or> (\<exists>e. j_phase e = PhaseNeedsHuman \<and>
      entry_at (e_date_parse env) (w_area w') = (entry_at (e_date_parse env) (w_area w))(j_taskId e \<mapsto> e))"
    unfolding mutated_def using assms validate_phase by metis
  then have "waiting_entry env t (w_area w')"
    using i by (auto simp: waiting_task_def waiting_entry_def)
  with f show "waiting_task env t (w_area w') (w_log w')" by (simp add: waiting_task_def)
qed

lemma waiting_perform: "harmless e \<Longrightarrow> keeps (waiting_task env t) (perform e f)"
  by (rule keeps_perform) (auto simp: waiting_task_def fenced.quiet)

lemma waiting_steps:
  "keeps (waiting_task env t) (rebindNeedsHumanTab env t' i)" "keeps (waiting_task env t) (markPostSubmitBoundary env t' p)"
  "keeps (waiting_task env t) (manualRecoveryFailure env claim stage code)"
proof -
  show "keeps (waiting_task env t) (rebindNeedsHumanTab env t' i)" unfolding rebindNeedsHumanTab_def
    by (rule mutate_waiting) (auto simp: rebind_entry_def split: option.splits if_splits)
  show "keeps (waiting_task env t) (markPostSubmitBoundary env t' p)" unfolding markPostSubmitBoundary_def
    by (rule mutate_waiting) (auto simp: boundary_entry_def split: option.splits if_splits)
  show "keeps (waiting_task env t) (manualRecoveryFailure env claim stage code)"
    unfolding manualRecoveryFailure_def api_failTask_def
    by (intro keeps_rules waiting_perform) (simp add: harmless_def)
qed

lemma waiting_resume_journal: "keeps (waiting_task env t) (resume_journal env entry claim stage PostSubmit)"
  unfolding resume_journal_def by (simp add: keeps_rules waiting_steps)

text \<open>
  What the portal's records guarantee: it hands a task out, or lets it be resumed as one that was not
  submitted, only while it has no submit intent for it.
\<close>

definition portal_fences_intents :: "environment \<Rightarrow> bool" where
  "portal_fences_intents env \<longleftrightarrow>
     (\<forall>h b s c. genuine env h \<longrightarrow> e_claimNext env h b s = Answer (Some c) \<longrightarrow> \<not> intended (bc_taskId c) h) \<and>
     (\<forall>h t b st s c. genuine env h \<longrightarrow> e_resume env h t b st s = Answer c \<longrightarrow> \<not> bc_postSubmitAssist c \<longrightarrow>
        \<not> intended (bc_taskId c) h)"

text \<open>
  The recovery under a claim keeps an invariant \<open>K\<close> up to the run of the task, whatever the claim.
\<close>

lemma recover_with_claim_fenced:
  assumes failed: "\<And>stage code. keeps K (manualRecoveryFailure env claim stage code)"
    and performs: "\<And>e (f :: history \<Rightarrow> int reply). harmless e \<Longrightarrow> keeps K (perform e f)"
    and calls: "\<And>e. harmless e \<Longrightarrow> keeps K (call env e)"
    and rebind: "\<And>i. keeps K (rebindNeedsHumanTab env (j_taskId entry) i)"
    and journal: "keeps K (resume_journal env entry claim stage (if bc_postSubmitAssist claim then PostSubmit else PreSubmit))"
    and run: "bc_taskId claim = j_taskId entry \<Longrightarrow> triple K (runClaimedTask env claim) (\<lambda>_. fenced env) (fenced env)"
    and weak: "\<And>a h. K a h \<Longrightarrow> fenced env a h"
  shows "triple K (recover_with_claim env entry automatic stage claim) (\<lambda>_. fenced env) (fenced env)"
proof -
  have fail: "triple K (manualRecoveryFailure env claim s code) (\<lambda>_. fenced env) (fenced env)" for s code
    by (rule triple_weaken [OF keeps_triple [OF failed]]) (auto simp: weak)
  have tab: "keeps K (if automatic then returnP (j_tabId entry)
         else perform (ResolveRecoveryTab (j_tabId entry) (j_surfaceTargetKey entry))
           (\<lambda>h. e_resolveManualRecoveryTab env h (j_tabId entry) (j_surfaceTargetKey entry)))"
    by (intro keeps_rules performs) (simp add: harmless_def)
  have bind: "keeps K (if \<not> automatic \<and> i \<noteq> j_tabId entry
         then bindP (rebindNeedsHumanTab env (j_taskId entry) i) (\<lambda>_. returnP ()) else returnP ())" for i
    by (intro keeps_rules rebind)
  have act: "keeps K (call env (ActivateTab i))" for i by (rule calls) (simp add: harmless_def)
  have finish: "triple K (bindP (runClaimedTask env claim) (\<lambda>result.
      bindP (notifyNeedsAttention env result) (\<lambda>_. returnP result))) (\<lambda>_. fenced env) (fenced env)"
    if "bc_taskId claim = j_taskId entry"
    by (rule triple_bind [OF run [OF that]]) (intro keeps_triple keeps_rules fenced.notify_quiet)
  have same: "bc_taskId claim = j_taskId entry"
    if "(if automatic \<and> s \<noteq> PostSubmit
                then Inl (PlainError ''Automatic recovery is restricted to post-submit sessions'')
                else assertManualResumeClaim (e_sha256 env) entry claim s) = Inr u" for s u
    using that by (auto simp: assertManualResumeClaim_def split: if_splits)
  show ?thesis
    unfolding recover_with_claim_def Let_def
    by (rule triple_or_fail_liftE [OF fail])
      (intro triple_or_fail_keeps tab bind act journal fail finish weak same; assumption)
qed

lemma recover_entry_fenced:
  assumes "portal_fences_intents env"
  shows "triple (waiting_task env (j_taskId entry)) (recoverEntry env entry automatic) (\<lambda>_. fenced env) (fenced env)"
proof -
  let ?t = "j_taskId entry"
  let ?resumed = "\<lambda>c a h. waiting_task env ?t a h \<and> (\<not> bc_postSubmitAssist c \<longrightarrow> \<not> intended (bc_taskId c) h)"
  have resume: "triple (waiting_task env ?t) (api_resume env ?t b st s) ?resumed (fenced env)" for b st s
    unfolding api_resume_def
  proof (rule triple_perform)
    fix a h c
    assume w: "waiting_task env ?t a h" and c: "e_resume env h ?t b st s = Answer c"
    have "genuine env h" using w by (simp add: waiting_task_def fenced_def)
    then have "\<not> bc_postSubmitAssist c \<longrightarrow> \<not> intended (bc_taskId c) h"
      using assms c unfolding portal_fences_intents_def by blast
    then show "?resumed c a ((ResumeTask ?t b st s, Answered) # h)"
      using w by (simp add: waiting_task_def harmless_def fenced.quiet)
  next
    fix a h x
    assume "waiting_task env ?t a h"
    then show "fenced env a ((ResumeTask ?t b st s, x) # h)" by (simp add: waiting_task_def harmless_def fenced.quiet)
  qed
  have claimed: "triple (?resumed c) (recover_with_claim env entry automatic stage c) (\<lambda>_. fenced env) (fenced env)"
    for c stage
  proof (cases "bc_postSubmitAssist c")
    case True
    have "triple (waiting_task env ?t) (recover_with_claim env entry automatic stage c) (\<lambda>_. fenced env) (fenced env)"
    proof (rule recover_with_claim_fenced)
      show "triple (waiting_task env ?t) (runClaimedTask env c) (\<lambda>_. fenced env) (fenced env)"
        if "bc_taskId c = ?t"
        by (rule triple_weaken [OF runClaimedTask_fenced]) (simp_all add: that waiting_may_run)
      show "keeps (waiting_task env ?t) (call env e)" if "harmless e" for e
        unfolding call_def by (rule waiting_perform [OF that])
    qed (simp_all add: True waiting_steps waiting_resume_journal waiting_perform waiting_task_def)
    then show ?thesis by (rule triple_weaken) auto
  next
    case False
    have "triple (not_intended env (bc_taskId c)) (recover_with_claim env entry automatic stage c)
        (\<lambda>_. fenced env) (fenced env)"
    proof (rule recover_with_claim_fenced)
      show "triple (not_intended env (bc_taskId c)) (runClaimedTask env c) (\<lambda>_. fenced env) (fenced env)"
        by (rule run_new_fenced)
    qed (auto intro: not_intended.recovery_steps_quiet not_intended.perform_quiet not_intended.call_quiet
        not_intended.journal_quiet simp: not_intended_def)
    then show ?thesis by (rule triple_weaken) (use False in \<open>auto simp: waiting_task_def not_intended_def\<close>)
  qed
  have refused: "triple (fenced env) (returnP (NeedsHuman x)) (\<lambda>_. fenced env) (fenced env)" for x
    by (rule triple_return)
  show ?thesis unfolding recoverEntry_def Let_def
    by (rule triple_or_fail [OF resume refused claimed])
qed

subsection \<open>Polling for work\<close>

definition unsubmitted :: "environment \<Rightarrow> browser_extension_claim list \<Rightarrow> storage_area \<Rightarrow> history \<Rightarrow> bool" where
  "unsubmitted env cs a h \<longleftrightarrow> fenced env a h \<and> list_all (\<lambda>c. \<not> intended (bc_taskId c) h) cs"

lemma claim_next_fenced:
  assumes "portal_fences_intents env"
  shows "triple (unsubmitted env cs) (claim_next env brand surface)
     (\<lambda>c. unsubmitted env (case c of None \<Rightarrow> cs | Some c \<Rightarrow> cs @ [c])) (fenced env)"
  unfolding claim_next_def
proof (rule triple_perform)
  fix a h c
  assume u: "unsubmitted env cs a h" and c: "e_claimNext env h brand surface = Answer c"
  have "genuine env h" using u by (simp add: unsubmitted_def fenced_def)
  then have "\<And>x. c = Some x \<Longrightarrow> \<not> intended (bc_taskId x) h"
    using assms c unfolding portal_fences_intents_def by blast
  then show "unsubmitted env (case c of None \<Rightarrow> cs | Some c \<Rightarrow> cs @ [c]) a ((ClaimNext brand surface, Answered) # h)"
    using u by (cases c) (simp_all add: unsubmitted_def fenced.quiet harmless_def)
qed (simp add: unsubmitted_def fenced.quiet harmless_def)

lemma claim_round_fenced:
  assumes fences: "portal_fences_intents env"
  shows "triple (unsubmitted env claims) (claim_round env brandIds surface maximum emptyBrands i claims)
     (unsubmitted env) (fenced env)"
  using fences
proof (induction env brandIds surface maximum emptyBrands i claims rule: claim_round.induct)
  case (1 env brandIds surface maximum emptyBrands i claims)
  have stop: "triple (unsubmitted env claims) (returnP claims) (unsubmitted env) (fenced env)" by (rule triple_return)
  show ?case
  proof (cases "length claims < maximum \<and> emptyBrands < length brandIds \<and> brandIds ! (i mod length brandIds) \<noteq> []")
    case True
    have found: "triple (unsubmitted env (claims @ [c])) (claim_round env brandIds surface maximum 0 (i + 1) (claims @ [c]))
        (unsubmitted env) (fenced env)" for c
      using "1.IH" True "1.prems" by simp
    have none: "triple (unsubmitted env claims) (claim_round env brandIds surface maximum (emptyBrands + 1) (i + 1) claims)
        (unsubmitted env) (fenced env)"
      using "1.IH" True "1.prems" by simp
    have more: "triple (unsubmitted env (case c of None \<Rightarrow> claims | Some c \<Rightarrow> claims @ [c]))
        (case c of Some claim \<Rightarrow> claim_round env brandIds surface maximum 0 (i + 1) (claims @ [claim])
        | None \<Rightarrow> claim_round env brandIds surface maximum (emptyBrands + 1) (i + 1) claims) (unsubmitted env) (fenced env)" for c
      using found none by (cases c) simp_all
    have "claim_round env brandIds surface maximum emptyBrands i claims =
        bindP (claim_next env (brandIds ! (i mod length brandIds)) surface)
         (\<lambda>c. case c of Some claim \<Rightarrow> claim_round env brandIds surface maximum 0 (i + 1) (claims @ [claim])
          | None \<Rightarrow> claim_round env brandIds surface maximum (emptyBrands + 1) (i + 1) claims)"
      using True by (subst claim_round.simps) (simp add: Let_def)
    then show ?thesis using triple_bind [OF claim_next_fenced [OF "1.prems"] more] by simp
  qed (use stop in \<open>subst claim_round.simps, auto simp: Let_def\<close>)
qed

lemma run_polled_fenced:
  "triple (not_intended env (bc_taskId claim)) (run_polled env claim) (\<lambda>_. fenced env) (fenced env)"
  unfolding run_polled_def
  by (rule triple_bind [OF run_new_fenced]) (intro keeps_triple keeps_rules fenced.notify_quiet)

lemma account_pool_keeps: "keeps I (account_pool env surface result)"
  by (simp add: keeps_def account_pool_def)

lemma poll_tasks_fenced:
  assumes "portal_fences_intents env"
  shows "keeps (fenced env) (poll_tasks env brandIds surface n summary)"
proof (induction n arbitrary: summary)
  case (Suc n)
  have round: "triple (fenced env) (attemptP (claim_round env brandIds surface 1 0 0 []))
      (\<lambda>r. case r of Inr cs \<Rightarrow> unsubmitted env cs | Inl _ \<Rightarrow> fenced env) (fenced env)"
    by (rule triple_attempt, rule triple_weaken [OF claim_round_fenced [OF assms]]) (simp_all add: unsubmitted_def)
  let ?after = "\<lambda>result. bindP (account_pool env surface result) (\<lambda>_.
         if stops_surface result then returnP (count_result result summary)
         else poll_tasks env brandIds surface n (count_result result summary))"
  have after: "triple (fenced env) (?after result) (\<lambda>_. fenced env) (fenced env)" for result
    by (intro keeps_triple keeps_rules account_pool_keeps Suc.IH)
  have run: "triple (unsubmitted env (claim # cs))
      (bindP (tryP (run_polled env claim) (\<lambda>_. returnP (Incomplete ''coordinator_unhandled''))) ?after)
      (\<lambda>_. fenced env) (fenced env)" for claim cs
  proof (rule triple_bind [OF triple_try after])
    show "triple (unsubmitted env (claim # cs)) (run_polled env claim) (\<lambda>_. fenced env) (fenced env)"
      by (rule triple_weaken [OF run_polled_fenced]) (simp_all add: unsubmitted_def not_intended_def)
  qed (auto intro: triple_return)
  have rest: "triple (case r of Inr cs \<Rightarrow> unsubmitted env cs | Inl _ \<Rightarrow> fenced env)
      (case r of
         Inl _ \<Rightarrow> returnP (summary\<lparr>ps_incomplete := ps_incomplete summary + 1\<rparr>)
       | Inr [] \<Rightarrow> returnP summary
       | Inr (claim # _) \<Rightarrow>
         bindP (tryP (run_polled env claim) (\<lambda>_. returnP (Incomplete ''coordinator_unhandled''))) ?after)
      (\<lambda>_. fenced env) (fenced env)" for r
  proof (cases r)
    case (Inr cs)
    then show ?thesis by (cases cs) (use run in \<open>auto intro: triple_return simp: unsubmitted_def\<close>)
  qed (auto intro: triple_return)
  show ?case unfolding poll_tasks.simps
    by (rule keeps_of_triple) (rule triple_bind [OF round rest])
qed (simp add: keeps_rules)

lemma pollStartedWork_fenced:
  assumes "portal_fences_intents env"
  shows "keeps (fenced env) (pollStartedWork env brandIds surfaces bySurface)"
proof (induction surfaces arbitrary: bySurface)
  case (Cons s ss)
  have "keeps (fenced env) (can_start_now env s)" by (simp add: keeps_def can_start_now_def)
  then show ?case unfolding pollStartedWork.simps
    by (intro keeps_rules poll_tasks_fenced [OF assms] Cons.IH)
qed (simp add: keeps_rules)

subsection \<open>Automatic recoveries\<close>

text \<open>A recovery attempt that was recorded is one for a task that waits.\<close>

lemma recovery_attempt_waiting:
  assumes "recovery_attempt_entry other now cur = Inr (n, c)"
  shows "c" "\<exists>e. cur = Some e \<and> j_phase n = PhaseNeedsHuman \<and> j_taskId n = j_taskId e"
proof -
  obtain e where e: "cur = Some e" and due: "automaticRecoveryDueAt other e \<noteq> None"
    and n: "j_phase n = j_phase e" "j_taskId n = j_taskId e" "c"
    using assms by (cases cur) (auto simp: recovery_attempt_entry_def requireSome_def Let_def split: if_splits option.splits)
  have "j_phase e = PhaseNeedsHuman"
    using due by (auto simp: automaticRecoveryDueAt_def split: option.splits if_splits)
  with e n show c "\<exists>e. cur = Some e \<and> j_phase n = PhaseNeedsHuman \<and> j_taskId n = j_taskId e" by simp_all
qed

lemma recovery_attempt_fenced:
  "triple (fenced env) (recordPostSubmitRecoveryAttempt env t) (\<lambda>n. waiting_task env (j_taskId n)) (fenced env)"
proof (rule tripleI)
  fix w r w'
  assume f: "fenced env (w_area w) (w_log w)" and run: "recordPostSubmitRecoveryAttempt env t w = (r, w')"
  let ?other = "e_date_parse env"
  have f': "fenced env (w_area w') (w_log w')" using keepsD [OF fenced.journal_quiet(5) run f] .
  have ok: "area_ok ?other (w_area w)" using f by (simp add: fenced_def)
  have m: "mutated ?other (recovery_attempt_entry ?other) t (w_area w) r (w_area w')"
    using mutate_area [OF ok] run by (simp add: recordPostSubmitRecoveryAttempt_def)
  have "waiting_entry env (j_taskId n) (w_area w')" if ret: "r = Done n" for n
  proof -
    have "\<not> (\<exists>now. recovery_attempt_entry ?other now (entry_at ?other (w_area w) t) = Inr (n, False))"
      using recovery_attempt_waiting(1) by blast
    then obtain now e where d: "recovery_attempt_entry ?other now (entry_at ?other (w_area w) t) = Inr (n, True)"
      and e: "validateJournalEntry ?other (entry_json n) = Inr e"
      and a: "entry_at ?other (w_area w') = (entry_at ?other (w_area w))(j_taskId e \<mapsto> e)"
      using m ret unfolding mutated_def by blast
    obtain e0 where e0: "entry_at ?other (w_area w) t = Some e0" "j_phase n = PhaseNeedsHuman" "j_taskId n = j_taskId e0"
      using recovery_attempt_waiting(2) [OF d] by blast
    obtain v where v: "validateJournalEntry ?other v = Inr e0" using entry_at_valid [OF ok e0(1)] by blast
    have "j_taskId e = j_taskId n" using validate_taskId [OF v e0(3) e] e0(3) by simp
    moreover have "j_phase e = PhaseNeedsHuman" using validate_phase [OF e] e0(2) by simp
    ultimately show ?thesis using a by (simp add: waiting_entry_def)
  qed
  with f' show "case r of Done n \<Rightarrow> waiting_task env (j_taskId n) (w_area w') (w_log w') | _ \<Rightarrow> fenced env (w_area w') (w_log w')"
    by (cases r) (simp_all add: waiting_task_def)
qed

lemma recover_each_fenced:
  assumes "portal_fences_intents env"
  shows "keeps (fenced env) (recover_each env due suppressed recovered incomplete)"
proof (induction due arbitrary: recovered incomplete)
  case (Cons d due)
  have step: "keeps (fenced env) (bindP (recordPostSubmitRecoveryAttempt env t) (\<lambda>entry.
         bindP (recoverEntry env entry True) (\<lambda>result.
         bindP (rememberNeedsHumanFailure env (j_taskId entry) result) (\<lambda>_. returnP result))))" for t
    by (rule keeps_of_triple, rule triple_bind [OF recovery_attempt_fenced],
        rule triple_bind [OF recover_entry_fenced [OF assms]])
      (intro keeps_triple keeps_rules fenced.notify_quiet)
  show ?case unfolding recover_each.simps
    by (rule keeps_if [OF Cons.IH], rule keeps_bind [OF keeps_attempt [OF step]], rule keeps_if [OF Cons.IH Cons.IH])
qed (simp add: keeps_rules)

subsection \<open>The activities of the extension\<close>

lemma runOnce_fenced:
  assumes "portal_fences_intents env"
  shows "keeps (fenced env) (runOnce env)"
  unfolding runOnce_def recoverDuePostSubmit_def
  by (intro keeps_bind keeps_option keeps_prod keeps_return fenced.device_quiet fenced.reconcile_journal_quiet
      fenced.due_quiet recover_each_fenced pollStartedWork_fenced assms)

lemma load_entries_fenced:
  "triple (fenced env) (loadJournal env)
     (\<lambda>j a h. fenced env a h \<and> map_of j = entry_at (e_date_parse env) a) (fenced env)"
proof (rule tripleI)
  fix w r w'
  assume f: "fenced env (w_area w) (w_log w)" and run: "loadJournal env w = (r, w')"
  have "fenced env (w_area w') (w_log w')" using keepsD [OF fenced.loadJournal_quiet run f] .
  moreover have "w_area w' = w_area w" "\<forall>j. r = Done j \<longrightarrow> map_of j = entry_at (e_date_parse env) (w_area w)"
    using loadJournal_spec [OF _ run] f by (simp_all add: fenced_def)
  ultimately show "case r of Done j \<Rightarrow> fenced env (w_area w') (w_log w') \<and>
      map_of j = entry_at (e_date_parse env) (w_area w') | _ \<Rightarrow> fenced env (w_area w') (w_log w')"
    by (cases r) simp_all
qed

lemma recoverNeedsHuman_fenced:
  assumes "portal_fences_intents env"
  shows "keeps (fenced env) (recoverNeedsHuman env t)"
proof -
  let ?loaded = "\<lambda>j a h. fenced env a h \<and> map_of j = entry_at (e_date_parse env) a"
  let ?run = "\<lambda>entry. bindP (recoverEntry env entry False) (\<lambda>result.
         bindP (rememberNeedsHumanFailure env t result) (\<lambda>_. returnP (RunResult result)))"
  have run: "triple (waiting_task env (j_taskId entry)) (?run entry) (\<lambda>_. fenced env) (fenced env)" for entry
    by (rule triple_bind [OF recover_entry_fenced [OF assms]]) (intro keeps_triple keeps_rules fenced.notify_quiet)
  have found: "waiting_task env (j_taskId e) a h"
    if "?loaded j a h" "map_of j t = Some e" "j_phase e = PhaseNeedsHuman" for j e a h
  proof -
    have e: "entry_at (e_date_parse env) a t = Some e" using that(1,2) by simp
    then have "j_taskId e = t" using entry_at_valid [of "e_date_parse env" a t e] that(1) by (auto simp: fenced_def)
    then show ?thesis using e that(1,3) by (simp add: waiting_task_def waiting_entry_def)
  qed
  have rest: "triple (?loaded j)
      (case map_of j t of
         None \<Rightarrow> returnP (NotRecoverable ''local_task_not_waiting'')
       | Some entry \<Rightarrow>
         if j_phase entry \<noteq> PhaseNeedsHuman then returnP (NotRecoverable ''local_task_not_waiting'') else ?run entry)
      (\<lambda>_. fenced env) (fenced env)" for j
  proof (cases "map_of j t")
    case (Some e)
    show ?thesis
    proof (cases "j_phase e = PhaseNeedsHuman")
      case True
      have "triple (?loaded j) (?run e) (\<lambda>_. fenced env) (fenced env)"
        by (rule triple_weaken [OF run]) (use found Some True in blast)+
      then show ?thesis using Some True by simp
    qed (auto simp: Some intro: triple_return)
  qed (auto intro: triple_return)
  have body: "keeps (fenced env) (bindP (loadJournal env) (\<lambda>j.
      case map_of j t of
         None \<Rightarrow> returnP (NotRecoverable ''local_task_not_waiting'')
       | Some entry \<Rightarrow>
         if j_phase entry \<noteq> PhaseNeedsHuman then returnP (NotRecoverable ''local_task_not_waiting'') else ?run entry))"
    by (rule keeps_of_triple, rule triple_bind [OF load_entries_fenced rest])
  show ?thesis unfolding recoverNeedsHuman_def
    by (rule keeps_bind [OF fenced.device_quiet(1)], rule keeps_if [OF keeps_return body])
qed

text \<open>
  What the extension can do, one activity after the other, and the restart of its worker, after which
  nothing is left of the variables of the worker.
\<close>

inductive extension_step :: "environment \<Rightarrow> world \<Rightarrow> world \<Rightarrow> bool" for env where
  run_once: "runOnce env w = (r, w') \<Longrightarrow> extension_step env w w'"
| recover: "recoverNeedsHuman env taskId w = (r, w') \<Longrightarrow> extension_step env w w'"
| list_waiting: "listNeedsHuman env w = (r, w') \<Longrightarrow> extension_step env w w'"
| pair: "saveDevice env device w = (r, w') \<Longrightarrow> extension_step env w w'"
| qualify: "saveSurfaceReadiness env value w = (r, w') \<Longrightarrow> extension_step env w w'"
| unpair: "disconnect env w = (r, w') \<Longrightarrow> extension_step env w w'"
| restart: "extension_step env w (w\<lparr>w_migration := None, w_pools := [], w_phase := p, w_tab := i\<rparr>)"

lemma extension_step_fenced:
  assumes "extension_step env w w'" and "portal_fences_intents env" and "fenced env (w_area w) (w_log w)"
  shows "fenced env (w_area w') (w_log w')"
  using assms
proof (induction rule: extension_step.induct)
  case (list_waiting w r w')
  have "keeps (fenced env) (listNeedsHuman env)"
    unfolding listNeedsHuman_def by (intro keeps_rules fenced.loadJournal_quiet)
  from keepsD [OF this list_waiting(1,3)] show ?case .
qed (auto dest: keepsD [OF runOnce_fenced] keepsD [OF recoverNeedsHuman_fenced] keepsD [OF fenced.device_quiet(3)]
    keepsD [OF fenced.device_quiet(4)] keepsD [OF fenced.device_quiet(5)])

lemma reached_fenced:
  assumes "portal_fences_intents env" and "(extension_step env)\<^sup>*\<^sup>* w0 w"
    and "area_ok (e_date_parse env) (w_area w0)" and "w_log w0 = []"
  shows "fenced env (w_area w) (w_log w)"
  using assms(2)
proof (induction rule: rtranclp_induct)
  case base
  show ?case using assms(3,4) by (simp add: fenced_def submitted_once_def submissions_def)
qed (rule extension_step_fenced [OF _ assms(1)])

text \<open>
  C17: whatever the portal, the pages and Chrome answer, and whenever the worker is shut down: as long
  as the portal does not hand out a task it has a submit intent for, a task's prompt is submitted at
  most once, and only after the portal has accepted the intent.
\<close>

theorem prompt_submitted_at_most_once:
  assumes "portal_fences_intents env" and "(extension_step env)\<^sup>*\<^sup>* w0 w"
    and "area_ok (e_date_parse env) (w_area w0)" and "w_log w0 = []"
  shows "submissions taskId (w_log w) \<le> 1 \<and> submits_after_intent (w_log w) \<and> area_ok (e_date_parse env) (w_area w)"
  using reached_fenced [OF assms] by (simp add: fenced_def submitted_once_def)

subsection \<open>The stored journal\<close>

interpretation stored: stable_invariant env "\<lambda>a h. area_ok (e_date_parse env) a" for env
  by unfold_locales (simp_all add: save_journal area_ok_remove area_ok_settings)

lemma extension_step_stored:
  assumes "extension_step env w w'" and "area_ok (e_date_parse env) (w_area w)"
  shows "area_ok (e_date_parse env) (w_area w')"
  using assms
proof (induction rule: extension_step.induct)
  case (list_waiting w r w')
  from keepsD [OF stored.listNeedsHuman_stable this(1,2)] show ?case .
qed (auto dest: keepsD [OF stored.runOnce_stable] keepsD [OF stored.recoverNeedsHuman_stable]
    keepsD [OF stored.device_quiet(3)] keepsD [OF stored.device_quiet(4)] keepsD [OF stored.device_quiet(5)])

text \<open>
  C29: the stored journal stays well-typed: whatever the extension did, the journal can be loaded, and
  each of its entries is valid and stored under its own task id.
\<close>

theorem stored_journal_well_typed:
  assumes "(extension_step env)\<^sup>*\<^sup>* w0 w" and "area_ok (e_date_parse env) (w_area w0)"
  shows "\<exists>journal. journal_of_area (e_date_parse env) (w_area w) = Inr journal \<and>
    map_of journal = entry_at (e_date_parse env) (w_area w) \<and>
    list_all (\<lambda>(taskId, e). j_taskId e = taskId \<and> validateJournalEntry (e_date_parse env) (entry_json e) = Inr e) journal"
proof -
  let ?other = "e_date_parse env"
  have ok: "area_ok ?other (w_area w)"
    using assms by (induction rule: rtranclp_induct) (auto dest: extension_step_stored)
  obtain j where j: "journal_of_area ?other (w_area w) = Inr j" "map_of j = entry_at ?other (w_area w)"
    "distinct (map fst j)" using load_journal [OF ok] by blast
  have "j_taskId e = t \<and> validateJournalEntry ?other (entry_json e) = Inr e" if "(t, e) \<in> set j" for t e
  proof -
    have "entry_at ?other (w_area w) t = Some e" using that j(2,3) map_of_is_SomeI by metis
    from entry_at_valid [OF ok this] show ?thesis using validate_entry_json by blast
  qed
  with j(1,2) show ?thesis by (auto simp: list_all_iff)
qed

subsection \<open>No second submission of a recorded one\<close>

interpretation unchanged: quiet_invariant env
  "\<lambda>a h. area_ok (e_date_parse env) a \<and> submissions t h = n" for env t n
  by unfold_locales (simp_all add: save_journal area_ok_remove area_ok_settings)

text \<open>
  C27: without any assumption on the portal: once the journal has an entry of the task at or after its
  submit intent, running a claim of the task never submits a prompt, however the run ends.
\<close>

theorem journal_forbids_resubmission:
  assumes "area_ok (e_date_parse env) (w_area w)"
    and "entry_at (e_date_parse env) (w_area w) (bc_taskId claim) = Some e" and "phaseAtOrAfterIntent (j_phase e)"
    and "runClaimedTask env claim w = (r, w')"
  shows "submissions t (w_log w') = submissions t (w_log w)"
proof -
  have "past_intent env (bc_taskId claim) (w_area w)" using assms(2,3) by (auto simp: past_intent_def)
  with tripleD [OF unchanged.run_past_intent [of env t "submissions t (w_log w)"] assms(4)] assms(1)
  show ?thesis by (cases r) simp_all
qed

subsection \<open>What a success means\<close>

definition grown :: "environment \<Rightarrow> history \<Rightarrow> history \<Rightarrow> storage_area \<Rightarrow> history \<Rightarrow> bool" where
  "grown env h0 s a h \<longleftrightarrow> area_ok (e_date_parse env) a \<and> (\<exists>new. h = new @ h0 \<and> subseq s new)"

lemma grown_call: "grown env h0 s a h \<Longrightarrow> grown env h0 s a (e # h)"
  unfolding grown_def by (metis append_Cons list_emb_Cons)

lemma grown_noted: "grown env h0 s a h \<Longrightarrow> grown env h0 (e # s) a (e # h)"
  unfolding grown_def by (metis append_Cons subseq_Cons2)

interpretation grown: stable_invariant env "grown env h0 s" for env h0 s
  by unfold_locales (assumption | rule grown_call | simp add: grown_def save_journal area_ok_remove area_ok_settings)+

lemma triple_always: "triple P m (\<lambda>_ _ _. True) (\<lambda>_ _. True)"
  by (rule tripleI) (simp split: outcome.splits)

abbreviation fails :: "task_run_result prog \<Rightarrow> bool" where
  "fails m \<equiv> triple (\<lambda>_ _. True) m (\<lambda>r _ _. r \<noteq> Succeeded) (\<lambda>_ _. True)"

lemma report_failure_fails: "fails (report_failure env claim f)"
  unfolding report_failure_def
  by (rule triple_try [where E = "\<lambda>_ _. True"])
    (intro triple_bind [OF triple_always] triple_if triple_return; simp)+

lemma run_failed_fails: "fails (run_failed env claim existing session sha f)"
proof -
  have reported: "fails (bindP (classified c b) (report_failure env claim))" for c b
    by (rule triple_bind [OF triple_always]) (rule report_failure_fails)
  then have "fails (bindP (set_tab i) (\<lambda>_. bindP (attemptP m) (\<lambda>r. case r of
        Inl _ \<Rightarrow> returnP (Incomplete c) | Inr _ \<Rightarrow> bindP (classified d b) (report_failure env claim))))"
    for i c d b and m :: "unit prog"
    by (intro triple_bind [OF triple_always]) (auto intro: triple_return split: sum.splits)
  with reported show ?thesis unfolding run_failed_def by (cases f) simp_all
qed

lemma triple_note:
  assumes "\<And>a h. P a h \<Longrightarrow> grown env h0 s a h"
  shows "triple P (perform e f) (\<lambda>_. grown env h0 ((e, Answered) # s)) (\<lambda>_ _. True)"
  by (rule triple_perform) (auto intro: grown_noted assms)

lemma triple_throw: "(\<And>a h. P a h \<Longrightarrow> R a h) \<Longrightarrow> triple P (throwP f) Q R"
  by (rule tripleI) (auto simp: throwP_def)

lemma grown_quiet: "keeps (grown env h0 s) m \<Longrightarrow> triple (grown env h0 s) m (\<lambda>_. grown env h0 s) (\<lambda>_ _. True)"
  by (rule triple_keeps) (assumption, simp)

text \<open>The calls that precede a collected answer.\<close>

definition confirmation :: "browser_extension_claim \<Rightarrow> string \<Rightarrow> history" where
  "confirmation claim session = (if bc_submitConfirmed claim then [] else [(ConfirmSubmitted claim session, Answered)])"

lemma confirm_noted:
  "triple (grown env h0 []) (api_confirmSubmitted env claim session) (\<lambda>_. grown env h0 [(ConfirmSubmitted claim session, Answered)])
     (\<lambda>_ _. True)"
  unfolding api_confirmSubmitted_def by (rule triple_note)

lemma submit_prompt_confirmed:
  "triple (grown env h0 []) (submit_prompt env claim session tab) (\<lambda>_. grown env h0 (confirmation claim session)) (\<lambda>_ _. True)"
proof -
  have "triple (grown env h0 []) (submit_prompt env claim session tab)
      (\<lambda>_. grown env h0 [(ConfirmSubmitted claim session, Answered)]) (\<lambda>_ _. True)"
    unfolding submit_prompt_def call_def
    by (rule triple_bind [OF grown_quiet [OF grown.perform_stable]] triple_bind [OF grown_quiet [OF grown.reach_quiet]]
        triple_bind [OF confirm_noted] grown_quiet grown.reach_quiet)+
  moreover have "grown env h0 [e] a h \<Longrightarrow> grown env h0 [] a h" for e a h
    unfolding grown_def by auto
  ultimately show ?thesis
    by (cases "bc_submitConfirmed claim") (auto simp: confirmation_def elim!: triple_weaken)
qed

lemma resume_submission_confirmed:
  "triple (grown env h0 []) (resume_submission env claim existing session tab)
     (\<lambda>_. grown env h0 (confirmation claim session)) (\<lambda>_ _. True)"
proof -
  have confirm: "triple (grown env h0 [])
      (if bc_submitConfirmed claim then returnP () else api_confirmSubmitted env claim session)
      (\<lambda>_. grown env h0 (confirmation claim session)) (\<lambda>_ _. True)"
    using confirm_noted by (auto simp: confirmation_def intro: triple_return)
  have journal: "keeps (grown env h0 []) (if j_phase existing \<noteq> PhaseSubmitIntent
             then bindP (resumePostSubmit env (bc_taskId claim)) (\<lambda>_. set_phase PhaseSubmitIntent) else returnP ())"
    by (intro keeps_rules grown.journal_quiet)
  show ?thesis
    unfolding resume_submission_def call_def
    by (rule triple_if [OF triple_throw], simp, rule triple_bind [OF grown_quiet [OF journal]],
        rule triple_bind [OF grown_quiet [OF grown.perform_stable]], rule triple_bind [OF confirm],
        rule grown_quiet [OF grown.reach_quiet])
qed

text \<open>The claim is completed under the session of the run, with the answer that was collected.\<close>

definition completed_run ::
  "environment \<Rightarrow> browser_extension_claim \<Rightarrow> history \<Rightarrow> string \<Rightarrow> int \<Rightarrow> storage_area \<Rightarrow> history \<Rightarrow> bool" where
  "completed_run env claim h0 session tab a h \<longleftrightarrow>
     (\<exists>completion. rc_runnerSessionId completion = session \<and>
        grown env h0 ((CompleteTask claim completion, Answered) # (CollectCurrentAnswer tab, Answered) #
          confirmation claim session) a h)"

lemma collect_and_complete_completed:
  "triple (grown env h0 (confirmation claim session)) (collect_and_complete env claim session tab)
     (\<lambda>_. completed_run env claim h0 session tab) (\<lambda>_ _. True)"
proof -
  let ?collected = "grown env h0 ((CollectCurrentAnswer tab, Answered) # confirmation claim session)"
  have collect: "triple (grown env h0 (confirmation claim session))
      (perform (CollectCurrentAnswer tab) (\<lambda>h. e_collectCurrentAnswer env h tab)) (\<lambda>_. ?collected) (\<lambda>_ _. True)"
    by (rule triple_note)
  have evidence: "keeps ?collected (tryP (capture_visual_evidence env claim session tab answer) (\<lambda>_. returnP unavailable_evidence))"
    for answer by (intro keeps_rules grown.capture_quiet)
  have complete: "triple ?collected (perform (CompleteTask claim c) f) (\<lambda>_. completed_run env claim h0 session tab) (\<lambda>_ _. True)"
    if "rc_runnerSessionId c = session" for c and f :: "history \<Rightarrow> unit reply"
    using that by (intro triple_perform) (auto simp: completed_run_def intro: grown_noted)
  have tidy: "triple (completed_run env claim h0 session tab)
      (bindP (attemptP (removeJournal env (bc_taskId claim))) (\<lambda>_.
       bindP (attemptP (call env (CloseTab tab))) (\<lambda>_. returnP Succeeded)))
      (\<lambda>_. completed_run env claim h0 session tab) (\<lambda>_ _. True)"
  proof (rule triple_keeps)
    show "keeps (completed_run env claim h0 session tab) (bindP (attemptP (removeJournal env (bc_taskId claim))) (\<lambda>_.
       bindP (attemptP (call env (CloseTab tab))) (\<lambda>_. returnP Succeeded)))"
    proof -
      have "keeps (grown env h0 s) (bindP (attemptP (removeJournal env (bc_taskId claim))) (\<lambda>_.
         bindP (attemptP (call env (CloseTab tab))) (\<lambda>_. returnP Succeeded)))" for s
        unfolding call_def by (intro keeps_rules grown.perform_stable grown.removeJournal_quiet)
      then show ?thesis unfolding keeps_def completed_run_def by blast
    qed
  qed simp
  show ?thesis
    unfolding collect_and_complete_def Let_def
    by (rule triple_bind [OF collect], rule triple_bind [OF grown_quiet [OF grown.reach_quiet]],
        rule triple_bind [OF grown_quiet [OF evidence]], rule triple_bind [OF complete tidy]) simp
qed

lemma run_body_completed:
  "triple (grown env h0 []) (run_body env claim existing session sha)
     (\<lambda>_ a h. \<exists>tab. completed_run env claim h0 session tab a h) (\<lambda>_ _. True)"
proof -
  have send: "triple (grown env h0 []) (case existing of
          Some entry \<Rightarrow>
            if phaseAtOrAfterIntent (j_phase entry) then resume_submission env claim entry session tab
            else submit_prompt env claim session tab
        | None \<Rightarrow> submit_prompt env claim session tab) (\<lambda>_. grown env h0 (confirmation claim session)) (\<lambda>_ _. True)" for tab
    by (cases existing) (simp_all add: submit_prompt_confirmed resume_submission_confirmed)
  have last: "triple (grown env h0 (confirmation claim session)) (collect_and_complete env claim session tab)
     (\<lambda>_ a h. \<exists>tab. completed_run env claim h0 session tab a h) (\<lambda>_ _. True)" for tab
    by (rule triple_weaken [OF collect_and_complete_completed]) auto
  show ?thesis unfolding run_body_def
    by (rule triple_bind [OF grown_quiet [OF grown.open_tab_quiet]], rule triple_bind [OF send last])
qed

text \<open>
  C28: a run that succeeded has, in this order, confirmed the submission to the portal (unless the claim
  says that it was confirmed before), collected the answer, and had the portal accept the completion
  of this claim under the session of the run.
\<close>

theorem success_is_confirmed_and_completed:
  assumes "area_ok (e_date_parse env) (w_area w)" and "runClaimedTask env claim w = (Done Succeeded, w')"
  shows "\<exists>new tab completion. w_log w' = new @ w_log w \<and>
    subseq ((CompleteTask claim completion, Answered) # (CollectCurrentAnswer tab, Answered) #
      (if bc_submitConfirmed claim then [] else [(ConfirmSubmitted claim (rc_runnerSessionId completion), Answered)])) new"
proof -
  let ?h0 = "w_log w"
  let ?done = "\<lambda>r a h. r = Succeeded \<longrightarrow> (\<exists>session tab. completed_run env claim ?h0 session tab a h)"
  have run: "triple (grown env ?h0 []) (tryP (run_body env claim existing session sha)
      (run_failed env claim existing session sha)) ?done (\<lambda>_ _. True)" for existing session sha
  proof (rule triple_try)
    show "triple (grown env ?h0 []) (run_body env claim existing session sha) ?done (\<lambda>_ _. True)"
      by (rule triple_weaken [OF run_body_completed]) auto
    show "triple (\<lambda>_ _. True) (run_failed env claim existing session sha f) ?done (\<lambda>_ _. True)" for f
      by (rule triple_weaken [OF run_failed_fails]) auto
  qed simp
  have persist: "triple (grown env ?h0 []) (persistNeedsHuman env claim f) ?done (\<lambda>_ _. True)" for f
    unfolding persistNeedsHuman_def
    by (rule triple_try [where E = "\<lambda>_ _. True"]) (intro triple_bind [OF triple_always] triple_return; simp)+
  have "triple (grown env ?h0 []) (runClaimedTask env claim) ?done (\<lambda>_ _. True)"
    unfolding runClaimedTask_def run_with_entry_def Let_def
    by (intro triple_bind [OF grown_quiet] triple_if persist run keeps_rules grown.loadJournal_quiet)
  from tripleD [OF this assms(2)] assms(1) obtain session tab where
    "completed_run env claim ?h0 session tab (w_area w') (w_log w')" by (auto simp: grown_def)
  then show ?thesis unfolding completed_run_def grown_def confirmation_def by blast
qed

end
