(* ===== verification/EndToEnd.thy ===== *)
theory EndToEnd
  imports PortalResults Safety ExtensionSafety
begin

text \<open>
  The browser extension and the portal together: an extension whose requests are answered by the
  portal's service, on a database that everyone else works on at the same time, submits the prompt of a
  task at most once.
\<close>

subsection \<open>Rows with an intent\<close>

definition intent_row :: "string \<Rightarrow> database \<Rightarrow> bool" where
  "intent_row taskId db \<longleftrightarrow> (\<exists>t \<in> set (d_tasks db). t_id t = taskId \<and> t_submitIntentAt t \<noteq> None)"

lemma intent_row_evolves: "evolves db db' \<Longrightarrow> intent_row i db \<Longrightarrow> intent_row i db'"
  unfolding evolves_def intent_row_def task_evolves_def task_change_def by metis

lemma intent_row_unique:
  "db_ok db \<Longrightarrow> intent_row (t_id t) db \<Longrightarrow> t \<in> set (d_tasks db) \<Longrightarrow> t_submitIntentAt t \<noteq> None"
  unfolding intent_row_def using same_id_same_task by blast

lemma intent_recorded:
  assumes "markBrowserRunnerSubmitIntent sha now claim session db = Inr (db', r)"
  shows "intent_row (rc_taskId claim) db'"
proof -
  obtain held task s where s: "runner_requiredText session ''runnerSessionId'' 300 = Inr s"
    and g: "activeRunnerLease sha claim now = Inr held" and f: "find held (d_tasks db) = Some task"
    using assms by (auto simp: markBrowserRunnerSubmitIntent_def thrown_simps split: if_splits)
  have c: "t_submitIntentAt task \<noteq> None \<and> db' = db \<or>
      (\<exists>u out. update_tasks db held (\<lambda>t. t\<lparr>t_runnerSessionId := Some s, t_submitIntentAt := Some now\<rparr>) = Inr (db', u # out))"
    using assms s g f
    by (cases "t_submitIntentAt task") (auto simp: markBrowserRunnerSubmitIntent_def thrown_simps split: if_splits)
  have id: "held t \<Longrightarrow> t_id t = rc_taskId claim" for t using g by (auto simp: activeRunnerLease_def thrown_simps)
  from c show ?thesis
  proof
    assume "t_submitIntentAt task \<noteq> None \<and> db' = db"
    then show ?thesis using find_SomeD [OF f] id by (auto simp: intent_row_def)
  next
    assume "\<exists>u out. update_tasks db held (\<lambda>t. t\<lparr>t_runnerSessionId := Some s, t_submitIntentAt := Some now\<rparr>) = Inr (db', u # out)"
    then obtain out where "update_tasks db held (\<lambda>t. t\<lparr>t_runnerSessionId := Some s, t_submitIntentAt := Some now\<rparr>) = Inr (db', out)"
      by blast
    note rows = update_tasks_InrD(1) [OF this]
    have "task\<lparr>t_runnerSessionId := Some s, t_submitIntentAt := Some now\<rparr> \<in> set (d_tasks db')"
      using find_SomeD [OF f] by (auto simp: rows set_where_def)
    then show ?thesis using find_SomeD [OF f] id unfolding intent_row_def
      by (intro bexI [of _ "task\<lparr>t_runnerSessionId := Some s, t_submitIntentAt := Some now\<rparr>"]) auto
  qed
qed

lemma resumed_before_submit:
  assumes "resumeBrowserRunnerTask sha other now token brandId taskId runnerId d db = Inr (db', claim, PreSubmit)"
  shows "t_id (ct_task claim) = taskId \<and> (\<exists>t \<in> set (d_tasks db). t_id t = taskId \<and> t_submitIntentAt t = None)"
proof -
  obtain task i k h e r out db1 where t: "find (\<lambda>t. t_id t = taskId \<and> t_batchId t = i) (d_tasks db) = Some task"
    and none: "t_submitIntentAt task = None"
    and u: "update_tasks db (\<lambda>t. t_id t = t_id task \<and> t_status t = TaskAvailable \<and>
                t_automationStatus t = Some AutoNeedsHuman \<and> t_claimedBy t = k \<and>
                t_leaseGeneration t = t_leaseGeneration task \<and> t_submitIntentAt t = None)
        (\<lambda>t. t\<lparr>t_status := TaskClaimed, t_automationStatus := Some AutoRunning,
                t_leaseTokenHash := Some h, t_leaseGeneration := t_leaseGeneration task + 1,
                t_leaseExpiresAt := Some e, t_claimCount := t_claimCount task + 1, t_claimedAt := Some now,
                t_needsHumanCode := None, t_needsHumanReason := None\<rparr>) = Inr (db1, r # out)"
    and c: "ct_task claim = redactDeliveryTask r"
    using assms
    by (auto simp: resumeBrowserRunnerTask_def thrown_simps Let_def split: option.splits if_splits)
  have "r \<in> set (r # out)" by simp
  then have "t_id r = t_id task" unfolding update_tasks_InrD(2) [OF u] by auto
  then show ?thesis using find_SomeD [OF t] none c by (auto simp: redactDeliveryTask_def)
qed

subsection \<open>The extension in front of the portal\<close>

text \<open>
  A request is answered at some moment between two events of the extension: before and after it, others
  may have performed any operations on the database.
\<close>

definition answered ::
  "(database \<Rightarrow> database \<Rightarrow> bool) \<Rightarrow> (database \<Rightarrow> database \<times> 'a) \<Rightarrow> database \<Rightarrow> database \<Rightarrow> 'a \<Rightarrow> bool" where
  "answered step operation db db' answer \<longleftrightarrow>
     (\<exists>db1 db2. step\<^sup>*\<^sup>* db db1 \<and> operation db1 = (db2, answer) \<and> step\<^sup>*\<^sup>* db2 db')"

definition intent_operation ::
  "(string \<Rightarrow> string) \<Rightarrow> int \<Rightarrow> string \<Rightarrow> session_lease_request \<Rightarrow> runner_principal \<Rightarrow> database \<Rightarrow>
   database \<times> (portal_error + string option \<times> int option)" where
  "intent_operation sha now taskId input runner db =
     (case recordRunnerSubmitIntent sha now taskId input runner db of
        Inl e \<Rightarrow> (db, Inl e) | Inr (db', r) \<Rightarrow> (db', Inr r))"

text \<open>
  \<open>db_of h\<close> is the portal's database after the history \<open>h\<close>. Between two events the database changes by
  operations of the program only, and the requests for intents, claims and resumptions that the
  environment answers are answered by the service: it reads the body the extension wrote, and the
  extension reads the answer the service wrote. Nothing is assumed of requests that are not answered.
\<close>

definition portal_serves ::
  "(string \<Rightarrow> string) \<Rightarrow> (string \<Rightarrow> int option) \<Rightarrow> (string \<Rightarrow> string \<Rightarrow> int) \<Rightarrow> runner_principal \<Rightarrow> (history \<Rightarrow> database) \<Rightarrow>
   environment \<Rightarrow> bool" where
  "portal_serves sha other lc runner db_of env \<longleftrightarrow>
     (let step = program_step sha other lc in
      db_ok (db_of []) \<and>
      (\<forall>e x h. genuine env ((e, x) # h) \<longrightarrow> step\<^sup>*\<^sup>* (db_of h) (db_of ((e, x) # h))) \<and>
      (\<forall>c s h. genuine env h \<longrightarrow> e_recordSubmitIntent env h c s = Answer () \<longrightarrow>
         (\<exists>now input r. browserRunnerSessionLeaseSchema (submit_body c s) = Some input \<and>
            answered step (intent_operation sha now (bc_taskId c) input runner)
              (db_of h) (db_of ((RecordSubmitIntent c s, Answered) # h)) (Inr r))) \<and>
      (\<forall>brand surface c h. genuine env h \<longrightarrow> e_claimNext env h brand surface = Answer (Some c) \<longrightarrow>
         (\<exists>ec clock now locked token f g settings input q r.
            browserRunnerClaimSchema (claimNext_body brand surface) = Some input \<and>
            answered step (claimRunnerTask sha other ec clock now locked token f g settings input runner)
              (db_of h) (db_of ((ClaimNext brand surface, Answered) # h)) (Some (Inr (Some r))) \<and>
            parse_claim_answer other (claim_answer_json (Some r) q) surface = Inr (Some c))) \<and>
      (\<forall>taskId brand stage surface c h. genuine env h \<longrightarrow> e_resume env h taskId brand stage surface = Answer c \<longrightarrow>
         (\<exists>now token f g input r.
            browserRunnerResumeSchema (resume_body brand stage surface) = Some input \<and>
            answered step (resumeRunnerTask sha other now token f g taskId (fst input) (snd (snd input)) runner)
              (db_of h) (db_of ((ResumeTask taskId brand stage surface, Answered) # h)) (Inr r) \<and>
            parseClaim other (claim_response_json r) None = Inr c)))"

lemma portal_servesD:
  assumes "portal_serves sha other lc runner db_of env"
  shows "db_ok (db_of [])"
    and "\<And>e x h. genuine env ((e, x) # h) \<Longrightarrow> (program_step sha other lc)\<^sup>*\<^sup>* (db_of h) (db_of ((e, x) # h))"
  using assms by (simp_all only: portal_serves_def Let_def)

lemmas portal_serves_conj = portal_serves_def [THEN iffD1, unfolded Let_def, THEN conjunct2, THEN conjunct2]

lemmas served_intent = portal_serves_conj [THEN conjunct1, rule_format]

lemmas served_claim = portal_serves_conj [THEN conjunct2, THEN conjunct1, rule_format]

lemmas served_resume = portal_serves_conj [THEN conjunct2, THEN conjunct2, rule_format]

lemma genuine_tail: "genuine env ((e, x) # h) \<Longrightarrow> genuine env h"
  by (simp add: genuine.simps)

lemma served_ok:
  assumes "portal_serves sha other lc runner db_of env" and "genuine env h"
  shows "db_ok (db_of h)"
  using assms(2)
proof (induction h)
  case (Cons a h)
  then have "db_ok (db_of h)" by (cases a) (auto dest: genuine_tail)
  with portal_servesD(2) [OF assms(1), of "fst a" "snd a" h] Cons.prems show ?case
    using program_steps_ok by (metis prod.collapse)
qed (rule portal_servesD(1) [OF assms(1)])

lemma intent_answered:
  assumes "answered (program_step sha other lc) (intent_operation sha now taskId input runner) db db' (Inr r)" and "db_ok db"
  shows "intent_row taskId db'"
proof -
  let ?step = "program_step sha other lc"
  obtain db1 db2 where s: "?step\<^sup>*\<^sup>* db db1" "?step\<^sup>*\<^sup>* db2 db'"
    and op: "intent_operation sha now taskId input runner db1 = (db2, Inr r)"
    using assms(1) unfolding answered_def by blast
  then have mark: "markBrowserRunnerSubmitIntent sha now (runner_proof taskId input runner) (lq_runnerSessionId input) db1 = Inr (db2, r)"
    by (auto simp: intent_operation_def recordRunnerSubmitIntent_def bindE_Inr_iff split: sum.splits)
  have ok: "db_ok db1" using program_steps_ok [OF s(1) assms(2)] by simp
  have "db_ok db2" by (rule db_steps_ok [OF markBrowserRunnerSubmitIntent_steps [OF mark ok] ok])
  from program_steps_ok [OF s(2) this] intent_recorded [OF mark] show ?thesis
    using intent_row_evolves by (auto simp: runner_proof_def)
qed

lemma intended_row:
  assumes "portal_serves sha other lc runner db_of env"
  shows "genuine env h \<Longrightarrow> intended taskId h \<Longrightarrow> intent_row taskId (db_of h)"
proof (induction h)
  case (Cons a h)
  obtain e x where a: "a = (e, x)" by (cases a)
  have g: "genuine env h" using Cons.prems(1) by (simp add: a genuine_tail)
  note ok = served_ok [OF assms g]
  show ?case
  proof (cases "intended taskId h")
    case True
    then show ?thesis
      using intent_row_evolves program_steps_ok [OF portal_servesD(2) [OF assms] ok] Cons.IH [OF g] Cons.prems(1) a by blast
  next
    case False
    then obtain c s where e: "e = RecordSubmitIntent c s" "x = Answered" "bc_taskId c = taskId"
      using Cons.prems(2) by (cases e) (auto simp: a intended_def)
    then have "e_recordSubmitIntent env h c s = Answer ()" using Cons.prems(1) by (simp add: a genuine.simps)
    from served_intent [OF assms g this] obtain now input r where
      "answered (program_step sha other lc) (intent_operation sha now (bc_taskId c) input runner)
         (db_of h) (db_of ((RecordSubmitIntent c s, Answered) # h)) (Inr r)" by blast
    from intent_answered [OF this ok] show ?thesis by (simp add: a e)
  qed
qed (simp add: intended_def)

lemma portal_serves_fences:
  assumes serves: "portal_serves sha other lc runner db_of env"
  shows "portal_fences_intents env"
  unfolding portal_fences_intents_def
proof (intro conjI allI impI notI)
  fix h brand surface c
  assume g: "genuine env h" and claim: "e_claimNext env h brand surface = Answer (Some c)" and i: "intended (bc_taskId c) h"
  let ?step = "program_step sha other lc"
  obtain ec clock now locked token f g' settings input q r db1 db2 where
    s: "?step\<^sup>*\<^sup>* (db_of h) db1" and
    op: "claimRunnerTask sha other ec clock now locked token f g' settings input runner db1 = (db2, Some (Inr (Some r)))" and
    read: "parse_claim_answer other (claim_answer_json (Some r) q) surface = Inr (Some c)"
    using served_claim [OF serves g claim] unfolding answered_def by blast
  have ok: "db_ok db1" and row: "intent_row (bc_taskId c) db1"
    using program_steps_ok [OF s served_ok [OF serves g]] intended_row [OF serves g i] intent_row_evolves by blast+
  obtain targets claim where
    k: "claimBrowserRunnerTask sha other ec clock now locked token
       \<lparr>ri_brandId = cq_brandId input, ri_batchId = cq_batchId input, ri_runnerId = bp_id runner,
        ri_leaseDurationMs = Some RUNNER_LEASE_MS, ri_captureTargets = Some targets\<rparr> db1 = (db2, Some (Inr (Some claim)))"
    and b: "buildRunnerClaimResponse sha f g' claim runner False db2 = (db2, Inr r)"
    by (rule claimRunnerTask_Some [OF op])
  have steps: "db_steps db1 db2" using claimBrowserRunnerTask_steps [OF ok] k by (metis fst_conv)
  obtain t where t: "t \<in> set (d_tasks db2)" "t_submitIntentAt t = None" "ct_task claim = redactDeliveryTask t"
    using runner_claim_spec [OF k ok] handed_out_claim unfolding handed_out_def by metis
  have "parseClaim other (claim_response_json r) (Some surface) = Inr c"
    using read by (auto simp: parse_claim_answer_def claim_answer_json_def claim_response_json_def record_fields_def bindE_Inr_iff)
  then have "bc_taskId c = t_id t"
    using buildRunnerClaimResponse_Inr [OF b] t(3)
    by (auto simp: parse_claim_iff received_claim_def Let_def redactDeliveryTask_def)
  then have "intent_row (t_id t) db2" using intent_row_evolves [OF db_steps_evolve [OF steps] row] by simp
  with intent_row_unique [OF db_steps_ok [OF steps ok] _ t(1)] t(2) show False by blast
next
  fix h taskId brand stage surface c
  assume g: "genuine env h" and resume: "e_resume env h taskId brand stage surface = Answer c"
    and pre: "\<not> bc_postSubmitAssist c" and i: "intended (bc_taskId c) h"
  let ?step = "program_step sha other lc"
  obtain now token f g' and input :: "string \<times> runner_stage option \<times> string option" and r db1 db2 where
    s: "?step\<^sup>*\<^sup>* (db_of h) db1" and
    op: "resumeRunnerTask sha other now token f g' taskId (fst input) (snd (snd input)) runner db1 = (db2, Inr r)" and
    read: "parseClaim other (claim_response_json r) None = Inr c"
    using served_resume [OF serves g resume] unfolding answered_def by blast
  have ok: "db_ok db1" and row: "intent_row (bc_taskId c) db1"
    using program_steps_ok [OF s served_ok [OF serves g]] intended_row [OF serves g i] intent_row_evolves by blast+
  obtain db3 claim st where
    k: "resumeBrowserRunnerTask sha other now token (fst input) taskId (bp_id runner) (Some RUNNER_LEASE_MS) db1 = Inr (db3, claim, st)"
    and b: "buildRunnerClaimResponse sha f g' claim runner (st = PostSubmit) db3 = (db2, Inr r)"
    using op by (auto simp: resumeRunnerTask_def bindE_Inr_iff split: sum.splits prod.splits)
  have c: "bc_taskId c = t_id (ct_task claim)" "bc_postSubmitAssist c = (st = PostSubmit)"
    using buildRunnerClaimResponse_Inr [OF b] read by (auto simp: parse_claim_iff received_claim_def Let_def)
  have "st = PreSubmit" using pre c(2) by (cases st) simp_all
  from resumed_before_submit [OF k [unfolded this]] obtain t where
    "t \<in> set (d_tasks db1)" "t_id t = bc_taskId c" "t_submitIntentAt t = None" using c(1) by auto
  with intent_row_unique [OF ok] row show False by metis
qed

text \<open>
  C18: the composition: an extension whose requests the portal's service answers submits the prompt of a
  task at most once and only after an accepted intent, whatever other runners, operators and jobs do
  to the database in between, whatever the pages and Chrome do, and whenever a request is lost or the
  extension's worker is shut down; and the database knows of every submission.
\<close>

theorem served_extension_submits_once:
  assumes "portal_serves sha other lc runner db_of env" and "(extension_step env)\<^sup>*\<^sup>* w0 w"
    and "area_ok (e_date_parse env) (w_area w0)" and "w_log w0 = []"
  shows "submissions taskId (w_log w) \<le> 1 \<and> submits_after_intent (w_log w) \<and>
    (0 < submissions taskId (w_log w) \<longrightarrow>
      (\<exists>t \<in> set (d_tasks (db_of (w_log w))). t_id t = taskId \<and> t_submitIntentAt t \<noteq> None))"
proof -
  have f: "fenced env (w_area w) (w_log w)" by (rule reached_fenced [OF portal_serves_fences [OF assms(1)] assms(2-4)])
  then have "0 < submissions taskId (w_log w) \<Longrightarrow> intent_row taskId (db_of (w_log w))"
    using intended_row [OF assms(1)] by (simp add: fenced_def submitted_once_def)
  with f show ?thesis by (simp add: fenced_def submitted_once_def intent_row_def)
qed

end
