(* ===== verification/ExtensionLiveness.thy ===== *)
theory ExtensionLiveness
  imports ExtensionSafety
begin

text \<open>
  When portal, page and Chrome answer, a run of a claimed task comes to its end: total correctness of the
  extension's run, from a task without an entry in the journal, from one that was interrupted before the
  submission, and from one that was interrupted after it.
\<close>

subsection \<open>Total correctness\<close>

text \<open>
  From a world in \<open>P\<close> the program returns with \<open>Q\<close> or throws with \<open>R\<close>; it is never cut off.
\<close>

definition total_prog :: "(world \<Rightarrow> bool) \<Rightarrow> 'a prog \<Rightarrow> ('a \<Rightarrow> world \<Rightarrow> bool) \<Rightarrow> (failure \<Rightarrow> world \<Rightarrow> bool) \<Rightarrow> bool" where
  "total_prog P m Q R \<longleftrightarrow> (\<forall>w. P w \<longrightarrow>
     (\<exists>w'. (\<exists>x. m w = (Done x, w') \<and> Q x w') \<or> (\<exists>f. m w = (Thrown f, w') \<and> R f w')))"

definition nothing :: "failure \<Rightarrow> world \<Rightarrow> bool" where
  "nothing f w = False"

lemma total_progI: "(\<And>w. P w \<Longrightarrow> \<exists>x w'. m w = (Done x, w') \<and> Q x w') \<Longrightarrow> total_prog P m Q R"
  unfolding total_prog_def by blast

lemma total_progD: "total_prog P m Q nothing \<Longrightarrow> P w \<Longrightarrow> \<exists>x w'. m w = (Done x, w') \<and> Q x w'"
  unfolding total_prog_def nothing_def by blast

lemma total_weaken:
  assumes "total_prog P m Q R" and "\<And>w. P' w \<Longrightarrow> P w" and "\<And>x w. Q x w \<Longrightarrow> Q' x w" and "\<And>f w. R f w \<Longrightarrow> R' f w"
  shows "total_prog P' m Q' R'"
  using assms unfolding total_prog_def by meson

lemma total_fact: "(\<And>w. P w \<Longrightarrow> c) \<Longrightarrow> (c \<Longrightarrow> total_prog P m Q R) \<Longrightarrow> total_prog P m Q R"
  unfolding total_prog_def by blast

lemma total_return: "(\<And>w. P w \<Longrightarrow> Q x w) \<Longrightarrow> total_prog P (returnP x) Q R"
  by (simp add: total_prog_def returnP_def)

lemma total_set_phase: "(\<And>w. P w \<Longrightarrow> Q () (w\<lparr>w_phase := p\<rparr>)) \<Longrightarrow> total_prog P (set_phase p) Q R"
  and total_set_tab: "(\<And>w. P w \<Longrightarrow> Q () (w\<lparr>w_tab := t\<rparr>)) \<Longrightarrow> total_prog P (set_tab t) Q R"
  by (simp_all add: total_prog_def set_phase_def set_tab_def)

lemma total_cases:
  assumes "total_prog P m Q R" and "P w"
  obtains x w' where "m w = (Done x, w')" "Q x w'" | f w' where "m w = (Thrown f, w')" "R f w'"
  using assms unfolding total_prog_def by blast

lemma total_bind:
  assumes "total_prog P m Q R" and "\<And>x. total_prog (Q x) (k x) S R"
  shows "total_prog P (bindP m k) S R"
  unfolding total_prog_def
proof (intro allI impI)
  fix w assume "P w"
  with assms(1) show "\<exists>w'. (\<exists>x. bindP m k w = (Done x, w') \<and> S x w') \<or> (\<exists>f. bindP m k w = (Thrown f, w') \<and> R f w')"
  proof (cases rule: total_cases)
    case (1 x v)
    with assms(2) show ?thesis unfolding total_prog_def by (simp add: bindP_def)
  qed (simp add: bindP_def)
qed

lemma total_try:
  assumes "total_prog P m Q E" and "\<And>f. total_prog (E f) (h f) Q R"
  shows "total_prog P (tryP m h) Q R"
  unfolding total_prog_def
proof (intro allI impI)
  fix w assume "P w"
  with assms(1) show "\<exists>w'. (\<exists>x. tryP m h w = (Done x, w') \<and> Q x w') \<or> (\<exists>f. tryP m h w = (Thrown f, w') \<and> R f w')"
  proof (cases rule: total_cases)
    case (2 f v)
    with assms(2) show ?thesis unfolding total_prog_def by (simp add: tryP_def)
  qed (simp add: tryP_def)
qed

lemma total_attempt:
  assumes "total_prog P m (\<lambda>_. Q) (\<lambda>_. Q)"
  shows "total_prog P (attemptP m) (\<lambda>_. Q) R"
proof (rule total_progI)
  fix w assume "P w"
  with assms show "\<exists>x w'. attemptP m w = (Done x, w') \<and> Q w'"
    by (cases rule: total_cases) (simp_all add: attemptP_def)
qed

lemma total_perform:
  assumes "\<And>w x. P w \<Longrightarrow> f (w_log w) = Answer x \<Longrightarrow> Q x (log_event e Answered w)"
    and "\<And>w g. P w \<Longrightarrow> f (w_log w) = Reject g \<Longrightarrow> R g (log_event e Rejected w)"
    and "\<And>w. P w \<Longrightarrow> f (w_log w) \<noteq> Killed"
  shows "total_prog P (perform e f) Q R"
  unfolding total_prog_def
proof (intro allI impI)
  fix w assume "P w"
  with assms show "\<exists>w'. (\<exists>x. perform e f w = (Done x, w') \<and> Q x w') \<or> (\<exists>g. perform e f w = (Thrown g, w') \<and> R g w')"
    by (cases "f (w_log w)") (simp_all add: perform_def)
qed

subsection \<open>Entries that can be stored\<close>

definition stored_text :: "nat \<Rightarrow> string \<Rightarrow> bool" where
  "stored_text maximum s \<longleftrightarrow> js_trim s = s \<and> s \<noteq> [] \<and> length s \<le> maximum"

lemma digit_solid: "\<not> js_space (char_of (nat (48 + n mod 10)))"
  by (simp add: js_space_def digit_code) linarith

lemma pad_dec_solid: "list_all (\<lambda>c. \<not> js_space c) (pad_dec k n)"
  by (induction k arbitrary: n) (simp_all add: digit_solid)

lemma to_iso_stored: "stored_text 50 (to_iso t)"
proof -
  have "list_all (\<lambda>c. \<not> js_space c) ''-+T:.Z''" by code_simp
  then have "list_all (\<lambda>c. \<not> js_space c) (to_iso t)"
    by (simp add: to_iso_def Let_def iso_year_def pad_dec_solid)
  then have "js_trim (to_iso t) = to_iso t" by (rule js_trim_solid)
  moreover have "length (to_iso t) \<le> 50" by (simp add: to_iso_def Let_def iso_year_def)
  ultimately show ?thesis by (simp add: stored_text_def)
qed

definition valid_entry :: "(string \<Rightarrow> int option) \<Rightarrow> task_journal_entry \<Rightarrow> bool" where
  "valid_entry other e \<longleftrightarrow> validateJournalEntry other (entry_json e) = Inr e"

definition valid_interruption :: "task_journal_entry \<Rightarrow> bool" where
  "valid_interruption e \<longleftrightarrow> (case j_interruptedPhase e of None \<Rightarrow> True
     | Some p \<Rightarrow> j_phase e = PhaseNeedsHuman \<and> p \<noteq> PhaseNeedsHuman)"

text \<open>What the later operations do not change of an entry.\<close>

definition valid_recovery :: "(string \<Rightarrow> int option) \<Rightarrow> task_journal_entry \<Rightarrow> bool" where
  "valid_recovery other e \<longleftrightarrow>
     optional_value (\<lambda>v. storage_requiredText (Some v) ''needs-human failure code'' 100)
       (map_option JStr (j_needsHumanFailureCode e)) = Inr (j_needsHumanFailureCode e) \<and>
     optional_value parse_attempt_count (map_option JNum (j_autoRecoveryAttemptCount e)) =
       Inr (j_autoRecoveryAttemptCount e) \<and>
     optional_value (parse_next_at other) (map_option JStr (j_autoRecoveryNextAt e)) = Inr (j_autoRecoveryNextAt e)"

lemma parse_interruption: "optional_value (parse_interrupted p) (map_option (JStr \<circ> phase_text) i) = Inr i \<longleftrightarrow>
    (case i of None \<Rightarrow> True | Some q \<Rightarrow> p = PhaseNeedsHuman \<and> q \<noteq> PhaseNeedsHuman)"
  by (cases i) (auto simp: optional_value_def parse_interrupted_def bindE_Inr_iff requireSome_Inr_iff)

lemma valid_entry_iff:
  "valid_entry other e \<longleftrightarrow> stored_text 200 (j_taskId e) \<and> stored_text 200 (j_batchId e) \<and> stored_text 300 (j_brandId e) \<and>
     j_surfaceTargetKey e \<in> set BROWSER_EXTENSION_SURFACES \<and> stored_text 50 (j_updatedAt e) \<and>
     date_parse other (j_updatedAt e) \<noteq> None \<and> valid_interruption e \<and> safe_integer (j_tabId e) \<and> 0 \<le> j_tabId e \<and>
     stored_text 300 (j_runnerSessionId e) \<and> stored_text 64 (j_promptSha256 e) \<and> hex64 (j_promptSha256 e) \<and>
     valid_recovery other e"
proof -
  obtain fs where fs: "entry_json e = JObj fs" by (simp add: entry_json_def)
  have tab: "parse_tab_id (Some (JNum i)) = Inr j \<longleftrightarrow> i = j \<and> safe_integer i \<and> 0 \<le> i" for i j
    by (auto simp: parse_tab_id_def requireSome_Inr_iff)
  have surface: "parse_surface (Some (JStr s)) = Inr r \<longleftrightarrow> s = r \<and> s \<in> set BROWSER_EXTENSION_SURFACES" for s r
    by (auto simp: parse_surface_def)
  have req: "storage_requiredText (Some (JStr s)) name n = Inr r \<longleftrightarrow> r = js_trim s \<and> r \<noteq> [] \<and> length r \<le> n" for s name n r
    by (auto simp: storage_requiredText_def Let_def)
  have phase: "parse_phase (Some (JStr (phase_text p))) = Inr q \<longleftrightarrow> p = q" for p q
    by (auto simp: parse_phase_def requireSome_Inr_iff)
  show ?thesis
    unfolding valid_entry_def fs validateJournalEntry_def json.case entry_json_fields [OF fs]
      bindE_Inr_iff if_Inl_iff valid_interruption_def valid_recovery_def parse_interruption [symmetric]
    by (cases e) (auto simp: tab surface phase req stored_text_def)
qed

lemma valid_new_entry:
  assumes "stored_text 200 (bc_taskId claim)" "stored_text 200 (bc_batchId claim)" "stored_text 300 (bc_brandId claim)"
    and "bc_surfaceTargetKey claim \<in> set BROWSER_EXTENSION_SURFACES" and "safe_integer tab" "0 \<le> tab"
    and "stored_text 300 session" "stored_text 64 sha" "hex64 sha" and "\<bar>now\<bar> \<le> 8640000000000000"
  shows "valid_entry other (new_entry claim tab session sha now)"
  using assms
  by (simp add: valid_entry_iff new_entry_def to_iso_stored date_parse_to_iso valid_interruption_def valid_recovery_def
      optional_value_def)

lemma valid_changed_phase:
  assumes "valid_entry other e" and "\<bar>now\<bar> \<le> 8640000000000000" and "p \<noteq> PhaseNeedsHuman"
    and "i = None \<or> (i = j_interruptedPhase e \<and> j_phase e \<noteq> PhaseNeedsHuman)"
  shows "valid_entry other (e\<lparr>j_interruptedPhase := i, j_phase := p, j_updatedAt := to_iso now\<rparr>)"
proof -
  have "i = None" using assms by (auto simp: valid_entry_iff valid_interruption_def split: option.splits)
  then show ?thesis using assms(1,2)
    by (simp add: valid_entry_iff to_iso_stored date_parse_to_iso valid_interruption_def valid_recovery_def)
qed

subsection \<open>The journal when the storage answers\<close>

text \<open>
  The journal is the map \<open>f\<close>, the migration has not failed, and \<open>n\<close> submissions of the task \<open>t\<close> are in the
  history.
\<close>

definition stored ::
  "environment \<Rightarrow> (string \<Rightarrow> task_journal_entry option) \<Rightarrow> string \<Rightarrow> nat \<Rightarrow> world \<Rightarrow> bool" where
  "stored env f t n w \<longleftrightarrow> area_ok (e_date_parse env) (w_area w) \<and> (\<forall>g. w_migration w \<noteq> Some (Some g)) \<and>
     entry_at (e_date_parse env) (w_area w) = f \<and> submissions t (w_log w) = n"

text \<open>
  Storage, portal, page and Chrome answer every call that a run cannot do without: opening a tab answers
  a tab id, the clock is in the range of \<open>Date\<close>, and session ids and digests are well formed. Evidence
  may be refused, and a tab may fail to close; nothing cuts the worker off.
\<close>

definition responsive :: "environment \<Rightarrow> bool" where
  "responsive env \<longleftrightarrow>
     (\<forall>h e. e_storage env h e = Answer ()) \<and>
     (\<forall>h e. e_tab env h e = Answer () \<or> (\<exists>i g. e = CloseTab i \<and> e_tab env h e = Reject g)) \<and>
     (\<forall>h c s. e_recordSubmitIntent env h c s = Answer ()) \<and> (\<forall>h c s. e_confirmSubmitted env h c s = Answer ()) \<and>
     (\<forall>h c r. e_completeTask env h c r = Answer ()) \<and>
     (\<forall>h c. \<exists>i. e_open env h c = Answer i \<and> safe_integer i \<and> 0 \<le> i) \<and>
     (\<forall>h i. \<exists>a. e_collectCurrentAnswer env h i = Answer a) \<and>
     (\<forall>h i p. e_captureEvidence env h i p \<noteq> Killed) \<and> (\<forall>h c s v b d. e_uploadEvidence env h c s v b d \<noteq> Killed) \<and>
     (\<forall>h. \<bar>e_now env h\<bar> \<le> 8640000000000000) \<and> (\<forall>h. stored_text 300 (e_randomSessionId env h)) \<and>
     (\<forall>x. hex64 (e_sha256 env x))"

lemma responsiveD:
  assumes "responsive env"
  shows "e_storage env h e = Answer ()" "e_tab env h e = Answer () \<or> (\<exists>i g. e = CloseTab i \<and> e_tab env h e = Reject g)"
    "e_recordSubmitIntent env h c s = Answer ()" "e_confirmSubmitted env h c s = Answer ()"
    "e_completeTask env h c r = Answer ()" "\<exists>i. e_open env h c = Answer i \<and> safe_integer i \<and> 0 \<le> i"
    "\<exists>a. e_collectCurrentAnswer env h j = Answer a" "e_captureEvidence env h j x \<noteq> Killed"
    "e_uploadEvidence env h c s v b d \<noteq> Killed" "\<bar>e_now env h\<bar> \<le> 8640000000000000"
    "stored_text 300 (e_randomSessionId env h)" "hex64 (e_sha256 env x)"
  using assms unfolding responsive_def by simp_all

lemma stored_simps [simp]:
  "stored env f t n (w\<lparr>w_phase := p\<rparr>) = stored env f t n w" "stored env f t n (w\<lparr>w_tab := i\<rparr>) = stored env f t n w"
  by (simp_all add: stored_def)

lemma stored_log:
  "(\<And>c i. e \<noteq> SubmitOnce c i) \<Longrightarrow> stored env f t n (log_event e h w) = stored env f t n w"
  "stored env f t n w \<Longrightarrow> bc_taskId c = t \<Longrightarrow> stored env f t (Suc n) (log_event (SubmitOnce c i) h w)"
  by (auto simp: stored_def submissions_def split: event.splits)

lemma storage_get_answers: "responsive env \<Longrightarrow> storage_get env w = (Done (w_area w), log_event StorageGet Answered w)"
  by (simp add: storage_get_def bindP_def storageP_def responsiveD)

lemma ensure_answers:
  assumes answers: "responsive env" and "stored env f t n w"
  obtains w' where "ensureJournalMigrated env w = (Done (), w')" "stored env f t n w'" "w_area w' = w_area w"
proof (cases "w_migration w")
  case None
  have "migration_plan (e_date_parse env) (w_area w) = Inr None"
    using assms(2) by (simp add: stored_def area_ok_def migration_plan_def)
  then have run: "ensureJournalMigrated env w = (Done (), (log_event StorageGet Answered w)\<lparr>w_migration := Some None\<rparr>)"
    by (simp add: ensureJournalMigrated_def None migrateLegacyJournal_def bindP_def storage_get_answers [OF answers] liftE_def returnP_def)
  show ?thesis
    by (rule that [OF run]) (use assms in \<open>simp_all add: stored_def submissions_def\<close>)
next
  case (Some m)
  then have "m = None" using assms(2) by (cases m) (auto simp: stored_def)
  with Some that assms show ?thesis by (simp add: ensureJournalMigrated_def)
qed

lemma loadJournal_total:
  assumes answers: "responsive env"
  shows "total_prog (stored env f t n) (loadJournal env) (\<lambda>j w. map_of j = f \<and> stored env f t n w) R"
proof (rule total_progI)
  fix w assume s: "stored env f t n w"
  then obtain w' where w': "ensureJournalMigrated env w = (Done (), w')" "stored env f t n w'" by (rule ensure_answers [OF answers])
  then obtain j where "journal_of_area (e_date_parse env) (w_area w') = Inr j" "map_of j = f"
    using load_journal [of "e_date_parse env" "w_area w'"] by (auto simp: stored_def)
  then show "\<exists>j w'. loadJournal env w = (Done j, w') \<and> map_of j = f \<and> stored env f t n w'"
    using w' by (simp add: loadJournal_def bindP_def storage_get_answers [OF answers] liftE_def returnP_def stored_log)
qed

lemma saveJournal_total:
  assumes answers: "responsive env" and "valid_entry (e_date_parse env) e"
  shows "total_prog (stored env f t n) (saveJournal env e) (\<lambda>_. stored env (f(j_taskId e \<mapsto> e)) t n) R"
proof (rule total_progI)
  let ?items = "[(JOURNAL_ENTRY_KEY_PREFIX @ j_taskId e, entry_json e)]"
  have v: "validateJournalEntry (e_date_parse env) (entry_json e) = Inr e" using assms(2) by (simp add: valid_entry_def)
  fix w assume s: "stored env f t n w"
  then obtain w' where w': "ensureJournalMigrated env w = (Done (), w')" "stored env f t n w'" by (rule ensure_answers [OF answers])
  have "stored env (f(j_taskId e \<mapsto> e)) t n (w'\<lparr>w_area := area_set ?items (w_area w')\<rparr>)"
    using w'(2) save_journal [OF _ v, of "w_area w'"] by (auto simp: stored_def)
  then show "\<exists>x w'. saveJournal env e w = (Done x, w') \<and> stored env (f(j_taskId e \<mapsto> e)) t n w'"
    by (simp add: saveJournal_def bindP_liftE journal_items_same [OF v] bindP_def w'(1) storage_set_def storageP_def
        responsiveD [OF answers] stored_log)
qed

lemma removeJournal_total:
  assumes answers: "responsive env" and "stored_text 200 t"
  shows "total_prog (stored env f t n) (removeJournal env t) (\<lambda>_. stored env (f(t := None)) t n) R"
proof (rule total_progI)
  have key: "journalEntryKey t = Inr (JOURNAL_ENTRY_KEY_PREFIX @ t)"
    using assms(2) by (simp add: journalEntryKey_def storage_requiredText_def stored_text_def Let_def)
  fix w assume s: "stored env f t n w"
  then obtain w' where w': "ensureJournalMigrated env w = (Done (), w')" "stored env f t n w'" by (rule ensure_answers [OF answers])
  have "stored env (f(t := None)) t n (w'\<lparr>w_area := area_remove [JOURNAL_ENTRY_KEY_PREFIX @ t] (w_area w')\<rparr>)"
    using w'(2) remove_journal [of "e_date_parse env" "w_area w'" t] by (auto simp: stored_def)
  then show "\<exists>x w'. removeJournal env t w = (Done x, w') \<and> stored env (f(t := None)) t n w'"
    by (simp add: removeJournal_def bindP_liftE key bindP_def w'(1) storage_remove_def storageP_def
        responsiveD [OF answers] stored_log)
qed

text \<open>An operation whose decision for the stored entry \<open>f t\<close> is \<open>x\<close>, to be saved when it changed.\<close>

lemma mutate_total:
  assumes answers: "responsive env" and "\<And>now. \<bar>now\<bar> \<le> 8640000000000000 \<Longrightarrow> \<exists>x c. decide now (f t) = Inr (x, c) \<and> G x \<and> j_taskId x = t \<and>
      (if c then valid_entry (e_date_parse env) x else f t = Some x)"
  shows "total_prog (stored env f t n) (mutate env t decide) (\<lambda>x w. G x \<and> j_taskId x = t \<and> stored env (f(t \<mapsto> x)) t n w) R"
proof (rule total_progI)
  fix w assume "stored env f t n w"
  then obtain j w1 where load: "loadJournal env w = (Done j, w1)" "map_of j = f" "stored env f t n w1"
    using total_progD [OF loadJournal_total [OF answers]] by blast
  let ?now = "e_now env (w_log w1)"
  obtain x c where d: "decide ?now (f t) = Inr (x, c)" "G x" "j_taskId x = t"
    "if c then valid_entry (e_date_parse env) x else f t = Some x"
    using assms(2) responsiveD(10) [OF answers] by blast
  have run: "mutate env t decide w = bindP (if c then saveJournal env x else returnP ()) (\<lambda>_. returnP x) w1"
    by (simp add: mutate_def bindP_def load historyP_def d(1) liftE_def returnP_def)
  show "\<exists>x w'. mutate env t decide w = (Done x, w') \<and> G x \<and> j_taskId x = t \<and> stored env (f(t \<mapsto> x)) t n w'"
  proof (cases c)
    case True
    then obtain w' where "saveJournal env x w1 = (Done (), w')" "stored env (f(t \<mapsto> x)) t n w'"
      using total_progD [OF saveJournal_total [OF answers] load(3)] d(3,4) by fastforce
    with True d(2,3) show ?thesis unfolding run by (simp add: bindP_def returnP_def)
  next
    case False
    then have "f(t \<mapsto> x) = f" using d(4) by auto
    with False d(2,3) load(3) show ?thesis unfolding run by (simp add: bindP_def returnP_def)
  qed
qed

subsection \<open>The steps of a run\<close>

text \<open>The task's entry is in the phase \<open>p\<close>, all other entries are those of \<open>f\<close>.\<close>

definition at_phase ::
  "environment \<Rightarrow> string \<Rightarrow> (string \<Rightarrow> task_journal_entry option) \<Rightarrow> task_journal_phase \<Rightarrow> nat \<Rightarrow> world \<Rightarrow> bool" where
  "at_phase env t f p n w \<longleftrightarrow> (\<exists>e. j_phase e = p \<and> j_taskId e = t \<and> stored env (f(t \<mapsto> e)) t n w)"

lemma at_phase_simps [simp]:
  "at_phase env t f p n (w\<lparr>w_phase := q\<rparr>) = at_phase env t f p n w"
  "at_phase env t f p n (w\<lparr>w_tab := i\<rparr>) = at_phase env t f p n w"
  by (simp_all add: at_phase_def)

lemma at_phase_log:
  "(\<And>c i. e \<noteq> SubmitOnce c i) \<Longrightarrow> at_phase env t f p n (log_event e h w) = at_phase env t f p n w"
  "at_phase env t f p n w \<Longrightarrow> bc_taskId c = t \<Longrightarrow> at_phase env t f p (Suc n) (log_event (SubmitOnce c i) h w)"
  by (auto simp: at_phase_def stored_log)

lemma stored_valid: "stored env f t n w \<Longrightarrow> f s = Some e \<Longrightarrow> valid_entry (e_date_parse env) e \<and> j_taskId e = s"
  using entry_at_valid validate_entry_json by (fastforce simp: stored_def valid_entry_def)

lemma call_total:
  assumes "responsive env" and "\<And>i. e \<noteq> CloseTab i" and "\<And>w. P w \<Longrightarrow> Q () (log_event e Answered w)"
  shows "total_prog P (call env e) Q R"
  unfolding call_def
  by (rule total_perform) (use assms(2,3) responsiveD(2) [OF assms(1), of _ e] in auto)

lemma advance_forward:
  assumes "valid_entry other e" and "q = j_phase e" and "j_taskId e = t" and "\<bar>now\<bar> \<le> 8640000000000000"
    and "q = p \<or> (q \<notin> {PhaseNeedsHuman, PhaseUploaded} \<and> p \<noteq> PhaseNeedsHuman \<and> PHASE_ORDER q < PHASE_ORDER p)"
  shows "\<exists>x c. advance_entry now p (Some e) = Inr (x, c) \<and> j_phase x = p \<and> j_taskId x = t \<and>
    (if c then valid_entry other x else Some e = Some x)"
proof (cases "q = p")
  case True
  with assms show ?thesis by (intro exI [of _ e] exI [of _ False]) (simp add: advance_entry_def requireSome_def)
next
  case False
  let ?x = "e\<lparr>j_interruptedPhase := j_interruptedPhase e, j_phase := p, j_updatedAt := to_iso now\<rparr>"
  have "valid_entry other ?x"
    by (rule valid_changed_phase) (use assms False in auto)
  moreover have "advance_entry now p (Some e) = Inr (?x, True)"
    using assms False by (auto simp: advance_entry_def requireSome_def)
  ultimately show ?thesis using assms(3) by (intro exI [of _ ?x] exI [of _ True]) simp
qed

lemma reach_total:
  assumes answers: "responsive env" and t: "t = bc_taskId claim"
    and order: "q = p \<or> (q \<notin> {PhaseNeedsHuman, PhaseUploaded} \<and> p \<noteq> PhaseNeedsHuman \<and> PHASE_ORDER q < PHASE_ORDER p)"
  shows "total_prog (at_phase env t f q n) (reach env claim p) (\<lambda>_. at_phase env t f p n) R"
proof -
  have "total_prog (at_phase env t f q n) (journal_advance env t p) (\<lambda>_. at_phase env t f p n) R"
  proof (rule total_progI)
    fix w assume "at_phase env t f q n w"
    then obtain e where e: "j_phase e = q" "j_taskId e = t" "stored env (f(t \<mapsto> e)) t n w" by (auto simp: at_phase_def)
    have "valid_entry (e_date_parse env) e" using stored_valid [OF e(3), of t e] by simp
    then have "total_prog (stored env (f(t \<mapsto> e)) t n) (journal_advance env t p)
        (\<lambda>x w. j_phase x = p \<and> j_taskId x = t \<and> stored env (f(t \<mapsto> e, t \<mapsto> x)) t n w) nothing"
      unfolding journal_advance_def
      by (intro mutate_total [OF answers]) (simp only: fun_upd_same, rule advance_forward [OF _ e(1) [symmetric] e(2) _ order])
    from total_progD [OF this e(3)]
    show "\<exists>x w'. journal_advance env t p w = (Done x, w') \<and> at_phase env t f p n w'"
      by (auto simp: at_phase_def)
  qed
  then show ?thesis unfolding reach_def t by (rule total_bind) (rule total_set_phase, simp)
qed

lemma submit_prompt_total:
  assumes answers: "responsive env" and t: "t = bc_taskId claim" and p: "p \<in> {PhaseClaimed, PhasePrepared}"
  shows "total_prog (at_phase env t f p n) (submit_prompt env claim session tab) (\<lambda>_. at_phase env t f PhaseSubmitted (Suc n)) R"
proof -
  have quiet: "total_prog (at_phase env t f q m) (call env e) (\<lambda>_. at_phase env t f q m) R"
    if "\<And>i. e \<noteq> CloseTab i" "\<And>c i. e \<noteq> SubmitOnce c i" for q m e
    by (rule call_total [OF answers that(1)]) (simp add: at_phase_log(1) [OF that(2)])
  have submit: "total_prog (at_phase env t f q m) (call env (SubmitOnce claim tab)) (\<lambda>_. at_phase env t f q (Suc m)) R" for q m
    by (rule call_total [OF answers]) (simp_all add: at_phase_log t)
  have intent: "total_prog (at_phase env t f q m)
      (perform (RecordSubmitIntent claim session) (\<lambda>h. e_recordSubmitIntent env h claim session)) (\<lambda>_. at_phase env t f q m) R" for q m
    by (rule total_perform) (auto simp: at_phase_log responsiveD [OF answers])
  have confirm: "total_prog (at_phase env t f q m) (api_confirmSubmitted env claim session) (\<lambda>_. at_phase env t f q m) R" for q m
    unfolding api_confirmSubmitted_def
    by (rule total_perform) (auto simp: at_phase_log responsiveD [OF answers])
  note calls = quiet [of "Preflight tab", simplified] quiet [of "OpenNewConversation tab", simplified]
    quiet [of "PreparePrompt tab x" for x, simplified] quiet [of "ConfirmOnPage tab x" for x, simplified]
  have reaches: "total_prog (at_phase env t f p m) (reach env claim PhasePrepared) (\<lambda>_. at_phase env t f PhasePrepared m) R"
    "total_prog (at_phase env t f PhasePrepared m) (reach env claim PhaseSubmitIntent) (\<lambda>_. at_phase env t f PhaseSubmitIntent m) R"
    "total_prog (at_phase env t f PhaseSubmitIntent m) (reach env claim PhaseSubmitted) (\<lambda>_. at_phase env t f PhaseSubmitted m) R"
    for m
    by (rule reach_total [OF answers t], use p in \<open>auto simp: PHASE_ORDER_def\<close>)+
  show ?thesis unfolding submit_prompt_def
    by (rule total_bind | rule calls intent submit confirm reaches)+
qed

text \<open>Taking a task up after its submission leads from any entry past the boundary to a submitted one.\<close>

lemma resume_decision:
  assumes "valid_entry other e" and "hasPostSubmitBoundary e" and "\<bar>now\<bar> \<le> 8640000000000000"
  shows "\<exists>x c. resume_post_entry now (Some e) = Inr (x, c) \<and> j_phase x = PhaseSubmitIntent \<and> j_taskId x = j_taskId e \<and>
    (if c then valid_entry other x else Some e = Some x)"
proof -
  let ?x = "e\<lparr>j_interruptedPhase := None, j_phase := PhaseSubmitIntent, j_updatedAt := to_iso now\<rparr>"
  have "valid_entry other ?x" by (rule valid_changed_phase) (use assms in auto)
  moreover have "resume_post_entry now (Some e) = Inr (?x, True)"
    using assms(2) by (auto simp: resume_post_entry_def hasPostSubmitBoundary_def isPostSubmitPhase_def
        split: option.splits if_splits)
  ultimately show ?thesis by (intro exI [of _ ?x] exI [of _ True]) simp
qed

lemma resume_submission_total:
  assumes answers: "responsive env" and t: "t = bc_taskId claim" and e: "f t = Some e" and post: "hasPostSubmitBoundary e"
    and session: "bc_runnerSessionId claim = Some (j_runnerSessionId e)"
  shows "total_prog (stored env f t n) (resume_submission env claim e session' tab) (\<lambda>_. at_phase env t f PhaseSubmitted n) R"
proof (rule total_fact)
  fix w assume "stored env f t n w"
  then show "valid_entry (e_date_parse env) e \<and> j_taskId e = t" using stored_valid e by blast
next
  assume v: "valid_entry (e_date_parse env) e \<and> j_taskId e = t"
  then have id: "j_runnerSessionId e \<noteq> []" by (simp add: valid_entry_iff stored_text_def)
  have resume: "total_prog (stored env f t n) (resumePostSubmit env t) (\<lambda>_. at_phase env t f PhaseSubmitIntent n) R"
  proof -
    have "total_prog (stored env f t n) (resumePostSubmit env t)
        (\<lambda>x w. j_phase x = PhaseSubmitIntent \<and> j_taskId x = t \<and> stored env (f(t \<mapsto> x)) t n w) R"
      unfolding resumePostSubmit_def
      by (intro mutate_total [OF answers]) (use resume_decision [OF _ post] v in \<open>simp only: e\<close>)
    then show ?thesis by (rule total_weaken) (auto simp: at_phase_def)
  qed
  have first: "total_prog (stored env f t n) (if j_phase e \<noteq> PhaseSubmitIntent
      then bindP (resumePostSubmit env (bc_taskId claim)) (\<lambda>_. set_phase PhaseSubmitIntent) else returnP ())
      (\<lambda>_. at_phase env t f PhaseSubmitIntent n) R"
  proof (cases "j_phase e = PhaseSubmitIntent")
    case True
    have "f(t \<mapsto> e) = f" using e by auto
    with True v show ?thesis by (auto simp: at_phase_def intro!: total_return exI [of _ e])
  next
    case False
    then show ?thesis unfolding t [symmetric] by (auto intro!: total_bind [OF resume] total_set_phase)
  qed
  have reenter: "total_prog (at_phase env t f q m) (call env (ResumeSubmitted tab x)) (\<lambda>_. at_phase env t f q m) R" for q m x
    by (rule call_total [OF answers]) (simp_all add: at_phase_log)
  have confirm: "total_prog (at_phase env t f q m) (if bc_submitConfirmed claim then returnP ()
      else api_confirmSubmitted env claim session') (\<lambda>_. at_phase env t f q m) R" for q m
    unfolding api_confirmSubmitted_def
    by (auto intro!: total_return total_perform simp: at_phase_log responsiveD [OF answers])
  have reach: "total_prog (at_phase env t f PhaseSubmitIntent m) (reach env claim PhaseSubmitted)
      (\<lambda>_. at_phase env t f PhaseSubmitted m) R" for m
    by (rule reach_total [OF answers t]) (simp add: PHASE_ORDER_def)
  have same: "\<not> (case bc_runnerSessionId claim of None \<Rightarrow> True | Some s \<Rightarrow> s = [] \<or> s \<noteq> j_runnerSessionId e)"
    by (simp add: session id)
  show ?thesis unfolding resume_submission_def if_not_P [OF same]
    by (rule total_bind | rule first reenter confirm reach)+
qed

subsection \<open>Collecting and completing\<close>

lemma upload_total:
  assumes answers: "responsive env"
  shows "total_prog (at_phase env t f q n) (attemptP (upload_evidence env claim session v b d)) (\<lambda>_. at_phase env t f q n) R"
  unfolding upload_evidence_def
  by (rule total_attempt, rule total_perform) (simp_all add: at_phase_log responsiveD [OF answers])

lemma upload_segments_total:
  assumes answers: "responsive env"
  shows "total_prog (at_phase env t f q n) (upload_segments env claim session v k i segments) (\<lambda>_. at_phase env t f q n) R"
proof (induction segments arbitrary: i)
  case (Cons s ss)
  show ?case unfolding upload_segments.simps
    by (rule total_bind [OF upload_total [OF answers] total_bind [OF Cons.IH total_return]])
qed (simp add: total_return)

definition collected :: "environment \<Rightarrow> string \<Rightarrow> (string \<Rightarrow> task_journal_entry option) \<Rightarrow> nat \<Rightarrow> world \<Rightarrow> bool" where
  "collected env t f n w \<longleftrightarrow> at_phase env t f PhaseCollected n w \<or> at_phase env t f PhaseUploaded n w"

text \<open>Whatever becomes of the evidence, the run goes on with the entry collected or uploaded.\<close>

lemma capture_total:
  assumes answers: "responsive env" and t: "t = bc_taskId claim"
  shows "total_prog (at_phase env t f PhaseCollected n)
    (tryP (capture_visual_evidence env claim session tab answer) (\<lambda>_. returnP unavailable_evidence))
    (\<lambda>_. collected env t f n) R"
proof (rule total_try)
  have shot: "total_prog (at_phase env t f q n)
      (perform (CaptureEvidence tab (bc_promptText claim)) (\<lambda>h. e_captureEvidence env h tab (bc_promptText claim)))
      (\<lambda>_. at_phase env t f q n) (\<lambda>_. at_phase env t f q n)" for q
    by (rule total_perform) (simp_all add: at_phase_log responsiveD [OF answers])
  have primary: "total_prog (at_phase env t f q n)
      (case ce_composite captured of
          None \<Rightarrow> returnP None
        | Some composite \<Rightarrow>
            if int (length (ce_segments captured)) = ce_expectedSegmentCount captured \<and>
               int (length segmentIds) = ce_expectedSegmentCount captured
            then bindP (attemptP (upload_evidence env claim session (ca_adapterVersion answer) composite PrimaryEvidence))
              (\<lambda>r. returnP (case r of Inr i \<Rightarrow> Some i | Inl _ \<Rightarrow> None))
            else returnP None) (\<lambda>_. at_phase env t f q n) E" for q captured segmentIds E
    by (auto intro!: total_return total_bind [OF upload_total [OF answers]] split: option.splits)
  have reached: "total_prog (at_phase env t f PhaseCollected n)
      (if c then reach env claim PhaseUploaded else returnP ()) (\<lambda>_. collected env t f n) E" for c E
  proof (cases c)
    case True
    have "total_prog (at_phase env t f PhaseCollected n) (reach env claim PhaseUploaded)
        (\<lambda>_. at_phase env t f PhaseUploaded n) E"
      by (rule reach_total [OF answers t]) (simp add: PHASE_ORDER_def)
    then have "total_prog (at_phase env t f PhaseCollected n) (reach env claim PhaseUploaded) (\<lambda>_. collected env t f n) E"
      by (rule total_weaken) (simp_all add: collected_def)
    with True show ?thesis by simp
  qed (simp add: total_return collected_def)
  show "total_prog (at_phase env t f PhaseCollected n) (capture_visual_evidence env claim session tab answer)
      (\<lambda>_. collected env t f n) (\<lambda>_. at_phase env t f PhaseCollected n)"
    unfolding capture_visual_evidence_def
    by (rule total_bind | rule shot upload_segments_total [OF answers] primary reached total_return | assumption)+
qed (simp add: total_return collected_def)

lemma collect_and_complete_total:
  assumes answers: "responsive env" and t: "t = bc_taskId claim" and id: "stored_text 200 t"
  shows "total_prog (at_phase env t f PhaseSubmitted n) (collect_and_complete env claim session tab)
    (\<lambda>r w. r = Succeeded \<and> stored env (f(t := None)) t n w) R"
proof -
  let ?final = "stored env (f(t := None)) t n"
  have collect: "total_prog (at_phase env t f PhaseSubmitted n) (perform (CollectCurrentAnswer tab) (\<lambda>h. e_collectCurrentAnswer env h tab))
      (\<lambda>_. at_phase env t f PhaseSubmitted n) R"
    by (rule total_perform) (use responsiveD(7) [OF answers] in \<open>auto simp: at_phase_log\<close>, metis reply.distinct(1),
        metis reply.distinct(3))
  have reach: "total_prog (at_phase env t f PhaseSubmitted n) (reach env claim PhaseCollected) (\<lambda>_. at_phase env t f PhaseCollected n) R"
    by (rule reach_total [OF answers t]) (simp add: PHASE_ORDER_def)
  have complete: "total_prog (collected env t f n) (perform (CompleteTask claim c) (\<lambda>h. e_completeTask env h claim c))
      (\<lambda>_. collected env t f n) R" for c
    by (rule total_perform) (auto simp: collected_def at_phase_log responsiveD [OF answers])
  have remove: "total_prog (collected env t f n) (attemptP (removeJournal env (bc_taskId claim))) (\<lambda>_. ?final) R"
  proof (rule total_attempt, rule total_progI)
    fix w assume "collected env t f n w"
    then obtain e where e: "stored env (f(t \<mapsto> e)) t n w" by (auto simp: collected_def at_phase_def)
    have "(f(t \<mapsto> e))(t := None) = f(t := None)" by simp
    with total_progD [OF removeJournal_total [OF answers id] e]
    show "\<exists>x w'. removeJournal env (bc_taskId claim) w = (Done x, w') \<and> ?final w'" by (simp only: t)
  qed
  have close: "total_prog ?final (attemptP (call env (CloseTab tab))) (\<lambda>_. ?final) R"
    unfolding call_def
    by (rule total_attempt, rule total_perform) (use responsiveD(2) [OF answers] in \<open>auto simp: stored_log\<close>, metis reply.distinct(3,5))
  have finish: "total_prog ?final (returnP Succeeded) (\<lambda>r w. r = Succeeded \<and> ?final w) R" by (rule total_return) simp
  show ?thesis unfolding collect_and_complete_def Let_def
    by (rule total_bind | rule collect reach capture_total [OF answers t] complete remove close finish)+
qed

subsection \<open>The run\<close>

text \<open>What a claim must bring for its entry to be stored.\<close>

definition claim_storable :: "browser_extension_claim \<Rightarrow> bool" where
  "claim_storable claim \<longleftrightarrow> stored_text 200 (bc_taskId claim) \<and> stored_text 200 (bc_batchId claim) \<and>
     stored_text 300 (bc_brandId claim) \<and> bc_surfaceTargetKey claim \<in> set BROWSER_EXTENSION_SURFACES"

text \<open>
  An entry the run can go on from: none; one of this claim before the submission; or one of this claim
  past the submission, when the claim resumes its session.
\<close>

definition takes_up :: "environment \<Rightarrow> browser_extension_claim \<Rightarrow> task_journal_entry option \<Rightarrow> bool" where
  "takes_up env claim entry \<longleftrightarrow> (case entry of None \<Rightarrow> True
     | Some e \<Rightarrow> assertMatchingJournal e claim (e_sha256 env (bc_promptText claim)) = Inr () \<and>
         (phaseAtOrAfterIntent (j_phase e) \<longrightarrow> bc_postSubmitAssist claim \<and> hasPostSubmitBoundary e \<and>
            bc_runnerSessionId claim = Some (j_runnerSessionId e)))"

lemma hex64_stored: "hex64 s \<Longrightarrow> stored_text 64 s"
proof -
  assume "hex64 s"
  have "list_all (\<lambda>c. \<not> js_space c) ''0123456789abcdef''" by code_simp
  then have solid: "\<not> js_space c" if "hex_char c" for c
    using that unfolding hex_char_def list_all_iff by blast
  have "js_trim s = s"
    by (rule js_trim_solid, rule list.pred_mono_strong [of hex_char]) (use \<open>hex64 s\<close> solid in \<open>simp_all add: hex64_def\<close>)
  then show ?thesis using \<open>hex64 s\<close> by (cases s) (simp_all add: stored_text_def hex64_def)
qed

lemma open_tab_total:
  assumes answers: "responsive env" and t: "t = bc_taskId claim" and claim: "claim_storable claim"
    and session: "stored_text 300 session" and none: "f t = None"
  shows "total_prog (stored env f t n) (open_tab env claim None session (e_sha256 env x))
    (\<lambda>_. at_phase env t f PhaseClaimed n) R"
proof (rule total_progI)
  let ?sha = "e_sha256 env x"
  fix w assume s: "stored env f t n w"
  obtain i where i: "e_open env (w_log w) claim = Answer i" "safe_integer i" "0 \<le> i"
    using responsiveD(6) [OF answers] by blast
  let ?w = "(log_event (OpenTab claim) Answered w)\<lparr>w_tab := Some i\<rparr>"
  have s': "stored env f t n ?w" using s by (simp add: stored_log)
  have new: "\<exists>e c. (if f t \<noteq> None then Inl (PlainError ''Task journal entry already exists'')
        else Inr (new_entry claim i session ?sha now, True)) = Inr (e, c) \<and> j_phase e = PhaseClaimed \<and> j_taskId e = t \<and>
      (if c then valid_entry (e_date_parse env) e else f t = Some e)" if "\<bar>now\<bar> \<le> 8640000000000000" for now
  proof -
    have "valid_entry (e_date_parse env) (new_entry claim i session ?sha now)"
      using claim i session that responsiveD(12) [OF answers]
      by (intro valid_new_entry) (auto simp: claim_storable_def hex64_stored)
    moreover have "j_phase (new_entry claim i session ?sha now) = PhaseClaimed" "j_taskId (new_entry claim i session ?sha now) = t"
      by (simp_all add: new_entry_def t)
    ultimately show ?thesis using none by auto
  qed
  have "total_prog (stored env f t n) (journal_start env claim i session ?sha)
      (\<lambda>x w. j_phase x = PhaseClaimed \<and> j_taskId x = t \<and> stored env (f(t \<mapsto> x)) t n w) nothing"
    unfolding journal_start_def t [symmetric] by (rule mutate_total [OF answers], rule new)
  from total_progD [OF this s']
  show "\<exists>tab w'. open_tab env claim None session ?sha w = (Done tab, w') \<and> at_phase env t f PhaseClaimed n w'"
    by (auto simp: open_tab_def bindP_def perform_def i set_tab_def returnP_def at_phase_def)
qed

lemma attach_total:
  assumes answers: "responsive env"
  shows "total_prog (stored env f t n) (open_tab env claim (Some e) session sha) (\<lambda>_. stored env f t n) R"
  unfolding open_tab_def option.case
  by (rule total_bind, rule call_total [OF answers, where Q = "\<lambda>_. stored env f t n"], simp, simp add: stored_log,
      rule total_bind, rule total_set_tab [where Q = "\<lambda>_. stored env f t n"], simp, rule total_return)

lemma run_body_total:
  assumes answers: "responsive env" and t: "t = bc_taskId claim" and claim: "claim_storable claim"
    and session: "stored_text 300 session" and up: "takes_up env claim (f t)"
  shows "total_prog (stored env f t n) (run_body env claim (f t) session (e_sha256 env (bc_promptText claim)))
    (\<lambda>r w. r = Succeeded \<and> stored env (f(t := None)) t
       (if \<exists>e. f t = Some e \<and> phaseAtOrAfterIntent (j_phase e) then n else Suc n) w) R"
proof -
  have id: "stored_text 200 t" using claim by (simp add: claim_storable_def t)
  show ?thesis
  proof (cases "f t")
    case None
    have "total_prog (stored env f t n) (run_body env claim None session (e_sha256 env (bc_promptText claim)))
        (\<lambda>r w. r = Succeeded \<and> stored env (f(t := None)) t (Suc n) w) R"
      unfolding run_body_def option.case
      by (rule total_bind | rule open_tab_total [where f = f, OF answers t claim session None] submit_prompt_total [OF answers t]
          collect_and_complete_total [OF answers t id] insertI1)+
    then show ?thesis by (simp add: None)
  next
    case (Some e)
    have up': "assertMatchingJournal e claim (e_sha256 env (bc_promptText claim)) = Inr ()"
      "phaseAtOrAfterIntent (j_phase e) \<Longrightarrow> bc_postSubmitAssist claim \<and> hasPostSubmitBoundary e \<and>
            bc_runnerSessionId claim = Some (j_runnerSessionId e)"
      using up Some by (simp_all add: takes_up_def)
    note attach = attach_total [OF answers]
    show ?thesis
    proof (cases "phaseAtOrAfterIntent (j_phase e)")
      case True
      with up' have post: "hasPostSubmitBoundary e" "bc_runnerSessionId claim = Some (j_runnerSessionId e)" by simp_all
      have "total_prog (stored env f t n) (run_body env claim (Some e) session (e_sha256 env (bc_promptText claim)))
          (\<lambda>r w. r = Succeeded \<and> stored env (f(t := None)) t n w) R"
        unfolding run_body_def option.case if_P [OF True]
        by (rule total_bind | rule attach resume_submission_total [where f = f, OF answers t Some post]
            collect_and_complete_total [OF answers t id])+
      with True show ?thesis by (simp add: Some)
    next
      case False
      have phase: "j_phase e \<in> {PhaseClaimed, PhasePrepared}"
        using False by (cases "j_phase e") (simp_all add: phaseAtOrAfterIntent_def)
      have entry: "stored env f t n w \<Longrightarrow> at_phase env t f (j_phase e) n w" for w
        using stored_valid [of env f t n w t e] Some by (auto simp: at_phase_def fun_upd_idem intro!: exI [of _ e])
      have submit: "total_prog (stored env f t n) (submit_prompt env claim session tab)
          (\<lambda>_. at_phase env t f PhaseSubmitted (Suc n)) R" for tab
        by (rule total_weaken [OF submit_prompt_total [OF answers t phase] entry])
      have "total_prog (stored env f t n) (run_body env claim (Some e) session (e_sha256 env (bc_promptText claim)))
          (\<lambda>r w. r = Succeeded \<and> stored env (f(t := None)) t (Suc n) w) R"
        unfolding run_body_def option.case if_not_P [OF False]
        by (rule total_bind | rule attach submit collect_and_complete_total [OF answers t id])+
      with False show ?thesis by (simp add: Some)
    qed
  qed
qed

lemma runs_total:
  assumes answers: "responsive env" and claim: "claim_storable claim" and up: "takes_up env claim (f (bc_taskId claim))"
  shows "total_prog (stored env f (bc_taskId claim) n) (runClaimedTask env claim)
    (\<lambda>r w. r = Succeeded \<and> stored env (f(bc_taskId claim := None)) (bc_taskId claim)
       (if \<exists>e. f (bc_taskId claim) = Some e \<and> phaseAtOrAfterIntent (j_phase e) then n else Suc n) w) R"
proof (rule total_progI)
  let ?t = "bc_taskId claim" and ?sha = "e_sha256 env (bc_promptText claim)"
  let ?n = "if \<exists>e. f ?t = Some e \<and> phaseAtOrAfterIntent (j_phase e) then n else Suc n"
  fix w assume "stored env f ?t n w"
  then obtain j w1 where load: "loadJournal env w = (Done j, w1)" "map_of j = f" "stored env f ?t n w1"
    using total_progD [OF loadJournal_total [OF answers]] by blast
  let ?session = "case f ?t of Some e \<Rightarrow> j_runnerSessionId e | None \<Rightarrow> e_randomSessionId env (w_log w1)"
  have session: "stored_text 300 ?session"
    using stored_valid [OF load(3)] responsiveD(11) [OF answers] by (auto simp: valid_entry_iff split: option.splits)
  have matching: "(case f ?t of None \<Rightarrow> returnP () | Some e \<Rightarrow> liftE (assertMatchingJournal e claim ?sha)) = returnP ()"
    using up by (auto simp: takes_up_def liftE_def split: option.splits)
  have allowed: "\<not> ((case f ?t of None \<Rightarrow> False | Some e \<Rightarrow> phaseAtOrAfterIntent (j_phase e)) \<and> \<not> bc_postSubmitAssist claim)"
    using up by (auto simp: takes_up_def split: option.splits)
  obtain w2 where w2: "stored env f ?t n w2"
    "runClaimedTask env claim w = tryP (run_body env claim (f ?t) ?session ?sha) (run_failed env claim (f ?t) ?session ?sha) w2"
    by (rule that [of "w1\<lparr>w_phase := case f ?t of Some e \<Rightarrow> j_phase e | None \<Rightarrow> PhaseClaimed, w_tab := None\<rparr>"])
      (use load(3) in \<open>simp_all add: runClaimedTask_def run_with_entry_def matching allowed if_not_P bindP_def load(1,2)
        returnP_def historyP_def set_phase_def set_tab_def Let_def\<close>)
  obtain w' where "run_body env claim (f ?t) ?session ?sha w2 = (Done Succeeded, w')" "stored env (f(?t := None)) ?t ?n w'"
    using total_progD [OF run_body_total [where f = f, OF answers refl claim session up] w2(1)] by blast
  then show "\<exists>r w'. runClaimedTask env claim w = (Done r, w') \<and> r = Succeeded \<and> stored env (f(?t := None)) ?t ?n w'"
    unfolding w2(2) by (simp add: tryP_def)
qed

text \<open>
  C32: A run always ends when the world around it answers. With storage, portal, page and Chrome
  answering, and evidence and the closing of the tab being refused at most, running a claimed task
  succeeds: from a task without an entry or with one from before the submission, after exactly one
  submission of its prompt; from an entry past the submission whose session the claim resumes, without
  any. Its entry is then gone from the journal, and no other entry has changed.
\<close>

theorem responsive_run_succeeds:
  assumes "responsive env" and "claim_storable claim" and "area_ok (e_date_parse env) (w_area w)"
    and "\<forall>g. w_migration w \<noteq> Some (Some g)"
    and "takes_up env claim (entry_at (e_date_parse env) (w_area w) (bc_taskId claim))"
  shows "\<exists>w'. runClaimedTask env claim w = (Done Succeeded, w') \<and>
    submissions (bc_taskId claim) (w_log w') =
      submissions (bc_taskId claim) (w_log w) + (if past_intent env (bc_taskId claim) (w_area w) then 0 else 1) \<and>
    entry_at (e_date_parse env) (w_area w') = (entry_at (e_date_parse env) (w_area w))(bc_taskId claim := None)"
proof -
  have "stored env (entry_at (e_date_parse env) (w_area w)) (bc_taskId claim) (submissions (bc_taskId claim) (w_log w)) w"
    using assms by (simp add: stored_def)
  from total_progD [OF runs_total [where f = "entry_at (e_date_parse env) (w_area w)", OF assms(1,2,5)] this] show ?thesis
    by (auto simp: stored_def past_intent_def)
qed

end
