(* ===== verification/ExtensionExample.thy ===== *)
theory ExtensionExample
  imports ExtensionLiveness
begin

text \<open>
  A paired device with one surface ready, and a portal, pages and a Chrome that answer everything; the
  portal has one task to hand out.
\<close>

definition extension_claim :: browser_extension_claim where
  "extension_claim = \<lparr>bc_taskId = ''T'', bc_batchId = ''B'', bc_brandId = ''b'', bc_scopeId = ''sc'', bc_promptId = ''p'',
     bc_promptText = ''hello'', bc_sampleIndex = 0, bc_surfaceTargetKey = ''kimi.consumer_web'',
     bc_captureRouteKey = ''r'', bc_launchUrl = ''u'', bc_automationAttemptCount = 0, bc_leaseToken = ''t'',
     bc_leaseGeneration = 1, bc_leaseExpiresAt = ''e'', bc_postSubmitAssist = False, bc_submitConfirmed = False,
     bc_runnerSessionId = None\<rparr>"

definition example_env :: environment where
  "example_env = \<lparr>e_sha256 = (\<lambda>_. replicate 64 CHR ''a''), e_date_parse = (\<lambda>_. None), e_localeCompare = (\<lambda>_ _. 0),
     e_now = (\<lambda>_. 0), e_randomSessionId = (\<lambda>_. ''s''), e_browserVersion = ''v'', e_storage = (\<lambda>_ _. Answer ()),
     e_stored_when_killed = (\<lambda>_ _. True), e_recordSubmitIntent = (\<lambda>_ _ _. Answer ()),
     e_confirmSubmitted = (\<lambda>_ _ _. Answer ()), e_uploadEvidence = (\<lambda>_ _ _ _ _ _. Answer ''a''),
     e_completeTask = (\<lambda>_ _ _. Answer ()), e_failTask = (\<lambda>_ _ _. Answer False),
     e_claimNext = (\<lambda>h _ _. Answer (if intended ''T'' h then None else Some extension_claim)),
     e_reconcileTask = (\<lambda>_ _ _. Reject (OtherError None)), e_resume = (\<lambda>_ _ _ _ _. Reject (OtherError None)),
     e_open = (\<lambda>_ _. Answer 7), e_tab = (\<lambda>_ _. Answer ()), e_resolveManualRecoveryTab = (\<lambda>_ _ _. Answer 7),
     e_collectCurrentAnswer = (\<lambda>_ _. Answer \<lparr>ca_answerText = ''x'', ca_pageUrl = ''u'', ca_observedAt = ''o'',
        ca_webSearchObserved = None, ca_queryAvailability = ''q'', ca_webQueries = [], ca_citations = [],
        ca_adapterVersion = ''av''\<rparr>),
     e_captureEvidence = (\<lambda>_ _ _. Answer \<lparr>ce_expectedSegmentCount = 1, ce_segments = [''s1''], ce_composite = Some ''c''\<rparr>),
     e_notify = (\<lambda>_ _. Answer ())\<rparr>"

definition extension_world :: world where
  "extension_world = \<lparr>w_area =
      [(DEVICE_KEY, device_json \<lparr>dc_deviceId = ''d'', dc_deviceToken = ''yrd_'' @ replicate 43 CHR ''x'',
          dc_allowedBrandIds = [''b'']\<rparr>),
       (SURFACE_READINESS_KEY, JObj [(''kimi.consumer_web'', JObj [(''status'', JStr ''ready''),
          (''adapterVersion'', JStr (CURRENT_ADAPTER_VERSIONS ''kimi.consumer_web''))])])],
     w_log = [], w_migration = None, w_pools = [], w_phase = PhaseClaimed, w_tab = None\<rparr>"

definition example_after :: world where
  "example_after = snd (runOnce example_env extension_world)"

lemma example_submits: "submissions ''T'' (w_log example_after) = 1"
  unfolding example_after_def by code_simp

lemma example_ok: "area_ok (e_date_parse example_env) (w_area extension_world)" "w_log extension_world = []"
  by code_simp+

lemma example_fences: "portal_fences_intents example_env"
  by (simp add: portal_fences_intents_def example_env_def extension_claim_def)

lemma example_reached: "(extension_step example_env)\<^sup>*\<^sup>* extension_world example_after"
  unfolding example_after_def by (rule r_into_rtranclp, rule extension_step.run_once, rule surjective_pairing)

theorem prompt_submitted_at_most_once_witness:
  "submissions ''T'' (w_log example_after) = 1 \<and> submits_after_intent (w_log example_after)"
  using prompt_submitted_at_most_once [OF example_fences example_reached example_ok] example_submits by simp

theorem stored_journal_well_typed_witness:
  "\<exists>journal. journal_of_area (e_date_parse example_env) (w_area example_after) = Inr journal"
  using stored_journal_well_typed [OF example_reached example_ok(1)] by blast

text \<open>A world that holds an interrupted task.\<close>

definition example_interrupted :: world where
  "example_interrupted = extension_world\<lparr>w_area := [(JOURNAL_ENTRY_KEY_PREFIX @ ''T'', entry_json example_entry)]\<rparr>"

lemma example_interrupted_ok:
  "area_ok (e_date_parse example_env) (w_area example_interrupted)"
  "entry_at (e_date_parse example_env) (w_area example_interrupted) (bc_taskId extension_claim) = Some example_entry"
  "phaseAtOrAfterIntent (j_phase example_entry)"
  by code_simp+

theorem journal_forbids_resubmission_witness:
  "submissions ''T'' (w_log (snd (runClaimedTask example_env extension_claim example_interrupted))) = 0"
proof -
  have "submissions ''T'' (w_log example_interrupted) = 0"
    by (simp add: example_interrupted_def extension_world_def submissions_def)
  with journal_forbids_resubmission [OF example_interrupted_ok surjective_pairing] show ?thesis by simp
qed

lemma example_succeeds: "fst (runClaimedTask example_env extension_claim extension_world) = Done Succeeded"
  by code_simp

theorem success_is_confirmed_and_completed_witness:
  "\<exists>new tab completion. w_log (snd (runClaimedTask example_env extension_claim extension_world)) = new \<and>
     subseq [(CompleteTask extension_claim completion, Answered), (CollectCurrentAnswer tab, Answered),
       (ConfirmSubmitted extension_claim (rc_runnerSessionId completion), Answered)] new"
proof -
  have "\<not> bc_submitConfirmed extension_claim" by (simp add: extension_claim_def)
  moreover have "runClaimedTask example_env extension_claim extension_world =
      (Done Succeeded, snd (runClaimedTask example_env extension_claim extension_world))"
    using example_succeeds by (metis prod.collapse)
  ultimately show ?thesis using success_is_confirmed_and_completed [OF example_ok(1)] example_ok(2) by fastforce
qed

subsection \<open>Runs that come to their end\<close>

text \<open>The claim that resumes the interrupted task in its session.\<close>

definition resumed_claim :: browser_extension_claim where
  "resumed_claim = extension_claim\<lparr>bc_postSubmitAssist := True, bc_runnerSessionId := Some ''s''\<rparr>"

lemma example_responsive: "responsive example_env"
proof -
  have "stored_text 300 ''s''" "hex64 (replicate 64 CHR ''a'')" "safe_integer 7" by code_simp+
  then show ?thesis by (simp add: responsive_def example_env_def)
qed

lemma example_claims:
  "claim_storable extension_claim" "claim_storable resumed_claim"
  "bc_taskId resumed_claim = bc_taskId extension_claim"
  "entry_at (e_date_parse example_env) (w_area extension_world) (bc_taskId extension_claim) = None"
  "hasPostSubmitBoundary example_entry" "bc_postSubmitAssist resumed_claim"
  "bc_runnerSessionId resumed_claim = Some (j_runnerSessionId example_entry)"
  "assertMatchingJournal example_entry resumed_claim (e_sha256 example_env (bc_promptText resumed_claim)) = Inr ()"
  "w_migration extension_world = None" "submissions ''T'' (w_log extension_world) = 0" "bc_taskId extension_claim = ''T''"
  by code_simp+

theorem responsive_run_succeeds_witness:
  "(\<exists>w. runClaimedTask example_env extension_claim extension_world = (Done Succeeded, w) \<and> submissions ''T'' (w_log w) = 1) \<and>
   (\<exists>w. runClaimedTask example_env resumed_claim example_interrupted = (Done Succeeded, w) \<and> submissions ''T'' (w_log w) = 0)"
proof
  have "takes_up example_env extension_claim
      (entry_at (e_date_parse example_env) (w_area extension_world) (bc_taskId extension_claim))"
    "\<not> past_intent example_env (bc_taskId extension_claim) (w_area extension_world)"
    by (simp_all add: example_claims(4) takes_up_def past_intent_def)
  from responsive_run_succeeds [OF example_responsive example_claims(1) example_ok(1) _ this(1)] this(2)
  show "\<exists>w. runClaimedTask example_env extension_claim extension_world = (Done Succeeded, w) \<and> submissions ''T'' (w_log w) = 1"
    by (auto simp: example_claims(9-11))
  have entry: "entry_at (e_date_parse example_env) (w_area example_interrupted) (bc_taskId resumed_claim) = Some example_entry"
    using example_interrupted_ok(2) by (simp add: example_claims(3))
  then have "takes_up example_env resumed_claim
      (entry_at (e_date_parse example_env) (w_area example_interrupted) (bc_taskId resumed_claim))"
    "past_intent example_env (bc_taskId resumed_claim) (w_area example_interrupted)"
    using example_claims(5-8) example_interrupted_ok(3) by (simp_all add: takes_up_def past_intent_def)
  moreover have "\<forall>g. w_migration example_interrupted \<noteq> Some (Some g)" "submissions ''T'' (w_log example_interrupted) = 0"
    by (simp_all add: example_interrupted_def example_claims(9,10))
  ultimately show "\<exists>w. runClaimedTask example_env resumed_claim example_interrupted = (Done Succeeded, w) \<and> submissions ''T'' (w_log w) = 0"
    using responsive_run_succeeds [OF example_responsive example_claims(2) example_interrupted_ok(1)]
    by (auto simp: example_claims(3,11))
qed

end
