(* ===== verification/PortalExample.thy ===== *)
theory PortalExample
  imports EndToEnd ExtensionExample
begin

text \<open>
  A portal with one queued task, that hands it to the extension and accepts its intent, and the concrete
  instances of the theorems on the portal and on the extension together. The portal answers nothing
  else that those theorems speak of.
\<close>


definition portal_runner :: runner_principal where
  "portal_runner = \<lparr>bp_kind = ExtensionPrincipal, bp_id = ''r'', bp_market = ''CN'', bp_locale = ''zh-CN'',
     bp_timezone = ''Asia/Shanghai'', bp_allowedBrandIds = [''b''], bp_supportedSurfaces = [''kimi.consumer_web''],
     bp_readySurfaces = [''kimi.consumer_web'']\<rparr>"

definition portal_task :: delivery_task where
  "portal_task = example_queued\<lparr>pl_sessionRequirement := SessionDedicatedProfile,
     pl_searchRequirement := SearchPlatformDefault\<rparr>"

definition portal_queued :: database where
  "portal_queued = database_with (example_batch\<lparr>b_plannedTaskCount := 1\<rparr>) [portal_task]"

definition portal_token :: string where
  "portal_token = replicate 43 CHR ''t''"

definition portal_settings :: snapshot_settings where
  "portal_settings = \<lparr>ss_enabled = None, ss_storageRoot = None, ss_statfs = (\<lambda>_. None)\<rparr>"

definition kimi_request :: "string \<Rightarrow> claim_request" where
  "kimi_request brand = \<lparr>cq_brandId = brand, cq_batchId = None,
     cq_adapterVersion = Some (CURRENT_ADAPTER_VERSIONS ''kimi.consumer_web''), cq_surfaceTargetKeys = Some [''kimi.consumer_web'']\<rparr>"

definition portal_claim :: "database \<times> (portal_error + claim_response option) option" where
  "portal_claim = claimRunnerTask example_sha (\<lambda>_. None) (\<lambda>_. example_start) (\<lambda>_. example_start) example_start (\<lambda>_. False)
     portal_token example_start example_start portal_settings (kimi_request ''b'') portal_runner portal_queued"

definition portal_claimed_task :: delivery_task where
  "portal_claimed_task = portal_task\<lparr>t_status := TaskClaimed, t_automationStatus := Some AutoRunning,
     t_automationAttemptCount := 1, t_claimedBy := Some ''browser-runner:r'',
     t_leaseTokenHash := Some (example_sha portal_token), t_leaseGeneration := 1,
     t_leaseExpiresAt := Some (example_start + 900000), t_claimCount := 1, t_claimedAt := Some example_start\<rparr>"

definition portal_claimed :: database where
  "portal_claimed = database_with (example_batch\<lparr>b_plannedTaskCount := 1\<rparr>) [portal_claimed_task]"

definition portal_intended :: database where
  "portal_intended = database_with (example_batch\<lparr>b_plannedTaskCount := 1\<rparr>)
     [portal_claimed_task\<lparr>t_runnerSessionId := Some ''s'', t_submitIntentAt := Some example_start\<rparr>]"

definition served_task :: browser_extension_claim where
  "served_task = \<lparr>bc_taskId = ''d'', bc_batchId = ''B'', bc_brandId = ''b'', bc_scopeId = ''s'', bc_promptId = ''d'',
     bc_promptText = ''which'', bc_sampleIndex = 1, bc_surfaceTargetKey = ''kimi.consumer_web'',
     bc_captureRouteKey = ''browser_extension.kimi'', bc_launchUrl = ''https://www.kimi.com/'',
     bc_automationAttemptCount = 1, bc_leaseToken = replicate 43 CHR ''t'', bc_leaseGeneration = 1,
     bc_leaseExpiresAt = ''2026-08-22T01:15:00.000Z'', bc_postSubmitAssist = False, bc_submitConfirmed = False,
     bc_runnerSessionId = None\<rparr>"

definition served_response :: claim_response where
  "served_response =
     \<lparr>rs_task = \<lparr>rt_id = ''d'', rt_batchId = ''B'', rt_brandId = ''b'', rt_scopeId = ''s'', rt_promptId = ''d'',
        rt_promptText = ''which'', rt_surfaceTargetKey = ''kimi.consumer_web'',
        rt_captureRouteKey = ''browser_extension.kimi'', rt_sampleIndex = 1,
        rt_sessionRequirement = SessionDedicatedProfile, rt_searchRequirement = SearchPlatformDefault,
        rt_evaluationRole = RoleScored, rt_timezone = ''Asia/Shanghai'', rt_market = ''CN'', rt_locale = ''zh-CN'',
        rt_launchUrl = ''https://www.kimi.com/'', rt_minimumEvidenceArtifacts = 1, rt_automationAttemptCount = 1\<rparr>,
      rs_leaseToken = replicate 43 CHR ''t'', rs_leaseGeneration = 1, rs_leaseExpiresAt = ''2026-08-22T01:15:00.000Z'',
      rs_postSubmitAssist = False, rs_submitConfirmed = False, rs_runnerSessionId = None\<rparr>"

definition served_lease :: session_lease_request where
  "served_lease = \<lparr>lq_brandId = ''b'', lq_leaseToken = replicate 43 CHR ''t'', lq_leaseGeneration = 1,
     lq_adapterVersion = Some (CURRENT_ADAPTER_VERSIONS ''kimi.consumer_web''), lq_runnerSessionId = ''s''\<rparr>"

definition portal_intent :: "database \<times> (portal_error + string option \<times> int option)" where
  "portal_intent = intent_operation example_sha example_start ''d'' served_lease portal_runner portal_claimed"

definition claim_seen :: "history \<Rightarrow> bool" where
  "claim_seen h = list_ex (\<lambda>(e, x). case e of ClaimNext _ _ \<Rightarrow> True | _ \<Rightarrow> False) h"

definition intent_seen :: "history \<Rightarrow> bool" where
  "intent_seen h = list_ex (\<lambda>(e, x). case e of RecordSubmitIntent _ _ \<Rightarrow> x = Answered | _ \<Rightarrow> False) h"

definition served_env :: environment where
  "served_env = example_env
     \<lparr>e_claimNext := (\<lambda>h b s. Answer (if b = ''b'' \<and> s = ''kimi.consumer_web'' \<and> \<not> claim_seen h then Some served_task else None)),
      e_recordSubmitIntent := (\<lambda>h c s. if c = served_task \<and> s = ''s'' \<and> claim_seen h \<and> \<not> intent_seen h then Answer ()
        else Reject (OtherError None))\<rparr>"

definition served_database :: "history \<Rightarrow> database" where
  "served_database h = (if intent_seen h then portal_intended else if claim_seen h then portal_claimed else portal_queued)"

definition served_reconciliation :: reconciliation_response where
  "served_reconciliation =
     \<lparr>rr_state = RecResumablePost, rr_taskId = ''d'', rr_batchId = ''B'', rr_brandId = ''b'',
      rr_surfaceTargetKey = ''kimi.consumer_web'', rr_promptText = ''which'', rr_runnerSessionId = Some ''s''\<rparr>"

text \<open>The extension asks for the task after the lease of its submission ran out.\<close>

definition portal_reconciliation :: "database \<times> (portal_error + reconciliation_response)" where
  "portal_reconciliation = reconcileRunnerTask (example_start + 900001) (example_start + 900001) (example_start + 900001)
     ''d'' ''b'' portal_runner portal_intended"

lemma portal_reconciles: "snd portal_reconciliation = Inr served_reconciliation"
  by code_simp

lemma portal_queued_ok: "db_ok portal_queued"
  by code_simp

lemma portal_claims: "portal_claim = (portal_claimed, Some (Inr (Some served_response)))"
  by code_simp

lemma served_task_read:
  "parse_claim_answer (\<lambda>_. None) (claim_answer_json (Some served_response) QueueWaiting) ''kimi.consumer_web'' = Inr (Some served_task)"
  by code_simp

lemma portal_intended_ok: "db_ok portal_intended"
  by code_simp

lemma received_served: "received_claim served_response = served_task"
  by code_simp

lemma served_readable:
  "standard_task (rs_task served_response)" "readable 500 portal_token" "safe_int (rs_leaseGeneration served_response)"
  "readable 200 ''d''" "readable 300 ''b''" "readable 200 (rr_batchId served_reconciliation)"
  "readable 20000 (rr_promptText served_reconciliation)"
  "case rr_runnerSessionId served_reconciliation of None \<Rightarrow> True | Some s \<Rightarrow> readable 300 s"
  by code_simp+

lemma served_plain:
  "isBrowserExtensionSurface (bc_surfaceTargetKey served_task)" "plain_text 300 (bc_brandId served_task)"
  "32 \<le> length (bc_leaseToken served_task)" "length (bc_leaseToken served_task) \<le> 500"
  "safe_int (bc_leaseGeneration served_task)" "1 \<le> bc_leaseGeneration served_task" "plain_text 300 ''s''"
  "plain_text 100 ''answer_timeout''" "plain_text 1000 ''no answer''"
  by code_simp+

subsection \<open>The messages between portal and extension\<close>


theorem portal_reconciliations_are_accepted_witness:
  "parseTaskReconciliation (reconciliation_json served_reconciliation) ''d'' ''b'' = Inr
    \<lparr>tr_state = reconciliation_of (rr_state served_reconciliation), tr_taskId = ''d'',
     tr_batchId = rr_batchId served_reconciliation, tr_brandId = ''b'',
     tr_surfaceTargetKey = rr_surfaceTargetKey served_reconciliation,
     tr_promptText = rr_promptText served_reconciliation,
     tr_runnerSessionId = rr_runnerSessionId served_reconciliation\<rparr>"
proof -
  have run: "reconcileRunnerTask (example_start + 900001) (example_start + 900001) (example_start + 900001)
      ''d'' ''b'' portal_runner portal_intended = (fst portal_reconciliation, Inr served_reconciliation)"
    using portal_reconciles by (simp add: portal_reconciliation_def prod_eq_iff)
  show ?thesis
    by (rule portal_reconciliations_are_accepted [OF run portal_intended_ok _ served_readable(4-8)])
      (simp add: portal_runner_def)
qed

theorem extension_requests_are_accepted_witness:
  "browserRunnerSessionLeaseSchema (submit_body served_task ''s'') = Some served_lease \<and>
   \<not> version_denied portal_runner (kimi_request ''b'')"
  using extension_requests_are_accepted
    [OF served_plain(1-7), of "\<lparr>rf_stage = PostSubmit, rf_code = ''answer_timeout'', rf_reason = ''no answer''\<rparr>"
      portal_runner PreSubmit] served_plain(8-9)
  by (simp add: Let_def served_task_def served_lease_def kimi_request_def lease_request.defs session_lease_request.defs)

subsection \<open>An extension that the portal serves\<close>

lemma portal_claim_step: "program_step example_sha (\<lambda>_. None) code_unit_compare portal_queued portal_claimed"
  using claimRunnerTask_Some [OF portal_claims [unfolded portal_claim_def]] by (metis program_step.runner_claim)

lemma portal_intends: "portal_intent = (portal_intended, Inr (Some ''s'', Some example_start))"
  by code_simp

lemma portal_intent_step: "program_step example_sha (\<lambda>_. None) code_unit_compare portal_claimed portal_intended"
proof -
  have "markBrowserRunnerSubmitIntent example_sha example_start (runner_proof ''d'' served_lease portal_runner) ''s'' portal_claimed =
      Inr (portal_intended, Some ''s'', Some example_start)"
    using portal_intends
    by (auto simp: portal_intent_def intent_operation_def recordRunnerSubmitIntent_def bindE_Inr_iff served_lease_def
        split: sum.splits)
  then show ?thesis by (rule program_step.intent)
qed

lemma served_schemas:
  "browserRunnerClaimSchema (claimNext_body ''b'' ''kimi.consumer_web'') = Some (kimi_request ''b'')"
  "browserRunnerSessionLeaseSchema (submit_body served_task ''s'') = Some served_lease" "bc_taskId served_task = ''d''"
  by code_simp+

lemma claim_precedes_intent: "genuine served_env h \<Longrightarrow> intent_seen h \<Longrightarrow> claim_seen h"
proof (induction h)
  case (Cons a h)
  obtain e x where a: "a = (e, x)" by (cases a)
  show ?case
  proof (cases "intent_seen h")
    case True
    then show ?thesis using Cons a genuine_tail by (auto simp: claim_seen_def)
  next
    case False
    then obtain c s where "e = RecordSubmitIntent c s" "x = Answered"
      using Cons.prems(2) by (cases e) (auto simp: a intent_seen_def)
    then show ?thesis using Cons.prems(1) by (auto simp: a genuine.simps served_env_def claim_seen_def split: if_splits)
  qed
qed (simp add: intent_seen_def)

lemma served_database_step:
  assumes "genuine served_env ((e, x) # h)"
  shows "(program_step example_sha (\<lambda>_. None) code_unit_compare)\<^sup>*\<^sup>* (served_database h) (served_database ((e, x) # h))"
proof (cases "intent_seen h")
  case True
  then show ?thesis by (simp add: served_database_def intent_seen_def)
next
  case new: False
  show ?thesis
  proof (cases "intent_seen ((e, x) # h)")
    case True
    then obtain c s where "e = RecordSubmitIntent c s" "x = Answered"
      using new by (cases e) (auto simp: intent_seen_def)
    then have "claim_seen h" using assms by (auto simp: genuine.simps served_env_def split: if_splits)
    then show ?thesis using new True portal_intent_step by (simp add: served_database_def)
  next
    case False
    then show ?thesis using new portal_claim_step by (auto simp: served_database_def claim_seen_def)
  qed
qed

lemma example_portal_serves:
  "portal_serves example_sha (\<lambda>_. None) code_unit_compare portal_runner served_database served_env"
  unfolding portal_serves_def Let_def
proof (intro conjI allI impI)
  show "db_ok (served_database [])"
    using portal_queued_ok by (simp add: served_database_def intent_seen_def claim_seen_def)
next
  fix e x h
  assume "genuine served_env ((e, x) # h)"
  then show "(program_step example_sha (\<lambda>_. None) code_unit_compare)\<^sup>*\<^sup>* (served_database h) (served_database ((e, x) # h))"
    by (rule served_database_step)
next
  fix c s h
  assume "e_recordSubmitIntent served_env h c s = Answer ()"
  then have h: "c = served_task" "s = ''s''" "claim_seen h" "\<not> intent_seen h"
    by (auto simp: served_env_def split: if_splits)
  have "answered (program_step example_sha (\<lambda>_. None) code_unit_compare)
      (intent_operation example_sha example_start (bc_taskId c) served_lease portal_runner)
      (served_database h) (served_database ((RecordSubmitIntent c s, Answered) # h)) (Inr (Some ''s'', Some example_start))"
    unfolding answered_def
    using h served_schemas(3) portal_intends
    by (intro exI [of _ portal_claimed] exI [of _ portal_intended])
      (simp add: served_database_def intent_seen_def portal_intent_def)
  then show "\<exists>now input r. browserRunnerSessionLeaseSchema (submit_body c s) = Some input \<and>
      answered (program_step example_sha (\<lambda>_. None) code_unit_compare)
        (intent_operation example_sha now (bc_taskId c) input portal_runner)
        (served_database h) (served_database ((RecordSubmitIntent c s, Answered) # h)) (Inr r)"
    using served_schemas(2) h by blast
next
  fix brand surface c h
  assume g: "genuine served_env h" and a: "e_claimNext served_env h brand surface = Answer (Some c)"
  have h: "c = served_task" "brand = ''b''" "surface = ''kimi.consumer_web''" "\<not> claim_seen h"
    using a by (auto simp: served_env_def split: if_splits)
  then have "\<not> intent_seen h" using claim_precedes_intent [OF g] by blast
  then have "answered (program_step example_sha (\<lambda>_. None) code_unit_compare)
      (claimRunnerTask example_sha (\<lambda>_. None) (\<lambda>_. example_start) (\<lambda>_. example_start) example_start (\<lambda>_. False)
        portal_token example_start example_start portal_settings (kimi_request ''b'') portal_runner)
      (served_database h) (served_database ((ClaimNext brand surface, Answered) # h)) (Some (Inr (Some served_response)))"
    unfolding answered_def
    using h portal_claims
    by (intro exI [of _ portal_queued] exI [of _ portal_claimed])
      (simp add: served_database_def intent_seen_def claim_seen_def portal_claim_def)
  then show "\<exists>ec clock now locked token f g settings input q r.
      browserRunnerClaimSchema (claimNext_body brand surface) = Some input \<and>
      answered (program_step example_sha (\<lambda>_. None) code_unit_compare)
        (claimRunnerTask example_sha (\<lambda>_. None) ec clock now locked token f g settings input portal_runner)
        (served_database h) (served_database ((ClaimNext brand surface, Answered) # h)) (Some (Inr (Some r))) \<and>
      parse_claim_answer (\<lambda>_. None) (claim_answer_json (Some r) q) surface = Inr (Some c)"
    using served_schemas(1) served_task_read h by blast
qed (simp add: served_env_def example_env_def)

definition served_after :: world where
  "served_after = snd (runOnce served_env extension_world)"

lemma served_submits: "submissions ''d'' (w_log served_after) = 1"
  unfolding served_after_def by code_simp

theorem served_extension_submits_once_witness:
  "submissions ''d'' (w_log served_after) = 1 \<and>
   (\<exists>t \<in> set (d_tasks (served_database (w_log served_after))). t_id t = ''d'' \<and> t_submitIntentAt t \<noteq> None)"
proof -
  have "(extension_step served_env)\<^sup>*\<^sup>* extension_world served_after"
    unfolding served_after_def by (rule r_into_rtranclp, rule extension_step.run_once, rule surjective_pairing)
  moreover have "e_date_parse served_env = e_date_parse example_env" by (simp add: served_env_def)
  ultimately show ?thesis
    using served_extension_submits_once [OF example_portal_serves, of extension_world served_after "''d''"] example_ok
      served_submits by simp
qed

end
