(* ===== verification/Devices.thy ===== *)
theory Devices
  imports ExtensionStorage
begin

text \<open>
  The registry of the browsers that run the extension (\<open>packages/lib/src/db/browser-runner-devices.ts\<close>
  over the tables \<open>browser_runner_devices\<close>, \<open>browser_runner_device_brands\<close> and
  \<open>browser_runner_pairings\<close> of \<open>schema.ts\<close>): an administrator creates a pairing code for a brand, a
  browser exchanges it once, within its lifetime, for a device token, reports heartbeats under it, and
  can be revoked.

  Every operation is one atomic transaction. The random ids and texts it draws, its clock and the hash
  are parameters; the hash of a text is what \<open>sha256(...).digest("hex")\<close> writes.
\<close>

subsection \<open>Rows and constraints\<close>

text \<open>An error of the registry's own class, or one that the database raises.\<close>

datatype device_error = DeviceError string | RegistryDatabaseError

record device_row =
  dv_id :: string
  dv_displayName :: string
  dv_tokenHash :: string
  dv_extensionVersion :: string
  dv_browserFamily :: string
  dv_browserVersion :: string
  dv_platform :: string
  dv_supportedSurfaces :: "string list"
  dv_readiness :: "(string \<times> surface_readiness) list"
  dv_lastSeenAt :: "int option"
  dv_revokedAt :: "int option"
  dv_createdBy :: string
  dv_createdAt :: int
  dv_updatedAt :: int

record brand_assignment =
  ba_deviceId :: string
  ba_brandId :: string
  ba_assignedBy :: string
  ba_createdAt :: int

record pairing_row =
  pg_id :: string
  pg_codeHash :: string
  pg_displayName :: string
  pg_brandId :: string
  pg_createdBy :: string
  pg_expiresAt :: int
  pg_consumedAt :: "int option"
  pg_deviceId :: "string option"
  pg_createdAt :: int

text \<open>The three tables, and the ids of the brands their foreign keys refer to.\<close>

record registry =
  rg_brands :: "string list"
  rg_pairings :: "pairing_row list"
  rg_devices :: "device_row list"
  rg_assignments :: "brand_assignment list"

definition PAIRING_LIFETIME_MS :: int where
  "PAIRING_LIFETIME_MS = 15 * 60 * 1000"

definition SURFACE_ARRAY :: "string list" where
  "SURFACE_ARRAY = [''doubao.consumer_web'', ''deepseek.consumer_web'', ''qwen.consumer_web'', ''kimi.consumer_web'',
     ''wenxin.consumer_web'', ''yuanbao.consumer_web'', ''zhipu.consumer_web'']"

definition device_row_ok :: "device_row \<Rightarrow> bool" where
  "device_row_ok d \<longleftrightarrow>
     1 \<le> length (dv_displayName d) \<and> length (dv_displayName d) \<le> 100 \<and> hex64 (dv_tokenHash d) \<and>
     dv_browserFamily d = ''chrome'' \<and> List.member [''windows'', ''macos''] (dv_platform d) \<and>
     1 \<le> length (dv_supportedSurfaces d) \<and> length (dv_supportedSurfaces d) \<le> 7 \<and>
     list_all (List.member SURFACE_ARRAY) (dv_supportedSurfaces d)"

definition pairing_row_ok :: "pairing_row \<Rightarrow> bool" where
  "pairing_row_ok p \<longleftrightarrow>
     1 \<le> length (pg_displayName p) \<and> length (pg_displayName p) \<le> 100 \<and> hex64 (pg_codeHash p) \<and>
     pg_createdAt p < pg_expiresAt p \<and> pg_expiresAt p \<le> pg_createdAt p + 15 * 60 * 1000 \<and>
     ((pg_consumedAt p = None \<and> pg_deviceId p = None) \<or> (pg_consumedAt p \<noteq> None \<and> pg_deviceId p \<noteq> None))"

text \<open>The foreign keys of a pairing.\<close>

definition pairing_refs_ok :: "registry \<Rightarrow> pairing_row \<Rightarrow> bool" where
  "pairing_refs_ok reg p \<longleftrightarrow>
     List.member (rg_brands reg) (pg_brandId p) \<and>
     (case pg_deviceId p of None \<Rightarrow> True | Some i \<Rightarrow> list_ex (\<lambda>d. dv_id d = i) (rg_devices reg))"

subsection \<open>Statements\<close>

definition insert_pairing :: "registry \<Rightarrow> pairing_row \<Rightarrow> device_error + registry" where
  "insert_pairing reg p =
     (if pairing_row_ok p \<and> pairing_refs_ok reg p \<and>
        \<not> list_ex (\<lambda>q. pg_id q = pg_id p \<or> pg_codeHash q = pg_codeHash p) (rg_pairings reg)
      then Inr (reg\<lparr>rg_pairings := rg_pairings reg @ [p]\<rparr>) else Inl RegistryDatabaseError)"

definition insert_device :: "registry \<Rightarrow> device_row \<Rightarrow> device_error + registry" where
  "insert_device reg d =
     (if device_row_ok d \<and> \<not> list_ex (\<lambda>e. dv_id e = dv_id d \<or> dv_tokenHash e = dv_tokenHash d) (rg_devices reg)
      then Inr (reg\<lparr>rg_devices := rg_devices reg @ [d]\<rparr>) else Inl RegistryDatabaseError)"

definition insert_assignment :: "registry \<Rightarrow> brand_assignment \<Rightarrow> device_error + registry" where
  "insert_assignment reg a =
     (if list_ex (\<lambda>d. dv_id d = ba_deviceId a) (rg_devices reg) \<and> List.member (rg_brands reg) (ba_brandId a) \<and>
        \<not> list_ex (\<lambda>b. ba_deviceId b = ba_deviceId a \<and> ba_brandId b = ba_brandId a) (rg_assignments reg)
      then Inr (reg\<lparr>rg_assignments := rg_assignments reg @ [a]\<rparr>) else Inl RegistryDatabaseError)"

text \<open>An update of the registry never writes a key, an id or a hash.\<close>

definition device_update_allowed :: "registry \<Rightarrow> device_row \<Rightarrow> device_row \<Rightarrow> bool" where
  "device_update_allowed reg old new \<longleftrightarrow>
     device_row_ok new \<and> dv_id new = dv_id old \<and> dv_tokenHash new = dv_tokenHash old"

definition pairing_update_allowed :: "registry \<Rightarrow> pairing_row \<Rightarrow> pairing_row \<Rightarrow> bool" where
  "pairing_update_allowed reg old new \<longleftrightarrow>
     pairing_row_ok new \<and> pairing_refs_ok reg new \<and> pg_id new = pg_id old \<and> pg_codeHash new = pg_codeHash old"

definition update_devices ::
  "registry \<Rightarrow> (device_row \<Rightarrow> bool) \<Rightarrow> (device_row \<Rightarrow> device_row) \<Rightarrow> device_error + registry \<times> device_row list" where
  "update_devices reg p f =
     (if list_all (\<lambda>d. p d \<longrightarrow> device_update_allowed reg d (f d)) (rg_devices reg)
      then Inr (reg\<lparr>rg_devices := set_where p f (rg_devices reg)\<rparr>, map f (filter p (rg_devices reg)))
      else Inl RegistryDatabaseError)"

definition update_pairings ::
  "registry \<Rightarrow> (pairing_row \<Rightarrow> bool) \<Rightarrow> (pairing_row \<Rightarrow> pairing_row) \<Rightarrow> device_error + registry \<times> pairing_row list" where
  "update_pairings reg p f =
     (if list_all (\<lambda>r. p r \<longrightarrow> pairing_update_allowed reg r (f r)) (rg_pairings reg)
      then Inr (reg\<lparr>rg_pairings := set_where p f (rg_pairings reg)\<rparr>, map f (filter p (rg_pairings reg)))
      else Inl RegistryDatabaseError)"

interpretation device_table: guarded_table rg_devices dv_id device_update_allowed update_devices
  by unfold_locales (auto simp: update_devices_def list_all_iff split: if_splits)

interpretation pairing_table: guarded_table rg_pairings pg_id pairing_update_allowed update_pairings
  by unfold_locales (auto simp: update_pairings_def list_all_iff split: if_splits)

subsection \<open>Heartbeats\<close>

text \<open>A heartbeat as it arrives, and a validated one.\<close>

record device_heartbeat =
  hb_extensionVersion :: string
  hb_browserFamily :: string
  hb_browserVersion :: string
  hb_platform :: string
  hb_supportedSurfaces :: "string list"
  hb_readiness :: json

record validated_heartbeat =
  vh_extensionVersion :: string
  vh_browserFamily :: string
  vh_browserVersion :: string
  vh_platform :: string
  vh_supportedSurfaces :: "string list"
  vh_readiness :: "(string \<times> surface_readiness) list"

definition boundedText :: "json option \<Rightarrow> string \<Rightarrow> nat \<Rightarrow> device_error + string" where
  "boundedText value name maximum =
     (case value of
        Some (JStr s) \<Rightarrow>
          let normalized = js_trim s in
          if length normalized < 1 \<or> length normalized > maximum
          then Inl (DeviceError (name @ '' must contain between 1 and '' @ nat_dec maximum @ '' characters''))
          else Inr normalized
      | _ \<Rightarrow> Inl (DeviceError (name @ '' is required'')))"

definition identifier_start :: "char \<Rightarrow> bool" where
  "identifier_start c \<longleftrightarrow> (CHR ''0'' \<le> c \<and> c \<le> CHR ''9'') \<or> (CHR ''A'' \<le> c \<and> c \<le> CHR ''Z'') \<or>
     (CHR ''a'' \<le> c \<and> c \<le> CHR ''z'')"

text \<open>The regular expression \<open>^[0-9A-Za-z][0-9A-Za-z._-]*$\<close>.\<close>

definition identifier_text :: "string \<Rightarrow> bool" where
  "identifier_text s \<longleftrightarrow>
     (case s of [] \<Rightarrow> False
      | c # rest \<Rightarrow> identifier_start c \<and> list_all (\<lambda>c. identifier_start c \<or> List.member ''._-'' c) rest)"

definition boundedIdentifier :: "json option \<Rightarrow> string \<Rightarrow> nat \<Rightarrow> device_error + string" where
  "boundedIdentifier value name maximum =
     bindE (boundedText value name maximum) (\<lambda>normalized.
     if \<not> identifier_text normalized then Inl (DeviceError (name @ '' contains unsupported characters''))
     else Inr normalized)"

fun declare_surfaces :: "string list \<Rightarrow> string list \<Rightarrow> device_error + string list" where
  "declare_surfaces supportedSurfaces [] = Inr supportedSurfaces"
| "declare_surfaces supportedSurfaces (surface # rest) =
     (if \<not> isBrowserExtensionSurface surface then Inl (DeviceError (''Unsupported surface '' @ surface))
      else if List.member supportedSurfaces surface
      then Inl (DeviceError (''Supported surface '' @ surface @ '' was declared more than once''))
      else declare_surfaces (supportedSurfaces @ [surface]) rest)"

definition validate_state :: "string \<Rightarrow> json \<Rightarrow> device_error + surface_readiness" where
  "validate_state surface rawReadiness =
     (case rawReadiness of
        JObj fs \<Rightarrow>
          bindE (requireSome (DeviceError (''Readiness for '' @ surface @ '' has an unsupported status''))
            (case field fs ''status'' of
               Some (JStr s) \<Rightarrow> find (\<lambda>r. readiness_text r = s) READINESS_STATUSES | _ \<Rightarrow> None)) (\<lambda>status.
          bindE (requireSome (DeviceError (''Readiness concurrency for '' @ surface @ '' must be between 0 and 10''))
            (case field fs ''activeConcurrency'' of
               Some (JNum n) \<Rightarrow> if 0 \<le> n \<and> n \<le> 10 then Some n else None | _ \<Rightarrow> None)) (\<lambda>activeConcurrency.
          bindE (boundedIdentifier (field fs ''adapterVersion'') (''readiness.'' @ surface @ ''.adapterVersion'') 100)
            (\<lambda>adapterVersion.
          Inr \<lparr>sr_status = status, sr_adapterVersion = adapterVersion, sr_activeConcurrency = activeConcurrency\<rparr>)))
      | _ \<Rightarrow> Inl (DeviceError (''Readiness for '' @ surface @ '' must be an object'')))"

text \<open>The keys of the readiness object are distinct, as those of every object.\<close>

definition validate_readiness ::
  "string list \<Rightarrow> json \<Rightarrow> device_error + (string \<times> surface_readiness) list" where
  "validate_readiness supportedSurfaces readiness =
     (case readiness of
        JObj fs \<Rightarrow>
          mapE (\<lambda>(surface, rawReadiness).
            if \<not> isBrowserExtensionSurface surface
            then Inl (DeviceError (''Unsupported readiness surface '' @ surface))
            else if \<not> List.member supportedSurfaces surface
            then Inl (DeviceError (''Readiness surface '' @ surface @ '' was not declared by this device''))
            else bindE (validate_state surface rawReadiness) (\<lambda>state. Inr (surface, state))) fs
      | _ \<Rightarrow> Inl (DeviceError ''Device readiness must be an object''))"

definition validateDeviceHeartbeat :: "device_heartbeat \<Rightarrow> device_error + validated_heartbeat" where
  "validateDeviceHeartbeat input =
     bindE (boundedIdentifier (Some (JStr (hb_extensionVersion input))) ''extensionVersion'' 50) (\<lambda>extensionVersion.
     if hb_browserFamily input \<noteq> ''chrome'' then Inl (DeviceError ''Browser Runner devices must use Chrome'')
     else
     bindE (boundedIdentifier (Some (JStr (hb_browserVersion input))) ''browserVersion'' 100) (\<lambda>browserVersion.
     if hb_platform input \<noteq> ''windows'' \<and> hb_platform input \<noteq> ''macos''
     then Inl (DeviceError ''Browser Runner devices must use Windows or macOS'')
     else if length (hb_supportedSurfaces input) < 1 \<or>
       length (hb_supportedSurfaces input) > length BROWSER_EXTENSION_SURFACES
     then Inl (DeviceError (''Browser Runner devices must declare between one and '' @
       nat_dec (length BROWSER_EXTENSION_SURFACES) @ '' supported surfaces''))
     else
     bindE (declare_surfaces [] (hb_supportedSurfaces input)) (\<lambda>supportedSurfaces.
     bindE (validate_readiness supportedSurfaces (hb_readiness input)) (\<lambda>readiness.
     Inr \<lparr>vh_extensionVersion = extensionVersion, vh_browserFamily = ''chrome'', vh_browserVersion = browserVersion,
       vh_platform = hb_platform input, vh_supportedSurfaces = supportedSurfaces, vh_readiness = readiness\<rparr>))))"

subsection \<open>Pairing\<close>

definition resolvePairingConsumption :: "pairing_row \<Rightarrow> int \<Rightarrow> bool" where
  "resolvePairingConsumption pairing now \<longleftrightarrow> pg_consumedAt pairing = None \<and> now < pg_expiresAt pairing"

text \<open>\<open>codeText\<close> is the base64url text of 24 random bytes, \<open>pairingId\<close> the id the database draws.\<close>

definition createBrowserRunnerPairing ::
  "(string \<Rightarrow> string) \<Rightarrow> string \<Rightarrow> string \<Rightarrow> string \<Rightarrow> string \<Rightarrow> string \<Rightarrow> int \<Rightarrow> registry \<Rightarrow>
   device_error + registry \<times> (string \<times> string \<times> int)" where
  "createBrowserRunnerPairing sha pairingId codeText displayName brandId createdBy now reg =
     bindE (boundedText (Some (JStr displayName)) ''displayName'' 100) (\<lambda>displayName.
     bindE (boundedText (Some (JStr brandId)) ''brandId'' 200) (\<lambda>brandId.
     bindE (boundedText (Some (JStr createdBy)) ''createdBy'' 200) (\<lambda>createdBy.
     let code = ''yrp_'' @ codeText; expiresAt = now + PAIRING_LIFETIME_MS in
     bindE (insert_pairing reg
       \<lparr>pg_id = pairingId, pg_codeHash = sha code, pg_displayName = displayName, pg_brandId = brandId,
        pg_createdBy = createdBy, pg_expiresAt = expiresAt, pg_consumedAt = None, pg_deviceId = None,
        pg_createdAt = now\<rparr>) (\<lambda>reg'.
     Inr (reg', pairingId, code, expiresAt)))))"

definition new_device :: "string \<Rightarrow> string \<Rightarrow> pairing_row \<Rightarrow> validated_heartbeat \<Rightarrow> int \<Rightarrow> device_row" where
  "new_device deviceId tokenHash pairing heartbeat now =
     \<lparr>dv_id = deviceId, dv_displayName = pg_displayName pairing, dv_tokenHash = tokenHash,
      dv_extensionVersion = vh_extensionVersion heartbeat, dv_browserFamily = vh_browserFamily heartbeat,
      dv_browserVersion = vh_browserVersion heartbeat, dv_platform = vh_platform heartbeat,
      dv_supportedSurfaces = vh_supportedSurfaces heartbeat, dv_readiness = vh_readiness heartbeat,
      dv_lastSeenAt = Some now, dv_revokedAt = None, dv_createdBy = pg_createdBy pairing, dv_createdAt = now,
      dv_updatedAt = now\<rparr>"

text \<open>
  The pairing row is locked for the transaction, so nothing consumes it in between. \<open>tokenText\<close> is
  the base64url text of 32 random bytes, \<open>deviceId\<close> the id the database draws.
\<close>

definition consumeBrowserRunnerPairing ::
  "(string \<Rightarrow> string) \<Rightarrow> string \<Rightarrow> string \<Rightarrow> string \<Rightarrow> device_heartbeat \<Rightarrow> int \<Rightarrow> registry \<Rightarrow>
   device_error + registry \<times> (device_row \<times> string \<times> string list)" where
  "consumeBrowserRunnerPairing sha deviceId tokenText code heartbeat now reg =
     bindE (boundedText (Some (JStr code)) ''code'' 200) (\<lambda>code.
     bindE (validateDeviceHeartbeat heartbeat) (\<lambda>heartbeat.
     case find (\<lambda>p. pg_codeHash p = sha code) (rg_pairings reg) of
       None \<Rightarrow> Inl (DeviceError ''Pairing code is invalid, expired, or already consumed'')
     | Some pairing \<Rightarrow>
         if \<not> resolvePairingConsumption pairing now
         then Inl (DeviceError ''Pairing code is invalid, expired, or already consumed'')
         else
         let token = ''yrd_'' @ tokenText; device = new_device deviceId (sha token) pairing heartbeat now in
         bindE (insert_device reg device) (\<lambda>reg1.
         bindE (insert_assignment reg1
           \<lparr>ba_deviceId = deviceId, ba_brandId = pg_brandId pairing, ba_assignedBy = pg_createdBy pairing,
            ba_createdAt = now\<rparr>) (\<lambda>reg2.
         bindE (update_pairings reg2 (\<lambda>p. pg_id p = pg_id pairing \<and> pg_consumedAt p = None)
           (\<lambda>p. p\<lparr>pg_consumedAt := Some now, pg_deviceId := Some deviceId\<rparr>)) (\<lambda>(reg3, consumed).
         if consumed = [] then Inl (DeviceError ''Pairing code was consumed concurrently'')
         else Inr (reg3, device, token, [pg_brandId pairing]))))))"

subsection \<open>Devices\<close>

definition device_brands :: "registry \<Rightarrow> string \<Rightarrow> string list" where
  "device_brands reg deviceId =
     map ba_brandId (filter (\<lambda>a. ba_deviceId a = deviceId) (rg_assignments reg))"

text \<open>The brands come in the database's order of texts, \<open>collate\<close>.\<close>

definition authenticateBrowserRunnerDevice ::
  "(string \<Rightarrow> string) \<Rightarrow> (string \<Rightarrow> string \<Rightarrow> int) \<Rightarrow> string \<Rightarrow> registry \<Rightarrow> (device_row \<times> string list) option" where
  "authenticateBrowserRunnerDevice sha collate token reg =
     (if \<not> DEVICE_TOKEN_PATTERN token then None
      else
      case find (\<lambda>d. dv_tokenHash d = sha token \<and> dv_revokedAt d = None) (rg_devices reg) of
        None \<Rightarrow> None
      | Some device \<Rightarrow> Some (device, sort_cmp collate (device_brands reg (dv_id device))))"

definition heartbeatBrowserRunnerDevice ::
  "string \<Rightarrow> device_heartbeat \<Rightarrow> int \<Rightarrow> registry \<Rightarrow> device_error + registry \<times> device_row" where
  "heartbeatBrowserRunnerDevice deviceId heartbeat now reg =
     bindE (validateDeviceHeartbeat heartbeat) (\<lambda>h.
     bindE (update_devices reg (\<lambda>d. dv_id d = deviceId \<and> dv_revokedAt d = None)
       (\<lambda>d. d\<lparr>dv_extensionVersion := vh_extensionVersion h, dv_browserFamily := vh_browserFamily h,
          dv_browserVersion := vh_browserVersion h, dv_platform := vh_platform h,
          dv_supportedSurfaces := vh_supportedSurfaces h, dv_readiness := vh_readiness h,
          dv_lastSeenAt := Some now, dv_updatedAt := now\<rparr>)) (\<lambda>(reg', out).
     case out of
       [] \<Rightarrow> Inl (DeviceError ''Browser Runner device is missing or revoked'')
     | device # _ \<Rightarrow> Inr (reg', device)))"

text \<open>Rows created at the same time come in the order of the table.\<close>

definition listBrowserRunnerDevices :: "registry \<Rightarrow> (device_row \<times> string list) list" where
  "listBrowserRunnerDevices reg =
     map (\<lambda>device. (device, sort_cmp code_unit_compare (device_brands reg (dv_id device))))
       (sort_cmp (\<lambda>a b. dv_createdAt a - dv_createdAt b) (rg_devices reg))"

definition revokeBrowserRunnerDevice :: "string \<Rightarrow> int \<Rightarrow> registry \<Rightarrow> device_error + registry" where
  "revokeBrowserRunnerDevice deviceId now reg =
     bindE (update_devices reg (\<lambda>d. dv_id d = deviceId \<and> dv_revokedAt d = None)
       (\<lambda>d. d\<lparr>dv_revokedAt := Some now, dv_updatedAt := now\<rparr>)) (\<lambda>(reg', out).
     case out of
       [] \<Rightarrow> Inl (DeviceError ''Browser Runner device is missing or already revoked'')
     | _ # _ \<Rightarrow> Inr reg')"

end
