(* ===== verification/DeviceResults.thy ===== *)
theory DeviceResults
  imports Devices
begin

text \<open>
  What the registry of devices guarantees: its reachable states are consistent, a pairing code makes at
  most one device, and the token it is exchanged for authenticates exactly until the device is revoked.
\<close>

subsection \<open>Steps\<close>

text \<open>
  The operations of the registry, and whatever the rest of the application does to the brands: their
  foreign keys keep it from removing one that a pairing or an assignment refers to.
\<close>

inductive registry_step :: "(string \<Rightarrow> string) \<Rightarrow> registry \<Rightarrow> registry \<Rightarrow> bool" for sha where
  create: "createBrowserRunnerPairing sha pairingId codeText displayName brandId createdBy now reg = Inr (reg', r) \<Longrightarrow>
     registry_step sha reg reg'"
| consume: "consumeBrowserRunnerPairing sha deviceId tokenText code heartbeat now reg = Inr (reg', r) \<Longrightarrow>
     registry_step sha reg reg'"
| heartbeat: "heartbeatBrowserRunnerDevice deviceId heartbeat now reg = Inr (reg', d) \<Longrightarrow> registry_step sha reg reg'"
| revoke: "revokeBrowserRunnerDevice deviceId now reg = Inr reg' \<Longrightarrow> registry_step sha reg reg'"
| elsewhere: "reg' = reg\<lparr>rg_brands := brands\<rparr> \<Longrightarrow> pg_brandId ` set (rg_pairings reg) \<subseteq> set brands \<Longrightarrow>
     ba_brandId ` set (rg_assignments reg) \<subseteq> set brands \<Longrightarrow> registry_step sha reg reg'"

definition empty_registry :: registry where
  "empty_registry = \<lparr>rg_brands = [], rg_pairings = [], rg_devices = [], rg_assignments = []\<rparr>"

subsection \<open>What the operations do\<close>

lemma List_member_iff [simp]: "List.member xs x \<longleftrightarrow> x \<in> set xs"
  by (simp add: List.member_iff)

lemma boundedText_Inr: "boundedText (Some (JStr s)) name n = Inr t \<longleftrightarrow> t = js_trim s \<and> 1 \<le> length t \<and> length t \<le> n"
  by (auto simp: boundedText_def Let_def Suc_le_eq)

lemma declare_surfaces_Inr:
  "declare_surfaces acc ss = Inr out \<longleftrightarrow>
     out = acc @ ss \<and> (\<forall>s \<in> set ss. isBrowserExtensionSurface s) \<and> distinct ss \<and> set acc \<inter> set ss = {}"
  by (induction acc ss rule: declare_surfaces.induct) auto

lemma validated_surfaces:
  assumes "validateDeviceHeartbeat input = Inr h"
  shows "vh_supportedSurfaces h = hb_supportedSurfaces input" "distinct (vh_supportedSurfaces h)"
  using assms by (auto simp: validateDeviceHeartbeat_def bindE_Inr_iff declare_surfaces_Inr split: if_splits)

lemma consume_run:
  assumes "consumeBrowserRunnerPairing sha deviceId tokenText code heartbeat now reg = Inr (reg', device, token, brands)"
  obtains pairing h where "find (\<lambda>p. pg_codeHash p = sha (js_trim code)) (rg_pairings reg) = Some pairing"
    and "pg_consumedAt pairing = None" "now < pg_expiresAt pairing" and "validateDeviceHeartbeat heartbeat = Inr h"
    and "token = ''yrd_'' @ tokenText" and "device = new_device deviceId (sha token) pairing h now" and "brands = [pg_brandId pairing]"
    and "device_row_ok device" and "deviceId \<notin> dv_id ` set (rg_devices reg)" and "sha token \<notin> dv_tokenHash ` set (rg_devices reg)"
    and "pg_brandId pairing \<in> set (rg_brands reg)"
    and "reg' = reg\<lparr>rg_devices := rg_devices reg @ [device], rg_assignments := rg_assignments reg @
           [\<lparr>ba_deviceId = deviceId, ba_brandId = pg_brandId pairing, ba_assignedBy = pg_createdBy pairing, ba_createdAt = now\<rparr>],
         rg_pairings := set_where (\<lambda>p. pg_id p = pg_id pairing \<and> pg_consumedAt p = None)
           (\<lambda>p. p\<lparr>pg_consumedAt := Some now, pg_deviceId := Some deviceId\<rparr>) (rg_pairings reg)\<rparr>"
    and "\<forall>p \<in> set (rg_pairings reg). pg_id p = pg_id pairing \<and> pg_consumedAt p = None \<longrightarrow>
           pairing_row_ok (p\<lparr>pg_consumedAt := Some now, pg_deviceId := Some deviceId\<rparr>) \<and> pg_brandId p \<in> set (rg_brands reg)"
proof -
  obtain pairing h where p: "find (\<lambda>p. pg_codeHash p = sha (js_trim code)) (rg_pairings reg) = Some pairing"
    and h: "validateDeviceHeartbeat heartbeat = Inr h" and r: "resolvePairingConsumption pairing now"
    using assms by (auto simp: consumeBrowserRunnerPairing_def bindE_Inr_iff boundedText_Inr split: option.splits if_splits)
  show thesis
    by (rule that [OF p _ _ h])
      (use assms p h r in \<open>auto simp: consumeBrowserRunnerPairing_def bindE_Inr_iff boundedText_Inr Let_def insert_device_def
        insert_assignment_def update_pairings_def resolvePairingConsumption_def pairing_update_allowed_def new_device_def
        pairing_refs_ok_def list_ex_iff list_all_iff split: if_splits\<close>)
qed

lemma create_run:
  assumes "createBrowserRunnerPairing sha pairingId codeText displayName brandId createdBy now reg = Inr (reg', r)"
  shows "\<exists>p. reg' = reg\<lparr>rg_pairings := rg_pairings reg @ [p]\<rparr> \<and> pairing_row_ok p \<and> pairing_refs_ok reg p \<and>
    pg_id p \<notin> pg_id ` set (rg_pairings reg) \<and> pg_codeHash p \<notin> pg_codeHash ` set (rg_pairings reg) \<and>
    pg_deviceId p = None \<and> pg_consumedAt p = None"
proof -
  obtain p where "insert_pairing reg p = Inr reg'" "pg_deviceId p = None" "pg_consumedAt p = None"
    using assms by (auto simp: createBrowserRunnerPairing_def bindE_Inr_iff Let_def)
  then show ?thesis
    by (intro exI [of _ p]) (auto simp: insert_pairing_def list_ex_iff split: if_splits)
qed

definition seen_with :: "validated_heartbeat \<Rightarrow> int \<Rightarrow> device_row \<Rightarrow> device_row" where
  "seen_with h now d =
     d\<lparr>dv_extensionVersion := vh_extensionVersion h, dv_browserFamily := vh_browserFamily h,
       dv_browserVersion := vh_browserVersion h, dv_platform := vh_platform h,
       dv_supportedSurfaces := vh_supportedSurfaces h, dv_readiness := vh_readiness h,
       dv_lastSeenAt := Some now, dv_updatedAt := now\<rparr>"

lemma heartbeat_run:
  assumes "heartbeatBrowserRunnerDevice deviceId heartbeat now reg = Inr (reg', d)"
  obtains h ds where "validateDeviceHeartbeat heartbeat = Inr h"
    "update_devices reg (\<lambda>d. dv_id d = deviceId \<and> dv_revokedAt d = None) (seen_with h now) = Inr (reg', d # ds)"
  using assms unfolding heartbeatBrowserRunnerDevice_def seen_with_def [abs_def]
  by (auto simp: thrown_simps)

lemma revoke_run:
  assumes "revokeBrowserRunnerDevice deviceId now reg = Inr reg'"
  obtains d ds where "update_devices reg (\<lambda>d. dv_id d = deviceId \<and> dv_revokedAt d = None)
    (\<lambda>d. d\<lparr>dv_revokedAt := Some now, dv_updatedAt := now\<rparr>) = Inr (reg', d # ds)"
  using assms by (auto simp: revokeBrowserRunnerDevice_def thrown_simps)

lemma update_devices_InrD:
  "update_devices reg p f = Inr (reg', out) \<Longrightarrow> reg' = reg\<lparr>rg_devices := set_where p f (rg_devices reg)\<rparr>"
  by (auto simp: update_devices_def split: if_splits)

subsection \<open>Evolution\<close>

text \<open>What no step changes: the identity, the hash and the brands of a device, its revocation, and a consumed pairing.\<close>

definition device_kept :: "device_row \<Rightarrow> device_row \<Rightarrow> bool" where
  "device_kept d d' \<longleftrightarrow>
     dv_id d' = dv_id d \<and> dv_tokenHash d' = dv_tokenHash d \<and> dv_createdAt d' = dv_createdAt d \<and>
     (dv_revokedAt d \<noteq> None \<longrightarrow> d' = d)"

definition registry_evolves :: "registry \<Rightarrow> registry \<Rightarrow> bool" where
  "registry_evolves reg reg' \<longleftrightarrow>
     (\<forall>d \<in> set (rg_devices reg). \<exists>d' \<in> set (rg_devices reg'). device_kept d d' \<and>
        device_brands reg' (dv_id d) = device_brands reg (dv_id d)) \<and>
     (\<forall>p \<in> set (rg_pairings reg). pg_consumedAt p \<noteq> None \<longrightarrow> p \<in> set (rg_pairings reg'))"

lemma registry_evolves_refl [simp]: "registry_evolves reg reg"
  by (auto simp: registry_evolves_def device_kept_def)

lemma registry_evolves_trans: "registry_evolves r1 r2 \<Longrightarrow> registry_evolves r2 r3 \<Longrightarrow> registry_evolves r1 r3"
  unfolding registry_evolves_def device_kept_def by metis

lemma update_evolves:
  assumes "update_devices reg p f = Inr (reg', out)" and "\<And>d. p d \<Longrightarrow> device_kept d (f d)"
  shows "registry_evolves reg reg'"
proof -
  have "device_kept d d" for d by (simp add: device_kept_def)
  then show ?thesis
    using update_devices_InrD [OF assms(1)] device_table.image [OF assms(1)] assms(2)
    by (auto simp: registry_evolves_def device_brands_def) (metis (full_types))
qed

lemma kept_by_set_where: "r \<in> set rows \<Longrightarrow> \<not> p r \<Longrightarrow> r \<in> set (set_where p f rows)"
  by (auto simp: in_set_where)

lemma step_evolves: "registry_step sha reg reg' \<Longrightarrow> registry_evolves reg reg'"
proof (induction rule: registry_step.induct)
  case (create pairingId codeText displayName brandId createdBy now reg reg' r)
  then show ?case by (auto dest!: create_run simp: registry_evolves_def device_kept_def device_brands_def)
next
  case (consume deviceId tokenText code heartbeat now reg reg' r)
  obtain device token brands where r: "r = (device, token, brands)" by (cases r)
  show ?case
    by (rule consume_run [OF consume [unfolded r]])
      (auto simp: registry_evolves_def device_kept_def device_brands_def image_iff intro: kept_by_set_where)
next
  case (heartbeat deviceId heartbeat now reg reg' d)
  show ?case
    by (rule heartbeat_run [OF heartbeat], erule update_evolves) (auto simp: seen_with_def device_kept_def)
next
  case (revoke deviceId now reg reg')
  show ?case by (rule revoke_run [OF revoke], erule update_evolves) (auto simp: device_kept_def)
next
  case (elsewhere reg' reg brands)
  then show ?case by (auto simp: registry_evolves_def device_kept_def device_brands_def)
qed

lemma steps_evolve: "(registry_step sha)\<^sup>*\<^sup>* reg reg' \<Longrightarrow> registry_evolves reg reg'"
  by (induction rule: rtranclp_induct) (auto intro: registry_evolves_trans step_evolves)

subsection \<open>The invariant\<close>

text \<open>
  A device was made by exactly one pairing, whose brand is the only one it is assigned to.
\<close>

definition paired_device :: "registry \<Rightarrow> device_row \<Rightarrow> bool" where
  "paired_device reg d \<longleftrightarrow>
     (\<exists>p \<in> set (rg_pairings reg). pg_deviceId p = Some (dv_id d) \<and> pg_consumedAt p = Some (dv_createdAt d) \<and>
        dv_createdAt d < pg_expiresAt p \<and> device_brands reg (dv_id d) = [pg_brandId p])"

definition device_ok :: "device_row \<Rightarrow> bool" where
  "device_ok d \<longleftrightarrow> device_row_ok d \<and> distinct (dv_supportedSurfaces d)"

definition registry_keys_ok :: "registry \<Rightarrow> bool" where
  "registry_keys_ok reg \<longleftrightarrow>
     distinct (map pg_id (rg_pairings reg)) \<and> distinct (map pg_codeHash (rg_pairings reg)) \<and>
     distinct (map dv_id (rg_devices reg)) \<and> distinct (map dv_tokenHash (rg_devices reg)) \<and>
     (\<forall>p \<in> set (rg_pairings reg). \<forall>q \<in> set (rg_pairings reg). \<forall>i.
        pg_deviceId p = Some i \<longrightarrow> pg_deviceId q = Some i \<longrightarrow> p = q)"

definition registry_ok :: "registry \<Rightarrow> bool" where
  "registry_ok reg \<longleftrightarrow>
     registry_keys_ok reg \<and>
     (\<forall>p \<in> set (rg_pairings reg). pairing_row_ok p \<and> pairing_refs_ok reg p) \<and>
     (\<forall>d \<in> set (rg_devices reg). device_ok d \<and> paired_device reg d) \<and>
     (\<forall>a \<in> set (rg_assignments reg). ba_deviceId a \<in> dv_id ` set (rg_devices reg) \<and> ba_brandId a \<in> set (rg_brands reg))"

lemma pairing_refs_iff:
  "pairing_refs_ok reg p \<longleftrightarrow>
     pg_brandId p \<in> set (rg_brands reg) \<and> (\<forall>i. pg_deviceId p = Some i \<longrightarrow> i \<in> dv_id ` set (rg_devices reg))"
  by (auto simp: pairing_refs_ok_def list_ex_iff split: option.splits)

lemma update_devices_ok:
  assumes u: "update_devices reg p f = Inr (reg', out)" and k: "\<And>d. p d \<Longrightarrow> device_kept d (f d)"
    and s: "\<And>d. p d \<Longrightarrow> distinct (dv_supportedSurfaces d) \<Longrightarrow> distinct (dv_supportedSurfaces (f d))"
    and ok: "registry_ok reg"
  shows "registry_ok reg'"
proof -
  note reg' = update_devices_InrD [OF u]
  have keys: "map dv_id (rg_devices reg') = map dv_id (rg_devices reg)"
    "map dv_tokenHash (rg_devices reg') = map dv_tokenHash (rg_devices reg)"
    using k by (auto simp: reg' set_where_def device_kept_def)
  then have ids: "dv_id ` set (rg_devices reg') = dv_id ` set (rg_devices reg)" by (metis list.set_map)
  have rows: "device_ok d' \<and> paired_device reg' d'" if d': "d' \<in> set (rg_devices reg')" for d'
  proof -
    obtain d where d: "d \<in> set (rg_devices reg)" "\<not> p d \<and> d' = d \<or> p d \<and> d' = f d \<and> device_update_allowed reg d d'"
      by (rule device_table.origin [OF u d'])
    have "device_ok d" "paired_device reg d" using ok d(1) by (simp_all add: registry_ok_def)
    moreover have "dv_id d' = dv_id d" "dv_createdAt d' = dv_createdAt d" using d(2) k by (auto simp: device_kept_def)
    ultimately show ?thesis
      using d(2) s by (auto simp: device_ok_def device_update_allowed_def paired_device_def device_brands_def reg')
  qed
  have same: "rg_pairings reg' = rg_pairings reg" "rg_assignments reg' = rg_assignments reg" "rg_brands reg' = rg_brands reg"
    by (simp_all add: reg')
  have "registry_keys_ok reg'" using ok by (simp add: registry_ok_def registry_keys_ok_def same keys)
  moreover have "\<forall>q \<in> set (rg_pairings reg'). pairing_row_ok q \<and> pairing_refs_ok reg' q"
    using ok by (simp add: registry_ok_def pairing_refs_iff same ids)
  moreover have "\<forall>a \<in> set (rg_assignments reg'). ba_deviceId a \<in> dv_id ` set (rg_devices reg') \<and> ba_brandId a \<in> set (rg_brands reg')"
    using ok by (simp add: registry_ok_def same ids)
  ultimately show ?thesis using rows by (simp add: registry_ok_def)
qed

lemma create_ok:
  assumes "createBrowserRunnerPairing sha pairingId codeText displayName brandId createdBy now reg = Inr (reg', r)"
    and "registry_ok reg"
  shows "registry_ok reg'"
proof -
  obtain p where reg': "reg' = reg\<lparr>rg_pairings := rg_pairings reg @ [p]\<rparr>" and p: "pairing_row_ok p" "pairing_refs_ok reg p"
    "pg_id p \<notin> pg_id ` set (rg_pairings reg)" "pg_codeHash p \<notin> pg_codeHash ` set (rg_pairings reg)"
    "pg_deviceId p = None"
    using create_run [OF assms(1)] by blast
  have "registry_keys_ok reg'" using assms(2) p by (simp add: reg' registry_ok_def registry_keys_ok_def)
  moreover have "\<forall>q \<in> set (rg_pairings reg'). pairing_row_ok q \<and> pairing_refs_ok reg' q"
    using assms(2) p by (simp add: reg' registry_ok_def pairing_refs_iff)
  moreover have "\<forall>d \<in> set (rg_devices reg'). device_ok d \<and> paired_device reg' d"
    using assms(2) by (simp add: reg' registry_ok_def paired_device_def device_brands_def)
  ultimately show ?thesis using assms(2) by (simp add: reg' registry_ok_def)
qed

definition paired :: "registry \<Rightarrow> pairing_row \<Rightarrow> device_row \<Rightarrow> registry" where
  "paired reg pairing device =
     reg\<lparr>rg_devices := rg_devices reg @ [device],
       rg_assignments := rg_assignments reg @ [\<lparr>ba_deviceId = dv_id device, ba_brandId = pg_brandId pairing,
         ba_assignedBy = pg_createdBy pairing, ba_createdAt = dv_createdAt device\<rparr>],
       rg_pairings := set_where (\<lambda>p. p = pairing)
         (\<lambda>p. p\<lparr>pg_consumedAt := Some (dv_createdAt device), pg_deviceId := Some (dv_id device)\<rparr>) (rg_pairings reg)\<rparr>"

lemma device_made:
  assumes "consumeBrowserRunnerPairing sha deviceId tokenText code heartbeat now reg = Inr (reg', device, token, brands)"
    and "registry_ok reg"
  obtains pairing where "pairing \<in> set (rg_pairings reg)" "pg_codeHash pairing = sha (js_trim code)"
    "pg_consumedAt pairing = None" "pg_deviceId pairing = None" "now < pg_expiresAt pairing" "pg_brandId pairing \<in> set (rg_brands reg)"
    "token = ''yrd_'' @ tokenText" "brands = [pg_brandId pairing]"
    "dv_id device = deviceId" "dv_tokenHash device = sha token" "dv_createdAt device = now" "dv_revokedAt device = None"
    "device_ok device" "deviceId \<notin> dv_id ` set (rg_devices reg)" "sha token \<notin> dv_tokenHash ` set (rg_devices reg)"
    "pairing_row_ok (pairing\<lparr>pg_consumedAt := Some now, pg_deviceId := Some deviceId\<rparr>)"
    "reg' = paired reg pairing device"
proof -
  obtain pairing h where find: "find (\<lambda>p. pg_codeHash p = sha (js_trim code)) (rg_pairings reg) = Some pairing"
    and open_: "pg_consumedAt pairing = None" "now < pg_expiresAt pairing" and h: "validateDeviceHeartbeat heartbeat = Inr h"
    and r: "token = ''yrd_'' @ tokenText" "device = new_device deviceId (sha token) pairing h now" "brands = [pg_brandId pairing]"
    and row: "device_row_ok device" and fresh: "deviceId \<notin> dv_id ` set (rg_devices reg)" "sha token \<notin> dv_tokenHash ` set (rg_devices reg)"
    and brand: "pg_brandId pairing \<in> set (rg_brands reg)"
    and reg': "reg' = reg\<lparr>rg_devices := rg_devices reg @ [device], rg_assignments := rg_assignments reg @
           [\<lparr>ba_deviceId = deviceId, ba_brandId = pg_brandId pairing, ba_assignedBy = pg_createdBy pairing, ba_createdAt = now\<rparr>],
         rg_pairings := set_where (\<lambda>p. pg_id p = pg_id pairing \<and> pg_consumedAt p = None)
           (\<lambda>p. p\<lparr>pg_consumedAt := Some now, pg_deviceId := Some deviceId\<rparr>) (rg_pairings reg)\<rparr>"
    and upd: "\<forall>p \<in> set (rg_pairings reg). pg_id p = pg_id pairing \<and> pg_consumedAt p = None \<longrightarrow>
           pairing_row_ok (p\<lparr>pg_consumedAt := Some now, pg_deviceId := Some deviceId\<rparr>) \<and> pg_brandId p \<in> set (rg_brands reg)"
    by (rule consume_run [OF assms(1)])
  have p: "pairing \<in> set (rg_pairings reg)" "pg_codeHash pairing = sha (js_trim code)" using find_SomeD [OF find] by simp_all
  have keys: "inj_on pg_id (set (rg_pairings reg))" and "pairing_row_ok pairing"
    using assms(2) p by (simp_all add: registry_ok_def registry_keys_ok_def distinct_map)
  have one: "set_where (\<lambda>q. pg_id q = pg_id pairing \<and> pg_consumedAt q = None) f (rg_pairings reg) =
      set_where (\<lambda>q. q = pairing) f (rg_pairings reg)" for f
    using p(1) open_ inj_onD [OF keys] by (auto simp: set_where_def)
  have "pg_deviceId pairing = None" using \<open>pairing_row_ok pairing\<close> open_ by (simp add: pairing_row_ok_def)
  moreover have "distinct (vh_supportedSurfaces h)" by (rule validated_surfaces(2) [OF h])
  ultimately show thesis
    using p open_ r row fresh brand bspec [OF upd p(1)]
    by (intro that [of pairing]) (simp_all add: new_device_def device_ok_def paired_def reg' one)
qed

lemma set_where_one: "x \<in> set rows \<Longrightarrow> set (set_where (\<lambda>r. r = x) f rows) = insert (f x) (set rows - {x})"
  by (auto simp: set_where_def image_iff split: if_splits)

lemma consume_ok:
  assumes "consumeBrowserRunnerPairing sha deviceId tokenText code heartbeat now reg = Inr (reg', r)"
    and ok: "registry_ok reg"
  shows "registry_ok reg'"
proof -
  obtain device token brands where r: "r = (device, token, brands)" by (cases r)
  define f where "f = (\<lambda>p :: pairing_row. p\<lparr>pg_consumedAt := Some now, pg_deviceId := Some deviceId\<rparr>)"
  obtain pairing where p: "pairing \<in> set (rg_pairings reg)"
    "pg_consumedAt pairing = None" "pg_deviceId pairing = None" "now < pg_expiresAt pairing" "pg_brandId pairing \<in> set (rg_brands reg)"
    and d: "dv_id device = deviceId" "dv_tokenHash device = sha token" "dv_createdAt device = now" "device_ok device"
      "deviceId \<notin> dv_id ` set (rg_devices reg)" "sha token \<notin> dv_tokenHash ` set (rg_devices reg)"
    and row: "pairing_row_ok (f pairing)"
    and made: "reg' = paired reg pairing device"
    unfolding f_def by (rule device_made [OF assms(1) [unfolded r] ok])
  note reg' = made [unfolded paired_def d(1, 3), folded f_def]
  have old: "pg_deviceId q \<noteq> Some deviceId" "pg_brandId q \<in> set (rg_brands reg)" "pairing_row_ok q" "pairing_refs_ok reg q"
    if "q \<in> set (rg_pairings reg)" for q
    using ok that d(5) by (auto simp: registry_ok_def pairing_refs_iff)
  have no_brands: "ba_deviceId a \<noteq> deviceId" if "a \<in> set (rg_assignments reg)" for a
    using ok that d(5) by (auto simp: registry_ok_def)
  have pairings: "set (rg_pairings reg') = insert (f pairing) (set (rg_pairings reg) - {pairing})"
    using set_where_one [OF p(1)] by (simp add: reg')
  have same: "map pg_id (rg_pairings reg') = map pg_id (rg_pairings reg)"
    "map pg_codeHash (rg_pairings reg') = map pg_codeHash (rg_pairings reg)"
    by (simp_all add: reg' map_set_where f_def)
  have brands: "device_brands reg' i = (if i = deviceId then [pg_brandId pairing] else device_brands reg i)" for i
    using no_brands by (auto simp: reg' device_brands_def filter_empty_conv)
  have "registry_keys_ok reg'"
    using ok d old unfolding registry_keys_ok_def same pairings
    by (auto simp: reg' registry_ok_def registry_keys_ok_def f_def)
  moreover have "\<forall>q \<in> set (rg_pairings reg'). pairing_row_ok q \<and> pairing_refs_ok reg' q"
    using p(5) row old d(1) unfolding pairings pairing_refs_iff by (auto simp: reg' f_def)
  moreover have "device_ok e \<and> paired_device reg' e" if "e \<in> set (rg_devices reg')" for e
  proof (cases "e = device")
    case True
    then show ?thesis
      using d p(4) unfolding paired_device_def pairings brands by (auto simp: f_def)
  next
    case False
    then have e: "e \<in> set (rg_devices reg)" "dv_id e \<noteq> deviceId" using that d(5) by (auto simp: reg')
    then have "device_ok e" "paired_device reg e" using ok by (simp_all add: registry_ok_def)
    then show ?thesis
      using e p(3) unfolding paired_device_def pairings brands by fastforce
  qed
  moreover have "\<forall>a \<in> set (rg_assignments reg'). ba_deviceId a \<in> dv_id ` set (rg_devices reg') \<and> ba_brandId a \<in> set (rg_brands reg')"
    using ok p(5) d(1) by (auto simp: reg' registry_ok_def)
  ultimately show ?thesis by (simp add: registry_ok_def)
qed

lemma step_registry_ok: "registry_step sha reg reg' \<Longrightarrow> registry_ok reg \<Longrightarrow> registry_ok reg'"
proof (induction rule: registry_step.induct)
  case (create pairingId codeText displayName brandId createdBy now reg reg' r)
  then show ?case by (rule create_ok)
next
  case (consume deviceId tokenText code heartbeat now reg reg' r)
  then show ?case by (rule consume_ok)
next
  case (heartbeat deviceId heartbeat now reg reg' d)
  show ?case
    by (rule heartbeat_run [OF heartbeat(1)], erule update_devices_ok [OF _ _ _ heartbeat(2)])
      (auto simp: seen_with_def device_kept_def dest: validated_surfaces)
next
  case (revoke deviceId now reg reg')
  show ?case
    by (rule revoke_run [OF revoke(1)], erule update_devices_ok [OF _ _ _ revoke(2)]) (auto simp: device_kept_def)
next
  case (elsewhere reg' reg brands)
  then show ?case
    by (auto simp: registry_ok_def registry_keys_ok_def pairing_refs_iff paired_device_def device_brands_def)
qed

lemma steps_registry_ok: "(registry_step sha)\<^sup>*\<^sup>* reg reg' \<Longrightarrow> registry_ok reg \<Longrightarrow> registry_ok reg'"
  by (induction rule: rtranclp_induct) (auto intro: step_registry_ok)

subsection \<open>The registry's guarantees\<close>

text \<open>
  C22: in every reachable state of the registry its rows satisfy the CHECKs and the keys, every device was
  made by exactly one pairing, within its lifetime, and is assigned to that pairing's brand alone.
\<close>

theorem registry_consistent:
  assumes "(registry_step sha)\<^sup>*\<^sup>* empty_registry reg"
  shows "(\<forall>p \<in> set (rg_pairings reg). pairing_row_ok p \<and> pairing_refs_ok reg p) \<and>
    (\<forall>d \<in> set (rg_devices reg). device_row_ok d \<and> distinct (dv_supportedSurfaces d) \<and>
       (\<exists>!p. p \<in> set (rg_pairings reg) \<and> pg_deviceId p = Some (dv_id d)) \<and>
       (\<exists>p \<in> set (rg_pairings reg). pg_deviceId p = Some (dv_id d) \<and> dv_createdAt d < pg_expiresAt p \<and>
          device_brands reg (dv_id d) = [pg_brandId p])) \<and>
    distinct (map dv_id (rg_devices reg)) \<and> distinct (map dv_tokenHash (rg_devices reg)) \<and>
    distinct (map pg_codeHash (rg_pairings reg))"
proof -
  have "registry_ok empty_registry" by (simp add: registry_ok_def registry_keys_ok_def empty_registry_def)
  then have ok: "registry_ok reg" by (rule steps_registry_ok [OF assms])
  have keys: "registry_keys_ok reg" using ok by (simp add: registry_ok_def)
  show ?thesis
  proof (intro conjI ballI)
    fix d assume d: "d \<in> set (rg_devices reg)"
    then show "device_row_ok d" "distinct (dv_supportedSurfaces d)" using ok by (simp_all add: registry_ok_def device_ok_def)
    obtain p where p: "p \<in> set (rg_pairings reg)" "pg_deviceId p = Some (dv_id d)" "dv_createdAt d < pg_expiresAt p"
      "device_brands reg (dv_id d) = [pg_brandId p]"
      using ok d by (auto simp: registry_ok_def paired_device_def)
    then show "\<exists>p \<in> set (rg_pairings reg). pg_deviceId p = Some (dv_id d) \<and> dv_createdAt d < pg_expiresAt p \<and>
        device_brands reg (dv_id d) = [pg_brandId p]" by blast
    show "\<exists>!p. p \<in> set (rg_pairings reg) \<and> pg_deviceId p = Some (dv_id d)"
      using p(1, 2) keys unfolding registry_keys_ok_def by blast
  qed (use ok keys in \<open>simp_all add: registry_ok_def registry_keys_ok_def\<close>)
qed

text \<open>
  C23: a pairing code makes at most one device, and only before it expires: after it was consumed, no
  exchange of it ever succeeds again, whatever happens to the registry in between.
\<close>

theorem pairing_code_consumed_once:
  assumes "consumeBrowserRunnerPairing sha deviceId tokenText code heartbeat now reg = Inr (reg1, device, token, brands)"
    and "registry_ok reg" and "(registry_step sha)\<^sup>*\<^sup>* reg1 reg2"
  shows "(\<exists>p \<in> set (rg_pairings reg). pg_codeHash p = sha (js_trim code) \<and> now < pg_createdAt p + 15 * 60 * 1000) \<and>
    (\<exists>e. consumeBrowserRunnerPairing sha deviceId' tokenText' code heartbeat' now' reg2 = Inl e)"
proof -
  obtain pairing where p: "pairing \<in> set (rg_pairings reg)" "pg_codeHash pairing = sha (js_trim code)" "now < pg_expiresAt pairing"
    and d: "dv_id device = deviceId" "dv_createdAt device = now" and made: "reg1 = paired reg pairing device"
    by (rule device_made [OF assms(1, 2)])
  let ?used = "pairing\<lparr>pg_consumedAt := Some now, pg_deviceId := Some deviceId\<rparr>"
  have "?used \<in> set (rg_pairings reg1)" unfolding made paired_def d by (simp add: set_where_one [OF p(1)])
  then have used: "?used \<in> set (rg_pairings reg2)" using steps_evolve [OF assms(3)] by (simp add: registry_evolves_def)
  have "registry_ok reg2" by (rule steps_registry_ok [OF assms(3) consume_ok [OF assms(1, 2)]])
  then have "find (\<lambda>q. pg_codeHash q = pg_codeHash ?used) (rg_pairings reg2) = Some ?used"
    using used by (intro find_distinct_key) (simp_all add: registry_ok_def registry_keys_ok_def)
  then have "\<exists>e. consumeBrowserRunnerPairing sha deviceId' tokenText' code heartbeat' now' reg2 = Inl e"
    using p(2) by (auto simp: consumeBrowserRunnerPairing_def bindE_def boundedText_def Let_def resolvePairingConsumption_def
        split: sum.splits)
  moreover have "pg_expiresAt pairing \<le> pg_createdAt pairing + 15 * 60 * 1000"
    using assms(2) p(1) by (simp add: registry_ok_def pairing_row_ok_def)
  ultimately show ?thesis using p by (smt (verit))
qed

lemma authenticate_found:
  assumes "registry_ok reg" and "d \<in> set (rg_devices reg)" and "dv_tokenHash d = sha token" and "DEVICE_TOKEN_PATTERN token"
    and "device_brands reg (dv_id d) = [brand]"
  shows "authenticateBrowserRunnerDevice sha collate token reg = (if dv_revokedAt d = None then Some (d, [brand]) else None)"
proof -
  have "inj_on dv_tokenHash (set (rg_devices reg))"
    using assms(1) by (simp add: registry_ok_def registry_keys_ok_def distinct_map)
  then have only: "e = d" if "e \<in> set (rg_devices reg)" "dv_tokenHash e = sha token" for e
    using assms(2, 3) that by (simp add: inj_on_def)
  have "find (\<lambda>d. dv_tokenHash d = sha token \<and> dv_revokedAt d = None) (rg_devices reg) =
      (if dv_revokedAt d = None then Some d else None)"
  proof (cases "find (\<lambda>d. dv_tokenHash d = sha token \<and> dv_revokedAt d = None) (rg_devices reg)")
    case None
    then show ?thesis using assms(2, 3) by (auto simp: find_None_iff)
  next
    case (Some e)
    then show ?thesis using only [of e] find_SomeD [OF Some] by auto
  qed
  then show ?thesis using assms(4, 5) by (simp add: authenticateBrowserRunnerDevice_def sort_cmp_def)
qed

lemma token_until_revoked:
  assumes "consumeBrowserRunnerPairing sha deviceId tokenText code heartbeat now reg = Inr (reg1, device, token, brands)"
    and "registry_ok reg" and "(registry_step sha)\<^sup>*\<^sup>* reg1 reg2"
    and "length tokenText = 43" and "list_all device_token_char tokenText"
  shows "\<exists>d \<in> set (rg_devices reg2). dv_id d = deviceId \<and> dv_createdAt d = now \<and>
    authenticateBrowserRunnerDevice sha collate token reg2 = (if dv_revokedAt d = None then Some (d, brands) else None)"
proof -
  obtain pairing where p: "brands = [pg_brandId pairing]" "token = ''yrd_'' @ tokenText"
    and d: "dv_id device = deviceId" "dv_tokenHash device = sha token" "dv_createdAt device = now"
      "deviceId \<notin> dv_id ` set (rg_devices reg)"
    and made: "reg1 = paired reg pairing device"
    by (rule device_made [OF assms(1, 2)])
  note reg1 = made [unfolded paired_def d(1, 3)]
  have "ba_deviceId a \<noteq> deviceId" if "a \<in> set (rg_assignments reg)" for a
    using assms(2) that d(4) by (auto simp: registry_ok_def)
  then have "device_brands reg1 deviceId = brands" by (auto simp: reg1 p device_brands_def filter_empty_conv)
  moreover have "device \<in> set (rg_devices reg1)" by (simp add: reg1)
  ultimately obtain d' where d': "d' \<in> set (rg_devices reg2)" "device_kept device d'" "device_brands reg2 deviceId = brands"
    using steps_evolve [OF assms(3)] d(1) by (auto simp: registry_evolves_def)
  moreover have "DEVICE_TOKEN_PATTERN token" using assms(4, 5) by (simp add: DEVICE_TOKEN_PATTERN_def p)
  moreover have "registry_ok reg2" by (rule steps_registry_ok [OF assms(3) consume_ok [OF assms(1, 2)]])
  ultimately have "authenticateBrowserRunnerDevice sha collate token reg2 =
      (if dv_revokedAt d' = None then Some (d', [pg_brandId pairing]) else None)"
    using d by (intro authenticate_found) (simp_all add: device_kept_def p(1))
  then show ?thesis using d' d p(1) by (auto simp: device_kept_def)
qed

text \<open>
  C24: the token that a pairing answers authenticates its device, with the pairing's brand, for as long as
  the device is not revoked, whatever happens to the registry in between.
\<close>

theorem token_authenticates_until_revoked:
  assumes "consumeBrowserRunnerPairing sha deviceId tokenText code heartbeat now reg = Inr (reg1, device, token, brands)"
    and "registry_ok reg" and "(registry_step sha)\<^sup>*\<^sup>* reg1 reg2"
    and "length tokenText = 43" and "list_all device_token_char tokenText"
  shows "\<exists>d \<in> set (rg_devices reg2). dv_id d = deviceId \<and> dv_createdAt d = now \<and>
    authenticateBrowserRunnerDevice sha collate token reg2 = (if dv_revokedAt d = None then Some (d, brands) else None)"
  by (rule token_until_revoked [OF assms])

text \<open>
  A revoked device never authenticates again: no token with the hash of its token is accepted, whatever
  happens to the registry after its revocation.
\<close>

theorem revoked_token_rejected:
  assumes "revokeBrowserRunnerDevice deviceId now reg = Inr reg1" and "registry_ok reg"
    and "(registry_step sha)\<^sup>*\<^sup>* reg1 reg2" and "d \<in> set (rg_devices reg)" and "dv_id d = deviceId"
    and "sha token = dv_tokenHash d"
  shows "authenticateBrowserRunnerDevice sha collate token reg2 = None"
proof -
  obtain x xs where u: "update_devices reg (\<lambda>d. dv_id d = deviceId \<and> dv_revokedAt d = None)
      (\<lambda>d. d\<lparr>dv_revokedAt := Some now, dv_updatedAt := now\<rparr>) = Inr (reg1, x # xs)"
    by (rule revoke_run [OF assms(1)])
  have ok1: "registry_ok reg1" by (rule step_registry_ok [OF registry_step.revoke [OF assms(1)] assms(2)])
  have "\<exists>e \<in> set (rg_devices reg1). dv_tokenHash e = sha token \<and> dv_revokedAt e \<noteq> None"
    using device_table.image [OF u assms(4)] assms(5, 6) by (cases "dv_revokedAt d") (auto intro: rev_bexI)
  then obtain e where e: "e \<in> set (rg_devices reg1)" "dv_tokenHash e = sha token" "dv_revokedAt e \<noteq> None" by blast
  then have e2: "e \<in> set (rg_devices reg2)"
    using steps_evolve [OF assms(3)] by (auto simp: registry_evolves_def device_kept_def)
  have ok2: "registry_ok reg2" by (rule steps_registry_ok [OF assms(3) ok1])
  show ?thesis
  proof (cases "DEVICE_TOKEN_PATTERN token")
    case True
    obtain brand where "device_brands reg2 (dv_id e) = [brand]"
      using ok2 e2 by (auto simp: registry_ok_def paired_device_def)
    then show ?thesis using authenticate_found [OF ok2 e2, of sha token brand collate] e(2, 3) True by simp
  qed (simp add: authenticateBrowserRunnerDevice_def)
qed

end
