(* ===== verification/RunnerAuth.thy ===== *)
theory RunnerAuth
  imports DeviceResults PortalService
begin

text \<open>
  How a runner proves who it is: the bearer tokens of \<open>apps/web/src/server/browser-runner-auth.ts\<close> with
  the request bodies and error answers of the routes, the pairing and the heartbeats of
  \<open>apps/web/src/server/browser-runner-devices.ts\<close>, and what the extension sends for them
  (\<open>apps/browser-extension/src/heartbeat.ts\<close> and the pairing of \<open>popup.ts\<close>).
\<close>

subsection \<open>The portal's settings\<close>

text \<open>The environment variables that the authentication reads; an absent one is \<open>None\<close>.\<close>

record runner_settings =
  re_enabled :: "string option"
  re_apiToken :: "string option"
  re_runnerId :: "string option"
  re_market :: "string option"
  re_locale :: "string option"
  re_timezone :: "string option"
  re_adminApiKeys :: "string option"

fun comma_parts :: "string \<Rightarrow> string list" where
  "comma_parts [] = [[]]"
| "comma_parts (c # s) =
     (if c = CHR '','' then [] # comma_parts s
      else case comma_parts s of [] \<Rightarrow> [[c]] | p # ps \<Rightarrow> (c # p) # ps)"

definition configuredAdminTokens :: "runner_settings \<Rightarrow> string list" where
  "configuredAdminTokens settings =
     filter (\<lambda>token. token \<noteq> [])
       (map js_trim (comma_parts (case re_adminApiKeys settings of None \<Rightarrow> [] | Some keys \<Rightarrow> keys)))"

definition runner_id_char :: "char \<Rightarrow> bool" where
  "runner_id_char c \<longleftrightarrow> identifier_start c \<or> List.member ''._:-'' c"

definition validRunnerId :: "string option \<Rightarrow> bool" where
  "validRunnerId v \<longleftrightarrow>
     (case v of None \<Rightarrow> False | Some s \<Rightarrow> s \<noteq> [] \<and> length s \<le> 200 \<and> list_all runner_id_char s)"

definition equalToken :: "(string \<Rightarrow> string) \<Rightarrow> string \<Rightarrow> string \<Rightarrow> bool" where
  "equalToken sha left right \<longleftrightarrow> sha left = sha right"

definition browserRunnerFeatureEnabled :: "runner_settings \<Rightarrow> bool" where
  "browserRunnerFeatureEnabled settings \<longleftrightarrow>
     map_option (\<lambda>v. js_lower (js_trim v)) (re_enabled settings) = Some ''true''"

definition browserRunnerEnabled :: "(string \<Rightarrow> string) \<Rightarrow> runner_settings \<Rightarrow> bool" where
  "browserRunnerEnabled sha settings \<longleftrightarrow>
     (if \<not> browserRunnerFeatureEnabled settings then False
      else
      case map_option js_trim (re_apiToken settings) of
        None \<Rightarrow> False
      | Some configured \<Rightarrow>
          if configured = [] \<or> length configured < 32 \<or> \<not> validRunnerId (map_option js_trim (re_runnerId settings))
          then False
          else if map_option js_trim (re_market settings) \<noteq> Some ''CN'' \<or>
             map_option js_trim (re_locale settings) \<noteq> Some ''zh-CN'' \<or>
             map_option js_trim (re_timezone settings) \<noteq> Some ''Asia/Shanghai''
          then False
          else \<not> list_ex (\<lambda>token. equalToken sha token configured) (configuredAdminTokens settings))"

subsection \<open>Authentication\<close>

definition unauthorized :: portal_error where
  "unauthorized = HttpError 401 ''Valid Browser Runner bearer token required''"

text \<open>
  The header's value has to match \<open>/^Bearer\s+(.+)$/i\<close>: white space follows the word, and what comes
  after it holds no line terminator. A rest of white space alone is rejected for its length.
\<close>

definition bearerToken :: "string option \<Rightarrow> portal_error + string" where
  "bearerToken authorization =
     (case strip_ci ''bearer'' (case authorization of None \<Rightarrow> [] | Some a \<Rightarrow> a) of
        Some (_, c # rest) \<Rightarrow>
          if \<not> js_space c \<or> list_ex (\<lambda>c. (of_char c :: nat) \<in> {10, 13}) (dropWhile js_space rest) then Inl unauthorized
          else
          let token = js_trim rest in
          if length token < 32 \<or> length token > 500 then Inl unauthorized else Inr token
      | _ \<Rightarrow> Inl unauthorized)"

definition requireLegacyBrowserRunner ::
  "(string \<Rightarrow> string) \<Rightarrow> runner_settings \<Rightarrow> string \<Rightarrow> portal_error + runner_principal" where
  "requireLegacyBrowserRunner sha settings presented =
     (if \<not> browserRunnerEnabled sha settings then Inl (HttpError 503 ''Browser Runner is disabled or not ready'')
      else
      case map_option js_trim (re_apiToken settings) of
        None \<Rightarrow> Inl (HttpError 503 ''Browser Runner credentials are not configured'')
      | Some configured \<Rightarrow>
          if configured = [] \<or> length configured < 32
          then Inl (HttpError 503 ''Browser Runner credentials are not configured'')
          else
          (case map_option js_trim (re_runnerId settings) of
             None \<Rightarrow> Inl (HttpError 503 ''Browser Runner principal is not configured'')
           | Some runnerId \<Rightarrow>
               if \<not> validRunnerId (Some runnerId)
               then Inl (HttpError 503 ''Browser Runner principal is not configured'')
               else if list_ex (\<lambda>token. equalToken sha token configured) (configuredAdminTokens settings)
               then Inl (HttpError 503 ''Browser Runner credential must not be an admin credential'')
               else if \<not> equalToken sha presented configured then Inl unauthorized
               else Inr \<lparr>bp_kind = LegacyHost, bp_id = runnerId, bp_market = ''CN'', bp_locale = ''zh-CN'',
                 bp_timezone = ''Asia/Shanghai'', bp_allowedBrandIds = [], bp_supportedSurfaces = [],
                 bp_readySurfaces = []\<rparr>))"

fun authorized_surfaces :: "string list \<Rightarrow> string list \<Rightarrow> portal_error + string list" where
  "authorized_surfaces supportedSurfaces [] = Inr supportedSurfaces"
| "authorized_surfaces supportedSurfaces (surface # rest) =
     (if \<not> isBrowserExtensionSurface surface \<or> List.member supportedSurfaces surface
      then Inl (HttpError 401 ''Browser Runner device capabilities are invalid'')
      else authorized_surfaces (supportedSurfaces @ [surface]) rest)"

definition REQUIRED_BROWSER_EXTENSION_VERSION :: string where
  "REQUIRED_BROWSER_EXTENSION_VERSION = ''0.3.30''"

definition surface_ready :: "device_row \<Rightarrow> string \<Rightarrow> bool" where
  "surface_ready device surface \<longleftrightarrow>
     (case map_of (dv_readiness device) surface of
        None \<Rightarrow> False
      | Some readiness \<Rightarrow>
          sr_status readiness = Ready \<and> isApprovedBrowserExtensionAdapterVersion surface (sr_adapterVersion readiness))"

definition device_principal :: "device_row \<Rightarrow> string list \<Rightarrow> portal_error + runner_principal" where
  "device_principal device allowedBrandIds =
     (if \<not> validRunnerId (Some (dv_id device)) \<or> length allowedBrandIds < 1
      then Inl (HttpError 401 ''Browser Runner device authorization is invalid'')
      else
      bindE (authorized_surfaces [] (dv_supportedSurfaces device)) (\<lambda>supportedSurfaces.
      if length supportedSurfaces < 1 then Inl (HttpError 401 ''Browser Runner device capabilities are invalid'')
      else
      let packageVersionIsCurrent = (dv_extensionVersion device = REQUIRED_BROWSER_EXTENSION_VERSION) in
      Inr \<lparr>bp_kind = ExtensionPrincipal, bp_id = dv_id device, bp_market = ''CN'', bp_locale = ''zh-CN'',
        bp_timezone = ''Asia/Shanghai'', bp_allowedBrandIds = allowedBrandIds,
        bp_supportedSurfaces = supportedSurfaces,
        bp_readySurfaces = (if packageVersionIsCurrent then filter (surface_ready device) supportedSurfaces else [])\<rparr>))"

definition authenticateRunnerRequest ::
  "(string \<Rightarrow> string) \<Rightarrow> (string \<Rightarrow> string \<Rightarrow> int) \<Rightarrow> runner_settings \<Rightarrow> string option \<Rightarrow> registry \<Rightarrow>
   portal_error + runner_principal" where
  "authenticateRunnerRequest sha collate settings authorization reg =
     (if \<not> browserRunnerFeatureEnabled settings
      then Inl (HttpError 503 ''Browser Runner is disabled or not ready'')
      else
      bindE (bearerToken authorization) (\<lambda>presented.
      if js_starts ''yrd_'' presented then
        (if list_ex (\<lambda>token. equalToken sha token presented) (configuredAdminTokens settings) then Inl unauthorized
         else
         case authenticateBrowserRunnerDevice sha collate presented reg of
           None \<Rightarrow> Inl unauthorized
         | Some (device, allowedBrandIds) \<Rightarrow>
             if dv_revokedAt device \<noteq> None then Inl unauthorized
             else device_principal device allowedBrandIds)
      else requireLegacyBrowserRunner sha settings presented))"

subsection \<open>Request bodies and error answers\<close>

text \<open>
  A request's headers and the chunks its body arrives in. Decoding UTF-8 and JSON and the text that zod
  makes of its issues are parameters; a rejected body is \<open>None\<close>.
\<close>

record http_request =
  rq_contentLength :: "string option"
  rq_contentEncoding :: "string option"
  rq_body :: "string list option"

definition body_too_large :: "int \<Rightarrow> portal_error" where
  "body_too_large maxBytes = HttpError 413 (''JSON request body exceeds '' @ int_dec maxBytes @ '' bytes'')"

fun read_chunks :: "int \<Rightarrow> int \<Rightarrow> string list \<Rightarrow> portal_error + string" where
  "read_chunks maxBytes byteLength [] = Inr []"
| "read_chunks maxBytes byteLength (value # rest) =
     (let byteLength = byteLength + int (length value) in
      if byteLength > maxBytes then Inl (body_too_large maxBytes)
      else bindE (read_chunks maxBytes byteLength rest) (\<lambda>bytes. Inr (value @ bytes)))"

definition parseBrowserRunnerJson ::
  "(string \<Rightarrow> json option) \<Rightarrow> (json \<Rightarrow> string) \<Rightarrow> (json \<Rightarrow> 'a option) \<Rightarrow> int \<Rightarrow> http_request \<Rightarrow> portal_error + 'a" where
  "parseBrowserRunnerJson decode issues schema maxBytes request =
     (if \<not> safe_integer maxBytes \<or> maxBytes < 1 \<or> maxBytes > 6 * 1024 * 1024
      then Inl (thrown ''Browser Runner JSON maxBytes must be between 1 byte and 6 MiB'')
      else if truthy_text (rq_contentLength request) \<and>
        (case read_dec 0 (the (rq_contentLength request)) of None \<Rightarrow> True | Some n \<Rightarrow> n > maxBytes)
      then Inl (body_too_large maxBytes)
      else if (case rq_contentEncoding request of
          None \<Rightarrow> False
        | Some e \<Rightarrow> let encoding = js_lower (js_trim e) in encoding \<noteq> [] \<and> encoding \<noteq> ''identity'')
      then Inl (HttpError 415 ''Compressed JSON request bodies are not supported'')
      else
      case rq_body request of
        None \<Rightarrow> Inl (HttpError 400 ''Request body is required'')
      | Some chunks \<Rightarrow>
          bindE (read_chunks maxBytes 0 chunks) (\<lambda>bytes.
          case decode bytes of
            None \<Rightarrow> Inl (HttpError 400 ''Request body must be valid JSON'')
          | Some raw \<Rightarrow>
              (case schema raw of None \<Rightarrow> Inl (HttpError 400 (issues raw)) | Some data \<Rightarrow> Inr data)))"

text \<open>The status, the name and the message of an error answer.\<close>

definition browserRunnerErrorResponse :: "portal_error \<Rightarrow> int \<times> string \<times> string" where
  "browserRunnerErrorResponse err =
     (case err of
        HttpError status message \<Rightarrow> (status, ''BrowserRunnerHttpError'', message)
      | ServiceError (RunnerStateError message) \<Rightarrow> (409, ''BrowserRunnerStateError'', message)
      | ServiceError (TaskLeaseError message) \<Rightarrow> (409, ''DeliveryTaskLeaseError'', message)
      | ServiceError _ \<Rightarrow> (500, ''BrowserRunnerError'', ''The Browser Runner request could not be completed''))"

end
