(* ===== verification/DeviceService.thy ===== *)
theory DeviceService
  imports RunnerAuth ApiClient
begin

text \<open>
  Pairing and heartbeats over HTTP: the portal's side
  (\<open>apps/web/src/server/browser-runner-devices.ts\<close> with its routes and the role check of
  \<open>lib/auth/helpers.ts\<close>) and the extension's (\<open>heartbeat.ts\<close>, the pairing of \<open>api-client.ts\<close> and
  \<open>popup.ts\<close>).
\<close>

subsection \<open>Schemas\<close>

fun traverse :: "('a \<Rightarrow> 'b option) \<Rightarrow> 'a list \<Rightarrow> 'b list option" where
  "traverse f [] = Some []"
| "traverse f (x # xs) = Option.bind (f x) (\<lambda>y. Option.bind (traverse f xs) (\<lambda>ys. Some (y # ys)))"

definition schema_identifier :: "nat \<Rightarrow> json \<Rightarrow> string option" where
  "schema_identifier maximum v =
     Option.bind (schema_text maximum v) (\<lambda>t. if identifier_text t then Some t else None)"

definition schema_literal :: "string list \<Rightarrow> json \<Rightarrow> string option" where
  "schema_literal texts v = (case v of JStr s \<Rightarrow> if List.member texts s then Some s else None | _ \<Rightarrow> None)"

definition readinessStateSchema :: "json \<Rightarrow> surface_readiness option" where
  "readinessStateSchema v =
     Option.bind (strict_object [''status'', ''adapterVersion'', ''activeConcurrency''] v) (\<lambda>fs.
     Option.bind (required fs ''status'' (\<lambda>v. case v of
         JStr s \<Rightarrow> find (\<lambda>r. readiness_text r = s) READINESS_STATUSES | _ \<Rightarrow> None)) (\<lambda>status.
     Option.bind (required fs ''adapterVersion'' (schema_identifier 100)) (\<lambda>adapterVersion.
     Option.bind (required fs ''activeConcurrency'' (\<lambda>v. case v of
         JNum n \<Rightarrow> if 0 \<le> n \<and> n \<le> 10 then Some n else None | _ \<Rightarrow> None)) (\<lambda>activeConcurrency.
     Some \<lparr>sr_status = status, sr_adapterVersion = adapterVersion, sr_activeConcurrency = activeConcurrency\<rparr>))))"

text \<open>What zod reads of an object has the keys of its shape, in their order.\<close>

definition readinessSchema :: "json \<Rightarrow> (string \<times> surface_readiness) list option" where
  "readinessSchema v =
     Option.bind (strict_object BROWSER_EXTENSION_SURFACES v) (\<lambda>fs.
     Option.bind (traverse (\<lambda>surface. map_option (map_option (Pair surface)) (optional fs surface readinessStateSchema))
         BROWSER_EXTENSION_SURFACES) (\<lambda>states.
     Some (List.map_filter (\<lambda>state. state) states)))"

definition supportedSurfacesSchema :: "json \<Rightarrow> string list option" where
  "supportedSurfacesSchema v =
     (case v of
        JArr vs \<Rightarrow>
          if 1 \<le> length vs \<and> length vs \<le> length BROWSER_EXTENSION_SURFACES
          then traverse (schema_literal BROWSER_EXTENSION_SURFACES) vs else None
      | _ \<Rightarrow> None)"

definition HEARTBEAT_KEYS :: "string list" where
  "HEARTBEAT_KEYS = [''extensionVersion'', ''browserFamily'', ''browserVersion'', ''platform'',
     ''supportedSurfaces'', ''readiness'']"

definition schema_heartbeat :: "(string \<times> json) list \<Rightarrow> device_heartbeat option" where
  "schema_heartbeat fs =
     Option.bind (required fs ''extensionVersion'' (schema_identifier 50)) (\<lambda>extensionVersion.
     Option.bind (required fs ''browserFamily'' (schema_literal [''chrome''])) (\<lambda>browserFamily.
     Option.bind (required fs ''browserVersion'' (schema_identifier 100)) (\<lambda>browserVersion.
     Option.bind (required fs ''platform'' (schema_literal [''windows'', ''macos''])) (\<lambda>platform.
     Option.bind (required fs ''supportedSurfaces'' supportedSurfacesSchema) (\<lambda>supportedSurfaces.
     Option.bind (required fs ''readiness'' readinessSchema) (\<lambda>readiness.
     Some \<lparr>hb_extensionVersion = extensionVersion, hb_browserFamily = browserFamily,
       hb_browserVersion = browserVersion, hb_platform = platform, hb_supportedSurfaces = supportedSurfaces,
       hb_readiness = readiness_json readiness\<rparr>))))))"

definition browserRunnerDeviceHeartbeatSchema :: "json \<Rightarrow> device_heartbeat option" where
  "browserRunnerDeviceHeartbeatSchema body = Option.bind (strict_object HEARTBEAT_KEYS body) schema_heartbeat"

definition browserRunnerPairSchema :: "json \<Rightarrow> (string \<times> device_heartbeat) option" where
  "browserRunnerPairSchema body =
     Option.bind (strict_object (HEARTBEAT_KEYS @ [''code'']) body) (\<lambda>fs.
     Option.bind (required fs ''code'' (schema_text 200)) (\<lambda>code.
     Option.bind (schema_heartbeat fs) (\<lambda>heartbeat. Some (code, heartbeat))))"

subsection \<open>The portal's operations\<close>

text \<open>The routes answer every error of the registry that is not caught as any other unexpected error.\<close>

definition registry_service :: "device_error + 'a \<Rightarrow> portal_error + 'a" where
  "registry_service m =
     (case m of
        Inl (DeviceError message) \<Rightarrow> Inl (thrown message)
      | Inl RegistryDatabaseError \<Rightarrow> Inl (ServiceError DatabaseError)
      | Inr x \<Rightarrow> Inr x)"

definition assertBrowserRunnerFeatureEnabled :: "runner_settings \<Rightarrow> portal_error + unit" where
  "assertBrowserRunnerFeatureEnabled settings =
     (if \<not> browserRunnerFeatureEnabled settings then Inl (HttpError 503 ''Browser Runner is disabled'') else Inr ())"

definition projectEffectiveBrowserRunnerReadiness ::
  "(string \<times> surface_readiness) list \<Rightarrow> string list \<Rightarrow> (string \<times> surface_readiness) list" where
  "projectEffectiveBrowserRunnerReadiness readiness supportedSurfaces =
     List.map_filter (\<lambda>surface.
       case map_of readiness surface of
         None \<Rightarrow> None
       | Some state \<Rightarrow> Some (surface,
           if sr_status state = Ready \<and> \<not> isApprovedBrowserExtensionAdapterVersion surface (sr_adapterVersion state)
           then state\<lparr>sr_status := AdapterIncompatible, sr_activeConcurrency := 0\<rparr>
           else state)) supportedSurfaces"

record pairing_response =
  pa_deviceId :: string
  pa_deviceToken :: string
  pa_allowedBrandIds :: "string list"

text \<open>
  The input is what the route's schema read of the body; it is parsed with the same schema again, so the
  model parses the body. A pairing that fails leaves the registry as it was.
\<close>

definition pairBrowserRunnerDevice ::
  "(string \<Rightarrow> string) \<Rightarrow> runner_settings \<Rightarrow> string \<Rightarrow> string \<Rightarrow> int \<Rightarrow> json \<Rightarrow> registry \<Rightarrow>
   portal_error + registry \<times> pairing_response" where
  "pairBrowserRunnerDevice sha settings deviceId tokenText now input reg =
     bindE (assertBrowserRunnerFeatureEnabled settings) (\<lambda>_.
     bindE (requireSome (thrown ''ZodError'') (browserRunnerPairSchema input)) (\<lambda>(code, heartbeat).
     case consumeBrowserRunnerPairing sha deviceId tokenText code heartbeat now reg of
       Inl (DeviceError _) \<Rightarrow> Inl (HttpError 401 ''Valid pairing code required'')
     | Inl RegistryDatabaseError \<Rightarrow> Inl (ServiceError DatabaseError)
     | Inr (reg', device, token, allowedBrandIds) \<Rightarrow>
         Inr (reg', \<lparr>pa_deviceId = dv_id device, pa_deviceToken = token, pa_allowedBrandIds = allowedBrandIds\<rparr>)))"

definition BROWSER_EXTENSION_FEATURE_VERSION :: string where
  "BROWSER_EXTENSION_FEATURE_VERSION = ''browser-extension.v1''"

text \<open>The device's id, the portal's time and the feature version.\<close>

definition updateBrowserRunnerDeviceHeartbeat ::
  "runner_settings \<Rightarrow> int \<Rightarrow> int \<Rightarrow> runner_principal \<Rightarrow> json \<Rightarrow> registry \<Rightarrow>
   portal_error + registry \<times> (string \<times> string \<times> string)" where
  "updateBrowserRunnerDeviceHeartbeat settings now serverTime runner input reg =
     bindE (assertBrowserRunnerFeatureEnabled settings) (\<lambda>_.
     if bp_kind runner \<noteq> ExtensionPrincipal then Inl (HttpError 403 ''Paired Browser Runner device required'')
     else
     bindE (requireSome (thrown ''ZodError'') (browserRunnerDeviceHeartbeatSchema input)) (\<lambda>heartbeat.
     bindE (registry_service (heartbeatBrowserRunnerDevice (bp_id runner) heartbeat now reg)) (\<lambda>(reg', device).
     Inr (reg', dv_id device, to_iso serverTime, BROWSER_EXTENSION_FEATURE_VERSION))))"

subsection \<open>Administration\<close>

text \<open>The session of a signed-in user, as far as the checks read it; none for a visitor.\<close>

record auth_session =
  as_userId :: string
  as_role :: json
  as_impersonatedBy :: bool

definition hasRoleToken :: "json \<Rightarrow> string \<Rightarrow> bool" where
  "hasRoleToken v expected \<longleftrightarrow>
     list_ex (\<lambda>role. case role of JStr s \<Rightarrow> js_trim s = expected | _ \<Rightarrow> False)
       (case v of JArr roles \<Rightarrow> roles | JStr s \<Rightarrow> map JStr (comma_parts s) | _ \<Rightarrow> [])"

definition requireAuthSession :: "auth_session option \<Rightarrow> portal_error + auth_session" where
  "requireAuthSession session =
     bindE (requireSome (thrown ''Unauthorized: Authentication required'') session) (\<lambda>s.
     if as_impersonatedBy s then Inl (thrown ''Forbidden: Impersonated sessions are not supported'') else Inr s)"

definition requirePlatformAdmin :: "auth_session option \<Rightarrow> portal_error + auth_session" where
  "requirePlatformAdmin session =
     bindE (requireAuthSession session) (\<lambda>s.
     if \<not> hasRoleToken (as_role s) ''admin'' then Inl (thrown ''Forbidden: Platform administrator access required'')
     else Inr s)"

definition createPairingSchema :: "json \<Rightarrow> (string \<times> string) option" where
  "createPairingSchema body =
     Option.bind (strict_object [''brandId'', ''displayName''] body) (\<lambda>fs.
     Option.bind (required fs ''brandId'' (schema_text 200)) (\<lambda>brandId.
     Option.bind (required fs ''displayName'' (schema_text 100)) (\<lambda>displayName. Some (brandId, displayName))))"

definition createBrowserRunnerPairingFn ::
  "(string \<Rightarrow> string) \<Rightarrow> runner_settings \<Rightarrow> auth_session option \<Rightarrow> string \<Rightarrow> string \<Rightarrow> int \<Rightarrow> json \<Rightarrow> registry \<Rightarrow>
   portal_error + registry \<times> (string \<times> string \<times> int)" where
  "createBrowserRunnerPairingFn sha settings session pairingId codeText now input reg =
     bindE (requireSome (thrown ''ZodError'') (createPairingSchema input)) (\<lambda>(brandId, displayName).
     bindE (requirePlatformAdmin session) (\<lambda>s.
     bindE (assertBrowserRunnerFeatureEnabled settings) (\<lambda>_.
     registry_service
       (createBrowserRunnerPairing sha pairingId codeText displayName brandId (as_userId s) now reg))))"

record listed_device =
  ld_id :: string
  ld_displayName :: string
  ld_extensionVersion :: string
  ld_browserFamily :: string
  ld_browserVersion :: string
  ld_platform :: string
  ld_supportedSurfaces :: "string list"
  ld_readiness :: "(string \<times> surface_readiness) list"
  ld_lastSeenAt :: "string option"
  ld_revokedAt :: "string option"
  ld_allowedBrandIds :: "string list"

definition listBrowserRunnerDevicesFn :: "auth_session option \<Rightarrow> registry \<Rightarrow> portal_error + listed_device list" where
  "listBrowserRunnerDevicesFn session reg =
     bindE (requirePlatformAdmin session) (\<lambda>_.
     Inr (map (\<lambda>(device, allowedBrandIds).
       \<lparr>ld_id = dv_id device, ld_displayName = dv_displayName device, ld_extensionVersion = dv_extensionVersion device,
        ld_browserFamily = dv_browserFamily device, ld_browserVersion = dv_browserVersion device,
        ld_platform = dv_platform device, ld_supportedSurfaces = dv_supportedSurfaces device,
        ld_readiness = projectEffectiveBrowserRunnerReadiness (dv_readiness device) (dv_supportedSurfaces device),
        ld_lastSeenAt = map_option to_iso (dv_lastSeenAt device), ld_revokedAt = map_option to_iso (dv_revokedAt device),
        ld_allowedBrandIds = allowedBrandIds\<rparr>) (listBrowserRunnerDevices reg)))"

definition revokeDeviceSchema :: "json \<Rightarrow> string option" where
  "revokeDeviceSchema body =
     Option.bind (strict_object [''deviceId''] body) (\<lambda>fs. required fs ''deviceId'' schema_guid)"

definition revokeBrowserRunnerDeviceFn :: "auth_session option \<Rightarrow> int \<Rightarrow> json \<Rightarrow> registry \<Rightarrow> portal_error + registry" where
  "revokeBrowserRunnerDeviceFn session now input reg =
     bindE (requireSome (thrown ''ZodError'') (revokeDeviceSchema input)) (\<lambda>deviceId.
     bindE (requirePlatformAdmin session) (\<lambda>_.
     registry_service (revokeBrowserRunnerDevice deviceId now reg)))"

subsection \<open>The extension's side\<close>

definition version_char :: "char \<Rightarrow> bool" where
  "version_char c \<longleftrightarrow> (CHR ''0'' \<le> c \<and> c \<le> CHR ''9'') \<or> c = CHR ''.''"

text \<open>
  The first match of \<open>/(?:Chrome|Chromium)\/([0-9.]+)/\<close>, from the first position that has one; at
  each position at most one of the two words is followed by the slash.
\<close>

fun chrome_match :: "string \<Rightarrow> string option" where
  "chrome_match [] = None"
| "chrome_match (c # s) =
     (let rest = (if js_starts ''Chrome/'' (c # s) then drop 7 (c # s)
                  else if js_starts ''Chromium/'' (c # s) then drop 9 (c # s) else []);
          version = takeWhile version_char rest
      in if version \<noteq> [] then Some version else chrome_match s)"

definition chromeVersion :: "string \<Rightarrow> error + string" where
  "chromeVersion userAgent =
     requireSome (PlainError ''Yonaris Browser Runner requires Chrome'') (chrome_match userAgent)"

definition extensionPlatform :: "string \<Rightarrow> error + string" where
  "extensionPlatform userAgent =
     (if js_includes ''Windows NT'' userAgent then Inr ''windows''
      else if js_includes ''Macintosh'' userAgent \<or> js_includes ''Mac OS X'' userAgent then Inr ''macos''
      else Inl (PlainError ''Yonaris Browser Runner supports Windows and macOS only''))"

definition EXTENSION_VERSION :: string where
  "EXTENSION_VERSION = REQUIRED_BROWSER_EXTENSION_VERSION"

definition buildHeartbeat :: "string \<Rightarrow> (string \<times> surface_readiness) list \<Rightarrow> error + device_heartbeat" where
  "buildHeartbeat userAgent readiness =
     bindE (chromeVersion userAgent) (\<lambda>browserVersion.
     bindE (extensionPlatform userAgent) (\<lambda>platform.
     Inr \<lparr>hb_extensionVersion = EXTENSION_VERSION, hb_browserFamily = ''chrome'', hb_browserVersion = browserVersion,
       hb_platform = platform, hb_supportedSurfaces = BROWSER_EXTENSION_SURFACES,
       hb_readiness = readiness_json (normalizeSurfaceReadiness (readiness_json readiness))\<rparr>))"

definition heartbeat_fields :: "device_heartbeat \<Rightarrow> (string \<times> json) list" where
  "heartbeat_fields h =
     [(''extensionVersion'', JStr (hb_extensionVersion h)), (''browserFamily'', JStr (hb_browserFamily h)),
      (''browserVersion'', JStr (hb_browserVersion h)), (''platform'', JStr (hb_platform h)),
      (''supportedSurfaces'', JArr (map JStr (hb_supportedSurfaces h))), (''readiness'', hb_readiness h)]"

definition heartbeat_body :: "device_heartbeat \<Rightarrow> json" where
  "heartbeat_body h = JObj (heartbeat_fields h)"

definition pair_body :: "string \<Rightarrow> device_heartbeat \<Rightarrow> json" where
  "pair_body code h = JObj ((''code'', JStr (js_trim code)) # heartbeat_fields h)"

text \<open>What the extension stores of the portal's answer, before it is validated.\<close>

definition paired_config_json :: "pairing_response \<Rightarrow> json" where
  "paired_config_json r =
     JObj [(''portalBaseUrl'', JStr PORTAL_ORIGIN), (''deviceId'', JStr (pa_deviceId r)),
       (''deviceToken'', JStr (pa_deviceToken r)), (''allowedBrandIds'', JArr (map JStr (pa_allowedBrandIds r)))]"

text \<open>The header that the API client sends with the stored token.\<close>

definition authorization_header :: "paired_device_config \<Rightarrow> string" where
  "authorization_header d = ''Bearer '' @ dc_deviceToken d"

end
