(* ===== verification/AccessResults.thy ===== *)
theory AccessResults
  imports DeviceService PortalResults
begin

text \<open>
  Pairing and authentication, end to end: an extension that pairs with a valid code is let in, and whoever
  is let in as an extension is a registered device.
\<close>

subsection \<open>Texts without white space\<close>

lemma solid_chars:
  "device_token_char c \<Longrightarrow> \<not> js_space c" "identifier_start c \<Longrightarrow> \<not> js_space c" "runner_id_char c \<Longrightarrow> \<not> js_space c"
  unfolding device_token_char_def identifier_start_def runner_id_char_def js_space_def less_eq_char_def
  by auto

lemma identifier_solid: "identifier_text s \<Longrightarrow> list_all (\<lambda>c. \<not> js_space c) s"
proof (cases s)
  case (Cons c rest)
  assume "identifier_text s"
  then have "identifier_start c" "list_all (\<lambda>c. identifier_start c \<or> List.member ''._-'' c) rest"
    by (simp_all add: Cons identifier_text_def)
  moreover have "identifier_start c \<or> List.member ''._-'' c \<Longrightarrow> \<not> js_space c" for c
    using solid_chars(2) [of c] by (auto simp: js_space_def)
  ultimately show ?thesis
    unfolding Cons list.pred_inject(2) by (blast intro: list.pred_mono_strong solid_chars(2))
qed simp

lemma identifier_trim: "identifier_text s \<Longrightarrow> js_trim s = s"
  by (rule js_trim_solid [OF identifier_solid])

lemma schema_identifier_accepts: "identifier_text s \<Longrightarrow> length s \<le> n \<Longrightarrow> schema_identifier n (JStr s) = Some s"
  by (cases s) (auto simp: schema_identifier_def schema_text_def identifier_trim Suc_le_eq identifier_text_def)

lemma boundedIdentifier_accepts:
  "identifier_text s \<Longrightarrow> length s \<le> n \<Longrightarrow> boundedIdentifier (Some (JStr s)) name n = Inr s"
  by (cases s) (auto simp: boundedIdentifier_def boundedText_def identifier_trim identifier_text_def Let_def bindE_def)

subsection \<open>The extension's heartbeat\<close>

lemma surfaces_member: "isBrowserExtensionSurface s \<longleftrightarrow> s \<in> set BROWSER_EXTENSION_SURFACES"
  by (auto simp: isBrowserExtensionSurface_def list_ex_iff)

lemma surfaces_distinct: "distinct BROWSER_EXTENSION_SURFACES"
  by code_simp

lemma current_version_identifier:
  assumes "s \<in> set BROWSER_EXTENSION_SURFACES"
  shows "identifier_text (CURRENT_ADAPTER_VERSIONS s)" "length (CURRENT_ADAPTER_VERSIONS s) \<le> 100"
    "isApprovedBrowserExtensionAdapterVersion s (CURRENT_ADAPTER_VERSIONS s)"
proof -
  have "list_all (\<lambda>s. identifier_text (CURRENT_ADAPTER_VERSIONS s) \<and> length (CURRENT_ADAPTER_VERSIONS s) \<le> 100 \<and>
      isApprovedBrowserExtensionAdapterVersion s (CURRENT_ADAPTER_VERSIONS s)) BROWSER_EXTENSION_SURFACES"
    by code_simp
  with assms show "identifier_text (CURRENT_ADAPTER_VERSIONS s)" "length (CURRENT_ADAPTER_VERSIONS s) \<le> 100"
    "isApprovedBrowserExtensionAdapterVersion s (CURRENT_ADAPTER_VERSIONS s)"
    by (auto simp: list_all_iff)
qed

text \<open>A list of readiness states as the extension reports it: one for each surface, at its current version.\<close>

definition reported :: "(string \<times> surface_readiness) list \<Rightarrow> bool" where
  "reported n \<longleftrightarrow> map fst n = BROWSER_EXTENSION_SURFACES \<and>
     (\<forall>(s, r) \<in> set n. sr_adapterVersion r = CURRENT_ADAPTER_VERSIONS s \<and> sr_activeConcurrency r = 0)"

lemma normalizeSurface_version:
  "sr_adapterVersion (normalizeSurface v s) = CURRENT_ADAPTER_VERSIONS s \<and> sr_activeConcurrency (normalizeSurface v s) = 0"
  by (simp add: normalizeSurface_def Let_def split: json.splits option.splits)

lemma default_keys: "map fst defaultSurfaceReadiness = BROWSER_EXTENSION_SURFACES"
  by code_simp

lemma default_versions:
  "(s, r) \<in> set defaultSurfaceReadiness \<Longrightarrow> sr_adapterVersion r = CURRENT_ADAPTER_VERSIONS s \<and> sr_activeConcurrency r = 0"
  by (auto simp: defaultSurfaceReadiness_def mapBrowserExtensionSurfaces_def)

lemma normalized_reported: "reported (normalizeSurfaceReadiness v)"
proof -
  have "map fst (normalizeSurfaceReadiness v) = BROWSER_EXTENSION_SURFACES"
    by (simp add: normalizeSurfaceReadiness_def default_keys comp_def case_prod_unfold split: json.split)
  moreover have "sr_adapterVersion r = CURRENT_ADAPTER_VERSIONS s \<and> sr_activeConcurrency r = 0"
    if "(s, r) \<in> set (normalizeSurfaceReadiness v)" for s r
    using that normalizeSurface_version
    by (auto simp: normalizeSurfaceReadiness_def dest: default_versions split: json.splits option.splits)
  ultimately show ?thesis by (auto simp: reported_def)
qed

definition state_json :: "surface_readiness \<Rightarrow> json" where
  "state_json r = JObj [(''status'', JStr (readiness_text (sr_status r))), (''adapterVersion'', JStr (sr_adapterVersion r)),
     (''activeConcurrency'', JNum (sr_activeConcurrency r))]"

lemma readiness_json_states: "readiness_json n = JObj (map (\<lambda>(s, r). (s, state_json r)) n)"
  by (simp add: readiness_json_def state_json_def)

lemma readiness_of_text: "find (\<lambda>r. readiness_text r = readiness_text s) READINESS_STATUSES = Some s"
  by (cases s) (simp_all add: READINESS_STATUSES_def readiness_text_def)

lemma state_schema:
  assumes "identifier_text (sr_adapterVersion r)" and "length (sr_adapterVersion r) \<le> 100" and "sr_activeConcurrency r = 0"
  shows "readinessStateSchema (state_json r) = Some r" "validate_state s (state_json r) = Inr r"
  using assms schema_identifier_accepts [OF assms(1, 2)] boundedIdentifier_accepts [OF assms(1, 2)]
  by (simp_all add: readinessStateSchema_def validate_state_def state_json_def strict_object_def required_def readiness_of_text field_def)

lemma traverse_states:
  assumes "\<And>s r. (s, r) \<in> set n \<Longrightarrow> map_of fs s = Some (state_json r) \<and> readinessStateSchema (state_json r) = Some r"
  shows "traverse (\<lambda>s. map_option (map_option (Pair s)) (optional fs s readinessStateSchema)) (map fst n) = Some (map Some n)"
  using assms
proof (induction n)
  case (Cons a n)
  obtain s r where a: "a = (s, r)" by (cases a)
  have "traverse (\<lambda>s. map_option (map_option (Pair s)) (optional fs s readinessStateSchema)) (map fst n) = Some (map Some n)"
    using Cons.prems by (intro Cons.IH) auto
  then show ?case using Cons.prems [of s r] by (simp add: a optional_def)
qed simp

lemma map_filter_some: "List.map_filter (\<lambda>x. x) (map Some xs) = xs"
  by (induction xs) (simp_all add: List.map_filter_def)

lemma reported_accepted:
  assumes "reported n"
  shows "readinessSchema (readiness_json n) = Some n" "validate_readiness BROWSER_EXTENSION_SURFACES (readiness_json n) = Inr n"
proof -
  have keys: "map fst n = BROWSER_EXTENSION_SURFACES" using assms by (simp add: reported_def)
  have state: "readinessStateSchema (state_json r) = Some r \<and> validate_state s (state_json r) = Inr r \<and> s \<in> set BROWSER_EXTENSION_SURFACES"
    if "(s, r) \<in> set n" for s r
  proof -
    have "s \<in> fst ` set n" using that by force
    then have s: "s \<in> set BROWSER_EXTENSION_SURFACES" using keys by (metis list.set_map)
    then show ?thesis using assms that state_schema current_version_identifier [OF s] by (auto simp: reported_def)
  qed
  have "map_of (map (\<lambda>(s, r). (s, state_json r)) n) s = Some (state_json r)" if "(s, r) \<in> set n" for s r
    using that surfaces_distinct by (intro map_of_is_SomeI) (force simp: keys [symmetric] comp_def case_prod_unfold)+
  then have "traverse (\<lambda>s. map_option (map_option (Pair s)) (optional (map (\<lambda>(s, r). (s, state_json r)) n) s readinessStateSchema))
      BROWSER_EXTENSION_SURFACES = Some (map Some n)"
    unfolding keys [symmetric] using state by (intro traverse_states) auto
  moreover have "strict_object BROWSER_EXTENSION_SURFACES (readiness_json n) = Some (map (\<lambda>(s, r). (s, state_json r)) n)"
    using state by (auto simp: strict_object_def readiness_json_states list_all_iff)
  ultimately show "readinessSchema (readiness_json n) = Some n" by (simp add: readinessSchema_def map_filter_some)
  have "mapE (\<lambda>(surface, rawReadiness).
      if \<not> isBrowserExtensionSurface surface then Inl (DeviceError (''Unsupported readiness surface '' @ surface))
      else if \<not> List.member BROWSER_EXTENSION_SURFACES surface
      then Inl (DeviceError (''Readiness surface '' @ surface @ '' was not declared by this device''))
      else bindE (validate_state surface rawReadiness) (\<lambda>state. Inr (surface, state))) (map (\<lambda>(s, r). (s, state_json r)) m) = Inr m"
    if "set m \<subseteq> set n" for m
    using that state by (induction m) (auto simp: surfaces_member)
  then show "validate_readiness BROWSER_EXTENSION_SURFACES (readiness_json n) = Inr n"
    by (simp add: validate_readiness_def readiness_json_states)
qed

lemma built_heartbeat:
  assumes "buildHeartbeat userAgent readiness = Inr h"
  shows "hb_extensionVersion h = REQUIRED_BROWSER_EXTENSION_VERSION" "hb_browserFamily h = ''chrome''"
    "List.member [''windows'', ''macos''] (hb_platform h)" "hb_supportedSurfaces h = BROWSER_EXTENSION_SURFACES"
    "hb_readiness h = readiness_json (normalizeSurfaceReadiness (readiness_json readiness))"
  using assms by (auto simp: buildHeartbeat_def bindE_Inr_iff EXTENSION_VERSION_def extensionPlatform_def split: if_splits)

lemma required_version: "identifier_text REQUIRED_BROWSER_EXTENSION_VERSION" "length REQUIRED_BROWSER_EXTENSION_VERSION \<le> 50"
  by code_simp+

lemma surfaces_schema: "supportedSurfacesSchema (JArr (map JStr BROWSER_EXTENSION_SURFACES)) = Some BROWSER_EXTENSION_SURFACES"
  by code_simp

lemma declare_all: "declare_surfaces [] BROWSER_EXTENSION_SURFACES = Inr BROWSER_EXTENSION_SURFACES"
  by (simp add: declare_surfaces_Inr surfaces_distinct surfaces_member)

lemma heartbeat_accepted:
  assumes h: "buildHeartbeat userAgent readiness = Inr h" and v: "identifier_text (hb_browserVersion h)" "length (hb_browserVersion h) \<le> 100"
  shows "browserRunnerDeviceHeartbeatSchema (heartbeat_body h) = Some h"
    and "1 \<le> length (js_trim code) \<Longrightarrow> length (js_trim code) \<le> 200 \<Longrightarrow>
      browserRunnerPairSchema (pair_body code h) = Some (js_trim code, h)"
    and "validateDeviceHeartbeat h = Inr
      \<lparr>vh_extensionVersion = REQUIRED_BROWSER_EXTENSION_VERSION, vh_browserFamily = ''chrome'',
       vh_browserVersion = hb_browserVersion h, vh_platform = hb_platform h,
       vh_supportedSurfaces = BROWSER_EXTENSION_SURFACES,
       vh_readiness = normalizeSurfaceReadiness (readiness_json readiness)\<rparr>"
proof -
  note b = built_heartbeat [OF h]
  note r = reported_accepted [OF normalized_reported, of "readiness_json readiness"]
  note version = schema_identifier_accepts [OF v] schema_identifier_accepts [OF required_version]
  have family: "schema_literal [''chrome''] (JStr ''chrome'') = Some ''chrome''"
    "schema_literal [''windows'', ''macos''] (JStr (hb_platform h)) = Some (hb_platform h)"
    using b(3) by (auto simp: schema_literal_def)
  have fields: "schema_heartbeat fs = Some h"
    if "\<And>key value. (key, value) \<in> set (heartbeat_fields h) \<Longrightarrow> map_of fs key = Some value" for fs
  proof -
    have "map_of fs ''extensionVersion'' = Some (JStr REQUIRED_BROWSER_EXTENSION_VERSION)"
      "map_of fs ''browserFamily'' = Some (JStr ''chrome'')" "map_of fs ''browserVersion'' = Some (JStr (hb_browserVersion h))"
      "map_of fs ''platform'' = Some (JStr (hb_platform h))"
      "map_of fs ''supportedSurfaces'' = Some (JArr (map JStr BROWSER_EXTENSION_SURFACES))"
      "map_of fs ''readiness'' = Some (readiness_json (normalizeSurfaceReadiness (readiness_json readiness)))"
      using that b by (simp_all add: heartbeat_fields_def)
    then show ?thesis
      unfolding schema_heartbeat_def required_def
      using version family surfaces_schema r(1) b by (simp add: device_heartbeat.equality)
  qed
  have plain: "schema_heartbeat (heartbeat_fields h) = Some h"
    by (rule fields) (auto simp: heartbeat_fields_def)
  have coded: "schema_heartbeat ((''code'', c) # heartbeat_fields h) = Some h" for c
    by (rule fields) (auto simp: heartbeat_fields_def)
  show "browserRunnerDeviceHeartbeatSchema (heartbeat_body h) = Some h"
    using plain by (simp add: browserRunnerDeviceHeartbeatSchema_def heartbeat_body_def strict_object_def heartbeat_fields_def HEARTBEAT_KEYS_def)
  show "browserRunnerPairSchema (pair_body code h) = Some (js_trim code, h)"
    if "1 \<le> length (js_trim code)" "length (js_trim code) \<le> 200"
    using that coded by (simp add: browserRunnerPairSchema_def pair_body_def strict_object_def heartbeat_fields_def HEARTBEAT_KEYS_def
        required_def schema_text_def)
  have platform: "hb_platform h = ''windows'' \<or> hb_platform h = ''macos''" using b(3) by simp
  have count: "length BROWSER_EXTENSION_SURFACES = 7" by code_simp
  show "validateDeviceHeartbeat h = Inr
      \<lparr>vh_extensionVersion = REQUIRED_BROWSER_EXTENSION_VERSION, vh_browserFamily = ''chrome'',
       vh_browserVersion = hb_browserVersion h, vh_platform = hb_platform h,
       vh_supportedSurfaces = BROWSER_EXTENSION_SURFACES,
       vh_readiness = normalizeSurfaceReadiness (readiness_json readiness)\<rparr>"
    unfolding validateDeviceHeartbeat_def
    using platform count by (auto simp: b boundedIdentifier_accepts v required_version declare_all r(2))
qed

subsection \<open>Pairing\<close>

lemma consume_accepted:
  assumes ok: "registry_ok reg" and p: "pairing \<in> set (rg_pairings reg)" "pg_codeHash pairing = sha (js_trim code)"
    and free: "pg_consumedAt pairing = None" "now < pg_expiresAt pairing"
    and c: "1 \<le> length (js_trim code)" "length (js_trim code) \<le> 200"
    and v: "validateDeviceHeartbeat h = Inr v" "List.member [''windows'', ''macos''] (vh_platform v)"
      "vh_browserFamily v = ''chrome''" "vh_supportedSurfaces v = BROWSER_EXTENSION_SURFACES"
    and fresh: "deviceId \<notin> dv_id ` set (rg_devices reg)" "sha (''yrd_'' @ tokenText) \<notin> dv_tokenHash ` set (rg_devices reg)"
      "hex64 (sha (''yrd_'' @ tokenText))"
  shows "\<exists>reg'. consumeBrowserRunnerPairing sha deviceId tokenText code h now reg =
    Inr (reg', new_device deviceId (sha (''yrd_'' @ tokenText)) pairing v now, ''yrd_'' @ tokenText, [pg_brandId pairing])"
proof -
  let ?token = "''yrd_'' @ tokenText"
  let ?device = "new_device deviceId (sha ?token) pairing v now"
  let ?a = "\<lparr>ba_deviceId = deviceId, ba_brandId = pg_brandId pairing, ba_assignedBy = pg_createdBy pairing, ba_createdAt = now\<rparr>"
  have keys: "distinct (map pg_codeHash (rg_pairings reg))" "inj_on pg_id (set (rg_pairings reg))"
    and row: "pairing_row_ok pairing" "pairing_refs_ok reg pairing"
    using ok p(1) by (simp_all add: registry_ok_def registry_keys_ok_def distinct_map)
  have find: "find (\<lambda>q. pg_codeHash q = sha (js_trim code)) (rg_pairings reg) = Some pairing"
    using find_distinct_key [OF keys(1) p(1)] p(2) by simp
  have "list_all (List.member SURFACE_ARRAY) BROWSER_EXTENSION_SURFACES" "length BROWSER_EXTENSION_SURFACES = 7"
    by code_simp+
  then have device: "device_row_ok ?device"
    using row(1) v fresh(3) by (simp add: device_row_ok_def new_device_def pairing_row_ok_def)
  define reg1 where "reg1 = reg\<lparr>rg_devices := rg_devices reg @ [?device]\<rparr>"
  define reg2 where "reg2 = reg1\<lparr>rg_assignments := rg_assignments reg @ [?a]\<rparr>"
  have unused: "\<forall>e \<in> set (rg_devices reg). dv_id e \<noteq> deviceId \<and> dv_tokenHash e \<noteq> sha ?token"
    using fresh(1, 2) by (metis image_eqI)
  have 1: "insert_device reg ?device = Inr reg1"
    using device unused by (simp add: insert_device_def reg1_def list_ex_iff new_device_def)
  have "ba_deviceId a \<noteq> deviceId" if "a \<in> set (rg_assignments reg)" for a
    using ok that fresh(1) by (auto simp: registry_ok_def)
  then have 2: "insert_assignment reg1 ?a = Inr reg2"
    using row(2) by (auto simp: insert_assignment_def reg1_def reg2_def list_ex_iff new_device_def pairing_refs_ok_def)
  have allowed: "pairing_update_allowed reg2 q (q\<lparr>pg_consumedAt := Some now, pg_deviceId := Some deviceId\<rparr>)"
    if "q \<in> set (rg_pairings reg)" "pg_id q = pg_id pairing" for q
    using row that inj_onD [OF keys(2), of q pairing] p(1)
    by (auto simp: pairing_update_allowed_def pairing_row_ok_def pairing_refs_ok_def reg2_def reg1_def list_ex_iff new_device_def)
  have "pairing \<in> set (filter (\<lambda>q. pg_id q = pg_id pairing \<and> pg_consumedAt q = None) (rg_pairings reg))"
    using p(1) free(1) by simp
  then obtain reg3 x xs where 3: "update_pairings reg2 (\<lambda>q. pg_id q = pg_id pairing \<and> pg_consumedAt q = None)
      (\<lambda>q. q\<lparr>pg_consumedAt := Some now, pg_deviceId := Some deviceId\<rparr>) = Inr (reg3, x # xs)"
    using allowed
    by (cases "filter (\<lambda>q. pg_id q = pg_id pairing \<and> pg_consumedAt q = None) (rg_pairings reg)")
      (auto simp: update_pairings_def reg2_def reg1_def list_all_iff)
  have "boundedText (Some (JStr code)) ''code'' 200 = Inr (js_trim code)" using c by (simp add: boundedText_Inr)
  then show ?thesis
    using find free v(1) 1 2 3
    by (simp add: consumeBrowserRunnerPairing_def resolvePairingConsumption_def Let_def)
qed

lemma bearer_accepted:
  assumes "token = ''yrd_'' @ tokenText" and "length tokenText = 43" and "list_all device_token_char tokenText"
  shows "bearerToken (Some (''Bearer '' @ token)) = Inr token" "js_starts ''yrd_'' token" "DEVICE_TOKEN_PATTERN token"
    "js_trim token = token"
proof -
  have solid: "list_all (\<lambda>c. \<not> js_space c) token"
    using assms(1, 3) solid_chars(1) by (auto simp: list_all_iff js_space_def)
  then show trim: "js_trim token = token" by (rule js_trim_solid)
  show "js_starts ''yrd_'' token" "DEVICE_TOKEN_PATTERN token"
    using assms by (simp_all add: DEVICE_TOKEN_PATTERN_def)
  have lower: "map ascii_lower ''Bearer'' = ''bearer''" by code_simp
  have "strip_ci ''bearer'' (''Bearer '' @ token) = Some (''Bearer'', CHR '' '' # token)"
    using lower by (simp add: strip_ci_def)
  moreover have "\<not> list_ex (\<lambda>c. (of_char c :: nat) \<in> {10, 13}) (dropWhile js_space token)"
    using solid by (auto simp: list_ex_iff list_all_iff js_space_def dest!: set_dropWhileD)
  moreover have "length token = 47" using assms(1, 2) by simp
  ultimately show "bearerToken (Some (''Bearer '' @ token)) = Inr token"
    using trim by (simp add: bearerToken_def js_space_def)
qed

lemma authorized_surfaces_Inr:
  "authorized_surfaces acc ss = Inr out \<longleftrightarrow>
     out = acc @ ss \<and> (\<forall>s \<in> set ss. isBrowserExtensionSurface s) \<and> distinct ss \<and> set acc \<inter> set ss = {}"
  by (induction acc ss rule: authorized_surfaces.induct) auto

lemma paired_device_authenticates:
  assumes ok: "registry_ok reg"
    and c: "consumeBrowserRunnerPairing sha deviceId tokenText code h now reg = Inr (reg', device, token, brands)"
    and "length tokenText = 43" "list_all device_token_char tokenText"
  shows "authenticateBrowserRunnerDevice sha collate token reg' = Some (device, brands)"
proof -
  obtain pairing where p: "brands = [pg_brandId pairing]" "token = ''yrd_'' @ tokenText"
    and d: "dv_id device = deviceId" "dv_tokenHash device = sha token" "dv_revokedAt device = None"
      "deviceId \<notin> dv_id ` set (rg_devices reg)"
    and made: "reg' = paired reg pairing device"
    by (rule device_made [OF c ok])
  have "ba_deviceId a \<noteq> deviceId" if "a \<in> set (rg_assignments reg)" for a
    using ok that d(4) by (auto simp: registry_ok_def)
  then have "device_brands reg' (dv_id device) = [pg_brandId pairing]"
    by (auto simp: made paired_def d(1) device_brands_def filter_empty_conv)
  moreover have "device \<in> set (rg_devices reg')" by (simp add: made paired_def)
  ultimately have "authenticateBrowserRunnerDevice sha collate token reg' =
      (if dv_revokedAt device = None then Some (device, [pg_brandId pairing]) else None)"
    using d(2) bearer_accepted(3) [OF p(2) assms(3, 4)] by (intro authenticate_found [OF consume_ok [OF c ok]]) simp_all
  then show ?thesis using d(3) p(1) by simp
qed

lemma reported_ready:
  assumes "reported n" and "dv_readiness device = n"
  shows "filter (surface_ready device) BROWSER_EXTENSION_SURFACES = readySurfaces n"
proof -
  have "surface_ready device s \<longleftrightarrow> (case map_of n s of None \<Rightarrow> False | Some r \<Rightarrow> sr_status r = Ready)"
    if s: "s \<in> set BROWSER_EXTENSION_SURFACES" for s
    using assms current_version_identifier(3) [OF s]
    by (auto simp: surface_ready_def reported_def dest!: map_of_SomeD split: option.split)
  then show ?thesis unfolding readySurfaces_def by (intro filter_cong) auto
qed

text \<open>
  C25: an extension that sends its heartbeat with a valid, unused pairing code is paired; what the portal
  answers is a configuration the extension accepts and stores; and the token in it authenticates the
  extension at once, for the pairing's brand and with the surfaces that are ready in its own eyes. Of the
  random id and token it assumes that they are fresh and that no administrator key has the token's hash.
\<close>

theorem paired_extension_is_let_in:
  assumes "buildHeartbeat userAgent readiness = Inr h"
    and "identifier_text (hb_browserVersion h)" and "length (hb_browserVersion h) \<le> 100"
    and "registry_ok reg" and "pairing \<in> set (rg_pairings reg)" and "pg_codeHash pairing = sha (js_trim code)"
    and "pg_consumedAt pairing = None" and "now < pg_expiresAt pairing"
    and "1 \<le> length (js_trim code)" and "length (js_trim code) \<le> 200" and "plain_text 200 (pg_brandId pairing)"
    and "deviceId \<notin> dv_id ` set (rg_devices reg)" and "validRunnerId (Some deviceId)"
    and "token = ''yrd_'' @ tokenText" and "length tokenText = 43" and "list_all device_token_char tokenText"
    and "sha token \<notin> dv_tokenHash ` set (rg_devices reg)" and "hex64 (sha token)"
    and "browserRunnerFeatureEnabled settings" and "sha token \<notin> sha ` set (configuredAdminTokens settings)"
  shows "\<exists>reg' response config.
    pairBrowserRunnerDevice sha settings deviceId tokenText now (pair_body code h) reg = Inr (reg', response) \<and>
    validateDevice (paired_config_json response) = Inr config \<and>
    authenticateRunnerRequest sha collate settings (Some (authorization_header config)) reg' = Inr
      \<lparr>bp_kind = ExtensionPrincipal, bp_id = deviceId, bp_market = ''CN'', bp_locale = ''zh-CN'',
       bp_timezone = ''Asia/Shanghai'', bp_allowedBrandIds = [pg_brandId pairing],
       bp_supportedSurfaces = BROWSER_EXTENSION_SURFACES,
       bp_readySurfaces = readySurfaces (normalizeSurfaceReadiness (readiness_json readiness))\<rparr>"
proof -
  note accepted = heartbeat_accepted [OF assms(1-3)]
  let ?v = "\<lparr>vh_extensionVersion = REQUIRED_BROWSER_EXTENSION_VERSION, vh_browserFamily = ''chrome'',
       vh_browserVersion = hb_browserVersion h, vh_platform = hb_platform h,
       vh_supportedSurfaces = BROWSER_EXTENSION_SURFACES,
       vh_readiness = normalizeSurfaceReadiness (readiness_json readiness)\<rparr>"
  let ?d = "new_device deviceId (sha token) pairing ?v now"
  let ?r = "\<lparr>pa_deviceId = deviceId, pa_deviceToken = token, pa_allowedBrandIds = [pg_brandId pairing]\<rparr>"
  let ?c = "\<lparr>dc_deviceId = deviceId, dc_deviceToken = token, dc_allowedBrandIds = [pg_brandId pairing]\<rparr>"
  note bearer = bearer_accepted [OF assms(14-16)]
  have "\<exists>reg'. consumeBrowserRunnerPairing sha deviceId tokenText (js_trim code) h now reg =
      Inr (reg', ?d, token, [pg_brandId pairing])"
    unfolding assms(14) using assms(4-10, 12, 17, 18) built_heartbeat(3) [OF assms(1)]
    by (intro consume_accepted [OF _ _ _ _ _ _ _ accepted(3)]) (simp_all add: assms(14))
  then obtain reg' where consumed: "consumeBrowserRunnerPairing sha deviceId tokenText (js_trim code) h now reg =
      Inr (reg', ?d, token, [pg_brandId pairing])" by blast
  have paired: "pairBrowserRunnerDevice sha settings deviceId tokenText now (pair_body code h) reg = Inr (reg', ?r)"
    using accepted(2) [OF assms(9, 10)] assms(19) consumed
    by (simp add: pairBrowserRunnerDevice_def assertBrowserRunnerFeatureEnabled_def new_device_def)
  have "list_all (\<lambda>c. \<not> js_space c) deviceId" "deviceId \<noteq> []" "length deviceId \<le> 200"
    using assms(13) solid_chars(3) by (auto simp: validRunnerId_def list_all_iff)
  moreover have "length token = 47" "token \<noteq> []" using assms(14, 15) by simp_all
  ultimately have config: "validateDevice (paired_config_json ?r) = Inr ?c"
    using bearer(3, 4) assms(11)
    by (simp add: validateDevice_def paired_config_json_def field_def storage_requiredText_def js_trim_solid plain_text_def
        bindE_def requireSome_def Let_def PORTAL_ORIGIN_def)
  have "authenticateBrowserRunnerDevice sha collate token reg' = Some (?d, [pg_brandId pairing])"
    by (rule paired_device_authenticates [OF assms(4) consumed assms(15, 16)])
  moreover have "authorized_surfaces [] BROWSER_EXTENSION_SURFACES = Inr BROWSER_EXTENSION_SURFACES" "BROWSER_EXTENSION_SURFACES \<noteq> []"
    by (simp_all add: authorized_surfaces_Inr surfaces_member surfaces_distinct) (simp add: BROWSER_EXTENSION_SURFACES_def)
  moreover have "filter (surface_ready ?d) BROWSER_EXTENSION_SURFACES =
      readySurfaces (normalizeSurfaceReadiness (readiness_json readiness))"
    by (rule reported_ready [OF normalized_reported]) (simp add: new_device_def)
  moreover have "\<not> list_ex (\<lambda>t. equalToken sha t token) (configuredAdminTokens settings)"
    using assms(20) by (metis (mono_tags, lifting) equalToken_def image_eqI list_ex_iff)
  moreover have "authorization_header ?c = ''Bearer '' @ token" by (simp add: authorization_header_def)
  ultimately have "authenticateRunnerRequest sha collate settings (Some (authorization_header ?c)) reg' = Inr
      \<lparr>bp_kind = ExtensionPrincipal, bp_id = deviceId, bp_market = ''CN'', bp_locale = ''zh-CN'',
       bp_timezone = ''Asia/Shanghai'', bp_allowedBrandIds = [pg_brandId pairing],
       bp_supportedSurfaces = BROWSER_EXTENSION_SURFACES,
       bp_readySurfaces = readySurfaces (normalizeSurfaceReadiness (readiness_json readiness))\<rparr>"
    using bearer(1, 2) assms(13, 19)
    by (simp add: authenticateRunnerRequest_def device_principal_def new_device_def Let_def)
  then show ?thesis using paired config by blast
qed

lemma extension_principal:
  assumes "authenticateRunnerRequest sha collate settings authorization reg = Inr runner"
    and "bp_kind runner = ExtensionPrincipal" and ok: "registry_ok reg"
  obtains token d p where "bearerToken authorization = Inr token" "sha token \<notin> sha ` set (configuredAdminTokens settings)"
    "d \<in> set (rg_devices reg)" "dv_tokenHash d = sha token" "dv_revokedAt d = None" "bp_id runner = dv_id d"
    "p \<in> set (rg_pairings reg)" "pg_deviceId p = Some (dv_id d)" "bp_allowedBrandIds runner = [pg_brandId p]"
    "bp_supportedSurfaces runner = dv_supportedSurfaces d"
    "bp_readySurfaces runner = (if dv_extensionVersion d = REQUIRED_BROWSER_EXTENSION_VERSION
       then filter (surface_ready d) (dv_supportedSurfaces d) else [])"
proof -
  obtain token where b: "bearerToken authorization = Inr token"
    and branch: "(if js_starts ''yrd_'' token then
        (if list_ex (\<lambda>t. equalToken sha t token) (configuredAdminTokens settings) then Inl unauthorized
         else
         case authenticateBrowserRunnerDevice sha collate token reg of
           None \<Rightarrow> Inl unauthorized
         | Some (device, allowedBrandIds) \<Rightarrow>
             if dv_revokedAt device \<noteq> None then Inl unauthorized
             else device_principal device allowedBrandIds)
      else requireLegacyBrowserRunner sha settings token) = Inr runner"
    using assms(1) by (auto simp: authenticateRunnerRequest_def bindE_Inr_iff split: if_splits)
  have "bp_kind r = LegacyHost" if "requireLegacyBrowserRunner sha settings token = Inr r" for r
    using that by (auto simp: requireLegacyBrowserRunner_def split: if_splits option.splits)
  then have y: "js_starts ''yrd_'' token" using branch assms(2) by (auto split: if_splits)
  obtain d brands where a: "authenticateBrowserRunnerDevice sha collate token reg = Some (d, brands)"
    and admins: "\<forall>t \<in> set (configuredAdminTokens settings). sha t \<noteq> sha token" and dp: "device_principal d brands = Inr runner"
    using branch y by (auto simp: list_ex_iff equalToken_def split: if_splits option.splits)
  have admin: "sha token \<notin> sha ` set (configuredAdminTokens settings)" using admins by force
  from a have d: "d \<in> set (rg_devices reg)" "dv_tokenHash d = sha token" "dv_revokedAt d = None"
    and brands: "brands = sort_cmp collate (device_brands reg (dv_id d))"
    by (auto simp: authenticateBrowserRunnerDevice_def split: if_splits option.splits dest!: find_SomeD)
  obtain p where p: "p \<in> set (rg_pairings reg)" "pg_deviceId p = Some (dv_id d)" "device_brands reg (dv_id d) = [pg_brandId p]"
    using ok d(1) by (auto simp: registry_ok_def paired_device_def)
  from dp have "bp_id runner = dv_id d" "bp_allowedBrandIds runner = brands"
    "bp_supportedSurfaces runner = dv_supportedSurfaces d"
    "bp_readySurfaces runner = (if dv_extensionVersion d = REQUIRED_BROWSER_EXTENSION_VERSION
       then filter (surface_ready d) (dv_supportedSurfaces d) else [])"
    by (auto simp: device_principal_def bindE_Inr_iff authorized_surfaces_Inr Let_def split: if_splits)
  then show thesis using b admin d p brands by (intro that [of token d p]) (simp_all add: sort_cmp_def)
qed

text \<open>
  C26: whoever the portal lets in as an extension presented the token of a registered device that is not
  revoked, and is let in for the brand of that device's pairing alone; a surface counts as ready only when
  the device declared it, runs the required version and reports it ready with the approved adapter. The
  token is not an administrator's key.
\<close>

theorem extension_principal_is_registered:
  assumes "authenticateRunnerRequest sha collate settings authorization reg = Inr runner"
    and "bp_kind runner = ExtensionPrincipal" and "registry_ok reg"
  shows "\<exists>token d p. bearerToken authorization = Inr token \<and> d \<in> set (rg_devices reg) \<and> dv_tokenHash d = sha token \<and>
    dv_revokedAt d = None \<and> bp_id runner = dv_id d \<and> p \<in> set (rg_pairings reg) \<and> pg_deviceId p = Some (dv_id d) \<and>
    bp_allowedBrandIds runner = [pg_brandId p] \<and> bp_supportedSurfaces runner = dv_supportedSurfaces d \<and>
    (\<forall>s \<in> set (bp_readySurfaces runner). s \<in> set (dv_supportedSurfaces d) \<and>
       dv_extensionVersion d = REQUIRED_BROWSER_EXTENSION_VERSION \<and>
       (\<exists>r. map_of (dv_readiness d) s = Some r \<and> sr_status r = Ready \<and>
          isApprovedBrowserExtensionAdapterVersion s (sr_adapterVersion r))) \<and>
    sha token \<notin> sha ` set (configuredAdminTokens settings)"
proof -
  obtain token d p where f: "bearerToken authorization = Inr token" "sha token \<notin> sha ` set (configuredAdminTokens settings)"
    "d \<in> set (rg_devices reg)" "dv_tokenHash d = sha token" "dv_revokedAt d = None" "bp_id runner = dv_id d"
    "p \<in> set (rg_pairings reg)" "pg_deviceId p = Some (dv_id d)" "bp_allowedBrandIds runner = [pg_brandId p]"
    "bp_supportedSurfaces runner = dv_supportedSurfaces d"
    and ready: "bp_readySurfaces runner = (if dv_extensionVersion d = REQUIRED_BROWSER_EXTENSION_VERSION
       then filter (surface_ready d) (dv_supportedSurfaces d) else [])"
    by (rule extension_principal [OF assms])
  have "\<forall>s \<in> set (bp_readySurfaces runner). s \<in> set (dv_supportedSurfaces d) \<and>
       dv_extensionVersion d = REQUIRED_BROWSER_EXTENSION_VERSION \<and>
       (\<exists>r. map_of (dv_readiness d) s = Some r \<and> sr_status r = Ready \<and>
          isApprovedBrowserExtensionAdapterVersion s (sr_adapterVersion r))"
    by (auto simp: ready surface_ready_def split: if_splits option.splits)
  with f show ?thesis by blast
qed

end
