(* ===== verification/DeviceExample.thy ===== *)
theory DeviceExample
  imports AccessResults
begin

text \<open>
  A registry with one brand, in which a browser is paired, and the concrete instances of the theorems on
  pairing and authentication.
\<close>

subsection \<open>A paired browser\<close>

text \<open>A hash that tells codes, tokens and other texts apart is enough for one code and one token.\<close>

definition device_sha :: "string \<Rightarrow> string" where
  "device_sha s = replicate 64 (if js_starts ''yrp_'' s then CHR ''b'' else if js_starts ''yrd_'' s then CHR ''d'' else CHR ''e'')"

definition example_settings :: runner_settings where
  "example_settings = \<lparr>re_enabled = Some ''true'', re_apiToken = None, re_runnerId = None, re_market = None,
     re_locale = None, re_timezone = None, re_adminApiKeys = Some ''key-one,key-two''\<rparr>"

definition example_brands :: registry where
  "example_brands = empty_registry\<lparr>rg_brands := [''b'']\<rparr>"

definition example_codeText :: string where "example_codeText = replicate 32 CHR ''c''"

definition example_tokenText :: string where "example_tokenText = replicate 43 CHR ''t''"

definition example_code :: string where "example_code = ''yrp_'' @ example_codeText"

definition example_token :: string where "example_token = ''yrd_'' @ example_tokenText"

definition example_readiness :: "(string \<times> surface_readiness) list" where
  "example_readiness = [(''kimi.consumer_web'', \<lparr>sr_status = Ready,
     sr_adapterVersion = CURRENT_ADAPTER_VERSIONS ''kimi.consumer_web'', sr_activeConcurrency = 0\<rparr>)]"

definition example_userAgent :: string where
  "example_userAgent = ''Mozilla/5.0 (Windows NT 10.0) Chrome/139.0.0.0 Safari''"

definition example_reported :: "(string \<times> surface_readiness) list" where
  "example_reported = map (\<lambda>s. (s, \<lparr>sr_status = (if s = ''kimi.consumer_web'' then Ready else Unavailable),
     sr_adapterVersion = CURRENT_ADAPTER_VERSIONS s, sr_activeConcurrency = 0\<rparr>)) BROWSER_EXTENSION_SURFACES"

definition example_heartbeat :: device_heartbeat where
  "example_heartbeat = \<lparr>hb_extensionVersion = ''0.3.30'', hb_browserFamily = ''chrome'', hb_browserVersion = ''139.0.0.0'',
     hb_platform = ''windows'', hb_supportedSurfaces = BROWSER_EXTENSION_SURFACES,
     hb_readiness = readiness_json example_reported\<rparr>"

definition example_pairing :: pairing_row where
  "example_pairing = \<lparr>pg_id = ''p'', pg_codeHash = replicate 64 CHR ''b'', pg_displayName = ''Desk'', pg_brandId = ''b'',
     pg_createdBy = ''u'', pg_expiresAt = 900000, pg_consumedAt = None, pg_deviceId = None, pg_createdAt = 0\<rparr>"

definition example_created :: registry where
  "example_created = example_brands\<lparr>rg_pairings := [example_pairing]\<rparr>"

definition example_device :: device_row where
  "example_device = \<lparr>dv_id = ''dev'', dv_displayName = ''Desk'', dv_tokenHash = replicate 64 CHR ''d'',
     dv_extensionVersion = ''0.3.30'', dv_browserFamily = ''chrome'', dv_browserVersion = ''139.0.0.0'',
     dv_platform = ''windows'', dv_supportedSurfaces = BROWSER_EXTENSION_SURFACES, dv_readiness = example_reported,
     dv_lastSeenAt = Some 1000, dv_revokedAt = None, dv_createdBy = ''u'', dv_createdAt = 1000, dv_updatedAt = 1000\<rparr>"

definition example_paired :: registry where
  "example_paired = example_brands
     \<lparr>rg_pairings := [example_pairing\<lparr>pg_consumedAt := Some 1000, pg_deviceId := Some ''dev''\<rparr>],
      rg_devices := [example_device],
      rg_assignments := [\<lparr>ba_deviceId = ''dev'', ba_brandId = ''b'', ba_assignedBy = ''u'', ba_createdAt = 1000\<rparr>]\<rparr>"

definition example_revoked :: registry where
  "example_revoked = example_paired\<lparr>rg_devices := [example_device\<lparr>dv_revokedAt := Some 2000, dv_updatedAt := 2000\<rparr>]\<rparr>"

lemma example_built: "buildHeartbeat example_userAgent example_readiness = Inr example_heartbeat"
  by code_simp

lemma example_creates:
  "createBrowserRunnerPairing device_sha ''p'' example_codeText ''Desk'' ''b'' ''u'' 0 example_brands =
     Inr (example_created, ''p'', example_code, 900000)"
  by code_simp

lemma example_pairs:
  "consumeBrowserRunnerPairing device_sha ''dev'' example_tokenText example_code example_heartbeat 1000 example_created =
     Inr (example_paired, example_device, example_token, [''b''])"
  by code_simp

lemma example_revokes: "revokeBrowserRunnerDevice ''dev'' 2000 example_paired = Inr example_revoked"
  by code_simp

lemma example_steps:
  "registry_step device_sha empty_registry example_brands" "registry_step device_sha example_brands example_created"
  "registry_step device_sha example_created example_paired" "registry_step device_sha example_paired example_revoked"
proof -
  show "registry_step device_sha empty_registry example_brands"
    by (rule registry_step.elsewhere [where brands = "[''b'']"]) (simp_all add: example_brands_def empty_registry_def)
  show "registry_step device_sha example_brands example_created" by (rule registry_step.create [OF example_creates])
  show "registry_step device_sha example_created example_paired" by (rule registry_step.consume [OF example_pairs])
  show "registry_step device_sha example_paired example_revoked" by (rule registry_step.revoke [OF example_revokes])
qed

lemma registry_example_reached:
  "(registry_step device_sha)\<^sup>*\<^sup>* empty_registry example_created" "(registry_step device_sha)\<^sup>*\<^sup>* empty_registry example_revoked"
  "(registry_step device_sha)\<^sup>*\<^sup>* example_paired example_revoked"
  using example_steps by (meson converse_rtranclp_into_rtranclp rtranclp.rtrancl_refl)+

lemma empty_registry_ok: "registry_ok empty_registry"
  by (simp add: registry_ok_def registry_keys_ok_def empty_registry_def)

lemmas registry_example_ok = steps_registry_ok [OF registry_example_reached(1) empty_registry_ok]

subsection \<open>Instances\<close>

theorem registry_consistent_witness:
  "list_all device_row_ok (rg_devices example_revoked) \<and> rg_devices example_revoked \<noteq> []"
proof -
  have "rg_devices example_revoked \<noteq> []" by code_simp
  then show ?thesis using registry_consistent [OF registry_example_reached(2)] by (simp add: list_all_iff)
qed

theorem pairing_code_consumed_once_witness:
  "\<exists>e. consumeBrowserRunnerPairing device_sha ''dev2'' example_tokenText example_code example_heartbeat 3000 example_revoked = Inl e"
  using pairing_code_consumed_once [OF example_pairs registry_example_ok registry_example_reached(3)] by blast

theorem token_authenticates_until_revoked_witness:
  "\<exists>d \<in> set (rg_devices example_paired). dv_id d = ''dev'' \<and>
     authenticateBrowserRunnerDevice device_sha code_unit_compare example_token example_paired =
       (if dv_revokedAt d = None then Some (d, [''b'']) else None)"
proof -
  have "length example_tokenText = 43" "list_all device_token_char example_tokenText" by code_simp+
  from token_authenticates_until_revoked [OF example_pairs registry_example_ok _ this] show ?thesis by blast
qed

theorem revoked_token_rejected_witness:
  "authenticateBrowserRunnerDevice device_sha code_unit_compare example_token example_revoked = None"
proof -
  have "example_device \<in> set (rg_devices example_paired)" by code_simp
  moreover have "dv_id example_device = ''dev''" "device_sha example_token = dv_tokenHash example_device" by code_simp+
  ultimately show ?thesis
    using revoked_token_rejected [OF example_revokes step_registry_ok [OF example_steps(3) registry_example_ok] rtranclp.rtrancl_refl]
    by blast
qed

theorem paired_extension_is_let_in_witness:
  "\<exists>reg' response config.
     pairBrowserRunnerDevice device_sha example_settings ''dev'' example_tokenText 1000 (pair_body example_code example_heartbeat)
       example_created = Inr (reg', response) \<and>
     validateDevice (paired_config_json response) = Inr config \<and>
     map_sum id bp_readySurfaces
       (authenticateRunnerRequest device_sha code_unit_compare example_settings (Some (authorization_header config)) reg') =
       Inr [''kimi.consumer_web'']"
proof -
  let ?p = example_pairing
  have facts: "identifier_text (hb_browserVersion example_heartbeat)" "length (hb_browserVersion example_heartbeat) \<le> 100"
    "?p \<in> set (rg_pairings example_created)" "pg_codeHash ?p = device_sha (js_trim example_code)"
    "pg_consumedAt ?p = None" "1000 < pg_expiresAt ?p" "1 \<le> length (js_trim example_code)" "length (js_trim example_code) \<le> 200"
    "plain_text 200 (pg_brandId ?p)" "''dev'' \<notin> dv_id ` set (rg_devices example_created)" "validRunnerId (Some ''dev'')"
    "example_token = ''yrd_'' @ example_tokenText" "length example_tokenText = 43" "list_all device_token_char example_tokenText"
    "device_sha example_token \<notin> dv_tokenHash ` set (rg_devices example_created)" "hex64 (device_sha example_token)"
    "browserRunnerFeatureEnabled example_settings"
    "device_sha example_token \<notin> device_sha ` set (configuredAdminTokens example_settings)"
    by code_simp+
  have "readySurfaces (normalizeSurfaceReadiness (readiness_json example_readiness)) = [''kimi.consumer_web'']" by code_simp
  then show ?thesis
    using paired_extension_is_let_in [OF example_built facts(1, 2) registry_example_ok facts(3-18), of code_unit_compare] by auto
qed

theorem extension_principal_is_registered_witness:
  "\<exists>runner. authenticateRunnerRequest device_sha code_unit_compare example_settings (Some (''Bearer '' @ example_token)) example_paired =
     Inr runner \<and> bp_id runner = ''dev'' \<and> bp_allowedBrandIds runner = [''b'']"
proof -
  define r where "r =
    \<lparr>bp_kind = ExtensionPrincipal, bp_id = ''dev'', bp_market = ''CN'', bp_locale = ''zh-CN'', bp_timezone = ''Asia/Shanghai'',
     bp_allowedBrandIds = [''b''], bp_supportedSurfaces = BROWSER_EXTENSION_SURFACES, bp_readySurfaces = [''kimi.consumer_web'']\<rparr>"
  have r: "authenticateRunnerRequest device_sha code_unit_compare example_settings (Some (''Bearer '' @ example_token)) example_paired = Inr r"
    "bp_kind r = ExtensionPrincipal"
    unfolding r_def by code_simp+
  have "list_all (\<lambda>d. dv_id d = ''dev'') (rg_devices example_paired)" "list_all (\<lambda>p. pg_brandId p = ''b'') (rg_pairings example_paired)"
    by code_simp+
  then show ?thesis
    using r extension_principal_is_registered [OF r step_registry_ok [OF example_steps(3) registry_example_ok]]
    by (auto simp: list_all_iff)
qed

end
