(* ===== verification/Tenancy.thy ===== *)
theory Tenancy
  imports AccessResults
begin

text \<open>
  Brands are the portal's tenants. Every task belongs to the brand of its batch, in every reachable
  database, and a request of a runner changes rows of the brand it names only, and of a brand that an
  extension's device is paired for.
\<close>

subsection \<open>Rows of other brands\<close>

definition confined :: "string \<Rightarrow> database \<Rightarrow> database \<Rightarrow> bool" where
  "confined B db db' \<longleftrightarrow>
     filter (\<lambda>t. pl_brandId t \<noteq> B) (d_tasks db') = filter (\<lambda>t. pl_brandId t \<noteq> B) (d_tasks db) \<and>
     filter (\<lambda>b. b_brandId b \<noteq> B) (d_batches db') = filter (\<lambda>b. b_brandId b \<noteq> B) (d_batches db)"

lemma confined_refl [simp]: "confined B db db"
  by (simp add: confined_def)

lemma confined_trans: "confined B db db1 \<Longrightarrow> confined B db1 db2 \<Longrightarrow> confined B db db2"
  by (simp add: confined_def)

context guarded_table begin

lemma untouched:
  assumes "update db p f = Inr (db', out)" and "\<And>r. r \<in> set (rows db) \<Longrightarrow> p r \<Longrightarrow> \<not> Q r \<and> \<not> Q (f r)"
  shows "filter Q (rows db') = filter Q (rows db)"
proof -
  have "filter Q (set_where p f rs) = filter Q rs" if "\<forall>r \<in> set rs. p r \<longrightarrow> \<not> Q r \<and> \<not> Q (f r)" for rs
    using that by (induction rs) (auto simp: set_where_def)
  then show ?thesis using assms(2) by (simp add: update_rows [OF assms(1)])
qed

end

text \<open>What an id stands for belongs to the brand, whatever rows of the brand are changed.\<close>

definition task_of :: "string \<Rightarrow> string \<Rightarrow> database \<Rightarrow> bool" where
  "task_of B i db \<longleftrightarrow> (\<forall>t \<in> set (d_tasks db). t_id t = i \<longrightarrow> pl_brandId t = B)"

definition batch_of :: "string \<Rightarrow> string \<Rightarrow> database \<Rightarrow> bool" where
  "batch_of B i db \<longleftrightarrow> (\<forall>b \<in> set (d_batches db). b_id b = i \<longrightarrow> b_brandId b = B) \<and>
     (\<forall>t \<in> set (d_tasks db). t_batchId t = i \<longrightarrow> pl_brandId t = B)"

lemma confined_members:
  assumes "confined B db db'"
  shows "t \<in> set (d_tasks db') \<Longrightarrow> pl_brandId t \<noteq> B \<Longrightarrow> t \<in> set (d_tasks db)"
    and "b \<in> set (d_batches db') \<Longrightarrow> b_brandId b \<noteq> B \<Longrightarrow> b \<in> set (d_batches db)"
  using assms by (auto simp: confined_def dest!: filter_eq_iff [THEN iffD1] arg_cong [where f = set])

lemma task_of_confined: "confined B db db' \<Longrightarrow> task_of B i db \<Longrightarrow> task_of B i db'"
  unfolding task_of_def by (metis confined_members(1))

lemma batch_of_confined: "confined B db db' \<Longrightarrow> batch_of B i db \<Longrightarrow> batch_of B i db'"
  using confined_members by (simp add: batch_of_def) metis

lemma confined_tasks:
  assumes "update_tasks db p f = Inr (db', out)" and "\<And>t. pl_brandId (f t) = pl_brandId t"
    and "\<And>t. t \<in> set (d_tasks db) \<Longrightarrow> p t \<Longrightarrow> pl_brandId t = B"
  shows "confined B db db'"
  using task_table.untouched [OF assms(1), of "\<lambda>t. pl_brandId t \<noteq> B"] assms(2,3)
  by (simp add: confined_def update_tasks_InrD(1) [OF assms(1)])

lemma confined_task:
  assumes "update_tasks db p f = Inr (db', out)" and "\<And>t. pl_brandId (f t) = pl_brandId t"
    and "\<And>t. p t \<Longrightarrow> t_id t = i" and "task_of B i db"
  shows "confined B db db'"
  using assms by (intro confined_tasks [OF assms(1,2)]) (auto simp: task_of_def)

lemma confined_batch:
  assumes "update_batches db q g = Inr (db', out)" and "\<And>b. b_brandId (g b) = b_brandId b"
    and "\<And>b. q b \<Longrightarrow> b_id b = i" and "batch_of B i db"
  shows "confined B db db'"
  using batch_table.untouched [OF assms(1), of "\<lambda>b. b_brandId b \<noteq> B"] assms(2-4)
  by (auto simp: confined_def batch_of_def update_batches_InrD(1) [OF assms(1)])

subsection \<open>Owners in a sound database\<close>

definition sound :: "database \<Rightarrow> bool" where
  "sound db \<longleftrightarrow> db_ok db \<and> tenancy db"

lemma sound_steps: "db_steps db db' \<Longrightarrow> sound db \<Longrightarrow> sound db'"
  using db_steps_ok db_steps_tenancy by (simp add: sound_def)

lemma sound_task: "sound db \<Longrightarrow> t \<in> set (d_tasks db) \<Longrightarrow> task_of (pl_brandId t) (t_id t) db"
  using same_id_same_task unfolding sound_def task_of_def by metis

lemma sound_batch: "sound db \<Longrightarrow> b \<in> set (d_batches db) \<Longrightarrow> batch_of (b_brandId b) (b_id b) db"
  unfolding batch_of_def sound_def tenancy_def using same_id_same_batch by metis

lemma sound_task_batch:
  assumes "sound db" and "t \<in> set (d_tasks db)"
  shows "batch_of (pl_brandId t) (t_batchId t) db"
proof -
  obtain b where "b \<in> set (d_batches db)" "b_id b = t_batchId t" "b_brandId b = pl_brandId t"
    using assms by (auto simp: sound_def tenancy_def)
  with sound_batch [OF assms(1)] show ?thesis by metis
qed

subsection \<open>The operations of a runner\<close>

lemma refresh_confined:
  assumes "refreshBrowserRunnerBatchState db i now = Inr db'" and "batch_of B i db"
  shows "confined B db db'"
  using assms
  by (auto simp: refreshBrowserRunnerBatchState_def thrown_simps Let_def intro: confined_batch [where i = i])

lemma park_confined:
  assumes "park_candidate db i t code reason m r = Inr db'" and "task_of B (t_id t) db" and "batch_of B i db"
  shows "confined B db db'"
proof -
  obtain db1 where p: "markTaskNeedsHuman db t code reason m = Inr db1" "refreshBrowserRunnerBatchState db1 i r = Inr db'"
    using assms(1) by (auto simp: park_candidate_def thrown_simps)
  have w: "confined B db db1"
    using p(1) assms(2)
    by (auto simp: markTaskNeedsHuman_def thrown_simps to_needs_human_def intro: confined_task [where i = "t_id t"])
  from confined_trans [OF w refresh_confined [OF p(2) batch_of_confined [OF w assms(3)]]] show ?thesis .
qed

lemma expire_window_confined:
  assumes "expire_window_tasks now tasks n db = Inr (db', k)" and "\<forall>t \<in> set tasks. task_of B (t_id t) db"
  shows "confined B db db'"
  using assms
proof (induction now tasks n db rule: expire_window_tasks.induct)
  case (2 now task tasks n db)
  show ?case
  proof (cases "t_status task = TaskClaimed \<and> live_lease task now")
    case False
    with 2(3) obtain db1 out where
      u: "update_tasks db (\<lambda>t. t_id t = t_id task \<and> t_status t = t_status task \<and>
             t_automationStatus t = t_automationStatus task \<and> t_leaseGeneration t = t_leaseGeneration task)
          (to_needs_human ''BrowserRunnerWindowExpired'' (window_expired_code task)
             (window_expired_reason task) now) = Inr (db1, out)"
      and r: "expire_window_tasks now tasks (if out = [] then n else n + 1) db1 = Inr (db', k)"
      by (auto simp: thrown_simps)
    have w: "confined B db db1"
      by (rule confined_task [OF u, where i = "t_id task"]) (use 2(4) in \<open>auto simp: to_needs_human_def\<close>)
    with 2(4) have "\<forall>t \<in> set tasks. task_of B (t_id t) db1" using task_of_confined by auto
    with 2(2) [OF False] r have "confined B db1 db'" by simp
    with w show ?thesis by (rule confined_trans)
  qed (use 2 in simp)
qed simp

lemma reconcile_expired_confined:
  assumes "reconcile_expired_batch other now at' B batchId db = Inr (db', k)" and s: "sound db"
  shows "confined B db db'"
proof (cases "db' = db")
  case False
  then obtain batch ts db1 k' where b: "find_batch db B batchId = Some batch"
    and ts: "ts = filter (\<lambda>t. t_batchId t = b_id batch \<and> (t_status t = TaskAvailable \<or> t_status t = TaskClaimed) \<and>
                 (t_automationStatus t = Some AutoQueued \<or> t_automationStatus t = Some AutoRunning)) (d_tasks db)"
    and e: "expire_window_tasks now ts 0 db = Inr (db1, k')" and r: "refreshBrowserRunnerBatchState db1 (b_id batch) at' = Inr db'"
    using assms(1) by (auto simp: reconcile_expired_batch_def thrown_simps split: option.splits if_splits)
  have of: "batch_of B (b_id batch) db" using sound_batch [OF s] find_batch_Some [OF b] by metis
  have "\<forall>t \<in> set ts. task_of B (t_id t) db" using sound_task [OF s] of by (auto simp: ts batch_of_def)
  then have w: "confined B db db1" by (rule expire_window_confined [OF e])
  from w refresh_confined [OF r batch_of_confined [OF w of]] show ?thesis by (rule confined_trans)
qed simp

lemma reconcile_each_confined:
  "sound db \<Longrightarrow> confined B db (fst (reconcile_expired_each other clock B cs n k db))"
proof (induction other clock B cs n k db rule: reconcile_expired_each.induct)
  case (2 other clock B c cs n k db)
  show ?case
  proof (cases "reconcile_expired_batch other (clock (2 * n)) (clock (2 * n + 1)) B c db")
    case (Inr r)
    obtain db1 m where r: "reconcile_expired_batch other (clock (2 * n)) (clock (2 * n + 1)) B c db = Inr (db1, m)"
      using Inr by (cases r) simp
    have "confined B db1 (fst (reconcile_expired_each other clock B cs (Suc n) (k + m) db1))"
      using 2 r sound_steps [OF reconcile_expired_batch_steps [OF r]] by simp
    with reconcile_expired_confined [OF r 2(2)] show ?thesis
      using r by (auto intro: confined_trans)
  qed simp
qed simp

lemma claim_loop_confined:
  assumes "runner_claim_loop sha clock now locked token runnerId d targets batch e n db = Some (Inr (db', r))"
    and "sound db" and "batch_of B (b_id batch) db"
  shows "confined B db db'"
  using assms
proof (induction "waiting locked now targets batch db" arbitrary: n db rule: less_induct)
  case less
  let ?loop = "runner_claim_loop sha clock now locked token runnerId d targets batch e"
  show ?case
  proof (cases "first_unlocked locked (runner_claimable targets (b_id batch) now) db")
    case None
    with less(2) show ?thesis by (simp add: runner_claim_loop.simps [of _ _ _ _ _ _ _ _ _ _ _ db])
  next
    case (Some c)
    note first = first_unlocked_Some [OF Some]
    have c: "task_of B (t_id c) db"
      using sound_task [OF less(3) first(1)] first(1,2) less(4) by (auto simp: batch_of_def runner_claimable_def)
    have again: "confined B db db'"
      if p: "park_candidate db (b_id batch) c code reason m q = Inr db1"
        and l: "?loop (Suc n) db1 = Some (Inr (db', r))" for db1 code reason m q
    proof -
      have w: "confined B db db1" by (rule park_confined [OF p c less(4)])
      from w less(1) [OF park_candidate_waiting [OF p Some] l sound_steps [OF park_candidate_steps [OF p] less(3)]
          batch_of_confined [OF w less(4)]]
      show ?thesis by (rule confined_trans)
    qed
    show ?thesis
    proof (cases "expiredBrowserRunnerClaimNeedsHuman (t_status c) (t_automationStatus c) \<or>
        t_automationAttemptCount c \<ge> BROWSER_RUNNER_MAX_PRE_SUBMIT_ATTEMPTS")
      case True
      with less(2) Some again show ?thesis
        by (subst (asm) runner_claim_loop.simps) (auto split: if_splits sum.splits)
    next
      case False
      obtain db1 out where u: "runner_claim_update sha now token runnerId d e c db = Inr (db1, out)"
        using less(2) Some False by (subst (asm) runner_claim_loop.simps) (auto split: sum.splits)
      obtain f where f: "update_tasks db (\<lambda>t. t_id t = t_id c \<and> t_status t = t_status c \<and>
          t_leaseGeneration t = t_leaseGeneration c) f = Inr (db1, out)" "\<And>t. pl_brandId (f t) = pl_brandId t"
        using u by (auto simp: runner_claim_update_def thrown_simps)
      have w: "confined B db db1" by (rule confined_task [OF f, where i = "t_id c"]) (use c in auto)
      from update_tasks_InrD(2) [OF f(1)] first(1) obtain t ts where "out = t # ts"
        by (cases out) (auto simp: filter_empty_conv)
      moreover have "confined B db1 db'" if "update_batches db1 (\<lambda>b. b_id b = b_id batch \<and> b_status b = BatchFrozen)
          (\<lambda>b. b\<lparr>b_status := BatchInProgress\<rparr>) = Inr (db', chg)" for chg
        by (rule confined_batch [OF that, where i = "b_id batch"]) (use batch_of_confined [OF w less(4)] in auto)
      ultimately have "confined B db1 db'"
        using less(2) Some False u
        by (subst (asm) runner_claim_loop.simps) (auto simp: thrown_simps split: if_splits)
      with w show ?thesis by (rule confined_trans)
    qed
  qed
qed

lemma claim_batches_confined:
  "runner_claim_batches sha other clock now locked token runnerId d targets bs db = Some (Inr (db', r)) \<Longrightarrow>
   sound db \<Longrightarrow> \<forall>b \<in> set bs. batch_of B (b_id b) db \<Longrightarrow> confined B db db'"
proof (induction bs arbitrary: db)
  case (Cons b bs)
  obtain s e where w: "protocol_window other (b_protocol b) = Inr (s, e)"
    using Cons.prems(1) by (auto split: sum.splits)
  show ?case
  proof (cases "now < s \<or> now \<ge> e")
    case True
    with Cons w show ?thesis by simp
  next
    case False
    then obtain db1 c where l: "runner_claim_loop sha clock now locked token runnerId d targets b e 0 db =
        Some (Inr (db1, c))"
      and c: "c = None \<and> runner_claim_batches sha other clock now locked token runnerId d targets bs db1 =
        Some (Inr (db', r)) \<or> db' = db1"
      using Cons.prems(1) w by (auto split: option.splits sum.splits)
    have ok: "db_ok db" using Cons.prems(2) by (simp add: sound_def)
    have i: "confined B db db1" by (rule claim_loop_confined [OF l]) (use Cons.prems in auto)
    have "\<forall>b \<in> set bs. batch_of B (b_id b) db1" using Cons.prems(3) batch_of_confined [OF i] by auto
    with c Cons.IH [OF _ sound_steps [OF runner_claim_loop_steps [OF l ok] Cons.prems(2)]] i
    show ?thesis by (auto intro: confined_trans)
  qed
qed simp

lemma claim_confined:
  assumes s: "sound db"
  shows "confined (ri_brandId input) db (fst (claimBrowserRunnerTask sha other expiryClock clock now locked token input db))"
proof -
  let ?r = "reconcileExpiredBrowserRunnerBatches other expiryClock (ri_brandId input) db"
  have w: "confined (ri_brandId input) db (fst ?r)"
    using reconcile_each_confined [OF s] by (simp add: reconcileExpiredBrowserRunnerBatches_def)
  have s1: "sound (fst ?r)" by (rule sound_steps [OF reconcileExpiredBrowserRunnerBatches_steps s])
  have "confined (ri_brandId input) (fst ?r) db'"
    if "runner_claim_batches sha other clock now locked token i d ts (sort_key b_createdAt (filter (\<lambda>b.
          b_brandId b = ri_brandId input \<and> P b) (d_batches (fst ?r)))) (fst ?r) = Some (Inr (db', c))" for i d ts P db' c
    by (rule claim_batches_confined [OF that s1]) (use sound_batch [OF s1] in \<open>auto; metis\<close>)
  with w show ?thesis
    by (auto simp: claimBrowserRunnerTask_def Let_def split: sum.split prod.split option.split intro: confined_trans)
qed

lemma find_task_of:
  assumes "sound db" and "find (\<lambda>t. t_id t = i \<and> pl_brandId t = B) (d_tasks db) = Some t"
  shows "task_of B i db" "batch_of B (t_batchId t) db" "t \<in> set (d_tasks db)"
  using find_SomeD [OF assms(2)] sound_task [OF assms(1)] sound_task_batch [OF assms(1)] by auto

lemma resume_confined:
  assumes r: "resumeBrowserRunnerTask sha other now token B taskId runnerId d db = Inr (db', c, stage)" and s: "sound db"
  shows "confined B db db' \<and> pl_brandId (ct_task c) = B"
proof -
  obtain identity batch where i: "find (\<lambda>t. t_id t = taskId \<and> pl_brandId t = B) (d_tasks db) = Some identity"
    and b: "find_batch db B (t_batchId identity) = Some batch"
    using r by (auto simp: resumeBrowserRunnerTask_def thrown_simps Let_def)
  then obtain task k e h stage' db1 out chg where c: "find (\<lambda>t. t_id t = taskId \<and> t_batchId t = b_id batch) (d_tasks db) = Some task"
    and u: "update_tasks db (\<lambda>t. t_id t = t_id task \<and> t_status t = TaskAvailable \<and>
                t_automationStatus t = Some AutoNeedsHuman \<and> t_claimedBy t = k \<and>
                t_leaseGeneration t = t_leaseGeneration task \<and>
                (if stage' = PreSubmit then t_submitIntentAt t = None else t_submitIntentAt t \<noteq> None))
         (\<lambda>t. t\<lparr>t_status := TaskClaimed, t_automationStatus := Some AutoRunning,
                t_leaseTokenHash := Some h, t_leaseGeneration := t_leaseGeneration task + 1,
                t_leaseExpiresAt := Some e, t_claimCount := t_claimCount task + 1, t_claimedAt := Some now,
                t_needsHumanCode := (if stage' = PreSubmit then None else t_needsHumanCode t),
                t_needsHumanReason := (if stage' = PreSubmit then None else t_needsHumanReason t)\<rparr>) = Inr (db1, out)"
    and v: "update_batches db1 (\<lambda>b. b_id b = b_id batch \<and> b_executionMode b = ModeBrowserRunner)
         (\<lambda>b. b\<lparr>b_automationStatus := Some RunnerRunning\<rparr>) = Inr (db', chg)"
    and t: "ct_task c = redactDeliveryTask (hd out)" "out \<noteq> []"
    using r by (auto simp: resumeBrowserRunnerTask_def thrown_simps Let_def split: option.splits)
  note of = find_task_of [OF s i]
  have bo: "batch_of B (b_id batch) db" using of(2) find_batch_Some [OF b] by simp
  have to: "task_of B (t_id task) db" using of(1) find_SomeD [OF c] by simp
  have w: "confined B db db1" by (rule confined_task [OF u _ _ to]) auto
  have "confined B db1 db'" by (rule confined_batch [OF v, where i = "b_id batch"]) (use batch_of_confined [OF w bo] in auto)
  moreover have "pl_brandId (ct_task c) = B"
  proof -
    have "hd out \<in> set out" using t(2) by simp
    then obtain t where "t \<in> set (d_tasks db)" "t_id t = t_id task" "pl_brandId (hd out) = pl_brandId t"
      unfolding update_tasks_InrD(2) [OF u] by auto
    with to t(1) show ?thesis by (simp add: redactDeliveryTask_def task_of_def)
  qed
  ultimately show ?thesis using w confined_trans by blast
qed

lemma reconcile_confined:
  assumes r: "reconcileBrowserRunnerTask now m q B taskId runnerId db = Inr (db', x)" and s: "sound db"
  shows "confined B db db'"
proof (cases "db' = db")
  case False
  then obtain identity batch task code reason where
    i: "find (\<lambda>t. t_id t = taskId \<and> pl_brandId t = B) (d_tasks db) = Some identity"
    and b: "find_batch db B (t_batchId identity) = Some batch"
    and c: "find (\<lambda>t. t_id t = taskId \<and> t_batchId t = b_id batch) (d_tasks db) = Some task"
    and p: "park_candidate db (t_batchId task) task code reason m q = Inr db'"
    using r by (auto simp: reconcileBrowserRunnerTask_def thrown_simps Let_def split: if_splits)
  note of = find_task_of [OF s i]
  have "task_of B (t_id task) db" using of(1) find_SomeD [OF c] by simp
  moreover have "batch_of B (t_batchId task) db" using of(2) find_batch_Some [OF b] find_SomeD [OF c] by simp
  ultimately show ?thesis by (rule park_confined [OF p])
qed simp

lemma failure_confined:
  assumes r: "recordBrowserRunnerFailure sha now q B claim stage code reason db = Inr (db', x)" and s: "sound db"
  shows "confined B db db'"
proof -
  obtain identity held task db1 f out where i: "find (\<lambda>t. t_id t = rc_taskId claim \<and> pl_brandId t = B) (d_tasks db) = Some identity"
    and a: "activeRunnerLease sha claim now = Inr held" and c: "find held (d_tasks db) = Some task"
    and u: "update_tasks db held f = Inr (db1, out)" and f: "\<And>t. pl_brandId (f t) = pl_brandId t"
    and b: "refreshBrowserRunnerBatchState db1 (t_batchId task) q = Inr db'"
    using r by (auto simp: recordBrowserRunnerFailure_def thrown_simps Let_def set_last_error_def)
  note of = find_task_of [OF s i]
  have h: "t_id t = rc_taskId claim" if "held t" for t using activeRunnerLease_holds [OF a that] by simp
  have w: "confined B db db1" by (rule confined_task [OF u f h of(1)])
  have "pl_brandId task = B" using of(1) find_SomeD [OF c] h by (auto simp: task_of_def)
  then have "batch_of B (t_batchId task) db" using sound_task_batch [OF s] find_SomeD [OF c] by metis
  with w refresh_confined [OF b batch_of_confined [OF w]] show ?thesis by (auto intro: confined_trans)
qed

lemma lease_updates_confined:
  assumes "task_of B i db"
  shows "heartbeatDeliveryTask sha other checkedAt now p d db = Inr (db', l) \<Longrightarrow> cl_taskId p = i \<Longrightarrow> confined B db db'"
    and "markBrowserRunnerSubmitIntent sha now claim session db = Inr (db', x) \<Longrightarrow> rc_taskId claim = i \<Longrightarrow> confined B db db'"
    and "markBrowserRunnerSubmitConfirmed sha now claim session db = Inr (db', y) \<Longrightarrow> rc_taskId claim = i \<Longrightarrow> confined B db db'"
proof -
  assume "heartbeatDeliveryTask sha other checkedAt now p d db = Inr (db', l)" and i: "cl_taskId p = i"
  then obtain held e out where a: "activeLeaseCondition sha p now = Inr held"
    and u: "update_tasks db held (\<lambda>t. t\<lparr>t_leaseExpiresAt := Some e\<rparr>) = Inr (db', out)"
    by (auto simp: heartbeatDeliveryTask_def thrown_simps Let_def split: if_splits)
  show "confined B db db'"
    by (rule confined_task [OF u _ _ assms]) (use activeLeaseCondition_holds [OF a] i in auto)
next
  assume r: "markBrowserRunnerSubmitIntent sha now claim session db = Inr (db', x)" and i: "rc_taskId claim = i"
  show "confined B db db'"
  proof (cases "db' = db")
    case False
    then obtain held x out where a: "activeRunnerLease sha claim now = Inr held"
      and u: "update_tasks db held (\<lambda>t. t\<lparr>t_runnerSessionId := x, t_submitIntentAt := Some now\<rparr>) = Inr (db', out)"
      using r by (auto simp: markBrowserRunnerSubmitIntent_def thrown_simps split: if_splits)
    show ?thesis by (rule confined_task [OF u _ _ assms]) (use activeRunnerLease_holds [OF a] i in auto)
  qed simp
next
  assume r: "markBrowserRunnerSubmitConfirmed sha now claim session db = Inr (db', y)" and i: "rc_taskId claim = i"
  show "confined B db db'"
  proof (cases "db' = db")
    case False
    then obtain held out where a: "activeRunnerLease sha claim now = Inr held"
      and u: "update_tasks db (\<lambda>t. held t \<and> t_submitConfirmedAt t = None) (\<lambda>t. t\<lparr>t_submitConfirmedAt := Some now\<rparr>) =
        Inr (db', out)"
      using r by (auto simp: markBrowserRunnerSubmitConfirmed_def thrown_simps split: if_splits)
    show ?thesis by (rule confined_task [OF u _ _ assms]) (use activeRunnerLease_holds [OF a] i in auto)
  qed simp
qed

subsection \<open>Requests\<close>

text \<open>
  What a runner can ask of the portal, with any arguments: the brand is the one its request names. A
  request that is refused or fails leaves the database as its transactions have committed it.
\<close>

inductive runner_request ::
  "(string \<Rightarrow> string) \<Rightarrow> (string \<Rightarrow> int option) \<Rightarrow> runner_principal \<Rightarrow> string \<Rightarrow> database \<Rightarrow> database \<Rightarrow> bool"
  for sha other runner brandId where
  claims: "claimRunnerTask sha other expiryClock clock now locked token failedAt refreshedAt settings input runner db =
     (db', c) \<Longrightarrow> cq_brandId input = brandId \<Longrightarrow> runner_request sha other runner brandId db db'"
| resumes: "resumeRunnerTask sha other now token failedAt refreshedAt taskId brandId version runner db = (db', r) \<Longrightarrow>
     runner_request sha other runner brandId db db'"
| reconciles: "reconcileRunnerTask now markedAt refreshedAt taskId brandId runner db = (db', rr) \<Longrightarrow>
     runner_request sha other runner brandId db db'"
| heartbeats: "heartbeatRunnerTask sha other checkedAt now taskId (lease :: lease_request) runner db = Inr (db', h) \<Longrightarrow>
     lq_brandId lease = brandId \<Longrightarrow> runner_request sha other runner brandId db db'"
| intends: "recordRunnerSubmitIntent sha now taskId session runner db = Inr (db', i) \<Longrightarrow>
     lq_brandId session = brandId \<Longrightarrow> runner_request sha other runner brandId db db'"
| confirms: "recordRunnerSubmitConfirmed sha now taskId session runner db = Inr (db', k) \<Longrightarrow>
     lq_brandId session = brandId \<Longrightarrow> runner_request sha other runner brandId db db'"
| fails: "failRunnerTask sha now refreshedAt taskId failure runner db = Inr (db', f) \<Longrightarrow>
     lq_brandId failure = brandId \<Longrightarrow> runner_request sha other runner brandId db db'"

definition may_act_for :: "runner_principal \<Rightarrow> string \<Rightarrow> bool" where
  "may_act_for runner brandId \<longleftrightarrow> (bp_kind runner = ExtensionPrincipal \<longrightarrow> brandId \<in> set (bp_allowedBrandIds runner))"

lemma assertPrincipalBrand_Inr [simp]: "assertPrincipalBrand runner brandId = Inr u \<longleftrightarrow> may_act_for runner brandId"
  by (auto simp: assertPrincipalBrand_def may_act_for_def)

lemma authorised_task:
  assumes "assertRunnerTask taskId brandId runner db = Inr task" and "sound db"
  shows "may_act_for runner brandId \<and> task_of brandId taskId db"
proof -
  obtain t where "find (\<lambda>t. t_id t = taskId \<and> pl_brandId t = brandId) (d_tasks db) = Some t"
    using assms(1) by (auto simp: assertRunnerTask_def thrown_simps getDeliveryTask_def split: if_splits)
  with find_task_of [OF assms(2)] assms(1) show ?thesis by (auto simp: assertRunnerTask_def thrown_simps)
qed

lemma authorised_operation:
  assumes "authorizeRunnerTaskOperation taskId brandId runner operation db = Inr task" and "sound db"
  shows "may_act_for runner brandId \<and> task_of brandId taskId db"
  using assms authorised_task by (auto simp: authorizeRunnerTaskOperation_def thrown_simps)

lemma response_confined:
  assumes "buildRunnerClaimResponse sha failedAt refreshedAt claim runner assist db = (db', r)" and "sound db"
    and "pl_brandId (ct_task claim) = B"
  shows "confined B db db'"
  using assms failure_confined
  by (auto simp: buildRunnerClaimResponse_def Let_def split: option.splits sum.splits if_splits)

lemma handed_out_task: "handed_out sha locked token i targets b e c t \<Longrightarrow> t_batchId t = b \<and> ct_task c = redactDeliveryTask t"
  by (auto simp: handed_out_def)

lemma claimed_brand:
  assumes "claimBrowserRunnerTask sha other expiryClock clock now locked token input db = (db', Some (Inr (Some c)))"
    and "sound db"
  shows "pl_brandId (ct_task c) = ri_brandId input"
proof -
  have ok: "db_ok db" using assms(2) by (simp add: sound_def)
  have s: "sound db'"
    using sound_steps [OF claimBrowserRunnerTask_steps [OF ok] assms(2), of sha other expiryClock clock now locked token input] assms(1) by simp
  obtain b t where b: "b \<in> set (d_batches db')" "b_brandId b = ri_brandId input" and t: "t \<in> set (d_tasks db')"
    "t_batchId t = b_id b" "ct_task c = redactDeliveryTask t"
    using runner_claim_spec [OF assms(1) ok] handed_out_task by blast
  have "pl_brandId t = b_brandId b" using sound_batch [OF s b(1)] t(1,2) by (simp add: batch_of_def)
  then show ?thesis by (simp add: t(3) b(2) redactDeliveryTask_def)
qed

lemma claims_confined:
  assumes r: "claimRunnerTask sha other expiryClock clock now locked token failedAt refreshedAt settings input runner db = (db', c)"
    and s: "sound db" and changed: "db' \<noteq> db"
  shows "may_act_for runner (cq_brandId input) \<and> confined (cq_brandId input) db db'"
proof -
  let ?in = "\<lambda>targets. \<lparr>ri_brandId = cq_brandId input, ri_batchId = cq_batchId input, ri_runnerId = bp_id runner,
      ri_leaseDurationMs = Some RUNNER_LEASE_MS, ri_captureTargets = Some targets\<rparr>"
  let ?claim = "\<lambda>targets. claimBrowserRunnerTask sha other expiryClock clock now locked token (?in targets) db"
  obtain targets where t: "claim_targets input runner = Inr targets"
    using r changed by (auto simp: claimRunnerTask_def split: sum.splits)
  have may: "may_act_for runner (cq_brandId input)" using t by (auto simp: claim_targets_def thrown_simps)
  obtain db1 x where c: "?claim targets = (db1, x)" by (cases "?claim targets")
  have w: "confined (cq_brandId input) db db1" using claim_confined [OF s, of "?in targets"] c by (metis fst_conv runner_claim_input.select_convs(1))
  have "db' = db1 \<or> (\<exists>cl q. x = Some (Inr (Some cl)) \<and>
      buildRunnerClaimResponse sha failedAt refreshedAt cl runner False db1 = (db', q))"
    using r changed t c
    by (auto simp: claimRunnerTask_def split: sum.splits option.splits prod.splits if_splits)
  then show ?thesis
  proof
    assume "\<exists>cl q. x = Some (Inr (Some cl)) \<and> buildRunnerClaimResponse sha failedAt refreshedAt cl runner False db1 = (db', q)"
    then obtain cl q where cl: "?claim targets = (db1, Some (Inr (Some cl)))"
      and b: "buildRunnerClaimResponse sha failedAt refreshedAt cl runner False db1 = (db', q)" using c by auto
    have "db_ok db" using s by (simp add: sound_def)
    then have s1: "sound db1"
      using sound_steps [OF claimBrowserRunnerTask_steps s, of sha other expiryClock clock now locked token "?in targets"] c by simp
    have "pl_brandId (ct_task cl) = cq_brandId input" using claimed_brand [OF cl s] by simp
    from response_confined [OF b s1 this] w may show ?thesis by (auto intro: confined_trans)
  qed (use w may in simp)
qed

lemma resumes_confined:
  assumes r: "resumeRunnerTask sha other now token failedAt refreshedAt taskId brandId version runner db = (db', c)"
    and s: "sound db" and changed: "db' \<noteq> db"
  shows "may_act_for runner brandId \<and> confined brandId db db'"
proof -
  obtain task db1 claim stage where a: "authorizeRunnerTaskOperation taskId brandId runner (OpResume version) db = Inr task"
    and m: "resumeBrowserRunnerTask sha other now token brandId taskId (bp_id runner) (Some RUNNER_LEASE_MS) db =
      Inr (db1, claim, stage)"
    and b: "buildRunnerClaimResponse sha failedAt refreshedAt claim runner (stage = PostSubmit) db1 = (db', c)"
    using r changed by (auto simp: resumeRunnerTask_def thrown_simps split: sum.splits prod.splits)
  have ok: "db_ok db" using s by (simp add: sound_def)
  note w = resume_confined [OF m s]
  have "confined brandId db1 db'"
    by (rule response_confined [OF b sound_steps [OF resumeBrowserRunnerTask_steps [OF m ok] s]]) (use w in simp)
  with w authorised_operation [OF a s] show ?thesis by (auto intro: confined_trans)
qed

lemma reconciles_confined:
  assumes r: "reconcileRunnerTask now markedAt refreshedAt taskId brandId runner db = (db', c)"
    and s: "sound db" and changed: "db' \<noteq> db"
  shows "may_act_for runner brandId \<and> confined brandId db db'"
proof -
  obtain task y where a: "assertRunnerTask taskId brandId runner db = Inr task"
    and m: "reconcileBrowserRunnerTask now markedAt refreshedAt brandId taskId (bp_id runner) db = Inr (db', y)"
    using r changed
    by (auto simp: reconcileRunnerTask_def reconciliation_authorisation thrown_simps split: sum.splits if_splits)
  from authorised_task [OF a s] reconcile_confined [OF m s] show ?thesis by simp
qed

lemma request_confined:
  assumes s: "sound db" and "runner_request sha other runner brandId db db'"
  shows "db' = db \<or> may_act_for runner brandId \<and> confined brandId db db'"
  using assms(2)
proof cases
  case claims
  with claims_confined [OF _ s] show ?thesis by blast
next
  case resumes
  with resumes_confined [OF _ s] show ?thesis by blast
next
  case reconciles
  with reconciles_confined [OF _ s] show ?thesis by blast
next
  case (heartbeats checkedAt now taskId lease h)
  from heartbeats(1) obtain u where a: "authorizeRunnerTaskOperation taskId (lq_brandId lease) runner (OpHeartbeat (lq_adapterVersion lease)) db = Inr u"
    and m: "heartbeatDeliveryTask sha other checkedAt now
     \<lparr>cl_taskId = taskId, cl_claimedBy = runnerClaimant (bp_id runner), cl_leaseToken = lq_leaseToken lease,
      cl_leaseGeneration = lq_leaseGeneration lease\<rparr> (Some RUNNER_LEASE_MS) db = Inr (db', h)"
    by (auto simp: heartbeatRunnerTask_def thrown_simps)
  from authorised_operation [OF a s] heartbeats(2)
    lease_updates_confined(1) [OF conjunct2 [OF authorised_operation [OF a s]] m] show ?thesis by simp
next
  case (intends now taskId session i)
  from intends(1) obtain u where a: "authorizeRunnerTaskOperation taskId (lq_brandId session) runner (OpSubmitIntent (lq_adapterVersion session)) db = Inr u"
    and m: "markBrowserRunnerSubmitIntent sha now (runner_proof taskId session runner) (lq_runnerSessionId session) db = Inr (db', i)"
    by (auto simp: recordRunnerSubmitIntent_def thrown_simps)
  from authorised_operation [OF a s] intends(2)
    lease_updates_confined(2) [OF conjunct2 [OF authorised_operation [OF a s]] m] show ?thesis
    by (simp add: runner_proof_def)
next
  case (confirms now taskId session k)
  from confirms(1) obtain u where a: "authorizeRunnerTaskOperation taskId (lq_brandId session) runner (OpSubmitConfirmed (lq_adapterVersion session)) db = Inr u"
    and m: "markBrowserRunnerSubmitConfirmed sha now (runner_proof taskId session runner) (lq_runnerSessionId session) db = Inr (db', k)"
    by (auto simp: recordRunnerSubmitConfirmed_def thrown_simps)
  from authorised_operation [OF a s] confirms(2)
    lease_updates_confined(3) [OF conjunct2 [OF authorised_operation [OF a s]] m] show ?thesis
    by (simp add: runner_proof_def)
next
  case (fails now refreshedAt taskId failure f)
  from fails(1) obtain u where a: "assertRunnerTask taskId (lq_brandId failure) runner db = Inr u"
    and m: "recordBrowserRunnerFailure sha now refreshedAt (lq_brandId failure) (runner_proof taskId failure runner)
       (lq_stage failure) (lq_code failure) (lq_reason failure) db = Inr (db', f)"
    by (auto simp: failRunnerTask_def thrown_simps)
  obtain x y where f: "f = (x, y)" by (cases f)
  from authorised_task [OF a s] failure_confined [OF m [unfolded f] s] fails(2) show ?thesis by simp
qed


end
