(* ===== verification/TenancyExample.thy ===== *)
theory TenancyExample
  imports Tenancy PortalExample DeviceExample
begin

text \<open>
  The paired browser of \<open>DeviceExample\<close> claims the queued task of \<open>PortalExample\<close>, beside which the
  database holds a batch of another brand with a queued task.
\<close>

definition other_batch :: delivery_batch where
  "other_batch = example_batch\<lparr>b_id := ''O'', b_brandId := ''z'', b_idempotencyKey := ''o'', b_plannedTaskCount := 1\<rparr>"

definition other_task :: delivery_task where
  "other_task = portal_task\<lparr>t_id := ''y'', t_batchId := ''O'', pl_brandId := ''z'', t_slotKey := replicate 64 CHR ''0''\<rparr>"

definition shared_database :: database where
  "shared_database = portal_queued\<lparr>d_batches := other_batch # d_batches portal_queued,
     d_tasks := other_task # d_tasks portal_queued\<rparr>"

definition paired_runner :: runner_principal where
  "paired_runner = \<lparr>bp_kind = ExtensionPrincipal, bp_id = ''dev'', bp_market = ''CN'', bp_locale = ''zh-CN'',
     bp_timezone = ''Asia/Shanghai'', bp_allowedBrandIds = [''b''], bp_supportedSurfaces = BROWSER_EXTENSION_SURFACES,
     bp_readySurfaces = [''kimi.consumer_web'']\<rparr>"

lemma paired_runner_let_in:
  "authenticateRunnerRequest device_sha code_unit_compare example_settings (Some (''Bearer '' @ example_token)) example_paired =
     Inr paired_runner"
  by code_simp

lemma shared_database_ok: "db_ok shared_database" "tenancy shared_database"
  by code_simp+

definition shared_claimed :: database where
  "shared_claimed = fst (claimRunnerTask device_sha (\<lambda>_. None) (\<lambda>_. example_start) (\<lambda>_. example_start) example_start
     (\<lambda>_. False) portal_token example_start example_start portal_settings (kimi_request ''b'') paired_runner shared_database)"

lemma shared_database_changes: "map t_status (d_tasks shared_claimed) = [TaskAvailable, TaskClaimed]"
  "map t_status (d_tasks shared_database) = [TaskAvailable, TaskAvailable]"
  by code_simp+


end
