(* ===== verification/Evidence.thy ===== *)
theory Evidence
  imports DeliveryBatches "HOL-Library.Word"
begin

text \<open>
  The evidence of a delivery task (\<open>packages/lib/src/db/evidence-artifacts.ts\<close>): screenshots and
  page snapshots are staged under a live claim, recognised by their bytes, bounded in number and
  size, and attached to the observation attempt that completes the task. \<open>evidence_store\<close> is the
  delivery database with the table \<open>evidence_artifacts\<close>; its CHECK constraints and its triggers
  (\<open>migrations/0018_sampling_evidence_artifacts.sql\<close>, \<open>0020_browser_runner_state.sql\<close>) are part of
  every statement. \<open>digest\<close> is the SHA-256 digest of bytes in hexadecimal, \<open>parse_url\<close> the engine's
  \<open>URL\<close>, answering the protocol and the text of an absolute URL.
\<close>

subsection \<open>Rows, errors and limits\<close>

datatype artifact_status = ArtifactStaged | ArtifactAttached

text \<open>A view is a row without its content.\<close>

record artifact_view =
  ar_id :: string
  ar_taskId :: string
  ar_batchId :: string
  ar_brandId :: string
  ar_scopeId :: string
  ar_leaseGeneration :: int
  ar_uploadedBy :: string
  ar_kind :: artifact_kind
  ar_mediaType :: string
  ar_originalFilename :: "string option"
  ar_byteSize :: int
  ar_sha256 :: string
  ar_storageBackend :: string
  ar_storageKey :: string
  ar_status :: artifact_status
  ar_observationAttemptId :: "string option"
  ar_createdAt :: int
  ar_attachedAt :: "int option"

record artifact_row = artifact_view +
  ar_content :: "8 word list"

record evidence_store =
  es_db :: database
  es_artifacts :: "artifact_row list"

record artifact_reference =
  rf_artifactId :: string
  rf_type :: artifact_kind
  rf_uri :: string
  rf_sha256 :: string
  rf_mediaType :: string
  rf_byteSize :: int

datatype validation_code = TooLarge | UnsupportedMedia | KindMismatch | InvalidEvidence

text \<open>\<open>EvidenceOther\<close> is an error of the delivery code or a rejection by the database.\<close>

datatype evidence_error =
    EvidenceValidation string validation_code
  | EvidenceNotFound string
  | EvidenceState string
  | EvidenceOther error

definition deliver :: "error + 'a \<Rightarrow> evidence_error + 'a" where
  "deliver m = (case m of Inl e \<Rightarrow> Inl (EvidenceOther e) | Inr x \<Rightarrow> Inr x)"

definition EVIDENCE_ARTIFACT_MAX_BYTES :: int where "EVIDENCE_ARTIFACT_MAX_BYTES = 8 * 1024 * 1024"
definition EVIDENCE_TASK_MAX_BYTES :: int where "EVIDENCE_TASK_MAX_BYTES = 40 * 1024 * 1024"
definition EVIDENCE_BATCH_MAX_BYTES :: int where "EVIDENCE_BATCH_MAX_BYTES = 512 * 1024 * 1024"
definition EVIDENCE_ARTIFACT_MAX_COUNT :: int where "EVIDENCE_ARTIFACT_MAX_COUNT = 20"
definition EVIDENCE_STAGED_TTL_MS :: int where "EVIDENCE_STAGED_TTL_MS = 24 * 60 * 60 * 1000"
definition EVIDENCE_STAGED_CLEANUP_BATCH_SIZE :: int where "EVIDENCE_STAGED_CLEANUP_BATCH_SIZE = 50"

definition redactEvidenceArtifact :: "artifact_row \<Rightarrow> artifact_view" where
  "redactEvidenceArtifact artifact = artifact_view.truncate artifact"

lemma deliver_Inr_iff [thrown_simps]: "deliver m = Inr x \<longleftrightarrow> m = Inr x"
  by (cases m) (auto simp: deliver_def)

subsection \<open>Recognising the bytes\<close>

text \<open>\<open>toString("ascii")\<close> of a buffer clears the high bit of each byte, \<open>"latin1"\<close> keeps it.\<close>

definition ascii_text :: "8 word list \<Rightarrow> string" where
  "ascii_text bs = map (\<lambda>b. char_of (unat b mod 128)) bs"

definition latin1_text :: "8 word list \<Rightarrow> string" where
  "latin1_text bs = map (\<lambda>b. char_of (unat b)) bs"

text \<open>
  The UTF-8 decoder of the encoding standard in its fatal mode, on byte values: how many
  continuation bytes are needed, the bounds of the next one, and the code point so far.
\<close>

fun utf8_run :: "nat \<Rightarrow> nat \<Rightarrow> nat \<Rightarrow> nat \<Rightarrow> nat list \<Rightarrow> nat list option" where
  "utf8_run needed lower upper codePoint [] = (if needed = 0 then Some [] else None)"
| "utf8_run needed lower upper codePoint (b # bs) =
     (if needed = 0 then
        (if b \<le> 127 then map_option (\<lambda>cs. b # cs) (utf8_run 0 128 191 0 bs)
         else if 194 \<le> b \<and> b \<le> 223 then utf8_run 1 128 191 (b - 192) bs
         else if 224 \<le> b \<and> b \<le> 239 then
           utf8_run 2 (if b = 224 then 160 else 128) (if b = 237 then 159 else 191) (b - 224) bs
         else if 240 \<le> b \<and> b \<le> 244 then
           utf8_run 3 (if b = 240 then 144 else 128) (if b = 244 then 143 else 191) (b - 240) bs
         else None)
      else if b < lower \<or> upper < b then None
      else if needed = 1 then
        map_option (\<lambda>cs. (64 * codePoint + (b - 128)) # cs) (utf8_run 0 128 191 0 bs)
      else utf8_run (needed - 1) 128 191 (64 * codePoint + (b - 128)) bs)"

text \<open>\<open>decode\<close> drops one byte order mark.\<close>

definition text_decode :: "8 word list \<Rightarrow> nat list option" where
  "text_decode bs =
     map_option (\<lambda>cs. case cs of c # r \<Rightarrow> if c = 65279 then r else cs | [] \<Rightarrow> [])
       (utf8_run 0 128 191 0 (map unat bs))"

definition space_code :: "nat \<Rightarrow> bool" where
  "space_code n \<longleftrightarrow>
     n \<in> {9, 10, 11, 12, 13, 32, 160, 5760, 8232, 8233, 8239, 8287, 12288, 65279} \<or> (8192 \<le> n \<and> n \<le> 8202)"

text \<open>
  Only the ASCII capitals become one of the letters of the two prefixes in lower case (the other
  two code points with an ASCII letter in their lower case give a k and an i).
\<close>

definition starts_lower :: "string \<Rightarrow> nat list \<Rightarrow> bool" where
  "starts_lower p cs \<longleftrightarrow>
     map (\<lambda>n. if 65 \<le> n \<and> n \<le> 90 then n + 32 else n) (take (length p) cs) = map of_char p"

definition html_snapshot :: "8 word list \<Rightarrow> bool" where
  "html_snapshot content =
     (case text_decode content of
        None \<Rightarrow> False
      | Some decoded \<Rightarrow>
          let html = dropWhile space_code decoded in
          starts_lower ''<!doctype html'' html \<or> starts_lower ''<html'' html)"

definition detectEvidenceMedia ::
  "8 word list \<Rightarrow> artifact_kind option \<Rightarrow> evidence_error + artifact_kind \<times> string" where
  "detectEvidenceMedia content expectedKind =
     (if length content \<ge> 8 \<and> take 8 content = [0x89, 0x50, 0x4E, 0x47, 0x0D, 0x0A, 0x1A, 0x0A]
      then Inr (Screenshot, ''image/png'')
      else if length content \<ge> 4 \<and> content ! 0 = 0xFF \<and> content ! 1 = 0xD8 \<and> content ! 2 = 0xFF \<and>
        content ! (length content - 2) = 0xFF \<and> content ! (length content - 1) = 0xD9
      then Inr (Screenshot, ''image/jpeg'')
      else if length content \<ge> 12 \<and> ascii_text (take 4 content) = ''RIFF'' \<and>
        ascii_text (take 4 (drop 8 content)) = ''WEBP''
      then Inr (Screenshot, ''image/webp'')
      else if length content \<ge> 12 \<and> ascii_text (take 5 content) = ''%PDF-'' \<and>
        js_includes ''%%EOF'' (latin1_text (drop (length content - 1024) content))
      then Inr (PageSnapshot, ''application/pdf'')
      else if expectedKind = Some PageSnapshot \<and> 0 \<notin> set content \<and> html_snapshot content
      then Inr (PageSnapshot, ''text/html'')
      else Inl (EvidenceValidation
             ''Evidence must be a valid PNG, JPEG, WebP, PDF, or explicitly declared HTML page snapshot''
             UnsupportedMedia))"

record prepared_artifact =
  pa_content :: "8 word list"
  pa_kind :: artifact_kind
  pa_mediaType :: string
  pa_byteSize :: int
  pa_sha256 :: string

definition prepareEvidenceArtifact ::
  "(8 word list \<Rightarrow> string) \<Rightarrow> 8 word list \<Rightarrow> artifact_kind option \<Rightarrow> evidence_error + prepared_artifact" where
  "prepareEvidenceArtifact digest content expectedKind =
     (if content = [] then Inl (EvidenceValidation ''Evidence artifact must not be empty'' InvalidEvidence)
      else if int (length content) > EVIDENCE_ARTIFACT_MAX_BYTES
      then Inl (EvidenceValidation
             (''Evidence artifact may not exceed '' @ int_dec EVIDENCE_ARTIFACT_MAX_BYTES @ '' bytes'') TooLarge)
      else
      bindE (detectEvidenceMedia content expectedKind) (\<lambda>(kind, mediaType).
      case expectedKind of
        Some expected \<Rightarrow>
          if expected \<noteq> kind
          then Inl (EvidenceValidation (''Evidence artifact content is '' @ artifact_kind_text kind @
                 '', not the requested '' @ artifact_kind_text expected) KindMismatch)
          else Inr \<lparr>pa_content = content, pa_kind = kind, pa_mediaType = mediaType,
                 pa_byteSize = int (length content), pa_sha256 = digest content\<rparr>
      | None \<Rightarrow> Inr \<lparr>pa_content = content, pa_kind = kind, pa_mediaType = mediaType,
                 pa_byteSize = int (length content), pa_sha256 = digest content\<rparr>))"

subsection \<open>Texts\<close>

definition requiredEvidenceText :: "string \<Rightarrow> string \<Rightarrow> nat \<Rightarrow> evidence_error + string" where
  "requiredEvidenceText value field maxLength =
     (let normalized = js_trim value in
      if normalized = [] then Inl (EvidenceValidation (field @ '' must not be empty'') InvalidEvidence)
      else if length normalized > maxLength
      then Inl (EvidenceValidation (field @ '' must not exceed '' @ nat_dec maxLength @ '' characters'') InvalidEvidence)
      else Inr normalized)"

definition stripFilenameControls :: "string \<Rightarrow> string" where
  "stripFilenameControls value = filter (\<lambda>c. 31 < (of_char c :: nat) \<and> (of_char c :: nat) \<noteq> 127) value"

text \<open>What follows the last slash or backslash.\<close>

definition last_segment :: "string \<Rightarrow> string" where
  "last_segment s = rev (takeWhile (\<lambda>c. c \<noteq> CHR ''/'' \<and> c \<noteq> CHR 0x5C) (rev s))"

definition normalizeFilename :: "string option \<Rightarrow> evidence_error + string option" where
  "normalizeFilename value =
     (case value of
        None \<Rightarrow> Inr None
      | Some v \<Rightarrow>
          let filename = js_trim (last_segment (stripFilenameControls v)) in
          if filename = [] then Inr None
          else if length filename > 255
          then Inl (EvidenceValidation ''originalFilename must not exceed 255 characters'' InvalidEvidence)
          else Inr (Some filename))"

text \<open>\<open>^[0-9a-f]{8}-[0-9a-f]{4}-[1-8][0-9a-f]{3}-[89ab][0-9a-f]{3}-[0-9a-f]{12}$\<close>.\<close>

definition uuid_text :: "string \<Rightarrow> bool" where
  "uuid_text s \<longleftrightarrow>
     length s = 36 \<and> list_all (\<lambda>i. s ! i = CHR ''-'') [8, 13, 18, 23] \<and>
     list_all hex_char (take 8 s @ take 4 (drop 9 s) @ take 4 (drop 14 s) @ take 4 (drop 19 s) @ drop 24 s) \<and>
     s ! 14 \<in> set ''12345678'' \<and> s ! 19 \<in> set ''89ab''"

definition validateArtifactIds :: "string list \<Rightarrow> evidence_error + string list" where
  "validateArtifactIds values =
     (if length values < 1 \<or> int (length values) > EVIDENCE_ARTIFACT_MAX_COUNT
      then Inl (EvidenceValidation (''Evidence submission must contain between 1 and '' @
             int_dec EVIDENCE_ARTIFACT_MAX_COUNT @ '' artifacts'') InvalidEvidence)
      else
      let ids = map (\<lambda>v. js_lower (js_trim v)) values in
      if \<not> list_all uuid_text ids
      then Inl (EvidenceValidation ''Every evidence artifact ID must be a valid UUID'' InvalidEvidence)
      else if \<not> distinct ids
      then Inl (EvidenceValidation ''Evidence artifact IDs must not contain duplicates'' InvalidEvidence)
      else Inr ids)"

subsection \<open>What the database checks\<close>

definition artifact_row_ok :: "artifact_row \<Rightarrow> bool" where
  "artifact_row_ok r \<longleftrightarrow>
     0 < ar_leaseGeneration r \<and> ar_leaseGeneration r \<le> 2147483647 \<and>
     0 < ar_byteSize r \<and> ar_byteSize r \<le> 8388608 \<and> int (length (ar_content r)) = ar_byteSize r \<and>
     hex64 (ar_sha256 r) \<and>
     ar_storageBackend r = ''postgres'' \<and> ar_storageKey r = ''evidence/'' @ ar_id r \<and>
     (case ar_kind r of
        Screenshot \<Rightarrow> ar_mediaType r \<in> {''image/png'', ''image/jpeg'', ''image/webp''}
      | PageSnapshot \<Rightarrow> ar_mediaType r \<in> {''application/pdf'', ''text/html''}) \<and>
     (case ar_status r of
        ArtifactStaged \<Rightarrow> ar_observationAttemptId r = None \<and> ar_attachedAt r = None
      | ArtifactAttached \<Rightarrow> ar_observationAttemptId r \<noteq> None \<and> ar_attachedAt r \<noteq> None)"

definition artifact_of_task :: "artifact_row \<Rightarrow> delivery_task \<Rightarrow> bool" where
  "artifact_of_task r t \<longleftrightarrow>
     ar_taskId r = t_id t \<and> ar_brandId r = pl_brandId t \<and> ar_scopeId r = pl_scopeId t \<and> ar_batchId r = t_batchId t"

definition claim_current :: "int \<Rightarrow> delivery_task \<Rightarrow> artifact_row \<Rightarrow> bool" where
  "claim_current clock t r \<longleftrightarrow>
     t_status t = TaskClaimed \<and> ar_leaseGeneration r = t_leaseGeneration t \<and>
     Some (ar_uploadedBy r) = t_claimedBy t \<and>
     (case t_leaseExpiresAt t of None \<Rightarrow> False | Some e \<Rightarrow> clock < e)"

definition blank_text :: "string \<Rightarrow> bool" where
  "blank_text s \<longleftrightarrow> list_all (\<lambda>c. c = CHR '' '') s"

definition artifact_insert_allowed :: "database \<Rightarrow> int \<Rightarrow> artifact_row \<Rightarrow> bool" where
  "artifact_insert_allowed db clock r \<longleftrightarrow>
     (case task_by_id db (ar_taskId r) of
        None \<Rightarrow> False
      | Some t \<Rightarrow> artifact_of_task r t \<and> \<not> blank_text (ar_uploadedBy r) \<and>
          ar_status r = ArtifactStaged \<and> claim_current clock t r) \<and> artifact_row_ok r"

definition artifact_update_allowed :: "int \<Rightarrow> evidence_store \<Rightarrow> artifact_row \<Rightarrow> artifact_row \<Rightarrow> bool" where
  "artifact_update_allowed clock s old new \<longleftrightarrow>
     (case task_by_id (es_db s) (ar_taskId new) of
        None \<Rightarrow> False
      | Some t \<Rightarrow>
          artifact_of_task new t \<and> \<not> blank_text (ar_uploadedBy new) \<and>
          ar_status old \<noteq> ArtifactAttached \<and>
          new\<lparr>ar_status := ar_status old, ar_observationAttemptId := ar_observationAttemptId old,
            ar_attachedAt := ar_attachedAt old\<rparr> = old \<and>
          ar_status old = ArtifactStaged \<and> ar_status new = ArtifactAttached \<and> claim_current clock t new \<and>
          (case ar_observationAttemptId new of
             None \<Rightarrow> False
           | Some i \<Rightarrow>
               (case attempt_by_id (es_db s) i of
                  None \<Rightarrow> False
                | Some a \<Rightarrow> oa_status a = ObsSucceeded \<and> attempt_matches a t))) \<and>
     artifact_row_ok new"

definition artifact_slot :: "artifact_row \<Rightarrow> string \<times> int \<times> string" where
  "artifact_slot r = (ar_taskId r, ar_leaseGeneration r, ar_sha256 r)"

definition artifact_keys_unique :: "artifact_row list \<Rightarrow> bool" where
  "artifact_keys_unique rs \<longleftrightarrow> distinct (map ar_id rs) \<and> distinct (map artifact_slot rs)"

text \<open>
  The constraint trigger that PostgreSQL runs at the commit for every row the transaction
  inserted or updated and that is attached.
\<close>

definition attached_to_task_attempt :: "database \<Rightarrow> 'a artifact_view_scheme \<Rightarrow> bool" where
  "attached_to_task_attempt db r \<longleftrightarrow>
     ar_observationAttemptId r =
       (case task_by_id db (ar_taskId r) of None \<Rightarrow> None | Some t \<Rightarrow> t_observationAttemptId t)"

subsection \<open>Statements\<close>

text \<open>
  The insert is \<open>ON CONFLICT (task_id, lease_generation, sha256) DO NOTHING\<close>; its trigger and its
  CHECKs run before the conflict is looked for.
\<close>

definition insert_artifact ::
  "int \<Rightarrow> artifact_row \<Rightarrow> evidence_store \<Rightarrow> error + evidence_store \<times> artifact_row option" where
  "insert_artifact clock r s =
     (if \<not> artifact_insert_allowed (es_db s) clock r then Inl DatabaseError
      else if list_ex (\<lambda>a. artifact_slot a = artifact_slot r) (es_artifacts s) then Inr (s, None)
      else if list_ex (\<lambda>a. ar_id a = ar_id r) (es_artifacts s) then Inl DatabaseError
      else Inr (s\<lparr>es_artifacts := es_artifacts s @ [r]\<rparr>, Some r))"

definition update_artifacts ::
  "int \<Rightarrow> evidence_store \<Rightarrow> (artifact_row \<Rightarrow> bool) \<Rightarrow> (artifact_row \<Rightarrow> artifact_row) \<Rightarrow>
   error + evidence_store \<times> artifact_row list" where
  "update_artifacts clock s p f =
     (let rows = set_where p f (es_artifacts s) in
      if list_all (\<lambda>r. p r \<longrightarrow> artifact_update_allowed clock s r (f r)) (es_artifacts s) \<and> artifact_keys_unique rows
      then Inr (s\<lparr>es_artifacts := rows\<rparr>, map f (filter p (es_artifacts s)))
      else Inl DatabaseError)"

definition delete_artifacts ::
  "(artifact_row \<Rightarrow> bool) \<Rightarrow> evidence_store \<Rightarrow> error + evidence_store \<times> artifact_row list" where
  "delete_artifacts p s =
     (if list_all (\<lambda>r. p r \<longrightarrow> ar_status r = ArtifactStaged) (es_artifacts s)
      then Inr (s\<lparr>es_artifacts := filter (\<lambda>r. \<not> p r) (es_artifacts s)\<rparr>, filter p (es_artifacts s))
      else Inl DatabaseError)"

text \<open>A cast of a sum to \<open>int\<close>, which fails out of its range.\<close>

definition int4_cast :: "int \<Rightarrow> error + int" where
  "int4_cast n = (if - 2147483648 \<le> n \<and> n \<le> 2147483647 then Inr n else Inl DatabaseError)"

definition byte_sum :: "artifact_row list \<Rightarrow> int" where
  "byte_sum rs = sum_list (map ar_byteSize rs)"

lemma update_artifacts_InrD:
  assumes "update_artifacts clock s p f = Inr (s', out)"
  shows "s' = s\<lparr>es_artifacts := set_where p f (es_artifacts s)\<rparr>" "out = map f (filter p (es_artifacts s))"
    "\<And>r. r \<in> set (es_artifacts s) \<Longrightarrow> p r \<Longrightarrow> artifact_update_allowed clock s r (f r)"
    "artifact_keys_unique (es_artifacts s')"
  using assms by (auto simp: update_artifacts_def Let_def list_all_iff split: if_splits)

interpretation artifact_table:
  guarded_table es_artifacts ar_id "artifact_update_allowed clock" "update_artifacts clock" for clock
  by unfold_locales (auto dest: update_artifacts_InrD)

subsection \<open>Staging\<close>

definition isEvidenceByteCapacityAvailable :: "int \<Rightarrow> int \<Rightarrow> int \<Rightarrow> bool" where
  "isEvidenceByteCapacityAvailable currentBytes incomingBytes maximumBytes \<longleftrightarrow>
     safe_integer currentBytes \<and> currentBytes \<ge> 0 \<and>
     safe_integer incomingBytes \<and> incomingBytes > 0 \<and>
     safe_integer maximumBytes \<and> maximumBytes \<ge> 0 \<and>
     currentBytes \<le> maximumBytes - incomingBytes"

definition occupied_error :: evidence_error where
  "occupied_error = EvidenceState ''An incompatible evidence artifact already occupies this task slot''"

definition staged_row ::
  "string \<Rightarrow> int \<Rightarrow> delivery_task \<Rightarrow> delivery_claim_proof \<Rightarrow> string \<Rightarrow> string option \<Rightarrow> prepared_artifact \<Rightarrow>
   artifact_row" where
  "staged_row artifactId createdAt task claim uploadedBy originalFilename prepared =
     \<lparr>ar_id = artifactId, ar_taskId = t_id task, ar_batchId = t_batchId task, ar_brandId = pl_brandId task,
      ar_scopeId = pl_scopeId task, ar_leaseGeneration = cl_leaseGeneration claim, ar_uploadedBy = uploadedBy,
      ar_kind = pa_kind prepared, ar_mediaType = pa_mediaType prepared,
      ar_originalFilename = originalFilename, ar_byteSize = pa_byteSize prepared,
      ar_sha256 = pa_sha256 prepared, ar_storageBackend = ''postgres'',
      ar_storageKey = ''evidence/'' @ artifactId, ar_status = ArtifactStaged,
      ar_observationAttemptId = None, ar_createdAt = createdAt, ar_attachedAt = None,
      ar_content = pa_content prepared\<rparr>"

definition quota_check :: "evidence_store \<Rightarrow> delivery_task \<Rightarrow> int \<Rightarrow> evidence_error + unit" where
  "quota_check s task byteSize =
     (let ofTask = filter (\<lambda>r. ar_taskId r = t_id task) (es_artifacts s) in
      bindE (deliver (int4_cast (int (length ofTask)))) (\<lambda>artifactCount.
      bindE (deliver (int4_cast (byte_sum ofTask))) (\<lambda>taskByteSize.
      if artifactCount \<ge> EVIDENCE_ARTIFACT_MAX_COUNT
      then Inl (EvidenceValidation (''A delivery task may contain at most '' @
             int_dec EVIDENCE_ARTIFACT_MAX_COUNT @ '' evidence artifacts'') InvalidEvidence)
      else if \<not> isEvidenceByteCapacityAvailable taskByteSize byteSize EVIDENCE_TASK_MAX_BYTES
      then Inl (EvidenceValidation (''Evidence for one delivery task may not exceed '' @
             int_dec EVIDENCE_TASK_MAX_BYTES @ '' bytes'') TooLarge)
      else
      let batchByteSize = byte_sum (filter (\<lambda>r. ar_batchId r = t_batchId task) (es_artifacts s)) in
      if \<not> isEvidenceByteCapacityAvailable batchByteSize byteSize EVIDENCE_BATCH_MAX_BYTES
      then Inl (EvidenceValidation (''Evidence for one delivery batch may not exceed '' @
             int_dec EVIDENCE_BATCH_MAX_BYTES @ '' bytes'') TooLarge)
      else Inr ())))"

text \<open>What follows the removal of the rows of other generations.\<close>

definition store_prepared ::
  "int \<Rightarrow> string \<Rightarrow> int \<Rightarrow> delivery_task \<Rightarrow> delivery_claim_proof \<Rightarrow> string \<Rightarrow> string option \<Rightarrow> prepared_artifact \<Rightarrow>
   evidence_store \<Rightarrow> evidence_error + evidence_store \<times> artifact_view" where
  "store_prepared clock artifactId startedAt task claim uploadedBy originalFilename prepared s1 =
     (let slot = (\<lambda>r. ar_taskId r = t_id task \<and> ar_leaseGeneration r = cl_leaseGeneration claim \<and>
           ar_sha256 r = pa_sha256 prepared) in
     case find slot (es_artifacts s1) of
       Some existing \<Rightarrow>
         if ar_uploadedBy existing \<noteq> uploadedBy \<or> ar_status existing \<noteq> ArtifactStaged then Inl occupied_error
         else Inr (s1, redactEvidenceArtifact existing)
     | None \<Rightarrow>
         bindE (quota_check s1 task (pa_byteSize prepared)) (\<lambda>_.
         bindE (deliver (insert_artifact clock
             (staged_row artifactId startedAt task claim uploadedBy originalFilename prepared) s1))
           (\<lambda>(s2, inserted).
         case inserted of
           Some r \<Rightarrow> Inr (s2, redactEvidenceArtifact r)
         | None \<Rightarrow>
             (case find slot (es_artifacts s2) of
                None \<Rightarrow> Inl occupied_error
              | Some r \<Rightarrow>
                  if ar_uploadedBy r \<noteq> uploadedBy \<or> ar_status r \<noteq> ArtifactStaged then Inl occupied_error
                  else Inr (s2, redactEvidenceArtifact r)))))"

definition stageEvidenceArtifact ::
  "(string \<Rightarrow> string) \<Rightarrow> (string \<Rightarrow> int option) \<Rightarrow> (8 word list \<Rightarrow> string) \<Rightarrow> int \<Rightarrow> int \<Rightarrow> int \<Rightarrow> int \<Rightarrow> string \<Rightarrow>
   string \<Rightarrow> delivery_claim_proof \<Rightarrow> string \<Rightarrow> string option \<Rightarrow> artifact_kind option \<Rightarrow> 8 word list \<Rightarrow>
   evidence_store \<Rightarrow> evidence_error + evidence_store \<times> artifact_view" where
  "stageEvidenceArtifact sha other digest checkedAt verifiedAt startedAt clock artifactId
     brandId claim uploader filename expectedKind content s =
     bindE (requiredEvidenceText uploader ''uploadedBy'' 300) (\<lambda>uploadedBy.
     if uploadedBy \<noteq> cl_claimedBy claim
     then Inl (EvidenceValidation ''The evidence uploader must own the active delivery claim'' InvalidEvidence)
     else
     bindE (prepareEvidenceArtifact digest content expectedKind) (\<lambda>prepared.
     bindE (normalizeFilename filename) (\<lambda>originalFilename.
     bindE (deliver (assertActiveDeliveryClaimInTransaction sha other checkedAt verifiedAt claim (es_db s)))
       (\<lambda>(task, batch, _, _).
     if pl_brandId task \<noteq> brandId \<or> b_brandId batch \<noteq> brandId
     then Inl (EvidenceState ''The evidence task does not belong to the requested brand'')
     else
     bindE (deliver (delete_artifacts
         (\<lambda>r. ar_taskId r = t_id task \<and> ar_status r = ArtifactStaged \<and>
            ar_leaseGeneration r \<noteq> cl_leaseGeneration claim) s)) (\<lambda>(s1, _).
     store_prepared clock artifactId startedAt task claim uploadedBy originalFilename prepared s1)))))"

subsection \<open>Listing, reading and deleting\<close>

definition by_creation :: "artifact_row list \<Rightarrow> artifact_row list" where
  "by_creation rs = sort_key (\<lambda>r. (ar_createdAt r, ar_id r)) rs"

definition active_in_brand ::
  "(string \<Rightarrow> string) \<Rightarrow> (string \<Rightarrow> int option) \<Rightarrow> int \<Rightarrow> int \<Rightarrow> string \<Rightarrow> delivery_claim_proof \<Rightarrow>
   evidence_store \<Rightarrow> evidence_error + delivery_task" where
  "active_in_brand sha other checkedAt verifiedAt brandId claim s =
     bindE (deliver (assertActiveDeliveryClaimInTransaction sha other checkedAt verifiedAt claim (es_db s)))
       (\<lambda>(task, _, _, _).
     if pl_brandId task \<noteq> brandId
     then Inl (EvidenceState ''The evidence task does not belong to the requested brand'')
     else Inr task)"

definition listEvidenceArtifactsForClaim ::
  "(string \<Rightarrow> string) \<Rightarrow> (string \<Rightarrow> int option) \<Rightarrow> int \<Rightarrow> int \<Rightarrow> string \<Rightarrow> delivery_claim_proof \<Rightarrow>
   evidence_store \<Rightarrow> evidence_error + artifact_view list" where
  "listEvidenceArtifactsForClaim sha other checkedAt verifiedAt brandId claim s =
     bindE (active_in_brand sha other checkedAt verifiedAt brandId claim s) (\<lambda>_.
     Inr (map redactEvidenceArtifact (by_creation (filter (\<lambda>r.
       ar_brandId r = brandId \<and> ar_taskId r = cl_taskId claim \<and>
       ar_leaseGeneration r = cl_leaseGeneration claim \<and> ar_uploadedBy r = cl_claimedBy claim)
       (es_artifacts s)))))"

definition deleteStagedEvidenceArtifact ::
  "(string \<Rightarrow> string) \<Rightarrow> (string \<Rightarrow> int option) \<Rightarrow> int \<Rightarrow> int \<Rightarrow> string \<Rightarrow> string \<Rightarrow> delivery_claim_proof \<Rightarrow>
   evidence_store \<Rightarrow> evidence_error + evidence_store \<times> artifact_view" where
  "deleteStagedEvidenceArtifact sha other checkedAt verifiedAt brandId artifactId claim s =
     bindE (active_in_brand sha other checkedAt verifiedAt brandId claim s) (\<lambda>_.
     bindE (requireSome (EvidenceNotFound artifactId) (find (\<lambda>r.
         ar_id r = artifactId \<and> ar_brandId r = brandId \<and> ar_taskId r = cl_taskId claim \<and>
         ar_leaseGeneration r = cl_leaseGeneration claim \<and> ar_uploadedBy r = cl_claimedBy claim \<and>
         ar_status r = ArtifactStaged) (es_artifacts s))) (\<lambda>artifact.
     bindE (deliver (delete_artifacts (\<lambda>r. ar_id r = ar_id artifact \<and> ar_status r = ArtifactStaged) s))
       (\<lambda>(s', deleted).
     case deleted of
       [] \<Rightarrow> Inl (EvidenceState (''Evidence artifact '' @ ar_id artifact @ '' is no longer staged''))
     | r # _ \<Rightarrow> Inr (s', redactEvidenceArtifact r))))"

definition readEvidenceArtifact ::
  "string \<Rightarrow> string \<Rightarrow> evidence_store \<Rightarrow> evidence_error + artifact_view \<times> 8 word list" where
  "readEvidenceArtifact brandId artifactId s =
     bindE (requireSome (EvidenceNotFound artifactId)
       (find (\<lambda>r. ar_id r = artifactId \<and> ar_brandId r = brandId) (es_artifacts s))) (\<lambda>artifact.
     Inr (redactEvidenceArtifact artifact, ar_content artifact))"

subsection \<open>Attaching\<close>

definition buildEvidenceArtifactReference ::
  "(string \<Rightarrow> (string \<times> string) option) \<Rightarrow> (string \<Rightarrow> string) \<Rightarrow> artifact_view \<Rightarrow>
   evidence_error + artifact_reference" where
  "buildEvidenceArtifactReference parse_url uriForArtifact artifact =
     (case parse_url (uriForArtifact (ar_id artifact)) of
        None \<Rightarrow> Inl (EvidenceValidation ''Evidence artifact URI builder must return an absolute URL'' InvalidEvidence)
      | Some (protocol, uri) \<Rightarrow>
          if protocol \<noteq> ''https:'' \<and> protocol \<noteq> ''http:''
          then Inl (EvidenceValidation ''Evidence artifact URI must use HTTP or HTTPS'' InvalidEvidence)
          else Inr \<lparr>rf_artifactId = ar_id artifact, rf_type = ar_kind artifact, rf_uri = uri,
                 rf_sha256 = ar_sha256 artifact, rf_mediaType = ar_mediaType artifact,
                 rf_byteSize = ar_byteSize artifact\<rparr>)"

definition submittable :: "string \<Rightarrow> delivery_claim_proof \<Rightarrow> delivery_task \<Rightarrow> artifact_row \<Rightarrow> bool" where
  "submittable brandId claim task r \<longleftrightarrow>
     ar_brandId r = brandId \<and> ar_taskId r = cl_taskId claim \<and> ar_batchId r = t_batchId task \<and>
     ar_scopeId r = pl_scopeId task \<and> ar_leaseGeneration r = cl_leaseGeneration claim \<and>
     ar_uploadedBy r = cl_claimedBy claim \<and> ar_status r = ArtifactStaged"

definition resolveEvidenceArtifactsForSubmission ::
  "(string \<Rightarrow> string) \<Rightarrow> (string \<Rightarrow> int option) \<Rightarrow> (string \<Rightarrow> (string \<times> string) option) \<Rightarrow> int \<Rightarrow> int \<Rightarrow>
   string \<Rightarrow> delivery_claim_proof \<Rightarrow> string list \<Rightarrow> (string \<Rightarrow> string) \<Rightarrow> evidence_store \<Rightarrow>
   evidence_error + artifact_reference list" where
  "resolveEvidenceArtifactsForSubmission sha other parse_url checkedAt verifiedAt brandId claim
     submittedIds uriForArtifact s =
     bindE (validateArtifactIds submittedIds) (\<lambda>artifactIds.
     bindE (active_in_brand sha other checkedAt verifiedAt brandId claim s) (\<lambda>task.
     let artifacts = filter (\<lambda>r. ar_id r \<in> set artifactIds \<and> submittable brandId claim task r) (es_artifacts s) in
     if length artifacts \<noteq> length artifactIds
     then Inl (EvidenceState ''Every submitted evidence artifact must be staged by the active claim owner'')
     else
     mapE (\<lambda>artifactId.
       bindE (requireSome (EvidenceState (''Evidence artifact '' @ artifactId @ '' could not be resolved''))
         (map_of (rev (map (\<lambda>r. (ar_id r, r)) artifacts)) artifactId)) (\<lambda>artifact.
       buildEvidenceArtifactReference parse_url uriForArtifact (redactEvidenceArtifact artifact))) artifactIds))"

definition attachEvidenceArtifactsInTransaction ::
  "(string \<Rightarrow> string) \<Rightarrow> (string \<Rightarrow> int option) \<Rightarrow> (string \<Rightarrow> (string \<times> string) option) \<Rightarrow> int \<Rightarrow> int \<Rightarrow> int \<Rightarrow>
   int \<Rightarrow> string \<Rightarrow> delivery_claim_proof \<Rightarrow> string list \<Rightarrow> string \<Rightarrow> (string \<Rightarrow> string) \<Rightarrow> evidence_store \<Rightarrow>
   evidence_error + evidence_store \<times> (artifact_view list \<times> artifact_reference list)" where
  "attachEvidenceArtifactsInTransaction sha other parse_url checkedAt verifiedAt attachedAt clock
     brandId claim submittedIds observationAttemptId uriForArtifact s =
     bindE (resolveEvidenceArtifactsForSubmission sha other parse_url checkedAt verifiedAt brandId claim
         submittedIds uriForArtifact s) (\<lambda>evidenceRefs.
     let artifactIds = map rf_artifactId evidenceRefs in
     bindE (deliver (update_artifacts clock s
         (\<lambda>r. ar_id r \<in> set artifactIds \<and> ar_status r = ArtifactStaged \<and> ar_taskId r = cl_taskId claim \<and>
            ar_leaseGeneration r = cl_leaseGeneration claim)
         (\<lambda>r. r\<lparr>ar_status := ArtifactAttached, ar_observationAttemptId := Some observationAttemptId,
            ar_attachedAt := Some attachedAt\<rparr>))) (\<lambda>(s', attached).
     if length attached \<noteq> length artifactIds
     then Inl (EvidenceState ''Evidence artifacts changed before they could be attached'')
     else Inr (s', (map redactEvidenceArtifact attached, evidenceRefs))))"

subsection \<open>Cleaning up\<close>

record cleanup_candidate =
  cc_id :: string
  cc_status :: artifact_status
  cc_createdAt :: int
  cc_leaseGeneration :: int
  cc_taskStatus :: delivery_task_status
  cc_taskLeaseGeneration :: int
  cc_taskLeaseExpiresAt :: "int option"

definition isStagedEvidenceArtifactCleanupEligible :: "cleanup_candidate \<Rightarrow> int \<Rightarrow> int \<Rightarrow> bool" where
  "isStagedEvidenceArtifactCleanupEligible candidate before now =
     (if cc_status candidate \<noteq> ArtifactStaged \<or> cc_createdAt candidate \<ge> before then False
      else if cc_taskStatus candidate \<noteq> TaskClaimed then True
      else if cc_taskLeaseGeneration candidate \<noteq> cc_leaseGeneration candidate then True
      else (case cc_taskLeaseExpiresAt candidate of None \<Rightarrow> True | Some e \<Rightarrow> e \<le> now))"

text \<open>A row joined with its task; a comparison with a NULL expiry does not hold.\<close>

definition inactive_claim :: "int \<Rightarrow> delivery_task \<Rightarrow> artifact_row \<Rightarrow> bool" where
  "inactive_claim now t r \<longleftrightarrow>
     t_status t \<noteq> TaskClaimed \<or> t_leaseGeneration t \<noteq> ar_leaseGeneration r \<or>
     (case t_leaseExpiresAt t of None \<Rightarrow> False | Some e \<Rightarrow> e \<le> now)"

definition cleanup_candidates :: "int \<Rightarrow> int \<Rightarrow> int \<Rightarrow> evidence_store \<Rightarrow> cleanup_candidate list" where
  "cleanup_candidates before now limit s =
     take (nat limit) (List.map_filter (\<lambda>r.
       (case task_by_id (es_db s) (ar_taskId r) of
          None \<Rightarrow> None
        | Some t \<Rightarrow>
            if ar_status r = ArtifactStaged \<and> ar_createdAt r < before \<and> inactive_claim now t r
            then Some \<lparr>cc_id = ar_id r, cc_status = ar_status r, cc_createdAt = ar_createdAt r,
                   cc_leaseGeneration = ar_leaseGeneration r, cc_taskStatus = t_status t,
                   cc_taskLeaseGeneration = t_leaseGeneration t, cc_taskLeaseExpiresAt = t_leaseExpiresAt t\<rparr>
            else None)) (by_creation (es_artifacts s)))"

text \<open>
  The two statements are not in one transaction: \<open>between\<close> is what others commit after the rows
  were chosen. An invalid date is \<open>Some None\<close>.
\<close>

definition cleanupStaleEvidenceArtifacts ::
  "int \<Rightarrow> int \<Rightarrow> (evidence_store \<Rightarrow> evidence_store) \<Rightarrow> int option option \<Rightarrow> int option \<Rightarrow> evidence_store \<Rightarrow>
   evidence_error + evidence_store \<times> int" where
  "cleanupStaleEvidenceArtifacts dateNow now between cutoff limitInput s =
     (case (case cutoff of None \<Rightarrow> Some (dateNow - EVIDENCE_STAGED_TTL_MS) | Some d \<Rightarrow> d) of
        None \<Rightarrow> Inl (EvidenceValidation ''Cleanup cutoff must be a valid date'' InvalidEvidence)
      | Some before \<Rightarrow>
          let limit = (case limitInput of None \<Rightarrow> EVIDENCE_STAGED_CLEANUP_BATCH_SIZE | Some l \<Rightarrow> l) in
          if \<not> safe_integer limit \<or> limit < 1 \<or> limit > 1000
          then Inl (EvidenceValidation ''Cleanup limit must be an integer between 1 and 1000'' InvalidEvidence)
          else
          let eligibleCandidateIds = map cc_id (filter
                (\<lambda>c. isStagedEvidenceArtifactCleanupEligible c before now) (cleanup_candidates before now limit s)) in
          if eligibleCandidateIds = [] then Inr (s, 0)
          else
          bindE (deliver (delete_artifacts
              (\<lambda>r. ar_id r \<in> set eligibleCandidateIds \<and> ar_status r = ArtifactStaged \<and> ar_createdAt r < before)
              (between s))) (\<lambda>(s', deleted). Inr (s', int (length deleted))))"

end
