(* ===== verification/ObservationTargets.thy ===== *)
theory ObservationTargets
  imports Manifest
begin

text \<open>
  The targets of a measurement: how \<open>SCRAPE_TARGETS\<close> is parsed and written
  (\<open>packages/config/src/scrape-targets.ts\<close>), which surface and capture route a target is measured
  by, whether a route may serve a scope, and the key under which a scheduled sample is stored
  (\<open>packages/lib/src/observation-targets.ts\<close>).
\<close>

subsection \<open>Splitting and joining at a character\<close>

fun js_split :: "char \<Rightarrow> string \<Rightarrow> string list" where
  "js_split c [] = [[]]"
| "js_split c (x # s) =
     (if x = c then [] # js_split c s
      else (case js_split c s of [] \<Rightarrow> [[x]] | p # ps \<Rightarrow> (x # p) # ps))"

fun js_join :: "char \<Rightarrow> string list \<Rightarrow> string" where
  "js_join c [] = []"
| "js_join c [p] = p"
| "js_join c (p # q # ps) = p @ c # js_join c (q # ps)"

lemma js_split_not_Nil [simp]: "js_split c s \<noteq> []"
  by (cases s) (auto split: list.splits)

lemma js_split_single [simp]: "c \<notin> set p \<Longrightarrow> js_split c p = [p]"
  by (induction p) auto

lemma js_split_append: "c \<notin> set p \<Longrightarrow> js_split c (p @ c # s) = p # js_split c s"
  by (induction p) auto

lemma js_split_join:
  "ps \<noteq> [] \<Longrightarrow> (\<And>p. p \<in> set ps \<Longrightarrow> c \<notin> set p) \<Longrightarrow> js_split c (js_join c ps) = ps"
  by (induction ps rule: js_join.induct) (auto simp: js_split_append)

lemma js_join_split [simp]: "js_join c (js_split c s) = s"
proof (induction s)
  case (Cons x s)
  obtain p ps where "js_split c s = p # ps" by (cases "js_split c s") auto
  with Cons show ?case by (cases ps) auto
qed simp

lemma js_split_parts: "p \<in> set (js_split c s) \<Longrightarrow> c \<notin> set p"
  by (induction s arbitrary: p) (auto split: list.splits if_splits)

lemma js_join_append: "ps \<noteq> [] \<Longrightarrow> qs \<noteq> [] \<Longrightarrow> js_join c (ps @ qs) = js_join c ps @ c # js_join c qs"
  by (induction ps rule: js_join.induct) (auto simp: neq_Nil_conv)

lemma js_split_concat: "js_split c (s @ c # t) = js_split c s @ js_split c t"
proof (induction s)
  case (Cons x s)
  obtain p ps where "js_split c s = p # ps" by (cases "js_split c s") auto
  with Cons show ?case by auto
qed simp

lemma set_js_join: "p \<in> set ps \<Longrightarrow> set p \<subseteq> set (js_join c ps)"
  by (induction ps rule: js_join.induct) auto

lemma js_trim_Nil_iff: "js_trim s = [] \<longleftrightarrow> (\<forall>c \<in> set s. js_space c)"
proof
  assume "js_trim s = []"
  then have "\<forall>c \<in> set (dropWhile js_space s). js_space c"
    by (simp add: js_trim_def dropWhile_eq_Nil_conv)
  then have "dropWhile js_space s = []" by (metis hd_dropWhile hd_in_set)
  then show "\<forall>c \<in> set s. js_space c" by (simp add: dropWhile_eq_Nil_conv)
next
  assume "\<forall>c \<in> set s. js_space c"
  then have "dropWhile js_space s = []" by (metis dropWhile_eq_Nil_conv)
  then show "js_trim s = []" by (simp only: js_trim_def rev.simps dropWhile.simps)
qed

subsection \<open>Scrape targets\<close>

record model_config =
  mo_model :: string
  mo_provider :: string
  mo_version :: "string option"
  mo_webSearch :: bool

definition targets_required_message :: string where
  "targets_required_message =
     ''SCRAPE_TARGETS environment variable is required. '' @
     ''Set it to configure which AI models to track. Example:'' @ [CHR 0x0A] @
     ''  SCRAPE_TARGETS=chatgpt:olostep:online,google-ai-mode:olostep:online,copilot:olostep:online'' @
     [CHR 0x0A] @ ''See /docs/user-guide/providers for details.''"

definition parse_scrape_target :: "string \<Rightarrow> error + model_config" where
  "parse_scrape_target raw =
     (let trimmed = js_trim raw in
      if trimmed = [] then Inl (PlainError ''Invalid SCRAPE_TARGETS: empty entry (check for trailing commas)'')
      else
      let parts = js_split CHR '':'' trimmed in
      if length parts < 2
      then Inl (PlainError (''Invalid SCRAPE_TARGETS entry: '' @ [CHR 0x22] @ trimmed @ [CHR 0x22] @
             '' (need at least model:provider)''))
      else
      let webSearch = (last parts = ''online'');
          versionParts = drop 2 (if webSearch then butlast parts else parts) in
      Inr \<lparr>mo_model = parts ! 0, mo_provider = parts ! 1,
        mo_version = (if versionParts \<noteq> [] then Some (js_join CHR '':'' versionParts) else None),
        mo_webSearch = webSearch\<rparr>)"

definition parseScrapeTargets :: "string option \<Rightarrow> error + model_config list" where
  "parseScrapeTargets envValue =
     (case envValue of
        None \<Rightarrow> Inl (PlainError targets_required_message)
      | Some v \<Rightarrow>
          if v = [] \<or> js_trim v = [] then Inl (PlainError targets_required_message)
          else mapE parse_scrape_target (js_split CHR '','' v))"

definition formatScrapeTarget :: "model_config \<Rightarrow> string" where
  "formatScrapeTarget config =
     js_join CHR '':'' ([mo_model config, mo_provider config] @
       (case mo_version config of None \<Rightarrow> [] | Some v \<Rightarrow> if v = [] then [] else [v]) @
       (if mo_webSearch config then [''online''] else []))"

definition STATUS_TARGETS :: "string list" where
  "STATUS_TARGETS =
    [''chatgpt:olostep:online'',
     ''google-ai-mode:olostep:online'',
     ''google-ai-overview:olostep:online'',
     ''gemini:olostep:online'',
     ''copilot:olostep:online'',
     ''perplexity:olostep:online'',
     ''chatgpt:brightdata'',
     ''chatgpt:brightdata:online'',
     ''google-ai-mode:brightdata:online'',
     ''gemini:brightdata:online'',
     ''perplexity:brightdata:online'',
     ''copilot:brightdata:online'',
     ''google-ai-overview:brightdata:online'',
     ''chatgpt:oxylabs'',
     ''chatgpt:oxylabs:online'',
     ''google-ai-mode:oxylabs:online'',
     ''google-ai-overview:oxylabs:online'',
     ''perplexity:oxylabs:online'',
     ''google-ai-mode:dataforseo:online'',
     ''google-ai-overview:dataforseo:online'',
     ''chatgpt:dataforseo:online'',
     ''perplexity:dataforseo:online'',
     ''gemini:dataforseo:online'',
     ''chatgpt:openai-api:gpt-5-mini'',
     ''chatgpt:openai-api:gpt-5-mini:online'',
     ''claude:anthropic-api:claude-sonnet-4-6'',
     ''claude:anthropic-api:claude-sonnet-4-6:online'',
     ''claude:openrouter:anthropic/claude-sonnet-4.6'',
     ''claude:openrouter:anthropic/claude-sonnet-4.6:online'',
     ''chatgpt:openrouter:openai/gpt-5-mini'',
     ''chatgpt:openrouter:openai/gpt-5-mini:online'',
     ''gemini:openrouter:google/gemini-2.5-flash'',
     ''gemini:openrouter:google/gemini-2.5-flash:online'',
     ''deepseek:openrouter:deepseek/deepseek-v3.2'',
     ''deepseek:deepseek-api:deepseek-v4-pro:online'',
     ''kimi:openrouter:moonshotai/kimi-k3'',
     ''grok:openrouter:x-ai/grok-4.5'',
     ''grok:openrouter:x-ai/grok-4.5:online'',
     ''mistral:openrouter:mistralai/mistral-medium-3.1'',
     ''mistral:mistral-api:mistral-medium-latest'',
     ''mistral:mistral-api:mistral-medium-latest:online'']"

subsection \<open>The route of a target\<close>

datatype surface_kind = ConsumerWeb | SearchSurface | OfficialApiSurface | AggregatedApiSurface | LlmResponse

datatype capture_mode =
    VendorBrowser | VendorApi | OfficialApi | AggregatedApi | ManualImport | AssistedBrowser
  | BrowserRunnerCapture | TestCapture

datatype observation_cohort = ConsumerMeasurement | ApiDiagnostic

record target_descriptor =
  td_surfaceTargetKey :: string
  td_captureRouteKey :: string
  td_surfaceKind :: surface_kind
  td_captureMode :: capture_mode
  td_fixedMarket :: "string option"
  td_fixedLocale :: "string option"

definition route ::
  "string \<Rightarrow> string \<Rightarrow> surface_kind \<Rightarrow> capture_mode \<Rightarrow> string option \<times> string option \<Rightarrow> target_descriptor" where
  "route surfaceTargetKey captureRouteKey surfaceKind captureMode localization =
     \<lparr>td_surfaceTargetKey = surfaceTargetKey, td_captureRouteKey = captureRouteKey,
      td_surfaceKind = surfaceKind, td_captureMode = captureMode,
      td_fixedMarket = fst localization, td_fixedLocale = snd localization\<rparr>"

definition US_EN :: "string option \<times> string option" where "US_EN = (Some ''US'', Some ''en'')"

definition anywhere :: "string option \<times> string option" where "anywhere = (None, None)"

definition TARGET_ROUTES :: "(string \<times> target_descriptor) list" where
  "TARGET_ROUTES =
    [(''chatgpt:brightdata'', route ''chatgpt.consumer_web'' ''brightdata.chatgpt_dataset'' ConsumerWeb VendorBrowser US_EN),
     (''perplexity:brightdata'', route ''perplexity.consumer_web'' ''brightdata.perplexity_dataset'' ConsumerWeb VendorBrowser US_EN),
     (''gemini:brightdata'', route ''gemini.consumer_web'' ''brightdata.gemini_dataset'' ConsumerWeb VendorBrowser US_EN),
     (''copilot:brightdata'', route ''copilot.consumer_web'' ''brightdata.copilot_dataset'' ConsumerWeb VendorBrowser US_EN),
     (''google-ai-mode:brightdata'', route ''google_search.ai_mode'' ''brightdata.google_ai_mode_dataset'' SearchSurface VendorBrowser US_EN),
     (''google-ai-overview:brightdata'', route ''google_search.ai_overview'' ''brightdata.google_serp'' SearchSurface VendorBrowser US_EN),
     (''chatgpt:olostep'', route ''chatgpt.consumer_web'' ''olostep.chatgpt_parser'' ConsumerWeb VendorBrowser anywhere),
     (''perplexity:olostep'', route ''perplexity.consumer_web'' ''olostep.perplexity_parser'' ConsumerWeb VendorBrowser anywhere),
     (''gemini:olostep'', route ''gemini.consumer_web'' ''olostep.gemini_parser'' ConsumerWeb VendorBrowser anywhere),
     (''copilot:olostep'', route ''copilot.consumer_web'' ''olostep.copilot_parser'' ConsumerWeb VendorBrowser anywhere),
     (''grok:olostep'', route ''grok.consumer_web'' ''olostep.grok_parser'' ConsumerWeb VendorBrowser anywhere),
     (''google-ai-mode:olostep'', route ''google_search.ai_mode'' ''olostep.google_ai_mode_parser'' SearchSurface VendorBrowser anywhere),
     (''google-ai-overview:olostep'', route ''google_search.ai_overview'' ''olostep.google_ai_overview_parser'' SearchSurface VendorBrowser anywhere),
     (''chatgpt:oxylabs'', route ''chatgpt.consumer_web'' ''oxylabs.chatgpt_target'' ConsumerWeb VendorBrowser anywhere),
     (''perplexity:oxylabs'', route ''perplexity.consumer_web'' ''oxylabs.perplexity_target'' ConsumerWeb VendorBrowser anywhere),
     (''google-ai-mode:oxylabs'', route ''google_search.ai_mode'' ''oxylabs.google_ai_mode_target'' SearchSurface VendorBrowser anywhere),
     (''google-ai-overview:oxylabs'', route ''google_search.ai_overview'' ''oxylabs.google_ai_overview_target'' SearchSurface VendorBrowser anywhere),
     (''google-ai-mode:dataforseo'', route ''google_search.ai_mode'' ''dataforseo.google_ai_mode'' SearchSurface VendorApi US_EN),
     (''google-ai-overview:dataforseo'', route ''google_search.ai_overview'' ''dataforseo.google_ai_overview'' SearchSurface VendorApi US_EN),
     (''chatgpt:dataforseo'', route ''chatgpt.llm_response'' ''dataforseo.chatgpt_llm'' LlmResponse VendorApi anywhere),
     (''perplexity:dataforseo'', route ''perplexity.llm_response'' ''dataforseo.perplexity_llm'' LlmResponse VendorApi anywhere),
     (''gemini:dataforseo'', route ''gemini.llm_response'' ''dataforseo.gemini_llm'' LlmResponse VendorApi anywhere),
     (''claude:dataforseo'', route ''claude.llm_response'' ''dataforseo.claude_llm'' LlmResponse VendorApi anywhere),
     (''chatgpt:openai-api'', route ''openai.responses_api'' ''openai_api.responses'' OfficialApiSurface OfficialApi anywhere),
     (''claude:anthropic-api'', route ''anthropic.messages_api'' ''anthropic_api.messages'' OfficialApiSurface OfficialApi anywhere),
     (''deepseek:deepseek-api'', route ''deepseek.official_api'' ''deepseek_api.responses'' OfficialApiSurface OfficialApi anywhere),
     (''mistral:mistral-api'', route ''mistral.conversations_api'' ''mistral_api.conversations'' OfficialApiSurface OfficialApi anywhere),
     (''agnes:agnes-api'', route ''agnes.official_api'' ''agnes_api.responses'' OfficialApiSurface OfficialApi anywhere),
     (''chatgpt:openrouter'', route ''chatgpt.aggregated_api'' ''openrouter.chat_completions'' AggregatedApiSurface AggregatedApi anywhere),
     (''claude:openrouter'', route ''claude.aggregated_api'' ''openrouter.chat_completions'' AggregatedApiSurface AggregatedApi anywhere),
     (''gemini:openrouter'', route ''gemini.aggregated_api'' ''openrouter.chat_completions'' AggregatedApiSurface AggregatedApi anywhere),
     (''deepseek:openrouter'', route ''deepseek.aggregated_api'' ''openrouter.chat_completions'' AggregatedApiSurface AggregatedApi anywhere),
     (''kimi:openrouter'', route ''kimi.aggregated_api'' ''openrouter.chat_completions'' AggregatedApiSurface AggregatedApi anywhere),
     (''grok:openrouter'', route ''grok.aggregated_api'' ''openrouter.chat_completions'' AggregatedApiSurface AggregatedApi anywhere),
     (''mistral:openrouter'', route ''mistral.aggregated_api'' ''openrouter.chat_completions'' AggregatedApiSurface AggregatedApi anywhere)]"

definition resolveObservationTarget :: "model_config \<Rightarrow> error + target_descriptor" where
  "resolveObservationTarget config =
     (if mo_provider config = ''stub''
      then Inr (route (mo_model config @ ''.test_surface'') ''stub.test'' LlmResponse TestCapture anywhere)
      else requireSome (PlainError (''No measurement target is registered for '' @ mo_model config @ '':'' @
             mo_provider config @ ''. '' @
             ''Register its real surface and capture route before enabling it.''))
           (map_of TARGET_ROUTES (mo_model config @ '':'' @ mo_provider config)))"

text \<open>
  \<open>toUpperCase\<close>, on code points: the sharp s becomes two letters, the micro sign and the y with
  diaeresis leave the first 256.
\<close>

definition js_upper_char :: "char \<Rightarrow> nat list" where
  "js_upper_char c =
     (let n = (of_char c :: nat) in
      if n = 223 then [83, 83] else if n = 181 then [924] else if n = 255 then [376]
      else if (97 \<le> n \<and> n \<le> 122) \<or> (224 \<le> n \<and> n \<le> 254 \<and> n \<noteq> 247) then [n - 32] else [n])"

definition js_upper :: "string \<Rightarrow> nat list" where
  "js_upper s = concat (map js_upper_char s)"

definition language_of :: "string \<Rightarrow> string" where
  "language_of l = hd (js_split CHR ''-'' (js_lower l))"

definition assertObservationRouteSupportsScope :: "target_descriptor \<Rightarrow> string \<Rightarrow> string \<Rightarrow> error + unit" where
  "assertObservationRouteSupportsScope descriptor market locality =
     (if market = ''ZZ'' \<and> locality = ''und'' then Inr ()
      else if (td_surfaceKind descriptor = ConsumerWeb \<or> td_surfaceKind descriptor = SearchSurface) \<and>
        (td_fixedMarket descriptor \<in> {None, Some []} \<or> td_fixedLocale descriptor \<in> {None, Some []})
      then Inl (PlainError (''Capture route '' @ td_captureRouteKey descriptor @
             '' has no verified market/locale routing and cannot be assigned to an explicit scope''))
      else
      bindE (case td_fixedMarket descriptor of
               None \<Rightarrow> Inr ()
             | Some m \<Rightarrow>
                 if m \<noteq> [] \<and> js_upper m \<noteq> js_upper market
                 then Inl (PlainError (''Capture route '' @ td_captureRouteKey descriptor @ '' is fixed to market '' @
                        m @ '', '' @ ''but scope requests '' @ market))
                 else Inr ()) (\<lambda>_.
      case td_fixedLocale descriptor of
        None \<Rightarrow> Inr ()
      | Some l \<Rightarrow>
          if l \<noteq> [] \<and> language_of locality \<noteq> language_of l
          then Inl (PlainError (''Capture route '' @ td_captureRouteKey descriptor @ '' is fixed to locale '' @
                 l @ '', '' @ ''but scope requests '' @ locality))
          else Inr ()))"

definition getObservationTargetCohort :: "target_descriptor \<Rightarrow> observation_cohort" where
  "getObservationTargetCohort descriptor =
     (if td_surfaceKind descriptor = ConsumerWeb \<or> td_surfaceKind descriptor = SearchSurface
      then ConsumerMeasurement else ApiDiagnostic)"

definition buildObservationSourceKey :: "string \<Rightarrow> model_config \<Rightarrow> int \<Rightarrow> string" where
  "buildObservationSourceKey sourceJobId config sampleIndex =
     ''pgboss:'' @ sourceJobId @ '':'' @ formatScrapeTarget config @ '':'' @ int_dec sampleIndex"

subsection \<open>Targets are read back as they were written\<close>

text \<open>
  What a written target needs to be read back: no separator in its parts, a version that is not
  empty, nothing to trim at its ends, and no last part \<open>online\<close> unless web search is on.
\<close>

definition target_parts :: "model_config \<Rightarrow> string list" where
  "target_parts c =
     [mo_model c, mo_provider c] @ (case mo_version c of None \<Rightarrow> [] | Some v \<Rightarrow> js_split CHR '':'' v) @
     (if mo_webSearch c then [''online''] else [])"

definition target_wf :: "model_config \<Rightarrow> bool" where
  "target_wf c \<longleftrightarrow>
     CHR '':'' \<notin> set (mo_model c) \<and> CHR '':'' \<notin> set (mo_provider c) \<and> mo_version c \<noteq> Some [] \<and>
     CHR '','' \<notin> set (formatScrapeTarget c) \<and> js_trim (formatScrapeTarget c) = formatScrapeTarget c \<and>
     (mo_webSearch c \<or> last (target_parts c) \<noteq> ''online'')"

lemma js_join_Cons: "ps \<noteq> [] \<Longrightarrow> js_join c (p # ps) = p @ c # js_join c ps"
  by (cases ps) auto

lemma format_parts: "mo_version c \<noteq> Some [] \<Longrightarrow> formatScrapeTarget c = js_join CHR '':'' (target_parts c)"
  by (cases "mo_version c")
    (auto simp: formatScrapeTarget_def target_parts_def js_join_Cons js_join_append)

lemma split_format: "target_wf c \<Longrightarrow> js_split CHR '':'' (formatScrapeTarget c) = target_parts c"
  unfolding target_wf_def
  by (subst format_parts, blast, rule js_split_join)
    (auto simp: target_parts_def dest: js_split_parts split: option.splits if_splits)

lemma parse_format: "target_wf c \<Longrightarrow> parse_scrape_target (formatScrapeTarget c) = Inr c"
proof -
  assume wf: "target_wf c"
  then have trim: "js_trim (formatScrapeTarget c) = formatScrapeTarget c" by (simp add: target_wf_def)
  have "formatScrapeTarget c \<noteq> []"
    using split_format [OF wf] by (auto simp: target_parts_def)
  moreover have "(last (target_parts c) = ''online'') = mo_webSearch c"
    using wf by (cases "mo_webSearch c") (simp_all add: target_wf_def target_parts_def)
  moreover have "drop 2 (if mo_webSearch c then butlast (target_parts c) else target_parts c) =
    (case mo_version c of None \<Rightarrow> [] | Some v \<Rightarrow> js_split CHR '':'' v)"
    by (simp add: target_parts_def butlast_append)
  moreover have "2 \<le> length (target_parts c)" "target_parts c ! 0 = mo_model c" "target_parts c ! 1 = mo_provider c"
    by (simp_all add: target_parts_def)
  ultimately show ?thesis
    by (cases "mo_version c")
      (simp_all add: parse_scrape_target_def Let_def trim split_format [OF wf] del: drop_eq_Nil)
qed

lemma colon_in_format: "CHR '':'' \<in> set (formatScrapeTarget c)"
  by (simp add: formatScrapeTarget_def)

text \<open>C33: Whatever list of targets is written as \<open>SCRAPE_TARGETS\<close>, reading it back gives the same
  targets in the same order, as long as each can be written at all: no separator in its parts, a
  version that is not empty, and the word \<open>online\<close> at its end only for web search.\<close>

theorem scrape_targets_roundtrip:
  assumes "cs \<noteq> []" and "\<And>c. c \<in> set cs \<Longrightarrow> target_wf c"
  shows "parseScrapeTargets (Some (js_join CHR '','' (map formatScrapeTarget cs))) = Inr cs"
proof -
  have parts: "js_split CHR '','' (js_join CHR '','' (map formatScrapeTarget cs)) = map formatScrapeTarget cs"
    by (rule js_split_join) (use assms in \<open>auto simp: target_wf_def\<close>)
  have "mapE parse_scrape_target (map formatScrapeTarget ds) = Inr ds" if "set ds \<subseteq> set cs" for ds
    using that assms(2) by (induction ds) (simp_all add: parse_format)
  moreover obtain c where "c \<in> set cs" using assms(1) by (cases cs) auto
  then have "CHR '':'' \<in> set (js_join CHR '','' (map formatScrapeTarget cs))"
    using set_js_join [of "formatScrapeTarget c" "map formatScrapeTarget cs"] colon_in_format by fastforce
  then have "js_trim (js_join CHR '','' (map formatScrapeTarget cs)) \<noteq> []"
    unfolding js_trim_Nil_iff by (rule_tac notI, drule_tac bspec) (auto simp: js_space_def)
  ultimately show ?thesis by (auto simp: parseScrapeTargets_def parts)
qed

theorem scrape_targets_roundtrip_witness:
  "\<exists>cs. length cs = 2 \<and> mo_version (cs ! 1) = Some ''a/b:free'' \<and>
     parseScrapeTargets (Some (js_join CHR '','' (map formatScrapeTarget cs))) = Inr cs"
proof -
  let ?cs = "[\<lparr>mo_model = ''chatgpt'', mo_provider = ''olostep'', mo_version = None, mo_webSearch = True\<rparr>,
    \<lparr>mo_model = ''kimi'', mo_provider = ''openrouter'', mo_version = Some ''a/b:free'', mo_webSearch = False\<rparr>]"
  have "list_all target_wf ?cs" by code_simp
  then have "parseScrapeTargets (Some (js_join CHR '','' (map formatScrapeTarget ?cs))) = Inr ?cs"
    by (intro scrape_targets_roundtrip) (auto simp: list_all_iff)
  then show ?thesis by (intro exI [of _ ?cs]) simp
qed

subsection \<open>Source keys\<close>

fun digits_value :: "string \<Rightarrow> nat" where
  "digits_value s = foldl (\<lambda>n c. 10 * n + (of_char c - 48)) 0 s"

lemma nat_dec_digits: "c \<in> set (nat_dec n) \<Longrightarrow> 48 \<le> (of_char c :: nat) \<and> (of_char c :: nat) \<le> 57"
proof (induction n rule: nat_dec.induct)
  case (1 n)
  show ?case
  proof (cases "n < 10")
    case True
    with 1(2) show ?thesis by (simp add: nat_dec.simps [of n])
  next
    case False
    with 1 show ?thesis by (auto simp: nat_dec.simps [of n])
  qed
qed

lemma digits_value_nat_dec [simp]: "digits_value (nat_dec n) = n"
proof (induction n rule: nat_dec.induct)
  case (1 n)
  then show ?case by (cases "n < 10") (simp_all add: nat_dec.simps [of n])
qed

lemma int_dec_inj: "int_dec m = int_dec n \<Longrightarrow> m = n"
proof -
  have no_minus: "nat_dec k \<noteq> CHR ''-'' # s" for k s
    using nat_dec_digits [of "CHR ''-''" k] by auto
  assume "int_dec m = int_dec n"
  then have "(m < 0) = (n < 0) \<and> nat (abs m) = nat (abs n)"
    using no_minus digits_value_nat_dec
    by (cases "m < 0"; cases "n < 0"; simp add: int_dec_def) metis+
  then show "m = n" by linarith
qed

lemma int_dec_no_colon: "CHR '':'' \<notin> set (int_dec n)"
  using nat_dec_digits [of "CHR '':''"] by (auto simp: int_dec_def)

text \<open>C34: The key of a scheduled sample identifies it: two samples with one key have the same job, the
  same target and the same index, so no sample can be stored in the place of another.\<close>

theorem source_key_identifies_sample:
  assumes "buildObservationSourceKey job c i = buildObservationSourceKey job' c' i'"
    and "target_wf c" and "target_wf c'" and "CHR '':'' \<notin> set job" and "CHR '':'' \<notin> set job'"
  shows "job = job' \<and> c = c' \<and> i = i'"
proof -
  have parts: "js_split CHR '':'' (buildObservationSourceKey j d k) =
    ''pgboss'' # j # js_split CHR '':'' (formatScrapeTarget d) @ [int_dec k]"
    if "CHR '':'' \<notin> set j" for j d k
    using that js_split_append [of "CHR '':''" "''pgboss''"]
    by (simp add: buildObservationSourceKey_def js_split_append js_split_concat int_dec_no_colon)
  from parts [OF assms(4), of c i] parts [OF assms(5), of c' i'] assms(1)
  have "job = job'" "js_split CHR '':'' (formatScrapeTarget c) = js_split CHR '':'' (formatScrapeTarget c')"
    "int_dec i = int_dec i'" by auto
  moreover from this(2) have "formatScrapeTarget c = formatScrapeTarget c'" by (metis js_join_split)
  then have "c = c'" by (metis parse_format assms(2, 3) sum.inject(2))
  ultimately show ?thesis using int_dec_inj by blast
qed

theorem source_key_identifies_sample_witness:
  "\<exists>c. mo_model c = ''chatgpt'' \<and> buildObservationSourceKey ''j'' c 1 = ''pgboss:j:chatgpt:olostep:online:1'' \<and>
     (\<forall>i. buildObservationSourceKey ''j'' c 1 = buildObservationSourceKey ''j'' c i \<longrightarrow> i = 1)"
proof -
  let ?c = "\<lparr>mo_model = ''chatgpt'', mo_provider = ''olostep'', mo_version = None, mo_webSearch = True\<rparr>"
  have wf: "target_wf ?c" by code_simp
  have "\<forall>i. buildObservationSourceKey ''j'' ?c 1 = buildObservationSourceKey ''j'' ?c i \<longrightarrow> i = 1"
    using source_key_identifies_sample [OF _ wf wf, of "''j''" 1 "''j''"] by auto
  moreover have "buildObservationSourceKey ''j'' ?c 1 = ''pgboss:j:chatgpt:olostep:online:1''" by code_simp
  ultimately show ?thesis by (intro exI [of _ ?c] conjI) simp_all
qed

text \<open>Each target of the status page is well formed, is read back, and has a route.\<close>

theorem status_targets_measurable:
  "list_all (\<lambda>s. case parseScrapeTargets (Some s) of
       Inr [c] \<Rightarrow> formatScrapeTarget c = s \<and> target_wf c \<and>
         (case resolveObservationTarget c of Inr _ \<Rightarrow> True | Inl _ \<Rightarrow> False)
     | _ \<Rightarrow> False) STATUS_TARGETS"
  by code_simp

end
