(* ===== verification/Observations.thy ===== *)
theory Observations
  imports Evidence ObservationTargets
begin

text \<open>
  Observation attempts (\<open>packages/lib/src/db/observations.ts\<close>): an attempt is claimed under the
  source key of its sample, and its outcome is stored once, as a failure or as a prompt run with
  its citations, its evidence and the completion of the delivery task it answers, together with
  the reservation of a snapshot (\<open>reserveResponseSnapshotInTransaction\<close> of
  \<open>packages/lib/src/db/response-snapshots.ts\<close>). The store adds to the evidence store the full rows of
  the attempts and the tables of runs, citations and snapshots; the delivery database sees the
  columns of an attempt that its triggers read. The order of a JSON object's entries is the order
  in which the code sets them.
\<close>

subsection \<open>Rows\<close>

record attempt_row = observation_attempt +
  ob_sourceKey :: string
  ob_sourceJobId :: "string option"
  ob_model :: string
  ob_provider :: string
  ob_requestedVersion :: "string option"
  ob_webSearchEnabled :: bool
  ob_webSearchObserved :: "bool option"
  ob_executionCount :: int
  ob_startedAt :: int
  ob_completedAt :: "int option"
  ob_latencyMs :: "int option"
  ob_errorClass :: "string option"
  ob_errorCode :: "string option"
  ob_errorMessage :: "string option"
  ob_failureStage :: "string option"
  ob_captureMetadata :: "(string \<times> json) list"

record prompt_run =
  pu_id :: string
  pu_promptId :: string
  pu_brandId :: string
  pu_observationAttemptId :: "string option"
  pu_scopeId :: "string option"
  pu_surfaceTargetKey :: "string option"
  pu_captureRouteKey :: "string option"
  pu_model :: string
  pu_provider :: "string option"
  pu_version :: string
  pu_webSearchEnabled :: bool
  pu_webSearchObserved :: "bool option"
  pu_rawOutput :: json
  pu_answerText :: "string option"
  pu_webQueries :: "string list"
  pu_brandMentioned :: bool
  pu_competitorsMentioned :: "string list"
  pu_observedAt :: "int option"
  pu_createdAt :: int

record citation_row =
  ci_id :: string
  ci_promptRunId :: string
  ci_promptId :: string
  ci_brandId :: string
  ci_model :: string
  ci_url :: string
  ci_domain :: string
  ci_title :: "string option"
  ci_citationIndex :: int
  ci_createdAt :: int

datatype snapshot_status = SnapshotPending | SnapshotReady | SnapshotFailed | SnapshotExpired

record snapshot_row =
  sn_id :: string
  sn_promptRunId :: string
  sn_brandId :: string
  sn_scopeId :: "string option"
  sn_promptId :: string
  sn_revision :: int
  sn_isCurrent :: bool
  sn_status :: snapshot_status
  sn_observedAt :: int
  sn_expiresAt :: int

record observation_store =
  os_evidence :: evidence_store
  os_attempts :: "attempt_row list"
  os_runs :: "prompt_run list"
  os_citations :: "citation_row list"
  os_snapshots :: "snapshot_row list"

text \<open>
  \<open>ObservationOther\<close> is an error of the evidence or the delivery code, a plain \<open>Error\<close> of this
  file (\<open>EvidenceOther (PlainError _)\<close>) or a rejection by the database.
\<close>

datatype observation_error =
    ObservationSourceConflict string
  | SnapshotStateError string
  | ObservationOther evidence_error

definition observe :: "evidence_error + 'a \<Rightarrow> observation_error + 'a" where
  "observe m = (case m of Inl e \<Rightarrow> Inl (ObservationOther e) | Inr x \<Rightarrow> Inr x)"

definition plain :: "string \<Rightarrow> observation_error" where
  "plain m = ObservationOther (EvidenceOther (PlainError m))"

definition rejected :: observation_error where
  "rejected = ObservationOther (EvidenceOther DatabaseError)"

lemma observe_Inr_iff [thrown_simps]: "observe m = Inr x \<longleftrightarrow> m = Inr x"
  by (cases m) (auto simp: observe_def)

definition os_db :: "observation_store \<Rightarrow> database" where
  "os_db s = es_db (os_evidence s)"

definition with_db :: "database \<Rightarrow> observation_store \<Rightarrow> observation_store" where
  "with_db db s = s\<lparr>os_evidence := (os_evidence s)\<lparr>es_db := db\<rparr>\<rparr>"

definition set_attempts :: "attempt_row list \<Rightarrow> observation_store \<Rightarrow> observation_store" where
  "set_attempts rows s =
     with_db ((os_db s)\<lparr>d_attempts := map observation_attempt.truncate rows\<rparr>) (s\<lparr>os_attempts := rows\<rparr>)"

subsection \<open>JSON objects\<close>

text \<open>Spreading an object over another one, and what \<open>JSON.stringify\<close> keeps of a value.\<close>

fun obj_put :: "string \<times> json \<Rightarrow> (string \<times> json) list \<Rightarrow> (string \<times> json) list" where
  "obj_put e [] = [e]"
| "obj_put e (x # xs) = (if fst x = fst e then e # xs else x # obj_put e xs)"

definition obj_spread :: "(string \<times> json) list \<Rightarrow> (string \<times> json) list \<Rightarrow> (string \<times> json) list" where
  "obj_spread base over = foldl (\<lambda>obj e. obj_put e obj) base over"

fun stored_json :: "json \<Rightarrow> json" where
  "stored_json JUndef = JNull"
| "stored_json JNonFinite = JNull"
| "stored_json (JArr vs) = JArr (map stored_json vs)"
| "stored_json (JObj kvs) = JObj (map (\<lambda>(k, v). (k, stored_json v)) (filter (\<lambda>(k, v). v \<noteq> JUndef) kvs))"
| "stored_json v = v"

definition stored_object :: "(string \<times> json) list \<Rightarrow> (string \<times> json) list" where
  "stored_object kvs = map (\<lambda>(k, v). (k, stored_json v)) (filter (\<lambda>(k, v). v \<noteq> JUndef) kvs)"

definition optional_text_json :: "string option \<Rightarrow> json" where
  "optional_text_json v = (case v of None \<Rightarrow> JUndef | Some t \<Rightarrow> JStr t)"

subsection \<open>What the database checks\<close>

definition attempt_values_ok :: "attempt_row \<Rightarrow> bool" where
  "attempt_values_ok a \<longleftrightarrow>
     0 < oa_sampleIndex a \<and> oa_sampleIndex a \<le> 32767 \<and>
     - 32768 \<le> ob_executionCount a \<and> ob_executionCount a \<le> 32767 \<and>
     (case ob_latencyMs a of None \<Rightarrow> True | Some l \<Rightarrow> - 2147483648 \<le> l \<and> l \<le> 2147483647)"

definition attempt_row_ok :: "database \<Rightarrow> attempt_row \<Rightarrow> bool" where
  "attempt_row_ok db a \<longleftrightarrow>
     attempt_values_ok a \<and> list_ex (\<lambda>p. pm_id p = oa_promptId a) (d_prompts db) \<and>
     list_ex (\<lambda>b. br_id b = oa_brandId a) (d_brands db) \<and>
     list_ex (\<lambda>c. ms_id c = oa_scopeId a \<and> sc_brandId c = oa_brandId a) (d_scopes db)"

definition source_of :: "attempt_row \<Rightarrow> string \<times> string" where
  "source_of a = (oa_brandId a, ob_sourceKey a)"

definition attempt_keys_unique :: "attempt_row list \<Rightarrow> bool" where
  "attempt_keys_unique rows \<longleftrightarrow> distinct (map oa_id rows) \<and> distinct (map source_of rows)"

text \<open>
  \<open>ON CONFLICT (brand_id, source_key) DO NOTHING\<close>: the values are checked before the conflict is
  looked for, the references after it.
\<close>

definition insert_attempt ::
  "attempt_row \<Rightarrow> observation_store \<Rightarrow> observation_error + observation_store \<times> attempt_row option" where
  "insert_attempt a s =
     (if \<not> attempt_values_ok a then Inl rejected
      else if list_ex (\<lambda>x. source_of x = source_of a) (os_attempts s) then Inr (s, None)
      else if \<not> attempt_row_ok (os_db s) a \<or> list_ex (\<lambda>x. oa_id x = oa_id a) (os_attempts s) then Inl rejected
      else Inr (set_attempts (os_attempts s @ [a]) s, Some a))"

definition update_attempts ::
  "observation_store \<Rightarrow> (attempt_row \<Rightarrow> bool) \<Rightarrow> (attempt_row \<Rightarrow> attempt_row) \<Rightarrow>
   observation_error + observation_store \<times> attempt_row list" where
  "update_attempts s p f =
     (let rows = set_where p f (os_attempts s) in
      if list_all (\<lambda>a. p a \<longrightarrow> attempt_row_ok (os_db s) (f a)) (os_attempts s) \<and> attempt_keys_unique rows
      then Inr (set_attempts rows s, map f (filter p (os_attempts s)))
      else Inl rejected)"

lemma update_attempts_InrD:
  assumes "update_attempts s p f = Inr (s', out)"
  shows "s' = set_attempts (set_where p f (os_attempts s)) s" "out = map f (filter p (os_attempts s))"
    "\<And>a. a \<in> set (os_attempts s) \<Longrightarrow> p a \<Longrightarrow> attempt_row_ok (os_db s) (f a)"
    "attempt_keys_unique (set_where p f (os_attempts s))"
  using assms by (auto simp: update_attempts_def Let_def list_all_iff split: if_splits)

lemma set_attempts_simps [simp]:
  "os_attempts (set_attempts rows s) = rows" "os_runs (set_attempts rows s) = os_runs s"
  "os_citations (set_attempts rows s) = os_citations s" "os_snapshots (set_attempts rows s) = os_snapshots s"
  "os_db (set_attempts rows s) = (os_db s)\<lparr>d_attempts := map observation_attempt.truncate rows\<rparr>"
  "es_artifacts (os_evidence (set_attempts rows s)) = es_artifacts (os_evidence s)"
  by (simp_all add: set_attempts_def with_db_def os_db_def)

interpretation attempt_table:
  guarded_table os_attempts oa_id "\<lambda>s old new. attempt_row_ok (os_db s) new" update_attempts
  by unfold_locales (auto dest: update_attempts_InrD)

definition run_row_ok :: "observation_store \<Rightarrow> prompt_run \<Rightarrow> bool" where
  "run_row_ok s r \<longleftrightarrow>
     list_ex (\<lambda>p. pm_id p = pu_promptId r) (d_prompts (os_db s)) \<and>
     list_ex (\<lambda>b. br_id b = pu_brandId r) (d_brands (os_db s)) \<and>
     (case pu_observationAttemptId r of None \<Rightarrow> True | Some i \<Rightarrow> list_ex (\<lambda>a. oa_id a = i) (os_attempts s)) \<and>
     (case pu_scopeId r of
        None \<Rightarrow> True
      | Some i \<Rightarrow> list_ex (\<lambda>c. ms_id c = i \<and> sc_brandId c = pu_brandId r) (d_scopes (os_db s))) \<and>
     \<not> list_ex (\<lambda>x. pu_id x = pu_id r) (os_runs s) \<and>
     (pu_observationAttemptId r \<noteq> None \<longrightarrow>
        \<not> list_ex (\<lambda>x. pu_observationAttemptId x = pu_observationAttemptId r) (os_runs s))"

definition insert_run :: "prompt_run \<Rightarrow> observation_store \<Rightarrow> observation_error + observation_store" where
  "insert_run r s = (if run_row_ok s r then Inr (s\<lparr>os_runs := os_runs s @ [r]\<rparr>) else Inl rejected)"

definition insert_citations :: "citation_row list \<Rightarrow> observation_store \<Rightarrow> observation_error + observation_store" where
  "insert_citations cs s =
     (if list_all (\<lambda>c. - 32768 \<le> ci_citationIndex c \<and> ci_citationIndex c \<le> 32767 \<and>
           list_ex (\<lambda>r. pu_id r = ci_promptRunId c) (os_runs s) \<and>
           list_ex (\<lambda>p. pm_id p = ci_promptId c) (d_prompts (os_db s)) \<and>
           list_ex (\<lambda>b. br_id b = ci_brandId c) (d_brands (os_db s))) cs \<and>
         distinct (map ci_id (os_citations s @ cs))
      then Inr (s\<lparr>os_citations := os_citations s @ cs\<rparr>) else Inl rejected)"

subsection \<open>Reserving a snapshot\<close>

definition RESPONSE_SNAPSHOT_RETENTION_MS :: int where
  "RESPONSE_SNAPSHOT_RETENTION_MS = 90 * 24 * 60 * 60 * 1000"

text \<open>A date that is not valid is \<open>None\<close>; adding to a valid date may leave the range of dates.\<close>

definition calculateResponseSnapshotExpiresAt :: "int option \<Rightarrow> observation_error + int option" where
  "calculateResponseSnapshotExpiresAt observedAt =
     (case observedAt of
        None \<Rightarrow> Inl (SnapshotStateError ''observedAt must be a valid date'')
      | Some t \<Rightarrow>
          let e = t + RESPONSE_SNAPSHOT_RETENTION_MS in Inr (if \<bar>e\<bar> \<le> 8640000000000000 then Some e else None))"

record snapshot_reservation =
  sv_snapshotId :: string
  sv_revision :: int
  sv_expiresAt :: int

definition snapshot_row_ok :: "observation_store \<Rightarrow> snapshot_row \<Rightarrow> bool" where
  "snapshot_row_ok s n \<longleftrightarrow>
     sn_revision n > 0 \<and> sn_expiresAt n > sn_observedAt n \<and>
     list_ex (\<lambda>r. pu_id r = sn_promptRunId n) (os_runs s) \<and>
     list_ex (\<lambda>p. pm_id p = sn_promptId n) (d_prompts (os_db s)) \<and>
     list_ex (\<lambda>b. br_id b = sn_brandId n) (d_brands (os_db s)) \<and>
     (case sn_scopeId n of
        None \<Rightarrow> True
      | Some i \<Rightarrow> list_ex (\<lambda>c. ms_id c = i \<and> sc_brandId c = sn_brandId n) (d_scopes (os_db s)))"

text \<open>\<open>ON CONFLICT DO NOTHING\<close> on any of the three unique indexes.\<close>

definition snapshot_conflict :: "snapshot_row \<Rightarrow> snapshot_row \<Rightarrow> bool" where
  "snapshot_conflict n x \<longleftrightarrow>
     sn_id x = sn_id n \<or> (sn_promptRunId x = sn_promptRunId n \<and> sn_revision x = sn_revision n) \<or>
     (sn_promptRunId x = sn_promptRunId n \<and> sn_isCurrent x \<and> sn_isCurrent n)"

definition reserveResponseSnapshotInTransaction ::
  "string \<Rightarrow> string \<Rightarrow> string \<Rightarrow> string option \<Rightarrow> string \<Rightarrow> int option \<Rightarrow> observation_store \<Rightarrow>
   observation_error + observation_store \<times> snapshot_reservation" where
  "reserveResponseSnapshotInTransaction newId promptRunId brandId scopeId promptId observedDate s =
     bindE (calculateResponseSnapshotExpiresAt observedDate) (\<lambda>expires.
     case (observedDate, expires) of
       (Some observedAt, Some expiresAt) \<Rightarrow>
         let n = \<lparr>sn_id = newId, sn_promptRunId = promptRunId, sn_brandId = brandId, sn_scopeId = scopeId,
               sn_promptId = promptId, sn_revision = 1, sn_isCurrent = True, sn_status = SnapshotPending,
               sn_observedAt = observedAt, sn_expiresAt = expiresAt\<rparr> in
         if \<not> list_ex (snapshot_conflict n) (os_snapshots s) then
           (if snapshot_row_ok s n
            then Inr (s\<lparr>os_snapshots := os_snapshots s @ [n]\<rparr>,
                   \<lparr>sv_snapshotId = newId, sv_revision = 1, sv_expiresAt = expiresAt\<rparr>)
            else Inl rejected)
         else
         (case find (\<lambda>x. sn_promptRunId x = promptRunId \<and> sn_isCurrent x) (os_snapshots s) of
            None \<Rightarrow> Inl (SnapshotStateError ''Existing snapshot reservation has a conflicting run identity'')
          | Some existing \<Rightarrow>
              if sn_brandId existing \<noteq> brandId \<or> sn_scopeId existing \<noteq> scopeId \<or>
                sn_promptId existing \<noteq> promptId \<or> sn_observedAt existing \<noteq> observedAt
              then Inl (SnapshotStateError ''Existing snapshot reservation has a conflicting run identity'')
              else Inr (s, \<lparr>sv_snapshotId = sn_id existing, sv_revision = sn_revision existing,
                     sv_expiresAt = sn_expiresAt existing\<rparr>))
     | _ \<Rightarrow> Inl (plain ''Invalid time value''))"

subsection \<open>Claiming an attempt\<close>

datatype attempt_state = AttemptExecute | AttemptInProgress | AttemptCompleted

record claimed_attempt =
  ca_id :: string
  ca_startedAt :: int
  ca_state :: attempt_state
  ca_promptRunId :: "string option"

definition RUNNING_ATTEMPT_LEASE_MS :: int where "RUNNING_ATTEMPT_LEASE_MS = 14 * 60 * 1000"

text \<open>\<open>webSearchObserved\<close> is null or absent when it is \<open>None\<close>.\<close>

record claim_observation_input =
  ki_sourceKey :: string
  ki_sourceJobId :: "string option"
  ki_promptId :: string
  ki_promptText :: string
  ki_brandId :: string
  ki_scope :: measurement_scope
  ki_target :: target_descriptor
  ki_config :: model_config
  ki_webSearchObserved :: "bool option"
  ki_sampleIndex :: int
  ki_captureMetadata :: "(string \<times> json) list"
  ki_sampleFingerprint :: "string option"

definition capture_mode_text :: "capture_mode \<Rightarrow> string" where
  "capture_mode_text m =
     (case m of VendorBrowser \<Rightarrow> ''vendor_browser'' | VendorApi \<Rightarrow> ''vendor_api'' | OfficialApi \<Rightarrow> ''official_api''
      | AggregatedApi \<Rightarrow> ''aggregated_api'' | ManualImport \<Rightarrow> ''manual_import''
      | AssistedBrowser \<Rightarrow> ''assisted_browser'' | BrowserRunnerCapture \<Rightarrow> ''browser_runner'' | TestCapture \<Rightarrow> ''test'')"

definition capture_metadata :: "claim_observation_input \<Rightarrow> (string \<times> json) list" where
  "capture_metadata input =
     (let target = ki_target input;
          fixedLocalization = truthy_text (td_fixedMarket target) \<and> truthy_text (td_fixedLocale target);
          localizationEvidence =
            (if fixedLocalization then ''fixed_route''
             else if td_captureMode target = ManualImport \<or> td_captureMode target = AssistedBrowser
             then ''capture_reported'' else ''prompt_context_only'') in
      obj_spread
        (obj_spread
          [(''captureMode'', JStr (capture_mode_text (td_captureMode target))),
           (''scopeContextMarket'', JStr (ms_market (ki_scope input))),
           (''scopeContextLocale'', JStr (ms_locale (ki_scope input))),
           (''timezone'', JStr (ms_timezone (ki_scope input))),
           (''fixedMarket'', optional_text_json (td_fixedMarket target)),
           (''fixedLocale'', optional_text_json (td_fixedLocale target)),
           (''executionMarketVerified'', JBool fixedLocalization),
           (''localizationEvidence'', JStr localizationEvidence)]
          (ki_captureMetadata input))
        (if truthy_text (ki_sampleFingerprint input)
         then [(''sampleFingerprint'', JStr (the (ki_sampleFingerprint input)))] else []))"

definition new_attempt :: "string \<Rightarrow> int \<Rightarrow> claim_observation_input \<Rightarrow> attempt_row" where
  "new_attempt newId startedAt input =
     \<lparr>oa_id = newId, oa_brandId = ki_brandId input, oa_scopeId = ms_id (ki_scope input),
      oa_promptId = ki_promptId input, oa_promptText = ki_promptText input,
      oa_surfaceTargetKey = td_surfaceTargetKey (ki_target input),
      oa_captureRouteKey = td_captureRouteKey (ki_target input), oa_sampleIndex = ki_sampleIndex input,
      oa_status = ObsRunning, ob_sourceKey = ki_sourceKey input, ob_sourceJobId = ki_sourceJobId input,
      ob_model = mo_model (ki_config input), ob_provider = mo_provider (ki_config input),
      ob_requestedVersion = mo_version (ki_config input), ob_webSearchEnabled = mo_webSearch (ki_config input),
      ob_webSearchObserved = ki_webSearchObserved input, ob_executionCount = 1, ob_startedAt = startedAt,
      ob_completedAt = None, ob_latencyMs = None, ob_errorClass = None, ob_errorCode = None,
      ob_errorMessage = None, ob_failureStage = None,
      ob_captureMetadata = stored_object (capture_metadata input)\<rparr>"

definition identity_changed :: "claim_observation_input \<Rightarrow> attempt_row \<Rightarrow> bool" where
  "identity_changed input existing \<longleftrightarrow>
     oa_promptId existing \<noteq> ki_promptId input \<or> oa_scopeId existing \<noteq> ms_id (ki_scope input) \<or>
     oa_surfaceTargetKey existing \<noteq> td_surfaceTargetKey (ki_target input) \<or>
     oa_captureRouteKey existing \<noteq> td_captureRouteKey (ki_target input) \<or>
     oa_promptText existing \<noteq> ki_promptText input \<or> ob_model existing \<noteq> mo_model (ki_config input) \<or>
     ob_provider existing \<noteq> mo_provider (ki_config input) \<or>
     ob_requestedVersion existing \<noteq> mo_version (ki_config input) \<or>
     ob_webSearchEnabled existing \<noteq> mo_webSearch (ki_config input) \<or>
     oa_sampleIndex existing \<noteq> ki_sampleIndex input"

definition fingerprint_changed :: "claim_observation_input \<Rightarrow> attempt_row \<Rightarrow> bool" where
  "fingerprint_changed input existing \<longleftrightarrow>
     (case ki_sampleFingerprint input of
        None \<Rightarrow> False
      | Some f \<Rightarrow> map_of (ob_captureMetadata existing) ''sampleFingerprint'' \<noteq> Some (JStr f))"

definition running_lease_active :: "int \<Rightarrow> attempt_row \<Rightarrow> bool" where
  "running_lease_active dateNow existing \<longleftrightarrow>
     oa_status existing = ObsRunning \<and> dateNow - ob_startedAt existing < RUNNING_ATTEMPT_LEASE_MS"

definition restarted :: "int \<Rightarrow> claim_observation_input \<Rightarrow> attempt_row \<Rightarrow> attempt_row" where
  "restarted startedAt input a =
     a\<lparr>oa_status := ObsRunning, ob_executionCount := ob_executionCount a + 1, ob_startedAt := startedAt,
       ob_completedAt := None, ob_latencyMs := None, ob_errorClass := None, ob_errorCode := None,
       ob_errorMessage := None, ob_failureStage := None, ob_webSearchObserved := ki_webSearchObserved input,
       ob_captureMetadata := stored_object (capture_metadata input)\<rparr>"

text \<open>
  The statements are not in one transaction: \<open>between1\<close> is what others commit before the existing
  attempt is read, \<open>between2\<close> before it is looked at or taken over.
\<close>

definition claimObservationAttemptBySource ::
  "string \<Rightarrow> int \<Rightarrow> int \<Rightarrow> (observation_store \<Rightarrow> observation_store) \<Rightarrow> (observation_store \<Rightarrow> observation_store) \<Rightarrow>
   claim_observation_input \<Rightarrow> observation_store \<Rightarrow> observation_error + observation_store \<times> claimed_attempt" where
  "claimObservationAttemptBySource newId startedAt dateNow between1 between2 input s =
     bindE (insert_attempt (new_attempt newId startedAt input) s) (\<lambda>(s0, inserted).
     case inserted of
       Some a \<Rightarrow> Inr (s0, \<lparr>ca_id = oa_id a, ca_startedAt = ob_startedAt a, ca_state = AttemptExecute,
                     ca_promptRunId = None\<rparr>)
     | None \<Rightarrow>
         let s1 = between1 s0 in
         bindE (requireSome (plain (''Failed to resolve observation attempt '' @ ki_sourceKey input))
           (find (\<lambda>a. oa_brandId a = ki_brandId input \<and> ob_sourceKey a = ki_sourceKey input) (os_attempts s1)))
           (\<lambda>existing.
         let settled = (oa_status existing = ObsSucceeded \<or> oa_status existing = ObsCancelled);
             leaseActive = running_lease_active dateNow existing in
         if identity_changed input existing \<or> (fingerprint_changed input existing \<and> (settled \<or> leaseActive))
         then Inl (ObservationSourceConflict (ki_sourceKey input))
         else
         let s2 = between2 s1;
             held = \<lparr>ca_id = oa_id existing, ca_startedAt = ob_startedAt existing, ca_state = AttemptInProgress,
               ca_promptRunId = None\<rparr> in
         if settled
         then Inr (s2, held\<lparr>ca_state := AttemptCompleted,
                ca_promptRunId := map_option pu_id
                  (find (\<lambda>r. pu_observationAttemptId r = Some (oa_id existing)) (os_runs s2))\<rparr>)
         else if leaseActive then Inr (s1, held)
         else
         bindE (update_attempts s2
             (\<lambda>a. oa_id a = oa_id existing \<and> oa_status a = oa_status existing \<and>
                ob_startedAt a = ob_startedAt existing)
             (restarted startedAt input)) (\<lambda>(s3, claimed).
         case claimed of
           [] \<Rightarrow> Inr (s3, held)
         | a # _ \<Rightarrow> Inr (s3, \<lparr>ca_id = oa_id a, ca_startedAt = ob_startedAt a, ca_state = AttemptExecute,
                       ca_promptRunId = None\<rparr>))))"

definition claimObservationAttempt ::
  "string \<Rightarrow> int \<Rightarrow> int \<Rightarrow> (observation_store \<Rightarrow> observation_store) \<Rightarrow> (observation_store \<Rightarrow> observation_store) \<Rightarrow>
   string \<Rightarrow> string \<Rightarrow> string \<Rightarrow> string \<Rightarrow> measurement_scope \<Rightarrow> target_descriptor \<Rightarrow> model_config \<Rightarrow> int \<Rightarrow>
   observation_store \<Rightarrow> observation_error + observation_store \<times> claimed_attempt" where
  "claimObservationAttempt newId startedAt dateNow between1 between2 sourceJobId promptId promptText brandId
     scope target config sampleIndex s =
     claimObservationAttemptBySource newId startedAt dateNow between1 between2
       \<lparr>ki_sourceKey = buildObservationSourceKey sourceJobId config sampleIndex,
        ki_sourceJobId = Some sourceJobId, ki_promptId = promptId, ki_promptText = promptText,
        ki_brandId = brandId, ki_scope = scope, ki_target = target, ki_config = config,
        ki_webSearchObserved = None, ki_sampleIndex = sampleIndex, ki_captureMetadata = [],
        ki_sampleFingerprint = None\<rparr> s"

definition claimImportedObservationAttempt ::
  "string \<Rightarrow> int \<Rightarrow> int \<Rightarrow> (observation_store \<Rightarrow> observation_store) \<Rightarrow> (observation_store \<Rightarrow> observation_store) \<Rightarrow>
   claim_observation_input \<Rightarrow> observation_store \<Rightarrow> observation_error + observation_store \<times> claimed_attempt" where
  "claimImportedObservationAttempt newId startedAt dateNow between1 between2 input s =
     claimObservationAttemptBySource newId startedAt dateNow between1 between2 input s"

subsection \<open>A failed attempt\<close>

text \<open>\<open>ox_code\<close> is the text of an own code of the error that is a string or a number.\<close>

record observed_error = thrown_value +
  ox_code :: "string option"

definition sanitizeErrorMessage :: "observed_error \<Rightarrow> string" where
  "sanitizeErrorMessage error = js_slice 1000 (sanitizeDiagnostic (tv_text error))"

definition errorCode :: "observed_error \<Rightarrow> string option" where
  "errorCode error = map_option (js_slice 100) (ox_code error)"

definition running_under :: "string \<Rightarrow> int \<Rightarrow> attempt_row \<Rightarrow> bool" where
  "running_under attemptId startedAt a \<longleftrightarrow>
     oa_id a = attemptId \<and> oa_status a = ObsRunning \<and> ob_startedAt a = startedAt"

definition mark_failed ::
  "int \<Rightarrow> string \<Rightarrow> int \<Rightarrow> observed_error \<Rightarrow> string \<Rightarrow> observation_store \<Rightarrow>
   observation_error + observation_store \<times> attempt_row list" where
  "mark_failed completedAt attemptId startedAt error failureStage s =
     update_attempts s (running_under attemptId startedAt)
       (\<lambda>a. a\<lparr>oa_status := ObsFailed, ob_completedAt := Some completedAt,
          ob_latencyMs := Some (max 0 (completedAt - startedAt)),
          ob_errorClass := Some (case tv_errorName error of None \<Rightarrow> ''UnknownError'' | Some n \<Rightarrow> n),
          ob_errorCode := errorCode error, ob_errorMessage := Some (sanitizeErrorMessage error),
          ob_failureStage := Some failureStage\<rparr>)"

definition markObservationFailed ::
  "(string \<Rightarrow> string) \<Rightarrow> int \<Rightarrow> int \<Rightarrow> string \<Rightarrow> int \<Rightarrow> observed_error \<Rightarrow> string \<Rightarrow> delivery_claim_proof option \<Rightarrow>
   observation_store \<Rightarrow> observation_error + observation_store" where
  "markObservationFailed sha completedAt now attemptId startedAt error failureStage deliveryClaim s =
     bindE (mark_failed completedAt attemptId startedAt error failureStage s) (\<lambda>(s1, failed).
     case deliveryClaim of
       None \<Rightarrow> Inr s1
     | Some claim \<Rightarrow>
         if failed = [] then Inl (plain (''Observation attempt '' @ attemptId @ '' lease was lost''))
         else
         bindE (observe (deliver (failDeliveryTaskInTransaction sha now claim (Some attemptId)
             (thrown_value.truncate error) (os_db s1)))) (\<lambda>(db, _). Inr (with_db db s1)))"

subsection \<open>A successful attempt\<close>

definition reference_json :: "artifact_reference \<Rightarrow> json" where
  "reference_json r =
     JObj [(''artifactId'', JStr (rf_artifactId r)), (''type'', JStr (artifact_kind_text (rf_type r))),
       (''uri'', JStr (rf_uri r)), (''sha256'', JStr (rf_sha256 r)), (''mediaType'', JStr (rf_mediaType r)),
       (''byteSize'', JNum (rf_byteSize r))]"

definition mergeEvidenceRefs :: "json \<Rightarrow> artifact_reference list \<Rightarrow> observation_error + json" where
  "mergeEvidenceRefs rawOutput evidenceRefs =
     (if evidenceRefs = [] then Inr rawOutput
      else (case rawOutput of
              JObj kvs \<Rightarrow> Inr (JObj (obj_put (''evidenceRefs'', JArr (map reference_json evidenceRefs)) kvs))
            | _ \<Rightarrow> Inl (ObservationOther (EvidenceValidation
                     ''Managed evidence requires an object-shaped raw output'' InvalidEvidence))))"

record extracted_citation =
  xc_url :: string
  xc_title :: "string option"
  xc_domain :: string
  xc_citationIndex :: int

text \<open>\<open>ps_evidence\<close> is the artifacts' ids with the function that gives an artifact its address.\<close>

record persist_input =
  ps_attemptId :: string
  ps_startedAt :: int
  ps_observedAt :: "int option"
  ps_promptId :: string
  ps_brandId :: string
  ps_scopeId :: string
  ps_target :: target_descriptor
  ps_config :: model_config
  ps_webSearchObserved :: "bool option"
  ps_recordedVersion :: string
  ps_answerText :: string
  ps_rawOutput :: json
  ps_webQueries :: "string list"
  ps_brandMentioned :: bool
  ps_competitorsMentioned :: "string list"
  ps_extractedCitations :: "extracted_citation list"
  ps_deliveryClaim :: "delivery_claim_proof option"
  ps_evidence :: "(string list \<times> (string \<Rightarrow> string)) option"
  ps_reserveResponseSnapshot :: bool

text \<open>
  What the transaction reads from the world: the clock at each of its readings, and the
  identifiers of the rows it inserts.
\<close>

record persist_world =
  pw_completedAt :: int
  pw_resolveChecked :: int
  pw_resolveVerified :: int
  pw_attachChecked :: int
  pw_attachVerified :: int
  pw_attachedAt :: int
  pw_triggerClock :: int
  pw_now :: int
  pw_runId :: string
  pw_citationId :: "nat \<Rightarrow> string"
  pw_snapshotId :: string

record persisted =
  pd_id :: string
  pd_createdAt :: int
  pd_evidenceRefs :: "artifact_reference list"
  pd_snapshotReservation :: "snapshot_reservation option"

definition succeeded_row :: "int \<Rightarrow> int \<Rightarrow> attempt_row \<Rightarrow> attempt_row" where
  "succeeded_row completedAt startedAt a =
     a\<lparr>oa_status := ObsSucceeded, ob_completedAt := Some completedAt,
       ob_latencyMs := Some (max 0 (completedAt - startedAt)), ob_errorClass := None,
       ob_errorCode := None, ob_errorMessage := None, ob_failureStage := None\<rparr>"

definition mark_succeeded ::
  "int \<Rightarrow> string \<Rightarrow> int \<Rightarrow> observation_store \<Rightarrow> observation_error + observation_store" where
  "mark_succeeded completedAt attemptId startedAt s =
     bindE (update_attempts s (running_under attemptId startedAt) (succeeded_row completedAt startedAt))
       (\<lambda>(s1, completed).
     if completed = [] then Inl (plain (''Observation attempt '' @ attemptId @ '' lease was lost''))
     else Inr s1)"

definition resolve_evidence ::
  "(string \<Rightarrow> string) \<Rightarrow> (string \<Rightarrow> int option) \<Rightarrow> (string \<Rightarrow> (string \<times> string) option) \<Rightarrow> persist_world \<Rightarrow>
   persist_input \<Rightarrow> observation_store \<Rightarrow> observation_error + artifact_reference list" where
  "resolve_evidence sha other parse_url w input s =
     (case (ps_evidence input, ps_deliveryClaim input) of
        (None, _) \<Rightarrow> Inr []
      | (Some _, None) \<Rightarrow> Inl (ObservationOther (EvidenceValidation
             ''Managed evidence artifacts require a delivery claim'' InvalidEvidence))
      | (Some (artifactIds, uriForArtifact), Some claim) \<Rightarrow>
          observe (resolveEvidenceArtifactsForSubmission sha other parse_url (pw_resolveChecked w)
            (pw_resolveVerified w) (ps_brandId input) claim artifactIds uriForArtifact (os_evidence s)))"

definition record_evidence_refs ::
  "string \<Rightarrow> artifact_reference list \<Rightarrow> observation_store \<Rightarrow> observation_error + observation_store" where
  "record_evidence_refs attemptId evidenceRefs s =
     (if evidenceRefs = [] then Inr s
      else
      bindE (update_attempts s (\<lambda>a. oa_id a = attemptId)
        (\<lambda>a. a\<lparr>ob_captureMetadata :=
           obj_put (''evidenceRefs'', JArr (map reference_json evidenceRefs)) (ob_captureMetadata a)\<rparr>))
        (\<lambda>(s', _). Inr s'))"

definition new_run :: "persist_world \<Rightarrow> persist_input \<Rightarrow> int \<Rightarrow> json \<Rightarrow> prompt_run" where
  "new_run w input observedAt rawOutput =
     \<lparr>pu_id = pw_runId w, pu_promptId = ps_promptId input, pu_brandId = ps_brandId input,
      pu_observationAttemptId = Some (ps_attemptId input), pu_scopeId = Some (ps_scopeId input),
      pu_surfaceTargetKey = Some (td_surfaceTargetKey (ps_target input)),
      pu_captureRouteKey = Some (td_captureRouteKey (ps_target input)),
      pu_model = mo_model (ps_config input), pu_provider = Some (mo_provider (ps_config input)),
      pu_version = ps_recordedVersion input, pu_webSearchEnabled = mo_webSearch (ps_config input),
      pu_webSearchObserved = ps_webSearchObserved input, pu_rawOutput = stored_json rawOutput,
      pu_answerText = Some (ps_answerText input), pu_webQueries = ps_webQueries input,
      pu_brandMentioned = ps_brandMentioned input, pu_competitorsMentioned = ps_competitorsMentioned input,
      pu_observedAt = Some observedAt, pu_createdAt = observedAt\<rparr>"

definition new_citations :: "persist_world \<Rightarrow> persist_input \<Rightarrow> int \<Rightarrow> citation_row list" where
  "new_citations w input observedAt =
     map (\<lambda>(i, c). \<lparr>ci_id = pw_citationId w i, ci_promptRunId = pw_runId w, ci_promptId = ps_promptId input,
         ci_brandId = ps_brandId input, ci_model = mo_model (ps_config input), ci_url = xc_url c,
         ci_domain = xc_domain c, ci_title = (if truthy_text (xc_title c) then xc_title c else None),
         ci_citationIndex = xc_citationIndex c, ci_createdAt = observedAt\<rparr>)
       (zip [0..<length (ps_extractedCitations input)] (ps_extractedCitations input))"

definition store_citations ::
  "persist_world \<Rightarrow> persist_input \<Rightarrow> int \<Rightarrow> observation_store \<Rightarrow> observation_error + observation_store" where
  "store_citations w input observedAt s =
     (if ps_extractedCitations input = [] then Inr s
      else insert_citations (new_citations w input observedAt) s)"

definition reserve_snapshot ::
  "persist_world \<Rightarrow> persist_input \<Rightarrow> observation_store \<Rightarrow>
   observation_error + observation_store \<times> snapshot_reservation option" where
  "reserve_snapshot w input s =
     (if \<not> ps_reserveResponseSnapshot input then Inr (s, None)
      else bindE (reserveResponseSnapshotInTransaction (pw_snapshotId w) (pw_runId w) (ps_brandId input)
          (Some (ps_scopeId input)) (ps_promptId input) (ps_observedAt input) s)
        (\<lambda>(s', r). Inr (s', Some r)))"

text \<open>
  The delivery part at the end of the transaction; the commit checks that the evidence it attached
  belongs to the attempt of the task.
\<close>

definition deliver_observation ::
  "(string \<Rightarrow> string) \<Rightarrow> (string \<Rightarrow> int option) \<Rightarrow> (string \<Rightarrow> (string \<times> string) option) \<Rightarrow> persist_world \<Rightarrow>
   persist_input \<Rightarrow> observation_store \<Rightarrow> observation_error + observation_store" where
  "deliver_observation sha other parse_url w input s =
     (case ps_deliveryClaim input of
        None \<Rightarrow> Inr s
      | Some claim \<Rightarrow>
          bindE (case ps_evidence input of
                   None \<Rightarrow> Inr (os_evidence s, [])
                 | Some (artifactIds, uriForArtifact) \<Rightarrow>
                     bindE (observe (attachEvidenceArtifactsInTransaction sha other parse_url
                       (pw_attachChecked w) (pw_attachVerified w) (pw_attachedAt w) (pw_triggerClock w)
                       (ps_brandId input) claim artifactIds (ps_attemptId input) uriForArtifact (os_evidence s)))
                       (\<lambda>(e, attached, _). Inr (e, attached))) (\<lambda>(e, attached).
          bindE (observe (deliver (completeDeliveryTaskInTransaction sha (pw_now w) claim (ps_attemptId input)
              (es_db e)))) (\<lambda>(db, _).
          if list_all (attached_to_task_attempt db) attached
          then Inr (s\<lparr>os_evidence := e\<lparr>es_db := db\<rparr>\<rparr>)
          else Inl rejected)))"

definition persistSuccessfulObservation ::
  "(string \<Rightarrow> string) \<Rightarrow> (string \<Rightarrow> int option) \<Rightarrow> (string \<Rightarrow> (string \<times> string) option) \<Rightarrow> persist_world \<Rightarrow>
   persist_input \<Rightarrow> observation_store \<Rightarrow> observation_error + observation_store \<times> persisted" where
  "persistSuccessfulObservation sha other parse_url w input s =
     bindE (mark_succeeded (pw_completedAt w) (ps_attemptId input) (ps_startedAt input) s) (\<lambda>s1.
     bindE (resolve_evidence sha other parse_url w input s1) (\<lambda>evidenceRefs.
     bindE (record_evidence_refs (ps_attemptId input) evidenceRefs s1) (\<lambda>s2.
     bindE (mergeEvidenceRefs (ps_rawOutput input) evidenceRefs) (\<lambda>rawOutput.
     bindE (requireSome (plain ''Invalid time value'') (ps_observedAt input)) (\<lambda>observedAt.
     bindE (insert_run (new_run w input observedAt rawOutput) s2) (\<lambda>s3.
     bindE (store_citations w input observedAt s3) (\<lambda>s4.
     bindE (reserve_snapshot w input s4) (\<lambda>(s5, snapshotReservation).
     bindE (deliver_observation sha other parse_url w input s5) (\<lambda>s6.
     Inr (s6, \<lparr>pd_id = pw_runId w, pd_createdAt = observedAt, pd_evidenceRefs = evidenceRefs,
            pd_snapshotReservation = snapshotReservation\<rparr>))))))))))"

end
