(* ===== verification/EvidenceResults.thy ===== *)
theory EvidenceResults
  imports Evidence Program
begin

text \<open>
  What holds of the evidence in every reachable state: the rows tell the truth about their bytes,
  belong to the slot of their task, stay within the limits per task and per batch, and once
  attached they are never changed or deleted and prove a succeeded attempt of exactly their slot.
\<close>

subsection \<open>The evidence store as a state machine\<close>

text \<open>
  A step is an operation on the evidence or a step of the delivery program. The clean-up deletes
  rows it chose in an earlier state \<open>s0\<close>; \<open>attach\<close> is part of the transaction that persists an
  observation.
\<close>

inductive evidence_step ::
  "(string \<Rightarrow> string) \<Rightarrow> (string \<Rightarrow> int option) \<Rightarrow> (string \<Rightarrow> string \<Rightarrow> int) \<Rightarrow> (8 word list \<Rightarrow> string) \<Rightarrow>
   (string \<Rightarrow> (string \<times> string) option) \<Rightarrow> evidence_store \<Rightarrow> evidence_store \<Rightarrow> bool"
  for sha other lc digest parse_url where
  delivery: "program_step sha other lc (es_db s) db' \<Longrightarrow>
     evidence_step sha other lc digest parse_url s (s\<lparr>es_db := db'\<rparr>)"
| stage: "stageEvidenceArtifact sha other digest checkedAt verifiedAt startedAt clock artifactId
       brandId claim uploader filename expectedKind content s = Inr (s', v) \<Longrightarrow>
     evidence_step sha other lc digest parse_url s s'"
| delete: "deleteStagedEvidenceArtifact sha other checkedAt verifiedAt brandId artifactId claim s = Inr (s', v) \<Longrightarrow>
     evidence_step sha other lc digest parse_url s s'"
| attach: "attachEvidenceArtifactsInTransaction sha other parse_url checkedAt verifiedAt attachedAt clock
       brandId claim ids attempt uri s = Inr (s', r) \<Longrightarrow>
     evidence_step sha other lc digest parse_url s s'"
| cleanup: "cleanupStaleEvidenceArtifacts dateNow now (\<lambda>_. s) cutoff limit s0 = Inr (s', n) \<Longrightarrow>
     n > 0 \<or> s' = s \<Longrightarrow> evidence_step sha other lc digest parse_url s s'"

abbreviation evidence_steps ::
  "(string \<Rightarrow> string) \<Rightarrow> (string \<Rightarrow> int option) \<Rightarrow> (string \<Rightarrow> string \<Rightarrow> int) \<Rightarrow> (8 word list \<Rightarrow> string) \<Rightarrow>
   (string \<Rightarrow> (string \<times> string) option) \<Rightarrow> evidence_store \<Rightarrow> evidence_store \<Rightarrow> bool" where
  "evidence_steps sha other lc digest parse_url \<equiv> (evidence_step sha other lc digest parse_url)\<^sup>*\<^sup>*"

subsection \<open>The invariant\<close>

definition of_task :: "string \<Rightarrow> evidence_store \<Rightarrow> artifact_row list" where
  "of_task i s = filter (\<lambda>r. ar_taskId r = i) (es_artifacts s)"

definition of_batch :: "string \<Rightarrow> evidence_store \<Rightarrow> artifact_row list" where
  "of_batch i s = filter (\<lambda>r. ar_batchId r = i) (es_artifacts s)"

definition within_quota :: "evidence_store \<Rightarrow> bool" where
  "within_quota s \<longleftrightarrow>
     (\<forall>i. int (length (of_task i s)) \<le> EVIDENCE_ARTIFACT_MAX_COUNT \<and> byte_sum (of_task i s) \<le> EVIDENCE_TASK_MAX_BYTES) \<and>
     (\<forall>i. byte_sum (of_batch i s) \<le> EVIDENCE_BATCH_MAX_BYTES)"

definition truthful :: "(8 word list \<Rightarrow> string) \<Rightarrow> artifact_row \<Rightarrow> bool" where
  "truthful digest r \<longleftrightarrow>
     ar_sha256 r = digest (ar_content r) \<and>
     (\<exists>expected. detectEvidenceMedia (ar_content r) expected = Inr (ar_kind r, ar_mediaType r))"

definition proves_attempt :: "database \<Rightarrow> artifact_row \<Rightarrow> bool" where
  "proves_attempt db r \<longleftrightarrow>
     (\<exists>t \<in> set (d_tasks db). artifact_of_task r t \<and>
        (ar_status r = ArtifactAttached \<longrightarrow>
          (\<exists>i a. ar_observationAttemptId r = Some i \<and> attempt_by_id db i = Some a \<and>
             oa_status a = ObsSucceeded \<and> attempt_matches a t)))"

definition evidence_ok :: "(8 word list \<Rightarrow> string) \<Rightarrow> evidence_store \<Rightarrow> bool" where
  "evidence_ok digest s \<longleftrightarrow>
     artifact_keys_unique (es_artifacts s) \<and> within_quota s \<and>
     (\<forall>r \<in> set (es_artifacts s). artifact_row_ok r \<and> truthful digest r \<and> proves_attempt (es_db s) r)"

lemma byte_sum_simps [simp]:
  "byte_sum [] = 0" "byte_sum (r # rs) = ar_byteSize r + byte_sum rs" "byte_sum (rs @ ss) = byte_sum rs + byte_sum ss"
  by (simp_all add: byte_sum_def)

lemma byte_sum_filter_le:
  "(\<And>r. r \<in> set rs \<Longrightarrow> 0 \<le> ar_byteSize r) \<Longrightarrow> byte_sum (filter p (filter q rs)) \<le> byte_sum (filter p rs)"
  by (induction rs) force+

lemma length_filter_filter: "length (filter p (filter q xs)) \<le> length (filter p xs)"
  by (induction xs) auto

lemma distinct_map_filter: "distinct (map f xs) \<Longrightarrow> distinct (map f (filter p xs))"
  by (induction xs) auto

text \<open>Deleting rows keeps the invariant.\<close>

lemma evidence_ok_filter:
  assumes "evidence_ok digest s" and "s' = s\<lparr>es_artifacts := filter q (es_artifacts s)\<rparr>"
  shows "evidence_ok digest s'"
proof -
  have pos: "\<And>r. r \<in> set (es_artifacts s) \<Longrightarrow> 0 \<le> ar_byteSize r"
    using assms(1) by (auto simp: evidence_ok_def artifact_row_ok_def dest!: bspec)
  have sums: "byte_sum (filter p (filter q (es_artifacts s))) \<le> byte_sum (filter p (es_artifacts s))" for p
    by (rule byte_sum_filter_le [OF pos])
  have rows: "es_artifacts s' = filter q (es_artifacts s)" by (simp add: assms(2))
  have "within_quota s'"
    unfolding within_quota_def of_task_def of_batch_def rows
  proof (intro conjI allI)
    fix i
    let ?p = "\<lambda>r. ar_taskId r = i" and ?b = "\<lambda>r. ar_batchId r = i"
    have q: "int (length (filter ?p (es_artifacts s))) \<le> EVIDENCE_ARTIFACT_MAX_COUNT"
      "byte_sum (filter ?p (es_artifacts s)) \<le> EVIDENCE_TASK_MAX_BYTES"
      "byte_sum (filter ?b (es_artifacts s)) \<le> EVIDENCE_BATCH_MAX_BYTES"
      using assms(1) by (simp_all add: evidence_ok_def within_quota_def of_task_def of_batch_def)
    show "int (length (filter ?p (filter q (es_artifacts s)))) \<le> EVIDENCE_ARTIFACT_MAX_COUNT"
      using q(1) length_filter_filter [of ?p q "es_artifacts s"] by linarith
    show "byte_sum (filter ?p (filter q (es_artifacts s))) \<le> EVIDENCE_TASK_MAX_BYTES"
      using q(2) sums [of ?p] by linarith
    show "byte_sum (filter ?b (filter q (es_artifacts s))) \<le> EVIDENCE_BATCH_MAX_BYTES"
      using q(3) sums [of ?b] by linarith
  qed
  then show ?thesis
    using assms by (auto simp: evidence_ok_def artifact_keys_unique_def distinct_map_filter)
qed

lemma delete_artifacts_InrD:
  assumes "delete_artifacts p s = Inr (s', out)"
  shows "s' = s\<lparr>es_artifacts := filter (\<lambda>r. \<not> p r) (es_artifacts s)\<rparr>" "out = filter p (es_artifacts s)"
    "\<And>r. r \<in> set (es_artifacts s) \<Longrightarrow> p r \<Longrightarrow> ar_status r = ArtifactStaged"
  using assms by (auto simp: delete_artifacts_def list_all_iff split: if_splits)

text \<open>Staging adds at most one row, after rows of other generations were deleted.\<close>

lemma quota_check_Inr:
  assumes "quota_check s task n = Inr u"
  shows "int (length (of_task (t_id task) s)) < EVIDENCE_ARTIFACT_MAX_COUNT"
    "byte_sum (of_task (t_id task) s) + n \<le> EVIDENCE_TASK_MAX_BYTES"
    "byte_sum (of_batch (t_batchId task) s) + n \<le> EVIDENCE_BATCH_MAX_BYTES"
  using assms
  by (auto simp: quota_check_def Let_def thrown_simps int4_cast_def isEvidenceByteCapacityAvailable_def
      of_task_def of_batch_def split: if_splits)

lemma stage_cases:
  assumes "stageEvidenceArtifact sha other digest checkedAt verifiedAt startedAt clock artifactId
      brandId claim uploader filename expectedKind content s = Inr (s', v)"
  obtains (kept) q where "s' = s\<lparr>es_artifacts := filter q (es_artifacts s)\<rparr>"
      "\<And>r. r \<in> set (es_artifacts s) \<Longrightarrow> \<not> q r \<Longrightarrow> ar_status r = ArtifactStaged"
  | (added) q s1 task prepared r where "s1 = s\<lparr>es_artifacts := filter q (es_artifacts s)\<rparr>"
      "\<And>r. r \<in> set (es_artifacts s) \<Longrightarrow> \<not> q r \<Longrightarrow> ar_status r = ArtifactStaged"
      "prepareEvidenceArtifact digest content expectedKind = Inr prepared"
      "quota_check s1 task (pa_byteSize prepared) = Inr ()"
      "ar_taskId r = t_id task" "ar_batchId r = t_batchId task" "ar_byteSize r = pa_byteSize prepared"
      "ar_content r = pa_content prepared" "ar_sha256 r = pa_sha256 prepared"
      "ar_kind r = pa_kind prepared" "ar_mediaType r = pa_mediaType prepared" "ar_status r = ArtifactStaged"
      "insert_artifact clock r s1 = Inr (s', Some r)"
proof -
  obtain uploadedBy prepared originalFilename task batch s1 removed where
    prep: "prepareEvidenceArtifact digest content expectedKind = Inr prepared"
    and del: "delete_artifacts (\<lambda>r. ar_taskId r = t_id task \<and> ar_status r = ArtifactStaged \<and>
            ar_leaseGeneration r \<noteq> cl_leaseGeneration claim) s = Inr (s1, removed)"
    and rest: "store_prepared clock artifactId startedAt task claim uploadedBy originalFilename prepared s1 = Inr (s', v)"
    using assms by (auto simp: stageEvidenceArtifact_def thrown_simps Let_def split: prod.splits if_splits)
  define q where "q = (\<lambda>r :: artifact_row. \<not> (ar_taskId r = t_id task \<and> ar_status r = ArtifactStaged \<and>
            ar_leaseGeneration r \<noteq> cl_leaseGeneration claim))"
  have s1: "s1 = s\<lparr>es_artifacts := filter q (es_artifacts s)\<rparr>"
    using delete_artifacts_InrD(1) [OF del] by (simp add: q_def)
  have staged: "\<And>r. r \<in> set (es_artifacts s) \<Longrightarrow> \<not> q r \<Longrightarrow> ar_status r = ArtifactStaged"
    by (simp add: q_def)
  show thesis
  proof (cases "s' = s1")
    case True
    with s1 staged show ?thesis by (intro kept [of q]) auto
  next
    case False
    let ?r = "staged_row artifactId startedAt task claim uploadedBy originalFilename prepared"
    have quota: "quota_check s1 task (pa_byteSize prepared) = Inr ()"
      and inserted: "insert_artifact clock ?r s1 = Inr (s', Some ?r)"
      using rest False
      by (auto simp: store_prepared_def Let_def thrown_simps insert_artifact_def split: option.splits if_splits)
    show ?thesis
      by (rule added [OF s1 staged prep quota _ _ _ _ _ _ _ _ inserted]) (simp_all add: staged_row_def)
  qed
qed

lemma prepared_truthful:
  assumes "prepareEvidenceArtifact digest content expectedKind = Inr prepared"
  shows "pa_content prepared = content" "pa_sha256 prepared = digest content"
    "pa_byteSize prepared = int (length content)"
    "detectEvidenceMedia content expectedKind = Inr (pa_kind prepared, pa_mediaType prepared)"
proof -
  obtain kind media where d: "detectEvidenceMedia content expectedKind = Inr (kind, media)"
    using assms by (cases "detectEvidenceMedia content expectedKind") (auto simp: prepareEvidenceArtifact_def split: if_splits)
  then have "prepared = \<lparr>pa_content = content, pa_kind = kind, pa_mediaType = media,
      pa_byteSize = int (length content), pa_sha256 = digest content\<rparr>"
    using assms by (cases expectedKind) (simp_all add: prepareEvidenceArtifact_def split: if_splits)
  with d show "pa_content prepared = content" "pa_sha256 prepared = digest content"
    "pa_byteSize prepared = int (length content)"
    "detectEvidenceMedia content expectedKind = Inr (pa_kind prepared, pa_mediaType prepared)"
    by simp_all
qed

lemma evidence_ok_added:
  assumes ok: "evidence_ok digest s1" and quota: "quota_check s1 task (pa_byteSize prepared) = Inr ()"
    and prep: "prepareEvidenceArtifact digest content expectedKind = Inr prepared"
    and r: "ar_taskId r = t_id task" "ar_batchId r = t_batchId task" "ar_byteSize r = pa_byteSize prepared"
      "ar_content r = pa_content prepared" "ar_sha256 r = pa_sha256 prepared"
      "ar_kind r = pa_kind prepared" "ar_mediaType r = pa_mediaType prepared" "ar_status r = ArtifactStaged"
    and ins: "insert_artifact clock r s1 = Inr (s', Some r)"
  shows "evidence_ok digest s'"
proof -
  have s': "s' = s1\<lparr>es_artifacts := es_artifacts s1 @ [r]\<rparr>" "artifact_insert_allowed (es_db s1) clock r"
    "\<forall>a \<in> set (es_artifacts s1). artifact_slot a \<noteq> artifact_slot r \<and> ar_id a \<noteq> ar_id r"
    using ins by (auto simp: insert_artifact_def list_ex_iff split: if_splits)
  obtain t where t: "task_by_id (es_db s1) (ar_taskId r) = Some t" "artifact_of_task r t" "artifact_row_ok r"
    using s'(2) by (auto simp: artifact_insert_allowed_def split: option.splits)
  then have "proves_attempt (es_db s1) r"
    using r(8) by (auto simp: proves_attempt_def task_by_id_def dest: find_SomeD)
  moreover have "truthful digest r"
    using prepared_truthful [OF prep] r by (auto simp: truthful_def)
  moreover have "within_quota s'"
  proof -
    note q = quota_check_Inr [OF quota, folded r(3)]
    have old: "int (length (of_task i s1)) \<le> EVIDENCE_ARTIFACT_MAX_COUNT"
      "byte_sum (of_task i s1) \<le> EVIDENCE_TASK_MAX_BYTES" "byte_sum (of_batch i s1) \<le> EVIDENCE_BATCH_MAX_BYTES" for i
      using ok by (simp_all add: evidence_ok_def within_quota_def)
    show ?thesis
      using q old by (auto simp: within_quota_def of_task_def of_batch_def s'(1) r(1, 2))
  qed
  ultimately show ?thesis
    using ok t(3) s'(3) by (auto simp: evidence_ok_def s'(1) artifact_keys_unique_def)
qed

subsection \<open>Attaching and the delivery program keep the invariant\<close>

lemma byte_sum_map: "(\<And>r. ar_byteSize (f r) = ar_byteSize r) \<Longrightarrow> byte_sum (map f rs) = byte_sum rs"
  by (induction rs) simp_all

lemma filter_set_where:
  "(\<And>r. P (f r) = P r) \<Longrightarrow> filter P (set_where p f rows) = set_where p f (filter P rows)"
  by (induction rows) (auto simp: set_where_def)

lemma task_by_id_SomeD: "task_by_id db i = Some t \<Longrightarrow> t \<in> set (d_tasks db)"
  by (auto simp: task_by_id_def dest: find_SomeD)

lemma updated_proves_attempt:
  "artifact_update_allowed clock s old new \<Longrightarrow>
     artifact_row_ok new \<and> ar_status old = ArtifactStaged \<and> proves_attempt (es_db s) new"
  by (auto simp: artifact_update_allowed_def proves_attempt_def split: option.splits dest!: task_by_id_SomeD)

lemma evidence_ok_attached:
  assumes ok: "evidence_ok digest s"
    and u: "update_artifacts clock s p (\<lambda>r. r\<lparr>ar_status := st, ar_observationAttemptId := i, ar_attachedAt := at'\<rparr>)
      = Inr (s', out)"
  shows "evidence_ok digest s'"
proof -
  let ?f = "\<lambda>r :: artifact_row. r\<lparr>ar_status := st, ar_observationAttemptId := i, ar_attachedAt := at'\<rparr>"
  note e = update_artifacts_InrD [OF u]
  have sums: "byte_sum (set_where p ?f rs) = byte_sum rs" for rs
    by (simp add: set_where_def byte_sum_map)
  have "of_task j s' = set_where p ?f (of_task j s)" "of_batch j s' = set_where p ?f (of_batch j s)" for j
    by (simp_all add: e(1) of_task_def of_batch_def filter_set_where)
  then have "within_quota s'"
    using ok by (simp add: evidence_ok_def within_quota_def sums)
  moreover have "\<forall>r \<in> set (es_artifacts s'). artifact_row_ok r \<and> truthful digest r \<and> proves_attempt (es_db s) r"
  proof (rule artifact_table.all_rows [OF u])
    show "\<forall>r \<in> set (es_artifacts s). artifact_row_ok r \<and> truthful digest r \<and> proves_attempt (es_db s) r"
      using ok by (simp add: evidence_ok_def)
    fix r :: artifact_row
    assume "artifact_update_allowed clock s r (?f r)"
      "artifact_row_ok r \<and> truthful digest r \<and> proves_attempt (es_db s) r"
    then show "artifact_row_ok (?f r) \<and> truthful digest (?f r) \<and> proves_attempt (es_db s) (?f r)"
      using updated_proves_attempt by (simp add: truthful_def)
  qed
  ultimately show ?thesis using e(4) by (simp add: evidence_ok_def e(1))
qed

text \<open>The delivery program keeps the plan of every task and every finished attempt.\<close>

lemma program_step_attempts:
  assumes "program_step sha other lc db db'" and ok: "db_ok db"
    and "attempt_by_id db i = Some a" and "oa_status a = ObsSucceeded \<or> oa_status a = ObsFailed"
  shows "attempt_by_id db' i = Some a"
proof -
  have steps: "d_attempts db'' = d_attempts db" if "db_steps db db''" for db''
    using that
  proof (induction rule: rtranclp_induct)
    case (step y z)
    from step(2) have "d_attempts z = d_attempts y"
      by (cases rule: db_step.cases)
        (auto simp: insert_tasks_def insert_batch_def dest!: update_tasks_InrD(1) update_batches_InrD(1) split: if_splits)
    with step(3) show ?case by simp
  qed simp
  have "db_steps db db' \<or> attempt_by_id db' i = Some a"
    using assms(1)
  proof cases
    case elsewhere
    with assms(3, 4) show ?thesis by blast
  next
    case runner_claim
    then show ?thesis using claimBrowserRunnerTask_steps [OF ok] by (metis fst_conv)
  next
    case reconcile_expired
    then show ?thesis using reconcileExpiredBrowserRunnerBatches_steps by (metis fst_conv)
  next
    case settle
    then show ?thesis using settleDueDomesticBrowserRunnerBatches_steps by (metis fst_conv)
  qed (use ok in \<open>auto simp: completeDeliveryTaskSuccess_def failDeliveryTask_def intro: operation_steps\<close>)
  then show ?thesis
  proof
    assume "db_steps db db'"
    from steps [OF this] assms(3) show ?thesis by (simp add: attempt_by_id_def)
  qed
qed

lemma plan_matches:
  assumes "task_change t t'"
  shows "artifact_of_task r t' = artifact_of_task r t" "attempt_matches a t' = attempt_matches a t"
  using assms
  by (simp_all add: task_change_def task_identity_def task_plan_of_def normalized_task_plan.defs
      artifact_of_task_def attempt_matches_def)

lemma proves_attempt_kept:
  assumes "program_step sha other lc db db'" and "db_ok db" and "proves_attempt db r"
  shows "proves_attempt db' r"
proof -
  obtain t where t: "t \<in> set (d_tasks db)" "artifact_of_task r t"
    "ar_status r = ArtifactAttached \<longrightarrow> (\<exists>i a. ar_observationAttemptId r = Some i \<and>
       attempt_by_id db i = Some a \<and> oa_status a = ObsSucceeded \<and> attempt_matches a t)"
    using assms(3) by (auto simp: proves_attempt_def)
  obtain t' where t': "t' \<in> set (d_tasks db')" "task_change t t'"
    using program_step_ok [OF assms(1, 2)] t(1) unfolding evolves_def task_evolves_def by blast
  note plan = plan_matches [OF t'(2)]
  have "ar_status r = ArtifactAttached \<longrightarrow> (\<exists>i a. ar_observationAttemptId r = Some i \<and>
       attempt_by_id db' i = Some a \<and> oa_status a = ObsSucceeded \<and> attempt_matches a t')"
    using t(3) program_step_attempts [OF assms(1, 2)] unfolding plan by blast
  with t(2) t'(1) plan(1) show ?thesis unfolding proves_attempt_def by blast
qed

lemma evidence_step_ok:
  assumes "evidence_step sha other lc digest parse_url s s'" and "db_ok (es_db s)" and ok: "evidence_ok digest s"
  shows "db_ok (es_db s') \<and> evidence_ok digest s'"
  using assms(1)
proof cases
  case (delivery db')
  have "\<forall>r \<in> set (es_artifacts s). proves_attempt db' r"
    using ok proves_attempt_kept [OF delivery(2) assms(2)] by (simp add: evidence_ok_def)
  with ok have "evidence_ok digest s'"
    by (simp add: delivery(1) evidence_ok_def within_quota_def of_task_def of_batch_def)
  with delivery program_step_ok [OF delivery(2) assms(2)] show ?thesis by simp
next
  case (stage checkedAt verifiedAt startedAt clock artifactId brandId claim uploader filename expectedKind content v)
  from stage show ?thesis
  proof (rule stage_cases)
    fix q assume "s' = s\<lparr>es_artifacts := filter q (es_artifacts s)\<rparr>"
    with evidence_ok_filter [OF ok this] assms(2) show ?thesis by simp
  next
    fix q s1 task prepared r
    assume s1: "s1 = s\<lparr>es_artifacts := filter q (es_artifacts s)\<rparr>"
      and a: "prepareEvidenceArtifact digest content expectedKind = Inr prepared"
        "quota_check s1 task (pa_byteSize prepared) = Inr ()"
        "ar_taskId r = t_id task" "ar_batchId r = t_batchId task" "ar_byteSize r = pa_byteSize prepared"
        "ar_content r = pa_content prepared" "ar_sha256 r = pa_sha256 prepared"
        "ar_kind r = pa_kind prepared" "ar_mediaType r = pa_mediaType prepared" "ar_status r = ArtifactStaged"
        "insert_artifact clock r s1 = Inr (s', Some r)"
    have "es_db s' = es_db s" using a(11) s1 by (auto simp: insert_artifact_def split: if_splits)
    moreover have "evidence_ok digest s'"
      by (rule evidence_ok_added [OF evidence_ok_filter [OF ok s1] a(2, 1, 3-11)])
    ultimately show ?thesis using assms(2) by simp
  qed
next
  case (delete checkedAt verifiedAt brandId artifactId claim v)
  then obtain p out where "delete_artifacts p s = Inr (s', out)"
    by (auto simp: deleteStagedEvidenceArtifact_def thrown_simps split: list.splits)
  note d = delete_artifacts_InrD(1) [OF this]
  from evidence_ok_filter [OF ok d] assms(2) show ?thesis by (simp add: d)
next
  case (attach checkedAt verifiedAt attachedAt clock brandId claim ids attempt uri r)
  then obtain p out where u: "update_artifacts clock s p (\<lambda>r. r\<lparr>ar_status := ArtifactAttached,
      ar_observationAttemptId := Some attempt, ar_attachedAt := Some attachedAt\<rparr>) = Inr (s', out)"
    by (auto simp: attachEvidenceArtifactsInTransaction_def thrown_simps Let_def split: if_splits)
  from evidence_ok_attached [OF ok u] assms(2) show ?thesis
    by (simp add: update_artifacts_InrD(1) [OF u])
next
  case (cleanup dateNow now cutoff limit s0 n)
  show ?thesis
  proof (cases "s' = s")
    case False
    with cleanup obtain p out where "delete_artifacts p s = Inr (s', out)"
      by (auto simp: cleanupStaleEvidenceArtifacts_def thrown_simps Let_def split: option.splits if_splits)
    note d = delete_artifacts_InrD(1) [OF this]
    from evidence_ok_filter [OF ok d] assms(2) show ?thesis by (simp add: d)
  qed (use assms(2) ok in simp)
qed

lemma evidence_steps_ok:
  assumes "(evidence_step sha other lc digest parse_url)\<^sup>*\<^sup>* s s'" and "db_ok (es_db s)" and "evidence_ok digest s"
  shows "db_ok (es_db s') \<and> evidence_ok digest s'"
  using assms(1)
proof (induction rule: rtranclp_induct)
  case base
  from assms(2, 3) show ?case by simp
next
  case (step y z)
  then show ?case using evidence_step_ok by blast
qed

lemma no_evidence_ok: "es_artifacts s = [] \<Longrightarrow> evidence_ok digest s"
  by (simp add: evidence_ok_def artifact_keys_unique_def within_quota_def of_task_def of_batch_def
      EVIDENCE_ARTIFACT_MAX_COUNT_def EVIDENCE_TASK_MAX_BYTES_def EVIDENCE_BATCH_MAX_BYTES_def)

text \<open>C38: Starting without evidence on a consistent database, whatever the evidence operations and the
  delivery program do: a task never has more than 20 artifacts or 40 MiB of them, a batch never more
  than 512 MiB; every artifact has between one byte and 8 MiB, its size and its hash are those of
  its bytes, its kind and media type were recognised in them, and it belongs to the slot of its
  task.\<close>

theorem evidence_within_quota:
  assumes "db_ok (es_db s0)" and "es_artifacts s0 = []"
    and "evidence_steps sha other lc digest parse_url s0 s"
  shows "(\<forall>i. length (filter (\<lambda>r. ar_taskId r = i) (es_artifacts s)) \<le> 20 \<and>
        byte_sum (filter (\<lambda>r. ar_taskId r = i) (es_artifacts s)) \<le> 41943040) \<and>
     (\<forall>i. byte_sum (filter (\<lambda>r. ar_batchId r = i) (es_artifacts s)) \<le> 536870912) \<and>
     (\<forall>r \<in> set (es_artifacts s).
        0 < ar_byteSize r \<and> ar_byteSize r \<le> 8388608 \<and> ar_byteSize r = int (length (ar_content r)) \<and>
        ar_sha256 r = digest (ar_content r) \<and>
        (\<exists>expected. detectEvidenceMedia (ar_content r) expected = Inr (ar_kind r, ar_mediaType r)) \<and>
        (\<exists>t \<in> set (d_tasks (es_db s)). ar_taskId r = t_id t \<and> ar_batchId r = t_batchId t \<and>
           ar_brandId r = pl_brandId t \<and> ar_scopeId r = pl_scopeId t))"
proof -
  have ok: "evidence_ok digest s"
    using evidence_steps_ok [OF assms(3, 1)] no_evidence_ok [OF assms(2)] by blast
  then have "within_quota s" by (simp add: evidence_ok_def)
  then have "\<forall>i. length (filter (\<lambda>r. ar_taskId r = i) (es_artifacts s)) \<le> 20 \<and>
      byte_sum (filter (\<lambda>r. ar_taskId r = i) (es_artifacts s)) \<le> 41943040"
    "\<forall>i. byte_sum (filter (\<lambda>r. ar_batchId r = i) (es_artifacts s)) \<le> 536870912"
    by (simp_all add: within_quota_def of_task_def of_batch_def EVIDENCE_ARTIFACT_MAX_COUNT_def
        EVIDENCE_TASK_MAX_BYTES_def EVIDENCE_BATCH_MAX_BYTES_def)
  moreover have "\<forall>r \<in> set (es_artifacts s). artifact_row_ok r \<and> truthful digest r \<and> proves_attempt (es_db s) r"
    using ok by (simp add: evidence_ok_def)
  ultimately show ?thesis
    unfolding artifact_row_ok_def truthful_def proves_attempt_def artifact_of_task_def by fastforce
qed

subsection \<open>Attached evidence is final\<close>

lemma attached_kept:
  assumes "evidence_step sha other lc digest parse_url s s'"
    and r: "r \<in> set (es_artifacts s)" "ar_status r = ArtifactAttached"
  shows "r \<in> set (es_artifacts s')"
  using assms(1)
proof cases
  case (stage checkedAt verifiedAt startedAt clock artifactId brandId claim uploader filename expectedKind content v)
  have kept: "q r" if "\<And>r. r \<in> set (es_artifacts s) \<Longrightarrow> \<not> q r \<Longrightarrow> ar_status r = ArtifactStaged" for q
    using that [OF r(1)] r(2) by (cases "q r") simp_all
  from stage show ?thesis
    by (rule stage_cases) (use r kept in \<open>auto simp: insert_artifact_def split: if_splits\<close>)
next
  case (delete checkedAt verifiedAt brandId artifactId claim v)
  then obtain p out where "delete_artifacts p s = Inr (s', out)"
    by (auto simp: deleteStagedEvidenceArtifact_def thrown_simps split: list.splits)
  from delete_artifacts_InrD(1, 3) [OF this] r show ?thesis by auto
next
  case (attach checkedAt verifiedAt attachedAt clock brandId claim ids attempt uri v)
  then obtain p f out where u: "update_artifacts clock s p f = Inr (s', out)"
    by (auto simp: attachEvidenceArtifactsInTransaction_def thrown_simps Let_def split: if_splits)
  have "\<not> p r"
    using update_artifacts_InrD(3) [OF u r(1)] r(2) by (auto simp: artifact_update_allowed_def split: option.splits)
  with artifact_table.image [OF u r(1)] show ?thesis by simp
next
  case (cleanup dateNow now cutoff limit s0 n)
  show ?thesis
  proof (cases "s' = s")
    case False
    with cleanup obtain p out where "delete_artifacts p s = Inr (s', out)"
      by (auto simp: cleanupStaleEvidenceArtifacts_def thrown_simps Let_def split: option.splits if_splits)
    from delete_artifacts_InrD(1, 3) [OF this] r show ?thesis by auto
  qed (use r in simp)
qed (use r in simp)


subsection \<open>Uploading again\<close>

lemma delete_artifacts_none:
  "(\<And>r. r \<in> set (es_artifacts s) \<Longrightarrow> \<not> p r) \<Longrightarrow> delete_artifacts p s = Inr (s, [])"
  by (auto simp: delete_artifacts_def list_all_iff filter_empty_conv)

lemma active_claim_task:
  "assertActiveDeliveryClaimInTransaction sha other checkedAt verifiedAt claim db = Inr (task, batch, w) \<Longrightarrow>
     t_id task = cl_taskId claim"
  by (auto simp: assertActiveDeliveryClaimInTransaction_def activeLeaseCondition_def thrown_simps
      redactDeliveryTask_def split: prod.splits if_splits dest!: find_SomeD)

lemma stage_result:
  assumes "stageEvidenceArtifact sha other digest checkedAt verifiedAt startedAt clock artifactId
      brandId claim uploader filename expectedKind content s = Inr (s', v)"
  obtains prepared originalFilename r where
    "requiredEvidenceText uploader ''uploadedBy'' 300 = Inr (cl_claimedBy claim)"
    "prepareEvidenceArtifact digest content expectedKind = Inr prepared"
    "normalizeFilename filename = Inr originalFilename"
    "find (\<lambda>r. ar_taskId r = cl_taskId claim \<and> ar_leaseGeneration r = cl_leaseGeneration claim \<and>
       ar_sha256 r = pa_sha256 prepared) (es_artifacts s') = Some r"
    "ar_uploadedBy r = cl_claimedBy claim" "ar_status r = ArtifactStaged" "v = redactEvidenceArtifact r"
    "\<forall>r \<in> set (es_artifacts s'). \<not> (ar_taskId r = cl_taskId claim \<and> ar_status r = ArtifactStaged \<and>
       ar_leaseGeneration r \<noteq> cl_leaseGeneration claim)"
    "es_db s' = es_db s"
proof -
  let ?p = "\<lambda>r :: artifact_row. ar_taskId r = cl_taskId claim \<and> ar_status r = ArtifactStaged \<and>
    ar_leaseGeneration r \<noteq> cl_leaseGeneration claim"
  obtain prepared originalFilename task batch w s1 removed where
    u: "requiredEvidenceText uploader ''uploadedBy'' 300 = Inr (cl_claimedBy claim)"
    and prep: "prepareEvidenceArtifact digest content expectedKind = Inr prepared"
    and name: "normalizeFilename filename = Inr originalFilename"
    and active: "assertActiveDeliveryClaimInTransaction sha other checkedAt verifiedAt claim (es_db s) = Inr (task, batch, w)"
    and del: "delete_artifacts (\<lambda>r. ar_taskId r = t_id task \<and> ar_status r = ArtifactStaged \<and>
            ar_leaseGeneration r \<noteq> cl_leaseGeneration claim) s = Inr (s1, removed)"
    and rest: "store_prepared clock artifactId startedAt task claim (cl_claimedBy claim) originalFilename prepared s1
      = Inr (s', v)"
    using assms by (auto simp: stageEvidenceArtifact_def thrown_simps Let_def split: prod.splits if_splits)
  note id = active_claim_task [OF active]
  note d = delete_artifacts_InrD(1) [OF del, unfolded id]
  have clean: "\<not> ?p r" if "r \<in> set (es_artifacts s1)" for r using that by (simp add: d)
  show thesis
  proof (cases "find (\<lambda>r. ar_taskId r = cl_taskId claim \<and> ar_leaseGeneration r = cl_leaseGeneration claim \<and>
      ar_sha256 r = pa_sha256 prepared) (es_artifacts s1)")
    case (Some existing)
    with rest have "s' = s1" "v = redactEvidenceArtifact existing" "ar_uploadedBy existing = cl_claimedBy claim"
      "ar_status existing = ArtifactStaged"
      by (simp_all add: store_prepared_def id split: if_splits)
    with Some clean show ?thesis by (intro that [OF u prep name, of existing]) (auto simp: d)
  next
    case None
    let ?r = "staged_row artifactId startedAt task claim (cl_claimedBy claim) originalFilename prepared"
    have "s' = s1\<lparr>es_artifacts := es_artifacts s1 @ [?r]\<rparr>" "v = redactEvidenceArtifact ?r"
      using rest None by (auto simp: store_prepared_def Let_def id thrown_simps insert_artifact_def split: option.splits if_splits)
    with None clean show ?thesis
      by (intro that [OF u prep name, of ?r]) (auto simp: d id staged_row_def find_append)
  qed
qed

text \<open>Uploading the same bytes again under the same live claim, as a client does that missed the
  answer, answers the same artifact and changes nothing.\<close>

theorem repeated_upload_changes_nothing:
  assumes "stageEvidenceArtifact sha other digest checkedAt verifiedAt startedAt clock artifactId
      brandId claim uploader filename expectedKind content s = Inr (s', v)"
    and "assertActiveDeliveryClaimInTransaction sha other checkedAt' verifiedAt' claim (es_db s) =
      Inr (task, batch, verifiedAt', windowEndsAt)"
    and "pl_brandId task = brandId" and "b_brandId batch = brandId"
  shows "stageEvidenceArtifact sha other digest checkedAt' verifiedAt' startedAt' clock' artifactId'
      brandId claim uploader filename expectedKind content s' = Inr (s', v)"
proof -
  obtain prepared originalFilename r where f:
    "requiredEvidenceText uploader ''uploadedBy'' 300 = Inr (cl_claimedBy claim)"
    "prepareEvidenceArtifact digest content expectedKind = Inr prepared"
    "normalizeFilename filename = Inr originalFilename"
    "find (\<lambda>r. ar_taskId r = cl_taskId claim \<and> ar_leaseGeneration r = cl_leaseGeneration claim \<and>
       ar_sha256 r = pa_sha256 prepared) (es_artifacts s') = Some r"
    "ar_uploadedBy r = cl_claimedBy claim" "ar_status r = ArtifactStaged" "v = redactEvidenceArtifact r"
    "\<forall>r \<in> set (es_artifacts s'). \<not> (ar_taskId r = cl_taskId claim \<and> ar_status r = ArtifactStaged \<and>
       ar_leaseGeneration r \<noteq> cl_leaseGeneration claim)"
    "es_db s' = es_db s"
    by (rule stage_result [OF assms(1)])
  have id: "t_id task = cl_taskId claim" by (rule active_claim_task [OF assms(2)])
  have none: "delete_artifacts (\<lambda>r. ar_taskId r = cl_taskId claim \<and> ar_status r = ArtifactStaged \<and>
      ar_leaseGeneration r \<noteq> cl_leaseGeneration claim) s' = Inr (s', [])"
    by (rule delete_artifacts_none) (use f(8) in blast)
  show ?thesis
    unfolding stageEvidenceArtifact_def store_prepared_def
    by (simp add: f(1-7, 9) assms(2-4) deliver_def id none)
qed

end
