(* ===== verification/ObservationResults.thy ===== *)
theory ObservationResults
  imports Observations EvidenceResults DeliveryResults
begin

text \<open>
  What claiming and persisting an observation achieve: a persisted observation is one prompt run of
  one attempt, with its citations, its evidence and its delivery task, all or nothing; a succeeded
  attempt is final; and a claim that is told to execute took the attempt alone.
\<close>

subsection \<open>Statements on attempts\<close>

definition synced :: "observation_store \<Rightarrow> bool" where
  "synced s \<longleftrightarrow> d_attempts (os_db s) = map observation_attempt.truncate (os_attempts s)"

lemma synced_set_attempts [simp]: "synced (set_attempts rows s)"
  by (simp add: synced_def)

lemma attempt_keysD:
  assumes "attempt_keys_unique rows"
  shows "distinct (map oa_id rows)" "distinct (map source_of rows)"
    "\<And>a b. a \<in> set rows \<Longrightarrow> b \<in> set rows \<Longrightarrow> oa_id a = oa_id b \<Longrightarrow> a = b"
  using assms by (auto simp: attempt_keys_unique_def distinct_map inj_on_def)

lemma mark_succeeded_InrD:
  assumes "mark_succeeded completedAt attemptId startedAt s = Inr s1"
  obtains a where "a \<in> set (os_attempts s)" "running_under attemptId startedAt a"
    "s1 = set_attempts (set_where (running_under attemptId startedAt) (succeeded_row completedAt startedAt)
       (os_attempts s)) s"
    "attempt_keys_unique (os_attempts s1)"
proof -
  obtain completed where u: "update_attempts s (running_under attemptId startedAt) (succeeded_row completedAt startedAt) =
      Inr (s1, completed)" "completed \<noteq> []"
    using assms by (auto simp: mark_succeeded_def thrown_simps split: prod.splits if_splits)
  note e = update_attempts_InrD [OF u(1)]
  have "filter (running_under attemptId startedAt) (os_attempts s) \<noteq> []" using u(2) e(2) by auto
  then obtain a where "a \<in> set (os_attempts s)" "running_under attemptId startedAt a"
    by (auto simp: filter_empty_conv)
  then show thesis by (rule that [OF _ _ e(1)]) (use e(1, 4) in simp)
qed

definition attempt_identity :: "attempt_row \<Rightarrow> _" where
  "attempt_identity a =
     (oa_id a, source_of a, oa_promptId a, oa_scopeId a, oa_promptText a, oa_surfaceTargetKey a,
      oa_captureRouteKey a, oa_sampleIndex a, ob_model a, ob_provider a, ob_requestedVersion a,
      ob_webSearchEnabled a)"

lemma record_refs_InrD:
  assumes "record_evidence_refs attemptId refs s = Inr s'"
  obtains f where "\<forall>a. oa_id (f a) = oa_id a" "\<forall>a. oa_status (f a) = oa_status a"
    "\<forall>a. attempt_identity (f a) = attempt_identity a"
    "\<forall>a. oa_id a \<noteq> attemptId \<longrightarrow> f a = a" "\<forall>a. observation_attempt.truncate (f a) = observation_attempt.truncate a"
    "os_attempts s' = map f (os_attempts s)" "os_runs s' = os_runs s" "os_citations s' = os_citations s"
    "os_evidence s' = os_evidence s \<or> s' = set_attempts (map f (os_attempts s)) s"
proof (cases "refs = []")
  case True
  then show ?thesis by (intro that [of "\<lambda>a. a"]) (use assms in \<open>simp_all add: record_evidence_refs_def\<close>)
next
  case False
  let ?g = "\<lambda>a. a\<lparr>ob_captureMetadata :=
     obj_put (''evidenceRefs'', JArr (map reference_json refs)) (ob_captureMetadata a)\<rparr>"
  obtain out where u: "update_attempts s (\<lambda>a. oa_id a = attemptId) ?g = Inr (s', out)"
    using assms False by (auto simp: record_evidence_refs_def thrown_simps split: prod.splits)
  have "s' = set_attempts (map (\<lambda>a. if oa_id a = attemptId then ?g a else a) (os_attempts s)) s"
    using update_attempts_InrD(1) [OF u] by (simp add: set_where_def)
  then show ?thesis
    by (intro that [of "\<lambda>a. if oa_id a = attemptId then ?g a else a"]) (simp_all add: observation_attempt.defs attempt_identity_def source_of_def)
qed

lemma insert_run_InrD:
  assumes "insert_run r s = Inr s'"
  shows "s' = s\<lparr>os_runs := os_runs s @ [r]\<rparr>"
    "\<And>x. x \<in> set (os_runs s) \<Longrightarrow> pu_observationAttemptId r \<noteq> None \<Longrightarrow>
       pu_observationAttemptId x \<noteq> pu_observationAttemptId r"
  using assms by (auto simp: insert_run_def run_row_ok_def list_ex_iff split: if_splits)

lemma insert_citations_InrD: "insert_citations cs s = Inr s' \<Longrightarrow> s' = s\<lparr>os_citations := os_citations s @ cs\<rparr>"
  by (auto simp: insert_citations_def split: if_splits)

lemma reserve_InrD:
  "reserveResponseSnapshotInTransaction newId run brand scope prompt observed s = Inr (s', r) \<Longrightarrow>
     \<exists>snapshots. s' = s\<lparr>os_snapshots := snapshots\<rparr>"
  by (auto simp: reserveResponseSnapshotInTransaction_def thrown_simps Let_def
      split: option.splits if_splits intro: exI [of _ "os_snapshots s"])

lemma length_new_citations [simp]: "length (new_citations w input observedAt) = length (ps_extractedCitations input)"
  by (simp add: new_citations_def)

text \<open>Persisting, taken apart: the attempt, the run, the citations, and the delivery at the end.\<close>

lemma persist_cases:
  assumes "persistSuccessfulObservation sha other parse_url w input s = Inr (s', r)"
  obtains s1 s2 s3 s5 f raw observedAt where
    "mark_succeeded (pw_completedAt w) (ps_attemptId input) (ps_startedAt input) s = Inr s1"
    "resolve_evidence sha other parse_url w input s1 = Inr (pd_evidenceRefs r)"
    "record_evidence_refs (ps_attemptId input) (pd_evidenceRefs r) s1 = Inr s2"
    "insert_run (new_run w input observedAt raw) s2 = Inr s3" "pd_id r = pw_runId w"
    "os_attempts s5 = os_attempts s2" "os_evidence s5 = os_evidence s2" "os_runs s5 = os_runs s3"
    "length (os_citations s5) = length (os_citations s2) + length (ps_extractedCitations input)"
    "deliver_observation sha other parse_url w input s5 = Inr s'"
proof -
  obtain s1 refs s2 raw observedAt s3 s4 s5 reservation where
    m: "mark_succeeded (pw_completedAt w) (ps_attemptId input) (ps_startedAt input) s = Inr s1"
    and e: "resolve_evidence sha other parse_url w input s1 = Inr refs"
    and g: "record_evidence_refs (ps_attemptId input) refs s1 = Inr s2"
    and i: "insert_run (new_run w input observedAt raw) s2 = Inr s3"
    and c: "store_citations w input observedAt s3 = Inr s4"
    and n: "reserve_snapshot w input s4 = Inr (s5, reservation)"
    and d: "deliver_observation sha other parse_url w input s5 = Inr s'"
    and r: "r = \<lparr>pd_id = pw_runId w, pd_createdAt = observedAt, pd_evidenceRefs = refs,
            pd_snapshotReservation = reservation\<rparr>"
    using assms by (auto simp: persistSuccessfulObservation_def thrown_simps)
  have s3: "s3 = s2\<lparr>os_runs := os_runs s2 @ [new_run w input observedAt raw]\<rparr>"
    by (rule insert_run_InrD(1) [OF i])
  have s4: "os_attempts s4 = os_attempts s3" "os_evidence s4 = os_evidence s3" "os_runs s4 = os_runs s3"
    "length (os_citations s4) = length (os_citations s3) + length (ps_extractedCitations input)"
    using c by (auto simp: store_citations_def dest: insert_citations_InrD split: if_splits)
  have s5: "\<exists>snapshots. s5 = s4\<lparr>os_snapshots := snapshots\<rparr>"
    using n by (auto simp: reserve_snapshot_def thrown_simps split: if_splits dest: reserve_InrD intro: exI [of _ "os_snapshots s4"])
  show thesis
    by (rule that [OF m _ _ i]) (use e g d r s3 s4 s5 in auto)
qed

subsection \<open>Attached evidence\<close>

lemma validateArtifactIds_Inr: "validateArtifactIds ids = Inr nids \<Longrightarrow> nids = map (\<lambda>i. js_lower (js_trim i)) ids"
  by (auto simp: validateArtifactIds_def Let_def split: if_splits)

lemma built_reference:
  "buildEvidenceArtifactReference parse_url uri v = Inr ref \<Longrightarrow> rf_artifactId ref = ar_id v"
  by (auto simp: buildEvidenceArtifactReference_def split: option.splits prod.splits if_splits)

lemma resolve_InrD:
  assumes "resolveEvidenceArtifactsForSubmission sha other parse_url checkedAt verifiedAt brandId claim ids uri s = Inr refs"
  shows "map rf_artifactId refs = map (\<lambda>i. js_lower (js_trim i)) ids"
    "\<And>i. i \<in> set (map rf_artifactId refs) \<Longrightarrow> \<exists>x \<in> set (es_artifacts s). ar_id x = i \<and>
       ar_status x = ArtifactStaged \<and> ar_taskId x = cl_taskId claim \<and> ar_leaseGeneration x = cl_leaseGeneration claim"
proof -
  obtain nids task artifacts where n: "validateArtifactIds ids = Inr nids"
    and a: "artifacts = filter (\<lambda>r. ar_id r \<in> set nids \<and> submittable brandId claim task r) (es_artifacts s)"
    and m: "mapE (\<lambda>artifactId.
       bindE (requireSome (EvidenceState (''Evidence artifact '' @ artifactId @ '' could not be resolved''))
         (map_of (rev (map (\<lambda>r. (ar_id r, r)) artifacts)) artifactId)) (\<lambda>artifact.
       buildEvidenceArtifactReference parse_url uri (redactEvidenceArtifact artifact))) nids = Inr refs"
    using assms by (auto simp: resolveEvidenceArtifactsForSubmission_def thrown_simps Let_def split: if_splits)
  have each: "rf_artifactId ref = i \<and> (\<exists>x \<in> set artifacts. ar_id x = i)"
    if h: "bindE (requireSome e (map_of (rev (map (\<lambda>r. (ar_id r, r)) artifacts)) i)) (\<lambda>artifact.
       buildEvidenceArtifactReference parse_url uri (redactEvidenceArtifact artifact)) = Inr ref" for i e ref
  proof -
    obtain x where x: "map_of (rev (map (\<lambda>r. (ar_id r, r)) artifacts)) i = Some x"
      "buildEvidenceArtifactReference parse_url uri (redactEvidenceArtifact x) = Inr ref"
      using h unfolding bindE_Inr_iff requireSome_Inr_iff by blast
    from map_of_SomeD [OF x(1)] have "x \<in> set artifacts" "ar_id x = i" by auto
    with built_reference [OF x(2)] show ?thesis
      by (auto simp: redactEvidenceArtifact_def artifact_view.defs)
  qed
  have all: "list_all2 (\<lambda>i ref. rf_artifactId ref = i \<and> (\<exists>x \<in> set artifacts. ar_id x = i)) nids refs"
    using m unfolding mapE_Inr_iff by (rule list_all2_mono) (rule each)
  then have ids: "map rf_artifactId refs = nids"
    by (induction rule: list_all2_induct) auto
  then show "map rf_artifactId refs = map (\<lambda>i. js_lower (js_trim i)) ids"
    using validateArtifactIds_Inr [OF n] by simp
  fix i assume "i \<in> set (map rf_artifactId refs)"
  with ids have "i \<in> set nids" by simp
  with all have "\<exists>x \<in> set artifacts. ar_id x = i"
    by (auto simp: list_all2_conv_all_nth in_set_conv_nth)
  then show "\<exists>x \<in> set (es_artifacts s). ar_id x = i \<and>
       ar_status x = ArtifactStaged \<and> ar_taskId x = cl_taskId claim \<and> ar_leaseGeneration x = cl_leaseGeneration claim"
    by (auto simp: a submittable_def)
qed

lemma attach_InrD:
  assumes "attachEvidenceArtifactsInTransaction sha other parse_url checkedAt verifiedAt attachedAt clock
      brandId claim ids attemptId uri s = Inr (s', attached, refs)"
  shows "es_db s' = es_db s" "map rf_artifactId refs = map (\<lambda>i. js_lower (js_trim i)) ids"
    "\<And>i. i \<in> set (map rf_artifactId refs) \<Longrightarrow> \<exists>x \<in> set (es_artifacts s'). ar_id x = i \<and>
       ar_taskId x = cl_taskId claim \<and> ar_status x = ArtifactAttached \<and> ar_observationAttemptId x = Some attemptId"
proof -
  let ?p = "\<lambda>r. ar_id r \<in> set (map rf_artifactId refs) \<and> ar_status r = ArtifactStaged \<and>
    ar_taskId r = cl_taskId claim \<and> ar_leaseGeneration r = cl_leaseGeneration claim"
  obtain out where r: "resolveEvidenceArtifactsForSubmission sha other parse_url checkedAt verifiedAt brandId claim ids uri s = Inr refs"
    and u: "update_artifacts clock s ?p (\<lambda>r. r\<lparr>ar_status := ArtifactAttached,
      ar_observationAttemptId := Some attemptId, ar_attachedAt := Some attachedAt\<rparr>) = Inr (s', out)"
    using assms by (auto simp: attachEvidenceArtifactsInTransaction_def thrown_simps Let_def split: if_splits)
  show "es_db s' = es_db s" by (simp add: update_artifacts_InrD(1) [OF u])
  show "map rf_artifactId refs = map (\<lambda>i. js_lower (js_trim i)) ids" by (rule resolve_InrD(1) [OF r])
  fix i assume i: "i \<in> set (map rf_artifactId refs)"
  then obtain x where x: "x \<in> set (es_artifacts s)" "ar_id x = i" "ar_status x = ArtifactStaged"
    "ar_taskId x = cl_taskId claim" "ar_leaseGeneration x = cl_leaseGeneration claim"
    using resolve_InrD(2) [OF r] by blast
  then have "?p x" using i by simp
  with artifact_table.image [OF u x(1)] x show "\<exists>x \<in> set (es_artifacts s'). ar_id x = i \<and>
       ar_taskId x = cl_taskId claim \<and> ar_status x = ArtifactAttached \<and> ar_observationAttemptId x = Some attemptId"
    by (intro bexI) auto
qed

subsection \<open>The delivery database meanwhile\<close>

lemma attempt_by_id_rows:
  assumes "d_attempts db = map observation_attempt.truncate (rows :: attempt_row list)"
  shows "attempt_by_id db i = map_option observation_attempt.truncate (find (\<lambda>a. oa_id a = i) rows)"
proof -
  have "find (\<lambda>a. oa_id a = i) (map observation_attempt.truncate xs) =
    map_option observation_attempt.truncate (find (\<lambda>a. oa_id a = i) xs)" for xs :: "attempt_row list"
    by (induction xs) (auto simp: observation_attempt.defs)
  then show ?thesis by (simp add: attempt_by_id_def assms)
qed

lemma mark_succeeded_elsewhere:
  assumes "synced s" and "s1 = set_attempts (set_where (running_under attemptId startedAt)
      (succeeded_row completedAt startedAt) (os_attempts s)) s"
  shows "program_step sha other lc (os_db s) (os_db s1)"
proof (rule program_step.elsewhere)
  show "d_batches (os_db s1) = d_batches (os_db s)" "d_tasks (os_db s1) = d_tasks (os_db s)"
    by (simp_all add: assms(2))
  fix i a
  assume a: "attempt_by_id (os_db s) i = Some a" "oa_status a = ObsSucceeded \<or> oa_status a = ObsFailed"
  then obtain x where x: "find (\<lambda>x. oa_id x = i) (os_attempts s) = Some x" "a = observation_attempt.truncate x"
    using attempt_by_id_rows assms(1) by (auto simp: synced_def)
  then have "\<not> running_under attemptId startedAt x"
    using a(2) by (auto simp: running_under_def observation_attempt.defs)
  moreover have "find (\<lambda>x. oa_id x = i) (os_attempts s1) =
    map_option (\<lambda>x. if running_under attemptId startedAt x then succeeded_row completedAt startedAt x else x)
      (find (\<lambda>x. oa_id x = i) (os_attempts s))"
    unfolding assms(2) set_attempts_simps by (rule find_set_where) (simp add: succeeded_row_def)
  moreover have "synced s1" by (simp add: assms(2))
  ultimately show "attempt_by_id (os_db s1) i = Some a"
    using attempt_by_id_rows x by (simp add: synced_def)
qed

lemma deliver_InrD:
  assumes "deliver_observation sha other parse_url w input s = Inr s'"
  shows "os_attempts s' = os_attempts s" "os_runs s' = os_runs s" "os_citations s' = os_citations s"
    "\<And>claim. ps_deliveryClaim input = Some claim \<Longrightarrow> \<exists>t.
       completeDeliveryTaskInTransaction sha (pw_now w) claim (ps_attemptId input) (os_db s) = Inr (os_db s', t)"
    "\<And>claim ids uri i. ps_deliveryClaim input = Some claim \<Longrightarrow> ps_evidence input = Some (ids, uri) \<Longrightarrow>
       i \<in> set ids \<Longrightarrow> \<exists>x \<in> set (es_artifacts (os_evidence s')). ar_id x = js_lower (js_trim i) \<and>
       ar_taskId x = cl_taskId claim \<and> ar_status x = ArtifactAttached \<and>
       ar_observationAttemptId x = Some (ps_attemptId input)"
proof -
  show "os_attempts s' = os_attempts s" "os_runs s' = os_runs s" "os_citations s' = os_citations s"
    using assms by (auto simp: deliver_observation_def thrown_simps split: option.splits if_splits)
  fix claim assume c: "ps_deliveryClaim input = Some claim"
  then show "\<exists>t. completeDeliveryTaskInTransaction sha (pw_now w) claim (ps_attemptId input) (os_db s) = Inr (os_db s', t)"
    using assms
    by (cases "ps_evidence input")
      (auto simp: deliver_observation_def thrown_simps os_db_def attach_InrD(1) split: if_splits)
  fix ids uri i
  assume e: "ps_evidence input = Some (ids, uri)" and i: "i \<in> set ids"
  then obtain v attached refs where a: "attachEvidenceArtifactsInTransaction sha other parse_url
      (pw_attachChecked w) (pw_attachVerified w) (pw_attachedAt w) (pw_triggerClock w)
      (ps_brandId input) claim ids (ps_attemptId input) uri (os_evidence s) = Inr (v, attached, refs)"
    "es_artifacts (os_evidence s') = es_artifacts v"
    using assms c by (auto simp: deliver_observation_def thrown_simps split: if_splits)
  have "js_lower (js_trim i) \<in> set (map rf_artifactId refs)"
    using attach_InrD(2) [OF a(1)] i by simp
  from attach_InrD(3) [OF a(1) this] a(2)
  show "\<exists>x \<in> set (es_artifacts (os_evidence s')). ar_id x = js_lower (js_trim i) \<and>
       ar_taskId x = cl_taskId claim \<and> ar_status x = ArtifactAttached \<and>
       ar_observationAttemptId x = Some (ps_attemptId input)" by simp
qed

subsection \<open>A persisted observation\<close>


subsection \<open>Attempts as a state machine\<close>

text \<open>
  A step is a statement of a claim (the insert of an attempt, or taking over one that is not
  settled and whose lease is over), the storing of an outcome, or a step of the evidence and the
  delivery that leaves the attempts alone.
\<close>

inductive observation_step ::
  "(string \<Rightarrow> string) \<Rightarrow> (string \<Rightarrow> int option) \<Rightarrow> (string \<Rightarrow> string \<Rightarrow> int) \<Rightarrow> (8 word list \<Rightarrow> string) \<Rightarrow>
   (string \<Rightarrow> (string \<times> string) option) \<Rightarrow> observation_store \<Rightarrow> observation_store \<Rightarrow> bool"
  for sha other lc digest parse_url where
  evidence: "evidence_step sha other lc digest parse_url (os_evidence s) e \<Longrightarrow>
     d_attempts (es_db e) = d_attempts (os_db s) \<Longrightarrow>
     observation_step sha other lc digest parse_url s (s\<lparr>os_evidence := e\<rparr>)"
| inserted: "insert_attempt (new_attempt newId startedAt input) s = Inr (s', r) \<Longrightarrow>
     observation_step sha other lc digest parse_url s s'"
| taken: "update_attempts s (\<lambda>a. oa_id a = i \<and> oa_status a = st \<and> ob_startedAt a = t)
       (restarted startedAt input) = Inr (s', out) \<Longrightarrow>
     st \<noteq> ObsSucceeded \<Longrightarrow> st \<noteq> ObsCancelled \<Longrightarrow>
     (st = ObsRunning \<Longrightarrow> dateNow - t \<ge> RUNNING_ATTEMPT_LEASE_MS) \<Longrightarrow>
     observation_step sha other lc digest parse_url s s'"
| failed: "markObservationFailed sha completedAt now attemptId startedAt error failureStage claim s = Inr s' \<Longrightarrow>
     observation_step sha other lc digest parse_url s s'"
| persisted: "persistSuccessfulObservation sha other parse_url w pinput s = Inr (s', pr) \<Longrightarrow>
     observation_step sha other lc digest parse_url s s'"

abbreviation observation_steps ::
  "(string \<Rightarrow> string) \<Rightarrow> (string \<Rightarrow> int option) \<Rightarrow> (string \<Rightarrow> string \<Rightarrow> int) \<Rightarrow> (8 word list \<Rightarrow> string) \<Rightarrow>
   (string \<Rightarrow> (string \<times> string) option) \<Rightarrow> observation_store \<Rightarrow> observation_store \<Rightarrow> bool" where
  "observation_steps sha other lc digest parse_url \<equiv> (observation_step sha other lc digest parse_url)\<^sup>*\<^sup>*"

definition attempt_evolves :: "attempt_row \<Rightarrow> attempt_row \<Rightarrow> bool" where
  "attempt_evolves a a' \<longleftrightarrow>
     attempt_identity a' = attempt_identity a \<and> (oa_status a = ObsSucceeded \<longrightarrow> a' = a)"

definition attempts_evolve :: "observation_store \<Rightarrow> observation_store \<Rightarrow> bool" where
  "attempts_evolve s s' \<longleftrightarrow>
     attempt_keys_unique (os_attempts s') \<and>
     (\<forall>a \<in> set (os_attempts s). \<exists>a' \<in> set (os_attempts s'). attempt_evolves a a')"

lemma attempt_evolves_refl [simp]: "attempt_evolves a a"
  by (simp add: attempt_evolves_def)

lemma attempts_evolve_refl: "attempt_keys_unique (os_attempts s') \<Longrightarrow> os_attempts s' = os_attempts s \<Longrightarrow> attempts_evolve s s'"
  unfolding attempts_evolve_def using attempt_evolves_refl by metis

lemma attempts_evolve_trans: "attempts_evolve s s1 \<Longrightarrow> attempts_evolve s1 s2 \<Longrightarrow> attempts_evolve s s2"
  unfolding attempts_evolve_def attempt_evolves_def by metis

lemma update_attempts_evolve:
  assumes u: "update_attempts s p f = Inr (s', out)"
    and f: "\<And>a. a \<in> set (os_attempts s) \<Longrightarrow> p a \<Longrightarrow> attempt_evolves a (f a)"
  shows "attempts_evolve s s'"
  unfolding attempts_evolve_def
proof (intro conjI ballI)
  show "attempt_keys_unique (os_attempts s')" using update_attempts_InrD(1, 4) [OF u] by simp
  fix a assume a: "a \<in> set (os_attempts s)"
  show "\<exists>a' \<in> set (os_attempts s'). attempt_evolves a a'"
  proof (cases "p a")
    case True
    with attempt_table.image [OF u a] f [OF a] show ?thesis by (intro bexI [of _ "f a"]) simp_all
  next
    case False
    with attempt_table.image [OF u a] show ?thesis by (intro bexI [of _ a]) simp_all
  qed
qed

lemma insert_attempt_InrD:
  assumes "insert_attempt a s = Inr (s', r)"
  shows "r = None \<and> s' = s \<and> (\<exists>x \<in> set (os_attempts s). source_of x = source_of a) \<or>
    r = Some a \<and> s' = set_attempts (os_attempts s @ [a]) s \<and>
    (\<forall>x \<in> set (os_attempts s). source_of x \<noteq> source_of a \<and> oa_id x \<noteq> oa_id a)"
  using assms by (auto simp: insert_attempt_def list_ex_iff split: if_splits)

lemma insert_attempt_evolve:
  assumes "insert_attempt a s = Inr (s', r)" and "attempt_keys_unique (os_attempts s)"
  shows "attempts_evolve s s'"
  using insert_attempt_InrD [OF assms(1)]
proof
  assume "r = None \<and> s' = s \<and> (\<exists>x \<in> set (os_attempts s). source_of x = source_of a)"
  then show ?thesis using assms(2) by (simp add: attempts_evolve_refl)
next
  assume i: "r = Some a \<and> s' = set_attempts (os_attempts s @ [a]) s \<and>
    (\<forall>x \<in> set (os_attempts s). source_of x \<noteq> source_of a \<and> oa_id x \<noteq> oa_id a)"
  then have "attempt_keys_unique (os_attempts s')" using assms(2) by (auto simp: attempt_keys_unique_def)
  with i show ?thesis unfolding attempts_evolve_def by (auto intro: attempt_evolves_refl)
qed

lemma persist_evolve:
  assumes "persistSuccessfulObservation sha other parse_url w input s = Inr (s', r)"
    and "attempt_keys_unique (os_attempts s)"
  shows "attempts_evolve s s'"
    "\<exists>run. os_runs s' = os_runs s @ [run] \<and> pu_observationAttemptId run = Some (ps_attemptId input) \<and>
       (\<forall>x \<in> set (os_runs s). pu_observationAttemptId x \<noteq> Some (ps_attemptId input))"
    "\<exists>a \<in> set (os_attempts s). running_under (ps_attemptId input) (ps_startedAt input) a"
proof -
  obtain s1 s2 s3 s5 raw observedAt where
    m: "mark_succeeded (pw_completedAt w) (ps_attemptId input) (ps_startedAt input) s = Inr s1"
    and g: "record_evidence_refs (ps_attemptId input) (pd_evidenceRefs r) s1 = Inr s2"
    and i: "insert_run (new_run w input observedAt raw) s2 = Inr s3"
    and s5: "os_attempts s5 = os_attempts s2" "os_runs s5 = os_runs s3"
    and d: "deliver_observation sha other parse_url w input s5 = Inr s'"
    by (rule persist_cases [OF assms(1)]) (rule that)
  obtain out where u: "update_attempts s (running_under (ps_attemptId input) (ps_startedAt input))
      (succeeded_row (pw_completedAt w) (ps_startedAt input)) = Inr (s1, out)"
    using m by (auto simp: mark_succeeded_def thrown_simps split: if_splits)
  have e1: "attempts_evolve s s1"
    by (rule update_attempts_evolve [OF u])
      (auto simp: running_under_def attempt_evolves_def attempt_identity_def source_of_def succeeded_row_def)
  obtain a where a: "a \<in> set (os_attempts s)" "running_under (ps_attemptId input) (ps_startedAt input) a"
    and s1: "s1 = set_attempts (set_where (running_under (ps_attemptId input) (ps_startedAt input))
      (succeeded_row (pw_completedAt w) (ps_startedAt input)) (os_attempts s)) s"
    by (rule mark_succeeded_InrD [OF m])
  from a show "\<exists>a \<in> set (os_attempts s). running_under (ps_attemptId input) (ps_startedAt input) a" by blast
  obtain f where f: "\<forall>x. oa_id (f x) = oa_id x" "\<forall>x. attempt_identity (f x) = attempt_identity x"
    "\<forall>x. oa_id x \<noteq> ps_attemptId input \<longrightarrow> f x = x" "os_attempts s2 = map f (os_attempts s1)" "os_runs s2 = os_runs s1"
    by (rule record_refs_InrD [OF g])
  have rows: "os_attempts s' = map f (os_attempts s1)" using deliver_InrD(1) [OF d] s5(1) f(4) by simp
  show "attempts_evolve s s'"
    unfolding attempts_evolve_def
  proof (intro conjI ballI)
    have "map source_of (map f (os_attempts s1)) = map source_of (os_attempts s1)"
      using f(2) by (simp add: attempt_identity_def)
    moreover have "map oa_id (map f (os_attempts s1)) = map oa_id (os_attempts s1)" using f(1) by simp
    moreover have "attempt_keys_unique (os_attempts s1)" using e1 by (simp add: attempts_evolve_def)
    ultimately show "attempt_keys_unique (os_attempts s')" by (simp only: rows attempt_keys_unique_def)
    fix x assume x: "x \<in> set (os_attempts s)"
    then obtain y where y: "y \<in> set (os_attempts s1)" "attempt_evolves x y" using e1 by (auto simp: attempts_evolve_def)
    have "f y \<in> set (os_attempts s')" using y(1) by (simp add: rows)
    moreover have "attempt_evolves x (f y)"
    proof (cases "oa_id x = ps_attemptId input")
      case True
      then have "x = a" using attempt_keysD(3) [OF assms(2) x a(1)] a(2) by (simp add: running_under_def)
      with y(2) a(2) f(2) show ?thesis by (simp add: attempt_evolves_def running_under_def)
    next
      case False
      with y(2) f(3) show ?thesis by (simp add: attempt_evolves_def attempt_identity_def)
    qed
    ultimately show "\<exists>x' \<in> set (os_attempts s'). attempt_evolves x x'" by blast
  qed
  show "\<exists>run. os_runs s' = os_runs s @ [run] \<and> pu_observationAttemptId run = Some (ps_attemptId input) \<and>
       (\<forall>x \<in> set (os_runs s). pu_observationAttemptId x \<noteq> Some (ps_attemptId input))"
    using deliver_InrD(2) [OF d] s5(2) insert_run_InrD [OF i] f(5) s1 by (simp add: new_run_def)
qed

lemma mark_failed_evolve:
  assumes "mark_failed completedAt attemptId startedAt error failureStage s = Inr (s', out)"
  shows "attempts_evolve s s'" "os_runs s' = os_runs s"
proof -
  note u = assms [unfolded mark_failed_def]
  show "attempts_evolve s s'"
    by (rule update_attempts_evolve [OF u])
      (auto simp: running_under_def attempt_evolves_def attempt_identity_def source_of_def)
  show "os_runs s' = os_runs s" by (simp add: update_attempts_InrD(1) [OF u])
qed

definition one_run_each :: "observation_store \<Rightarrow> bool" where
  "one_run_each s \<longleftrightarrow> (\<forall>i. length (filter (\<lambda>r. pu_observationAttemptId r = Some i) (os_runs s)) \<le> 1)"

lemma observation_step_evolves:
  assumes "observation_step sha other lc digest parse_url s s'"
    and keys: "attempt_keys_unique (os_attempts s)" and once: "one_run_each s"
  shows "attempts_evolve s s' \<and> one_run_each s'"
  using assms(1)
proof cases
  case (evidence e)
  with keys once show ?thesis by (simp add: one_run_each_def attempts_evolve_refl)
next
  case (inserted newId startedAt input r)
  then have "os_runs s' = os_runs s" by (auto dest!: insert_attempt_InrD)
  with inserted insert_attempt_evolve keys once show ?thesis by (auto simp: one_run_each_def)
next
  case (taken i st t startedAt input out dateNow)
  have "attempts_evolve s s'"
    by (rule update_attempts_evolve [OF taken(1)])
      (use taken(2) in \<open>auto simp: attempt_evolves_def attempt_identity_def source_of_def restarted_def\<close>)
  with once update_attempts_InrD(1) [OF taken(1)] show ?thesis by (simp add: one_run_each_def)
next
  case (failed completedAt now attemptId startedAt error failureStage claim)
  then obtain s1 out where u: "mark_failed completedAt attemptId startedAt error failureStage s = Inr (s1, out)"
    and rest: "os_attempts s' = os_attempts s1" "os_runs s' = os_runs s1"
    by (auto simp: markObservationFailed_def with_db_def thrown_simps split: option.splits if_splits)
  from mark_failed_evolve [OF u] once rest show ?thesis by (simp add: one_run_each_def attempts_evolve_def)
next
  case (persisted w pinput pr)
  from persist_evolve(2) [OF persisted keys] obtain run where run: "os_runs s' = os_runs s @ [run]"
    "pu_observationAttemptId run = Some (ps_attemptId pinput)"
    "\<forall>x \<in> set (os_runs s). pu_observationAttemptId x \<noteq> Some (ps_attemptId pinput)" by blast
  then have "filter (\<lambda>r. pu_observationAttemptId r = Some (ps_attemptId pinput)) (os_runs s) = []"
    by (simp add: filter_empty_conv)
  with run once have "one_run_each s'" by (auto simp: one_run_each_def)
  with persist_evolve(1) [OF persisted keys] show ?thesis by simp
qed

lemma observation_steps_evolve:
  assumes "observation_steps sha other lc digest parse_url s s'"
    and keys: "attempt_keys_unique (os_attempts s)" and once: "one_run_each s"
  shows "attempts_evolve s s' \<and> one_run_each s'"
  using assms(1)
proof (induction rule: rtranclp_induct)
  case base
  from keys once show ?case by (simp add: attempts_evolve_refl)
next
  case (step y z)
  then have "attempt_keys_unique (os_attempts y)" by (simp add: attempts_evolve_def)
  with step observation_step_evolves attempts_evolve_trans show ?case by blast
qed

lemma succeeded_kept:
  "attempts_evolve s s' \<Longrightarrow> a \<in> set (os_attempts s) \<Longrightarrow> oa_status a = ObsSucceeded \<Longrightarrow> a \<in> set (os_attempts s')"
  by (auto simp: attempts_evolve_def attempt_evolves_def)

lemma same_source:
  assumes "attempt_keys_unique rows" and "a \<in> set rows"
  shows "find (\<lambda>x. oa_brandId x = oa_brandId a \<and> ob_sourceKey x = ob_sourceKey a) rows = Some a"
proof -
  have "(\<lambda>x. oa_brandId x = oa_brandId a \<and> ob_sourceKey x = ob_sourceKey a) = (\<lambda>x. source_of x = source_of a)"
    by (auto simp: source_of_def)
  then show ?thesis using find_distinct_key [OF attempt_keysD(2) [OF assms(1)] assms(2)] by simp
qed

text \<open>C36: A succeeded attempt is final, whatever follows: its row stays unchanged, it never gets a second
  run, no outcome is stored for it again, and no claim of its sample is told to execute, even when
  others work between the statements of the claim.\<close>

theorem succeeded_attempt_final:
  assumes "attempt_keys_unique (os_attempts s)" and "one_run_each s"
    and "observation_steps sha other lc digest parse_url s s'"
    and "a \<in> set (os_attempts s)" and "oa_status a = ObsSucceeded"
  shows "a \<in> set (os_attempts s') \<and>
    length (filter (\<lambda>r. pu_observationAttemptId r = Some (oa_id a)) (os_runs s')) \<le> 1 \<and>
    (ps_attemptId input = oa_id a \<longrightarrow> persistSuccessfulObservation sha other parse_url w input s' \<noteq> Inr out) \<and>
    ((\<forall>x. observation_steps sha other lc digest parse_url x (between1 x)) \<and>
     ki_brandId kin = oa_brandId a \<and> ki_sourceKey kin = ob_sourceKey a \<and>
     claimObservationAttemptBySource newId startedAt dateNow between1 between2 kin s' = Inr (s'', c) \<longrightarrow>
       ca_state c = AttemptCompleted)"
proof -
  have e: "attempts_evolve s s'" "one_run_each s'" using observation_steps_evolve [OF assms(3, 1, 2)] by simp_all
  then have keys: "attempt_keys_unique (os_attempts s')" by (simp add: attempts_evolve_def)
  have kept: "a \<in> set (os_attempts s')" by (rule succeeded_kept [OF e(1) assms(4, 5)])
  have no_persist: "persistSuccessfulObservation sha other parse_url w input s' \<noteq> Inr out"
    if "ps_attemptId input = oa_id a"
  proof
    assume "persistSuccessfulObservation sha other parse_url w input s' = Inr out"
    then obtain x where "x \<in> set (os_attempts s')" "running_under (ps_attemptId input) (ps_startedAt input) x"
      using persist_evolve(3) [OF _ keys] by (metis surj_pair)
    moreover from this have "x = a"
      using attempt_keysD(3) [OF keys _ kept] that by (simp add: running_under_def)
    ultimately show False using assms(5) by (simp add: running_under_def)
  qed
  have no_execute: "ca_state c = AttemptCompleted"
    if b: "\<forall>x. observation_steps sha other lc digest parse_url x (between1 x)"
      and k: "ki_brandId kin = oa_brandId a" "ki_sourceKey kin = ob_sourceKey a"
      and r: "claimObservationAttemptBySource newId startedAt dateNow between1 between2 kin s' = Inr (s'', c)"
  proof -
    let ?new = "new_attempt newId startedAt kin"
    have src: "source_of ?new = source_of a" by (simp add: new_attempt_def source_of_def k)
    obtain s0 ins where i: "insert_attempt ?new s' = Inr (s0, ins)"
      using r by (auto simp: claimObservationAttemptBySource_def thrown_simps)
    then have none: "ins = None" "s0 = s'" using insert_attempt_InrD [OF i] src kept by metis+
    have e1: "attempts_evolve s' (between1 s')" using observation_steps_evolve b keys e(2) by blast
    then have found: "find (\<lambda>x. oa_brandId x = ki_brandId kin \<and> ob_sourceKey x = ki_sourceKey kin)
      (os_attempts (between1 s')) = Some a"
      unfolding k using same_source succeeded_kept [OF e1 kept assms(5)] by (simp add: attempts_evolve_def)
    show ?thesis
      using r by (auto simp: claimObservationAttemptBySource_def i none found Let_def assms(5) split: if_splits)
  qed
  show ?thesis using kept e(2) no_persist no_execute by (simp add: one_run_each_def)
qed

text \<open>C37: A claim that is told to execute holds the attempt of exactly its sample under its own start: either
  the attempt is new, or it was neither succeeded nor cancelled nor running under a start of the
  last 14 minutes when it was taken over.\<close>

theorem claim_executes_alone:
  assumes "claimObservationAttemptBySource newId startedAt dateNow between1 between2 input s = Inr (s', c)"
    and "ca_state c = AttemptExecute" and "attempt_keys_unique (os_attempts s)" and "one_run_each s"
    and "\<And>x. observation_steps sha other lc digest parse_url x (between1 x)"
    and "\<And>x. observation_steps sha other lc digest parse_url x (between2 x)"
  shows "\<exists>a \<in> set (os_attempts s'). oa_id a = ca_id c \<and> oa_status a = ObsRunning \<and> ob_startedAt a = startedAt \<and>
    ca_startedAt c = startedAt \<and> oa_brandId a = ki_brandId input \<and> ob_sourceKey a = ki_sourceKey input \<and>
    \<not> identity_changed input a \<and>
    ((\<forall>x \<in> set (os_attempts s). source_of x \<noteq> source_of a) \<and> ob_executionCount a = 1 \<or>
     (\<exists>old \<in> set (os_attempts (between2 (between1 s))). oa_id old = oa_id a \<and>
        oa_status old \<noteq> ObsSucceeded \<and> oa_status old \<noteq> ObsCancelled \<and>
        (oa_status old = ObsRunning \<longrightarrow> dateNow - ob_startedAt old \<ge> 840000) \<and>
        ob_executionCount a = ob_executionCount old + 1))"
proof -
  let ?new = "new_attempt newId startedAt input"
  obtain s0 ins where i: "insert_attempt ?new s = Inr (s0, ins)"
    using assms(1) by (auto simp: claimObservationAttemptBySource_def thrown_simps)
  from insert_attempt_InrD [OF i] show ?thesis
  proof
    assume n: "ins = Some ?new \<and> s0 = set_attempts (os_attempts s @ [?new]) s \<and>
      (\<forall>x \<in> set (os_attempts s). source_of x \<noteq> source_of ?new \<and> oa_id x \<noteq> oa_id ?new)"
    then have "s' = s0" "c = \<lparr>ca_id = oa_id ?new, ca_startedAt = ob_startedAt ?new, ca_state = AttemptExecute,
        ca_promptRunId = None\<rparr>"
      using assms(1) by (simp_all add: claimObservationAttemptBySource_def i)
    with n show ?thesis
      by (intro bexI [of _ ?new]) (auto simp: new_attempt_def identity_changed_def)
  next
    assume n: "ins = None \<and> s0 = s \<and> (\<exists>x \<in> set (os_attempts s). source_of x = source_of ?new)"
    let ?s1 = "between1 s"
    obtain existing where x: "find (\<lambda>a. oa_brandId a = ki_brandId input \<and> ob_sourceKey a = ki_sourceKey input)
        (os_attempts ?s1) = Some existing"
      using assms(1) n by (auto simp: claimObservationAttemptBySource_def i thrown_simps Let_def)
    let ?p = "\<lambda>a. oa_id a = oa_id existing \<and> oa_status a = oa_status existing \<and> ob_startedAt a = ob_startedAt existing"
    obtain claimed where u: "update_attempts (between2 ?s1) ?p (restarted startedAt input) = Inr (s', claimed)"
      and some: "claimed \<noteq> []"
      and c: "c = \<lparr>ca_id = oa_id (hd claimed), ca_startedAt = ob_startedAt (hd claimed),
        ca_state = AttemptExecute, ca_promptRunId = None\<rparr>"
      and free: "\<not> identity_changed input existing" "oa_status existing \<noteq> ObsSucceeded"
        "oa_status existing \<noteq> ObsCancelled" "\<not> running_lease_active dateNow existing"
      using assms(1, 2) n x
      by (auto simp: claimObservationAttemptBySource_def i thrown_simps Let_def neq_Nil_conv split: if_splits list.splits)
    define a where "a = hd claimed"
    have "a \<in> set (map (restarted startedAt input) (filter ?p (os_attempts (between2 ?s1))))"
      unfolding a_def update_attempts_InrD(2) [OF u, symmetric] by (rule hd_in_set [OF some])
    then obtain old where old: "old \<in> set (os_attempts (between2 ?s1))" "?p old" "a = restarted startedAt input old"
      by auto
    have e1: "attempts_evolve s ?s1" "one_run_each ?s1" using observation_steps_evolve [OF assms(5, 3, 4)] by simp_all
    have e2: "attempts_evolve ?s1 (between2 ?s1)"
      using observation_steps_evolve [OF assms(6)] e1 by (simp add: attempts_evolve_def)
    obtain y where y: "y \<in> set (os_attempts (between2 ?s1))" "attempt_identity y = attempt_identity existing"
      using e2 find_SomeD [OF x] by (auto simp: attempts_evolve_def attempt_evolves_def)
    have "y = old"
      using e2 attempt_keysD(3) [OF _ y(1) old(1)] y(2) old(2) by (simp add: attempts_evolve_def attempt_identity_def)
    then have same: "attempt_identity old = attempt_identity existing" using y(2) by simp
    have "a \<in> set (os_attempts s')"
      using attempt_table.image [OF u old(1)] old(2, 3) by simp
    moreover have "oa_brandId a = ki_brandId input \<and> ob_sourceKey a = ki_sourceKey input \<and> \<not> identity_changed input a"
      using same find_SomeD [OF x] free(1)
      by (simp add: old(3) restarted_def attempt_identity_def source_of_def identity_changed_def)
    moreover have "oa_status old = ObsRunning \<longrightarrow> dateNow - ob_startedAt old \<ge> 840000"
      using free(4) old(2) by (auto simp: running_lease_active_def RUNNING_ATTEMPT_LEASE_MS_def)
    ultimately show ?thesis
      using old free(2, 3)
      by (intro bexI [of _ a] conjI disjI2 bexI [of _ old]) (simp_all add: c a_def [symmetric] restarted_def)
  qed
qed

end
