(* ===== verification/ObservationExample.thy ===== *)
theory ObservationExample
  imports ObservationResults
begin

text \<open>
  One task from its first upload to its stored observation, on the example database: the witnesses
  of the properties of the evidence and of the observations.
\<close>

subsection \<open>Evidence\<close>

definition example_digest :: "8 word list \<Rightarrow> string" where
  "example_digest content = replicate 64 CHR ''d''"

definition example_url :: "string \<Rightarrow> (string \<times> string) option" where
  "example_url u = Some (''https:'', u)"

definition example_uuid :: string where
  "example_uuid = ''00000000-0000-4000-8000-000000000000''"

definition example_png :: "8 word list" where
  "example_png = [0x89, 0x50, 0x4E, 0x47, 0x0D, 0x0A, 0x1A, 0x0A, 0]"

definition no_evidence :: evidence_store where
  "no_evidence = \<lparr>es_db = example_observed, es_artifacts = []\<rparr>"

definition upload :: "evidence_store \<Rightarrow> evidence_error + evidence_store \<times> artifact_view" where
  "upload s = stageEvidenceArtifact example_sha (\<lambda>_. None) example_digest example_start example_start example_start
     example_start example_uuid ''b'' example_claim ''browser-runner:r'' (Some ''C:/shots/a.png'') None example_png s"

definition example_artifact :: artifact_row where
  "example_artifact =
     \<lparr>ar_id = example_uuid, ar_taskId = ''c'', ar_batchId = ''B'', ar_brandId = ''b'', ar_scopeId = ''s'',
      ar_leaseGeneration = 1, ar_uploadedBy = ''browser-runner:r'', ar_kind = Screenshot,
      ar_mediaType = ''image/png'', ar_originalFilename = Some ''a.png'', ar_byteSize = 9,
      ar_sha256 = replicate 64 CHR ''d'', ar_storageBackend = ''postgres'',
      ar_storageKey = ''evidence/'' @ example_uuid, ar_status = ArtifactStaged, ar_observationAttemptId = None,
      ar_createdAt = example_start, ar_attachedAt = None, ar_content = example_png\<rparr>"

definition one_upload :: evidence_store where
  "one_upload = no_evidence\<lparr>es_artifacts := [example_artifact]\<rparr>"

definition example_attached :: artifact_row where
  "example_attached = example_artifact\<lparr>ar_status := ArtifactAttached, ar_observationAttemptId := Some ''A'',
     ar_attachedAt := Some example_start\<rparr>"

lemma upload_result: "upload no_evidence = Inr (one_upload, redactEvidenceArtifact example_artifact)"
  by code_simp

lemma no_evidence_consistent: "db_ok (es_db no_evidence)"
  by code_simp

lemma upload_step:
  "evidence_steps example_sha (\<lambda>_. None) code_unit_compare example_digest example_url no_evidence one_upload"
  by (rule r_into_rtranclp, rule evidence_step.stage, rule upload_result [unfolded upload_def])

theorem evidence_within_quota_witness:
  "length (filter (\<lambda>r. ar_taskId r = ''c'') (es_artifacts one_upload)) \<le> 20 \<and>
     example_artifact \<in> set (es_artifacts one_upload) \<and> ar_byteSize example_artifact \<le> 8388608"
proof -
  have "example_artifact \<in> set (es_artifacts one_upload)" "es_artifacts no_evidence = []"
    by (simp_all add: one_upload_def no_evidence_def)
  with evidence_within_quota [OF no_evidence_consistent this(2) upload_step] show ?thesis by blast
qed

lemma attached_step:
  "evidence_step example_sha (\<lambda>_. None) code_unit_compare example_digest example_url one_upload
     (one_upload\<lparr>es_artifacts := [example_attached]\<rparr>)"
proof (rule evidence_step.attach)
  show "attachEvidenceArtifactsInTransaction example_sha (\<lambda>_. None) example_url example_start example_start
      example_start example_start ''b'' example_claim [example_uuid] ''A'' (\<lambda>i. ''https://y/'' @ i) one_upload =
    Inr (one_upload\<lparr>es_artifacts := [example_attached]\<rparr>, ([redactEvidenceArtifact example_attached],
      [\<lparr>rf_artifactId = example_uuid, rf_type = Screenshot, rf_uri = ''https://y/'' @ example_uuid,
        rf_sha256 = replicate 64 CHR ''d'', rf_mediaType = ''image/png'', rf_byteSize = 9\<rparr>]))"
    by code_simp
qed


subsection \<open>Observations\<close>

definition example_source :: claim_observation_input where
  "example_source =
     \<lparr>ki_sourceKey = ''delivery-task:c'', ki_sourceJobId = None, ki_promptId = ''c'', ki_promptText = ''which'',
      ki_brandId = ''b'', ki_scope = mc_scope example_context,
      ki_target = route ''kimi.consumer_web'' ''browser_extension.kimi'' ConsumerWeb BrowserRunnerCapture anywhere,
      ki_config = \<lparr>mo_model = ''kimi'', mo_provider = ''browser_runner'', mo_version = None, mo_webSearch = True\<rparr>,
      ki_webSearchObserved = Some True, ki_sampleIndex = 1, ki_captureMetadata = [], ki_sampleFingerprint = None\<rparr>"

definition example_running :: attempt_row where
  "example_running = new_attempt ''A'' example_start example_source"

definition observation_world :: observation_store where
  "observation_world = set_attempts [example_running]
     \<lparr>os_evidence = one_upload\<lparr>es_db := example_two\<lparr>d_brands := [mc_brand example_context],
        d_prompts := [\<lparr>pm_id = ''c'', pm_brandId = ''b'', pm_scopeId = ''s'', pm_value = ''which'', pm_enabled = True\<rparr>]\<rparr>\<rparr>,
      os_attempts = [], os_runs = [], os_citations = [], os_snapshots = []\<rparr>"

definition example_persist :: persist_input where
  "example_persist =
     \<lparr>ps_attemptId = ''A'', ps_startedAt = example_start, ps_observedAt = Some example_start, ps_promptId = ''c'',
      ps_brandId = ''b'', ps_scopeId = ''s'', ps_target = ki_target example_source,
      ps_config = ki_config example_source, ps_webSearchObserved = Some True, ps_recordedVersion = ''v'',
      ps_answerText = ''this one'', ps_rawOutput = JObj [], ps_webQueries = [], ps_brandMentioned = True,
      ps_competitorsMentioned = [],
      ps_extractedCitations = [\<lparr>xc_url = ''https://x'', xc_title = None, xc_domain = ''x'', xc_citationIndex = 0\<rparr>],
      ps_deliveryClaim = Some example_claim, ps_evidence = Some ([example_uuid], \<lambda>i. ''https://y/'' @ i),
      ps_reserveResponseSnapshot = True\<rparr>"

definition persist_clock :: persist_world where
  "persist_clock =
     \<lparr>pw_completedAt = example_start, pw_resolveChecked = example_start, pw_resolveVerified = example_start,
      pw_attachChecked = example_start, pw_attachVerified = example_start, pw_attachedAt = example_start,
      pw_triggerClock = example_start, pw_now = example_start, pw_runId = ''R'', pw_citationId = (\<lambda>n. ''C''),
      pw_snapshotId = ''S''\<rparr>"

definition example_stored :: "observation_error + observation_store \<times> persisted" where
  "example_stored = persistSuccessfulObservation example_sha (\<lambda>_. None) example_url persist_clock example_persist
     observation_world"

lemma stored_result: "case example_stored of Inl _ \<Rightarrow> False
  | Inr (s, r) \<Rightarrow> attempt_keys_unique (os_attempts s) \<and> list_all (\<lambda>a. oa_status a = ObsSucceeded) (os_attempts s) \<and>
      map oa_id (os_attempts s) = [''A''] \<and> map source_of (os_attempts s) = [(''b'', ''delivery-task:c'')] \<and>
      length (os_runs s) = 1"
  by code_simp


theorem succeeded_attempt_final_witness:
  "\<exists>s r. example_stored = Inr (s, r) \<and>
     (\<forall>out. persistSuccessfulObservation example_sha (\<lambda>_. None) example_url persist_clock example_persist s \<noteq> Inr out)"
proof -
  obtain s r where d: "example_stored = Inr (s, r)" using stored_result by (auto split: sum.splits)
  have k: "attempt_keys_unique (os_attempts s)" "list_all (\<lambda>a. oa_status a = ObsSucceeded) (os_attempts s)"
    "map oa_id (os_attempts s) = [''A'']" "length (os_runs s) = 1"
    using stored_result unfolding d by simp_all
  have once: "one_run_each s"
    unfolding one_run_each_def using k(4) length_filter_le [of _ "os_runs s"] by simp
  obtain a where a: "a \<in> set (os_attempts s)" "oa_id a = ''A''" "oa_status a = ObsSucceeded"
    using k(2, 3) by (auto simp: list_all_iff map_eq_Cons_conv)
  have "ps_attemptId example_persist = oa_id a" by (simp add: example_persist_def a(2))
  then have "\<forall>out. persistSuccessfulObservation example_sha (\<lambda>_. None) example_url persist_clock example_persist s \<noteq> Inr out"
    using succeeded_attempt_final [OF k(1) once rtranclp.rtrancl_refl a(1, 3)] by blast
  with d show ?thesis by blast
qed

theorem claim_executes_alone_witness:
  "\<exists>s c. claimObservationAttemptBySource ''Z'' (example_start + 840000) (example_start + 840000) (\<lambda>s. s) (\<lambda>s. s)
       example_source observation_world = Inr (s, c) \<and> ca_id c = ''A'' \<and>
     (\<exists>a \<in> set (os_attempts s). oa_id a = ''A'' \<and> ob_startedAt a = example_start + 840000)"
proof -
  let ?claim = "claimObservationAttemptBySource ''Z'' (example_start + 840000) (example_start + 840000) (\<lambda>s. s) (\<lambda>s. s)
       example_source observation_world"
  have "case ?claim of Inl _ \<Rightarrow> False | Inr (s, c) \<Rightarrow> ca_state c = AttemptExecute \<and> ca_id c = ''A''" by code_simp
  then obtain s c where d: "?claim = Inr (s, c)" "ca_state c = AttemptExecute" "ca_id c = ''A''"
    by (auto split: sum.splits)
  have k: "attempt_keys_unique (os_attempts observation_world)" by code_simp
  have "one_run_each observation_world" by (simp add: one_run_each_def observation_world_def)
  from claim_executes_alone [OF d(1, 2) k this rtranclp.rtrancl_refl rtranclp.rtrancl_refl]
  have "\<exists>a \<in> set (os_attempts s). oa_id a = ''A'' \<and> ob_startedAt a = example_start + 840000"
    unfolding d(3) by blast
  with d show ?thesis by blast
qed

end
